(* ===== verification/Prelude.thy ===== *)
theory Prelude
  imports Complex_Main "HOL-Library.Sublist"
begin

text \<open>
  Shared material of the development: the theorem collections the component theories fill, Go
  strings as byte lists with the functions of the package \<^verbatim>\<open>strings\<close> the gateway calls, decimal
  rendering, and generic lemmas on options, sums and keyed lists.

  A Go string is a byte sequence and \<^verbatim>\<open>len\<close> counts bytes. A HOL \<^typ>\<open>char\<close> is one byte, so the type
  \<^typ>\<open>string\<close> is used as it is, and \<^const>\<open>length\<close> is \<^verbatim>\<open>len\<close>.
\<close>

named_theorems code_consts \<open>the literal values of the constants of the source\<close>
named_theorems frame \<open>which tables an operation leaves alone\<close>
named_theorems repo \<open>characteristic equations of the repository operations\<close>

section \<open>Results\<close>

text \<open>
  A Go function returning \<^verbatim>\<open>(T, error)\<close> is a function into a sum type: \<^term>\<open>Inl\<close> carries the
  error, \<^term>\<open>Inr\<close> the value.
\<close>

definition is_ok :: "'e + 'a \<Rightarrow> bool" where
  "is_ok r = (case r of Inl _ \<Rightarrow> False | Inr _ \<Rightarrow> True)"

lemma is_ok_simps [simp]: "is_ok (Inr x)" "\<not> is_ok (Inl e)"
  by (simp_all add: is_ok_def)

text \<open>\<^verbatim>\<open>if v := check(); v != nil { return v }\<close>: the first violation of a sequence of checks.\<close>

definition orelse :: "'a option \<Rightarrow> 'a option \<Rightarrow> 'a option" where
  "orelse a b = (case a of None \<Rightarrow> b | Some x \<Rightarrow> Some x)"

lemma orelse_simps [simp]: "orelse None b = b" "orelse (Some x) b = Some x"
  by (simp_all add: orelse_def)

lemma orelse_None_iff [simp]: "orelse a b = None \<longleftrightarrow> a = None \<and> b = None"
  by (cases a) simp_all

lemma orelse_Some_iff: "orelse a b = Some x \<longleftrightarrow> a = Some x \<or> (a = None \<and> b = Some x)"
  by (cases a) auto

fun first_some :: "('a \<Rightarrow> 'b option) \<Rightarrow> 'a list \<Rightarrow> 'b option" where
  "first_some f [] = None"
| "first_some f (x # xs) = orelse (f x) (first_some f xs)"

lemma first_some_None_iff: "first_some f xs = None \<longleftrightarrow> (\<forall>x \<in> set xs. f x = None)"
  by (induction xs) auto

section \<open>Trimming white space\<close>

text \<open>
  \<^verbatim>\<open>strings.TrimSpace\<close> removes leading and trailing Unicode white space. In UTF-8 that is six ASCII
  bytes and the multi-byte sequences listed in \<open>wide_spaces\<close>; a sequence at the end of a string is
  the same bytes read backwards from the end.
\<close>

definition ascii_space :: "char \<Rightarrow> bool" where
  "ascii_space c = (c \<in> {CHR 0x09, CHR 0x0A, CHR 0x0B, CHR 0x0C, CHR 0x0D, CHR 0x20})"

definition wide_spaces :: "string list" where
  "wide_spaces =
    [[CHR 0xC2, CHR 0x85], [CHR 0xC2, CHR 0xA0], [CHR 0xE1, CHR 0x9A, CHR 0x80]]
    @ map (\<lambda>c. [CHR 0xE2, CHR 0x80, c])
        [CHR 0x80, CHR 0x81, CHR 0x82, CHR 0x83, CHR 0x84, CHR 0x85, CHR 0x86, CHR 0x87,
         CHR 0x88, CHR 0x89, CHR 0x8A, CHR 0xA8, CHR 0xA9, CHR 0xAF]
    @ [[CHR 0xE2, CHR 0x81, CHR 0x9F], [CHR 0xE3, CHR 0x80, CHR 0x80]]"

function trim_front :: "string list \<Rightarrow> string \<Rightarrow> string" where
  "trim_front ws [] = []"
| "trim_front ws (c # s) =
    (if ascii_space c then trim_front ws s
     else case find (\<lambda>w. prefix w (c # s)) ws of
            None \<Rightarrow> c # s
          | Some w \<Rightarrow> if w = [] then c # s else trim_front ws (drop (length w) (c # s)))"
  by pat_completeness auto
termination
  by (relation "measure (\<lambda>(ws, s). length s)") auto

declare trim_front.simps(2) [simp del]

definition TrimSpace :: "string \<Rightarrow> string" where
  "TrimSpace s = rev (trim_front (map rev wide_spaces) (rev (trim_front wide_spaces s)))"

text \<open>A string none of whose bytes can begin or end white space is left alone.\<close>

definition plain_byte :: "char \<Rightarrow> bool" where
  "plain_byte c = (\<not> ascii_space c \<and> of_char c < (128 :: nat))"

lemma wide_space_nonascii:
  "\<forall>w \<in> set wide_spaces. w \<noteq> [] \<and> (\<forall>c \<in> set w. (128 :: nat) \<le> of_char c)"
  by (simp add: wide_spaces_def)

lemma trim_front_plain:
  assumes "\<forall>w \<in> set ws. w \<noteq> [] \<and> (\<forall>c \<in> set w. (128 :: nat) \<le> of_char c)" and "plain_byte c"
  shows "trim_front ws (c # s) = c # s"
proof -
  have "\<not> prefix w (c # s)" if "w \<in> set ws" for w
    using assms that by (cases w) (fastforce simp: plain_byte_def)+
  then have "find (\<lambda>w. prefix w (c # s)) ws = None"
    by (auto simp: find_None_iff)
  with assms(2) show ?thesis
    by (simp add: trim_front.simps(2) plain_byte_def)
qed

lemma TrimSpace_Nil [simp]: "TrimSpace [] = []"
  by (simp add: TrimSpace_def)

lemma TrimSpace_plain:
  assumes "s = [] \<or> plain_byte (hd s) \<and> plain_byte (last s)"
  shows "TrimSpace s = s"
proof (cases "s = []")
  case False
  then obtain c t where s: "s = c # t" by (cases s) auto
  note w = wide_space_nonascii
  from w have w': "\<forall>w \<in> set (map rev wide_spaces). w \<noteq> [] \<and> (\<forall>c \<in> set w. (128 :: nat) \<le> of_char c)"
    by auto
  from False assms have "plain_byte c" by (simp add: s)
  then have front: "trim_front wide_spaces s = s"
    by (simp add: s trim_front_plain [OF w])
  obtain d u where r: "rev s = d # u" using False by (cases "rev s") auto
  then have "d = last s" using False by (metis hd_rev list.sel(1))
  with False assms have "plain_byte d" by simp
  then have "trim_front (map rev wide_spaces) (rev s) = rev s"
    by (simp add: r trim_front_plain [OF w'])
  with front show ?thesis by (simp add: TrimSpace_def)
qed simp

section \<open>Case folding\<close>

text \<open>
  \<^verbatim>\<open>strings.ToUpper\<close> and \<^verbatim>\<open>strings.EqualFold\<close> work on runes. The gateway compares their results
  with ASCII constants and with values that already passed such a comparison, so what matters is
  which runes are mapped to ASCII letters: besides the ASCII letters these are U+0131 and U+017F
  for \<^verbatim>\<open>ToUpper\<close>, and U+017F and U+212A in the folding orbits. Other runes are kept, as no case
  mapping leads from them into ASCII.
\<close>

definition upper_byte :: "char \<Rightarrow> char" where
  "upper_byte c = (let n = (of_char c :: nat) in if 97 \<le> n \<and> n \<le> 122 then char_of (n - 32) else c)"

fun ToUpper :: "string \<Rightarrow> string" where
  "ToUpper [] = []"
| "ToUpper [c] = [upper_byte c]"
| "ToUpper (c # d # s) =
    (if c = CHR 0xC4 \<and> d = CHR 0xB1 then CHR ''I'' # ToUpper s
     else if c = CHR 0xC5 \<and> d = CHR 0xBF then CHR ''S'' # ToUpper s
     else upper_byte c # ToUpper (d # s))"

fun fold_case :: "string \<Rightarrow> string" where
  "fold_case [] = []"
| "fold_case [c] = [upper_byte c]"
| "fold_case [c, d] =
    (if c = CHR 0xC5 \<and> d = CHR 0xBF then [CHR ''S''] else [upper_byte c, upper_byte d])"
| "fold_case (c # d # e # s) =
    (if c = CHR 0xC5 \<and> d = CHR 0xBF then CHR ''S'' # fold_case (e # s)
     else if c = CHR 0xE2 \<and> d = CHR 0x84 \<and> e = CHR 0xAA then CHR ''K'' # fold_case s
     else upper_byte c # fold_case (d # e # s))"

definition EqualFold :: "string \<Rightarrow> string \<Rightarrow> bool" where
  "EqualFold a b = (fold_case a = fold_case b)"

lemma EqualFold_refl [simp]: "EqualFold s s"
  by (simp add: EqualFold_def)

lemma EqualFold_sym: "EqualFold a b \<longleftrightarrow> EqualFold b a"
  by (auto simp: EqualFold_def)

abbreviation HasPrefix :: "string \<Rightarrow> string \<Rightarrow> bool" where
  "HasPrefix s p \<equiv> prefix p s"

abbreviation HasSuffix :: "string \<Rightarrow> string \<Rightarrow> bool" where
  "HasSuffix s p \<equiv> suffix p s"

abbreviation Contains :: "string \<Rightarrow> string \<Rightarrow> bool" where
  "Contains s p \<equiv> sublist p s"

section \<open>Digits and decimal numerals\<close>

definition is_digit :: "char \<Rightarrow> bool" where
  "is_digit c = (let n = (of_char c :: nat) in 48 \<le> n \<and> n \<le> 57)"

definition digit_val :: "char \<Rightarrow> nat" where
  "digit_val c = of_char c - 48"

definition digit_char :: "nat \<Rightarrow> char" where
  "digit_char d = char_of (48 + d)"

fun num_acc :: "nat \<Rightarrow> string \<Rightarrow> nat" where
  "num_acc acc [] = acc"
| "num_acc acc (c # s) = num_acc (10 * acc + digit_val c) s"

abbreviation num_of :: "string \<Rightarrow> nat" where
  "num_of s \<equiv> num_acc 0 s"

text \<open>\<^verbatim>\<open>fmt.Sprintf("%d", n)\<close> for a non-negative number, and the zero padding of \<^verbatim>\<open>%0wd\<close>.\<close>

fun dec :: "nat \<Rightarrow> string" where
  "dec n = (if n < 10 then [digit_char n] else dec (n div 10) @ [digit_char (n mod 10)])"

declare dec.simps [simp del]

definition pad0 :: "nat \<Rightarrow> string \<Rightarrow> string" where
  "pad0 w s = replicate (w - length s) (CHR ''0'') @ s"

lemma digit_char_props:
  assumes "d < 10"
  shows "is_digit (digit_char d)" and "digit_val (digit_char d) = d"
  using assms by (simp_all add: is_digit_def digit_val_def digit_char_def)

lemma num_acc_append: "num_acc acc (s @ t) = num_acc (num_acc acc s) t"
  by (induction s arbitrary: acc) auto

lemma num_of_dec: "num_of (dec n) = n"
proof (induction n rule: dec.induct)
  case (1 n)
  show ?case
  proof (cases "n < 10")
    case True
    then show ?thesis by (simp add: dec.simps [of n] digit_char_props)
  next
    case False
    with "1.IH" have "num_of (dec (n div 10)) = n div 10" by simp
    with False show ?thesis
      by (simp add: dec.simps [of n] num_acc_append digit_char_props)
  qed
qed

lemma dec_nonempty [simp]: "dec n \<noteq> []"
  by (subst dec.simps) simp

lemma dec_digits: "c \<in> set (dec n) \<Longrightarrow> is_digit c"
proof (induction n rule: dec.induct)
  case (1 n)
  then show ?case
    by (cases "n < 10") (auto simp: dec.simps [of n] digit_char_props)
qed

lemma dec_inject [simp]: "dec m = dec n \<longleftrightarrow> m = n"
  by (metis num_of_dec)

lemma length_dec_le: "0 < k \<Longrightarrow> n < 10 ^ k \<Longrightarrow> length (dec n) \<le> k"
proof (induction k arbitrary: n)
  case (Suc k)
  show ?case
  proof (cases "n < 10")
    case True
    then show ?thesis by (simp add: dec.simps [of n])
  next
    case False
    with Suc.prems have "n div 10 < 10 ^ k" and "0 < k"
      by (auto simp: less_mult_imp_div_less mult.commute) (cases k; simp)
    with Suc.IH False show ?thesis by (simp add: dec.simps [of n])
  qed
qed simp

lemma length_pad0: "length (pad0 w s) = max w (length s)"
  by (simp add: pad0_def)

lemma num_of_pad0: "num_of (pad0 w s) = num_of s"
proof -
  have "num_acc 0 (replicate k (CHR ''0'')) = 0" for k
    by (induction k) (simp_all add: digit_val_def)
  then show ?thesis by (simp add: pad0_def num_acc_append)
qed

lemma pad0_dec_inject: "pad0 w (dec m) = pad0 w (dec n) \<longleftrightarrow> m = n"
  by (metis num_of_dec num_of_pad0)

section \<open>Tables as keyed lists\<close>

text \<open>
  A database table is the list of its rows in insertion order. \<open>SELECT ... WHERE p LIMIT 1\<close> is
  \<^const>\<open>find\<close>, \<open>UPDATE ... SET f WHERE p\<close> rewrites the matching rows in place.
\<close>

definition update_where :: "('r \<Rightarrow> bool) \<Rightarrow> ('r \<Rightarrow> 'r) \<Rightarrow> 'r list \<Rightarrow> 'r list" where
  "update_where p f rows = map (\<lambda>r. if p r then f r else r) rows"

definition count_where :: "('r \<Rightarrow> bool) \<Rightarrow> 'r list \<Rightarrow> nat" where
  "count_where p rows = length (filter p rows)"

lemma count_where_simps [simp]:
  "count_where p [] = 0"
  "count_where p (r # rs) = (if p r then Suc (count_where p rs) else count_where p rs)"
  by (simp_all add: count_where_def)

lemma count_where_append [simp]: "count_where p (rs @ ss) = count_where p rs + count_where p ss"
  by (simp add: count_where_def)

lemma count_where_0_iff: "count_where p rows = 0 \<longleftrightarrow> (\<forall>r \<in> set rows. \<not> p r)"
  by (auto simp: count_where_def filter_empty_conv)

lemma update_where_simps [simp]:
  "update_where p f [] = []"
  "update_where p f (r # rs) = (if p r then f r else r) # update_where p f rs"
  by (simp_all add: update_where_def)

lemma length_update_where [simp]: "length (update_where p f rows) = length rows"
  by (simp add: update_where_def)

lemma set_update_where:
  "set (update_where p f rows) = f ` {r \<in> set rows. p r} \<union> {r \<in> set rows. \<not> p r}"
  by (auto simp: update_where_def)

lemma map_update_where:
  assumes "\<And>r. p r \<Longrightarrow> g (f r) = g r"
  shows "map g (update_where p f rows) = map g rows"
  using assms by (induction rows) auto

lemma update_where_none: "\<forall>r \<in> set rows. \<not> p r \<Longrightarrow> update_where p f rows = rows"
  by (induction rows) auto

text \<open>The guard of an update no longer matches once the update has run.\<close>

lemma count_where_update_where:
  assumes "\<And>r. p r \<Longrightarrow> \<not> p (f r)"
  shows "count_where p (update_where p f rows) = 0"
  using assms by (induction rows) auto

lemma find_Some_mem: "find p rows = Some r \<Longrightarrow> r \<in> set rows \<and> p r"
  by (induction rows) (auto split: if_splits)

lemma find_unique:
  assumes "distinct (map k rows)" and "r \<in> set rows" and "k r = a"
  shows "find (\<lambda>r. k r = a) rows = Some r"
  using assms by (induction rows) auto

lemma find_append: "find p (xs @ ys) = (case find p xs of None \<Rightarrow> find p ys | Some x \<Rightarrow> Some x)"
  by (induction xs) auto

end
