(* ===== verification/Money.thy ===== *)
theory Money
  imports Prelude "HOL-Library.Log_Nat"
begin

text \<open>
  Money amounts travel as decimal strings and are compared after \<^verbatim>\<open>strconv.ParseFloat(s, 64)\<close>. This
  theory models IEEE binary64 values with rounding to nearest, ties to even, and the decimal syntax
  \<^verbatim>\<open>ParseFloat\<close> reads; it defines the two amount patterns of \<^verbatim>\<open>internal/domain/va_validation.go\<close>
  and the exact value of an amount in cents, and proves that on amounts of at most 13 integer digits
  the float comparisons of the gateway agree with exact decimal arithmetic.

  The hexadecimal and digit-separator forms of \<^verbatim>\<open>ParseFloat\<close> are not read by the model (they are
  syntax errors here): no string that passes the amount patterns has them.
\<close>

section \<open>Binary64\<close>

definition rne :: "rat \<Rightarrow> int" where
  "rne x = (let f = \<lfloor>x\<rfloor>; d = x - of_int f in
     if d < 1/2 then f else if 1/2 < d then f + 1 else if even f then f else f + 1)"

text \<open>The binary exponent: \<open>2 powi elog x \<le> x < 2 powi (elog x + 1)\<close> for positive \<open>x\<close>.\<close>

definition elog :: "rat \<Rightarrow> int" where
  "elog x = (let (p, q) = quotient_of x; k = bitlen p - bitlen q in
     if 2 powi k \<le> x then k else k - 1)"

definition fl :: "rat \<Rightarrow> rat" where
  "fl x = (if x = 0 then 0
     else let e = max (elog \<bar>x\<bar> - 52) (-1074)
          in sgn x * of_int (rne (\<bar>x\<bar> / 2 powi e)) * 2 powi e)"

datatype f64 = NaN | Inf bool | Fin rat

definition to_f64 :: "rat \<Rightarrow> f64" where
  "to_f64 x = (let y = fl x in if 2 ^ 1024 \<le> \<bar>y\<bar> then Inf (y < 0) else Fin y)"

fun f64_add :: "f64 \<Rightarrow> f64 \<Rightarrow> f64" where
  "f64_add (Fin a) (Fin b) = to_f64 (a + b)"
| "f64_add NaN _ = NaN"
| "f64_add _ NaN = NaN"
| "f64_add (Inf s) (Inf t) = (if s = t then Inf s else NaN)"
| "f64_add (Inf s) (Fin _) = Inf s"
| "f64_add (Fin _) (Inf t) = Inf t"

fun f64_neg :: "f64 \<Rightarrow> f64" where
  "f64_neg NaN = NaN"
| "f64_neg (Inf s) = Inf (\<not> s)"
| "f64_neg (Fin a) = Fin (- a)"

definition f64_sub :: "f64 \<Rightarrow> f64 \<Rightarrow> f64" where
  "f64_sub a b = f64_add a (f64_neg b)"

fun f64_abs :: "f64 \<Rightarrow> f64" where
  "f64_abs NaN = NaN"
| "f64_abs (Inf _) = Inf False"
| "f64_abs (Fin a) = Fin \<bar>a\<bar>"

fun f64_less :: "f64 \<Rightarrow> f64 \<Rightarrow> bool" where
  "f64_less (Fin a) (Fin b) = (a < b)"
| "f64_less (Inf s) (Fin _) = s"
| "f64_less (Fin _) (Inf t) = (\<not> t)"
| "f64_less (Inf s) (Inf t) = (s \<and> \<not> t)"
| "f64_less _ _ = False"

fun f64_le :: "f64 \<Rightarrow> f64 \<Rightarrow> bool" where
  "f64_le NaN _ = False"
| "f64_le _ NaN = False"
| "f64_le a b = (\<not> f64_less b a)"

section \<open>Rounding error\<close>

lemma rne_err: "\<bar>of_int (rne x) - x\<bar> \<le> 1/2"
proof -
  have "of_int \<lfloor>x\<rfloor> \<le> x" "x < of_int \<lfloor>x\<rfloor> + 1" by linarith+
  then show ?thesis by (auto simp: rne_def Let_def abs_le_iff)
qed

lemma elog_bounds:
  assumes "0 < x"
  shows "2 powi elog x \<le> x" and "x < 2 powi (elog x + 1)"
proof -
  obtain p q where pq: "quotient_of x = (p, q)" by (cases "quotient_of x")
  have x: "x = of_int p / of_int q" by (rule quotient_of_div [OF pq])
  have q: "0 < q" by (rule quotient_of_denom_pos [OF pq])
  with assms x have p: "0 < p" by (simp add: zero_less_divide_iff)
  let ?a = "bitlen p" and ?b = "bitlen q"
  have bnd: "0 < bitlen n \<and> (2::rat) powi (bitlen n - 1) \<le> of_int n \<and> (of_int n :: rat) < 2 powi bitlen n"
    if "0 < n" for n :: int
  proof -
    have "bitlen n \<noteq> 0" using that by (simp add: bitlen_eq_zero_iff)
    with bitlen_nonneg [of n] have pos: "0 < bitlen n" by linarith
    from bitlen_bounds [OF that]
    have "(2::int) ^ nat (bitlen n - 1) \<le> n" "n < 2 ^ nat (bitlen n)" by auto
    then have "(of_int (2 ^ nat (bitlen n - 1)) :: rat) \<le> of_int n" "(of_int n :: rat) < of_int (2 ^ nat (bitlen n))"
      by (simp_all only: of_int_le_iff of_int_less_iff)
    with pos show ?thesis by (simp add: power_int_def)
  qed
  from bnd [OF p] bnd [OF q]
  have P: "(2::rat) powi (?a - 1) \<le> of_int p" "(of_int p :: rat) < 2 powi ?a"
    and Q: "(2::rat) powi (?b - 1) \<le> of_int q" "(of_int q :: rat) < 2 powi ?b" by auto
  have two: "(2::rat) powi (m + n) = 2 powi m * 2 powi n" for m n
    by (simp add: power_int_add)
  have qpos: "(0::rat) < of_int q" using q by simp
  have lower: "(2::rat) powi (?a - ?b - 1) \<le> x"
  proof -
    have "(2::rat) powi (?a - ?b - 1) * of_int q \<le> 2 powi (?a - ?b - 1) * 2 powi ?b"
      by (rule mult_left_mono) (use Q(2) in auto)
    also have "\<dots> = 2 powi (?a - 1)" by (simp flip: two)
    also have "\<dots> \<le> of_int p" by (rule P(1))
    finally show ?thesis by (simp add: x pos_le_divide_eq [OF qpos])
  qed
  have upper: "x < (2::rat) powi (?a - ?b + 1)"
  proof -
    have "of_int p < (2::rat) powi ?a" by (rule P(2))
    also have "\<dots> = 2 powi (?a - ?b + 1) * 2 powi (?b - 1)" by (simp flip: two)
    also have "\<dots> \<le> 2 powi (?a - ?b + 1) * of_int q"
      by (rule mult_left_mono [OF Q(1)]) simp
    finally show ?thesis by (simp add: x pos_divide_less_eq [OF qpos])
  qed
  show "2 powi elog x \<le> x" and "x < 2 powi (elog x + 1)"
    using lower upper by (auto simp: elog_def pq Let_def)
qed

text \<open>The absolute rounding error below \<open>2 powi n\<close> is at most half a unit in the last place.\<close>

lemma fl_err:
  assumes "\<bar>x\<bar> < 2 powi n" and "-1021 \<le> n"
  shows "\<bar>fl x - x\<bar> \<le> 2 powi (n - 54)"
proof (cases "x = 0")
  case False
  then have pos: "0 < \<bar>x\<bar>" by simp
  define e where "e = max (elog \<bar>x\<bar> - 52) (-1074)"
  have "(2::rat) powi elog \<bar>x\<bar> < 2 powi n"
    using elog_bounds(1) [OF pos] assms(1) by linarith
  then have "elog \<bar>x\<bar> < n"
    by (metis (no_types, lifting) linorder_not_less one_le_numeral power_int_increasing)
  with assms(2) have "e \<le> n - 53" by (simp add: e_def)
  let ?u = "(2::rat) powi e"
  have u: "0 < ?u" by simp
  have fl: "fl x = sgn x * of_int (rne (\<bar>x\<bar> / ?u)) * ?u"
    using False by (simp add: fl_def e_def Let_def)
  have "fl x - x = sgn x * (of_int (rne (\<bar>x\<bar> / ?u)) - \<bar>x\<bar> / ?u) * ?u"
    by (simp add: fl algebra_simps sgn_mult_abs abs_mult_sgn mult.commute flip: abs_sgn)
  then have "\<bar>fl x - x\<bar> = \<bar>of_int (rne (\<bar>x\<bar> / ?u)) - \<bar>x\<bar> / ?u\<bar> * ?u"
    using False by (simp add: abs_mult abs_sgn_eq)
  also have "\<dots> \<le> 1/2 * ?u"
    by (rule mult_right_mono [OF rne_err]) (use u in simp)
  also have "\<dots> = 2 powi (e - 1)" by (simp add: power_int_diff)
  also have "\<dots> \<le> 2 powi (n - 54)"
    by (rule power_int_increasing) (use \<open>e \<le> n - 53\<close> in auto)
  finally show ?thesis .
qed (simp add: fl_def)

lemma fl_0 [simp]: "fl 0 = 0"
  by (simp add: fl_def)

section \<open>Parsing\<close>

definition lower_byte :: "char \<Rightarrow> char" where
  "lower_byte c = (let n = (of_char c :: nat) in if 65 \<le> n \<and> n \<le> 90 then char_of (n + 32) else c)"

definition split_sign :: "string \<Rightarrow> bool \<times> string" where
  "split_sign s = (case s of [] \<Rightarrow> (False, [])
     | c # r \<Rightarrow> if c = CHR ''-'' then (True, r) else if c = CHR ''+'' then (False, r) else (False, s))"

text \<open>The exponent loop of \<^verbatim>\<open>readFloat\<close> stops accumulating at 10000.\<close>

fun exp_acc :: "nat \<Rightarrow> string \<Rightarrow> nat" where
  "exp_acc e [] = e"
| "exp_acc e (c # s) = exp_acc (if e < 10000 then 10 * e + digit_val c else e) s"

definition parse_exp :: "string \<Rightarrow> int option" where
  "parse_exp s = (case s of [] \<Rightarrow> Some 0
     | c # r \<Rightarrow> if c = CHR ''e'' \<or> c = CHR ''E''
        then (let (neg, ds) = split_sign r in
              if ds \<noteq> [] \<and> list_all is_digit ds
              then Some (if neg then - int (exp_acc 0 ds) else int (exp_acc 0 ds)) else None)
        else None)"

definition read_decimal :: "string \<Rightarrow> rat option" where
  "read_decimal s = (let ip = takeWhile is_digit s; r = dropWhile is_digit s;
      (fp, r') = (case r of [] \<Rightarrow> ([], [])
         | c # t \<Rightarrow> if c = CHR ''.'' then (takeWhile is_digit t, dropWhile is_digit t) else ([], r))
    in if ip = [] \<and> fp = [] then None
       else case parse_exp r' of None \<Rightarrow> None
         | Some e \<Rightarrow> Some (of_nat (num_of (ip @ fp)) * 10 powi (e - int (length fp))))"

definition ParseFloat :: "string \<Rightarrow> f64 option" where
  "ParseFloat s = (let (neg, r) = split_sign s in
     if map lower_byte s = ''nan'' then Some NaN
     else if map lower_byte r = ''inf'' \<or> map lower_byte r = ''infinity'' then Some (Inf neg)
     else case read_decimal r of None \<Rightarrow> None
       | Some x \<Rightarrow> (case to_f64 (if neg then - x else x) of Fin y \<Rightarrow> Some (Fin y) | _ \<Rightarrow> None))"

section \<open>The amount patterns\<close>

text \<open>\<^verbatim>\<open>^\\d+(\\.\\d{1,2})?$\<close> and the strict \<^verbatim>\<open>^\\d{1,13}\\.\\d{2}$\<close> of a paid amount.\<close>

definition amountPattern :: "string \<Rightarrow> bool" where
  "amountPattern s = (let ip = takeWhile is_digit s; r = dropWhile is_digit s in
     ip \<noteq> [] \<and> (r = [] \<or>
       (hd r = CHR ''.'' \<and> list_all is_digit (tl r) \<and> (length (tl r) = 1 \<or> length (tl r) = 2))))"

definition paidAmountPattern :: "string \<Rightarrow> bool" where
  "paidAmountPattern s = (let ip = takeWhile is_digit s; r = dropWhile is_digit s in
     1 \<le> length ip \<and> length ip \<le> 13 \<and>
     r \<noteq> [] \<and> hd r = CHR ''.'' \<and> list_all is_digit (tl r) \<and> length (tl r) = 2)"

text \<open>The exact value, in cents, of a string with the amount pattern.\<close>

definition amount_cents :: "string \<Rightarrow> nat" where
  "amount_cents s = (let ip = takeWhile is_digit s; fp = tl (dropWhile is_digit s) in
     num_of (ip @ fp) * 10 ^ (2 - length fp))"

text \<open>The rendering of a \<^verbatim>\<open>NUMERIC(16,2)\<close> value: the integer part and exactly two decimals.\<close>

definition cents_text :: "nat \<Rightarrow> string" where
  "cents_text n = dec (n div 100) @ CHR ''.'' # pad0 2 (dec (n mod 100))"

lemma num_acc_shift: "num_acc acc s = acc * 10 ^ length s + num_of s"
proof (induction s arbitrary: acc)
  case (Cons c s)
  show ?case
    by (simp only: num_acc.simps Cons.IH [of "10 * acc + digit_val c"] Cons.IH [of "10 * 0 + digit_val c"])
      (simp add: algebra_simps)
qed simp

lemma digits_lt: "list_all is_digit s \<Longrightarrow> num_of s < 10 ^ length s"
proof (induction s)
  case (Cons c s)
  then have "digit_val c \<le> 9" by (auto simp: is_digit_def digit_val_def Let_def)
  then have "digit_val c * 10 ^ length s \<le> 9 * 10 ^ length s" by (rule mult_right_mono) simp
  moreover have "num_of s < 10 ^ length s" using Cons by simp
  moreover have "num_of (c # s) = digit_val c * 10 ^ length s + num_of s"
    using num_acc_shift [of "10 * 0 + digit_val c" s] by simp
  ultimately show ?case unfolding length_Cons power_Suc by linarith
qed simp

lemma takeWhile_digits: "list_all is_digit (takeWhile is_digit s)"
  by (metis list_all_iff set_takeWhileD)

lemma is_digit_not_sign:
  "is_digit c \<Longrightarrow> c \<noteq> CHR ''-'' \<and> c \<noteq> CHR ''+'' \<and> lower_byte c \<noteq> CHR ''n'' \<and> lower_byte c \<noteq> CHR ''i''"
  by (auto simp: is_digit_def lower_byte_def Let_def)

lemma amountPattern_read:
  assumes "amountPattern s"
  shows "read_decimal s = Some (of_nat (amount_cents s) / 100)"
    and "split_sign s = (False, s)" and "hd (map lower_byte s) \<notin> {CHR ''n'', CHR ''i''}"
proof -
  define ip r where "ip = takeWhile is_digit s" and "r = dropWhile is_digit s"
  from assms have ip: "ip \<noteq> []"
    and r: "r = [] \<or> (hd r = CHR ''.'' \<and> list_all is_digit (tl r) \<and> (length (tl r) = 1 \<or> length (tl r) = 2))"
    by (simp_all add: amountPattern_def ip_def r_def Let_def)
  obtain c t where s: "s = c # t" using ip by (cases s) (auto simp: ip_def)
  have c: "is_digit c" using ip by (simp add: ip_def s split: if_splits)
  show "split_sign s = (False, s)" using is_digit_not_sign [OF c] by (simp add: split_sign_def s)
  show "hd (map lower_byte s) \<notin> {CHR ''n'', CHR ''i''}" using is_digit_not_sign [OF c] by (simp add: s)
  show "read_decimal s = Some (of_nat (amount_cents s) / 100)"
  proof (cases r)
    case Nil
    with ip show ?thesis
      by (simp add: read_decimal_def amount_cents_def parse_exp_def Let_def flip: ip_def r_def)
  next
    case (Cons d fp)
    with r have d: "d = CHR ''.''" and fp: "list_all is_digit fp" and len: "length fp = 1 \<or> length fp = 2"
      by auto
    from fp have tw: "takeWhile is_digit fp = fp" and dw: "dropWhile is_digit fp = []"
      by (auto simp: list_all_iff)
    from ip len show ?thesis
      by (auto simp: tw dw read_decimal_def amount_cents_def parse_exp_def Let_def d power_int_def power2_eq_square
          simp flip: ip_def r_def simp: Cons)
  qed
qed

lemma fl_bound:
  assumes "\<bar>x\<bar> < 2 ^ 60" shows "\<bar>fl x\<bar> < 2 ^ 1024"
proof -
  have "\<bar>x\<bar> < 2 powi 60" using assms by (simp add: power_int_def)
  then have "\<bar>fl x - x\<bar> \<le> 2 powi (60 - 54)" by (rule fl_err) simp
  then have "\<bar>fl x\<bar> < 2 ^ 61" using assms by (simp add: power_int_def)
  also have "(2::rat) ^ 61 \<le> 2 ^ 1024" by (rule power_increasing) simp_all
  finally show ?thesis .
qed

lemma to_f64_small: "\<bar>x\<bar> < 2 ^ 60 \<Longrightarrow> to_f64 x = Fin (fl x)"
  using fl_bound by (simp add: to_f64_def Let_def not_le)

definition money :: "nat \<Rightarrow> f64" where
  "money n = Fin (fl (of_nat n / 100))"

lemma ParseFloat_amount:
  assumes "amountPattern s" and "amount_cents s < 10 ^ 17"
  shows "ParseFloat s = Some (money (amount_cents s))"
proof -
  note r = amountPattern_read [OF assms(1)]
  have "(of_nat (amount_cents s) :: rat) < of_nat (10 ^ 17)"
    using assms(2) by (simp only: of_nat_less_iff)
  then have "\<bar>of_nat (amount_cents s) / 100 :: rat\<bar> < 2 ^ 60" by simp
  with r show ?thesis
    by (auto simp: ParseFloat_def money_def to_f64_small)
qed

section \<open>Comparing amounts below ten trillion\<close>

text \<open>
  The gateway compares binary64 values of two-decimal amounts, with \<^verbatim>\<open>amountEpsilon\<close> (0.005) as
  tolerance. For amounts of at most thirteen integer digits (the size of \<^verbatim>\<open>NUMERIC(16,2)\<close> less one
  digit, and what \<^verbatim>\<open>paidAmountPattern\<close> admits) each comparison agrees with the exact one on cents.
\<close>

definition amountEpsilon :: f64 where
  "amountEpsilon = to_f64 (5 / 1000)"

definition f64_near :: "f64 \<Rightarrow> f64 \<Rightarrow> bool" where
  "f64_near a b = f64_less (f64_abs (f64_sub a b)) amountEpsilon"

definition f64_exceeds :: "f64 \<Rightarrow> f64 \<Rightarrow> f64 \<Rightarrow> bool" where
  "f64_exceeds settled tendered bill =
    f64_less (f64_add bill amountEpsilon) (f64_add settled tendered)"

lemma fl_err_43: "\<bar>x\<bar> < 8796093022208 \<Longrightarrow> \<bar>fl x - x\<bar> \<le> 1 / 2048"
  using fl_err [of x 43] by (simp add: power_int_def power_one_over)

lemma fl_err_44: "\<bar>x\<bar> < 17592186044416 \<Longrightarrow> \<bar>fl x - x\<bar> \<le> 1 / 1024"
  using fl_err [of x 44] by (simp add: power_int_def power_one_over)

lemma fl_err_45: "\<bar>x\<bar> < 35184372088832 \<Longrightarrow> \<bar>fl x - x\<bar> \<le> 1 / 512"
  using fl_err [of x 45] by (simp add: power_int_def power_one_over)

lemma fl_eps: "\<bar>fl (5 / 1000) - 5 / 1000\<bar> \<le> 1 / 1000000"
  using fl_err [of "5 / 1000" 0] by (simp add: power_int_def power_one_over)

lemma amountEpsilon_Fin: "amountEpsilon = Fin (fl (5 / 1000))"
  by (simp add: amountEpsilon_def to_f64_small)

lemma cents_rat:
  assumes "n < 10 ^ 15"
  shows "0 \<le> (of_nat n / 100 :: rat)" and "of_nat n / 100 < (10000000000000 :: rat)"
proof -
  have "(of_nat n :: rat) < of_nat (10 ^ 15)" using assms by (simp only: of_nat_less_iff)
  then show "of_nat n / 100 < (10000000000000 :: rat)" by simp
qed simp

lemma cents_fl:
  assumes "n < 10 ^ 15"
  shows "\<bar>fl (of_nat n / 100) - of_nat n / 100\<bar> \<le> 1 / 1024"
  by (rule fl_err_44) (use cents_rat [OF assms] in linarith)

lemma cents_gap: "m < n \<Longrightarrow> (of_nat m / 100 :: rat) + 1 / 100 \<le> of_nat n / 100"
proof -
  assume "m < n"
  then have "Suc m \<le> n" by simp
  then have "(of_nat (Suc m) :: rat) \<le> of_nat n" by (simp only: of_nat_le_iff)
  then show ?thesis by simp
qed

lemma money_less:
  assumes "m < 10 ^ 15" and "n < 10 ^ 15"
  shows "f64_less (money m) (money n) \<longleftrightarrow> m < n"
proof -
  note e = cents_fl [OF assms(1)] cents_fl [OF assms(2)]
  have "fl (of_nat m / 100) < fl (of_nat n / 100)" if "m < n"
    using e cents_gap [OF that] by linarith
  moreover have "\<not> fl (of_nat m / 100) < fl (of_nat n / 100)" if "n < m"
    using e cents_gap [OF that] by linarith
  ultimately show ?thesis by (cases m n rule: linorder_cases) (auto simp: money_def)
qed

lemma money_le:
  assumes "m < 10 ^ 15" and "n < 10 ^ 15"
  shows "f64_le (money m) (money n) \<longleftrightarrow> m \<le> n"
  using money_less [OF assms(2) assms(1)] by (simp add: money_def not_less)

lemma money_positive: "n < 10 ^ 15 \<Longrightarrow> f64_le (money n) (Fin 0) \<longleftrightarrow> n = 0"
  using money_le [of n 0] by (simp add: money_def)

lemma money_near:
  assumes "m < 10 ^ 15" and "n < 10 ^ 15"
  shows "f64_near (money m) (money n) \<longleftrightarrow> m = n"
proof -
  let ?a = "fl (of_nat m / 100)" and ?b = "fl (of_nat n / 100)"
  note e = cents_fl [OF assms(1)] cents_fl [OF assms(2)] cents_rat [OF assms(1)] cents_rat [OF assms(2)]
  have small: "\<bar>?a - ?b\<bar> < 17592186044416" using e by linarith
  then have sub: "f64_sub (money m) (money n) = Fin (fl (?a - ?b))"
    by (simp add: f64_sub_def money_def to_f64_small)
  have "\<not> \<bar>fl (?a - ?b)\<bar> < fl (5 / 1000)" if "m \<noteq> n"
  proof -
    from that have "m < n \<or> n < m" by linarith
    then have "of_nat m / 100 + 1 / 100 \<le> (of_nat n / 100 :: rat) \<or> of_nat n / 100 + 1 / 100 \<le> (of_nat m / 100 :: rat)"
      using cents_gap by blast
    then have "8 / 1000 \<le> \<bar>?a - ?b\<bar>" using e by linarith
    with fl_err_44 [OF small] fl_eps show ?thesis by linarith
  qed
  moreover have "(0 :: rat) < fl (5 / 1000)" using fl_eps by linarith
  ultimately show ?thesis by (auto simp: f64_near_def sub amountEpsilon_Fin)
qed

lemma money_exceeds:
  assumes s: "s < 10 ^ 15" and t: "t < 10 ^ 15" and T: "T < 10 ^ 15"
  shows "f64_exceeds (money s) (money t) (money T) \<longleftrightarrow> T < s + t"
proof -
  let ?q = "\<lambda>n. of_nat n / 100 :: rat"
  let ?l = "fl (fl (?q s) + fl (?q t))" and ?r = "fl (fl (?q T) + fl (5 / 1000))"
  note e = cents_fl [OF s] cents_fl [OF t] cents_fl [OF T] cents_rat [OF s] cents_rat [OF t] cents_rat [OF T] fl_eps
  have lsmall: "\<bar>fl (?q s) + fl (?q t)\<bar> < 35184372088832" using e by linarith
  have rsmall: "\<bar>fl (?q T) + fl (5 / 1000)\<bar> < 17592186044416" using e by linarith
  have eq: "f64_exceeds (money s) (money t) (money T) \<longleftrightarrow> ?r < ?l"
    using lsmall rsmall by (simp add: f64_exceeds_def money_def amountEpsilon_Fin to_f64_small)
  note R = fl_err_44 [OF rsmall] and L = fl_err_45 [OF lsmall]
  have st: "?q s + ?q t = ?q (s + t)" by simp
  have fine: "\<bar>?l - ?q (s + t)\<bar> \<le> 1 / 1024 + 1 / 2048 + 1 / 1024" if le: "s + t \<le> T + 1"
  proof -
    have "?q (s + t) \<le> ?q (T + 1)" by (rule divide_right_mono [OF of_nat_mono [OF le]]) simp
    then have sum: "?q s + ?q t \<le> ?q T + 1 / 100" by (simp add: add_divide_distrib)
    then have ls: "\<bar>fl (?q s) + fl (?q t)\<bar> < 17592186044416" using e by linarith
    from sum have "?q s < 8796093022208 \<or> ?q t < 8796093022208" using e by linarith
    then have "\<bar>fl (?q s) - ?q s\<bar> \<le> 1 / 2048 \<or> \<bar>fl (?q t) - ?q t\<bar> \<le> 1 / 2048"
      using fl_err_43 [of "?q s"] fl_err_43 [of "?q t"] by auto
    then show ?thesis
      using fl_err_44 [OF ls] e unfolding st [symmetric] by (elim disjE) linarith+
  qed
  consider "s + t \<le> T" | "s + t = T + 1" | "T + 1 < s + t" by linarith
  then show ?thesis
  proof cases
    case 1
    then have "?q (s + t) \<le> ?q T" by (intro divide_right_mono of_nat_mono) simp_all
    with fine [OF trans_le_add1 [OF 1]] R e(3) fl_eps have "\<not> ?r < ?l" by linarith
    with 1 show ?thesis by (simp add: eq)
  next
    case 2
    then have "?q (s + t) = ?q T + 1 / 100" by (simp add: add_divide_distrib)
    with fine 2 R e(3) fl_eps have "?r < ?l" by linarith
    with 2 show ?thesis by (simp add: eq)
  next
    case 3
    then have "?q (T + 1) + 1 / 100 \<le> ?q (s + t)" by (rule cents_gap)
    then have "?q T + 2 / 100 \<le> ?q s + ?q t" by (simp add: add_divide_distrib)
    with L R e have "?r < ?l" by linarith
    with 3 show ?thesis by (simp add: eq)
  qed
qed

section \<open>Reading back a stored amount\<close>

lemma takeWhile_dec: "takeWhile is_digit (dec n @ CHR ''.'' # s) = dec n"
  and dropWhile_dec: "dropWhile is_digit (dec n @ CHR ''.'' # s) = CHR ''.'' # s"
proof -
  have "\<forall>c \<in> set (dec n). is_digit c" using dec_digits by blast
  moreover have "\<not> is_digit (CHR ''.'')" by (simp add: is_digit_def)
  ultimately show "takeWhile is_digit (dec n @ CHR ''.'' # s) = dec n"
    and "dropWhile is_digit (dec n @ CHR ''.'' # s) = CHR ''.'' # s"
    by (simp_all add: takeWhile_append2 dropWhile_append2)
qed

lemma length_two_digits: "n < 100 \<Longrightarrow> length (pad0 2 (dec n)) = 2"
  using length_dec_le [of 2 n] by (simp add: length_pad0)

lemma digits_pad0_dec: "list_all is_digit (pad0 w (dec n))"
proof -
  have "is_digit (CHR ''0'')" by (simp add: is_digit_def)
  then show ?thesis by (auto simp: pad0_def list_all_iff dec_digits)
qed

lemma cents_text_pattern: "amountPattern (cents_text n)"
  by (simp add: amountPattern_def cents_text_def Let_def takeWhile_dec dropWhile_dec
      digits_pad0_dec length_two_digits)

lemma cents_text_cents [simp]: "amount_cents (cents_text n) = n"
proof -
  have "num_of (dec (n div 100) @ pad0 2 (dec (n mod 100))) = n div 100 * 100 + n mod 100"
    using length_two_digits [of "n mod 100"]
    by (simp add: num_acc_append num_of_dec num_acc_shift [of "n div 100"] num_of_pad0)
  then show ?thesis
    by (simp add: amount_cents_def cents_text_def Let_def takeWhile_dec dropWhile_dec length_two_digits)
qed

lemma ParseFloat_cents_text: "n < 10 ^ 17 \<Longrightarrow> ParseFloat (cents_text n) = Some (money n)"
  using ParseFloat_amount [OF cents_text_pattern] by simp

lemma digit_plain: "is_digit c \<Longrightarrow> plain_byte c"
  by (auto simp: is_digit_def plain_byte_def ascii_space_def Let_def)

lemma amountPattern_trim: "amountPattern s \<Longrightarrow> TrimSpace s = s"
proof (rule TrimSpace_plain)
  assume a: "amountPattern s"
  define ip r where "ip = takeWhile is_digit s" and "r = dropWhile is_digit s"
  have s: "s = ip @ r" by (simp add: ip_def r_def)
  from a have ip: "ip \<noteq> []"
    and "r = [] \<or> (list_all is_digit (tl r) \<and> (length (tl r) = 1 \<or> length (tl r) = 2))"
    by (simp_all add: amountPattern_def Let_def flip: ip_def r_def) blast
  then have r: "r = [] \<or> (list_all is_digit (tl r) \<and> tl r \<noteq> [])" by force
  have d: "\<forall>c \<in> set ip. is_digit c" using takeWhile_digits by (simp add: ip_def list_all_iff)
  have "is_digit (hd s)" using ip d by (simp add: s)
  moreover have "is_digit (last s)"
  proof (cases "r = []")
    case False
    then have "last s = last (tl r)" using r by (simp add: s last_tl)
    with r False show ?thesis by (simp add: list_all_iff)
  qed (use ip d in \<open>simp add: s\<close>)
  ultimately show "s = [] \<or> plain_byte (hd s) \<and> plain_byte (last s)" using digit_plain by blast
qed

lemma paid_is_amount: "paidAmountPattern s \<Longrightarrow> amountPattern s"
  by (auto simp: paidAmountPattern_def amountPattern_def Let_def)

lemma paid_cents_bound: "paidAmountPattern s \<Longrightarrow> amount_cents s < 10 ^ 15"
proof -
  assume a: "paidAmountPattern s"
  define ip fp where "ip = takeWhile is_digit s" and "fp = tl (dropWhile is_digit s)"
  from a have "length ip \<le> 13" "list_all is_digit fp" and fp: "length fp = 2"
    by (auto simp: paidAmountPattern_def ip_def fp_def Let_def)
  then have "num_of (ip @ fp) < 10 ^ length (ip @ fp)"
    using takeWhile_digits by (intro digits_lt) (simp add: ip_def)
  also have "\<dots> \<le> 10 ^ 15" using \<open>length ip \<le> 13\<close> fp by (intro power_increasing) simp_all
  finally show ?thesis using fp by (simp add: amount_cents_def Let_def flip: ip_def fp_def)
qed

lemma cents_text_nonempty [simp]: "cents_text n \<noteq> []"
  by (simp add: cents_text_def)

lemma cents_text_trim [simp]: "TrimSpace (cents_text n) = cents_text n"
  by (rule amountPattern_trim) (rule cents_text_pattern)

end
