(* ===== verification/GoTime.thy ===== *)
theory GoTime
  imports Prelude
begin

text \<open>
  Instants as Go's \<^verbatim>\<open>time.Time\<close> has them: nanoseconds since the zero time (1 January of year 1, UTC)
  and the zone offset in seconds. \<^verbatim>\<open>After\<close>, \<^verbatim>\<open>Before\<close> and \<^verbatim>\<open>IsZero\<close> look at the instant alone; the
  renderings \<^verbatim>\<open>time.RFC3339\<close> and \<^verbatim>\<open>20060102\<close> look at the civil date in the value's own zone.
\<close>

record gtime =
  tm_ns :: int
  tm_off :: int

definition After :: "gtime \<Rightarrow> gtime \<Rightarrow> bool" where
  "After t u = (tm_ns u < tm_ns t)"

definition Before :: "gtime \<Rightarrow> gtime \<Rightarrow> bool" where
  "Before t u = (tm_ns t < tm_ns u)"

definition IsZero :: "gtime \<Rightarrow> bool" where
  "IsZero t = (tm_ns t = 0)"

definition nanos_per_second :: int where
  "nanos_per_second = 1000000000"

definition Add :: "gtime \<Rightarrow> int \<Rightarrow> gtime" where
  "Add t d = t\<lparr>tm_ns := tm_ns t + d\<rparr>"

definition UTC :: "gtime \<Rightarrow> gtime" where
  "UTC t = t\<lparr>tm_off := 0\<rparr>"

definition in_zone :: "int \<Rightarrow> gtime \<Rightarrow> gtime" where
  "in_zone off t = t\<lparr>tm_off := off\<rparr>"

section \<open>The civil calendar\<close>

text \<open>Days are counted from 1 January of year 1 in the proleptic Gregorian calendar.\<close>

definition is_leap :: "int \<Rightarrow> bool" where
  "is_leap y = (y mod 4 = 0 \<and> (y mod 100 \<noteq> 0 \<or> y mod 400 = 0))"

definition month_lengths :: "int \<Rightarrow> int list" where
  "month_lengths y = [31, if is_leap y then 29 else 28, 31, 30, 31, 30, 31, 31, 30, 31, 30, 31]"

definition year_yday :: "int \<Rightarrow> int \<times> int" where
  "year_yday d = (let n400 = d div 146097; r = d mod 146097;
      n100 = min (r div 36524) 3; r2 = r - n100 * 36524;
      n4 = r2 div 1461; r3 = r2 mod 1461;
      n1 = min (r3 div 365) 3
    in (400 * n400 + 100 * n100 + 4 * n4 + n1 + 1, r3 - n1 * 365))"

fun month_day :: "int \<Rightarrow> int list \<Rightarrow> int \<Rightarrow> int \<times> int" where
  "month_day m [] d = (m, d + 1)"
| "month_day m (l # ls) d = (if d < l \<or> ls = [] then (m, d + 1) else month_day (m + 1) ls (d - l))"

definition civil :: "int \<Rightarrow> int \<times> int \<times> int" where
  "civil d = (let (y, n) = year_yday d; (m, k) = month_day 1 (month_lengths y) n in (y, m, k))"

text \<open>The first day of a year, the inverse direction.\<close>

definition days_before_year :: "int \<Rightarrow> int" where
  "days_before_year y = 365 * (y - 1) + (y - 1) div 4 - (y - 1) div 100 + (y - 1) div 400"

definition days_of_civil :: "int \<Rightarrow> int \<Rightarrow> int \<Rightarrow> int" where
  "days_of_civil y m k = days_before_year y + sum_list (take (nat (m - 1)) (month_lengths y)) + (k - 1)"

section \<open>Renderings\<close>

definition dec2 :: "int \<Rightarrow> string" where
  "dec2 n = pad0 2 (dec (nat n))"

definition dec4 :: "int \<Rightarrow> string" where
  "dec4 n = (if n < 0 then ''-'' else []) @ pad0 4 (dec (nat \<bar>n\<bar>))"

definition local_seconds :: "gtime \<Rightarrow> int" where
  "local_seconds t = tm_ns t div nanos_per_second + tm_off t"

definition local_date :: "gtime \<Rightarrow> int \<times> int \<times> int" where
  "local_date t = civil (local_seconds t div 86400)"

definition zone_text :: "int \<Rightarrow> string" where
  "zone_text off = (if off = 0 then ''Z''
     else let m = \<bar>off\<bar> div 60 in
       (if off < 0 then ''-'' else ''+'') @ dec2 (m div 60) @ '':'' @ dec2 (m mod 60))"

definition clock_text :: "int \<Rightarrow> string" where
  "clock_text s = dec2 (s div 3600) @ '':'' @ dec2 (s div 60 mod 60) @ '':'' @ dec2 (s mod 60)"

text \<open>\<^verbatim>\<open>t.Format(time.RFC3339)\<close>.\<close>

definition rfc3339 :: "gtime \<Rightarrow> string" where
  "rfc3339 t = (let (y, m, d) = local_date t in
     dec4 y @ ''-'' @ dec2 m @ ''-'' @ dec2 d @ ''T'' @ clock_text (local_seconds t mod 86400)
       @ zone_text (tm_off t))"

text \<open>\<^verbatim>\<open>t.Format("20060102")\<close>.\<close>

definition yyyymmdd :: "gtime \<Rightarrow> string" where
  "yyyymmdd t = (let (y, m, d) = local_date t in dec4 y @ dec2 m @ dec2 d)"

section \<open>The calendar inverts\<close>

lemma year_yday_sound:
  "year_yday d = (y, n) \<Longrightarrow> d = days_before_year y + n"
proof -
  assume a: "year_yday d = (y, n)"
  define n400 r where "n400 = d div 146097" and "r = d mod 146097"
  define n100 where "n100 = min (r div 36524) 3"
  define r2 where "r2 = r - n100 * 36524"
  define n4 r3 where "n4 = r2 div 1461" and "r3 = r2 mod 1461"
  define n1 where "n1 = min (r3 div 365) 3"
  have "year_yday d = (400 * n400 + 100 * n100 + 4 * n4 + n1 + 1, r3 - n1 * 365)"
    by (simp only: year_yday_def Let_def n400_def r_def n100_def r2_def n4_def r3_def n1_def)
  with a have y: "y = 400 * n400 + 100 * n100 + 4 * n4 + n1 + 1" and n: "n = r3 - n1 * 365" by simp_all
  have r: "0 \<le> r" "r < 146097" by (simp_all add: r_def)
  have n100: "0 \<le> n100" "n100 \<le> 3" using r by (simp_all add: n100_def)
  have "r div 36524 * 36524 + r mod 36524 = r" "0 \<le> r mod 36524" "r mod 36524 < 36524" by simp_all
  then have r2: "0 \<le> r2" "r2 \<le> 36524"
    using r by (cases "r div 36524 \<le> 3"; simp only: r2_def n100_def min_def if_True if_False; linarith)+
  have n4: "0 \<le> n4" "n4 \<le> 24" using r2 by (simp_all add: n4_def)
  have r3: "0 \<le> r3" "r3 < 1461" by (simp_all add: r3_def)
  have n1: "0 \<le> n1" "n1 \<le> 3" using r3 by (simp_all add: n1_def)
  have d: "d = 146097 * n400 + r" "r = n100 * 36524 + r2" "r2 = 1461 * n4 + r3"
    by (simp_all add: n400_def r_def r2_def n4_def r3_def)
  let ?u = "400 * n400 + 100 * n100 + 4 * n4 + n1"
  have four: "?u div 4 = 100 * n400 + 25 * n100 + n4"
    by (rule int_div_pos_eq [where r = n1]) (use n1 in simp_all)
  have hundred: "?u div 100 = 4 * n400 + n100"
    by (rule int_div_pos_eq [where r = "4 * n4 + n1"]) (use n1 n4 in simp_all)
  have fourhundred: "?u div 400 = n400"
    by (rule int_div_pos_eq [where r = "100 * n100 + 4 * n4 + n1"]) (use n1 n4 n100 in simp_all)
  have "y - 1 = ?u" using y by linarith
  then have "days_before_year y = 365 * ?u + (100 * n400 + 25 * n100 + n4) - (4 * n400 + n100) + n400"
    by (simp only: days_before_year_def four hundred fourhundred)
  then show ?thesis using d n by (simp add: algebra_simps)
qed

lemma month_day_sound:
  "month_day m ls d = (m', k) \<Longrightarrow> ls \<noteq> [] \<Longrightarrow>
    d + 1 = sum_list (take (nat (m' - m)) ls) + k \<and> m \<le> m' \<and> m' - m < int (length ls)"
proof (induction m ls d arbitrary: m' k rule: month_day.induct)
  case (2 m l ls d)
  show ?case
  proof (cases "d < l \<or> ls = []")
    case False
    with "2.prems" "2.IH" have IH: "d - l + 1 = sum_list (take (nat (m' - (m + 1))) ls) + k"
      "m + 1 \<le> m'" "m' - (m + 1) < int (length ls)" by auto
    then have "nat (m' - m) = Suc (nat (m' - (m + 1)))" by linarith
    with IH show ?thesis by simp
  qed (use "2.prems" in auto)
qed simp

lemma civil_inverse:
  assumes "civil d = (y, m, k)" shows "days_of_civil y m k = d"
proof -
  obtain y' n where yn: "year_yday d = (y', n)" by (cases "year_yday d")
  obtain m' k' where mk: "month_day 1 (month_lengths y') n = (m', k')"
    by (cases "month_day 1 (month_lengths y') n")
  from assms yn mk have eq: "y' = y" "m' = m" "k' = k" by (simp_all add: civil_def)
  have "n + 1 = sum_list (take (nat (m - 1)) (month_lengths y)) + k"
    using month_day_sound [OF mk] eq by (simp add: month_lengths_def)
  with year_yday_sound [OF yn] eq show ?thesis by (simp add: days_of_civil_def)
qed

lemma local_date_inject:
  "local_date t = local_date u \<longleftrightarrow> local_seconds t div 86400 = local_seconds u div 86400"
  by (metis civil_inverse local_date_def prod_cases3)

end
