(* ===== verification/VaTypes.thy ===== *)
theory VaTypes
  imports Money GoTime
begin

text \<open>
  The data of \<^verbatim>\<open>internal/domain/va.go\<close> and \<^verbatim>\<open>internal/domain/errors.go\<close>: one record per struct, in the
  order of the source, with the small methods the structs carry.

  Conventions. A field keeps its Go name behind a prefix that names the struct. A pointer is an
  option, a slice is a list (nil and empty are both the empty list: the code only asks for the length
  and the \<^verbatim>\<open>MarshalJSON\<close> methods erase the difference on the wire), an \<^verbatim>\<open>additionalInfo\<close> map is an
  association list of JSON values, \<^verbatim>\<open>VATypeBilling\<close> is a string type and stays a string.
\<close>

datatype jval = JNull | JBool bool | JNum string | JStr string | JArr "jval list" | JObj "(string \<times> jval) list"

type_synonym info = "(string \<times> jval) list"

section \<open>Shared value objects\<close>

record Amount =
  am_Value :: string
  am_Currency :: string

record BilingualText =
  bt_English :: string
  bt_Indonesia :: string

record BillDetail =
  bd_BillCode :: string
  bd_BillNo :: string
  bd_BillName :: string
  bd_BillShortName :: string
  bd_BillDescription :: "BilingualText option"
  bd_BillSubCompany :: string
  bd_BillAmount :: "Amount option"
  bd_BillAmountLabel :: string
  bd_BillAmountValue :: string
  bd_BillReferenceNo :: string
  bd_BillerReferenceID :: string
  bd_Status :: string
  bd_Reason :: "BilingualText option"
  bd_AdditionalInfo :: info

section \<open>Vendor requests and responses\<close>

record VAInquiryRequest =
  iq_PartnerServiceID :: string
  iq_CustomerNo :: string
  iq_VirtualAccountNo :: string
  iq_TrxDateInit :: "gtime option"
  iq_Amount :: "Amount option"
  iq_ChannelCode :: int
  iq_Language :: string
  iq_HashedSourceAccountNo :: string
  iq_SourceBankCode :: string
  iq_InquiryRequestID :: string
  iq_AdditionalInfo :: info
  iq_PassApp :: string

record VAAccountData =
  ad_PartnerServiceID :: string
  ad_CustomerNo :: string
  ad_VirtualAccountNo :: string
  ad_VirtualAccountName :: string
  ad_InquiryRequestID :: string
  ad_TotalAmount :: "Amount option"
  ad_SubCompany :: string
  ad_BillDetails :: "BillDetail list"
  ad_FreeTexts :: "BilingualText list"
  ad_VirtualAccountTrxType :: string
  ad_FeeAmount :: "Amount option"
  ad_InquiryStatus :: string
  ad_InquiryReason :: "BilingualText option"
  ad_AdditionalInfo :: info

record VAInquiryResponse =
  ir_ResponseCode :: string
  ir_ResponseMessage :: string
  ir_VirtualAccountData :: "VAAccountData option"
  ir_AdditionalInfo :: info

record VAPaymentBillDetail =
  pb_BillCode :: string
  pb_BillNo :: string
  pb_BillName :: string
  pb_BillShortName :: string
  pb_BillDescription :: "BilingualText option"
  pb_BillSubCompany :: string
  pb_BillAmount :: "Amount option"
  pb_AdditionalInfo :: info
  pb_BillReferenceNo :: string
  pb_BillerReferenceID :: string
  pb_Status :: string
  pb_Reason :: "BilingualText option"

record VAPaymentRequest =
  pq_PartnerServiceID :: string
  pq_CustomerNo :: string
  pq_VirtualAccountNo :: string
  pq_InquiryRequestID :: string
  pq_TrxID :: string
  pq_PaymentRequestID :: string
  pq_VirtualAccountName :: string
  pq_VirtualAccountEmail :: string
  pq_VirtualAccountPhone :: string
  pq_ChannelCode :: int
  pq_HashedSourceAccountNo :: string
  pq_SourceBankCode :: string
  pq_PaidAmount :: "Amount option"
  pq_CumulativePaymentAmount :: "Amount option"
  pq_PaidBills :: string
  pq_TotalAmount :: "Amount option"
  pq_TrxDateTime :: "gtime option"
  pq_ReferenceNo :: string
  pq_JournalNum :: string
  pq_PaymentType :: string
  pq_FlagAdvise :: string
  pq_SubCompany :: string
  pq_BillDetails :: "VAPaymentBillDetail list"
  pq_FreeTexts :: "BilingualText list"
  pq_AdditionalInfo :: info
  pq_ExternalID :: string

record VAPaymentResponseBillDetail =
  rb_BillerReferenceID :: string
  rb_BillNo :: string
  rb_BillDescription :: "BilingualText option"
  rb_BillSubCompany :: string
  rb_BillAmount :: "Amount option"
  rb_AdditionalInfo :: info
  rb_Status :: string
  rb_Reason :: "BilingualText option"

record VAPaymentStatus =
  ps_PartnerServiceID :: string
  ps_CustomerNo :: string
  ps_VirtualAccountNo :: string
  ps_VirtualAccountName :: string
  ps_PaymentRequestID :: string
  ps_PaidAmount :: "Amount option"
  ps_TotalAmount :: "Amount option"
  ps_TrxDateTime :: "gtime option"
  ps_ReferenceNo :: string
  ps_PaymentFlagStatus :: string
  ps_PaymentFlagReason :: "BilingualText option"
  ps_BillDetails :: "VAPaymentResponseBillDetail list"
  ps_FreeTexts :: "BilingualText list"

record VAPaymentResponse =
  pr_ResponseCode :: string
  pr_ResponseMessage :: string
  pr_VirtualAccountData :: "VAPaymentStatus option"
  pr_AdditionalInfo :: info

record VAStatusRequest =
  sq_PartnerServiceID :: string
  sq_CustomerNo :: string
  sq_VirtualAccountNo :: string
  sq_InquiryRequestID :: string
  sq_PaymentRequestID :: string
  sq_AdditionalInfo :: info

record VAStatusBillDetail =
  sb_BillCode :: string
  sb_BillNo :: string
  sb_BillName :: string
  sb_BillShortName :: string
  sb_BillDescription :: "BilingualText option"
  sb_BillSubCompany :: string
  sb_BillAmount :: "Amount option"
  sb_BillReferenceNo :: string
  sb_Status :: string
  sb_Reason :: "BilingualText option"
  sb_AdditionalInfo :: info

record VAStatusData =
  sd_PaymentFlagStatus :: string
  sd_PaymentFlagReason :: "BilingualText option"
  sd_PartnerServiceID :: string
  sd_CustomerNo :: string
  sd_VirtualAccountNo :: string
  sd_InquiryRequestID :: string
  sd_PaymentRequestID :: string
  sd_PaidAmount :: "Amount option"
  sd_PaidBills :: string
  sd_TotalAmount :: "Amount option"
  sd_TrxDateTime :: "gtime option"
  sd_TransactionDate :: "gtime option"
  sd_ReferenceNo :: string
  sd_PaymentType :: string
  sd_FlagAdvise :: string
  sd_BillDetails :: "VAStatusBillDetail list"
  sd_FreeTexts :: "BilingualText list"
  sd_AdditionalInfo :: info

record VAStatusResponse =
  sr_ResponseCode :: string
  sr_ResponseMessage :: string
  sr_VirtualAccountData :: "VAStatusData option"
  sr_AdditionalInfo :: info

section \<open>Stored records\<close>

record VAPaymentFlag =
  pf_ID :: string
  pf_ExternalID :: string
  pf_PaymentRequestID :: string
  pf_VirtualAccountNo :: string
  pf_ResponseCode :: string
  pf_ResponseMessage :: string
  pf_VirtualAccountData :: "VAPaymentStatus option"
  pf_CreatedAt :: gtime

record VAAccount =
  ac_ID :: string
  ac_PartnerServiceID :: string
  ac_CustomerNo :: string
  ac_VirtualAccountNo :: string
  ac_VAType :: string
  ac_Billing :: string
  ac_CustomerName :: string
  ac_CustomerEmail :: string
  ac_CustomerPhone :: string
  ac_TrxID :: string
  ac_NotificationURL :: string
  ac_Status :: string
  ac_ExpiredDate :: "gtime option"
  ac_CreatedAt :: gtime
  ac_UpdatedAt :: gtime

record VAInquiryRecord =
  ri_ID :: string
  ri_PartnerServiceID :: string
  ri_CustomerNo :: string
  ri_CustomerName :: string
  ri_VirtualAccountNo :: string
  ri_InquiryRequestID :: string
  ri_TrxID :: string
  ri_NotificationURL :: string
  ri_Status :: string
  ri_TotalAmount :: string
  ri_Currency :: string
  ri_VAType :: string
  ri_SubCompany :: string
  ri_PaidAmount :: string
  ri_PaymentRequestID :: string
  ri_FreeTexts :: "BilingualText list"
  ri_ExpiredDate :: "gtime option"
  ri_CreatedAt :: gtime
  ri_UpdatedAt :: gtime

record VAPaymentRecord =
  rp_ID :: string
  rp_PartnerServiceID :: string
  rp_CustomerNo :: string
  rp_CustomerName :: string
  rp_CustomerEmail :: string
  rp_CustomerPhone :: string
  rp_VirtualAccountNo :: string
  rp_InquiryRequestID :: string
  rp_TrxID :: string
  rp_NotificationURL :: string
  rp_PaymentRequestID :: string
  rp_PaidAmount :: string
  rp_TotalAmount :: string
  rp_Currency :: string
  rp_Status :: string
  rp_VAType :: string
  rp_ReferenceNo :: string
  rp_ChannelCode :: int
  rp_HashedSourceAccountNo :: string
  rp_SourceBankCode :: string
  rp_JournalNum :: string
  rp_PaymentType :: string
  rp_FlagAdvise :: string
  rp_PaidBills :: string
  rp_SubCompany :: string
  rp_TrxDateTime :: "gtime option"
  rp_FreeTexts :: "BilingualText list"
  rp_TransactionDate :: gtime
  rp_CreatedAt :: gtime
  rp_UpdatedAt :: gtime

section \<open>Merchant callbacks\<close>

record PaymentNotificationPayload =
  np_EventType :: string
  np_PartnerServiceID :: string
  np_CustomerNo :: string
  np_VirtualAccountNo :: string
  np_TrxID :: string
  np_PaymentRequestID :: string
  np_PaidAmount :: "Amount option"
  np_CumulativePaymentAmount :: "Amount option"
  np_PaidBills :: string
  np_TotalAmount :: "Amount option"
  np_TrxDateTime :: string
  np_ReferenceNo :: string
  np_JournalNum :: string
  np_PaymentType :: string
  np_FlagAdvise :: string
  np_NotificationURL :: string
  np_ExpiredAt :: string
  np_DeliveryID :: string
  np_Trigger :: string

record NotificationDelivery =
  nd_ID :: string
  nd_VirtualAccountNo :: string
  nd_EventType :: string
  nd_Trigger :: string
  nd_Status :: string
  nd_AttemptedAt :: gtime
  nd_ErrorDetail :: string
  nd_Payload :: "PaymentNotificationPayload option"
  nd_AttemptCount :: int
  nd_HTTPStatus :: int
  nd_LastAttemptAt :: "gtime option"

record NotificationDeliveryResult =
  nr_Status :: string
  nr_AttemptCount :: int
  nr_HTTPStatus :: int
  nr_ErrorDetail :: string

section \<open>Errors\<close>

text \<open>
  The sentinel errors the virtual-account code distinguishes with \<^verbatim>\<open>errors.Is\<close>, the no-rows result of
  a query, the two PostgreSQL constraint violations, and every other failure of a statement or a
  gateway call with its text.
\<close>

datatype gerr =
    ErrVAInvalidBill | ErrVAPaidBill | ErrVAInvalidPartner | ErrVADuplicateExtID | ErrVAMissingMandatory
  | ErrVAInvalidField | ErrVAInternalError
  | ErrMerchantVANotFound | ErrMerchantVAAlreadyPaid | ErrMerchantVAAlreadyDeleted | ErrMerchantVAExpired
  | ErrVAExpiredInquiry | ErrVAExpiredPayment
  | ErrResendNoDeliveryRecord | ErrResendNoNotificationURL | ErrResendRangeTooLarge
  | ErrNotificationDuplicate | ErrNotificationPayloadUnrecoverable
  | ErrVACustomerNoAlreadyRegistered
  | ErrVAAccountNotFound | ErrVAAccountInactive | ErrVAPaymentDuplicate
  | ErrNoRows | ErrUniqueViolation | ErrForeignKeyViolation | ErrOther string

record DomainError =
  de_SNAPCode :: string
  de_Message :: string
  de_Err :: "gerr option"
  de_InquiryData :: "VAAccountData option"
  de_PaymentData :: "VAPaymentStatus option"

definition NewDomainError :: "string \<Rightarrow> string \<Rightarrow> gerr option \<Rightarrow> DomainError" where
  "NewDomainError code msg e = \<lparr>de_SNAPCode = code, de_Message = msg, de_Err = e,
     de_InquiryData = None, de_PaymentData = None\<rparr>"

definition NewInquiryError :: "string \<Rightarrow> string \<Rightarrow> gerr option \<Rightarrow> VAAccountData option \<Rightarrow> DomainError" where
  "NewInquiryError code msg e data = \<lparr>de_SNAPCode = code, de_Message = msg, de_Err = e,
     de_InquiryData = data, de_PaymentData = None\<rparr>"

definition NewPaymentError :: "string \<Rightarrow> string \<Rightarrow> gerr option \<Rightarrow> VAPaymentStatus option \<Rightarrow> DomainError" where
  "NewPaymentError code msg e data = \<lparr>de_SNAPCode = code, de_Message = msg, de_Err = e,
     de_InquiryData = None, de_PaymentData = data\<rparr>"

section \<open>Methods of the data types\<close>

definition text_isBlank :: "BilingualText option \<Rightarrow> bool" where
  "text_isBlank t = (case t of None \<Rightarrow> True | Some b \<Rightarrow> bt_English b = [] \<and> bt_Indonesia b = [])"

definition amount_isBlank :: "Amount option \<Rightarrow> bool" where
  "amount_isBlank a = (case a of None \<Rightarrow> True | Some m \<Rightarrow> am_Value m = [] \<and> am_Currency m = [])"

definition IsEmpty :: "VAPaymentBillDetail \<Rightarrow> bool" where
  "IsEmpty b = (pb_BillCode b = [] \<and> pb_BillNo b = [] \<and> pb_BillName b = [] \<and> pb_BillShortName b = [] \<and>
     pb_BillSubCompany b = [] \<and> pb_BillReferenceNo b = [] \<and> pb_BillerReferenceID b = [] \<and>
     pb_Status b = [] \<and> text_isBlank (pb_BillDescription b) \<and> text_isBlank (pb_Reason b) \<and>
     amount_isBlank (pb_BillAmount b) \<and> pb_AdditionalInfo b = [])"

definition NormalizeBillDetails :: "VAPaymentRequest \<Rightarrow> VAPaymentRequest" where
  "NormalizeBillDetails r = (if pq_BillDetails r = [] then r
     else let kept = filter (\<lambda>b. \<not> IsEmpty b) (pq_BillDetails r)
          in if kept = [] then r\<lparr>pq_BillDetails := []\<rparr> else r\<lparr>pq_BillDetails := kept\<rparr>)"

definition VAAccountStatusActive :: string where [code_consts]: "VAAccountStatusActive = ''ACTIVE''"
definition VAAccountStatusInactive :: string where [code_consts]: "VAAccountStatusInactive = ''INACTIVE''"
definition VAAccountStatusExpired :: string where [code_consts]: "VAAccountStatusExpired = ''EXPIRED''"

definition VATypeBillingNone :: string where [code_consts]: "VATypeBillingNone = ''none''"
definition VATypeBillingVariable :: string where [code_consts]: "VATypeBillingVariable = ''variable''"
definition VATypeBillingFixed :: string where [code_consts]: "VATypeBillingFixed = ''fixed''"

definition IsNoBill :: "VAAccount option \<Rightarrow> bool" where
  "IsNoBill a = (case a of None \<Rightarrow> False | Some r \<Rightarrow> ac_Billing r = VATypeBillingNone)"

definition account_IsExpired :: "VAAccount \<Rightarrow> gtime \<Rightarrow> bool" where
  "account_IsExpired a t = (ac_Status a = VAAccountStatusExpired \<or>
     (case ac_ExpiredDate a of None \<Rightarrow> False | Some d \<Rightarrow> After t d))"

definition IsVariableBill :: "VAInquiryRecord \<Rightarrow> bool" where
  "IsVariableBill r = (ri_VAType r = ''02'' \<or> ri_VAType r = ''05'')"

definition IsPayable :: "VAInquiryRecord \<Rightarrow> bool" where
  "IsPayable r = (if ri_Status r = ''03'' then True
     else if ri_Status r \<noteq> ''00'' \<or> \<not> IsVariableBill r then False
     else case (ParseFloat (ri_PaidAmount r), ParseFloat (ri_TotalAmount r)) of
            (Some paid, Some tot) \<Rightarrow> f64_less paid tot
          | _ \<Rightarrow> False)"

definition IsPlaceholderInquiryRequestID :: "string \<Rightarrow> string \<Rightarrow> string \<Rightarrow> bool" where
  "IsPlaceholderInquiryRequestID inq trx va = (inq = [] \<or> (trx \<noteq> [] \<and> inq = trx) \<or> inq = va)"

definition BillingForVAType :: "string \<Rightarrow> string" where
  "BillingForVAType t = (if t = ''01'' \<or> t = ''04'' then VATypeBillingNone
     else if t = ''02'' \<or> t = ''05'' then VATypeBillingVariable
     else if t = ''03'' \<or> t = ''06'' then VATypeBillingFixed
     else [])"

definition NotificationEventPaymentReceived :: string where [code_consts]:
  "NotificationEventPaymentReceived = ''payment.received''"
definition NotificationEventVAExpired :: string where [code_consts]:
  "NotificationEventVAExpired = ''va.expired''"
definition NotificationTriggerAuto :: string where [code_consts]: "NotificationTriggerAuto = ''auto''"
definition NotificationTriggerManual :: string where [code_consts]: "NotificationTriggerManual = ''manual''"

definition NotificationDeliveryStatusQueued :: string where [code_consts]:
  "NotificationDeliveryStatusQueued = ''queued''"
definition NotificationDeliveryStatusRetrying :: string where [code_consts]:
  "NotificationDeliveryStatusRetrying = ''retrying''"
definition NotificationDeliveryStatusSuccess :: string where [code_consts]:
  "NotificationDeliveryStatusSuccess = ''success''"
definition NotificationDeliveryStatusFailed :: string where [code_consts]:
  "NotificationDeliveryStatusFailed = ''failed''"
definition NotificationDeliveryStatusDuplicate :: string where [code_consts]:
  "NotificationDeliveryStatusDuplicate = ''duplicate''"

section \<open>Facts about the methods\<close>

lemma NormalizeBillDetails_bills:
  "pq_BillDetails (NormalizeBillDetails r) = filter (\<lambda>b. \<not> IsEmpty b) (pq_BillDetails r)"
  by (simp add: NormalizeBillDetails_def Let_def)

lemma NormalizeBillDetails_others:
  "(NormalizeBillDetails r)\<lparr>pq_BillDetails := bs\<rparr> = r\<lparr>pq_BillDetails := bs\<rparr>"
  by (simp add: NormalizeBillDetails_def Let_def)

lemma NormalizeBillDetails_idem: "NormalizeBillDetails (NormalizeBillDetails r) = NormalizeBillDetails r"
  by (simp add: NormalizeBillDetails_def Let_def)

lemma payable_pending: "ri_Status r = ''03'' \<Longrightarrow> IsPayable r"
  by (simp add: IsPayable_def)

lemma not_payable_closed:
  "ri_Status r \<noteq> ''03'' \<Longrightarrow> ri_Status r \<noteq> ''00'' \<Longrightarrow> \<not> IsPayable r"
  by (simp add: IsPayable_def)

lemma not_payable_fixed:
  "ri_Status r = ''00'' \<Longrightarrow> \<not> IsVariableBill r \<Longrightarrow> \<not> IsPayable r"
  by (simp add: IsPayable_def)

text \<open>A settled variable bill is reopened exactly by an outstanding balance.\<close>

lemma payable_short:
  assumes "ri_Status r = ''00''" and "IsVariableBill r"
    and "ri_PaidAmount r = cents_text paid" and "ri_TotalAmount r = cents_text tot"
    and "paid < 10 ^ 15" and "tot < 10 ^ 15"
  shows "IsPayable r \<longleftrightarrow> paid < tot"
  using assms by (simp add: IsPayable_def ParseFloat_cents_text money_less)

end
