(* ===== verification/SnapCodes.thy ===== *)
theory SnapCodes
  imports VaTypes
begin

text \<open>
  \<^verbatim>\<open>internal/domain/snap_codes.go\<close> and \<^verbatim>\<open>internal/domain/snap_response.go\<close>: the SNAP response codes
  (three digits of HTTP status, two of service, two of case), the bilingual reasons, the flag status
  of a code, and the rejection envelopes. The lemmas show that a code built by the helpers carries
  its parts, that every reason is non-empty and within the length cap, that only success codes carry
  the status \<open>00\<close>, and that every envelope of a transfer-va service carries a complete data block.
\<close>

section \<open>Constants\<close>

definition ServiceCodeInquiry :: string where [code_consts]: "ServiceCodeInquiry = ''24''"
definition ServiceCodePayment :: string where [code_consts]: "ServiceCodePayment = ''25''"
definition ServiceCodeStatus :: string where [code_consts]: "ServiceCodeStatus = ''26''"
definition ServiceCodeToken :: string where [code_consts]: "ServiceCodeToken = ''73''"
definition CodeInquirySuccess :: string where [code_consts]: "CodeInquirySuccess = ''2002400''"
definition CodeInquiryNotFound :: string where [code_consts]: "CodeInquiryNotFound = ''4042412''"
definition CodeInquiryPaidBill :: string where [code_consts]: "CodeInquiryPaidBill = ''4042414''"
definition CodeInquiryExpired :: string where [code_consts]: "CodeInquiryExpired = ''4042419''"
definition CodeInquiryConflict :: string where [code_consts]: "CodeInquiryConflict = ''4092400''"
definition CodeInquiryBadRequest :: string where [code_consts]: "CodeInquiryBadRequest = ''4002400''"
definition CodePaymentSuccess :: string where [code_consts]: "CodePaymentSuccess = ''2002500''"
definition CodePaymentNotFound :: string where [code_consts]: "CodePaymentNotFound = ''4042512''"
definition CodePaymentInvalidAmt :: string where [code_consts]: "CodePaymentInvalidAmt = ''4042513''"
definition CodePaymentPaidBill :: string where [code_consts]: "CodePaymentPaidBill = ''4042514''"
definition CodePaymentInconsistent :: string where [code_consts]: "CodePaymentInconsistent = ''4042518''"
definition CodePaymentExpired :: string where [code_consts]: "CodePaymentExpired = ''4042519''"
definition CodePaymentConflict :: string where [code_consts]: "CodePaymentConflict = ''4092500''"
definition CodePaymentBadRequest :: string where [code_consts]: "CodePaymentBadRequest = ''4002500''"
definition CodeStatusSuccess :: string where [code_consts]: "CodeStatusSuccess = ''2002600''"
definition CodeStatusNotFound :: string where [code_consts]: "CodeStatusNotFound = ''4042601''"
definition CodeStatusBadRequest :: string where [code_consts]: "CodeStatusBadRequest = ''4002600''"
definition CodeStatusConflict :: string where [code_consts]: "CodeStatusConflict = ''4092600''"
definition CodeStatusInternalErr :: string where [code_consts]: "CodeStatusInternalErr = ''5002601''"
definition CodeTokenSuccess :: string where [code_consts]: "CodeTokenSuccess = ''2007300''"
definition CodeTokenInvalidField :: string where [code_consts]: "CodeTokenInvalidField = ''4007301''"
definition CodeTokenInvalidTimestamp :: string where [code_consts]: "CodeTokenInvalidTimestamp = ''4007301''"
definition CodeTokenMissingClientKey :: string where [code_consts]: "CodeTokenMissingClientKey = ''4007302''"
definition CodeTokenUnauthorized :: string where [code_consts]: "CodeTokenUnauthorized = ''4017300''"
definition CodeTokenInternalError :: string where [code_consts]: "CodeTokenInternalError = ''5007300''"
definition InquiryStatusSuccess :: string where [code_consts]: "InquiryStatusSuccess = ''00''"
definition InquiryStatusFailed :: string where [code_consts]: "InquiryStatusFailed = ''01''"
definition PaymentFlagSuccess :: string where [code_consts]: "PaymentFlagSuccess = ''00''"
definition PaymentFlagReject :: string where [code_consts]: "PaymentFlagReject = ''01''"
definition PaymentFlagTimeout :: string where [code_consts]: "PaymentFlagTimeout = ''02''"
definition PaymentFlagPending :: string where [code_consts]: "PaymentFlagPending = ''03''"
definition MsgInvalidAmount :: string where [code_consts]: "MsgInvalidAmount = ''Invalid Amount''"

definition bilingual :: "string \<Rightarrow> string \<Rightarrow> BilingualText" where
  "bilingual e i = \<lparr>bt_English = e, bt_Indonesia = i\<rparr>"

lemma bilingual_sel [simp]: "bt_English (bilingual e i) = e" "bt_Indonesia (bilingual e i) = i"
  by (simp_all add: bilingual_def)

section \<open>Codes\<close>

definition SNAPCode :: "string \<Rightarrow> string \<Rightarrow> string \<Rightarrow> string" where
  "SNAPCode httpCode serviceCode caseCode = httpCode @ serviceCode @ caseCode"

definition ServiceCodeForPath :: "string \<Rightarrow> string" where
  "ServiceCodeForPath path =
    (if Contains path ''transfer-va/inquiry'' then ServiceCodeInquiry
     else if Contains path ''transfer-va/payment'' then ServiceCodePayment
     else if Contains path ''transfer-va/status'' then ServiceCodeStatus
     else ServiceCodeToken)"

definition CodeSuccess :: "string \<Rightarrow> string" where "CodeSuccess service = SNAPCode ''200'' service ''00''"
definition CodeBadRequest :: "string \<Rightarrow> string" where "CodeBadRequest service = SNAPCode ''400'' service ''00''"
definition CodeInvalidField :: "string \<Rightarrow> string" where "CodeInvalidField service = SNAPCode ''400'' service ''01''"
definition CodeMissingMandatory :: "string \<Rightarrow> string" where
  "CodeMissingMandatory service = SNAPCode ''400'' service ''02''"
definition CodeUnauthorized :: "string \<Rightarrow> string" where "CodeUnauthorized service = SNAPCode ''401'' service ''00''"
definition CodeInvalidToken :: "string \<Rightarrow> string" where "CodeInvalidToken service = SNAPCode ''401'' service ''01''"
definition CodeConflict :: "string \<Rightarrow> string" where "CodeConflict service = SNAPCode ''409'' service ''00''"
definition CodeInternalError :: "string \<Rightarrow> string" where "CodeInternalError service = SNAPCode ''500'' service ''00''"
definition CodeTimeout :: "string \<Rightarrow> string" where "CodeTimeout service = SNAPCode ''504'' service ''00''"

lemmas code_helpers = CodeSuccess_def CodeBadRequest_def CodeInvalidField_def CodeMissingMandatory_def
  CodeUnauthorized_def CodeInvalidToken_def CodeConflict_def CodeInternalError_def CodeTimeout_def SNAPCode_def

section \<open>Reasons\<close>

definition snapReason :: "(string \<times> BilingualText) list" where
  "snapReason = [
    (CodeInquirySuccess, bilingual ''Success'' ''Sukses''),
    (CodePaymentSuccess, bilingual ''Success'' ''Sukses''),
    (CodeStatusSuccess, bilingual ''Success'' ''Sukses''),
    (CodeInquiryNotFound, bilingual ''Virtual Account Not Found'' ''Virtual Account Tidak Ditemukan''),
    (CodePaymentNotFound, bilingual ''Virtual Account Not Found'' ''Virtual Account Tidak Ditemukan''),
    (CodeInquiryPaidBill, bilingual ''Bill has been paid'' ''Tagihan telah dibayar''),
    (CodePaymentPaidBill, bilingual ''Bill has been paid'' ''Tagihan telah dibayar''),
    (CodeInquiryExpired, bilingual ''expired transaction'' ''transaksi kadaluarsa''),
    (CodePaymentExpired, bilingual ''expired transaction'' ''transaksi kadaluarsa''),
    (CodePaymentInvalidAmt, bilingual ''Invalid Amount'' ''Jumlah tidak valid''),
    (CodeInquiryConflict, bilingual ''Cannot use the same X-EXTERNAL-ID'' ''Tidak bisa menggunakan X-EXTERNAL-ID yang sama''),
    (CodePaymentConflict, bilingual ''Cannot use the same X-EXTERNAL-ID'' ''Tidak bisa menggunakan X-EXTERNAL-ID yang sama''),
    (CodeStatusConflict, bilingual ''Cannot use the same X-EXTERNAL-ID'' ''Tidak bisa menggunakan X-EXTERNAL-ID yang sama''),
    (CodeStatusNotFound, bilingual ''Transaction Not Found'' ''Transaksi Tidak Ditemukan'')]"

definition maxReasonLength :: nat where "maxReasonLength = 64"

definition fieldViolationReasons :: "(string \<times> string) list" where
  "fieldViolationReasons = [(''Invalid Field Format'', ''Format Field Tidak Valid''),
     (''Invalid Mandatory Field'', ''Field Wajib Tidak Valid'')]"

definition ReasonForCode :: "string \<Rightarrow> BilingualText" where
  "ReasonForCode code = (case map_of snapReason code of Some r \<Rightarrow> r
     | None \<Rightarrow> bilingual ''Rejected'' ''Ditolak'')"

definition isFieldViolationCode :: "string \<Rightarrow> bool" where
  "isFieldViolationCode code = (if length code \<noteq> 7 \<or> \<not> HasPrefix code ''400'' then False
     else drop 5 code = ''01'' \<or> drop 5 code = ''02'')"

fun violation_reason :: "string \<Rightarrow> string \<Rightarrow> (string \<times> string) list \<Rightarrow> BilingualText" where
  "violation_reason code message [] = ReasonForCode code"
| "violation_reason code message ((english, indonesia) # ts) =
    (if HasPrefix message english
     then (let reason = bilingual message (indonesia @ drop (length english) message) in
           if maxReasonLength < length (bt_English reason) \<or> maxReasonLength < length (bt_Indonesia reason)
           then ReasonForCode code else reason)
     else violation_reason code message ts)"

definition ReasonForCodeMessage :: "string \<Rightarrow> string \<Rightarrow> BilingualText" where
  "ReasonForCodeMessage code message =
    (if \<not> isFieldViolationCode code then ReasonForCode code
     else violation_reason code message fieldViolationReasons)"

definition FlagStatusForCode :: "string \<Rightarrow> string" where
  "FlagStatusForCode code =
    (if code = CodeInquirySuccess \<or> code = CodePaymentSuccess \<or> code = CodeStatusSuccess
     then InquiryStatusSuccess else InquiryStatusFailed)"

section \<open>Rejection envelopes\<close>

record VAIdentityEcho =
  ec_PartnerServiceID :: string
  ec_CustomerNo :: string
  ec_VirtualAccountNo :: string
  ec_InquiryRequestID :: string
  ec_PaymentRequestID :: string

record SNAPErrorResponse =
  se_ResponseCode :: string
  se_ResponseMessage :: string
  se_Data :: info

definition zeroAmt :: Amount where "zeroAmt = \<lparr>am_Value = [], am_Currency = []\<rparr>"

definition zeroAccountData :: VAAccountData where
  "zeroAccountData = \<lparr>ad_PartnerServiceID = [], ad_CustomerNo = [], ad_VirtualAccountNo = [],
     ad_VirtualAccountName = [], ad_InquiryRequestID = [], ad_TotalAmount = None, ad_SubCompany = [],
     ad_BillDetails = [], ad_FreeTexts = [], ad_VirtualAccountTrxType = [], ad_FeeAmount = None,
     ad_InquiryStatus = [], ad_InquiryReason = None, ad_AdditionalInfo = []\<rparr>"

definition zeroPaymentStatus :: VAPaymentStatus where
  "zeroPaymentStatus = \<lparr>ps_PartnerServiceID = [], ps_CustomerNo = [], ps_VirtualAccountNo = [],
     ps_VirtualAccountName = [], ps_PaymentRequestID = [], ps_PaidAmount = None, ps_TotalAmount = None,
     ps_TrxDateTime = None, ps_ReferenceNo = [], ps_PaymentFlagStatus = [], ps_PaymentFlagReason = None,
     ps_BillDetails = [], ps_FreeTexts = []\<rparr>"

definition zeroStatusData :: VAStatusData where
  "zeroStatusData = \<lparr>sd_PaymentFlagStatus = [], sd_PaymentFlagReason = None, sd_PartnerServiceID = [],
     sd_CustomerNo = [], sd_VirtualAccountNo = [], sd_InquiryRequestID = [], sd_PaymentRequestID = [],
     sd_PaidAmount = None, sd_PaidBills = [], sd_TotalAmount = None, sd_TrxDateTime = None,
     sd_TransactionDate = None, sd_ReferenceNo = [], sd_PaymentType = [], sd_FlagAdvise = [],
     sd_BillDetails = [], sd_FreeTexts = [], sd_AdditionalInfo = []\<rparr>"

definition NewSNAPErrorResponse :: "string \<Rightarrow> string \<Rightarrow> SNAPErrorResponse" where
  "NewSNAPErrorResponse code message =
    \<lparr>se_ResponseCode = code, se_ResponseMessage = message, se_Data = []\<rparr>"

definition NewInquiryErrorResponse :: "string \<Rightarrow> string \<Rightarrow> VAIdentityEcho \<Rightarrow> VAInquiryResponse" where
  "NewInquiryErrorResponse code message echo =
    \<lparr>ir_ResponseCode = code, ir_ResponseMessage = message,
     ir_VirtualAccountData = Some (zeroAccountData
       \<lparr>ad_InquiryStatus := FlagStatusForCode code,
        ad_InquiryReason := Some (ReasonForCodeMessage code message),
        ad_PartnerServiceID := ec_PartnerServiceID echo,
        ad_CustomerNo := ec_CustomerNo echo,
        ad_VirtualAccountNo := ec_VirtualAccountNo echo,
        ad_InquiryRequestID := ec_InquiryRequestID echo,
        ad_TotalAmount := Some zeroAmt\<rparr>),
     ir_AdditionalInfo = []\<rparr>"

definition NewPaymentErrorResponse :: "string \<Rightarrow> string \<Rightarrow> VAIdentityEcho \<Rightarrow> VAPaymentResponse" where
  "NewPaymentErrorResponse code message echo =
    \<lparr>pr_ResponseCode = code, pr_ResponseMessage = message,
     pr_VirtualAccountData = Some (zeroPaymentStatus
       \<lparr>ps_PaymentFlagStatus := FlagStatusForCode code,
        ps_PaymentFlagReason := Some (ReasonForCodeMessage code message),
        ps_PartnerServiceID := ec_PartnerServiceID echo,
        ps_CustomerNo := ec_CustomerNo echo,
        ps_VirtualAccountNo := ec_VirtualAccountNo echo,
        ps_PaymentRequestID := ec_PaymentRequestID echo,
        ps_PaidAmount := Some zeroAmt,
        ps_TotalAmount := Some zeroAmt\<rparr>),
     pr_AdditionalInfo = []\<rparr>"

definition NewStatusErrorResponse :: "string \<Rightarrow> string \<Rightarrow> VAIdentityEcho \<Rightarrow> VAStatusResponse" where
  "NewStatusErrorResponse code message echo =
    \<lparr>sr_ResponseCode = code, sr_ResponseMessage = message,
     sr_VirtualAccountData = Some (zeroStatusData
       \<lparr>sd_PaymentFlagStatus := FlagStatusForCode code,
        sd_PaymentFlagReason := Some (ReasonForCodeMessage code message),
        sd_PartnerServiceID := ec_PartnerServiceID echo,
        sd_CustomerNo := ec_CustomerNo echo,
        sd_VirtualAccountNo := ec_VirtualAccountNo echo,
        sd_InquiryRequestID := ec_InquiryRequestID echo,
        sd_PaidAmount := Some zeroAmt,
        sd_TotalAmount := Some zeroAmt\<rparr>),
     sr_AdditionalInfo = []\<rparr>"

text \<open>A body of the services outside the three vendor ones is given by its bytes.\<close>

datatype snap_body = InquiryBody VAInquiryResponse | PaymentBody VAPaymentResponse
  | StatusBody VAStatusResponse | BareBody SNAPErrorResponse | RawBody string

definition NewSNAPErrorBody :: "string \<Rightarrow> string \<Rightarrow> string \<Rightarrow> VAIdentityEcho \<Rightarrow> snap_body" where
  "NewSNAPErrorBody service code message echo =
    (if service = ServiceCodeInquiry then InquiryBody (NewInquiryErrorResponse code message echo)
     else if service = ServiceCodePayment then PaymentBody (NewPaymentErrorResponse code message echo)
     else if service = ServiceCodeStatus then StatusBody (NewStatusErrorResponse code message echo)
     else BareBody (NewSNAPErrorResponse code message))"

section \<open>Reasons are complete and within the cap\<close>

definition displayable :: "BilingualText \<Rightarrow> bool" where
  "displayable r = (bt_English r \<noteq> [] \<and> bt_Indonesia r \<noteq> [] \<and>
     length (bt_English r) \<le> maxReasonLength \<and> length (bt_Indonesia r) \<le> maxReasonLength)"

lemma snapReason_displayable: "\<forall>r \<in> snd ` set snapReason. displayable r"
  by (simp add: snapReason_def displayable_def maxReasonLength_def)

lemma ReasonForCode_displayable: "displayable (ReasonForCode code)"
proof (cases "map_of snapReason code")
  case None
  then show ?thesis by (simp add: ReasonForCode_def displayable_def maxReasonLength_def)
next
  case (Some r)
  then have "r \<in> snd ` set snapReason" by (metis image_eqI map_of_SomeD snd_conv)
  then have "displayable r" using snapReason_displayable by blast
  with Some show ?thesis by (simp add: ReasonForCode_def)
qed

lemma violation_reason_displayable:
  "\<forall>(e, i) \<in> set ts. e \<noteq> [] \<and> i \<noteq> [] \<Longrightarrow> displayable (violation_reason code message ts)"
proof (induction code message ts rule: violation_reason.induct)
  case (2 code message e i ts)
  have "displayable (bilingual message (i @ drop (length e) message))"
    if "HasPrefix message e"
      "\<not> (maxReasonLength < length message \<or> maxReasonLength < length (i @ drop (length e) message))"
    using that "2.prems" by (auto simp: displayable_def)
  moreover have "displayable (violation_reason code message ts)" if "\<not> HasPrefix message e"
    using "2.IH" "2.prems" that by auto
  ultimately show ?case by (simp add: ReasonForCode_displayable Let_def)
qed (simp add: ReasonForCode_displayable)

lemma ReasonForCodeMessage_displayable: "displayable (ReasonForCodeMessage code message)"
  using violation_reason_displayable [of fieldViolationReasons]
  by (simp add: ReasonForCodeMessage_def ReasonForCode_displayable fieldViolationReasons_def)

text \<open>A field violation keeps the field name in both languages.\<close>

lemma field_violation_names_field:
  assumes "length service = 2" and "length field \<le> 39"
  shows "ReasonForCodeMessage (CodeInvalidField service) (''Invalid Field Format '' @ field) =
      bilingual (''Invalid Field Format '' @ field) (''Format Field Tidak Valid '' @ field)"
    and "ReasonForCodeMessage (CodeMissingMandatory service) (''Invalid Mandatory Field '' @ field) =
      bilingual (''Invalid Mandatory Field '' @ field) (''Field Wajib Tidak Valid '' @ field)"
  using assms
  by (auto simp: ReasonForCodeMessage_def isFieldViolationCode_def fieldViolationReasons_def code_helpers
      maxReasonLength_def Let_def)

section \<open>Rejections are complete envelopes\<close>

text \<open>
  What the vendor needs of a rejection: the code and message, a data block, a displayable reason and
  the flag of a failed transaction. The bare body is the answer outside the three transfer-va
  services.
\<close>

fun complete_rejection :: "snap_body \<Rightarrow> bool" where
  "complete_rejection (InquiryBody r) = (case ir_VirtualAccountData r of None \<Rightarrow> False
     | Some d \<Rightarrow> ad_InquiryStatus d = InquiryStatusFailed \<and> ad_TotalAmount d \<noteq> None \<and>
         (case ad_InquiryReason d of None \<Rightarrow> False | Some t \<Rightarrow> displayable t))"
| "complete_rejection (PaymentBody r) = (case pr_VirtualAccountData r of None \<Rightarrow> False
     | Some d \<Rightarrow> ps_PaymentFlagStatus d = PaymentFlagReject \<and> ps_PaidAmount d \<noteq> None \<and> ps_TotalAmount d \<noteq> None \<and>
         (case ps_PaymentFlagReason d of None \<Rightarrow> False | Some t \<Rightarrow> displayable t))"
| "complete_rejection (StatusBody r) = (case sr_VirtualAccountData r of None \<Rightarrow> False
     | Some d \<Rightarrow> sd_PaymentFlagStatus d = PaymentFlagReject \<and> sd_PaidAmount d \<noteq> None \<and> sd_TotalAmount d \<noteq> None \<and>
         (case sd_PaymentFlagReason d of None \<Rightarrow> False | Some t \<Rightarrow> displayable t))"
| "complete_rejection (BareBody r) = False"
| "complete_rejection (RawBody s) = False"

definition body_code :: "snap_body \<Rightarrow> string" where
  "body_code b = (case b of InquiryBody r \<Rightarrow> ir_ResponseCode r | PaymentBody r \<Rightarrow> pr_ResponseCode r
     | StatusBody r \<Rightarrow> sr_ResponseCode r | BareBody r \<Rightarrow> se_ResponseCode r | RawBody s \<Rightarrow> [])"

definition success_codes :: "string set" where
  "success_codes = {CodeInquirySuccess, CodePaymentSuccess, CodeStatusSuccess}"

lemma FlagStatusForCode_iff: "FlagStatusForCode code = InquiryStatusSuccess \<longleftrightarrow> code \<in> success_codes"
  by (auto simp: FlagStatusForCode_def success_codes_def code_consts)

lemma transfer_va_rejection_complete:
  assumes "service \<in> {ServiceCodeInquiry, ServiceCodePayment, ServiceCodeStatus}" and "code \<notin> success_codes"
  shows "complete_rejection (NewSNAPErrorBody service code message echo)"
    and "body_code (NewSNAPErrorBody service code message echo) = code"
proof -
  have flag: "FlagStatusForCode code = ''01''"
    using assms(2) by (auto simp: FlagStatusForCode_def success_codes_def code_consts)
  show "complete_rejection (NewSNAPErrorBody service code message echo)"
    using assms(1) ReasonForCodeMessage_displayable [of code message]
    by (auto simp: NewSNAPErrorBody_def NewInquiryErrorResponse_def NewPaymentErrorResponse_def
        NewStatusErrorResponse_def flag code_consts)
  show "body_code (NewSNAPErrorBody service code message echo) = code"
    by (simp add: NewSNAPErrorBody_def NewInquiryErrorResponse_def NewPaymentErrorResponse_def
        NewStatusErrorResponse_def NewSNAPErrorResponse_def body_code_def)
qed

end
