(* ===== verification/Database.thy ===== *)
theory Database
  imports SnapCodes
begin

text \<open>
  The state behind \<^verbatim>\<open>internal/infrastructure/database/va_repository.go\<close>: the PostgreSQL tables of
  \<^verbatim>\<open>db/migrations\<close> as lists of rows in insertion order, the notification queue, and the environment
  a request runs in.

  The environment is a parameter. It holds the clock reading of the request, the identifiers
  \<^verbatim>\<open>uuid.New\<close> hands out, the failures of the database and of the lock service (any statement may fail,
  with any error, and then has no effect), the reading of a text as a \<^verbatim>\<open>NUMERIC(16,2)\<close> value in
  hundredths, the text the driver produces when it scans such a value into a Go string, the answer
  of the task queue, whether the queue client and the delivery repository are configured (both
  are optional dependencies), and the order of the rows an \<^verbatim>\<open>ORDER BY\<close> leaves equal.
\<close>

section \<open>Rows\<close>

text \<open>A nullable column is an option. Amounts are in hundredths.\<close>

record txn =
  t_id :: string
  t_partner_service_id :: string
  t_customer_no :: string
  t_customer_name :: string
  t_customer_email :: "string option"
  t_customer_phone :: "string option"
  t_virtual_account_no :: string
  t_inquiry_request_id :: string
  t_trx_id :: string
  t_notification_url :: string
  t_payment_request_id :: "string option"
  t_status :: string
  t_total_amount :: "int option"
  t_paid_amount :: "int option"
  t_currency :: string
  t_reference_no :: "string option"
  t_channel_code :: "string option"
  t_hashed_source_account_no :: "string option"
  t_source_bank_code :: "string option"
  t_journal_num :: "string option"
  t_payment_type :: "string option"
  t_flag_advise :: "string option"
  t_paid_bills :: "string option"
  t_sub_company :: "string option"
  t_trx_date_time :: "gtime option"
  t_free_texts :: "BilingualText list option"
  t_va_type :: "string option"
  t_transaction_date :: "gtime option"
  t_expired_date :: "gtime option"
  t_created_at :: gtime
  t_updated_at :: gtime

record instalment =
  p_id :: string
  p_transaction_id :: string
  p_payment_request_id :: "string option"
  p_amount :: int
  p_reference_no :: string
  p_paid_at :: gtime
  p_created_at :: gtime

record bill_row =
  b_id :: string
  b_transaction_id :: string
  b_bill_code :: string
  b_bill_no :: string
  b_bill_name :: string
  b_bill_short_name :: string
  b_description_en :: "string option"
  b_description_id :: "string option"
  b_sub_company :: string
  b_amount :: "int option"
  b_amount_currency :: "string option"
  b_amount_label :: string
  b_amount_value :: string
  b_reference_no :: string
  b_biller_reference_id :: string
  b_status :: string
  b_reason_en :: "string option"
  b_reason_id :: "string option"
  b_created_at :: gtime

record flag_row =
  f_id :: string
  f_external_id :: string
  f_payment_request_id :: string
  f_virtual_account_no :: string
  f_response_code :: string
  f_response_message :: string
  f_payment_flag_status :: string
  f_virtual_account_data :: VAPaymentStatus
  f_created_at :: gtime

record VAStatusInquiryAttempt =
  at_ID :: string
  at_VirtualAccountNo :: string
  at_ClientID :: string
  at_PaymentRequestID :: string
  at_Outcome :: string
  at_VendorResponseCode :: string
  at_VendorPaymentFlagStatus :: string
  at_DurationMs :: int
  at_ErrorDetail :: string
  at_AttemptedAt :: gtime

section \<open>The world\<close>

record world =
  w_txns :: "txn list"
  w_payments :: "instalment list"
  w_bills :: "bill_row list"
  w_flags :: "flag_row list"
  w_accounts :: "VAAccount list"
  w_deliveries :: "NotificationDelivery list"
  w_seqs :: "(string \<times> nat) list"
  w_attempts :: "VAStatusInquiryAttempt list"
  w_queue :: "PaymentNotificationPayload list"
  w_uuids :: nat

text \<open>What can fail, with the arguments the code passes.\<close>

datatype dbop =
    OpSaveInquiry string | OpGetInquiry string | OpClaim string | OpSavePayment string
  | OpGetPayment string | OpGetPaymentByID string | OpUpdatePaymentStatus string
  | OpGetBills string | OpSaveBills string | OpUpdateVAStatus string | OpGetVA string
  | OpCreateDelivery string | OpUpdateDelivery string | OpLatestDelivery string | OpListResend
  | OpReconstruct string | OpExistsDelivery string
  | OpLock string | OpNextSeq string | OpCountStatic string
  | OpFindInstalment string | OpSaveVAPayment string
  | OpSaveAccount string | OpGetAccount string | OpGetAccountByPartner string string
  | OpUpdateAccount string | OpSaveNoBill string | OpFindFlag string string | OpRecordFlag string string
  | OpListAccounts | OpListTxns | OpListStale | OpCreateAttempt | OpSettle string

record env =
  e_now :: gtime
  e_uuid :: "nat \<Rightarrow> string"
  e_fault :: "dbop \<Rightarrow> gerr option"
  e_numeric :: "string \<Rightarrow> int option"
  e_scan :: "int \<Rightarrow> string"
  e_enqueue :: "PaymentNotificationPayload \<Rightarrow> gerr option"
  e_notifier :: bool
  e_delivery_repo :: bool
  e_tie :: "string \<Rightarrow> int"

type_synonym 'a op = "world \<Rightarrow> (gerr + 'a) \<times> world"

definition guard :: "env \<Rightarrow> dbop \<Rightarrow> 'a op \<Rightarrow> 'a op" where
  "guard e opn f w = (case e_fault e opn of Some err \<Rightarrow> (Inl err, w) | None \<Rightarrow> f w)"

lemma guard_ok [simp]: "e_fault e opn = None \<Longrightarrow> guard e opn f w = f w"
  by (simp add: guard_def)

lemma guard_fault [simp]: "e_fault e opn = Some err \<Longrightarrow> guard e opn f w = (Inl err, w)"
  by (simp add: guard_def)

lemma snd_guard: "snd (guard e opn f w) = (if e_fault e opn = None then snd (f w) else w)"
  by (auto simp: guard_def split: option.splits)

text \<open>The state a result carries does not depend on how the result is rewrapped.\<close>

lemma snd_rewrap:
  "snd (case x of (Inl err, w) \<Rightarrow> (Inl (g err), w) | (Inr v, w) \<Rightarrow> (Inr (h v), w)) = snd x"
  by (auto split: prod.splits sum.splits)

definition fresh_id :: "env \<Rightarrow> world \<Rightarrow> string" where
  "fresh_id e w = e_uuid e (w_uuids w)"

definition next_uuid :: "world \<Rightarrow> world" where
  "next_uuid w = w\<lparr>w_uuids := w_uuids w + 1\<rparr>"

text \<open>\<^verbatim>\<open>amount::text\<close> of a \<^verbatim>\<open>NUMERIC(16,2)\<close> value, and of \<^verbatim>\<open>COALESCE(amount, 0)\<close>.\<close>

definition numeric_text :: "int \<Rightarrow> string" where
  "numeric_text n = (if n < 0 then CHR ''-'' # cents_text (nat (- n)) else cents_text (nat n))"

definition numeric_text0 :: "int option \<Rightarrow> string" where
  "numeric_text0 n = (case n of None \<Rightarrow> ''0'' | Some k \<Rightarrow> numeric_text k)"

definition scan_numeric0 :: "env \<Rightarrow> int option \<Rightarrow> string" where
  "scan_numeric0 e n = (case n of None \<Rightarrow> ''0'' | Some k \<Rightarrow> e_scan e k)"

definition null_if_empty :: "string \<Rightarrow> string option" where
  "null_if_empty s = (if s = [] then None else Some s)"

definition or_empty :: "string option \<Rightarrow> string" where
  "or_empty s = (case s of None \<Rightarrow> [] | Some x \<Rightarrow> x)"

lemma or_empty_simps [simp]: "or_empty None = []" "or_empty (Some s) = s"
  by (simp_all add: or_empty_def)

text \<open>
  \<^verbatim>\<open>ORDER BY\<close>: the rows by a key. PostgreSQL hands out rows with equal keys in any order, and in another one the next
  time; here that order is a rank of the rows' identifiers that belongs to the environment of the query.
\<close>

definition order_by :: "env \<Rightarrow> ('r \<Rightarrow> string) \<Rightarrow> ('r \<Rightarrow> int) \<Rightarrow> 'r list \<Rightarrow> 'r list" where
  "order_by e ident k rows = sort_key k (sort_key (\<lambda>r. e_tie e (ident r)) rows)"

lemma set_order_by [simp]: "set (order_by e ident k rows) = set rows"
  and length_order_by [simp]: "length (order_by e ident k rows) = length rows"
  by (simp_all add: order_by_def)

lemma order_by_distinct:
  assumes "distinct (map k rows)"
  shows "order_by e ident k rows = sort_key k rows"
proof -
  have "distinct (map k (sort_key f xs)) = distinct (map k xs)" for f :: "'a \<Rightarrow> int" and xs
    by (simp add: distinct_map)
  with assms show ?thesis unfolding order_by_def
    by (intro map_sorted_distinct_set_unique [of k]) (simp_all add: distinct_map)
qed

text \<open>\<^verbatim>\<open>ORDER BY ... LIMIT 1\<close>: a row no other row beats; the earliest such row of the table.\<close>

fun top_by :: "('r \<Rightarrow> 'r \<Rightarrow> bool) \<Rightarrow> 'r list \<Rightarrow> 'r option" where
  "top_by better [] = None"
| "top_by better (x # xs) = (case top_by better xs of None \<Rightarrow> Some x
     | Some y \<Rightarrow> Some (if better y x then y else x))"

lemma top_by_None [simp]: "top_by better rows = None \<longleftrightarrow> rows = []"
  by (cases rows) (auto split: option.splits)

lemma top_by_mem: "top_by better rows = Some r \<Longrightarrow> r \<in> set rows"
  by (induction rows arbitrary: r) (auto split: option.splits if_splits)

text \<open>An ordering a query sorts by: comparing a key of the row.\<close>

locale row_order =
  fixes key :: "'r \<Rightarrow> 'k :: linorder" and better :: "'r \<Rightarrow> 'r \<Rightarrow> bool"
  assumes better_key: "better r s \<longleftrightarrow> key r < key s"
begin

lemma top_least: "top_by better rows = Some r \<Longrightarrow> s \<in> set rows \<Longrightarrow> key r \<le> key s"
proof (induction rows arbitrary: r)
  case (Cons x xs)
  show ?case
  proof (cases "top_by better xs")
    case None
    with Cons.prems show ?thesis by simp
  next
    case (Some y)
    have "key y \<le> key s" if "s \<in> set xs" using Cons.IH [OF Some that] .
    moreover from Some Cons.prems have "r = (if better y x then y else x)" by simp
    ultimately show ?thesis using Cons.prems(2) better_key [of y x] by auto
  qed
qed simp

end

section \<open>Hypotheses on the environment\<close>

text \<open>
  What the code relies on of PostgreSQL and the driver: a canonical two-decimal text is read as its
  value, and a scanned amount is a text \<^verbatim>\<open>ParseFloat\<close> reads as that amount.
\<close>

definition numeric_env :: "env \<Rightarrow> bool" where
  "numeric_env e = (
     (\<forall>s. amountPattern s \<longrightarrow> amount_cents s < 10 ^ 16 \<longrightarrow> e_numeric e s = Some (int (amount_cents s))) \<and>
     (\<forall>n. n < 10 ^ 15 \<longrightarrow> e_scan e (int n) \<noteq> [] \<and> TrimSpace (e_scan e (int n)) = e_scan e (int n) \<and>
        ParseFloat (e_scan e (int n)) = Some (money n)))"

definition no_faults :: "env \<Rightarrow> bool" where
  "no_faults e = (\<forall>opn. e_fault e opn = None)"

lemma numeric_env_read:
  "numeric_env e \<Longrightarrow> amountPattern s \<Longrightarrow> amount_cents s < 10 ^ 16 \<Longrightarrow> e_numeric e s = Some (int (amount_cents s))"
  by (simp add: numeric_env_def)

lemma numeric_env_text:
  "numeric_env e \<Longrightarrow> n < 10 ^ 16 \<Longrightarrow> e_numeric e (numeric_text (int n)) = Some (int n)"
  using numeric_env_read [OF _ cents_text_pattern] by (simp add: numeric_text_def)

lemma numeric_env_scan:
  assumes "numeric_env e" and "n < 10 ^ 15"
  shows "e_scan e (int n) \<noteq> []" and "TrimSpace (e_scan e (int n)) = e_scan e (int n)"
    and "ParseFloat (e_scan e (int n)) = Some (money n)"
  using assms by (simp_all add: numeric_env_def)

end
