(* ===== verification/TxnRepo.thy ===== *)
theory TxnRepo
  imports Database
begin

text \<open>
  The operations of \<^verbatim>\<open>VARepository\<close> on \<^verbatim>\<open>va_transactions\<close>, \<^verbatim>\<open>va_payments\<close> and \<^verbatim>\<open>va_bill_details\<close>. An
  operation is a function of the environment, its arguments and the world; a Go pointer argument the
  method fills in is returned. The unique index on \<^verbatim>\<open>inquiry_request_id\<close>, the partial unique index on
  \<^verbatim>\<open>va_payments.payment_request_id\<close>, the primary keys and the two foreign keys are checked where the
  statement would violate them.
\<close>

section \<open>Shared pieces\<close>

definition scan_null_error :: gerr where
  "scan_null_error = ErrOther ''cannot scan NULL into *string''"

definition numeric_error :: gerr where
  "numeric_error = ErrOther ''invalid input syntax for type numeric''"

definition update_txns :: "(txn \<Rightarrow> bool) \<Rightarrow> (txn \<Rightarrow> txn) \<Rightarrow> world \<Rightarrow> world" where
  "update_txns p f w = w\<lparr>w_txns := update_where p f (w_txns w)\<rparr>"

text \<open>One \<^verbatim>\<open>va_transactions\<close> row as a \<^verbatim>\<open>VAInquiryRecord\<close>; a NULL \<^verbatim>\<open>total_amount\<close> does not scan.\<close>

definition scan_inquiry :: "env \<Rightarrow> string \<Rightarrow> string \<Rightarrow> txn \<Rightarrow> gerr + VAInquiryRecord" where
  "scan_inquiry e paid prid t = (case t_total_amount t of None \<Rightarrow> Inl scan_null_error
     | Some n \<Rightarrow> Inr
        \<lparr>ri_ID = t_id t, ri_PartnerServiceID = t_partner_service_id t, ri_CustomerNo = t_customer_no t,
         ri_CustomerName = t_customer_name t, ri_VirtualAccountNo = t_virtual_account_no t,
         ri_InquiryRequestID = t_inquiry_request_id t, ri_TrxID = t_trx_id t,
         ri_NotificationURL = t_notification_url t, ri_Status = t_status t,
         ri_TotalAmount = e_scan e n, ri_Currency = t_currency t, ri_VAType = or_empty (t_va_type t),
         ri_SubCompany = or_empty (t_sub_company t), ri_PaidAmount = paid, ri_PaymentRequestID = prid,
         ri_FreeTexts = (case t_free_texts t of None \<Rightarrow> [] | Some ts \<Rightarrow> ts),
         ri_ExpiredDate = t_expired_date t, ri_CreatedAt = t_created_at t, ri_UpdatedAt = t_updated_at t\<rparr>)"

section \<open>Inquiries\<close>

definition free_texts_column :: "BilingualText list \<Rightarrow> BilingualText list option" where
  "free_texts_column ts = (if ts = [] then None else Some ts)"

definition inquiry_row :: "VAInquiryRecord \<Rightarrow> int \<Rightarrow> txn" where
  "inquiry_row r tot =
    \<lparr>t_id = ri_ID r, t_partner_service_id = ri_PartnerServiceID r, t_customer_no = ri_CustomerNo r,
     t_customer_name = ri_CustomerName r, t_customer_email = None, t_customer_phone = None,
     t_virtual_account_no = ri_VirtualAccountNo r, t_inquiry_request_id = ri_InquiryRequestID r,
     t_trx_id = ri_TrxID r, t_notification_url = ri_NotificationURL r, t_payment_request_id = None,
     t_status = ri_Status r, t_total_amount = Some tot, t_paid_amount = None, t_currency = ri_Currency r,
     t_reference_no = None, t_channel_code = None, t_hashed_source_account_no = None,
     t_source_bank_code = None, t_journal_num = None, t_payment_type = None, t_flag_advise = None,
     t_paid_bills = None, t_sub_company = Some (ri_SubCompany r), t_trx_date_time = None,
     t_free_texts = free_texts_column (ri_FreeTexts r), t_va_type = Some (ri_VAType r),
     t_transaction_date = None, t_expired_date = ri_ExpiredDate r, t_created_at = ri_CreatedAt r,
     t_updated_at = ri_UpdatedAt r\<rparr>"

text \<open>The \<^verbatim>\<open>DO UPDATE SET\<close> list of \<^verbatim>\<open>SaveInquiry\<close>; \<open>x\<close> is \<^verbatim>\<open>EXCLUDED\<close>.\<close>

definition inquiry_upsert :: "txn \<Rightarrow> txn \<Rightarrow> txn" where
  "inquiry_upsert x t = t\<lparr>
     t_status := t_status x,
     t_notification_url := t_notification_url x,
     t_sub_company := orelse (null_if_empty (or_empty (t_sub_company x))) (t_sub_company t),
     t_free_texts := orelse (t_free_texts x) (t_free_texts t),
     t_expired_date := t_expired_date x,
     t_customer_name := (if t_customer_name x = [] then t_customer_name t else t_customer_name x),
     t_trx_id := (if t_trx_id x = [] then t_trx_id t else t_trx_id x),
     t_va_type := orelse (null_if_empty (or_empty (t_va_type x))) (t_va_type t),
     t_total_amount := t_total_amount x,
     t_currency := t_currency x,
     t_updated_at := t_updated_at x\<rparr>"

definition has_inquiry_id :: "string \<Rightarrow> txn \<Rightarrow> bool" where
  "has_inquiry_id i t = (t_inquiry_request_id t = i)"

text \<open>\<^verbatim>\<open>INSERT ... ON CONFLICT (inquiry_request_id) DO UPDATE ... RETURNING id\<close>.\<close>

definition upsert_txn :: "(txn \<Rightarrow> txn \<Rightarrow> txn) \<Rightarrow> txn \<Rightarrow> string op" where
  "upsert_txn upd x w = (case find (has_inquiry_id (t_inquiry_request_id x)) (w_txns w) of
      Some old \<Rightarrow> (Inr (t_id old), update_txns (has_inquiry_id (t_inquiry_request_id x)) (upd x) w)
    | None \<Rightarrow> if t_id x \<in> t_id ` set (w_txns w) then (Inl ErrUniqueViolation, w)
              else (Inr (t_id x), w\<lparr>w_txns := w_txns w @ [x]\<rparr>))"

definition SaveInquiry :: "env \<Rightarrow> VAInquiryRecord \<Rightarrow> VAInquiryRecord op" where
  "SaveInquiry e inq w0 = (
     let w = (if ri_ID inq = [] then next_uuid w0 else w0);
         r = inq\<lparr>ri_ID := (if ri_ID inq = [] then fresh_id e w0 else ri_ID inq),
                 ri_CreatedAt := (if IsZero (ri_CreatedAt inq) then e_now e else ri_CreatedAt inq),
                 ri_UpdatedAt := e_now e\<rparr>
     in guard e (OpSaveInquiry (ri_InquiryRequestID inq)) (\<lambda>w.
          case e_numeric e (ri_TotalAmount r) of None \<Rightarrow> (Inl numeric_error, w)
          | Some tot \<Rightarrow> (case upsert_txn inquiry_upsert (inquiry_row r tot) w of
               (Inl err, w') \<Rightarrow> (Inl err, w')
             | (Inr i, w') \<Rightarrow> (Inr (r\<lparr>ri_ID := i\<rparr>), w'))) w)"

definition GetInquiry :: "env \<Rightarrow> string \<Rightarrow> VAInquiryRecord op" where
  "GetInquiry e i = guard e (OpGetInquiry i) (\<lambda>w.
     (case find (has_inquiry_id i) (w_txns w) of None \<Rightarrow> Inl ErrVAInvalidBill
      | Some t \<Rightarrow> scan_inquiry e (numeric_text0 (t_paid_amount t)) [] t, w))"

definition claimable :: "txn \<Rightarrow> bool" where
  "claimable t = (t_inquiry_request_id t = [] \<or> t_inquiry_request_id t = t_trx_id t \<or>
     t_inquiry_request_id t = t_virtual_account_no t)"

definition ClaimInquiryRequestID :: "env \<Rightarrow> string \<Rightarrow> string \<Rightarrow> unit op" where
  "ClaimInquiryRequestID e tid inq = guard e (OpClaim tid) (\<lambda>w.
     if (\<exists>t \<in> set (w_txns w). t_id t = tid \<and> claimable t) \<and>
        (\<exists>t \<in> set (w_txns w). t_id t \<noteq> tid \<and> t_inquiry_request_id t = inq)
     then (Inl ErrUniqueViolation, w)
     else (Inr (), update_txns (\<lambda>t. t_id t = tid \<and> claimable t)
             (\<lambda>t. t\<lparr>t_inquiry_request_id := inq, t_updated_at := e_now e\<rparr>) w))"

section \<open>Payments\<close>

definition Itoa :: "int \<Rightarrow> string" where
  "Itoa n = (if n < 0 then CHR ''-'' # dec (nat (- n)) else dec (nat n))"

definition channel_column :: "int \<Rightarrow> string" where
  "channel_column c = (if c \<noteq> 0 then Itoa c else [])"

text \<open>The row both payment writers insert; \<^verbatim>\<open>SavePayment\<close> leaves \<^verbatim>\<open>va_type\<close> out.\<close>

definition payment_row :: "VAPaymentRecord \<Rightarrow> int \<Rightarrow> int \<Rightarrow> string option \<Rightarrow> txn" where
  "payment_row r tot paid vatype =
    \<lparr>t_id = rp_ID r, t_partner_service_id = rp_PartnerServiceID r, t_customer_no = rp_CustomerNo r,
     t_customer_name = rp_CustomerName r, t_customer_email = Some (rp_CustomerEmail r),
     t_customer_phone = Some (rp_CustomerPhone r), t_virtual_account_no = rp_VirtualAccountNo r,
     t_inquiry_request_id = rp_InquiryRequestID r, t_trx_id = rp_TrxID r,
     t_notification_url = rp_NotificationURL r, t_payment_request_id = Some (rp_PaymentRequestID r),
     t_status = rp_Status r, t_total_amount = Some tot, t_paid_amount = Some paid,
     t_currency = rp_Currency r, t_reference_no = Some (rp_ReferenceNo r),
     t_channel_code = Some (channel_column (rp_ChannelCode r)),
     t_hashed_source_account_no = Some (rp_HashedSourceAccountNo r),
     t_source_bank_code = Some (rp_SourceBankCode r), t_journal_num = Some (rp_JournalNum r),
     t_payment_type = Some (rp_PaymentType r), t_flag_advise = Some (rp_FlagAdvise r),
     t_paid_bills = Some (rp_PaidBills r), t_sub_company = Some (rp_SubCompany r),
     t_trx_date_time = rp_TrxDateTime r, t_free_texts = free_texts_column (rp_FreeTexts r),
     t_va_type = vatype, t_transaction_date = Some (rp_TransactionDate r), t_expired_date = None,
     t_created_at = rp_CreatedAt r, t_updated_at = rp_UpdatedAt r\<rparr>"

definition payment_upsert :: "txn \<Rightarrow> txn \<Rightarrow> txn" where
  "payment_upsert x t = t\<lparr>
     t_payment_request_id := t_payment_request_id x,
     t_customer_name := (if t_customer_name t \<noteq> [] then t_customer_name t else t_customer_name x),
     t_customer_email := t_customer_email x,
     t_customer_phone := t_customer_phone x,
     t_status := t_status x,
     t_paid_amount := t_paid_amount x,
     t_reference_no := t_reference_no x,
     t_channel_code := t_channel_code x,
     t_hashed_source_account_no := t_hashed_source_account_no x,
     t_source_bank_code := t_source_bank_code x,
     t_journal_num := t_journal_num x,
     t_payment_type := t_payment_type x,
     t_flag_advise := t_flag_advise x,
     t_paid_bills := t_paid_bills x,
     t_sub_company := t_sub_company x,
     t_trx_date_time := t_trx_date_time x,
     t_free_texts := t_free_texts x,
     t_transaction_date := t_transaction_date x,
     t_updated_at := t_updated_at x\<rparr>"

text \<open>The defaults both payment writers fill in before their statement.\<close>

definition payment_defaults :: "env \<Rightarrow> VAPaymentRecord \<Rightarrow> world \<Rightarrow> VAPaymentRecord" where
  "payment_defaults e pay w = pay\<lparr>
     rp_ID := (if rp_ID pay = [] then fresh_id e w else rp_ID pay),
     rp_CreatedAt := (if IsZero (rp_CreatedAt pay) then e_now e else rp_CreatedAt pay),
     rp_UpdatedAt := e_now e\<rparr>"

text \<open>
  \<^verbatim>\<open>SavePayment\<close> executes the upsert and does not read the row's identifier back: the record it leaves
  to its caller carries the identifier it was given, or the fresh one.
\<close>

definition SavePayment :: "env \<Rightarrow> VAPaymentRecord \<Rightarrow> VAPaymentRecord op" where
  "SavePayment e pay w0 = (
     let w = (if rp_ID pay = [] then next_uuid w0 else w0);
         r = payment_defaults e pay w0;
         totalAmount = (if rp_TotalAmount r = [] then rp_PaidAmount r else rp_TotalAmount r)
     in guard e (OpSavePayment (rp_InquiryRequestID pay)) (\<lambda>w.
          case (e_numeric e totalAmount, e_numeric e (rp_PaidAmount r)) of
            (Some tot, Some paid) \<Rightarrow> (case upsert_txn payment_upsert (payment_row r tot paid None) w of
                (Inl err, w') \<Rightarrow> (Inl err, w')
              | (Inr i, w') \<Rightarrow> (Inr r, w'))
          | _ \<Rightarrow> (Inl numeric_error, w)) w)"

definition Atoi :: "string \<Rightarrow> int" where
  "Atoi s = (case s of [] \<Rightarrow> 0
     | c # r \<Rightarrow> let ds = (if c = CHR ''-'' \<or> c = CHR ''+'' then r else s) in
        if ds \<noteq> [] \<and> list_all is_digit ds
        then (if c = CHR ''-'' then - int (num_of ds) else int (num_of ds)) else 0)"

text \<open>\<^verbatim>\<open>paymentSelectColumns\<close> and \<^verbatim>\<open>scanPayment\<close>: every nullable column has a default, so the scan succeeds.\<close>

definition scanPayment :: "env \<Rightarrow> txn \<Rightarrow> VAPaymentRecord" where
  "scanPayment e t =
    \<lparr>rp_ID = t_id t, rp_PartnerServiceID = t_partner_service_id t, rp_CustomerNo = t_customer_no t,
     rp_CustomerName = t_customer_name t, rp_CustomerEmail = or_empty (t_customer_email t),
     rp_CustomerPhone = or_empty (t_customer_phone t), rp_VirtualAccountNo = t_virtual_account_no t,
     rp_InquiryRequestID = t_inquiry_request_id t, rp_TrxID = t_trx_id t, rp_NotificationURL = [],
     rp_PaymentRequestID = or_empty (t_payment_request_id t),
     rp_PaidAmount = scan_numeric0 e (t_paid_amount t),
     rp_TotalAmount = scan_numeric0 e (orelse (t_total_amount t) (t_paid_amount t)),
     rp_Currency = t_currency t, rp_Status = t_status t, rp_VAType = [],
     rp_ReferenceNo = or_empty (t_reference_no t),
     rp_ChannelCode = Atoi (or_empty (t_channel_code t)),
     rp_HashedSourceAccountNo = or_empty (t_hashed_source_account_no t),
     rp_SourceBankCode = or_empty (t_source_bank_code t), rp_JournalNum = or_empty (t_journal_num t),
     rp_PaymentType = or_empty (t_payment_type t), rp_FlagAdvise = or_empty (t_flag_advise t),
     rp_PaidBills = or_empty (t_paid_bills t), rp_SubCompany = or_empty (t_sub_company t),
     rp_TrxDateTime = t_trx_date_time t,
     rp_FreeTexts = (case t_free_texts t of None \<Rightarrow> [] | Some ts \<Rightarrow> ts),
     rp_TransactionDate = (case t_transaction_date t of None \<Rightarrow> t_updated_at t | Some d \<Rightarrow> d),
     rp_CreatedAt = t_created_at t, rp_UpdatedAt = t_updated_at t\<rparr>"

definition has_payment_id :: "string \<Rightarrow> txn \<Rightarrow> bool" where
  "has_payment_id i t = (t_payment_request_id t = Some i)"

definition GetPayment :: "env \<Rightarrow> string \<Rightarrow> VAPaymentRecord op" where
  "GetPayment e i = guard e (OpGetPayment i) (\<lambda>w.
     (case find (\<lambda>t. has_payment_id i t \<or> has_inquiry_id i t) (w_txns w) of
        None \<Rightarrow> Inl ErrVAInvalidBill | Some t \<Rightarrow> Inr (scanPayment e t), w))"

definition GetPaymentByPaymentRequestID :: "env \<Rightarrow> string \<Rightarrow> VAPaymentRecord op" where
  "GetPaymentByPaymentRequestID e i = guard e (OpGetPaymentByID i) (\<lambda>w.
     (case find (has_payment_id i) (w_txns w) of
        None \<Rightarrow> Inl ErrVAInvalidBill | Some t \<Rightarrow> Inr (scanPayment e t), w))"

definition UpdatePaymentStatus :: "env \<Rightarrow> string \<Rightarrow> string \<Rightarrow> unit op" where
  "UpdatePaymentStatus e i status = guard e (OpUpdatePaymentStatus i) (\<lambda>w.
     let p = (\<lambda>t. has_payment_id i t \<or> has_inquiry_id i t);
         w' = update_txns p (\<lambda>t. t\<lparr>t_status := status, t_updated_at := e_now e\<rparr>) w
     in if count_where p (w_txns w) = 0 then (Inl ErrVAInvalidBill, w') else (Inr (), w'))"

section \<open>Bills\<close>

text \<open>\<^verbatim>\<open>fmt.Sprintf("%.2f", x)\<close> of a non-negative binary64 value: the nearest hundredth, ties to even.\<close>

definition sprintf_2f :: "rat \<Rightarrow> string" where
  "sprintf_2f x = numeric_text (rne (x * 100))"

definition text_of_columns :: "string option \<Rightarrow> string option \<Rightarrow> BilingualText option" where
  "text_of_columns en ind = (if en = None \<and> ind = None then None
     else Some (bilingual (or_empty en) (or_empty ind)))"

definition bill_of_row :: "bill_row \<Rightarrow> BillDetail" where
  "bill_of_row b =
    \<lparr>bd_BillCode = b_bill_code b, bd_BillNo = b_bill_no b, bd_BillName = b_bill_name b,
     bd_BillShortName = b_bill_short_name b,
     bd_BillDescription = text_of_columns (b_description_en b) (b_description_id b),
     bd_BillSubCompany = b_sub_company b,
     bd_BillAmount = (case b_amount b of None \<Rightarrow> None
        | Some n \<Rightarrow> Some \<lparr>am_Value = sprintf_2f (fl (of_int n / 100)),
            am_Currency = (case b_amount_currency b of None \<Rightarrow> ''IDR'' | Some c \<Rightarrow> c)\<rparr>),
     bd_BillAmountLabel = b_amount_label b, bd_BillAmountValue = b_amount_value b,
     bd_BillReferenceNo = b_reference_no b, bd_BillerReferenceID = b_biller_reference_id b,
     bd_Status = b_status b, bd_Reason = text_of_columns (b_reason_en b) (b_reason_id b),
     bd_AdditionalInfo = []\<rparr>"

definition GetVABillDetails :: "env \<Rightarrow> string \<Rightarrow> BillDetail list op" where
  "GetVABillDetails e tid = guard e (OpGetBills tid) (\<lambda>w.
     (Inr (map bill_of_row (filter (\<lambda>b. b_transaction_id b = tid) (w_bills w))), w))"

definition text_column :: "(BilingualText \<Rightarrow> string) \<Rightarrow> BilingualText option \<Rightarrow> string option" where
  "text_column f t = (case t of None \<Rightarrow> None | Some b \<Rightarrow> null_if_empty (f b))"

text \<open>One inserted row, or the error of converting its amount.\<close>

definition row_of_bill :: "env \<Rightarrow> string \<Rightarrow> string \<Rightarrow> BillDetail \<Rightarrow> gerr + bill_row" where
  "row_of_bill e uid tid b =
    (let mk = (\<lambda>n. \<lparr>b_id = uid, b_transaction_id = tid, b_bill_code = bd_BillCode b, b_bill_no = bd_BillNo b,
        b_bill_name = bd_BillName b, b_bill_short_name = bd_BillShortName b,
        b_description_en = text_column bt_English (bd_BillDescription b),
        b_description_id = text_column bt_Indonesia (bd_BillDescription b),
        b_sub_company = bd_BillSubCompany b, b_amount = n,
        b_amount_currency = map_option am_Currency (bd_BillAmount b),
        b_amount_label = bd_BillAmountLabel b, b_amount_value = bd_BillAmountValue b,
        b_reference_no = bd_BillReferenceNo b, b_biller_reference_id = bd_BillerReferenceID b,
        b_status = bd_Status b, b_reason_en = text_column bt_English (bd_Reason b),
        b_reason_id = text_column bt_Indonesia (bd_Reason b), b_created_at = e_now e\<rparr>)
     in case bd_BillAmount b of None \<Rightarrow> Inr (mk None)
        | Some a \<Rightarrow> (case e_numeric e (am_Value a) of None \<Rightarrow> Inl numeric_error | Some n \<Rightarrow> Inr (mk (Some n))))"

text \<open>
  The insert loop inside the database transaction. Each insert checks the primary key and the
  foreign key to \<^verbatim>\<open>va_transactions\<close>; the first failure ends the loop.
\<close>

fun insert_bills :: "env \<Rightarrow> string \<Rightarrow> BillDetail list \<Rightarrow> unit op" where
  "insert_bills e tid [] w = (Inr (), w)"
| "insert_bills e tid (b # bs) w = (case row_of_bill e (fresh_id e w) tid b of
      Inl err \<Rightarrow> (Inl err, next_uuid w)
    | Inr r \<Rightarrow>
        if b_id r \<in> b_id ` set (w_bills w) then (Inl ErrUniqueViolation, next_uuid w)
        else if tid \<notin> t_id ` set (w_txns w) then (Inl ErrForeignKeyViolation, next_uuid w)
        else insert_bills e tid bs (next_uuid (w\<lparr>w_bills := w_bills w @ [r]\<rparr>)))"

text \<open>Delete and inserts commit together; after a failure the tables are as they were.\<close>

definition SaveBillDetails :: "env \<Rightarrow> string \<Rightarrow> BillDetail list \<Rightarrow> unit op" where
  "SaveBillDetails e tid bills = guard e (OpSaveBills tid) (\<lambda>w.
     case insert_bills e tid bills (w\<lparr>w_bills := filter (\<lambda>b. b_transaction_id b \<noteq> tid) (w_bills w)\<rparr>) of
       (Inl err, w') \<Rightarrow> (Inl err, w\<lparr>w_uuids := w_uuids w'\<rparr>)
     | (Inr u, w') \<Rightarrow> (Inr u, w'))"

section \<open>The transaction of a virtual account number\<close>

definition pending_of :: "string \<Rightarrow> txn \<Rightarrow> bool" where
  "pending_of va t = (t_virtual_account_no t = va \<and> t_status t = ''03'')"

definition UpdateVAStatus :: "env \<Rightarrow> string \<Rightarrow> string \<Rightarrow> unit op" where
  "UpdateVAStatus e va status = guard e (OpUpdateVAStatus va) (\<lambda>w.
     let w' = update_txns (pending_of va) (\<lambda>t. t\<lparr>t_status := status, t_updated_at := e_now e\<rparr>) w
     in if count_where (pending_of va) (w_txns w) = 0 then (Inl ErrMerchantVANotFound, w') else (Inr (), w'))"

text \<open>The \<^verbatim>\<open>CASE\<close> of the \<^verbatim>\<open>ORDER BY\<close>: rank 0 for a payable row.\<close>

definition payable_row :: "txn \<Rightarrow> bool" where
  "payable_row t = (t_status t = ''03'' \<or>
     (t_status t = ''00'' \<and> or_empty (t_va_type t) \<in> {''02'', ''05''} \<and>
      (case t_paid_amount t of None \<Rightarrow> 0 | Some n \<Rightarrow> n) < (case t_total_amount t of None \<Rightarrow> 0 | Some n \<Rightarrow> n)))"

definition va_rank :: "txn \<Rightarrow> int" where
  "va_rank t = (if payable_row t then 0 else 1)"

definition va_better :: "txn \<Rightarrow> txn \<Rightarrow> bool" where
  "va_better r s = (va_rank r < va_rank s \<or> (va_rank r = va_rank s \<and> tm_ns (t_created_at s) < tm_ns (t_created_at r)))"

definition newest_instalment :: "string \<Rightarrow> world \<Rightarrow> string option" where
  "newest_instalment tid w = (case top_by (\<lambda>a b. tm_ns (p_created_at b) < tm_ns (p_created_at a))
       (filter (\<lambda>p. p_transaction_id p = tid \<and> p_payment_request_id p \<noteq> None) (w_payments w)) of
     None \<Rightarrow> None | Some p \<Rightarrow> p_payment_request_id p)"

definition GetVAByVirtualAccountNo :: "env \<Rightarrow> string \<Rightarrow> VAInquiryRecord op" where
  "GetVAByVirtualAccountNo e va = guard e (OpGetVA va) (\<lambda>w.
     (case top_by va_better (filter (\<lambda>t. t_virtual_account_no t = va) (w_txns w)) of
        None \<Rightarrow> Inl ErrMerchantVANotFound
      | Some t \<Rightarrow> scan_inquiry e (numeric_text0 (t_paid_amount t))
          (or_empty (orelse (t_payment_request_id t) (newest_instalment (t_id t) w))) t, w))"

section \<open>Instalments\<close>

definition instalments_of :: "string \<Rightarrow> world \<Rightarrow> instalment list" where
  "instalments_of tid w = filter (\<lambda>p. p_transaction_id p = tid) (w_payments w)"

definition paid_sum :: "string \<Rightarrow> world \<Rightarrow> int" where
  "paid_sum tid w = sum_list (map p_amount (instalments_of tid w))"

text \<open>\<^verbatim>\<open>COALESCE(SUM(amount), 0)::text\<close>.\<close>

definition sum_text :: "string \<Rightarrow> world \<Rightarrow> string" where
  "sum_text tid w = (if instalments_of tid w = [] then ''0'' else numeric_text (paid_sum tid w))"

definition FindVAInstalment :: "env \<Rightarrow> string \<Rightarrow> (string \<times> string) option op" where
  "FindVAInstalment e prid w = (if prid = [] then (Inr None, w)
     else guard e (OpFindInstalment prid) (\<lambda>w.
       (case find (\<lambda>p. p_payment_request_id p = Some prid) (w_payments w) of
          None \<Rightarrow> Inr None
        | Some p \<Rightarrow> Inr (Some (p_transaction_id p, sum_text (p_transaction_id p) w)), w)) w)"

text \<open>
  \<^verbatim>\<open>parseAmount\<close> scans the text PostgreSQL renders for an amount, on which \<^verbatim>\<open>Sscanf("%f")\<close> and
  \<^verbatim>\<open>ParseFloat\<close> agree.
\<close>

definition parseAmount :: "string \<Rightarrow> f64 option" where
  "parseAmount s = ParseFloat s"

definition instalment_status :: "string \<Rightarrow> string \<Rightarrow> string" where
  "instalment_status paidAmount totalAmount = (case (parseAmount paidAmount, parseAmount totalAmount) of
      (Some p, Some t) \<Rightarrow> if f64_le t p then ''00'' else ''03'' | _ \<Rightarrow> ''03'')"

text \<open>The insert of \<^verbatim>\<open>SaveVAPayment\<close>, with \<^verbatim>\<open>ON CONFLICT ... DO NOTHING\<close>; returns whether a row was added.\<close>

definition insert_instalment :: "env \<Rightarrow> string \<Rightarrow> string \<Rightarrow> string \<Rightarrow> string \<Rightarrow> bool op" where
  "insert_instalment e tid prid amount refno w =
    (let uid = fresh_id e w; w1 = next_uuid w in
     case e_numeric e amount of None \<Rightarrow> (Inl numeric_error, w1)
     | Some n \<Rightarrow>
        if prid \<noteq> [] \<and> Some prid \<in> p_payment_request_id ` set (w_payments w) then (Inr False, w1)
        else if uid \<in> p_id ` set (w_payments w) then (Inl ErrUniqueViolation, w1)
        else if tid \<notin> t_id ` set (w_txns w) then (Inl ErrForeignKeyViolation, w1)
        else (Inr True, w1\<lparr>w_payments := w_payments w @
               [\<lparr>p_id = uid, p_transaction_id = tid, p_payment_request_id = null_if_empty prid,
                 p_amount = n, p_reference_no = refno, p_paid_at = e_now e, p_created_at = e_now e\<rparr>]\<rparr>))"

text \<open>
  The body of the database transaction. Any error rolls the tables back; the identifiers handed out
  stay consumed.
\<close>

definition save_va_payment_tx :: "env \<Rightarrow> string \<Rightarrow> string \<Rightarrow> string \<Rightarrow> string \<Rightarrow> (string \<times> string \<times> bool) op" where
  "save_va_payment_tx e tid prid amount refno w =
    (case insert_instalment e tid prid amount refno w of
       (Inl err, w1) \<Rightarrow> (Inl err, w1)
     | (Inr recorded, w1) \<Rightarrow>
        (let paidAmount = sum_text tid w1 in
         case find (\<lambda>t. t_id t = tid) (w_txns w1) of
           None \<Rightarrow> (Inl ErrNoRows, w1)
         | Some t \<Rightarrow> (case t_total_amount t of
              None \<Rightarrow> (Inl scan_null_error, w1)
            | Some tot \<Rightarrow>
               (let status = instalment_status paidAmount (numeric_text tot) in
                case e_numeric e paidAmount of None \<Rightarrow> (Inl numeric_error, w1)
                | Some paid \<Rightarrow> (Inr (paidAmount, status, recorded),
                    update_txns (\<lambda>t. t_id t = tid)
                      (\<lambda>t. t\<lparr>t_paid_amount := Some paid, t_status := status, t_updated_at := e_now e\<rparr>) w1)))))"

definition SaveVAPayment :: "env \<Rightarrow> string \<Rightarrow> string \<Rightarrow> string \<Rightarrow> string \<Rightarrow> (string \<times> string \<times> bool) op" where
  "SaveVAPayment e tid prid amount refno = guard e (OpSaveVAPayment tid) (\<lambda>w.
     case save_va_payment_tx e tid prid amount refno w of
       (Inl err, w') \<Rightarrow> (Inl err, w\<lparr>w_uuids := w_uuids w'\<rparr>)
     | (Inr v, w') \<Rightarrow> (Inr v, w'))"

section \<open>Payments without a bill\<close>

definition SaveNoBillPayment :: "env \<Rightarrow> VAPaymentRecord \<Rightarrow> VAPaymentRecord op" where
  "SaveNoBillPayment e pay w0 = (
     let w = (if rp_ID pay = [] then next_uuid w0 else w0);
         r = payment_defaults e pay w0
     in case guard e (OpSaveNoBill (rp_InquiryRequestID pay)) (\<lambda>w.
          case (e_numeric e (rp_TotalAmount r), e_numeric e (rp_PaidAmount r)) of
            (Some tot, Some paid) \<Rightarrow>
              (let x = payment_row r tot paid (Some (rp_VAType r)) in
               if t_inquiry_request_id x \<in> t_inquiry_request_id ` set (w_txns w) \<or> t_id x \<in> t_id ` set (w_txns w)
               then (Inl ErrUniqueViolation, w)
               else (Inr r, w\<lparr>w_txns := w_txns w @ [x]\<rparr>))
          | _ \<Rightarrow> (Inl numeric_error, w)) w of
        (Inl ErrUniqueViolation, w') \<Rightarrow> (Inl ErrVAPaymentDuplicate, w')
      | (res, w') \<Rightarrow> (res, w'))"

lemma duplicate_rewrap:
  "snd (case x of (Inl ErrUniqueViolation, w) \<Rightarrow> (Inl ErrVAPaymentDuplicate, w) | (res, w) \<Rightarrow> (res, w)) =
    snd (x :: (gerr + VAPaymentRecord) \<times> world)"
  by (cases x) (auto split: sum.splits gerr.splits)

section \<open>Vendor reconciliation\<close>

record VendorSettlement =
  vs_PaidAmount :: string
  vs_Currency :: string
  vs_PaymentRequestID :: string
  vs_ReferenceNo :: string
  vs_TransactionDate :: gtime

text \<open>\<^verbatim>\<open>ORDER BY created_at ASC\<close>: a stable insertion sort.\<close>

definition by_created :: "env \<Rightarrow> txn list \<Rightarrow> txn list" where
  "by_created e rows = order_by e t_id (\<lambda>t. tm_ns (t_created_at t)) rows"

definition stale_row :: "env \<Rightarrow> gtime \<Rightarrow> txn \<Rightarrow> bool" where
  "stale_row e olderThan t = (t_status t = ''03'' \<and> Before (t_created_at t) olderThan \<and>
     (case t_expired_date t of None \<Rightarrow> True | Some d \<Rightarrow> After d (e_now e)))"

fun scan_all :: "('r \<Rightarrow> gerr + 'a) \<Rightarrow> 'r list \<Rightarrow> gerr + 'a list" where
  "scan_all f [] = Inr []"
| "scan_all f (r # rs) = (case f r of Inl err \<Rightarrow> Inl err
     | Inr x \<Rightarrow> (case scan_all f rs of Inl err \<Rightarrow> Inl err | Inr xs \<Rightarrow> Inr (x # xs)))"

definition ListStalePendingTransactions :: "env \<Rightarrow> gtime \<Rightarrow> int \<Rightarrow> VAInquiryRecord list op" where
  "ListStalePendingTransactions e olderThan limit w = (if limit \<le> 0 then (Inr [], w)
     else guard e OpListStale (\<lambda>w.
       (scan_all (scan_inquiry e [] []) (take (nat limit) (by_created e (filter (stale_row e olderThan) (w_txns w)))), w)) w)"

definition settle_row :: "env \<Rightarrow> VendorSettlement \<Rightarrow> int \<Rightarrow> txn \<Rightarrow> txn" where
  "settle_row e s paid t = t\<lparr>
     t_status := ''00'',
     t_paid_amount := Some paid,
     t_total_amount := orelse (t_total_amount t) (Some paid),
     t_currency := (if t_currency t = [] then vs_Currency s else t_currency t),
     t_payment_request_id := orelse (null_if_empty (vs_PaymentRequestID s)) (t_payment_request_id t),
     t_reference_no := orelse (null_if_empty (vs_ReferenceNo s)) (t_reference_no t),
     t_transaction_date := Some (vs_TransactionDate s),
     t_updated_at := e_now e\<rparr>"

definition SettlePendingFromVendor :: "env \<Rightarrow> string \<Rightarrow> VendorSettlement \<Rightarrow> bool op" where
  "SettlePendingFromVendor e va s = guard e (OpSettle va) (\<lambda>w.
     case e_numeric e (vs_PaidAmount s) of None \<Rightarrow> (Inl numeric_error, w)
     | Some paid \<Rightarrow> (Inr (0 < count_where (pending_of va) (w_txns w)),
         update_txns (pending_of va) (settle_row e s paid) w))"

section \<open>Which tables an operation touches\<close>

definition txns_only :: "world \<Rightarrow> world \<Rightarrow> bool" where
  "txns_only w w' = (w_payments w' = w_payments w \<and> w_bills w' = w_bills w \<and> w_flags w' = w_flags w \<and>
     w_accounts w' = w_accounts w \<and> w_deliveries w' = w_deliveries w \<and> w_seqs w' = w_seqs w \<and>
     w_attempts w' = w_attempts w \<and> w_queue w' = w_queue w)"

lemma txns_only_refl [simp]: "txns_only w w" "txns_only w (next_uuid w)"
  by (simp_all add: txns_only_def next_uuid_def)

lemma txns_only_trans: "txns_only u v \<Longrightarrow> txns_only v w \<Longrightarrow> txns_only u w"
  by (simp add: txns_only_def)

lemma txns_only_update [simp]: "txns_only w (update_txns p f w)"
  by (simp add: txns_only_def update_txns_def)

lemma txns_only_upsert [simp]: "txns_only w (snd (upsert_txn upd x w))"
  by (simp add: upsert_txn_def txns_only_def update_txns_def split: option.split)

lemma txns_only_start: "txns_only (if b then next_uuid w else w) v \<Longrightarrow> txns_only w v"
  by (simp add: txns_only_def next_uuid_def split: if_splits)

lemma txns_only_SaveInquiry [frame]: "txns_only w (snd (SaveInquiry e r w))"
  unfolding SaveInquiry_def Let_def
  by (rule txns_only_start [of "ri_ID r = []"]) (simp add: snd_guard snd_rewrap split: option.split)

lemma txns_only_SavePayment [frame]: "txns_only w (snd (SavePayment e p w))"
  unfolding SavePayment_def Let_def
  by (rule txns_only_start [of "rp_ID p = []"]) (simp add: snd_guard snd_rewrap split: option.split)

lemma txns_only_SaveNoBillPayment [frame]: "txns_only w (snd (SaveNoBillPayment e p w))"
  unfolding SaveNoBillPayment_def Let_def duplicate_rewrap
  by (rule txns_only_start [of "rp_ID p = []"]) (simp add: snd_guard txns_only_def split: option.split)

lemma txns_only_updates [frame]:
  "txns_only w (snd (ClaimInquiryRequestID e i q w))" "txns_only w (snd (UpdatePaymentStatus e i s w))"
  "txns_only w (snd (UpdateVAStatus e va s w))" "txns_only w (snd (SettlePendingFromVendor e va x w))"
  by (simp_all add: ClaimInquiryRequestID_def UpdatePaymentStatus_def UpdateVAStatus_def SettlePendingFromVendor_def
      Let_def snd_guard split: option.split)

lemma insert_bills_frame:
  "w_txns (snd (insert_bills e tid bs w)) = w_txns w \<and> w_payments (snd (insert_bills e tid bs w)) = w_payments w \<and>
   w_flags (snd (insert_bills e tid bs w)) = w_flags w \<and> w_accounts (snd (insert_bills e tid bs w)) = w_accounts w \<and>
   w_deliveries (snd (insert_bills e tid bs w)) = w_deliveries w \<and> w_seqs (snd (insert_bills e tid bs w)) = w_seqs w \<and>
   w_attempts (snd (insert_bills e tid bs w)) = w_attempts w \<and> w_queue (snd (insert_bills e tid bs w)) = w_queue w"
  by (induction e tid bs w rule: insert_bills.induct) (simp_all add: next_uuid_def split: sum.split)

lemma SaveBillDetails_frame [frame]:
  "w_txns (snd (SaveBillDetails e tid bs w)) = w_txns w" "w_payments (snd (SaveBillDetails e tid bs w)) = w_payments w"
  "w_flags (snd (SaveBillDetails e tid bs w)) = w_flags w" "w_accounts (snd (SaveBillDetails e tid bs w)) = w_accounts w"
  "w_deliveries (snd (SaveBillDetails e tid bs w)) = w_deliveries w" "w_seqs (snd (SaveBillDetails e tid bs w)) = w_seqs w"
  "w_attempts (snd (SaveBillDetails e tid bs w)) = w_attempts w" "w_queue (snd (SaveBillDetails e tid bs w)) = w_queue w"
  using insert_bills_frame [of e tid bs "w\<lparr>w_bills := filter (\<lambda>b. b_transaction_id b \<noteq> tid) (w_bills w)\<rparr>"]
  by (auto simp: SaveBillDetails_def snd_guard split: prod.split sum.split)

lemma SaveVAPayment_frame [frame]:
  "w_bills (snd (SaveVAPayment e tid prid amt ref w)) = w_bills w" "w_flags (snd (SaveVAPayment e tid prid amt ref w)) = w_flags w"
  "w_accounts (snd (SaveVAPayment e tid prid amt ref w)) = w_accounts w"
  "w_deliveries (snd (SaveVAPayment e tid prid amt ref w)) = w_deliveries w"
  "w_seqs (snd (SaveVAPayment e tid prid amt ref w)) = w_seqs w" "w_attempts (snd (SaveVAPayment e tid prid amt ref w)) = w_attempts w"
  "w_queue (snd (SaveVAPayment e tid prid amt ref w)) = w_queue w"
  by (simp_all add: SaveVAPayment_def save_va_payment_tx_def insert_instalment_def update_txns_def next_uuid_def snd_guard
      Let_def split: option.split)

end
