(* ===== verification/AuxRepo.thy ===== *)
theory AuxRepo
  imports TxnRepo
begin

text \<open>
  The operations of \<^verbatim>\<open>VARepository\<close> on the other tables: recorded payment flags, the VA registry, the
  customer-number sequences, callback deliveries and reconciliation attempts.
\<close>

section \<open>Payment flags\<close>

definition flag_key :: "string \<Rightarrow> string \<Rightarrow> flag_row \<Rightarrow> bool" where
  "flag_key ext prid f = (f_external_id f = ext \<and> f_payment_request_id f = prid)"

text \<open>The JSONB column is never empty, so a stored row always decodes into a data block.\<close>

definition flag_of_row :: "flag_row \<Rightarrow> VAPaymentFlag" where
  "flag_of_row f = \<lparr>pf_ID = f_id f, pf_ExternalID = f_external_id f,
     pf_PaymentRequestID = f_payment_request_id f, pf_VirtualAccountNo = f_virtual_account_no f,
     pf_ResponseCode = f_response_code f, pf_ResponseMessage = f_response_message f,
     pf_VirtualAccountData = Some (f_virtual_account_data f), pf_CreatedAt = f_created_at f\<rparr>"

definition FindPaymentFlag :: "env \<Rightarrow> string \<Rightarrow> string \<Rightarrow> VAPaymentFlag option op" where
  "FindPaymentFlag e ext prid w = (if ext = [] \<or> prid = [] then (Inr None, w)
     else guard e (OpFindFlag ext prid) (\<lambda>w.
       (Inr (map_option flag_of_row (find (flag_key ext prid) (w_flags w))), w)) w)"

text \<open>An outcome with no data block is written as the document \<^verbatim>\<open>{}\<close>, which decodes to a blank block.\<close>

definition flag_row_of :: "VAPaymentFlag \<Rightarrow> flag_row" where
  "flag_row_of flag = \<lparr>f_id = pf_ID flag, f_external_id = pf_ExternalID flag,
     f_payment_request_id = pf_PaymentRequestID flag, f_virtual_account_no = pf_VirtualAccountNo flag,
     f_response_code = pf_ResponseCode flag, f_response_message = pf_ResponseMessage flag,
     f_payment_flag_status = (case pf_VirtualAccountData flag of None \<Rightarrow> PaymentFlagReject
        | Some d \<Rightarrow> if ps_PaymentFlagStatus d \<noteq> [] then ps_PaymentFlagStatus d else PaymentFlagReject),
     f_virtual_account_data = (case pf_VirtualAccountData flag of None \<Rightarrow> zeroPaymentStatus | Some d \<Rightarrow> d),
     f_created_at = pf_CreatedAt flag\<rparr>"

definition RecordPaymentFlag :: "env \<Rightarrow> VAPaymentFlag \<Rightarrow> unit op" where
  "RecordPaymentFlag e flag w0 = (if pf_ExternalID flag = [] \<or> pf_PaymentRequestID flag = [] then (Inr (), w0)
     else let w = (if pf_ID flag = [] then next_uuid w0 else w0);
              g = flag\<lparr>pf_ID := (if pf_ID flag = [] then fresh_id e w0 else pf_ID flag),
                       pf_CreatedAt := (if IsZero (pf_CreatedAt flag) then e_now e else pf_CreatedAt flag)\<rparr>
          in guard e (OpRecordFlag (pf_ExternalID flag) (pf_PaymentRequestID flag)) (\<lambda>w.
               if find (flag_key (pf_ExternalID g) (pf_PaymentRequestID g)) (w_flags w) \<noteq> None then (Inr (), w)
               else if pf_ID g \<in> f_id ` set (w_flags w) then (Inl ErrUniqueViolation, w)
               else (Inr (), w\<lparr>w_flags := w_flags w @ [flag_row_of g]\<rparr>)) w)"

section \<open>The VA registry\<close>

definition account_upsert :: "VAAccount \<Rightarrow> VAAccount \<Rightarrow> VAAccount" where
  "account_upsert x a = a\<lparr>
     ac_CustomerName := ac_CustomerName x,
     ac_CustomerEmail := ac_CustomerEmail x,
     ac_CustomerPhone := ac_CustomerPhone x,
     ac_TrxID := ac_TrxID x,
     ac_NotificationURL := ac_NotificationURL x,
     ac_ExpiredDate := ac_ExpiredDate x,
     ac_Status := ac_Status x,
     ac_UpdatedAt := ac_UpdatedAt x\<rparr>"

definition account_defaults :: "env \<Rightarrow> VAAccount \<Rightarrow> world \<Rightarrow> VAAccount" where
  "account_defaults e a w = a\<lparr>
     ac_ID := (if ac_ID a = [] then fresh_id e w else ac_ID a),
     ac_CreatedAt := (if IsZero (ac_CreatedAt a) then e_now e else ac_CreatedAt a),
     ac_UpdatedAt := e_now e,
     ac_Status := (if ac_Status a = [] then VAAccountStatusActive else ac_Status a)\<rparr>"

definition account_va :: "string \<Rightarrow> VAAccount \<Rightarrow> bool" where
  "account_va va a = (ac_VirtualAccountNo a = va)"

definition account_owner :: "VAAccount \<Rightarrow> string \<times> string" where
  "account_owner a = (ac_PartnerServiceID a, ac_CustomerNo a)"

text \<open>The two \<^verbatim>\<open>CHECK\<close> constraints of the table.\<close>

definition account_check :: "VAAccount \<Rightarrow> bool" where
  "account_check a = (ac_Status a \<in> {VAAccountStatusActive, VAAccountStatusInactive, VAAccountStatusExpired} \<and>
     ac_Billing a \<in> {VATypeBillingNone, VATypeBillingVariable, VATypeBillingFixed})"

definition check_violation :: gerr where
  "check_violation = ErrOther ''violates check constraint''"

definition SaveVAAccount :: "env \<Rightarrow> VAAccount \<Rightarrow> VAAccount op" where
  "SaveVAAccount e account w0 = (
     let w = (if ac_ID account = [] then next_uuid w0 else w0);
         a = account_defaults e account w0
     in guard e (OpSaveAccount (ac_VirtualAccountNo account)) (\<lambda>w.
          if \<not> account_check a then (Inl check_violation, w)
          else case find (account_va (ac_VirtualAccountNo a)) (w_accounts w) of
            Some old \<Rightarrow> (Inr (a\<lparr>ac_ID := ac_ID old\<rparr>),
               w\<lparr>w_accounts := update_where (account_va (ac_VirtualAccountNo a)) (account_upsert a) (w_accounts w)\<rparr>)
          | None \<Rightarrow> if ac_ID a \<in> ac_ID ` set (w_accounts w) \<or> account_owner a \<in> account_owner ` set (w_accounts w)
              then (Inl ErrUniqueViolation, w)
              else (Inr a, w\<lparr>w_accounts := w_accounts w @ [a]\<rparr>)) w)"

definition GetVAAccount :: "env \<Rightarrow> string \<Rightarrow> VAAccount op" where
  "GetVAAccount e va = guard e (OpGetAccount va) (\<lambda>w.
     (case find (account_va va) (w_accounts w) of None \<Rightarrow> Inl ErrVAAccountNotFound | Some a \<Rightarrow> Inr a, w))"

definition GetVAAccountByPartnerAndCustomer :: "env \<Rightarrow> string \<Rightarrow> string \<Rightarrow> VAAccount op" where
  "GetVAAccountByPartnerAndCustomer e partner customer = guard e (OpGetAccountByPartner partner customer) (\<lambda>w.
     (case find (\<lambda>a. account_owner a = (partner, customer)) (w_accounts w) of
        None \<Rightarrow> Inl ErrVAAccountNotFound | Some a \<Rightarrow> Inr a, w))"

definition active_account :: "string \<Rightarrow> VAAccount \<Rightarrow> bool" where
  "active_account va a = (ac_VirtualAccountNo a = va \<and> ac_Status a = VAAccountStatusActive)"

definition UpdateVAAccountStatus :: "env \<Rightarrow> string \<Rightarrow> string \<Rightarrow> unit op" where
  "UpdateVAAccountStatus e va status = guard e (OpUpdateAccount va) (\<lambda>w.
     let w' = w\<lparr>w_accounts := update_where (active_account va)
                 (\<lambda>a. a\<lparr>ac_Status := status, ac_UpdatedAt := e_now e\<rparr>) (w_accounts w)\<rparr>
     in if count_where (active_account va) (w_accounts w) = 0 then (Inl ErrVAAccountNotFound, w)
        else if status \<notin> {VAAccountStatusActive, VAAccountStatusInactive, VAAccountStatusExpired}
          then (Inl check_violation, w)
        else (Inr (), w'))"

section \<open>Customer numbers\<close>

definition withLock :: "env \<Rightarrow> string \<Rightarrow> 'a op \<Rightarrow> 'a op" where
  "withLock e key f = guard e (OpLock key) f"

definition sequence_error :: gerr where
  "sequence_error = ErrOther ''sequence generator unavailable''"

definition NextCustomerNoSequence :: "env \<Rightarrow> string \<Rightarrow> string op" where
  "NextCustomerNoSequence e vaType = withLock e (''va-seq-lock:'' @ vaType) (guard e (OpNextSeq vaType) (\<lambda>w.
     case map_of (w_seqs w) vaType of None \<Rightarrow> (Inl sequence_error, w)
     | Some nextSeq \<Rightarrow>
        if 16 < length (dec nextSeq) then (Inl sequence_error, w)
        else (Inr (vaType @ pad0 16 (dec nextSeq)),
              w\<lparr>w_seqs := map (\<lambda>(k, n). if k = vaType then (k, n + 1) else (k, n)) (w_seqs w)\<rparr>)))"

definition RegisterStaticCustomerNo :: "env \<Rightarrow> string \<Rightarrow> string \<Rightarrow> unit op" where
  "RegisterStaticCustomerNo e partner customer =
    withLock e (''va-static-lock:'' @ partner @ '':'' @ customer) (guard e (OpCountStatic customer) (\<lambda>w.
      (if 0 < count_where (\<lambda>a. account_owner a = (partner, customer)) (w_accounts w)
       then Inl ErrVACustomerNoAlreadyRegistered else Inr (), w)))"

section \<open>Callback deliveries\<close>

text \<open>\<^verbatim>\<open>DeliveryID\<close> and \<^verbatim>\<open>Trigger\<close> of a payload are not part of its JSON form.\<close>

definition stored_payload :: "PaymentNotificationPayload \<Rightarrow> PaymentNotificationPayload" where
  "stored_payload p = p\<lparr>np_DeliveryID := [], np_Trigger := []\<rparr>"

definition Create :: "env \<Rightarrow> NotificationDelivery \<Rightarrow> NotificationDelivery op" where
  "Create e delivery w0 = (
     let w = (if nd_ID delivery = [] then next_uuid w0 else w0);
         d = delivery\<lparr>nd_ID := (if nd_ID delivery = [] then fresh_id e w0 else nd_ID delivery),
               nd_AttemptedAt := (if IsZero (nd_AttemptedAt delivery) then e_now e else nd_AttemptedAt delivery)\<rparr>
     in guard e (OpCreateDelivery (nd_VirtualAccountNo delivery)) (\<lambda>w.
          if nd_ID d \<in> nd_ID ` set (w_deliveries w) then (Inl ErrUniqueViolation, w)
          else (Inr d, w\<lparr>w_deliveries := w_deliveries w @
            [d\<lparr>nd_Payload := map_option stored_payload (nd_Payload d), nd_AttemptCount := 0,
               nd_HTTPStatus := 0, nd_LastAttemptAt := None\<rparr>]\<rparr>)) w)"

definition open_delivery :: "string \<Rightarrow> NotificationDelivery \<Rightarrow> bool" where
  "open_delivery i d = (nd_ID d = i \<and> nd_Status d \<noteq> NotificationDeliveryStatusSuccess)"

definition apply_result :: "env \<Rightarrow> NotificationDeliveryResult \<Rightarrow> NotificationDelivery \<Rightarrow> NotificationDelivery" where
  "apply_result e r d = d\<lparr>nd_Status := nr_Status r,
     nd_AttemptCount := max (nd_AttemptCount d) (nr_AttemptCount r),
     nd_HTTPStatus := nr_HTTPStatus r, nd_ErrorDetail := nr_ErrorDetail r, nd_LastAttemptAt := Some (e_now e)\<rparr>"

definition UpdateDeliveryResult :: "env \<Rightarrow> string \<Rightarrow> NotificationDeliveryResult \<Rightarrow> unit op" where
  "UpdateDeliveryResult e i r = guard e (OpUpdateDelivery i) (\<lambda>w.
     (Inr (), w\<lparr>w_deliveries := update_where (open_delivery i) (apply_result e r) (w_deliveries w)\<rparr>))"

definition later_delivery :: "NotificationDelivery \<Rightarrow> NotificationDelivery \<Rightarrow> bool" where
  "later_delivery a b = (tm_ns (nd_AttemptedAt b) < tm_ns (nd_AttemptedAt a))"

definition GetLatestByVirtualAccountNo :: "env \<Rightarrow> string \<Rightarrow> NotificationDelivery option op" where
  "GetLatestByVirtualAccountNo e va = guard e (OpLatestDelivery va) (\<lambda>w.
     (Inr (top_by later_delivery (filter (\<lambda>d. nd_VirtualAccountNo d = va) (w_deliveries w))), w))"

definition ExistsByVirtualAccountNoAndEventType :: "env \<Rightarrow> string \<Rightarrow> string \<Rightarrow> string \<Rightarrow> bool op" where
  "ExistsByVirtualAccountNoAndEventType e va event trig = guard e (OpExistsDelivery va) (\<lambda>w.
     (Inr (\<exists>d \<in> set (w_deliveries w). nd_VirtualAccountNo d = va \<and> nd_EventType d = event \<and> nd_Trigger d = trig), w))"

section \<open>Reconciliation attempts\<close>

definition CreateStatusInquiryAttempt :: "env \<Rightarrow> VAStatusInquiryAttempt \<Rightarrow> unit op" where
  "CreateStatusInquiryAttempt e attempt w0 = (
     let w = (if at_ID attempt = [] then next_uuid w0 else w0);
         a = attempt\<lparr>at_ID := (if at_ID attempt = [] then fresh_id e w0 else at_ID attempt),
               at_AttemptedAt := (if IsZero (at_AttemptedAt attempt) then e_now e else at_AttemptedAt attempt)\<rparr>
     in guard e OpCreateAttempt (\<lambda>w.
          if at_ID a \<in> at_ID ` set (w_attempts w) then (Inl ErrUniqueViolation, w)
          else (Inr (), w\<lparr>w_attempts := w_attempts w @ [a]\<rparr>)) w)"

end
