(* ===== verification/Notify.thy ===== *)
theory Notify
  imports AuxRepo
begin

text \<open>
  Merchant callbacks: \<^verbatim>\<open>internal/usecase/notification_dispatch.go\<close>, the enqueue of
  \<^verbatim>\<open>internal/infrastructure/queue/asynq.go\<close> and the delivery worker
  \<^verbatim>\<open>internal/adapter/delivery/worker/payment_notification_worker.go\<close>. The task queue and the merchant's
  HTTP endpoint are parameters; the tasks and the signed request are in the theory of the delivery.
\<close>

section \<open>Error texts\<close>

fun Error :: "gerr \<Rightarrow> string" where
  "Error ErrVAInvalidBill = ''invalid bill/virtual account''"
| "Error ErrVAPaidBill = ''paid bill''"
| "Error ErrVAInvalidPartner = ''invalid bill/virtual account partner''"
| "Error ErrVADuplicateExtID = ''conflict: duplicate external ID''"
| "Error ErrVAMissingMandatory = ''missing mandatory field''"
| "Error ErrVAInvalidField = ''invalid field format''"
| "Error ErrVAInternalError = ''internal server error''"
| "Error ErrMerchantVANotFound = ''merchant VA not found''"
| "Error ErrMerchantVAAlreadyPaid = ''merchant VA already paid''"
| "Error ErrMerchantVAAlreadyDeleted = ''merchant VA already deleted''"
| "Error ErrMerchantVAExpired = ''merchant VA expired''"
| "Error ErrVAExpiredInquiry = ''expired transaction (inquiry)''"
| "Error ErrVAExpiredPayment = ''expired transaction (payment notification)''"
| "Error ErrResendNoDeliveryRecord = ''no callback delivery on record for this transaction''"
| "Error ErrResendNoNotificationURL = ''transaction has no registered notification URL''"
| "Error ErrResendRangeTooLarge = ''too many callbacks in range''"
| "Error ErrNotificationDuplicate = ''identical notification already enqueued''"
| "Error ErrNotificationPayloadUnrecoverable =
    ''original payload not recorded and no matching transaction found to rebuild it''"
| "Error ErrVACustomerNoAlreadyRegistered = ''customerNo already registered for this partnerServiceId''"
| "Error ErrVAAccountNotFound = ''VA registration not found''"
| "Error ErrVAAccountInactive = ''VA registration is inactive''"
| "Error ErrVAPaymentDuplicate = ''payment already recorded for this paymentRequestId''"
| "Error ErrNoRows = ''no rows in result set''"
| "Error ErrUniqueViolation = ''duplicate key value violates unique constraint''"
| "Error ErrForeignKeyViolation = ''violates foreign key constraint''"
| "Error (ErrOther s) = s"

section \<open>Enqueue and dispatch\<close>

text \<open>An accepted task is appended to the queue; a rejected one leaves it alone.\<close>

definition EnqueuePaymentNotification :: "env \<Rightarrow> PaymentNotificationPayload \<Rightarrow> unit op" where
  "EnqueuePaymentNotification e payload w = (case e_enqueue e payload of
      Some err \<Rightarrow> (Inl err, w) | None \<Rightarrow> (Inr (), w\<lparr>w_queue := w_queue w @ [payload]\<rparr>))"

definition queued_delivery :: "env \<Rightarrow> string \<Rightarrow> PaymentNotificationPayload \<Rightarrow> string \<Rightarrow> string \<Rightarrow> string \<Rightarrow> NotificationDelivery" where
  "queued_delivery e deliveryID payload va eventType trigger =
    \<lparr>nd_ID = deliveryID, nd_VirtualAccountNo = va, nd_EventType = eventType, nd_Trigger = trigger,
     nd_Status = NotificationDeliveryStatusQueued, nd_AttemptedAt = e_now e, nd_ErrorDetail = [],
     nd_Payload = Some payload, nd_AttemptCount = 0, nd_HTTPStatus = 0, nd_LastAttemptAt = None\<rparr>"

definition dispatchNotification ::
    "env \<Rightarrow> PaymentNotificationPayload \<Rightarrow> string \<Rightarrow> string \<Rightarrow> string \<Rightarrow> world \<Rightarrow> (string \<times> string \<times> string) \<times> world" where
  "dispatchNotification e payload va eventType trigger w0 = (
     let deliveryID = fresh_id e w0;
         p = payload\<lparr>np_DeliveryID := deliveryID, np_Trigger := trigger\<rparr>;
         w1 = (if e_delivery_repo e
               then snd (Create e (queued_delivery e deliveryID p va eventType trigger) (next_uuid w0))
               else next_uuid w0);
         (err, w2) = (if e_notifier e
               then (case EnqueuePaymentNotification e p w1 of (Inl x, v) \<Rightarrow> (Some x, v) | (Inr _, v) \<Rightarrow> (None, v))
               else (Some (ErrOther ''notification enqueuer unavailable''), w1))
     in case err of None \<Rightarrow> ((deliveryID, NotificationDeliveryStatusQueued, []), w2)
        | Some x \<Rightarrow>
           (let status = (if x = ErrNotificationDuplicate then NotificationDeliveryStatusDuplicate
                          else NotificationDeliveryStatusFailed);
                w3 = (if e_delivery_repo e
                      then snd (UpdateDeliveryResult e deliveryID
                             \<lparr>nr_Status = status, nr_AttemptCount = 0, nr_HTTPStatus = 0, nr_ErrorDetail = Error x\<rparr> w2)
                      else w2)
            in ((deliveryID, status, Error x), w3)))"

section \<open>The delivery worker\<close>

text \<open>One call of the merchant's endpoint: the error of building or sending the request, or a status with the (bounded)
  body it answered.\<close>

type_synonym merchant = "string \<Rightarrow> jval \<Rightarrow> string + (int \<times> string)"

record deliveryError =
  dl_httpStatus :: int
  dl_text :: string

definition notification_body :: "env \<Rightarrow> PaymentNotificationPayload \<Rightarrow> jval" where
  "notification_body e payload =
    (if (if np_EventType payload = [] then NotificationEventPaymentReceived else np_EventType payload) = NotificationEventVAExpired
     then JObj [(''eventType'', JStr NotificationEventVAExpired), (''timestamp'', JStr (rfc3339 (e_now e))),
        (''data'', JObj [(''virtualAccountNo'', JStr (np_VirtualAccountNo payload)),
           (''customerNo'', JStr (np_CustomerNo payload)), (''trxId'', JStr (np_TrxID payload)),
           (''expiredAt'', JStr (np_ExpiredAt payload)), (''status'', JStr ''02'')])]
     else JObj [(''eventType'', JStr NotificationEventPaymentReceived), (''timestamp'', JStr (rfc3339 (e_now e))),
        (''data'', JObj [(''virtualAccountNo'', JStr (np_VirtualAccountNo payload)),
           (''customerNo'', JStr (np_CustomerNo payload)), (''trxId'', JStr (np_TrxID payload)),
           (''paymentRequestId'', JStr (np_PaymentRequestID payload)),
           (''paidAmount'', (case np_PaidAmount payload of None \<Rightarrow> JNull
              | Some a \<Rightarrow> JObj [(''value'', JStr (am_Value a)), (''currency'', JStr (am_Currency a))])),
           (''trxDateTime'', JStr (np_TrxDateTime payload)), (''referenceNo'', JStr (np_ReferenceNo payload)),
           (''status'', JStr ''00'')])])"

definition deliver :: "env \<Rightarrow> merchant \<Rightarrow> PaymentNotificationPayload \<Rightarrow> deliveryError option" where
  "deliver e post payload =
    (if np_NotificationURL payload = []
     then Some \<lparr>dl_httpStatus = 0, dl_text = ''notification URL is empty''\<rparr>
     else case post (np_NotificationURL payload) (notification_body e payload) of
        Inl t \<Rightarrow> Some \<lparr>dl_httpStatus = 0, dl_text = t\<rparr>
      | Inr (code, body) \<Rightarrow> if 400 \<le> code
          then Some \<lparr>dl_httpStatus = code, dl_text = ''notification failed with status '' @ Itoa code @ '': '' @ body\<rparr>
          else None)"

definition delivery_result :: "int \<Rightarrow> int \<Rightarrow> deliveryError option \<Rightarrow> NotificationDeliveryResult" where
  "delivery_result retried maxRetry err = (case err of
      None \<Rightarrow> \<lparr>nr_Status = NotificationDeliveryStatusSuccess, nr_AttemptCount = retried + 1,
               nr_HTTPStatus = 200, nr_ErrorDetail = []\<rparr>
    | Some d \<Rightarrow> \<lparr>nr_Status = (if retried < maxRetry then NotificationDeliveryStatusRetrying
                              else NotificationDeliveryStatusFailed),
               nr_AttemptCount = retried + 1, nr_HTTPStatus = dl_httpStatus d, nr_ErrorDetail = dl_text d\<rparr>)"

definition recordResult :: "env \<Rightarrow> PaymentNotificationPayload \<Rightarrow> int \<Rightarrow> int \<Rightarrow> deliveryError option \<Rightarrow> world \<Rightarrow> world" where
  "recordResult e task retried maxRetry err w =
    (if \<not> e_delivery_repo e \<or> np_DeliveryID task = [] then w
     else snd (UpdateDeliveryResult e (np_DeliveryID task) (delivery_result retried maxRetry err) w))"

definition HandlePaymentNotification ::
    "env \<Rightarrow> merchant \<Rightarrow> PaymentNotificationPayload \<Rightarrow> int \<Rightarrow> int \<Rightarrow> world \<Rightarrow> deliveryError option \<times> world" where
  "HandlePaymentNotification e post task retried maxRetry w =
    (let err = deliver e post task in (err, recordResult e task retried maxRetry err w))"

section \<open>What a dispatch leaves behind\<close>

lemma Create_given_id:
  assumes "nd_ID d \<noteq> []"
  shows "w_queue (snd (Create e d w)) = w_queue w" and "w_txns (snd (Create e d w)) = w_txns w"
    and "e_fault e (OpCreateDelivery (nd_VirtualAccountNo d)) = None \<Longrightarrow> nd_ID d \<notin> nd_ID ` set (w_deliveries w) \<Longrightarrow>
      \<exists>x. w_deliveries (snd (Create e d w)) = w_deliveries w @ [x] \<and> nd_ID x = nd_ID d \<and> nd_Status x = nd_Status d"
  using assms by (auto simp: Create_def guard_def Let_def split: option.splits)

end
