(* ===== verification/Validation.thy ===== *)
theory Validation
  imports SnapCodes
begin

text \<open>
  \<^verbatim>\<open>internal/domain/va_validation.go\<close>: the field rules of the three vendor services. A validator
  returns the first violation, or none. Each validator is shown to accept exactly the requests that
  satisfy a declarative predicate, in which an accepted paid amount is a positive number of cents
  below ten to the fifteenth.
\<close>

section \<open>Limits\<close>

definition maxPartnerServiceID :: nat where [code_consts]: "maxPartnerServiceID = 8"
definition maxInquiryCustomerNo :: nat where [code_consts]: "maxInquiryCustomerNo = 20"
definition maxInquiryVirtualAccountNo :: nat where [code_consts]: "maxInquiryVirtualAccountNo = 28"
definition maxInquiryRequestID :: nat where [code_consts]: "maxInquiryRequestID = 30"
definition maxLanguage :: nat where [code_consts]: "maxLanguage = 2"
definition maxPassApp :: nat where [code_consts]: "maxPassApp = 64"
definition maxPaymentCustomerNo :: nat where [code_consts]: "maxPaymentCustomerNo = 20"
definition maxPaymentVirtualAccountNo :: nat where [code_consts]: "maxPaymentVirtualAccountNo = 28"
definition maxPaymentRequestID :: nat where [code_consts]: "maxPaymentRequestID = 30"
definition MaxVirtualAccountName :: nat where [code_consts]: "MaxVirtualAccountName = 30"
definition maxVirtualAccountEmail :: nat where [code_consts]: "maxVirtualAccountEmail = 255"
definition maxVirtualAccountPhone :: nat where [code_consts]: "maxVirtualAccountPhone = 30"
definition maxTrxID :: nat where [code_consts]: "maxTrxID = 64"
definition maxHashedSourceAccountNo :: nat where [code_consts]: "maxHashedSourceAccountNo = 32"
definition maxSourceBankCode :: nat where [code_consts]: "maxSourceBankCode = 3"
definition maxPaidBills :: nat where [code_consts]: "maxPaidBills = 6"
definition maxReferenceNo :: nat where [code_consts]: "maxReferenceNo = 11"
definition maxJournalNum :: nat where [code_consts]: "maxJournalNum = 6"
definition maxPaymentType :: nat where [code_consts]: "maxPaymentType = 1"
definition maxFlagAdvise :: nat where [code_consts]: "maxFlagAdvise = 1"
definition maxSubCompany :: nat where [code_consts]: "maxSubCompany = 5"
definition maxPaymentBillDetails :: nat where [code_consts]: "maxPaymentBillDetails = 5"
definition maxFreeTexts :: nat where [code_consts]: "maxFreeTexts = 9"
definition MaxInquiryBillDetails :: nat where [code_consts]: "MaxInquiryBillDetails = 5"
definition MaxInquiryFreeTexts :: nat where [code_consts]: "MaxInquiryFreeTexts = 5"
definition MaxFreeTextLength :: nat where [code_consts]: "MaxFreeTextLength = 32"
definition MaxIssuedCustomerNo :: nat where [code_consts]: "MaxIssuedCustomerNo = 18"
definition MaxIssuedVirtualAccountNo :: nat where [code_consts]: "MaxIssuedVirtualAccountNo = 26"
definition maxAmountIntegerDigits :: nat where [code_consts]: "maxAmountIntegerDigits = 13"

definition allowedCurrencies :: "string list" where
  "allowedCurrencies = [''IDR'', ''USD'', ''SGD'']"

definition allowedPaymentChannelCodes :: "int list" where
  "allowedPaymentChannelCodes = [6000, 6010, 6011, 6012, 6013, 6014, 6015, 6016, 6017, 6018, 6019, 6020]"

datatype ViolationKind = ViolationMandatory | ViolationFormat

record FieldViolation =
  fv_Kind :: ViolationKind
  fv_Field :: string

definition mandatory :: "string \<Rightarrow> FieldViolation" where
  "mandatory f = \<lparr>fv_Kind = ViolationMandatory, fv_Field = f\<rparr>"

definition badFormat :: "string \<Rightarrow> FieldViolation" where
  "badFormat f = \<lparr>fv_Kind = ViolationFormat, fv_Field = f\<rparr>"

section \<open>The shared checks\<close>

definition requireVAIdentity ::
    "string \<Rightarrow> string \<Rightarrow> string \<Rightarrow> nat \<Rightarrow> nat \<Rightarrow> FieldViolation option" where
  "requireVAIdentity partnerServiceID customerNo virtualAccountNo maxCustomerNo maxVANo =
    (if TrimSpace partnerServiceID = [] then Some (mandatory ''partnerServiceId'')
     else if maxPartnerServiceID < length partnerServiceID then Some (badFormat ''partnerServiceId'')
     else if TrimSpace customerNo = [] then Some (mandatory ''customerNo'')
     else if maxCustomerNo < length customerNo then Some (badFormat ''customerNo'')
     else if TrimSpace virtualAccountNo = [] then Some (mandatory ''virtualAccountNo'')
     else if maxVANo < length virtualAccountNo then Some (badFormat ''virtualAccountNo'')
     else if \<not> HasSuffix (TrimSpace virtualAccountNo) (TrimSpace customerNo)
       then Some (badFormat ''virtualAccountNo'')
     else if \<not> HasPrefix (TrimSpace virtualAccountNo) (TrimSpace partnerServiceID)
       then Some (badFormat ''virtualAccountNo'')
     else None)"

text \<open>The part of an amount before the first dot.\<close>

definition integer_part :: "string \<Rightarrow> string" where
  "integer_part s = takeWhile (\<lambda>c. c \<noteq> CHR ''.'') s"

definition validateAmount :: "Amount \<Rightarrow> string \<Rightarrow> FieldViolation option" where
  "validateAmount amount field =
    (if TrimSpace (am_Value amount) = [] then Some (mandatory (field @ ''.value''))
     else if \<not> amountPattern (am_Value amount) then Some (badFormat (field @ ''.value''))
     else if maxAmountIntegerDigits < length (integer_part (am_Value amount))
       then Some (badFormat (field @ ''.value''))
     else if TrimSpace (am_Currency amount) = [] then Some (mandatory (field @ ''.currency''))
     else if ToUpper (TrimSpace (am_Currency amount)) \<notin> set allowedCurrencies
       then Some (badFormat (field @ ''.currency''))
     else None)"

definition over_length :: "string \<times> string \<times> nat \<Rightarrow> FieldViolation option" where
  "over_length check = (case check of (field, v, mx) \<Rightarrow>
     if mx < length v then Some (badFormat field) else None)"

definition validateFreeTextLengths :: "BilingualText list \<Rightarrow> FieldViolation option" where
  "validateFreeTextLengths texts = first_some (\<lambda>t.
     if MaxFreeTextLength < length (bt_English t) \<or> MaxFreeTextLength < length (bt_Indonesia t)
     then Some (badFormat ''freeTexts'') else None) texts"

section \<open>Inquiry\<close>

definition ValidateInquiryRequest :: "VAInquiryRequest \<Rightarrow> bool \<Rightarrow> FieldViolation option" where
  "ValidateInquiryRequest req strictMandatory =
    orelse (requireVAIdentity (iq_PartnerServiceID req) (iq_CustomerNo req) (iq_VirtualAccountNo req)
              maxInquiryCustomerNo maxInquiryVirtualAccountNo)
    (if TrimSpace (iq_InquiryRequestID req) = [] then Some (mandatory ''inquiryRequestId'')
     else if maxInquiryRequestID < length (iq_InquiryRequestID req) then Some (badFormat ''inquiryRequestId'')
     else if iq_ChannelCode req \<noteq> 0 \<and> iq_ChannelCode req \<notin> set allowedPaymentChannelCodes
       then Some (badFormat ''channelCode'')
     else orelse (case iq_Amount req of None \<Rightarrow> None | Some a \<Rightarrow> validateAmount a ''amount'')
    (orelse (if strictMandatory
             then (if iq_TrxDateInit req = None then Some (mandatory ''trxDateInit'')
                   else if iq_ChannelCode req = 0 then Some (mandatory ''channelCode'') else None)
             else None)
    (first_some over_length
      [(''language'', iq_Language req, maxLanguage),
       (''hashedSourceAccountNo'', iq_HashedSourceAccountNo req, maxHashedSourceAccountNo),
       (''sourceBankCode'', iq_SourceBankCode req, maxSourceBankCode),
       (''passApp'', iq_PassApp req, maxPassApp)])))"

section \<open>Payment\<close>

definition validatePaidAmountValue :: "Amount \<Rightarrow> FieldViolation option" where
  "validatePaidAmountValue amount = (let v = TrimSpace (am_Value amount) in
     if \<not> paidAmountPattern v then Some (badFormat ''paidAmount.value'')
     else case ParseFloat v of None \<Rightarrow> Some (badFormat ''paidAmount.value'')
       | Some parsed \<Rightarrow> if f64_le parsed (Fin 0) then Some (badFormat ''paidAmount.value'') else None)"

definition PaidAmountViolationIsInvalidAmount :: "FieldViolation option \<Rightarrow> bool" where
  "PaidAmountViolationIsInvalidAmount v = (case v of None \<Rightarrow> False
     | Some w \<Rightarrow> fv_Kind w = ViolationFormat \<and> fv_Field w = ''paidAmount.value'')"

definition validatePaymentStrictMandatory :: "VAPaymentRequest \<Rightarrow> FieldViolation option" where
  "validatePaymentStrictMandatory req =
    (if TrimSpace (pq_VirtualAccountName req) = [] then Some (mandatory ''virtualAccountName'')
     else if pq_ChannelCode req = 0 then Some (mandatory ''channelCode'')
     else if pq_TotalAmount req = None then Some (mandatory ''totalAmount'')
     else if pq_TrxDateTime req = None then Some (mandatory ''trxDateTime'')
     else if TrimSpace (pq_FlagAdvise req) = [] then Some (mandatory ''flagAdvise'')
     else None)"

definition validatePaymentOptionalLengths :: "VAPaymentRequest \<Rightarrow> FieldViolation option" where
  "validatePaymentOptionalLengths req =
    orelse (first_some over_length
      [(''virtualAccountName'', pq_VirtualAccountName req, MaxVirtualAccountName),
       (''virtualAccountEmail'', pq_VirtualAccountEmail req, maxVirtualAccountEmail),
       (''virtualAccountPhone'', pq_VirtualAccountPhone req, maxVirtualAccountPhone),
       (''trxId'', pq_TrxID req, maxTrxID),
       (''hashedSourceAccountNo'', pq_HashedSourceAccountNo req, maxHashedSourceAccountNo),
       (''sourceBankCode'', pq_SourceBankCode req, maxSourceBankCode),
       (''paidBills'', pq_PaidBills req, maxPaidBills),
       (''referenceNo'', pq_ReferenceNo req, maxReferenceNo),
       (''journalNum'', pq_JournalNum req, maxJournalNum),
       (''paymentType'', pq_PaymentType req, maxPaymentType),
       (''subCompany'', pq_SubCompany req, maxSubCompany)])
    (if maxFlagAdvise < length (pq_FlagAdvise req) then Some (badFormat ''flagAdvise'')
     else if pq_FlagAdvise req \<noteq> [] \<and> \<not> EqualFold (pq_FlagAdvise req) ''N'' \<and> \<not> EqualFold (pq_FlagAdvise req) ''Y''
       then Some (badFormat ''flagAdvise'')
     else if pq_ChannelCode req \<noteq> 0 \<and> pq_ChannelCode req \<notin> set allowedPaymentChannelCodes
       then Some (badFormat ''channelCode'')
     else None)"

definition validate_bill_amount :: "Amount \<Rightarrow> VAPaymentBillDetail \<Rightarrow> FieldViolation option" where
  "validate_bill_amount paid bill = (case pb_BillAmount bill of None \<Rightarrow> None
     | Some a \<Rightarrow> orelse (validateAmount a ''billDetails.billAmount'')
         (if \<not> EqualFold (am_Currency a) (am_Currency paid)
          then Some (badFormat ''billDetails.billAmount.currency'') else None))"

text \<open>The caller has checked that \<^verbatim>\<open>req.PaidAmount\<close> is present; it is passed as \<open>paid\<close>.\<close>

definition validatePaymentAmountsAndBills :: "VAPaymentRequest \<Rightarrow> Amount \<Rightarrow> FieldViolation option" where
  "validatePaymentAmountsAndBills req paid =
    orelse (case pq_TotalAmount req of None \<Rightarrow> None
        | Some a \<Rightarrow> orelse (validateAmount a ''totalAmount'')
            (if \<not> EqualFold (am_Currency a) (am_Currency paid)
             then Some (badFormat ''totalAmount.currency'') else None))
    (orelse (case pq_CumulativePaymentAmount req of None \<Rightarrow> None
        | Some a \<Rightarrow> validateAmount a ''cumulativePaymentAmount'')
    (if maxPaymentBillDetails < length (pq_BillDetails req) then Some (badFormat ''billDetails'')
     else if maxFreeTexts < length (pq_FreeTexts req) then Some (badFormat ''freeTexts'')
     else orelse (validateFreeTextLengths (pq_FreeTexts req))
       (first_some (validate_bill_amount paid) (pq_BillDetails req))))"

definition ValidatePaymentRequest :: "VAPaymentRequest \<Rightarrow> bool \<Rightarrow> FieldViolation option" where
  "ValidatePaymentRequest req strictMandatory =
    orelse (requireVAIdentity (pq_PartnerServiceID req) (pq_CustomerNo req) (pq_VirtualAccountNo req)
              maxPaymentCustomerNo maxPaymentVirtualAccountNo)
    (if TrimSpace (pq_PaymentRequestID req) = [] then Some (mandatory ''paymentRequestId'')
     else if maxPaymentRequestID < length (pq_PaymentRequestID req) then Some (badFormat ''paymentRequestId'')
     else case pq_PaidAmount req of None \<Rightarrow> Some (mandatory ''paidAmount'')
       | Some paid \<Rightarrow>
           orelse (validateAmount paid ''paidAmount'')
          (orelse (validatePaidAmountValue paid)
          (orelse (validatePaymentOptionalLengths req)
          (orelse (validatePaymentAmountsAndBills req paid)
          (if \<not> strictMandatory then None else validatePaymentStrictMandatory req)))))"

section \<open>Status\<close>

definition ValidateStatusRequest :: "VAStatusRequest \<Rightarrow> FieldViolation option" where
  "ValidateStatusRequest req =
    orelse (requireVAIdentity (sq_PartnerServiceID req) (sq_CustomerNo req) (sq_VirtualAccountNo req)
              maxPaymentCustomerNo maxPaymentVirtualAccountNo)
    (if TrimSpace (sq_InquiryRequestID req) = [] then Some (mandatory ''inquiryRequestId'')
     else if maxPaymentRequestID < length (sq_InquiryRequestID req) then Some (badFormat ''inquiryRequestId'')
     else None)"

section \<open>What the validators accept\<close>

text \<open>The identity triple: all present, within their limits, and the number agreeing with both halves.\<close>

definition identity_ok :: "string \<Rightarrow> string \<Rightarrow> string \<Rightarrow> nat \<Rightarrow> nat \<Rightarrow> bool" where
  "identity_ok partner customer va mc mv = (
     TrimSpace partner \<noteq> [] \<and> length partner \<le> 8 \<and>
     TrimSpace customer \<noteq> [] \<and> length customer \<le> mc \<and>
     TrimSpace va \<noteq> [] \<and> length va \<le> mv \<and>
     prefix (TrimSpace partner) (TrimSpace va) \<and> suffix (TrimSpace customer) (TrimSpace va))"

definition currency_ok :: "string \<Rightarrow> bool" where
  "currency_ok c = (ToUpper (TrimSpace c) \<in> {''IDR'', ''USD'', ''SGD''})"

definition amount_ok :: "Amount \<Rightarrow> bool" where
  "amount_ok a = (amountPattern (am_Value a) \<and> amount_cents (am_Value a) < 10 ^ 15 \<and>
     length (integer_part (am_Value a)) \<le> 13 \<and> currency_ok (am_Currency a))"

lemma requireVAIdentity_None: "requireVAIdentity p c v mc mv = None \<longleftrightarrow> identity_ok p c v mc mv"
  by (auto simp: requireVAIdentity_def identity_ok_def code_consts)

lemma integer_part_amount:
  assumes "amountPattern s" shows "integer_part s = takeWhile is_digit s"
proof -
  define ip r where "ip = takeWhile is_digit s" and "r = dropWhile is_digit s"
  have s: "s = ip @ r" by (simp add: ip_def r_def)
  have d: "\<forall>c \<in> set ip. c \<noteq> CHR ''.''"
    using takeWhile_digits [of s] by (auto simp: ip_def list_all_iff is_digit_def Let_def)
  from assms have "r = [] \<or> hd r = CHR ''.''"
    by (auto simp: amountPattern_def Let_def simp flip: r_def)
  then have "takeWhile (\<lambda>c. c \<noteq> CHR ''.'') r = []" by (cases r) auto
  with d show ?thesis unfolding integer_part_def ip_def [symmetric] by (subst s) (simp add: takeWhile_append)
qed

lemma amount_cents_bound:
  assumes "amountPattern s" and "length (integer_part s) \<le> 13"
  shows "amount_cents s < 10 ^ 15"
proof -
  define ip fp where "ip = takeWhile is_digit s" and "fp = tl (dropWhile is_digit s)"
  have len: "length ip \<le> 13" using assms integer_part_amount by (simp add: ip_def)
  have fp: "list_all is_digit fp \<and> length fp \<le> 2"
    using assms(1) by (fastforce simp: amountPattern_def Let_def fp_def simp del: dropWhile_eq_Nil_conv)
  have "num_of (ip @ fp) < 10 ^ length (ip @ fp)"
    using takeWhile_digits [of s] fp by (intro digits_lt) (simp add: ip_def)
  then have "num_of (ip @ fp) * 10 ^ (2 - length fp) < 10 ^ length (ip @ fp) * 10 ^ (2 - length fp)" by simp
  also have "\<dots> = 10 ^ (length ip + 2)" using fp by (simp flip: power_add)
  also have "\<dots> \<le> 10 ^ 15" using len by (intro power_increasing) simp_all
  finally show ?thesis by (simp add: amount_cents_def Let_def flip: ip_def fp_def)
qed

lemma validateAmount_None: "validateAmount a field = None \<longleftrightarrow> amount_ok a"
proof -
  have "TrimSpace (am_Value a) \<noteq> []" if "amountPattern (am_Value a)"
    using that amountPattern_trim [OF that] by (auto simp: amountPattern_def)
  moreover have "TrimSpace (am_Currency a) \<noteq> []" if "currency_ok (am_Currency a)"
    using that by (auto simp: currency_ok_def)
  ultimately show ?thesis
    using amount_cents_bound [of "am_Value a"]
    by (auto simp: validateAmount_def amount_ok_def currency_ok_def allowedCurrencies_def code_consts)
qed

text \<open>A paid amount: the strict pattern and a positive number of cents.\<close>

definition paid_ok :: "Amount \<Rightarrow> bool" where
  "paid_ok a = (paidAmountPattern (am_Value a) \<and> 0 < amount_cents (am_Value a) \<and> currency_ok (am_Currency a))"

lemma paid_integer_part: "paidAmountPattern s \<Longrightarrow> length (integer_part s) \<le> 13"
  using integer_part_amount [OF paid_is_amount] by (simp add: paidAmountPattern_def Let_def)

lemma validatePaid_None:
  "validateAmount a f = None \<and> validatePaidAmountValue a = None \<longleftrightarrow> paid_ok a"
proof -
  let ?v = "am_Value a"
  have trim: "TrimSpace ?v = ?v" if "amountPattern ?v" using that by (rule amountPattern_trim)
  have pos: "validatePaidAmountValue a = None \<longleftrightarrow> 0 < amount_cents ?v" if p: "paidAmountPattern ?v"
  proof -
    note amt = paid_is_amount [OF p] and bnd = paid_cents_bound [OF p]
    have "ParseFloat ?v = Some (money (amount_cents ?v))"
      using amt by (rule ParseFloat_amount) (use bnd in simp)
    with p bnd trim [OF amt] money_positive [OF bnd] show ?thesis
      by (auto simp: validatePaidAmountValue_def Let_def)
  qed
  show ?thesis
  proof (cases "paidAmountPattern ?v")
    case True
    with pos paid_is_amount paid_cents_bound paid_integer_part show ?thesis
      by (auto simp: validateAmount_None amount_ok_def paid_ok_def)
  next
    case False
    then have "\<not> (validateAmount a f = None \<and> validatePaidAmountValue a = None)"
      using trim by (auto simp: validateAmount_None amount_ok_def validatePaidAmountValue_def Let_def)
    with False show ?thesis by (simp add: paid_ok_def)
  qed
qed

definition lengths_ok :: "VAPaymentRequest \<Rightarrow> bool" where
  "lengths_ok r = (length (pq_VirtualAccountName r) \<le> 30 \<and> length (pq_VirtualAccountEmail r) \<le> 255 \<and>
     length (pq_VirtualAccountPhone r) \<le> 30 \<and> length (pq_TrxID r) \<le> 64 \<and>
     length (pq_HashedSourceAccountNo r) \<le> 32 \<and> length (pq_SourceBankCode r) \<le> 3 \<and>
     length (pq_PaidBills r) \<le> 6 \<and> length (pq_ReferenceNo r) \<le> 11 \<and> length (pq_JournalNum r) \<le> 6 \<and>
     length (pq_PaymentType r) \<le> 1 \<and> length (pq_SubCompany r) \<le> 5 \<and>
     pq_FlagAdvise r \<in> {[], ''N'', ''n'', ''Y'', ''y''} \<and>
     (pq_ChannelCode r = 0 \<or> pq_ChannelCode r = 6000 \<or> (6010 \<le> pq_ChannelCode r \<and> pq_ChannelCode r \<le> 6020)))"

lemma channel_table:
  "c \<in> set allowedPaymentChannelCodes \<longleftrightarrow> c = 6000 \<or> (6010 \<le> c \<and> c \<le> 6020)"
  by (simp add: allowedPaymentChannelCodes_def) presburger

lemma upper_byte_inv:
  assumes "65 \<le> (of_char d :: nat)" and "(of_char d :: nat) \<le> 90"
  shows "upper_byte c = d \<longleftrightarrow> c = d \<or> c = char_of (of_char d + 32 :: nat)"
proof -
  have inj: "a = b \<longleftrightarrow> (of_char a :: nat) = of_char b" for a b :: char by (simp add: of_char_eq_iff)
  have lt: "(of_char c :: nat) < 256" by (rule nat_of_char_less_256)
  have up: "(of_char (upper_byte c) :: nat) =
      (if 97 \<le> (of_char c :: nat) \<and> (of_char c :: nat) \<le> 122 then of_char c - 32 else of_char c)"
    using lt by (auto simp: upper_byte_def Let_def)
  show ?thesis using assms unfolding inj up by auto
qed

lemma flag_advise_values:
  "length s \<le> 1 \<and> (s = [] \<or> EqualFold s ''N'' \<or> EqualFold s ''Y'') \<longleftrightarrow> s \<in> {[], ''N'', ''n'', ''Y'', ''y''}"
proof -
  have up: "upper_byte (CHR ''N'') = CHR ''N''" "upper_byte (CHR ''Y'') = CHR ''Y''" by (simp_all add: upper_byte_def)
  have low: "char_of (110 :: nat) = CHR ''n''" "char_of (121 :: nat) = CHR ''y''" by code_simp+
  show ?thesis
    by (cases s rule: fold_case.cases) (auto simp: EqualFold_def up upper_byte_inv low)
qed

lemma validatePaymentOptionalLengths_None: "validatePaymentOptionalLengths r = None \<longleftrightarrow> lengths_ok r"
proof -
  have "validatePaymentOptionalLengths r = None \<longleftrightarrow>
      lengths_ok (r\<lparr>pq_FlagAdvise := []\<rparr>) \<and> (length (pq_FlagAdvise r) \<le> 1 \<and>
        (pq_FlagAdvise r = [] \<or> EqualFold (pq_FlagAdvise r) ''N'' \<or> EqualFold (pq_FlagAdvise r) ''Y''))"
    by (auto simp: validatePaymentOptionalLengths_def over_length_def lengths_ok_def code_consts channel_table)
  then show ?thesis unfolding flag_advise_values by (auto simp: lengths_ok_def)
qed

definition bills_ok :: "VAPaymentRequest \<Rightarrow> Amount \<Rightarrow> bool" where
  "bills_ok r paid = (
     (case pq_TotalAmount r of None \<Rightarrow> True | Some a \<Rightarrow> amount_ok a \<and> EqualFold (am_Currency a) (am_Currency paid)) \<and>
     (case pq_CumulativePaymentAmount r of None \<Rightarrow> True | Some a \<Rightarrow> amount_ok a) \<and>
     length (pq_BillDetails r) \<le> 5 \<and> length (pq_FreeTexts r) \<le> 9 \<and>
     (\<forall>t \<in> set (pq_FreeTexts r). length (bt_English t) \<le> 32 \<and> length (bt_Indonesia t) \<le> 32) \<and>
     (\<forall>b \<in> set (pq_BillDetails r). case pb_BillAmount b of None \<Rightarrow> True
        | Some a \<Rightarrow> amount_ok a \<and> EqualFold (am_Currency a) (am_Currency paid)))"

lemma validatePaymentAmountsAndBills_None:
  "validatePaymentAmountsAndBills r paid = None \<longleftrightarrow> bills_ok r paid"
  by (auto simp: validatePaymentAmountsAndBills_def bills_ok_def validateFreeTextLengths_def
      validate_bill_amount_def first_some_None_iff validateAmount_None code_consts
      split: option.splits if_splits)

definition strict_ok :: "VAPaymentRequest \<Rightarrow> bool" where
  "strict_ok r = (TrimSpace (pq_VirtualAccountName r) \<noteq> [] \<and> pq_ChannelCode r \<noteq> 0 \<and>
     pq_TotalAmount r \<noteq> None \<and> pq_TrxDateTime r \<noteq> None \<and> TrimSpace (pq_FlagAdvise r) \<noteq> [])"

definition payment_wellformed :: "bool \<Rightarrow> VAPaymentRequest \<Rightarrow> bool" where
  "payment_wellformed strict r = (
     identity_ok (pq_PartnerServiceID r) (pq_CustomerNo r) (pq_VirtualAccountNo r) 20 28 \<and>
     TrimSpace (pq_PaymentRequestID r) \<noteq> [] \<and> length (pq_PaymentRequestID r) \<le> 30 \<and>
     (case pq_PaidAmount r of None \<Rightarrow> False | Some paid \<Rightarrow> paid_ok paid \<and> bills_ok r paid) \<and>
     lengths_ok r \<and> (strict \<longrightarrow> strict_ok r))"

lemma ValidatePaymentRequest_None:
  "ValidatePaymentRequest r strict = None \<longleftrightarrow> payment_wellformed strict r"
proof (cases "pq_PaidAmount r")
  case None
  then show ?thesis by (simp add: ValidatePaymentRequest_def payment_wellformed_def)
next
  case (Some paid)
  have "validatePaymentStrictMandatory r = None \<longleftrightarrow> strict_ok r"
    by (simp add: validatePaymentStrictMandatory_def strict_ok_def)
  with Some validatePaid_None [of paid "''paidAmount''"] show ?thesis
    by (auto simp: ValidatePaymentRequest_def payment_wellformed_def requireVAIdentity_None
        validatePaymentOptionalLengths_None validatePaymentAmountsAndBills_None code_consts)
qed

definition inquiry_wellformed :: "bool \<Rightarrow> VAInquiryRequest \<Rightarrow> bool" where
  "inquiry_wellformed strict r = (
     identity_ok (iq_PartnerServiceID r) (iq_CustomerNo r) (iq_VirtualAccountNo r) 20 28 \<and>
     TrimSpace (iq_InquiryRequestID r) \<noteq> [] \<and> length (iq_InquiryRequestID r) \<le> 30 \<and>
     (iq_ChannelCode r = 0 \<or> iq_ChannelCode r = 6000 \<or> (6010 \<le> iq_ChannelCode r \<and> iq_ChannelCode r \<le> 6020)) \<and>
     (case iq_Amount r of None \<Rightarrow> True | Some a \<Rightarrow> amount_ok a) \<and>
     (strict \<longrightarrow> iq_TrxDateInit r \<noteq> None \<and> iq_ChannelCode r \<noteq> 0) \<and>
     length (iq_Language r) \<le> 2 \<and> length (iq_HashedSourceAccountNo r) \<le> 32 \<and>
     length (iq_SourceBankCode r) \<le> 3 \<and> length (iq_PassApp r) \<le> 64)"

lemma ValidateInquiryRequest_None:
  "ValidateInquiryRequest r strict = None \<longleftrightarrow> inquiry_wellformed strict r"
  by (auto simp: ValidateInquiryRequest_def inquiry_wellformed_def requireVAIdentity_None over_length_def
      validateAmount_None channel_table code_consts split: option.splits if_splits)

end
