(* ===== verification/VaUsecase.thy ===== *)
theory VaUsecase
  imports Notify Validation
begin

text \<open>
  \<^verbatim>\<open>internal/usecase/va_usecase.go\<close>: the three operations a vendor calls, with their helpers in the
  order of the source. An operation returns a \<^verbatim>\<open>DomainError\<close> or a response, and the new world. A
  repository read is used through its result, since reads leave the world unchanged. All readings of
  the clock within one request are \<^const>\<open>e_now\<close>; log lines are left out.
\<close>

definition errInternalServerError :: string where [code_consts]: "errInternalServerError = ''Internal Server Error''"
definition errInvalidBill :: string where [code_consts]: "errInvalidBill = ''Invalid Bill/Virtual Account''"
definition flagAdviseRetry :: string where [code_consts]: "flagAdviseRetry = ''Y''"
definition defaultCurrency :: string where [code_consts]: "defaultCurrency = ''IDR''"
definition zeroAmount :: string where [code_consts]: "zeroAmount = ''0.00''"
definition defaultSubCompany :: string where [code_consts]: "defaultSubCompany = ''00000''"
definition statusSuccessMessage :: string where [code_consts]: "statusSuccessMessage = ''Success''"
definition snapMsgInconsistentRequest :: string where [code_consts]: "snapMsgInconsistentRequest = ''Inconsistent Request''"
definition snapMsgVANotFound :: string where [code_consts]: "snapMsgVANotFound = ''Invalid Bill/Virtual Account [Not Found]''"

definition isNotFound :: "gerr \<Rightarrow> bool" where
  "isNotFound err = (err = ErrVAInvalidBill \<or> err = ErrMerchantVANotFound)"

definition internal_error :: "string \<Rightarrow> gerr \<Rightarrow> DomainError" where
  "internal_error service err = NewDomainError (CodeInternalError service) errInternalServerError (Some err)"

text \<open>A lookup whose missing row is an answer: none, or the row; any other error is a failure.\<close>

definition optional :: "(gerr \<Rightarrow> bool) \<Rightarrow> gerr + 'a \<Rightarrow> gerr + 'a option" where
  "optional missing r = (case r of Inr x \<Rightarrow> Inr (Some x)
     | Inl err \<Rightarrow> if missing err then Inr None else Inl err)"

definition successReason :: BilingualText where
  "successReason = bilingual ''Success'' ''Sukses''"

section \<open>Amounts\<close>

definition amountsEqual :: "string \<Rightarrow> string \<Rightarrow> bool" where
  "amountsEqual a b = (case (ParseFloat (TrimSpace a), ParseFloat (TrimSpace b)) of
      (Some left, Some right) \<Rightarrow> f64_near left right
    | _ \<Rightarrow> TrimSpace a = TrimSpace b)"

text \<open>True when the instalment would take the bill past its total.\<close>

definition variableBillOverpayment :: "Amount \<Rightarrow> VAInquiryRecord \<Rightarrow> bool" where
  "variableBillOverpayment paid record =
    (if TrimSpace (ri_TotalAmount record) = [] then False
     else case ParseFloat (TrimSpace (ri_TotalAmount record)) of None \<Rightarrow> False
       | Some tot \<Rightarrow> if f64_le tot (Fin 0) then False
          else (case ParseFloat (TrimSpace (am_Value paid)) of None \<Rightarrow> False
            | Some tendered \<Rightarrow>
                (let settled = (case ParseFloat (TrimSpace (ri_PaidAmount record)) of None \<Rightarrow> Fin 0 | Some x \<Rightarrow> x)
                 in f64_exceeds settled tendered tot)))"

section \<open>Building the answers\<close>

definition capBillDetails :: "BillDetail list \<Rightarrow> BillDetail list" where
  "capBillDetails bills = (if MaxInquiryBillDetails < length bills then take MaxInquiryBillDetails bills else bills)"

definition capFreeTexts :: "BilingualText list \<Rightarrow> BilingualText list" where
  "capFreeTexts texts = (if MaxInquiryFreeTexts < length texts then take MaxInquiryFreeTexts texts else texts)"

definition subCompanyForVA :: "VAInquiryRecord \<Rightarrow> BillDetail list \<Rightarrow> string" where
  "subCompanyForVA record bills = (if ri_SubCompany record \<noteq> [] then ri_SubCompany record
     else case find (\<lambda>b. bd_BillSubCompany b \<noteq> []) bills of
            Some b \<Rightarrow> bd_BillSubCompany b | None \<Rightarrow> defaultSubCompany)"

definition or_default :: "string \<Rightarrow> string \<Rightarrow> string" where
  "or_default d s = (if s = [] then d else s)"

definition inquiryAccountDataFromRecord :: "VAInquiryRecord \<Rightarrow> string \<Rightarrow> BillDetail list \<Rightarrow> VAAccountData" where
  "inquiryAccountDataFromRecord record inquiryRequestID bills = zeroAccountData\<lparr>
     ad_PartnerServiceID := ri_PartnerServiceID record,
     ad_CustomerNo := ri_CustomerNo record,
     ad_VirtualAccountNo := ri_VirtualAccountNo record,
     ad_VirtualAccountName := ri_CustomerName record,
     ad_InquiryRequestID := inquiryRequestID,
     ad_TotalAmount := Some \<lparr>am_Value = or_default zeroAmount (ri_TotalAmount record),
        am_Currency = or_default defaultCurrency (ri_Currency record)\<rparr>,
     ad_SubCompany := subCompanyForVA record bills,
     ad_BillDetails := capBillDetails bills,
     ad_FreeTexts := capFreeTexts (ri_FreeTexts record)\<rparr>"

definition inquiryResponseFromRecord :: "VAInquiryRecord \<Rightarrow> string \<Rightarrow> BillDetail list \<Rightarrow> VAInquiryResponse" where
  "inquiryResponseFromRecord record inquiryRequestID bills =
    \<lparr>ir_ResponseCode = CodeInquirySuccess, ir_ResponseMessage = ''Successful'',
     ir_VirtualAccountData = Some ((inquiryAccountDataFromRecord record inquiryRequestID bills)
       \<lparr>ad_InquiryStatus := ''00'', ad_InquiryReason := Some successReason\<rparr>),
     ir_AdditionalInfo = []\<rparr>"

definition best_effort_bills :: "env \<Rightarrow> string \<Rightarrow> world \<Rightarrow> BillDetail list" where
  "best_effort_bills e tid w = (case fst (GetVABillDetails e tid w) of Inl _ \<Rightarrow> [] | Inr bs \<Rightarrow> bs)"

definition rejectedAccountData :: "env \<Rightarrow> VAInquiryRecord \<Rightarrow> string \<Rightarrow> string \<Rightarrow> world \<Rightarrow> VAAccountData" where
  "rejectedAccountData e record inquiryRequestID code w =
    (inquiryAccountDataFromRecord record inquiryRequestID (best_effort_bills e (ri_ID record) w))
      \<lparr>ad_InquiryStatus := FlagStatusForCode code, ad_InquiryReason := Some (ReasonForCode code)\<rparr>"

definition getPaymentFlagReason :: "string \<Rightarrow> BilingualText" where
  "getPaymentFlagReason status =
    (if status = ''00'' then bilingual ''Success'' ''Sukses''
     else if status = ''01'' then bilingual ''Reject'' ''Ditolak''
     else if status = ''02'' then bilingual ''Timeout'' ''Waktu Habis''
     else if status = ''03'' then bilingual ''Pending'' ''Tertunda''
     else bilingual (''Status: '' @ status) (''Status: '' @ status))"

definition paymentResponseFromRecord :: "VAPaymentRecord \<Rightarrow> VAPaymentResponse" where
  "paymentResponseFromRecord existing =
    \<lparr>pr_ResponseCode = CodePaymentSuccess, pr_ResponseMessage = ''Successful'',
     pr_VirtualAccountData = Some (zeroPaymentStatus\<lparr>
       ps_PartnerServiceID := rp_PartnerServiceID existing,
       ps_CustomerNo := rp_CustomerNo existing,
       ps_VirtualAccountNo := rp_VirtualAccountNo existing,
       ps_VirtualAccountName := rp_CustomerName existing,
       ps_PaymentRequestID := rp_PaymentRequestID existing,
       ps_PaidAmount := Some \<lparr>am_Value = rp_PaidAmount existing, am_Currency = rp_Currency existing\<rparr>,
       ps_TotalAmount := Some \<lparr>am_Value = or_default (rp_PaidAmount existing) (rp_TotalAmount existing),
          am_Currency = rp_Currency existing\<rparr>,
       ps_TrxDateTime := Some (rp_TransactionDate existing),
       ps_ReferenceNo := rp_ReferenceNo existing,
       ps_PaymentFlagStatus := ''00'',
       ps_PaymentFlagReason := Some successReason\<rparr>),
     pr_AdditionalInfo = []\<rparr>"

definition settledPaidAmount :: "VAInquiryRecord \<Rightarrow> string \<Rightarrow> string \<Rightarrow> Amount" where
  "settledPaidAmount record currency code =
    (if code \<noteq> CodePaymentPaidBill then zeroAmt
     else if ri_PaidAmount record = [] \<or> amountsEqual (ri_PaidAmount record) ''0'' then zeroAmt
     else \<lparr>am_Value = ri_PaidAmount record, am_Currency = currency\<rparr>)"

definition paymentRejectionData :: "VAPaymentRequest \<Rightarrow> VAInquiryRecord \<Rightarrow> string \<Rightarrow> VAPaymentStatus" where
  "paymentRejectionData req record code =
    (let currency = (if ri_Currency record = [] then ''IDR'' else ri_Currency record) in
     zeroPaymentStatus\<lparr>
       ps_PartnerServiceID := ri_PartnerServiceID record,
       ps_CustomerNo := ri_CustomerNo record,
       ps_VirtualAccountNo := ri_VirtualAccountNo record,
       ps_VirtualAccountName := ri_CustomerName record,
       ps_PaymentRequestID := pq_PaymentRequestID req,
       ps_PaidAmount := Some (settledPaidAmount record currency code),
       ps_TotalAmount := Some \<lparr>am_Value = ri_TotalAmount record, am_Currency = currency\<rparr>,
       ps_TrxDateTime := pq_TrxDateTime req,
       ps_ReferenceNo := pq_ReferenceNo req,
       ps_PaymentFlagStatus := FlagStatusForCode code,
       ps_PaymentFlagReason := Some (ReasonForCode code)\<rparr>)"

definition accountRejectionData :: "VAPaymentRequest \<Rightarrow> VAAccount \<Rightarrow> string \<Rightarrow> VAPaymentStatus" where
  "accountRejectionData req account code = zeroPaymentStatus\<lparr>
     ps_PartnerServiceID := ac_PartnerServiceID account,
     ps_CustomerNo := ac_CustomerNo account,
     ps_VirtualAccountNo := ac_VirtualAccountNo account,
     ps_VirtualAccountName := ac_CustomerName account,
     ps_PaymentRequestID := pq_PaymentRequestID req,
     ps_PaidAmount := Some zeroAmt,
     ps_TotalAmount := Some zeroAmt,
     ps_TrxDateTime := pq_TrxDateTime req,
     ps_ReferenceNo := pq_ReferenceNo req,
     ps_PaymentFlagStatus := FlagStatusForCode code,
     ps_PaymentFlagReason := Some (ReasonForCode code)\<rparr>"

definition vaNotFoundPaymentError :: "VAPaymentRequest \<Rightarrow> DomainError" where
  "vaNotFoundPaymentError req = NewPaymentError CodePaymentNotFound snapMsgVANotFound (Some ErrVAInvalidBill)
     (Some (zeroPaymentStatus\<lparr>
       ps_PartnerServiceID := pq_PartnerServiceID req,
       ps_CustomerNo := pq_CustomerNo req,
       ps_VirtualAccountNo := pq_VirtualAccountNo req,
       ps_PaymentRequestID := pq_PaymentRequestID req,
       ps_PaidAmount := Some zeroAmt,
       ps_TotalAmount := Some zeroAmt,
       ps_TrxDateTime := pq_TrxDateTime req,
       ps_ReferenceNo := pq_ReferenceNo req,
       ps_PaymentFlagStatus := FlagStatusForCode CodePaymentNotFound,
       ps_PaymentFlagReason := Some (ReasonForCode CodePaymentNotFound)\<rparr>))"

definition duplicatePaymentError :: "VAPaymentRecord \<Rightarrow> DomainError" where
  "duplicatePaymentError existing = NewPaymentError CodePaymentInconsistent snapMsgInconsistentRequest
     (Some ErrVAPaymentDuplicate) (pr_VirtualAccountData (paymentResponseFromRecord existing))"

definition nonPendingPaymentError :: "VAPaymentRequest \<Rightarrow> VAInquiryRecord \<Rightarrow> DomainError" where
  "nonPendingPaymentError req record =
    (if ri_Status record = ''00'' then NewPaymentError CodePaymentPaidBill ''Paid Bill'' (Some ErrVAPaidBill)
       (Some (paymentRejectionData req record CodePaymentPaidBill))
     else if ri_Status record = ''02'' then NewPaymentError CodePaymentExpired errInvalidBill (Some ErrVAExpiredPayment)
       (Some (paymentRejectionData req record CodePaymentExpired))
     else if ri_Status record = ''04'' then NewPaymentError CodePaymentNotFound snapMsgVANotFound (Some ErrVAInvalidBill)
       (Some (paymentRejectionData req record CodePaymentNotFound))
     else NewPaymentError CodePaymentConflict ''Conflict'' None
       (Some (paymentRejectionData req record CodePaymentConflict)))"

definition paymentBilling :: "VAAccount option \<Rightarrow> VAInquiryRecord \<Rightarrow> string" where
  "paymentBilling account merchantVA = (case account of
      Some a \<Rightarrow> if ac_Billing a \<noteq> [] then ac_Billing a else BillingForVAType (ri_VAType merchantVA)
    | None \<Rightarrow> BillingForVAType (ri_VAType merchantVA))"

definition paymentTotalAmountValue :: "VAPaymentRequest \<Rightarrow> Amount \<Rightarrow> string" where
  "paymentTotalAmountValue req paid = (case pq_TotalAmount req of Some a \<Rightarrow> am_Value a | None \<Rightarrow> am_Value paid)"

definition paymentTotalAmount :: "VAPaymentRequest \<Rightarrow> Amount \<Rightarrow> Amount" where
  "paymentTotalAmount req paid = (case pq_TotalAmount req of Some a \<Rightarrow> a
     | None \<Rightarrow> \<lparr>am_Value = am_Value paid, am_Currency = am_Currency paid\<rparr>)"

definition bill_of_payment :: "VAPaymentBillDetail \<Rightarrow> BillDetail" where
  "bill_of_payment b = \<lparr>bd_BillCode = pb_BillCode b, bd_BillNo = pb_BillNo b, bd_BillName = pb_BillName b,
     bd_BillShortName = pb_BillShortName b, bd_BillDescription = pb_BillDescription b,
     bd_BillSubCompany = pb_BillSubCompany b, bd_BillAmount = pb_BillAmount b, bd_BillAmountLabel = [],
     bd_BillAmountValue = [], bd_BillReferenceNo = pb_BillReferenceNo b,
     bd_BillerReferenceID = pb_BillerReferenceID b, bd_Status = pb_Status b, bd_Reason = pb_Reason b,
     bd_AdditionalInfo = pb_AdditionalInfo b\<rparr>"

definition paymentBillDetailsToBillDetail :: "VAPaymentBillDetail list \<Rightarrow> BillDetail list" where
  "paymentBillDetailsToBillDetail bills = map bill_of_payment bills"

definition echo_bill :: "VAPaymentBillDetail \<Rightarrow> VAPaymentResponseBillDetail" where
  "echo_bill b = \<lparr>rb_BillerReferenceID = or_default (pb_BillReferenceNo b) (pb_BillerReferenceID b),
     rb_BillNo = pb_BillNo b, rb_BillDescription = pb_BillDescription b, rb_BillSubCompany = pb_BillSubCompany b,
     rb_BillAmount = pb_BillAmount b, rb_AdditionalInfo = pb_AdditionalInfo b,
     rb_Status = or_default ''00'' (pb_Status b),
     rb_Reason = (case pb_Reason b of None \<Rightarrow> Some successReason | Some r \<Rightarrow> Some r)\<rparr>"

definition echoPaymentBillDetails :: "VAPaymentBillDetail list \<Rightarrow> VAPaymentResponseBillDetail list" where
  "echoPaymentBillDetails bills = map echo_bill bills"

section \<open>Callbacks\<close>

definition emptyPayload :: PaymentNotificationPayload where
  "emptyPayload = \<lparr>np_EventType = [], np_PartnerServiceID = [], np_CustomerNo = [], np_VirtualAccountNo = [],
     np_TrxID = [], np_PaymentRequestID = [], np_PaidAmount = None, np_CumulativePaymentAmount = None,
     np_PaidBills = [], np_TotalAmount = None, np_TrxDateTime = [], np_ReferenceNo = [], np_JournalNum = [],
     np_PaymentType = [], np_FlagAdvise = [], np_NotificationURL = [], np_ExpiredAt = [], np_DeliveryID = [],
     np_Trigger = []\<rparr>"

definition enqueueAndAudit :: "env \<Rightarrow> PaymentNotificationPayload \<Rightarrow> string \<Rightarrow> string \<Rightarrow> world \<Rightarrow> world" where
  "enqueueAndAudit e payload va eventType w =
    snd (dispatchNotification e payload va eventType NotificationTriggerAuto w)"

definition time_text :: "gtime option \<Rightarrow> string" where
  "time_text d = (case d of None \<Rightarrow> [] | Some t \<Rightarrow> rfc3339 t)"

text \<open>The dedupe lookup: true only when it succeeds and finds a row.\<close>

definition already_told :: "env \<Rightarrow> string \<Rightarrow> world \<Rightarrow> bool" where
  "already_told e va w = (e_delivery_repo e \<and>
     fst (ExistsByVirtualAccountNoAndEventType e va NotificationEventVAExpired NotificationTriggerAuto w) = Inr True)"

definition expired_payload :: "string \<Rightarrow> string \<Rightarrow> string \<Rightarrow> string \<Rightarrow> string \<Rightarrow> gtime option \<Rightarrow> PaymentNotificationPayload" where
  "expired_payload partner customer va trx url d = emptyPayload\<lparr>
     np_EventType := NotificationEventVAExpired, np_PartnerServiceID := partner, np_CustomerNo := customer,
     np_VirtualAccountNo := va, np_TrxID := trx, np_NotificationURL := url, np_ExpiredAt := time_text d\<rparr>"

definition markExpiredAndNotify :: "env \<Rightarrow> VAInquiryRecord \<Rightarrow> world \<Rightarrow> world" where
  "markExpiredAndNotify e merchantVA w = (case UpdateVAStatus e (ri_VirtualAccountNo merchantVA) ''02'' w of
      (Inl _, w1) \<Rightarrow> w1
    | (Inr _, w1) \<Rightarrow>
        if ri_NotificationURL merchantVA = [] \<or> \<not> e_notifier e then w1
        else if already_told e (ri_VirtualAccountNo merchantVA) w1 then w1
        else enqueueAndAudit e (expired_payload (ri_PartnerServiceID merchantVA) (ri_CustomerNo merchantVA)
               (ri_VirtualAccountNo merchantVA) (ri_TrxID merchantVA) (ri_NotificationURL merchantVA)
               (ri_ExpiredDate merchantVA)) (ri_VirtualAccountNo merchantVA) NotificationEventVAExpired w1)"

definition markRegistrationExpiredAndNotify :: "env \<Rightarrow> VAAccount \<Rightarrow> world \<Rightarrow> world" where
  "markRegistrationExpiredAndNotify e account w =
    (case UpdateVAAccountStatus e (ac_VirtualAccountNo account) VAAccountStatusExpired w of
      (Inl _, w1) \<Rightarrow> w1
    | (Inr _, w1) \<Rightarrow>
        if ac_NotificationURL account = [] \<or> \<not> e_notifier e then w1
        else if already_told e (ac_VirtualAccountNo account) w1 then w1
        else enqueueAndAudit e (expired_payload (ac_PartnerServiceID account) (ac_CustomerNo account)
               (ac_VirtualAccountNo account) (ac_TrxID account) (ac_NotificationURL account)
               (ac_ExpiredDate account)) (ac_VirtualAccountNo account) NotificationEventVAExpired w1)"

definition notifyMerchantForAccount :: "env \<Rightarrow> VAPaymentRequest \<Rightarrow> Amount \<Rightarrow> VAAccount \<Rightarrow> gtime \<Rightarrow> world \<Rightarrow> world" where
  "notifyMerchantForAccount e req paid account transactionDate w =
    (if \<not> e_notifier e \<or> ac_NotificationURL account = [] then w
     else enqueueAndAudit e (emptyPayload\<lparr>
         np_EventType := NotificationEventPaymentReceived,
         np_PartnerServiceID := ac_PartnerServiceID account,
         np_CustomerNo := ac_CustomerNo account,
         np_VirtualAccountNo := ac_VirtualAccountNo account,
         np_TrxID := ac_TrxID account,
         np_PaymentRequestID := pq_PaymentRequestID req,
         np_PaidAmount := Some paid,
         np_PaidBills := pq_PaidBills req,
         np_TotalAmount := Some \<lparr>am_Value = am_Value paid, am_Currency = am_Currency paid\<rparr>,
         np_TrxDateTime := rfc3339 transactionDate,
         np_ReferenceNo := pq_ReferenceNo req,
         np_PaymentType := pq_PaymentType req,
         np_FlagAdvise := pq_FlagAdvise req,
         np_NotificationURL := ac_NotificationURL account\<rparr>)
       (ac_VirtualAccountNo account) NotificationEventPaymentReceived w)"

definition notifyMerchantWithVA :: "env \<Rightarrow> VAPaymentRequest \<Rightarrow> Amount \<Rightarrow> string \<Rightarrow> string \<Rightarrow> world \<Rightarrow> world" where
  "notifyMerchantWithVA e req paid trxID notificationURL w =
    (if \<not> e_notifier e \<or> notificationURL = [] then w
     else enqueueAndAudit e (emptyPayload\<lparr>
         np_EventType := NotificationEventPaymentReceived,
         np_PartnerServiceID := pq_PartnerServiceID req,
         np_CustomerNo := pq_CustomerNo req,
         np_VirtualAccountNo := pq_VirtualAccountNo req,
         np_TrxID := trxID,
         np_PaymentRequestID := pq_PaymentRequestID req,
         np_PaidAmount := Some paid,
         np_PaidBills := pq_PaidBills req,
         np_TotalAmount := pq_TotalAmount req,
         np_TrxDateTime := time_text (pq_TrxDateTime req),
         np_ReferenceNo := pq_ReferenceNo req,
         np_PaymentType := pq_PaymentType req,
         np_FlagAdvise := pq_FlagAdvise req,
         np_NotificationURL := notificationURL\<rparr>)
       (pq_VirtualAccountNo req) NotificationEventPaymentReceived w)"

section \<open>Inquiry\<close>

definition no_bill_amount :: "VAInquiryRequest \<Rightarrow> Amount" where
  "no_bill_amount req = \<lparr>am_Value = zeroAmount, am_Currency = (case iq_Amount req of
      Some a \<Rightarrow> if am_Currency a \<noteq> [] then am_Currency a else defaultCurrency | None \<Rightarrow> defaultCurrency)\<rparr>"

definition inquiryNoBill :: "env \<Rightarrow> VAInquiryRequest \<Rightarrow> VAAccount \<Rightarrow> world \<Rightarrow> (DomainError + VAInquiryResponse) \<times> world" where
  "inquiryNoBill e req account w =
    (if account_IsExpired account (e_now e)
     then (Inl (NewDomainError CodeInquiryExpired errInvalidBill (Some ErrVAExpiredInquiry)),
           markRegistrationExpiredAndNotify e account w)
     else if ac_Status account \<noteq> VAAccountStatusActive
     then (Inl (NewDomainError CodeInquiryExpired errInvalidBill (Some ErrVAAccountInactive)), w)
     else (Inr \<lparr>ir_ResponseCode = CodeInquirySuccess, ir_ResponseMessage = ''Successful'',
             ir_VirtualAccountData = Some (zeroAccountData\<lparr>
               ad_InquiryStatus := ''00'',
               ad_InquiryReason := Some successReason,
               ad_PartnerServiceID := ac_PartnerServiceID account,
               ad_CustomerNo := ac_CustomerNo account,
               ad_VirtualAccountNo := ac_VirtualAccountNo account,
               ad_VirtualAccountName := ac_CustomerName account,
               ad_InquiryRequestID := iq_InquiryRequestID req,
               ad_TotalAmount := Some (no_bill_amount req),
               ad_SubCompany := defaultSubCompany\<rparr>),
             ir_AdditionalInfo = []\<rparr>, w))"

definition record_isExpired :: "env \<Rightarrow> VAInquiryRecord \<Rightarrow> bool" where
  "record_isExpired e record = (ri_Status record = ''02'' \<or> (ri_Status record = ''03'' \<and>
     (case ri_ExpiredDate record of None \<Rightarrow> False | Some d \<Rightarrow> After (e_now e) d)))"

text \<open>The answer from a resolved record: the body of \<^verbatim>\<open>if record != nil\<close>.\<close>

definition inquiry_record :: "env \<Rightarrow> VAInquiryRequest \<Rightarrow> VAInquiryRecord \<Rightarrow> world \<Rightarrow> (DomainError + VAInquiryResponse) \<times> world" where
  "inquiry_record e req record w =
    (if record_isExpired e record
     then (let w1 = markExpiredAndNotify e record w in
           (Inl (NewInquiryError CodeInquiryExpired errInvalidBill (Some ErrVAExpiredInquiry)
             (Some (rejectedAccountData e record (iq_InquiryRequestID req) CodeInquiryExpired w1))), w1))
     else if ri_Status record = ''00'' \<and> \<not> IsPayable record
     then (Inl (NewInquiryError CodeInquiryPaidBill ''Paid Bill'' (Some ErrVAPaidBill)
             (Some (rejectedAccountData e record (iq_InquiryRequestID req) CodeInquiryPaidBill w))), w)
     else if ri_Status record = ''04''
     then (Inl (NewInquiryError CodeInquiryNotFound snapMsgVANotFound (Some ErrVAInvalidBill)
             (Some (rejectedAccountData e record (iq_InquiryRequestID req) CodeInquiryNotFound w))), w)
     else if IsPlaceholderInquiryRequestID (ri_InquiryRequestID record) (ri_TrxID record) (ri_VirtualAccountNo record)
             \<and> iq_InquiryRequestID req \<noteq> []
     then (case ClaimInquiryRequestID e (ri_ID record) (iq_InquiryRequestID req) w of
             (Inl err, w1) \<Rightarrow> (Inl (internal_error ServiceCodeInquiry err), w1)
           | (Inr _, w1) \<Rightarrow> (Inr (inquiryResponseFromRecord (record\<lparr>ri_InquiryRequestID := iq_InquiryRequestID req\<rparr>)
               (iq_InquiryRequestID req) (best_effort_bills e (ri_ID record) w1)), w1))
     else (Inr (inquiryResponseFromRecord record (iq_InquiryRequestID req) (best_effort_bills e (ri_ID record) w)), w))"

text \<open>The two lookups of the billed path: by inquiry identifier, then by virtual account number.\<close>

definition find_inquiry_record :: "env \<Rightarrow> VAInquiryRequest \<Rightarrow> world \<Rightarrow> gerr + VAInquiryRecord option" where
  "find_inquiry_record e req w = (case optional isNotFound (fst (GetInquiry e (iq_InquiryRequestID req) w)) of
      Inl err \<Rightarrow> Inl err
    | Inr (Some record) \<Rightarrow> Inr (Some record)
    | Inr None \<Rightarrow> optional isNotFound (fst (GetVAByVirtualAccountNo e (iq_VirtualAccountNo req) w)))"

definition Inquiry :: "env \<Rightarrow> VAInquiryRequest \<Rightarrow> world \<Rightarrow> (DomainError + VAInquiryResponse) \<times> world" where
  "Inquiry e req w =
    (case optional (\<lambda>err. err = ErrVAAccountNotFound) (fst (GetVAAccount e (iq_VirtualAccountNo req) w)) of
       Inl err \<Rightarrow> (Inl (internal_error ServiceCodeInquiry err), w)
     | Inr account \<Rightarrow>
         (case (account, IsNoBill account) of
            (Some a, True) \<Rightarrow> inquiryNoBill e req a w
          | _ \<Rightarrow> (case find_inquiry_record e req w of
               Inl err \<Rightarrow> (Inl (internal_error ServiceCodeInquiry err), w)
             | Inr (Some record) \<Rightarrow> inquiry_record e req record w
             | Inr None \<Rightarrow> (Inl (NewDomainError CodeInquiryNotFound snapMsgVANotFound (Some ErrVAInvalidBill)), w))))"

section \<open>Payment\<close>

text \<open>
  \<open>paid\<close> is the request's paid amount. The handler validates a request before it calls \<^verbatim>\<open>Payment\<close>, and
  a validated request has one.
\<close>

definition transaction_date :: "env \<Rightarrow> VAPaymentRequest \<Rightarrow> gtime" where
  "transaction_date e req = (case pq_TrxDateTime req of None \<Rightarrow> e_now e | Some t \<Rightarrow> t)"

definition zero_time :: gtime where
  "zero_time = \<lparr>tm_ns = 0, tm_off = 0\<rparr>"

text \<open>The fields of a payment record every path copies from the request.\<close>

definition request_record :: "env \<Rightarrow> VAPaymentRequest \<Rightarrow> Amount \<Rightarrow> VAPaymentRecord" where
  "request_record e req paid =
    \<lparr>rp_ID = [], rp_PartnerServiceID = pq_PartnerServiceID req, rp_CustomerNo = pq_CustomerNo req,
     rp_CustomerName = [], rp_CustomerEmail = pq_VirtualAccountEmail req,
     rp_CustomerPhone = pq_VirtualAccountPhone req, rp_VirtualAccountNo = pq_VirtualAccountNo req,
     rp_InquiryRequestID = [], rp_TrxID = [], rp_NotificationURL = [],
     rp_PaymentRequestID = pq_PaymentRequestID req, rp_PaidAmount = am_Value paid,
     rp_TotalAmount = paymentTotalAmountValue req paid, rp_Currency = am_Currency paid, rp_Status = ''00'',
     rp_VAType = [], rp_ReferenceNo = pq_ReferenceNo req, rp_ChannelCode = pq_ChannelCode req,
     rp_HashedSourceAccountNo = pq_HashedSourceAccountNo req, rp_SourceBankCode = pq_SourceBankCode req,
     rp_JournalNum = pq_JournalNum req, rp_PaymentType = pq_PaymentType req, rp_FlagAdvise = pq_FlagAdvise req,
     rp_PaidBills = pq_PaidBills req, rp_SubCompany = pq_SubCompany req, rp_TrxDateTime = pq_TrxDateTime req,
     rp_FreeTexts = pq_FreeTexts req, rp_TransactionDate = transaction_date e req,
     rp_CreatedAt = zero_time, rp_UpdatedAt = zero_time\<rparr>"

definition no_bill_record :: "env \<Rightarrow> VAPaymentRequest \<Rightarrow> Amount \<Rightarrow> VAAccount \<Rightarrow> VAPaymentRecord" where
  "no_bill_record e req paid account = (request_record e req paid)\<lparr>
     rp_PartnerServiceID := ac_PartnerServiceID account,
     rp_CustomerNo := ac_CustomerNo account,
     rp_CustomerName := or_default (ac_CustomerName account) (pq_VirtualAccountName req),
     rp_CustomerEmail := or_default (ac_CustomerEmail account) (pq_VirtualAccountEmail req),
     rp_CustomerPhone := or_default (ac_CustomerPhone account) (pq_VirtualAccountPhone req),
     rp_VirtualAccountNo := ac_VirtualAccountNo account,
     rp_InquiryRequestID := pq_PaymentRequestID req,
     rp_TrxID := ac_TrxID account,
     rp_NotificationURL := ac_NotificationURL account,
     rp_TotalAmount := am_Value paid,
     rp_VAType := ac_VAType account\<rparr>"

text \<open>The accepted answer; \<open>name\<close>, \<open>shown\<close> and \<open>tot\<close> differ between the paths.\<close>

definition accepted_data :: "env \<Rightarrow> VAPaymentRequest \<Rightarrow> string \<Rightarrow> Amount \<Rightarrow> Amount \<Rightarrow> VAPaymentStatus" where
  "accepted_data e req name shown tot = zeroPaymentStatus\<lparr>
     ps_PartnerServiceID := pq_PartnerServiceID req,
     ps_CustomerNo := pq_CustomerNo req,
     ps_VirtualAccountNo := pq_VirtualAccountNo req,
     ps_VirtualAccountName := name,
     ps_PaymentRequestID := pq_PaymentRequestID req,
     ps_PaidAmount := Some shown,
     ps_TotalAmount := Some tot,
     ps_TrxDateTime := Some (transaction_date e req),
     ps_ReferenceNo := pq_ReferenceNo req,
     ps_PaymentFlagStatus := ''00'',
     ps_PaymentFlagReason := Some successReason,
     ps_BillDetails := echoPaymentBillDetails (pq_BillDetails req),
     ps_FreeTexts := pq_FreeTexts req\<rparr>"

definition accepted :: "VAPaymentStatus \<Rightarrow> VAPaymentResponse" where
  "accepted d = \<lparr>pr_ResponseCode = CodePaymentSuccess, pr_ResponseMessage = ''Successful'',
     pr_VirtualAccountData = Some d, pr_AdditionalInfo = []\<rparr>"

definition is_advice :: "VAPaymentRequest \<Rightarrow> bool" where
  "is_advice req = EqualFold (pq_FlagAdvise req) flagAdviseRetry"

definition paymentNoBill ::
    "env \<Rightarrow> VAPaymentRequest \<Rightarrow> Amount \<Rightarrow> VAAccount \<Rightarrow> world \<Rightarrow> (DomainError + VAPaymentResponse) \<times> world" where
  "paymentNoBill e req paid account w =
    (if account_IsExpired account (e_now e)
     then (Inl (NewPaymentError ''4042519'' errInvalidBill (Some ErrVAExpiredPayment)
             (Some (accountRejectionData req account CodePaymentExpired))),
           markRegistrationExpiredAndNotify e account w)
     else if ac_Status account \<noteq> VAAccountStatusActive
     then (Inl (NewPaymentError CodePaymentNotFound snapMsgVANotFound (Some ErrVAAccountInactive)
             (Some (accountRejectionData req account CodePaymentNotFound))), w)
     else if (case ParseFloat (am_Value paid) of None \<Rightarrow> True | Some v \<Rightarrow> f64_le v (Fin 0))
     then (Inl (NewDomainError CodePaymentInvalidAmt MsgInvalidAmount None), w)
     else case SaveNoBillPayment e (no_bill_record e req paid account) w of
       (Inl err, w1) \<Rightarrow>
         (case (err = ErrVAPaymentDuplicate, fst (GetPaymentByPaymentRequestID e (pq_PaymentRequestID req) w1)) of
            (True, Inr existing) \<Rightarrow>
              (if is_advice req then (Inr (paymentResponseFromRecord existing), w1)
               else (Inl (duplicatePaymentError existing), w1))
          | _ \<Rightarrow> (Inl (internal_error ServiceCodePayment err), w1))
     | (Inr _, w1) \<Rightarrow>
         (Inr (accepted ((accepted_data e req (or_default (ac_CustomerName account) (pq_VirtualAccountName req)) paid
                  \<lparr>am_Value = am_Value paid, am_Currency = am_Currency paid\<rparr>)
               \<lparr>ps_PartnerServiceID := ac_PartnerServiceID account, ps_CustomerNo := ac_CustomerNo account,
                ps_VirtualAccountNo := ac_VirtualAccountNo account\<rparr>)),
          notifyMerchantForAccount e req paid account (transaction_date e req) w1))"

definition instalment_response :: "env \<Rightarrow> VAPaymentRequest \<Rightarrow> Amount \<Rightarrow> string \<Rightarrow> bool \<Rightarrow> VAPaymentResponse" where
  "instalment_response e req paid cumulative fresh =
    (let d = accepted_data e req (pq_VirtualAccountName req)
               \<lparr>am_Value = cumulative, am_Currency = am_Currency paid\<rparr> (paymentTotalAmount req paid)
     in if fresh \<or> is_advice req then accepted d
        else (accepted d)\<lparr>pr_ResponseCode := CodePaymentInconsistent, pr_ResponseMessage := snapMsgInconsistentRequest\<rparr>)"

definition replayVariableInstalment ::
    "env \<Rightarrow> VAPaymentRequest \<Rightarrow> Amount \<Rightarrow> VAInquiryRecord \<Rightarrow> world \<Rightarrow> DomainError + VAPaymentResponse option" where
  "replayVariableInstalment e req paid merchantVA w = (case fst (FindVAInstalment e (pq_PaymentRequestID req) w) of
      Inl err \<Rightarrow> Inl (internal_error ServiceCodePayment err)
    | Inr None \<Rightarrow> Inr None
    | Inr (Some (transactionID, cumulativePaid)) \<Rightarrow>
        if transactionID \<noteq> ri_ID merchantVA then Inr None
        else Inr (Some (instalment_response e req paid cumulativePaid False)))"

definition payment_variable ::
    "env \<Rightarrow> VAPaymentRequest \<Rightarrow> Amount \<Rightarrow> VAInquiryRecord \<Rightarrow> world \<Rightarrow> (DomainError + VAPaymentResponse) \<times> world" where
  "payment_variable e req paid merchantVA w =
    (if variableBillOverpayment paid merchantVA
     then (Inl (NewDomainError CodePaymentInvalidAmt MsgInvalidAmount None), w)
     else case SaveVAPayment e (ri_ID merchantVA) (pq_PaymentRequestID req) (am_Value paid) (pq_ReferenceNo req) w of
       (Inl err, w1) \<Rightarrow> (Inl (internal_error ServiceCodePayment err), w1)
     | (Inr (paidAmount, status, recorded), w1) \<Rightarrow>
         (Inr (instalment_response e req paid paidAmount recorded),
          if recorded then notifyMerchantWithVA e req paid (or_default (pq_TrxID req) (ri_TrxID merchantVA))
                             (ri_NotificationURL merchantVA) w1
          else w1))"

text \<open>The conflict key of the single settlement: the stored identifier, or what the request carries.\<close>

definition settlement_key :: "VAPaymentRequest \<Rightarrow> VAInquiryRecord \<Rightarrow> string" where
  "settlement_key req merchantVA =
    (if ri_InquiryRequestID merchantVA \<noteq> [] then ri_InquiryRequestID merchantVA
     else if pq_InquiryRequestID req \<noteq> [] then pq_InquiryRequestID req
     else if pq_TrxID req \<noteq> [] then pq_TrxID req else pq_PaymentRequestID req)"

definition settlement_name :: "VAPaymentRequest \<Rightarrow> VAInquiryRecord \<Rightarrow> string" where
  "settlement_name req merchantVA = or_default (ri_CustomerName merchantVA) (pq_VirtualAccountName req)"

definition settlement_trx :: "VAPaymentRequest \<Rightarrow> VAInquiryRecord \<Rightarrow> string" where
  "settlement_trx req merchantVA = or_default (pq_TrxID req) (ri_TrxID merchantVA)"

definition settlement_record :: "env \<Rightarrow> VAPaymentRequest \<Rightarrow> Amount \<Rightarrow> VAInquiryRecord \<Rightarrow> VAPaymentRecord" where
  "settlement_record e req paid merchantVA = (request_record e req paid)\<lparr>
     rp_CustomerName := settlement_name req merchantVA,
     rp_InquiryRequestID := settlement_key req merchantVA,
     rp_TrxID := settlement_trx req merchantVA,
     rp_NotificationURL := ri_NotificationURL merchantVA\<rparr>"

definition wrong_amount :: "VAPaymentRequest \<Rightarrow> Amount \<Rightarrow> VAInquiryRecord \<Rightarrow> bool" where
  "wrong_amount req paid merchantVA =
    ((ri_TotalAmount merchantVA \<noteq> [] \<and> \<not> amountsEqual (am_Value paid) (ri_TotalAmount merchantVA)) \<or>
     (case pq_TotalAmount req of None \<Rightarrow> False | Some a \<Rightarrow> \<not> amountsEqual (am_Value paid) (am_Value a)))"

definition payment_single ::
    "env \<Rightarrow> VAPaymentRequest \<Rightarrow> Amount \<Rightarrow> VAInquiryRecord \<Rightarrow> world \<Rightarrow> (DomainError + VAPaymentResponse) \<times> world" where
  "payment_single e req paid merchantVA w =
    (if wrong_amount req paid merchantVA
     then (Inl (NewDomainError CodePaymentInvalidAmt MsgInvalidAmount None), w)
     else case SavePayment e (settlement_record e req paid merchantVA) w of
       (Inl err, w1) \<Rightarrow> (Inl (internal_error ServiceCodePayment err), w1)
     | (Inr record, w1) \<Rightarrow>
         (case (if pq_BillDetails req = [] then (Inr (), w1)
                else SaveBillDetails e (rp_ID record) (paymentBillDetailsToBillDetail (pq_BillDetails req)) w1) of
            (Inl err, w2) \<Rightarrow> (Inl (internal_error ServiceCodePayment err), w2)
          | (Inr _, w2) \<Rightarrow>
              (Inr (accepted (accepted_data e req (settlement_name req merchantVA) paid (paymentTotalAmount req paid))),
               notifyMerchantWithVA e req paid (settlement_trx req merchantVA) (ri_NotificationURL merchantVA) w2)))"

text \<open>A payment on a resolved transaction: replay, expiry, payability, then by billing.\<close>

definition payment_billed ::
    "env \<Rightarrow> VAPaymentRequest \<Rightarrow> Amount \<Rightarrow> VAAccount option \<Rightarrow> VAInquiryRecord \<Rightarrow> world \<Rightarrow> (DomainError + VAPaymentResponse) \<times> world" where
  "payment_billed e req paid account merchantVA w = (case replayVariableInstalment e req paid merchantVA w of
      Inl err \<Rightarrow> (Inl err, w)
    | Inr (Some replay) \<Rightarrow> (Inr replay, w)
    | Inr None \<Rightarrow>
        if record_isExpired e merchantVA
        then (Inl (NewPaymentError CodePaymentExpired errInvalidBill (Some ErrVAExpiredPayment)
                (Some (paymentRejectionData req merchantVA CodePaymentExpired))), markExpiredAndNotify e merchantVA w)
        else if \<not> IsPayable merchantVA then (Inl (nonPendingPaymentError req merchantVA), w)
        else if paymentBilling account merchantVA = VATypeBillingVariable then payment_variable e req paid merchantVA w
        else payment_single e req paid merchantVA w)"

definition payment ::
    "env \<Rightarrow> VAPaymentRequest \<Rightarrow> Amount \<Rightarrow> world \<Rightarrow> (DomainError + VAPaymentResponse) \<times> world" where
  "payment e req paid w =
    (case optional isNotFound (fst (GetPaymentByPaymentRequestID e (pq_PaymentRequestID req) w)) of
       Inl err \<Rightarrow> (Inl (internal_error ServiceCodePayment err), w)
     | Inr (Some existing) \<Rightarrow>
         (if is_advice req then (Inr (paymentResponseFromRecord existing), w)
          else (Inl (duplicatePaymentError existing), w))
     | Inr None \<Rightarrow>
         (case optional (\<lambda>err. err = ErrVAAccountNotFound) (fst (GetVAAccount e (pq_VirtualAccountNo req) w)) of
            Inl err \<Rightarrow> (Inl (internal_error ServiceCodePayment err), w)
          | Inr account \<Rightarrow>
              (case (account, IsNoBill account) of
                 (Some a, True) \<Rightarrow> paymentNoBill e req paid a w
               | _ \<Rightarrow> (case optional isNotFound (fst (GetVAByVirtualAccountNo e (pq_VirtualAccountNo req) w)) of
                    Inl err \<Rightarrow> (Inl (internal_error ServiceCodePayment err), w)
                  | Inr None \<Rightarrow> (Inl (vaNotFoundPaymentError req), w)
                  | Inr (Some merchantVA) \<Rightarrow> payment_billed e req paid account merchantVA w))))"

section \<open>The double-flag guard\<close>

definition findPaymentFlag :: "env \<Rightarrow> VAPaymentRequest \<Rightarrow> world \<Rightarrow> VAPaymentFlag option" where
  "findPaymentFlag e req w = (if pq_ExternalID req = [] \<or> pq_PaymentRequestID req = [] then None
     else case fst (FindPaymentFlag e (pq_ExternalID req) (pq_PaymentRequestID req) w) of
       Inl _ \<Rightarrow> None | Inr flag \<Rightarrow> flag)"

definition replayPaymentFlag :: "VAPaymentRequest \<Rightarrow> VAPaymentFlag \<Rightarrow> DomainError + VAPaymentResponse" where
  "replayPaymentFlag req flag =
    (if is_advice req
     then (if pf_ResponseCode flag = CodePaymentSuccess
           then Inr \<lparr>pr_ResponseCode = pf_ResponseCode flag, pr_ResponseMessage = pf_ResponseMessage flag,
                  pr_VirtualAccountData = pf_VirtualAccountData flag, pr_AdditionalInfo = []\<rparr>
           else Inl (NewPaymentError (pf_ResponseCode flag) (pf_ResponseMessage flag) (Some ErrVAPaymentDuplicate)
                  (pf_VirtualAccountData flag)))
     else Inl (NewPaymentError CodePaymentInconsistent snapMsgInconsistentRequest (Some ErrVAPaymentDuplicate)
            (pf_VirtualAccountData flag)))"

definition flag_of_outcome :: "VAPaymentRequest \<Rightarrow> DomainError + VAPaymentResponse \<Rightarrow> VAPaymentFlag option" where
  "flag_of_outcome req outcome =
    (let mk = (\<lambda>code message data. \<lparr>pf_ID = [], pf_ExternalID = pq_ExternalID req,
           pf_PaymentRequestID = pq_PaymentRequestID req, pf_VirtualAccountNo = pq_VirtualAccountNo req,
           pf_ResponseCode = code, pf_ResponseMessage = message, pf_VirtualAccountData = data,
           pf_CreatedAt = zero_time\<rparr>)
     in case outcome of
        Inr resp \<Rightarrow> Some (mk (pr_ResponseCode resp) (pr_ResponseMessage resp) (pr_VirtualAccountData resp))
      | Inl err \<Rightarrow> if HasPrefix (de_SNAPCode err) ''5'' then None
          else Some (mk (de_SNAPCode err) (de_Message err) (de_PaymentData err)))"

definition recordPaymentFlag :: "env \<Rightarrow> VAPaymentRequest \<Rightarrow> DomainError + VAPaymentResponse \<Rightarrow> world \<Rightarrow> world" where
  "recordPaymentFlag e req outcome w = (if pq_ExternalID req = [] \<or> pq_PaymentRequestID req = [] then w
     else case flag_of_outcome req outcome of None \<Rightarrow> w | Some flag \<Rightarrow> snd (RecordPaymentFlag e flag w))"

definition Payment ::
    "env \<Rightarrow> VAPaymentRequest \<Rightarrow> Amount \<Rightarrow> world \<Rightarrow> (DomainError + VAPaymentResponse) \<times> world" where
  "Payment e req0 paid w =
    (let req = NormalizeBillDetails req0 in
     case findPaymentFlag e req w of
       Some flag \<Rightarrow> (replayPaymentFlag req flag, w)
     | None \<Rightarrow> (case payment e req paid w of (outcome, w1) \<Rightarrow> (outcome, recordPaymentFlag e req outcome w1)))"

section \<open>Status\<close>

definition NewSNAPTime :: "gtime option \<Rightarrow> gtime option" where
  "NewSNAPTime t = (case t of None \<Rightarrow> None | Some x \<Rightarrow> if IsZero x then None else Some x)"

definition status_bill :: "BillDetail \<Rightarrow> VAStatusBillDetail" where
  "status_bill b = \<lparr>sb_BillCode = bd_BillCode b, sb_BillNo = bd_BillNo b, sb_BillName = bd_BillName b,
     sb_BillShortName = bd_BillShortName b, sb_BillDescription = bd_BillDescription b,
     sb_BillSubCompany = bd_BillSubCompany b, sb_BillAmount = bd_BillAmount b,
     sb_BillReferenceNo = bd_BillReferenceNo b, sb_Status = bd_Status b, sb_Reason = bd_Reason b,
     sb_AdditionalInfo = bd_AdditionalInfo b\<rparr>"

definition billDetailsToStatusBillDetail :: "BillDetail list \<Rightarrow> VAStatusBillDetail list" where
  "billDetailsToStatusBillDetail bills = map status_bill bills"

definition status_of_payment :: "env \<Rightarrow> VAPaymentRecord \<Rightarrow> world \<Rightarrow> VAStatusResponse" where
  "status_of_payment e p w =
    \<lparr>sr_ResponseCode = CodeStatusSuccess, sr_ResponseMessage = statusSuccessMessage,
     sr_VirtualAccountData = Some (zeroStatusData\<lparr>
       sd_PaymentFlagStatus := rp_Status p,
       sd_PaymentFlagReason := Some (getPaymentFlagReason (rp_Status p)),
       sd_PartnerServiceID := rp_PartnerServiceID p,
       sd_CustomerNo := rp_CustomerNo p,
       sd_VirtualAccountNo := rp_VirtualAccountNo p,
       sd_InquiryRequestID := rp_InquiryRequestID p,
       sd_PaymentRequestID := rp_PaymentRequestID p,
       sd_PaidAmount := Some \<lparr>am_Value = rp_PaidAmount p, am_Currency = rp_Currency p\<rparr>,
       sd_PaidBills := rp_PaidBills p,
       sd_TotalAmount := Some \<lparr>am_Value = or_default (rp_PaidAmount p) (rp_TotalAmount p), am_Currency = rp_Currency p\<rparr>,
       sd_TrxDateTime := NewSNAPTime (rp_TrxDateTime p),
       sd_TransactionDate := NewSNAPTime (Some (rp_TransactionDate p)),
       sd_ReferenceNo := rp_ReferenceNo p,
       sd_PaymentType := rp_PaymentType p,
       sd_FlagAdvise := rp_FlagAdvise p,
       sd_BillDetails := billDetailsToStatusBillDetail (best_effort_bills e (rp_ID p) w),
       sd_FreeTexts := rp_FreeTexts p\<rparr>),
     sr_AdditionalInfo = []\<rparr>"

definition status_of_inquiry :: "env \<Rightarrow> VAInquiryRecord \<Rightarrow> world \<Rightarrow> VAStatusResponse" where
  "status_of_inquiry e inquiry w =
    (let currency = or_default defaultCurrency (ri_Currency inquiry) in
     \<lparr>sr_ResponseCode = CodeStatusSuccess, sr_ResponseMessage = statusSuccessMessage,
      sr_VirtualAccountData = Some (zeroStatusData\<lparr>
       sd_PaymentFlagStatus := PaymentFlagPending,
       sd_PaymentFlagReason := Some (bilingual ''Pending'' ''Tertunda''),
       sd_PartnerServiceID := ri_PartnerServiceID inquiry,
       sd_CustomerNo := ri_CustomerNo inquiry,
       sd_VirtualAccountNo := ri_VirtualAccountNo inquiry,
       sd_InquiryRequestID := ri_InquiryRequestID inquiry,
       sd_PaymentRequestID := ri_InquiryRequestID inquiry,
       sd_PaidAmount := Some \<lparr>am_Value = zeroAmount, am_Currency = currency\<rparr>,
       sd_TotalAmount := Some \<lparr>am_Value = or_default zeroAmount (ri_TotalAmount inquiry), am_Currency = currency\<rparr>,
       sd_TransactionDate := NewSNAPTime (Some (ri_CreatedAt inquiry)),
       sd_BillDetails := billDetailsToStatusBillDetail (best_effort_bills e (ri_ID inquiry) w)\<rparr>),
      sr_AdditionalInfo = []\<rparr>)"

definition status_lookup :: "env \<Rightarrow> VAStatusRequest \<Rightarrow> world \<Rightarrow> gerr + VAPaymentRecord" where
  "status_lookup e req w =
    (let lookupID = (if sq_PaymentRequestID req = [] then sq_InquiryRequestID req else sq_PaymentRequestID req)
     in case fst (GetPayment e lookupID w) of
          Inl err \<Rightarrow> if isNotFound err \<and> lookupID \<noteq> sq_InquiryRequestID req
             then fst (GetPayment e (sq_InquiryRequestID req) w) else Inl err
        | Inr p \<Rightarrow> Inr p)"

definition Status :: "env \<Rightarrow> VAStatusRequest \<Rightarrow> world \<Rightarrow> (DomainError + VAStatusResponse) \<times> world" where
  "Status e req w = (case status_lookup e req w of
      Inr p \<Rightarrow> (Inr (status_of_payment e p w), w)
    | Inl err \<Rightarrow>
       if \<not> isNotFound err
       then (Inl (NewDomainError CodeStatusInternalErr errInternalServerError (Some err)), w)
       else (case fst (GetInquiry e (sq_InquiryRequestID req) w) of
           Inl ierr \<Rightarrow> if \<not> isNotFound ierr
               then (Inl (NewDomainError CodeStatusInternalErr errInternalServerError (Some ierr)), w)
               else (Inl (NewDomainError CodeStatusNotFound ''Transaction Not Found'' None), w)
         | Inr inquiry \<Rightarrow> (Inr (status_of_inquiry e inquiry w), w)))"

end
