(* ===== verification/RepoFacts.thy ===== *)
theory RepoFacts
  imports AuxRepo "HOL-Library.Product_Lexorder"
begin

text \<open>
  What the repository promises its callers. The first part is the integrity of the tables: unique
  keys, foreign keys and check constraints hold in every state reachable by any sequence of calls, in
  any environment, because every write is guarded by them as it is in PostgreSQL; the properties use this as a
  fact about their tables. The second part states three contracts as locales and interprets each of them on
  the repository's operations: a store in which the first write of a key wins (payment flags,
  instalments), a guarded transition that exactly one caller can win (settling, expiring and
  deactivating), and the ordering of the queries that pick one row.
\<close>

section \<open>Integrity of the tables\<close>

definition payment_ids :: "world \<Rightarrow> string list" where
  "payment_ids w = concat (map (\<lambda>p. case p_payment_request_id p of None \<Rightarrow> [] | Some i \<Rightarrow> [i]) (w_payments w))"

definition db_ok :: "world \<Rightarrow> bool" where
  "db_ok w = (
     distinct (map t_id (w_txns w)) \<and> distinct (map t_inquiry_request_id (w_txns w)) \<and>
     distinct (map p_id (w_payments w)) \<and> distinct (payment_ids w) \<and>
     distinct (map b_id (w_bills w)) \<and>
     (\<forall>p \<in> set (w_payments w). p_transaction_id p \<in> t_id ` set (w_txns w)) \<and>
     (\<forall>b \<in> set (w_bills w). b_transaction_id b \<in> t_id ` set (w_txns w)) \<and>
     distinct (map f_id (w_flags w)) \<and>
     distinct (map (\<lambda>f. (f_external_id f, f_payment_request_id f)) (w_flags w)) \<and>
     distinct (map ac_ID (w_accounts w)) \<and> distinct (map ac_VirtualAccountNo (w_accounts w)) \<and>
     distinct (map account_owner (w_accounts w)) \<and> list_all account_check (w_accounts w) \<and>
     distinct (map nd_ID (w_deliveries w)) \<and> distinct (map at_ID (w_attempts w)))"

lemma payment_ids_simps:
  "payment_ids (w\<lparr>w_payments := ps @ [p]\<rparr>) =
    payment_ids (w\<lparr>w_payments := ps\<rparr>) @ (case p_payment_request_id p of None \<Rightarrow> [] | Some i \<Rightarrow> [i])"
  by (simp add: payment_ids_def)

lemma payment_ids_set: "i \<in> set (payment_ids w) \<longleftrightarrow> Some i \<in> p_payment_request_id ` set (w_payments w)"
  by (force simp: payment_ids_def image_iff split: option.splits)

lemma payment_ids_cong: "w_payments v = w_payments w \<Longrightarrow> payment_ids v = payment_ids w"
  by (simp add: payment_ids_def)

lemma db_ok_cong:
  assumes "w_txns v = w_txns w" "w_payments v = w_payments w" "w_bills v = w_bills w" "w_flags v = w_flags w"
    "w_accounts v = w_accounts w" "w_deliveries v = w_deliveries w" "w_attempts v = w_attempts w"
  shows "db_ok v \<longleftrightarrow> db_ok w"
  using assms by (simp add: db_ok_def payment_ids_def)

lemma db_ok_uuid [simp]: "db_ok (next_uuid w) \<longleftrightarrow> db_ok w" "db_ok (w\<lparr>w_uuids := n\<rparr>) \<longleftrightarrow> db_ok w"
  by (rule db_ok_cong; simp add: next_uuid_def)+

lemma db_ok_queue [simp]: "db_ok (w\<lparr>w_queue := q\<rparr>) \<longleftrightarrow> db_ok w" "db_ok (w\<lparr>w_seqs := s\<rparr>) \<longleftrightarrow> db_ok w"
  by (rule db_ok_cong; simp)+

lemma db_ok_guard: "db_ok w \<Longrightarrow> db_ok (snd (f w)) \<Longrightarrow> db_ok (snd (guard e opn f w))"
  by (cases "e_fault e opn") (simp_all add: guard_def)

lemma db_ok_update_txns:
  assumes "db_ok w" and "\<And>t. t_id (f t) = t_id t" and "\<And>t. t_inquiry_request_id (f t) = t_inquiry_request_id t"
  shows "db_ok (update_txns p f w)"
proof -
  have ids: "map t_id (update_where p f (w_txns w)) = map t_id (w_txns w)"
    and inq: "map t_inquiry_request_id (update_where p f (w_txns w)) = map t_inquiry_request_id (w_txns w)"
    using assms(2,3) by (simp_all add: map_update_where)
  have "t_id ` set (update_where p f (w_txns w)) = t_id ` set (w_txns w)"
    by (metis ids list.set_map)
  with assms(1) ids inq show ?thesis by (simp add: db_ok_def update_txns_def payment_ids_def)
qed

lemma db_ok_append_txn:
  assumes "db_ok w" and "t_id x \<notin> t_id ` set (w_txns w)"
    and "t_inquiry_request_id x \<notin> t_inquiry_request_id ` set (w_txns w)"
  shows "db_ok (w\<lparr>w_txns := w_txns w @ [x]\<rparr>)"
  using assms by (auto simp: db_ok_def payment_ids_def)

lemma db_ok_upsert_txn:
  assumes "db_ok w" and "\<And>t. t_id (upd x t) = t_id t"
    and "\<And>t. t_inquiry_request_id (upd x t) = t_inquiry_request_id t"
  shows "db_ok (snd (upsert_txn upd x w))"
proof (cases "find (has_inquiry_id (t_inquiry_request_id x)) (w_txns w)")
  case None
  then have "t_inquiry_request_id x \<notin> t_inquiry_request_id ` set (w_txns w)"
    by (auto simp: find_None_iff has_inquiry_id_def)
  with None assms(1) show ?thesis by (simp add: upsert_txn_def db_ok_append_txn)
qed (use assms in \<open>simp add: upsert_txn_def db_ok_update_txns\<close>)

lemma db_ok_SaveInquiry: "db_ok w \<Longrightarrow> db_ok (snd (SaveInquiry e r w))"
proof -
  assume a: "db_ok w"
  have up: "db_ok (snd (upsert_txn inquiry_upsert x v))" if "db_ok v" for x v
    using that by (rule db_ok_upsert_txn) (simp_all add: inquiry_upsert_def)
  show ?thesis unfolding SaveInquiry_def Let_def
    by (rule db_ok_guard)
      (use a up in \<open>auto split: option.splits prod.splits sum.splits\<close>; metis snd_conv up db_ok_uuid(1))+
qed

lemma db_ok_ClaimInquiryRequestID: "db_ok w \<Longrightarrow> db_ok (snd (ClaimInquiryRequestID e i inq w))"
proof -
  assume a: "db_ok w"
  let ?p = "\<lambda>t. t_id t = i \<and> claimable t"
  let ?f = "\<lambda>t. t\<lparr>t_inquiry_request_id := inq, t_updated_at := e_now e\<rparr>"
  have "db_ok (update_txns ?p ?f w)"
    if free: "\<not> ((\<exists>t \<in> set (w_txns w). ?p t) \<and> (\<exists>t \<in> set (w_txns w). t_id t \<noteq> i \<and> t_inquiry_request_id t = inq))"
  proof (cases "\<exists>t \<in> set (w_txns w). ?p t")
    case False
    then have "update_txns ?p ?f w = w" by (simp add: update_txns_def update_where_none)
    with a show ?thesis by simp
  next
    case True
    have ids: "map t_id (update_where ?p ?f (w_txns w)) = map t_id (w_txns w)"
      by (rule map_update_where) simp
    have "distinct (map t_inquiry_request_id (update_where ?p ?f rows))"
      if "distinct (map t_id rows)" "distinct (map t_inquiry_request_id rows)"
        "\<forall>t \<in> set rows. t_id t \<noteq> i \<longrightarrow> t_inquiry_request_id t \<noteq> inq" for rows
      using that
    proof (induction rows)
      case (Cons r rows)
      then have IH: "distinct (map t_inquiry_request_id (update_where ?p ?f rows))" by simp
      show ?case
      proof (cases "?p r")
        case True
        with Cons.prems(1) have other: "\<forall>t \<in> set rows. t_id t \<noteq> i" by (auto simp: image_iff)
        then have "update_where ?p ?f rows = rows" by (intro update_where_none) auto
        with True other Cons.prems IH show ?thesis by auto
      next
        case False
        have "t_inquiry_request_id r \<noteq> inq \<or> \<not> (\<exists>t \<in> set rows. ?p t)"
          using Cons.prems(1,3) by auto
        with False IH Cons.prems(2) show ?thesis by (auto simp: set_update_where)
      qed
    qed simp
    with a free True have "distinct (map t_inquiry_request_id (update_where ?p ?f (w_txns w)))"
      unfolding db_ok_def by blast
    moreover have "t_id ` set (update_where ?p ?f (w_txns w)) = t_id ` set (w_txns w)"
      by (metis ids list.set_map)
    ultimately show ?thesis using a ids by (simp add: db_ok_def update_txns_def payment_ids_def)
  qed
  with a show ?thesis unfolding ClaimInquiryRequestID_def by (intro db_ok_guard) auto
qed

lemma db_ok_SavePayment: "db_ok w \<Longrightarrow> db_ok (snd (SavePayment e r w))"
proof -
  assume a: "db_ok w"
  have up: "db_ok (snd (upsert_txn payment_upsert x v))" if "db_ok v" for x v
    using that by (rule db_ok_upsert_txn) (simp_all add: payment_upsert_def)
  show ?thesis unfolding SavePayment_def Let_def
    by (rule db_ok_guard)
      (use a up in \<open>auto split: option.splits prod.splits sum.splits\<close>; metis snd_conv up db_ok_uuid(1))+
qed

lemma db_ok_UpdatePaymentStatus: "db_ok w \<Longrightarrow> db_ok (snd (UpdatePaymentStatus e i s w))"
  unfolding UpdatePaymentStatus_def by (rule db_ok_guard) (auto simp: Let_def intro!: db_ok_update_txns)

lemma db_ok_UpdateVAStatus: "db_ok w \<Longrightarrow> db_ok (snd (UpdateVAStatus e va s w))"
  unfolding UpdateVAStatus_def by (rule db_ok_guard) (auto simp: Let_def intro!: db_ok_update_txns)

lemma db_ok_SettlePendingFromVendor: "db_ok w \<Longrightarrow> db_ok (snd (SettlePendingFromVendor e va s w))"
  unfolding SettlePendingFromVendor_def
  by (rule db_ok_guard) (auto simp: settle_row_def split: option.splits intro!: db_ok_update_txns)

lemma row_of_bill_ids: "row_of_bill e uid tid b = Inr r \<Longrightarrow> b_id r = uid \<and> b_transaction_id r = tid"
  by (auto simp: row_of_bill_def Let_def split: option.splits)

lemma db_ok_insert_bills: "db_ok w \<Longrightarrow> db_ok (snd (insert_bills e tid bs w))"
proof (induction e tid bs w rule: insert_bills.induct)
  case (2 e tid b bs w)
  have "db_ok (w\<lparr>w_bills := w_bills w @ [r]\<rparr>)"
    if "row_of_bill e (fresh_id e w) tid b = Inr r" "b_id r \<notin> b_id ` set (w_bills w)" "tid \<in> t_id ` set (w_txns w)" for r
    using "2.prems" that row_of_bill_ids [OF that(1)] by (auto simp: db_ok_def payment_ids_def)
  with 2 show ?case by (auto split: sum.splits)
qed simp

lemma db_ok_SaveBillDetails: "db_ok w \<Longrightarrow> db_ok (snd (SaveBillDetails e tid bs w))"
proof -
  assume a: "db_ok w"
  then have "db_ok (w\<lparr>w_bills := filter (\<lambda>b. b_transaction_id b \<noteq> tid) (w_bills w)\<rparr>)"
    by (auto simp: db_ok_def payment_ids_def distinct_map_filter)
  from db_ok_insert_bills [OF this, of e tid bs] a show ?thesis unfolding SaveBillDetails_def
    by (intro db_ok_guard) (auto split: prod.splits sum.splits)
qed

lemma insert_instalment_txns [frame]: "w_txns (snd (insert_instalment e tid prid a ref w)) = w_txns w"
  by (simp add: insert_instalment_def next_uuid_def Let_def split: option.splits)

lemma db_ok_insert_instalment: "db_ok w \<Longrightarrow> db_ok (snd (insert_instalment e tid prid a ref w))"
proof -
  assume w: "db_ok w"
  have "db_ok (w\<lparr>w_uuids := u, w_payments := w_payments w @ [p]\<rparr>)"
    if "p_id p \<notin> p_id ` set (w_payments w)" "p_transaction_id p \<in> t_id ` set (w_txns w)"
      "p_payment_request_id p = None \<or> p_payment_request_id p \<notin> p_payment_request_id ` set (w_payments w)" for p u
    using w that payment_ids_set [of _ w] by (auto simp: db_ok_def payment_ids_def split: option.splits)
  with w show ?thesis
    by (auto simp: insert_instalment_def Let_def null_if_empty_def next_uuid_def split: option.splits)
qed

lemma db_ok_SaveVAPayment: "db_ok w \<Longrightarrow> db_ok (snd (SaveVAPayment e tid prid a ref w))"
proof -
  assume w: "db_ok w"
  have "db_ok (snd (save_va_payment_tx e tid prid a ref w))"
  proof -
    obtain res w1 where i: "insert_instalment e tid prid a ref w = (res, w1)" by fastforce
    have "db_ok w1" using db_ok_insert_instalment [OF w, of e tid prid a ref] i by simp
    then have "db_ok (update_txns p (\<lambda>t. t\<lparr>t_paid_amount := q, t_status := s, t_updated_at := n\<rparr>) w1)" for p q s n
      by (rule db_ok_update_txns) simp_all
    with \<open>db_ok w1\<close> show ?thesis
      by (auto simp: save_va_payment_tx_def i Let_def split: sum.splits option.splits)
  qed
  with w show ?thesis unfolding SaveVAPayment_def
    by (intro db_ok_guard) (auto split: prod.splits sum.splits)
qed

lemma db_ok_SaveNoBillPayment: "db_ok w \<Longrightarrow> db_ok (snd (SaveNoBillPayment e r w))"
proof -
  assume w: "db_ok w"
  have strip: "snd (case x of (Inl ErrUniqueViolation, w') \<Rightarrow> (Inl ErrVAPaymentDuplicate, w') | (res, w') \<Rightarrow> (res, w')) = snd x"
    for x :: "(gerr + VAPaymentRecord) \<times> world"
    by (cases x rule: prod.exhaust) (auto split: sum.splits gerr.splits)
  show ?thesis unfolding SaveNoBillPayment_def Let_def strip
    by (rule db_ok_guard) (use w in \<open>auto split: option.splits intro!: db_ok_append_txn\<close>)
qed

lemma db_ok_RecordPaymentFlag: "db_ok w \<Longrightarrow> db_ok (snd (RecordPaymentFlag e flag w))"
proof -
  assume w: "db_ok w"
  have app: "db_ok (v\<lparr>w_flags := w_flags v @ [x]\<rparr>)"
    if "db_ok v" "f_id x \<notin> f_id ` set (w_flags v)"
      "find (flag_key (f_external_id x) (f_payment_request_id x)) (w_flags v) = None" for v x
    using that by (auto simp: db_ok_def payment_ids_def find_None_iff flag_key_def)
  show ?thesis unfolding RecordPaymentFlag_def Let_def
    using w by (auto intro!: db_ok_guard app simp: flag_row_of_def)
qed

lemma db_ok_update_accounts:
  assumes "db_ok w"
    and "\<And>a. ac_ID (f a) = ac_ID a \<and> ac_VirtualAccountNo (f a) = ac_VirtualAccountNo a \<and> account_owner (f a) = account_owner a"
    and "\<And>a. account_check a \<Longrightarrow> account_check (f a)"
  shows "db_ok (w\<lparr>w_accounts := update_where p f (w_accounts w)\<rparr>)"
proof -
  have "map ac_ID (update_where p f (w_accounts w)) = map ac_ID (w_accounts w)"
    "map ac_VirtualAccountNo (update_where p f (w_accounts w)) = map ac_VirtualAccountNo (w_accounts w)"
    "map account_owner (update_where p f (w_accounts w)) = map account_owner (w_accounts w)"
    using assms(2) by (simp_all add: map_update_where)
  moreover have "list_all account_check (update_where p f (w_accounts w))"
    using assms(1,3) by (auto simp: db_ok_def list_all_iff set_update_where)
  ultimately show ?thesis using assms(1) by (simp add: db_ok_def payment_ids_def)
qed

lemma db_ok_SaveVAAccount: "db_ok w \<Longrightarrow> db_ok (snd (SaveVAAccount e a w))"
proof -
  assume w: "db_ok w"
  have upd: "db_ok (v\<lparr>w_accounts := update_where p (account_upsert x) (w_accounts v)\<rparr>)"
    if "db_ok v" "account_check x" for v p x
    using that(1) by (rule db_ok_update_accounts)
      (use that(2) in \<open>auto simp: account_upsert_def account_owner_def account_check_def\<close>)
  have app: "db_ok (v\<lparr>w_accounts := w_accounts v @ [x]\<rparr>)"
    if "db_ok v" "account_check x" "find (account_va (ac_VirtualAccountNo x)) (w_accounts v) = None"
      "ac_ID x \<notin> ac_ID ` set (w_accounts v)" "account_owner x \<notin> account_owner ` set (w_accounts v)" for v x
    using that by (auto simp: db_ok_def payment_ids_def find_None_iff account_va_def)
  show ?thesis unfolding SaveVAAccount_def Let_def
    using w by (intro db_ok_guard) (auto intro!: upd app split: option.splits)
qed

lemma db_ok_UpdateVAAccountStatus: "db_ok w \<Longrightarrow> db_ok (snd (UpdateVAAccountStatus e va s w))"
  unfolding UpdateVAAccountStatus_def
  by (rule db_ok_guard) (auto simp: Let_def account_owner_def account_check_def intro!: db_ok_update_accounts)

lemma db_ok_NextCustomerNoSequence: "db_ok w \<Longrightarrow> db_ok (snd (NextCustomerNoSequence e t w))"
  unfolding NextCustomerNoSequence_def withLock_def
  by (intro db_ok_guard) (auto split: option.splits)

lemma db_ok_Create: "db_ok w \<Longrightarrow> db_ok (snd (Create e d w))"
proof -
  assume w: "db_ok w"
  have app: "db_ok (v\<lparr>w_deliveries := w_deliveries v @ [x]\<rparr>)"
    if "db_ok v" "nd_ID x \<notin> nd_ID ` set (w_deliveries v)" for v x
    using that by (auto simp: db_ok_def payment_ids_def)
  show ?thesis unfolding Create_def Let_def using w by (auto intro!: db_ok_guard app)
qed

lemma db_ok_UpdateDeliveryResult: "db_ok w \<Longrightarrow> db_ok (snd (UpdateDeliveryResult e i r w))"
proof -
  assume w: "db_ok w"
  have "map nd_ID (update_where (open_delivery i) (apply_result e r) (w_deliveries w)) = map nd_ID (w_deliveries w)"
    by (rule map_update_where) (simp add: apply_result_def)
  with w show ?thesis unfolding UpdateDeliveryResult_def
    by (intro db_ok_guard) (simp_all add: db_ok_def payment_ids_def)
qed

lemma db_ok_CreateStatusInquiryAttempt: "db_ok w \<Longrightarrow> db_ok (snd (CreateStatusInquiryAttempt e a w))"
proof -
  assume w: "db_ok w"
  have app: "db_ok (v\<lparr>w_attempts := w_attempts v @ [x]\<rparr>)"
    if "db_ok v" "at_ID x \<notin> at_ID ` set (w_attempts v)" for v x
    using that by (auto simp: db_ok_def payment_ids_def)
  show ?thesis unfolding CreateStatusInquiryAttempt_def Let_def using w by (auto intro!: db_ok_guard app)
qed

lemmas db_ok_ops = db_ok_SaveInquiry db_ok_ClaimInquiryRequestID db_ok_SavePayment db_ok_UpdatePaymentStatus
  db_ok_UpdateVAStatus db_ok_SettlePendingFromVendor db_ok_SaveBillDetails db_ok_SaveVAPayment
  db_ok_SaveNoBillPayment db_ok_RecordPaymentFlag db_ok_SaveVAAccount db_ok_UpdateVAAccountStatus
  db_ok_NextCustomerNoSequence db_ok_Create db_ok_UpdateDeliveryResult db_ok_CreateStatusInquiryAttempt

section \<open>Reachable databases\<close>

text \<open>Every call that writes; the reading calls leave the world unchanged.\<close>

datatype repo_call =
    CSaveInquiry VAInquiryRecord | CClaim string string | CSavePayment VAPaymentRecord
  | CUpdatePaymentStatus string string | CUpdateVAStatus string string | CSettle string VendorSettlement
  | CSaveBillDetails string "BillDetail list" | CSaveVAPayment string string string string
  | CSaveNoBillPayment VAPaymentRecord | CRecordFlag VAPaymentFlag | CSaveVAAccount VAAccount
  | CUpdateVAAccountStatus string string | CNextSequence string | CCreateDelivery NotificationDelivery
  | CUpdateDelivery string NotificationDeliveryResult | CCreateAttempt VAStatusInquiryAttempt

fun run_call :: "env \<Rightarrow> repo_call \<Rightarrow> world \<Rightarrow> world" where
  "run_call e (CSaveInquiry r) w = snd (SaveInquiry e r w)"
| "run_call e (CClaim i q) w = snd (ClaimInquiryRequestID e i q w)"
| "run_call e (CSavePayment r) w = snd (SavePayment e r w)"
| "run_call e (CUpdatePaymentStatus i s) w = snd (UpdatePaymentStatus e i s w)"
| "run_call e (CUpdateVAStatus va s) w = snd (UpdateVAStatus e va s w)"
| "run_call e (CSettle va s) w = snd (SettlePendingFromVendor e va s w)"
| "run_call e (CSaveBillDetails i bs) w = snd (SaveBillDetails e i bs w)"
| "run_call e (CSaveVAPayment i p a r) w = snd (SaveVAPayment e i p a r w)"
| "run_call e (CSaveNoBillPayment r) w = snd (SaveNoBillPayment e r w)"
| "run_call e (CRecordFlag f) w = snd (RecordPaymentFlag e f w)"
| "run_call e (CSaveVAAccount a) w = snd (SaveVAAccount e a w)"
| "run_call e (CUpdateVAAccountStatus va s) w = snd (UpdateVAAccountStatus e va s w)"
| "run_call e (CNextSequence t) w = snd (NextCustomerNoSequence e t w)"
| "run_call e (CCreateDelivery d) w = snd (Create e d w)"
| "run_call e (CUpdateDelivery i r) w = snd (UpdateDeliveryResult e i r w)"
| "run_call e (CCreateAttempt a) w = snd (CreateStatusInquiryAttempt e a w)"

text \<open>The schema as the migrations leave it: empty tables and a sequence row per dynamic type.\<close>

definition fresh_world :: world where
  "fresh_world = \<lparr>w_txns = [], w_payments = [], w_bills = [], w_flags = [], w_accounts = [], w_deliveries = [],
     w_seqs = [(''04'', 1), (''05'', 1), (''06'', 1)], w_attempts = [], w_queue = [], w_uuids = 0\<rparr>"

inductive db_reachable :: "world \<Rightarrow> bool" where
  start: "db_reachable fresh_world"
| call: "db_reachable w \<Longrightarrow> db_reachable (run_call e c w)"
| enqueue: "db_reachable w \<Longrightarrow> db_reachable (w\<lparr>w_queue := q\<rparr>)"

lemma run_call_db_ok: "db_ok w \<Longrightarrow> db_ok (run_call e c w)"
  by (cases c) (simp_all add: db_ok_ops)

lemma reachable_db_ok: "db_reachable w \<Longrightarrow> db_ok w"
proof (induction rule: db_reachable.induct)
  case start
  show ?case by (simp add: fresh_world_def db_ok_def payment_ids_def)
qed (simp_all add: run_call_db_ok)

section \<open>Frames of the calls\<close>

lemma aux_frame [frame]:
  "w_seqs (snd (RecordPaymentFlag e f w)) = w_seqs w" "w_deliveries (snd (RecordPaymentFlag e f w)) = w_deliveries w"
  "w_txns (snd (RecordPaymentFlag e f w)) = w_txns w"
  "w_seqs (snd (SaveVAAccount e a w)) = w_seqs w" "w_deliveries (snd (SaveVAAccount e a w)) = w_deliveries w"
  "w_txns (snd (SaveVAAccount e a w)) = w_txns w"
  "w_seqs (snd (UpdateVAAccountStatus e va s w)) = w_seqs w" "w_deliveries (snd (UpdateVAAccountStatus e va s w)) = w_deliveries w"
  "w_txns (snd (UpdateVAAccountStatus e va s w)) = w_txns w"
  "w_deliveries (snd (NextCustomerNoSequence e t w)) = w_deliveries w" "w_txns (snd (NextCustomerNoSequence e t w)) = w_txns w"
  "w_seqs (snd (Create e d w)) = w_seqs w" "w_txns (snd (Create e d w)) = w_txns w"
  "w_seqs (snd (UpdateDeliveryResult e i r w)) = w_seqs w" "w_txns (snd (UpdateDeliveryResult e i r w)) = w_txns w"
  "w_seqs (snd (CreateStatusInquiryAttempt e av w)) = w_seqs w"
  "w_deliveries (snd (CreateStatusInquiryAttempt e av w)) = w_deliveries w"
  "w_txns (snd (CreateStatusInquiryAttempt e av w)) = w_txns w"
  by (simp_all add: RecordPaymentFlag_def SaveVAAccount_def UpdateVAAccountStatus_def NextCustomerNoSequence_def
      withLock_def Create_def UpdateDeliveryResult_def CreateStatusInquiryAttempt_def snd_guard Let_def next_uuid_def
      split: option.split)

lemma run_call_seqs: "(\<And>t. c \<noteq> CNextSequence t) \<Longrightarrow> w_seqs (run_call e c w) = w_seqs w"
  by (cases c) (use frame in \<open>auto simp: txns_only_def\<close>)

lemma run_call_deliveries:
  "(\<And>d. c \<noteq> CCreateDelivery d) \<Longrightarrow> (\<And>i r. c \<noteq> CUpdateDelivery i r) \<Longrightarrow> w_deliveries (run_call e c w) = w_deliveries w"
  by (cases c) (use frame in \<open>auto simp: txns_only_def\<close>)

end
