(* ===== verification/Contracts.thy ===== *)
theory Contracts
  imports RepoFacts
begin

text \<open>
  The contracts the use cases rely on, each stated once as a locale, with what follows from it for any
  sequence of calls, and interpreted on the repository's operations.
\<close>

section \<open>First write wins\<close>

text \<open>
  A keyed store whose entries are never overwritten. \<open>put\<close> may be refused (a failed statement, an empty
  key); it never replaces an entry, and an entry it creates is the one of its own call.
\<close>

locale first_write_wins =
  fixes lookup :: "'k \<Rightarrow> 's \<Rightarrow> 'v option" and put :: "'c \<Rightarrow> 's \<Rightarrow> 's"
    and key :: "'c \<Rightarrow> 'k" and val :: "'c \<Rightarrow> 'v"
  assumes keep: "lookup k s = Some v \<Longrightarrow> lookup k (put c s) = Some v"
    and new: "lookup k s = None \<Longrightarrow> lookup k (put c s) = Some v \<Longrightarrow> key c = k \<and> val c = v"
begin

lemma keep_all: "lookup k s = Some v \<Longrightarrow> lookup k (fold put cs s) = Some v"
  by (induction cs arbitrary: s) (simp_all add: keep)

text \<open>An entry present after a sequence of calls was there before, or is the one of the call that made it.\<close>

lemma provenance:
  "lookup k (fold put cs s) = Some v \<Longrightarrow> lookup k s = Some v \<or> (\<exists>c \<in> set cs. key c = k \<and> val c = v)"
proof (induction cs arbitrary: s)
  case (Cons c cs)
  then have "lookup k (put c s) = Some v \<or> (\<exists>c \<in> set cs. key c = k \<and> val c = v)" by simp
  then show ?case
  proof
    assume p: "lookup k (put c s) = Some v"
    show ?thesis
    proof (cases "lookup k s")
      case None
      with new p show ?thesis by simp
    next
      case (Some u)
      with keep [of k s u c] p show ?thesis by simp
    qed
  qed auto
qed simp

text \<open>Once a call has created its entry, repeating it, or any later call, changes nothing for that key.\<close>

lemma first_decides:
  assumes "lookup (key c) (put c s) = Some v"
  shows "lookup (key c) (fold put cs (put c s)) = Some v"
  using assms by (rule keep_all)

end

section \<open>Exactly one winner\<close>

text \<open>
  A conditional update that reports whether it applied. While the state is live some caller can win; a
  win ends it, and afterwards every attempt fails and leaves it ended.
\<close>

locale one_shot =
  fixes live :: "'s \<Rightarrow> bool" and attempt :: "'c \<Rightarrow> 's \<Rightarrow> bool \<times> 's"
  assumes win_ends: "attempt c s = (True, s') \<Longrightarrow> live s \<and> \<not> live s'"
    and lose_keeps: "attempt c s = (False, s') \<Longrightarrow> live s' = live s"

fun attempts :: "('c \<Rightarrow> 's \<Rightarrow> bool \<times> 's) \<Rightarrow> 'c list \<Rightarrow> 's \<Rightarrow> bool list \<times> 's" where
  "attempts f [] s = ([], s)"
| "attempts f (c # cs) s = (let (b, s1) = f c s; (bs, s2) = attempts f cs s1 in (b # bs, s2))"

context one_shot
begin

lemma dead_all: "\<not> live s \<Longrightarrow> attempts attempt cs s = (bs, s') \<Longrightarrow> True \<notin> set bs \<and> \<not> live s'"
proof (induction cs arbitrary: s bs)
  case (Cons c cs)
  obtain b s1 where a: "attempt c s = (b, s1)" by fastforce
  have b: "\<not> b" using win_ends Cons.prems(1) a by (cases b) auto
  with lose_keeps a Cons.prems(1) have "\<not> live s1" by auto
  with Cons.IH Cons.prems(2) a b show ?case by (auto simp: Let_def split: prod.splits)
qed auto

lemma at_most_one_winner: "attempts attempt cs s = (bs, s') \<Longrightarrow> count_list bs True \<le> 1"
proof (induction cs arbitrary: s bs)
  case (Cons c cs)
  obtain b s1 where a: "attempt c s = (b, s1)" by fastforce
  obtain bs1 where r: "attempts attempt cs s1 = (bs1, s')" and bs: "bs = b # bs1"
    using Cons.prems a by (auto simp: Let_def split: prod.splits)
  show ?case
  proof (cases b)
    case True
    with win_ends a have "\<not> live s1" by auto
    with dead_all r have "True \<notin> set bs1" by blast
    then have "count_list bs1 True = 0" by (simp add: count_list_0_iff)
    with True bs show ?thesis by simp
  qed (use Cons.IH [OF r] bs in simp)
qed simp

text \<open>The state ends exactly when somebody won.\<close>

lemma winner_iff_ended:
  "attempts attempt cs s = (bs, s') \<Longrightarrow> live s \<Longrightarrow> count_list bs True = 1 \<longleftrightarrow> \<not> live s'"
proof (induction cs arbitrary: s bs)
  case (Cons c cs)
  obtain b s1 where a: "attempt c s = (b, s1)" by fastforce
  obtain bs1 where r: "attempts attempt cs s1 = (bs1, s')" and bs: "bs = b # bs1"
    using Cons.prems(1) a by (auto simp: Let_def split: prod.splits)
  show ?case
  proof (cases b)
    case True
    with win_ends a have "\<not> live s1" by auto
    with dead_all r have "True \<notin> set bs1" "\<not> live s'" by blast+
    with True bs show ?thesis by (simp add: count_list_0_iff)
  next
    case False
    with lose_keeps a Cons.prems(2) have "live s1" by auto
    with Cons.IH [OF r] False bs show ?thesis by simp
  qed
qed auto

end

section \<open>Payment flags: the first answer stays\<close>

text \<open>What a double flag is answered from: the code, the message and the data block.\<close>

definition flag_answer :: "string \<times> string \<Rightarrow> world \<Rightarrow> (string \<times> string \<times> VAPaymentStatus) option" where
  "flag_answer k w = map_option (\<lambda>f. (f_response_code f, f_response_message f, f_virtual_account_data f))
     (find (flag_key (fst k) (snd k)) (w_flags w))"

definition put_flag :: "env \<times> VAPaymentFlag \<Rightarrow> world \<Rightarrow> world" where
  "put_flag c w = snd (RecordPaymentFlag (fst c) (snd c) w)"

definition flag_call_key :: "env \<times> VAPaymentFlag \<Rightarrow> string \<times> string" where
  "flag_call_key c = (pf_ExternalID (snd c), pf_PaymentRequestID (snd c))"

definition flag_call_val :: "env \<times> VAPaymentFlag \<Rightarrow> string \<times> string \<times> VAPaymentStatus" where
  "flag_call_val c = (pf_ResponseCode (snd c), pf_ResponseMessage (snd c),
     case pf_VirtualAccountData (snd c) of None \<Rightarrow> zeroPaymentStatus | Some d \<Rightarrow> d)"

lemma RecordPaymentFlag_flags:
  "w_flags (snd (RecordPaymentFlag e flag w)) = w_flags w \<or>
   (find (flag_key (pf_ExternalID flag) (pf_PaymentRequestID flag)) (w_flags w) = None \<and>
    (\<exists>g. w_flags (snd (RecordPaymentFlag e flag w)) = w_flags w @ [flag_row_of g] \<and>
       pf_ExternalID g = pf_ExternalID flag \<and> pf_PaymentRequestID g = pf_PaymentRequestID flag \<and>
       pf_ResponseCode g = pf_ResponseCode flag \<and> pf_ResponseMessage g = pf_ResponseMessage flag \<and>
       pf_VirtualAccountData g = pf_VirtualAccountData flag))"
proof -
  let ?g = "flag\<lparr>pf_ID := (if pf_ID flag = [] then fresh_id e w else pf_ID flag),
      pf_CreatedAt := (if IsZero (pf_CreatedAt flag) then e_now e else pf_CreatedAt flag)\<rparr>"
  have "w_flags (snd (RecordPaymentFlag e flag w)) = w_flags w \<or>
     (find (flag_key (pf_ExternalID flag) (pf_PaymentRequestID flag)) (w_flags w) = None \<and>
      w_flags (snd (RecordPaymentFlag e flag w)) = w_flags w @ [flag_row_of ?g])"
    unfolding RecordPaymentFlag_def Let_def guard_def next_uuid_def
    by (auto split: option.splits)
  then show ?thesis
    by (elim disjE conjE) (blast, (intro disjI2 conjI exI [of _ ?g]; simp))
qed

interpretation flags: first_write_wins flag_answer put_flag flag_call_key flag_call_val
proof
  fix k w v c
  assume "flag_answer k w = Some v"
  then show "flag_answer k (put_flag c w) = Some v"
    using RecordPaymentFlag_flags [of "fst c" "snd c" w]
    by (auto simp: flag_answer_def put_flag_def find_append)
next
  fix k w c v
  assume a: "flag_answer k w = None" "flag_answer k (put_flag c w) = Some v"
  then show "flag_call_key c = k \<and> flag_call_val c = v"
    using RecordPaymentFlag_flags [of "fst c" "snd c" w]
    by (auto simp: flag_answer_def put_flag_def find_append flag_call_key_def flag_call_val_def flag_row_of_def
        flag_key_def prod_eq_iff split: if_splits)
qed

section \<open>Instalments: an identifier is credited once\<close>

definition instalment_entry :: "string \<Rightarrow> world \<Rightarrow> (string \<times> int) option" where
  "instalment_entry prid w = map_option (\<lambda>p. (p_transaction_id p, p_amount p))
     (find (\<lambda>p. p_payment_request_id p = Some prid) (w_payments w))"

record instalment_call =
  ic_env :: env
  ic_txn :: string
  ic_id :: string
  ic_amount :: string
  ic_ref :: string

definition put_instalment :: "instalment_call \<Rightarrow> world \<Rightarrow> world" where
  "put_instalment c w = snd (SaveVAPayment (ic_env c) (ic_txn c) (ic_id c) (ic_amount c) (ic_ref c) w)"

definition instalment_val :: "instalment_call \<Rightarrow> string \<times> int" where
  "instalment_val c = (ic_txn c, case e_numeric (ic_env c) (ic_amount c) of None \<Rightarrow> 0 | Some n \<Rightarrow> n)"

text \<open>\<^verbatim>\<open>SaveVAPayment\<close> leaves the instalments alone or appends the one of its call, under a new identifier.\<close>

lemma insert_instalment_payments:
  assumes "insert_instalment e tid prid amt ref w = (r, w1)"
  shows "w_payments w1 = w_payments w \<or>
    (\<exists>p n. w_payments w1 = w_payments w @ [p] \<and> r = Inr True \<and> p_transaction_id p = tid \<and>
       p_payment_request_id p = null_if_empty prid \<and> e_numeric e amt = Some n \<and> p_amount p = n \<and>
       (prid = [] \<or> Some prid \<notin> p_payment_request_id ` set (w_payments w)))"
  using assms by (auto simp: insert_instalment_def Let_def next_uuid_def split: option.splits if_splits)

lemma update_txns_payments [frame]: "w_payments (update_txns p f w) = w_payments w"
  by (simp add: update_txns_def)

lemma save_tx_payments:
  assumes "insert_instalment e tid prid amt ref w = (r, w1)"
  shows "w_payments (snd (save_va_payment_tx e tid prid amt ref w)) = w_payments w1"
  by (simp add: save_va_payment_tx_def assms Let_def frame split: sum.splits option.splits)

lemma SaveVAPayment_payments:
  "w_payments (snd (SaveVAPayment e tid prid amt ref w)) = w_payments w \<or>
    (\<exists>p n. w_payments (snd (SaveVAPayment e tid prid amt ref w)) = w_payments w @ [p] \<and> p_transaction_id p = tid \<and>
       p_payment_request_id p = null_if_empty prid \<and> e_numeric e amt = Some n \<and> p_amount p = n \<and>
       (prid = [] \<or> Some prid \<notin> p_payment_request_id ` set (w_payments w)))"
proof -
  obtain r w1 where i: "insert_instalment e tid prid amt ref w = (r, w1)" by fastforce
  obtain q w2 where t: "save_va_payment_tx e tid prid amt ref w = (q, w2)" by fastforce
  have "w_payments w2 = w_payments w1" using save_tx_payments [OF i] t by simp
  then show ?thesis
    using insert_instalment_payments [OF i]
    by (cases q) (auto simp: SaveVAPayment_def guard_def t split: option.splits)
qed

interpretation instalments: first_write_wins instalment_entry put_instalment ic_id instalment_val
proof
  fix k w v c
  assume "instalment_entry k w = Some v"
  then show "instalment_entry k (put_instalment c w) = Some v"
    using SaveVAPayment_payments [of "ic_env c" "ic_txn c" "ic_id c" "ic_amount c" "ic_ref c" w]
    by (auto simp: instalment_entry_def put_instalment_def find_append)
next
  fix k w c v
  assume "instalment_entry k w = None" "instalment_entry k (put_instalment c w) = Some v"
  then show "ic_id c = k \<and> instalment_val c = v"
    using SaveVAPayment_payments [of "ic_env c" "ic_txn c" "ic_id c" "ic_amount c" "ic_ref c" w]
    by (auto simp: instalment_entry_def put_instalment_def find_append instalment_val_def null_if_empty_def
        split: if_splits)
qed

section \<open>Closing a pending transaction has one winner\<close>

text \<open>
  The conditional writes on \<^verbatim>\<open>status = '03'\<close>: settling from the vendor's status, expiring (\<open>02\<close>) and
  deleting (\<open>04\<close>). A call wins when it reports an affected row.
\<close>

datatype closer = SettleBy env VendorSettlement | ExpireBy env | DeleteBy env

definition won :: "(gerr + unit) \<times> world \<Rightarrow> bool \<times> world" where
  "won r = (is_ok (fst r), snd r)"

fun try_close :: "string \<Rightarrow> closer \<Rightarrow> world \<Rightarrow> bool \<times> world" where
  "try_close va (SettleBy e s) w = (case SettlePendingFromVendor e va s w of
      (Inl err, w') \<Rightarrow> (False, w') | (Inr b, w') \<Rightarrow> (b, w'))"
| "try_close va (ExpireBy e) w = won (UpdateVAStatus e va ''02'' w)"
| "try_close va (DeleteBy e) w = won (UpdateVAStatus e va ''04'' w)"

definition has_pending :: "string \<Rightarrow> world \<Rightarrow> bool" where
  "has_pending va w = (\<exists>t \<in> set (w_txns w). pending_of va t)"

lemma has_pending_count: "has_pending va w \<longleftrightarrow> count_where (pending_of va) (w_txns w) \<noteq> 0"
  by (auto simp: has_pending_def count_where_0_iff)

lemma close_clears:
  assumes "\<And>t. \<not> pending_of va (f t)"
  shows "\<not> has_pending va (update_txns (pending_of va) f w)"
  using assms by (simp add: has_pending_count update_txns_def count_where_update_where)

lemma no_pending_update: "\<not> has_pending va w \<Longrightarrow> update_txns (pending_of va) f w = w"
  by (simp add: has_pending_def update_txns_def update_where_none)

lemma has_pending_pos: "0 < count_where (pending_of va) (w_txns w) \<longleftrightarrow> has_pending va w"
  by (simp add: has_pending_count)

definition set_status :: "env \<Rightarrow> string \<Rightarrow> txn \<Rightarrow> txn" where
  "set_status e s t = t\<lparr>t_status := s, t_updated_at := e_now e\<rparr>"

lemma UpdateVAStatus_char [repo]:
  "UpdateVAStatus e va s w = (case e_fault e (OpUpdateVAStatus va) of Some err \<Rightarrow> (Inl err, w)
     | None \<Rightarrow> if has_pending va w then (Inr (), update_txns (pending_of va) (set_status e s) w)
              else (Inl ErrMerchantVANotFound, w))"
  using no_pending_update [of va w]
  by (simp add: UpdateVAStatus_def guard_def Let_def set_status_def [abs_def] has_pending_count split: option.split)

lemma Settle_char [repo]:
  "SettlePendingFromVendor e va s w = (case e_fault e (OpSettle va) of Some err \<Rightarrow> (Inl err, w)
     | None \<Rightarrow> (case e_numeric e (vs_PaidAmount s) of None \<Rightarrow> (Inl numeric_error, w)
        | Some paid \<Rightarrow> if has_pending va w then (Inr True, update_txns (pending_of va) (settle_row e s paid) w)
            else (Inr False, w)))"
  using no_pending_update [of va w]
  by (auto simp add: SettlePendingFromVendor_def guard_def has_pending_pos split: option.split)

lemma set_status_clears: "s \<noteq> ''03'' \<Longrightarrow> \<not> has_pending va (update_txns (pending_of va) (set_status e s) w)"
  by (rule close_clears) (simp add: pending_of_def set_status_def)

lemma settle_clears: "\<not> has_pending va (update_txns (pending_of va) (settle_row e s paid) w)"
  by (rule close_clears) (simp add: pending_of_def settle_row_def)

lemma try_close_outcome:
  "try_close va c w = (b, w') \<Longrightarrow> b \<and> has_pending va w \<and> \<not> has_pending va w' \<or> \<not> b \<and> w' = w"
  using set_status_clears [of "''02''"] set_status_clears [of "''04''"] settle_clears
  by (cases c) (auto simp: repo won_def split: option.splits if_splits)

interpretation closing: one_shot "has_pending va" "try_close va" for va
  by unfold_locales (use try_close_outcome in blast)+

section \<open>Leaving the active state of a registration has one winner\<close>

datatype account_closer = ExpireAccount env | DeactivateAccount env

fun try_close_account :: "string \<Rightarrow> account_closer \<Rightarrow> world \<Rightarrow> bool \<times> world" where
  "try_close_account va (ExpireAccount e) w = won (UpdateVAAccountStatus e va VAAccountStatusExpired w)"
| "try_close_account va (DeactivateAccount e) w = won (UpdateVAAccountStatus e va VAAccountStatusInactive w)"

definition has_active :: "string \<Rightarrow> world \<Rightarrow> bool" where
  "has_active va w = (\<exists>a \<in> set (w_accounts w). active_account va a)"

definition close_account :: "env \<Rightarrow> string \<Rightarrow> string \<Rightarrow> world \<Rightarrow> world" where
  "close_account e va s w = w\<lparr>w_accounts := update_where (active_account va)
     (\<lambda>a. a\<lparr>ac_Status := s, ac_UpdatedAt := e_now e\<rparr>) (w_accounts w)\<rparr>"

lemma UpdateVAAccountStatus_char [repo]:
  assumes "s \<in> {VAAccountStatusActive, VAAccountStatusInactive, VAAccountStatusExpired}"
  shows "UpdateVAAccountStatus e va s w = (case e_fault e (OpUpdateAccount va) of Some err \<Rightarrow> (Inl err, w)
     | None \<Rightarrow> if has_active va w then (Inr (), close_account e va s w) else (Inl ErrVAAccountNotFound, w))"
  using assms by (auto simp: UpdateVAAccountStatus_def guard_def Let_def has_active_def close_account_def
      count_where_0_iff split: option.split)

lemma close_account_clears:
  assumes "s \<noteq> VAAccountStatusActive" shows "\<not> has_active va (close_account e va s w)"
proof -
  have "count_where (active_account va) (w_accounts (close_account e va s w)) = 0"
    unfolding close_account_def using assms by (simp add: count_where_update_where active_account_def)
  then show ?thesis by (simp add: has_active_def count_where_0_iff)
qed

lemma account_exit_status:
  "VAAccountStatusExpired \<noteq> VAAccountStatusActive" "VAAccountStatusInactive \<noteq> VAAccountStatusActive"
  by (simp_all add: code_consts)

lemma try_close_account_outcome:
  "try_close_account va c w = (b, w') \<Longrightarrow> b \<and> has_active va w \<and> \<not> has_active va w' \<or> \<not> b \<and> w' = w"
  using close_account_clears [OF account_exit_status(1)] close_account_clears [OF account_exit_status(2)]
  by (cases c) (auto simp: repo won_def split: option.splits if_splits)

interpretation deactivating: one_shot "has_active va" "try_close_account va" for va
  by unfold_locales (use try_close_account_outcome in blast)+

section \<open>The queries that pick one row\<close>

interpretation va_order: row_order "\<lambda>t. (va_rank t, - tm_ns (t_created_at t))" va_better
  by unfold_locales (auto simp: va_better_def less_prod_def')

interpretation delivery_order: row_order "\<lambda>d. - tm_ns (nd_AttemptedAt d)" later_delivery
  by unfold_locales (simp add: later_delivery_def)

end
