(* ===== verification/UsecaseFacts.thy ===== *)
theory UsecaseFacts
  imports VaUsecase Contracts
begin

text \<open>
  Lemmas about the vendor operations: which tables each step touches, how amounts compare, what the
  lookups return, and what a callback leaves in the queue.
\<close>

section \<open>Callbacks touch only deliveries and the queue\<close>

definition notify_only :: "world \<Rightarrow> world \<Rightarrow> bool" where
  "notify_only w w' = (w_txns w' = w_txns w \<and> w_payments w' = w_payments w \<and> w_bills w' = w_bills w \<and>
     w_flags w' = w_flags w \<and> w_accounts w' = w_accounts w \<and> w_seqs w' = w_seqs w \<and> w_attempts w' = w_attempts w)"

lemma notify_only_refl [simp]: "notify_only w w" "notify_only w (next_uuid w)"
  by (simp_all add: notify_only_def next_uuid_def)

lemma notify_only_trans: "notify_only u v \<Longrightarrow> notify_only v w \<Longrightarrow> notify_only u w"
  by (simp add: notify_only_def)

lemma notify_only_Create: "notify_only w (snd (Create e d w))"
  by (simp add: Create_def snd_guard Let_def notify_only_def next_uuid_def)

lemma notify_only_UpdateDelivery: "notify_only w (snd (UpdateDeliveryResult e i r w))"
  by (simp add: UpdateDeliveryResult_def snd_guard notify_only_def)

lemma notify_only_enqueue: "notify_only w (snd (EnqueuePaymentNotification e p w))"
  by (simp add: EnqueuePaymentNotification_def notify_only_def split: option.split)

text \<open>The state after the row is written and after the enqueue, and the outcome of the enqueue.\<close>

definition dispatch_row :: "env \<Rightarrow> PaymentNotificationPayload \<Rightarrow> string \<Rightarrow> string \<Rightarrow> string \<Rightarrow> world \<Rightarrow> world" where
  "dispatch_row e p va ev tr w = (if e_delivery_repo e
     then snd (Create e (queued_delivery e (fresh_id e w) p va ev tr) (next_uuid w)) else next_uuid w)"

lemma notify_only_dispatch_row: "notify_only w (dispatch_row e p va ev tr w)"
  unfolding dispatch_row_def
  using notify_only_trans [OF notify_only_refl(2) notify_only_Create] by simp

lemma queue_Create [simp]: "w_queue (snd (Create e d w)) = w_queue w"
  by (simp add: Create_def snd_guard Let_def next_uuid_def)

lemma queue_UpdateDelivery [simp]: "w_queue (snd (UpdateDeliveryResult e i r w)) = w_queue w"
  by (simp add: UpdateDeliveryResult_def snd_guard)

lemma queue_dispatch_row [simp]: "w_queue (dispatch_row e p va ev tr w) = w_queue w"
  by (simp add: dispatch_row_def next_uuid_def)

definition sent_payload :: "env \<Rightarrow> PaymentNotificationPayload \<Rightarrow> string \<Rightarrow> world \<Rightarrow> PaymentNotificationPayload" where
  "sent_payload e payload tr w = payload\<lparr>np_DeliveryID := fresh_id e w, np_Trigger := tr\<rparr>"

lemma dispatch_char:
  "snd (dispatchNotification e payload va ev tr w) =
    (let p = sent_payload e payload tr w; w1 = dispatch_row e p va ev tr w in
     case (if e_notifier e then e_enqueue e p else Some (ErrOther ''notification enqueuer unavailable'')) of
       None \<Rightarrow> w1\<lparr>w_queue := w_queue w1 @ [p]\<rparr>
     | Some x \<Rightarrow> if e_delivery_repo e
         then snd (UpdateDeliveryResult e (fresh_id e w)
            \<lparr>nr_Status = (if x = ErrNotificationDuplicate then NotificationDeliveryStatusDuplicate else NotificationDeliveryStatusFailed),
             nr_AttemptCount = 0, nr_HTTPStatus = 0, nr_ErrorDetail = Error x\<rparr> w1)
         else w1)"
  by (simp add: dispatchNotification_def dispatch_row_def sent_payload_def EnqueuePaymentNotification_def Let_def
      split: option.split)

lemma notify_only_dispatch: "notify_only w (snd (dispatchNotification e payload va ev tr w))"
proof -
  let ?p = "sent_payload e payload tr w"
  have row: "notify_only w (dispatch_row e ?p va ev tr w)" by (rule notify_only_dispatch_row)
  moreover have "notify_only v (v\<lparr>w_queue := q\<rparr>)" for v q by (simp add: notify_only_def)
  ultimately show ?thesis unfolding dispatch_char Let_def
    using notify_only_trans [OF row] notify_only_UpdateDelivery by (auto split: option.split)
qed

lemma queue_dispatch:
  "w_queue (snd (dispatchNotification e payload va ev tr w)) = w_queue w @
    (if e_notifier e \<and> e_enqueue e (sent_payload e payload tr w) = None then [sent_payload e payload tr w] else [])"
  unfolding dispatch_char Let_def by (simp split: option.split)

lemma notify_only_audit: "notify_only w (enqueueAndAudit e p va ev w)"
  by (simp add: enqueueAndAudit_def notify_only_dispatch)

lemma notify_only_merchant: "notify_only w (notifyMerchantWithVA e req paid trx url w)"
  "notify_only w (notifyMerchantForAccount e req paid a d w)"
  by (simp_all add: notifyMerchantWithVA_def notifyMerchantForAccount_def notify_only_audit)

lemma queue_audit_le: "length (w_queue (enqueueAndAudit e p va ev w)) \<le> Suc (length (w_queue w))"
  by (simp add: enqueueAndAudit_def queue_dispatch)

section \<open>Expiry\<close>

lemma markExpired_char:
  "markExpiredAndNotify e r w = (let va = ri_VirtualAccountNo r;
       w1 = update_txns (pending_of va) (set_status e ''02'') w in
     if e_fault e (OpUpdateVAStatus va) \<noteq> None \<or> \<not> has_pending va w then w
     else if ri_NotificationURL r = [] \<or> \<not> e_notifier e \<or> already_told e va w1 then w1
     else enqueueAndAudit e (expired_payload (ri_PartnerServiceID r) (ri_CustomerNo r) va (ri_TrxID r)
            (ri_NotificationURL r) (ri_ExpiredDate r)) va NotificationEventVAExpired w1)"
  by (auto simp: markExpiredAndNotify_def repo Let_def split: option.splits)

lemma markExpired_no_pending: "\<not> has_pending (ri_VirtualAccountNo r) w \<Longrightarrow> markExpiredAndNotify e r w = w"
  by (simp add: markExpired_char Let_def)

lemma markExpired_txns:
  "w_txns (markExpiredAndNotify e r w) = w_txns w \<or>
   w_txns (markExpiredAndNotify e r w) = update_where (pending_of (ri_VirtualAccountNo r)) (set_status e ''02'') (w_txns w)"
proof -
  have "w_txns (enqueueAndAudit e p va ev v) = w_txns v" for p va ev v
    using notify_only_audit [of v e p va ev] by (simp add: notify_only_def)
  then show ?thesis by (auto simp: markExpired_char Let_def update_txns_def)
qed

lemma markExpired_queue: "length (w_queue (markExpiredAndNotify e r w)) \<le> Suc (length (w_queue w))"
  using queue_audit_le [of e _ _ _ "update_txns (pending_of (ri_VirtualAccountNo r)) (set_status e ''02'') w"]
  by (auto simp: markExpired_char Let_def update_txns_def intro: order_trans)

lemma has_pending_notify: "notify_only w v \<Longrightarrow> has_pending va v = has_pending va w"
  by (simp add: notify_only_def has_pending_def)

lemma markExpired_outcome:
  assumes "w' = markExpiredAndNotify e r w" and "va = ri_VirtualAccountNo r"
  shows "w' = w \<or> (has_pending va w \<and> \<not> has_pending va w')"
proof -
  have "\<not> has_pending va (update_txns (pending_of va) (set_status e ''02'') w)"
    by (rule set_status_clears) simp
  then show ?thesis
    using has_pending_notify [OF notify_only_audit] assms by (auto simp: markExpired_char Let_def)
qed

section \<open>Amounts compare exactly\<close>

lemma amountsEqual_cents:
  assumes "amountPattern a" and "amount_cents a < 10 ^ 15" and "numeric_env e" and "n < 10 ^ 15"
  shows "amountsEqual a (e_scan e (int n)) \<longleftrightarrow> amount_cents a = n"
proof -
  have "ParseFloat (TrimSpace a) = Some (money (amount_cents a))"
    using ParseFloat_amount [OF assms(1)] amountPattern_trim [OF assms(1)] assms(2) by simp
  with numeric_env_scan [OF assms(3,4)] money_near [OF assms(2,4)] show ?thesis by (simp add: amountsEqual_def)
qed

lemma amountsEqual_texts:
  assumes "amountPattern a" and "amount_cents a < 10 ^ 15" and "amountPattern b" and "amount_cents b < 10 ^ 15"
  shows "amountsEqual a b \<longleftrightarrow> amount_cents a = amount_cents b"
proof -
  have "ParseFloat (TrimSpace a) = Some (money (amount_cents a))" "ParseFloat (TrimSpace b) = Some (money (amount_cents b))"
    using assms by (simp_all add: ParseFloat_amount amountPattern_trim)
  with money_near [OF assms(2,4)] show ?thesis by (simp add: amountsEqual_def)
qed

lemma overpayment_iff:
  assumes "amountPattern (am_Value paid)" and "amount_cents (am_Value paid) < 10 ^ 15" and "numeric_env e"
    and "ri_TotalAmount r = e_scan e (int tot)" and "tot < 10 ^ 15"
    and "ri_PaidAmount r = numeric_text0 s" and "s = None \<and> k = 0 \<or> s = Some (int k)" and "k < 10 ^ 15"
  shows "variableBillOverpayment paid r \<longleftrightarrow> 0 < tot \<and> tot < k + amount_cents (am_Value paid)"
proof -
  have p: "ParseFloat (TrimSpace (am_Value paid)) = Some (money (amount_cents (am_Value paid)))"
    using assms(1,2) by (simp add: ParseFloat_amount amountPattern_trim)
  have zero: "amountPattern ''0''" "amount_cents ''0'' = 0"
    by (simp_all add: amountPattern_def amount_cents_def is_digit_def digit_val_def)
  have s: "ParseFloat (TrimSpace (ri_PaidAmount r)) = Some (money k)"
    using assms(6-8) zero ParseFloat_amount [OF zero(1)] ParseFloat_cents_text [of k] amountPattern_trim [OF zero(1)]
    by (auto simp: numeric_text0_def numeric_text_def)
  have z: "f64_le (money tot) (Fin 0) \<longleftrightarrow> tot = 0" by (rule money_positive [OF assms(5)])
  show ?thesis
    using numeric_env_scan [OF assms(3,5)] assms(4) p s z money_exceeds [OF assms(8,2,5)]
    by (simp add: variableBillOverpayment_def)
qed

end
