(* ===== verification/RepoProps.thy ===== *)
theory RepoProps
  imports Contracts Validation
begin

text \<open>
  The correctness properties of the repository, resting on the integrity lemmas and the interpreted
  contracts, and a concrete environment and world on which the properties are exercised.
\<close>

section \<open>A concrete environment\<close>

text \<open>
  PostgreSQL's reading of an amount, instantiated on the texts the gateway accepts; the driver's
  rendering is the two-decimal text.
\<close>

definition demo_numeric :: "string \<Rightarrow> int option" where
  "demo_numeric s = (if amountPattern s \<and> amount_cents s < 10 ^ 16 then Some (int (amount_cents s)) else None)"

definition demo_env :: env where
  "demo_env = \<lparr>e_now = \<lparr>tm_ns = 63900000000000000000, tm_off = 25200\<rparr>, e_uuid = (\<lambda>n. ''u'' @ dec n),
     e_fault = (\<lambda>_. None), e_numeric = demo_numeric, e_scan = numeric_text, e_enqueue = (\<lambda>_. None),
     e_notifier = True, e_delivery_repo = True, e_tie = (\<lambda>_. 0)\<rparr>"

lemma demo_sel [simp]:
  "e_fault demo_env opn = None" "e_uuid demo_env n = ''u'' @ dec n" "e_scan demo_env = numeric_text"
  "e_numeric demo_env = demo_numeric" "e_enqueue demo_env p = None" "e_notifier demo_env" "e_delivery_repo demo_env"
  by (simp_all add: demo_env_def)

lemma demo_numeric_env: "numeric_env demo_env"
  by (simp add: numeric_env_def demo_numeric_def numeric_text_def ParseFloat_cents_text)

lemma demo_no_faults: "no_faults demo_env"
  by (simp add: no_faults_def)

text \<open>A pending fixed bill of 250.00 and its registration.\<close>

definition demo_time :: gtime where
  "demo_time = \<lparr>tm_ns = 63800000000000000000, tm_off = 0\<rparr>"

definition demo_txn :: txn where
  "demo_txn = \<lparr>t_id = ''t1'', t_partner_service_id = ''12345'', t_customer_no = ''678'', t_customer_name = ''Budi'',
     t_customer_email = None, t_customer_phone = None, t_virtual_account_no = ''12345678'',
     t_inquiry_request_id = ''12345678'', t_trx_id = ''trx1'', t_notification_url = ''http://m'',
     t_payment_request_id = None, t_status = ''03'', t_total_amount = Some 25000, t_paid_amount = None,
     t_currency = ''IDR'', t_reference_no = None, t_channel_code = None, t_hashed_source_account_no = None,
     t_source_bank_code = None, t_journal_num = None, t_payment_type = None, t_flag_advise = None,
     t_paid_bills = None, t_sub_company = None, t_trx_date_time = None, t_free_texts = None,
     t_va_type = Some ''03'', t_transaction_date = None, t_expired_date = None,
     t_created_at = demo_time, t_updated_at = demo_time\<rparr>"

definition demo_account :: VAAccount where
  "demo_account = \<lparr>ac_ID = ''a1'', ac_PartnerServiceID = ''12345'', ac_CustomerNo = ''678'',
     ac_VirtualAccountNo = ''12345678'', ac_VAType = ''03'', ac_Billing = ''fixed'', ac_CustomerName = ''Budi'',
     ac_CustomerEmail = [], ac_CustomerPhone = [], ac_TrxID = ''trx1'', ac_NotificationURL = ''http://m'',
     ac_Status = ''ACTIVE'', ac_ExpiredDate = None, ac_CreatedAt = demo_time, ac_UpdatedAt = demo_time\<rparr>"

definition demo_world :: world where
  "demo_world = fresh_world\<lparr>w_txns := [demo_txn], w_accounts := [demo_account]\<rparr>"

section \<open>Double flags\<close>

text \<open>Once a payment-flag outcome is recorded under a pair of external and payment identifiers, every
  later lookup of that pair returns the code, message and data block of that first outcome, whatever
  outcomes are recorded in between, for this pair or others. An outcome without a data block comes back
  as a blank block.\<close>

theorem recorded_flag_is_final:
  assumes "RecordPaymentFlag e flag w = (Inr (), w1)"
    and "pf_ExternalID flag \<noteq> []" and "pf_PaymentRequestID flag \<noteq> []"
    and "find (flag_key (pf_ExternalID flag) (pf_PaymentRequestID flag)) (w_flags w) = None"
    and "e_fault e' (OpFindFlag (pf_ExternalID flag) (pf_PaymentRequestID flag)) = None"
  shows "\<exists>g. fst (FindPaymentFlag e' (pf_ExternalID flag) (pf_PaymentRequestID flag) (fold put_flag later w1)) = Inr (Some g) \<and>
    pf_ResponseCode g = pf_ResponseCode flag \<and> pf_ResponseMessage g = pf_ResponseMessage flag \<and>
    pf_VirtualAccountData g = Some (case pf_VirtualAccountData flag of None \<Rightarrow> zeroPaymentStatus | Some d \<Rightarrow> d)"
proof -
  let ?k = "(pf_ExternalID flag, pf_PaymentRequestID flag)"
  have stored: "flag_answer ?k w1 = Some (flag_call_val (e, flag))"
    using assms(1-4)
    by (auto simp: RecordPaymentFlag_def guard_def Let_def flag_answer_def flag_call_val_def next_uuid_def
        find_append flag_key_def flag_row_of_def split: option.splits if_splits)
  have "flag_answer ?k (fold put_flag later w1) = Some (flag_call_val (e, flag))"
    by (rule flags.keep_all) (rule stored)
  then show ?thesis
    using assms(2,3,5)
    by (auto simp: flag_answer_def flag_call_val_def FindPaymentFlag_def flag_of_row_def)
qed

definition demo_flag :: VAPaymentFlag where
  "demo_flag = \<lparr>pf_ID = [], pf_ExternalID = ''x1'', pf_PaymentRequestID = ''p1'', pf_VirtualAccountNo = ''1'',
     pf_ResponseCode = ''4042512'', pf_ResponseMessage = ''m'', pf_VirtualAccountData = None,
     pf_CreatedAt = \<lparr>tm_ns = 0, tm_off = 0\<rparr>\<rparr>"

theorem recorded_flag_is_final_witness:
  "\<exists>g. fst (FindPaymentFlag demo_env ''x1'' ''p1''
      (fold put_flag [(demo_env, demo_flag\<lparr>pf_ResponseCode := ''2002500''\<rparr>)]
        (snd (RecordPaymentFlag demo_env demo_flag fresh_world)))) = Inr (Some g) \<and>
    pf_ResponseCode g = ''4042512'' \<and> pf_ResponseMessage g = ''m'' \<and> pf_VirtualAccountData g = Some zeroPaymentStatus"
proof -
  obtain u w1 where r: "RecordPaymentFlag demo_env demo_flag fresh_world = (u, w1)" by fastforce
  then have "u = Inr ()"
    by (auto simp: RecordPaymentFlag_def demo_flag_def Let_def fresh_world_def next_uuid_def)
  with recorded_flag_is_final [of demo_env demo_flag fresh_world w1 demo_env "[(demo_env, demo_flag\<lparr>pf_ResponseCode := ''2002500''\<rparr>)]"] r
  show ?thesis by (simp add: demo_flag_def fresh_world_def)
qed

section \<open>One winner\<close>

text \<open>C20: When any number of reconciliations, expiries and deletions are attempted on the pending
  transaction of a virtual account number, in any order and with any database failures, at most one of
  them reports that it applied; if the number was pending, one of them did exactly when it no longer is.\<close>

theorem closing_has_one_winner:
  assumes "attempts (try_close va) cs w = (wins, w')"
  shows "count_list wins True \<le> 1 \<and>
    (has_pending va w \<longrightarrow> (count_list wins True = 1 \<longleftrightarrow> \<not> has_pending va w'))"
  using closing.at_most_one_winner [OF assms] closing.winner_iff_ended [OF assms] by blast

text \<open>Expiring and deactivating a registration exclude each other: in any sequence of attempts at most
  one reports that it moved the registration out of the active state.\<close>

theorem registration_leaves_active_once:
  assumes "attempts (try_close_account va) cs w = (wins, w')"
  shows "count_list wins True \<le> 1 \<and>
    (has_active va w \<longrightarrow> (count_list wins True = 1 \<longleftrightarrow> \<not> has_active va w'))"
  using deactivating.at_most_one_winner [OF assms] deactivating.winner_iff_ended [OF assms] by blast

lemma demo_pending: "has_pending ''12345678'' demo_world"
  by (simp add: has_pending_def demo_world_def demo_txn_def pending_of_def)

theorem closing_has_one_winner_witness:
  "has_pending ''12345678'' demo_world \<and>
   count_list (fst (attempts (try_close ''12345678'') [ExpireBy demo_env, DeleteBy demo_env] demo_world)) True = 1"
proof -
  let ?r = "attempts (try_close ''12345678'') [ExpireBy demo_env, DeleteBy demo_env] demo_world"
  have "\<not> has_pending ''12345678'' (snd ?r)"
    using demo_pending set_status_clears [of "''02''" "''12345678''" demo_env demo_world]
    by (simp add: repo won_def)
  with closing_has_one_winner [of "''12345678''" "[ExpireBy demo_env, DeleteBy demo_env]" demo_world "fst ?r" "snd ?r"]
    demo_pending show ?thesis by simp
qed

theorem registration_leaves_active_once_witness:
  "has_active ''12345678'' demo_world \<and>
   count_list (fst (attempts (try_close_account ''12345678'') [DeactivateAccount demo_env, ExpireAccount demo_env] demo_world)) True = 1"
proof -
  let ?r = "attempts (try_close_account ''12345678'') [DeactivateAccount demo_env, ExpireAccount demo_env] demo_world"
  have act: "has_active ''12345678'' demo_world"
    by (simp add: has_active_def demo_world_def demo_account_def active_account_def code_consts)
  have "\<not> has_active ''12345678'' (snd ?r)"
    using act close_account_clears [OF account_exit_status(2)] by (simp add: repo won_def)
  with registration_leaves_active_once [of "''12345678''" "[DeactivateAccount demo_env, ExpireAccount demo_env]"
      demo_world "fst ?r" "snd ?r"] act show ?thesis by simp
qed

section \<open>The transaction a number stands for\<close>

text \<open>The transaction found for a virtual account number is one of its rows; it is payable whenever
  any row of the number is, and no row of the same rank is newer.\<close>

theorem lookup_prefers_payable:
  assumes "GetVAByVirtualAccountNo e va w = (Inr r, w')"
  shows "w' = w \<and> (\<exists>t \<in> set (w_txns w). t_virtual_account_no t = va \<and> ri_ID r = t_id t \<and> ri_Status r = t_status t \<and>
    (\<forall>s \<in> set (w_txns w). t_virtual_account_no s = va \<longrightarrow>
       (payable_row s \<longrightarrow> payable_row t) \<and>
       (payable_row s = payable_row t \<longrightarrow> tm_ns (t_created_at s) \<le> tm_ns (t_created_at t))))"
proof -
  let ?rows = "filter (\<lambda>t. t_virtual_account_no t = va) (w_txns w)"
  have ok: "e_fault e (OpGetVA va) = None"
    using assms by (cases "e_fault e (OpGetVA va)") (simp_all add: GetVAByVirtualAccountNo_def)
  obtain t where top: "top_by va_better ?rows = Some t"
    using assms by (cases "top_by va_better ?rows") (simp_all add: GetVAByVirtualAccountNo_def ok)
  have w: "w' = w" and scan: "scan_inquiry e (numeric_text0 (t_paid_amount t))
      (or_empty (orelse (t_payment_request_id t) (newest_instalment (t_id t) w))) t = Inr r"
    using assms by (auto simp: GetVAByVirtualAccountNo_def ok top)
  have mem: "t \<in> set ?rows" using top by (rule top_by_mem)
  have best: "(va_rank t, - tm_ns (t_created_at t)) \<le> (va_rank s, - tm_ns (t_created_at s))" if "s \<in> set ?rows" for s
    using va_order.top_least [OF top that] .
  have "(payable_row s \<longrightarrow> payable_row t) \<and> (payable_row s = payable_row t \<longrightarrow> tm_ns (t_created_at s) \<le> tm_ns (t_created_at t))"
    if "s \<in> set (w_txns w)" "t_virtual_account_no s = va" for s
    using best [of s] that by (auto simp: va_rank_def less_eq_prod_def split: if_splits)
  with mem scan w show ?thesis by (auto simp: scan_inquiry_def split: option.splits)
qed

theorem lookup_prefers_payable_witness:
  "\<exists>t \<in> set (w_txns demo_world). t_virtual_account_no t = ''12345678'' \<and> payable_row t"
proof -
  obtain r where "GetVAByVirtualAccountNo demo_env ''12345678'' demo_world = (Inr r, demo_world)"
    by (simp add: GetVAByVirtualAccountNo_def demo_world_def demo_txn_def scan_inquiry_def)
  from lookup_prefers_payable [OF this] show ?thesis
    by (simp add: demo_world_def demo_txn_def payable_row_def)
qed

section \<open>The instalment ledger\<close>

lemma sum_text_read:
  assumes "numeric_env e" and "paid_sum tid w = int n" and "n < 10 ^ 15"
  shows "e_numeric e (sum_text tid w) = Some (int n)" and "parseAmount (sum_text tid w) = Some (money n)"
proof -
  have zero: "amountPattern ''0''" "amount_cents ''0'' = 0"
    by (simp_all add: amountPattern_def amount_cents_def is_digit_def digit_val_def)
  have "sum_text tid w = (if instalments_of tid w = [] then ''0'' else cents_text n)"
    using assms(2) by (simp add: sum_text_def numeric_text_def)
  moreover have "n = 0" if "instalments_of tid w = []"
    using that assms(2) by (simp add: paid_sum_def)
  ultimately show "e_numeric e (sum_text tid w) = Some (int n)" and "parseAmount (sum_text tid w) = Some (money n)"
    using assms zero numeric_env_read [OF assms(1) zero(1)] numeric_env_text [OF assms(1), of n]
      ParseFloat_cents_text [of n] ParseFloat_amount [OF zero(1)]
    by (auto simp: parseAmount_def numeric_text_def)
qed

lemma instalment_status_iff:
  assumes "parseAmount p = Some (money n)" and "n < 10 ^ 15" and "tot < 10 ^ 15"
  shows "instalment_status p (numeric_text (int tot)) = (if tot \<le> n then ''00'' else ''03'')"
  using assms ParseFloat_cents_text [of tot] money_le [of tot n]
  by (simp add: instalment_status_def parseAmount_def numeric_text_def)

lemma insert_instalment_sum:
  assumes "insert_instalment e tid prid amt ref w = (Inr recorded, w1)"
  shows "recorded \<longleftrightarrow> prid = [] \<or> Some prid \<notin> p_payment_request_id ` set (w_payments w)"
    and "\<exists>n. e_numeric e amt = Some n \<and>
      (\<forall>i. paid_sum i w1 = paid_sum i w + (if recorded \<and> i = tid then n else 0))"
  using assms
  by (auto simp: insert_instalment_def Let_def next_uuid_def paid_sum_def instalments_of_def
      split: option.splits if_splits)

text \<open>
  The amount collected on the transaction, the row's paid amount and the row's status agree: the row
  carries the sum of its instalments and is settled exactly when the sum has reached the bill.
\<close>

definition ledger_agrees :: "string \<Rightarrow> world \<Rightarrow> bool" where
  "ledger_agrees tid w = (\<forall>t \<in> set (w_txns w). t_id t = tid \<longrightarrow>
     (\<exists>tot. t_total_amount t = Some tot \<and> t_paid_amount t = Some (paid_sum tid w) \<and>
        t_status t = (if tot \<le> paid_sum tid w then ''00'' else ''03'')))"

lemma SaveVAPayment_ok:
  assumes "SaveVAPayment e tid prid amt ref w = (Inr (paid, status, recorded), w')"
  obtains w1 t tot n where "insert_instalment e tid prid amt ref w = (Inr recorded, w1)"
    and "find (\<lambda>t. t_id t = tid) (w_txns w) = Some t" and "t_total_amount t = Some tot"
    and "paid = sum_text tid w1" and "status = instalment_status paid (numeric_text tot)"
    and "e_numeric e paid = Some n"
    and "w' = update_txns (\<lambda>t. t_id t = tid)
           (\<lambda>t. t\<lparr>t_paid_amount := Some n, t_status := status, t_updated_at := e_now e\<rparr>) w1"
proof -
  obtain r w1 where i: "insert_instalment e tid prid amt ref w = (r, w1)" by fastforce
  have txns: "w_txns w1 = w_txns w" using insert_instalment_txns [of e tid prid amt ref w] i by simp
  obtain q w2 where t: "save_va_payment_tx e tid prid amt ref w = (q, w2)" by fastforce
  have "q = Inr (paid, status, recorded)" "w2 = w'"
    using assms by (cases q; simp add: SaveVAPayment_def guard_def t split: option.splits)+
  with t i txns that show thesis
    by (auto simp: save_va_payment_tx_def Let_def split: sum.splits option.splits)
qed

lemma SaveVAPayment_ledger:
  assumes env: "numeric_env e"
    and save: "SaveVAPayment e tid prid amt ref w = (Inr (paid, status, recorded), w')"
    and keys: "db_ok w"
    and amt: "amountPattern amt"
    and before: "paid_sum tid w = int s" "s + amount_cents amt < 10 ^ 15"
    and bill: "\<forall>t \<in> set (w_txns w). t_id t = tid \<longrightarrow> (\<exists>tot < 10 ^ 15. t_total_amount t = Some (int tot))"
  shows "(recorded \<longleftrightarrow> prid = [] \<or> Some prid \<notin> p_payment_request_id ` set (w_payments w)) \<and>
    paid_sum tid w' = int s + (if recorded then int (amount_cents amt) else 0) \<and> ledger_agrees tid w'"
proof -
  from save obtain w1 t tot n where i: "insert_instalment e tid prid amt ref w = (Inr recorded, w1)"
    and t: "find (\<lambda>t. t_id t = tid) (w_txns w) = Some t" "t_total_amount t = Some tot"
    and paid: "paid = sum_text tid w1" "status = instalment_status paid (numeric_text tot)" "e_numeric e paid = Some n"
    and w': "w' = update_txns (\<lambda>t. t_id t = tid)
        (\<lambda>t. t\<lparr>t_paid_amount := Some n, t_status := status, t_updated_at := e_now e\<rparr>) w1"
    by (rule SaveVAPayment_ok)
  note rec = insert_instalment_sum [OF i]
  have txns: "w_txns w1 = w_txns w" using insert_instalment_txns [of e tid prid amt ref w] i by simp
  have c: "e_numeric e amt = Some (int (amount_cents amt))"
    by (rule numeric_env_read [OF env amt]) (use before(2) in simp)
  define k where "k = s + (if recorded then amount_cents amt else 0)"
  have sum1: "paid_sum tid w1 = int k" using rec(2) c before(1) by (auto simp: k_def)
  have k: "k < 10 ^ 15" using before(2) by (simp add: k_def)
  have sum': "paid_sum i w' = paid_sum i w1" for i
    by (simp add: w' paid_sum_def instalments_of_def frame)
  have n: "n = int k" using sum_text_read(1) [OF env sum1 k] paid(1,3) by simp
  have "t \<in> set (w_txns w)" "t_id t = tid" using find_Some_mem [OF t(1)] by simp_all
  with bill have "\<exists>b < 10 ^ 15. t_total_amount t = Some (int b)" by blast
  with t(2) obtain b where b: "tot = int b" "b < 10 ^ 15" by auto
  have status: "status = (if b \<le> k then ''00'' else ''03'')"
    using paid(2) instalment_status_iff [OF sum_text_read(2) [OF env sum1 k] k b(2)] b(1) paid(1) by simp
  let ?f = "\<lambda>t. t\<lparr>t_paid_amount := Some n, t_status := status, t_updated_at := e_now e\<rparr>"
  have only: "u = t" if "u \<in> set (w_txns w)" "t_id u = tid" for u
    using that keys t(1) find_unique [of t_id "w_txns w" u tid] by (simp add: db_ok_def)
  have row: "u = ?f t" if "u \<in> set (w_txns w')" "t_id u = tid" for u
  proof -
    from that(1) obtain v where v: "v \<in> set (w_txns w)" "u = (if t_id v = tid then ?f v else v)"
      by (auto simp: w' txns update_txns_def update_where_def)
    with that(2) have "t_id v = tid" by (simp split: if_splits)
    with v only [of v] show ?thesis by simp
  qed
  have "ledger_agrees tid w'"
    unfolding ledger_agrees_def
  proof (intro ballI impI exI [of _ tot])
    fix u assume "u \<in> set (w_txns w')" "t_id u = tid"
    then have "u = ?f t" by (rule row)
    with t(2) n status b(1) sum' sum1
    show "t_total_amount u = Some tot \<and> t_paid_amount u = Some (paid_sum tid w') \<and>
        t_status u = (if tot \<le> paid_sum tid w' then ''00'' else ''03'')" by simp
  qed
  with rec(1) sum' sum1 show ?thesis by (simp add: k_def)
qed

text \<open>C39: Recording an instalment credits its amount exactly once per payment identifier: a new identifier adds the amount
  to the transaction's total, a known one adds nothing, and one without identifier is always new. Afterwards the
  transaction row carries the sum of all its instalments and is settled exactly when that sum has reached the bill.
  The amount is well formed, the sum and the bill lie below ten to the fifteen hundredths, the keys of the tables hold
  and PostgreSQL reads NUMERIC texts as documented.\<close>

theorem instalment_ledger:
  assumes env: "numeric_env e"
    and save: "SaveVAPayment e tid prid amt ref w = (Inr (paid, status, recorded), w')"
    and keys: "db_ok w"
    and amt: "amountPattern amt"
    and before: "paid_sum tid w = int s" "s + amount_cents amt < 10 ^ 15"
    and bill: "\<forall>t \<in> set (w_txns w). t_id t = tid \<longrightarrow> (\<exists>tot < 10 ^ 15. t_total_amount t = Some (int tot))"
  shows "(recorded \<longleftrightarrow> prid = [] \<or> Some prid \<notin> p_payment_request_id ` set (w_payments w)) \<and>
    paid_sum tid w' = int s + (if recorded then int (amount_cents amt) else 0) \<and> ledger_agrees tid w'"
  using assms by (rule SaveVAPayment_ledger)

theorem instalment_ledger_witness:
  "\<exists>w'. ledger_agrees ''t1'' w' \<and> paid_sum ''t1'' w' = 10050 \<and>
    snd (SaveVAPayment demo_env ''t1'' ''p1'' ''100.50'' ''r'' demo_world) = w'"
proof -
  have amt: "amountPattern ''100.50''" "amount_cents ''100.50'' = 10050"
    by (simp_all add: amountPattern_def amount_cents_def is_digit_def digit_val_def)
  obtain q w' where r: "SaveVAPayment demo_env ''t1'' ''p1'' ''100.50'' ''r'' demo_world = (q, w')" by fastforce
  have num: "demo_numeric ''100.50'' = Some 10050" by (simp add: demo_numeric_def amt)
  have read: "demo_numeric (cents_text 10050) = Some 10050" by (simp add: demo_numeric_def cents_text_pattern)
  have "\<exists>p st. q = Inr (p, st, True)"
    using r by (auto simp: SaveVAPayment_def save_va_payment_tx_def insert_instalment_def Let_def num read
        demo_world_def fresh_world_def demo_txn_def next_uuid_def fresh_id_def sum_text_def instalments_of_def
        paid_sum_def numeric_text_def null_if_empty_def)
  then obtain p st where q: "q = Inr (p, st, True)" by blast
  have ok: "db_ok demo_world"
    by (simp add: db_ok_def demo_world_def fresh_world_def payment_ids_def demo_account_def account_check_def code_consts)
  have "ledger_agrees ''t1'' w' \<and> paid_sum ''t1'' w' = 10050"
    using instalment_ledger [of demo_env "''t1''" "''p1''" "''100.50''" "''r''" demo_world p st True w' 0] r q ok amt
      demo_numeric_env
    by (simp add: demo_world_def fresh_world_def demo_txn_def paid_sum_def instalments_of_def)
  with r show ?thesis by simp
qed

section \<open>Issued customer numbers\<close>

definition next_seq :: "string \<Rightarrow> world \<Rightarrow> nat" where
  "next_seq t w = (case map_of (w_seqs w) t of None \<Rightarrow> 0 | Some n \<Rightarrow> n)"

lemma map_of_bump:
  "map_of (map (\<lambda>(k, n). if k = t then (k, n + 1) else (k, n)) xs) u =
    map_option (\<lambda>n. if u = t then n + 1 else n) (map_of xs u :: nat option)"
  by (induction xs) auto

lemma NextCustomerNoSequence_cases:
  assumes "NextCustomerNoSequence e t w = (r, w')"
  shows "(\<exists>err. r = Inl err \<and> w' = w) \<or>
    (r = Inr (t @ pad0 16 (dec (next_seq t w))) \<and> length (dec (next_seq t w)) \<le> 16 \<and> next_seq t w' = next_seq t w + 1)"
  using assms
  by (auto simp: NextCustomerNoSequence_def withLock_def guard_def next_seq_def map_of_bump
      split: option.splits if_splits)

lemma next_seq_other: "t \<noteq> u \<Longrightarrow> next_seq u (snd (NextCustomerNoSequence e t w)) = next_seq u w"
  by (auto simp: NextCustomerNoSequence_def withLock_def guard_def next_seq_def map_of_bump split: option.splits)

text \<open>No call moves a sequence back.\<close>

lemma run_call_seq_mono: "next_seq t w \<le> next_seq t (run_call e c w)"
proof (cases "\<exists>u. c = CNextSequence u")
  case True
  then obtain u where CNextSequence: "c = CNextSequence u" ..
  obtain r w' where n: "NextCustomerNoSequence e u w = (r, w')" by fastforce
  show ?thesis
    using NextCustomerNoSequence_cases [OF n] next_seq_other [of u t e w] CNextSequence n
    by (cases "u = t") auto
qed (use run_call_seqs [of c e w] in \<open>auto simp: next_seq_def\<close>)

lemma run_calls_seq_mono: "next_seq t w \<le> next_seq t (fold (\<lambda>(e, c). run_call e c) cs w)"
  by (induction cs arbitrary: w) (auto intro: order_trans [OF run_call_seq_mono])

text \<open>A generated customer number is its type followed by sixteen digits, eighteen bytes in all, so that
  with an eight-byte company code the virtual account number has at most twenty-six; and two generated
  numbers of a type differ, whatever repository calls happen between the two generations.\<close>

theorem issued_numbers_are_unique:
  assumes "length vaType = 2"
    and "NextCustomerNoSequence e vaType w = (Inr c, w1)"
    and "NextCustomerNoSequence e' vaType (fold (\<lambda>(e, c). run_call e c) between w1) = (Inr c', w2)"
  shows "length c = 18 \<and> HasPrefix c vaType \<and> c \<noteq> c' \<and> (length partner \<le> 8 \<longrightarrow> length (partner @ c) \<le> MaxIssuedVirtualAccountNo)"
proof -
  have one: "c = vaType @ pad0 16 (dec (next_seq vaType w))" "length (dec (next_seq vaType w)) \<le> 16"
      "next_seq vaType w1 = next_seq vaType w + 1"
    using NextCustomerNoSequence_cases [OF assms(2)] by auto
  have two: "c' = vaType @ pad0 16 (dec (next_seq vaType (fold (\<lambda>(e, c). run_call e c) between w1)))"
    using NextCustomerNoSequence_cases [OF assms(3)] by auto
  have "next_seq vaType w < next_seq vaType (fold (\<lambda>(e, c). run_call e c) between w1)"
    using run_calls_seq_mono [of vaType w1 between] one(3) by linarith
  with one two assms(1) show ?thesis by (simp add: length_pad0 pad0_dec_inject code_consts)
qed

lemma demo_next:
  "NextCustomerNoSequence demo_env ''04'' fresh_world = (Inr (''04'' @ pad0 16 (dec 1)),
     fresh_world\<lparr>w_seqs := [(''04'', 2), (''05'', 1), (''06'', 1)]\<rparr>)"
  by (simp add: NextCustomerNoSequence_def withLock_def fresh_world_def dec.simps [of "Suc 0"])

theorem issued_numbers_are_unique_witness:
  "\<exists>c c' w1 w2. NextCustomerNoSequence demo_env ''04'' fresh_world = (Inr c, w1) \<and>
     NextCustomerNoSequence demo_env ''04'' w1 = (Inr c', w2) \<and> length c = 18 \<and> c \<noteq> c'"
proof -
  let ?w1 = "fresh_world\<lparr>w_seqs := [(''04'', 2), (''05'', 1), (''06'', 1)]\<rparr>"
  obtain c' w2 where two: "NextCustomerNoSequence demo_env ''04'' ?w1 = (Inr c', w2)"
    by (simp add: NextCustomerNoSequence_def withLock_def dec.simps [of 2])
  show ?thesis
    using issued_numbers_are_unique [of "''04''" demo_env fresh_world _ ?w1 demo_env "[]", OF _ demo_next, of c' w2 "[]"] demo_next two
    by auto
qed

section \<open>Callback deliveries\<close>

lemma update_where_keep: "d \<in> set ds \<Longrightarrow> \<not> p d \<Longrightarrow> d \<in> set (update_where p f ds)"
  by (simp add: set_update_where)

lemma UpdateDeliveryResult_keeps_success:
  assumes "d \<in> set (w_deliveries w)" and "nd_Status d = NotificationDeliveryStatusSuccess"
  shows "d \<in> set (w_deliveries (snd (UpdateDeliveryResult e i r w)))"
  using assms by (auto simp: UpdateDeliveryResult_def guard_def open_delivery_def intro!: update_where_keep split: option.splits)

lemma Create_keeps: "d \<in> set (w_deliveries w) \<Longrightarrow> d \<in> set (w_deliveries (snd (Create e x w)))"
  by (auto simp: Create_def guard_def Let_def next_uuid_def split: option.splits)

lemma run_call_keeps_success:
  assumes "d \<in> set (w_deliveries w)" and "nd_Status d = NotificationDeliveryStatusSuccess"
  shows "d \<in> set (w_deliveries (run_call e c w))"
proof (cases "(\<exists>x. c = CCreateDelivery x) \<or> (\<exists>i r. c = CUpdateDelivery i r)")
  case True
  with assms show ?thesis by (auto simp: UpdateDeliveryResult_keeps_success Create_keeps)
qed (use assms run_call_deliveries [of c] in auto)

text \<open>A callback delivery recorded as successful stays exactly as recorded through every later sequence
  of repository calls: a late failure of a rerun cannot hide that the merchant was reached.\<close>

theorem success_is_final:
  assumes "d \<in> set (w_deliveries w)" and "nd_Status d = NotificationDeliveryStatusSuccess"
  shows "d \<in> set (w_deliveries (fold (\<lambda>(e, c). run_call e c) cs w))"
  using assms by (induction cs arbitrary: w) (auto intro: run_call_keeps_success)

definition demo_delivery :: NotificationDelivery where
  "demo_delivery = \<lparr>nd_ID = ''d1'', nd_VirtualAccountNo = ''12345678'', nd_EventType = ''payment.received'',
     nd_Trigger = ''auto'', nd_Status = ''success'', nd_AttemptedAt = demo_time, nd_ErrorDetail = [],
     nd_Payload = None, nd_AttemptCount = 1, nd_HTTPStatus = 200, nd_LastAttemptAt = Some demo_time\<rparr>"

theorem success_is_final_witness:
  "demo_delivery \<in> set (w_deliveries (fold (\<lambda>(e, c). run_call e c)
     [(demo_env, CUpdateDelivery ''d1'' \<lparr>nr_Status = ''failed'', nr_AttemptCount = 2, nr_HTTPStatus = 500, nr_ErrorDetail = ''x''\<rparr>)]
     (fresh_world\<lparr>w_deliveries := [demo_delivery]\<rparr>)))"
  by (rule success_is_final) (simp_all add: demo_delivery_def code_consts)

end
