(* ===== verification/Traffic.thy ===== *)
theory Traffic
  imports UsecaseFacts RepoProps
begin

text \<open>
  How the world can change between two requests: by repository calls of any caller, in any environment,
  by queue traffic and by identifiers being handed out. The vendor operations are such changes, so what
  every repository call keeps is kept by all traffic.
\<close>

section \<open>Evolution of the world\<close>

inductive evolves :: "world \<Rightarrow> world \<Rightarrow> bool" where
  same: "evolves w w"
| call: "evolves w v \<Longrightarrow> evolves w (run_call e c v)"
| queue: "evolves w v \<Longrightarrow> evolves w (v\<lparr>w_queue := q\<rparr>)"
| uuids: "evolves w v \<Longrightarrow> evolves w (v\<lparr>w_uuids := n\<rparr>)"

lemma evolves_trans: "evolves u v \<Longrightarrow> evolves v w \<Longrightarrow> evolves u w"
  by (rotate_tac 1, induction rule: evolves.induct) (auto intro: evolves.intros)

lemma evolves_next [simp]: "evolves w (next_uuid w)"
  unfolding next_uuid_def by (intro evolves.intros)

lemma evolves_run: "evolves w (run_call e c w)"
  by (intro evolves.intros)

lemma evolves_ops:
  "evolves w (snd (ClaimInquiryRequestID e i q w))" "evolves w (snd (SavePayment e r w))"
  "evolves w (snd (UpdateVAStatus e va s w))" "evolves w (snd (SaveBillDetails e i bs w))"
  "evolves w (snd (SaveVAPayment e i p a rf w))" "evolves w (snd (SaveNoBillPayment e r w))"
  "evolves w (snd (RecordPaymentFlag e flag w))" "evolves w (snd (UpdateVAAccountStatus e va s w))"
  "evolves w (snd (Create e d w))" "evolves w (snd (UpdateDeliveryResult e i res w))"
  using evolves_run [of w e "CClaim i q"] evolves_run [of w e "CSavePayment r"] evolves_run [of w e "CUpdateVAStatus va s"]
    evolves_run [of w e "CSaveBillDetails i bs"] evolves_run [of w e "CSaveVAPayment i p a rf"]
    evolves_run [of w e "CSaveNoBillPayment r"] evolves_run [of w e "CRecordFlag flag"]
    evolves_run [of w e "CUpdateVAAccountStatus va s"] evolves_run [of w e "CCreateDelivery d"]
    evolves_run [of w e "CUpdateDelivery i res"] by simp_all

text \<open>Continuing after a first step: the shape in which the use cases chain their calls.\<close>

lemma evolves_step: "f w = (r, v) \<Longrightarrow> evolves w (snd (f w)) \<Longrightarrow> evolves v u \<Longrightarrow> evolves w u"
  using evolves_trans by fastforce

lemma evolves_dispatch: "evolves w (snd (dispatchNotification e payload va ev tr w))"
proof -
  let ?p = "sent_payload e payload tr w"
  have row: "evolves w (dispatch_row e ?p va ev tr w)"
    unfolding dispatch_row_def using evolves_trans [OF evolves_next evolves_ops(9)] by simp
  show ?thesis unfolding dispatch_char Let_def
    using row evolves_trans [OF row evolves_ops(10)] by (auto intro: evolves.queue split: option.split)
qed

lemma evolves_audit: "evolves w (enqueueAndAudit e p va ev w)"
  by (simp add: enqueueAndAudit_def evolves_dispatch)

lemma evolves_notify:
  "evolves w (notifyMerchantWithVA e req paid trx url w)" "evolves w (notifyMerchantForAccount e req paid a d w)"
  by (simp_all add: notifyMerchantWithVA_def notifyMerchantForAccount_def evolves_audit evolves.same)

lemma evolves_markExpired: "evolves w (markExpiredAndNotify e r w)"
  using evolves_ops(3) [of w e "ri_VirtualAccountNo r" "''02''"] evolves_trans [OF _ evolves_audit]
  by (auto simp: markExpiredAndNotify_def split: prod.split sum.split)

lemma evolves_markRegistrationExpired: "evolves w (markRegistrationExpiredAndNotify e a w)"
  using evolves_ops(8) [of w e "ac_VirtualAccountNo a" VAAccountStatusExpired] evolves_trans [OF _ evolves_audit]
  by (auto simp: markRegistrationExpiredAndNotify_def split: prod.split sum.split)

section \<open>The vendor operations are traffic\<close>

lemma evolves_Inquiry: "evolves w (snd (Inquiry e req w))"
proof -
  have r: "evolves w (snd (inquiry_record e req r w))" for r
    using evolves_markExpired [of w e r] evolves_ops(1) [of w e "ri_ID r" "iq_InquiryRequestID req"]
    by (auto simp: inquiry_record_def Let_def evolves.same split: prod.split sum.split)
  have n: "evolves w (snd (inquiryNoBill e req a w))" for a
    by (simp add: inquiryNoBill_def evolves.same evolves_markRegistrationExpired)
  show ?thesis
    by (auto simp: Inquiry_def r n evolves.same split: sum.split option.split bool.split)
qed

lemma evolves_paymentNoBill: "evolves w (snd (paymentNoBill e req paid a w))"
  using evolves_ops(6) [of w e "no_bill_record e req paid a"] evolves_trans [OF _ evolves_notify(2)]
  by (auto simp: paymentNoBill_def evolves.same evolves_markRegistrationExpired
      split: prod.split sum.split bool.split option.split)

lemma evolves_payment_variable: "evolves w (snd (payment_variable e req paid r w))"
  using evolves_ops(5) [of w e "ri_ID r" "pq_PaymentRequestID req" "am_Value paid" "pq_ReferenceNo req"]
    evolves_trans [OF _ evolves_notify(1)]
  by (auto simp: payment_variable_def evolves.same split: prod.split sum.split)

lemma evolves_payment_single: "evolves w (snd (payment_single e req paid r w))"
proof -
  obtain q w1 where s: "SavePayment e (settlement_record e req paid r) w = (q, w1)" by fastforce
  have w1: "evolves w w1" using evolves_ops(2) [of w e "settlement_record e req paid r"] s by simp
  obtain b w2 where bd: "SaveBillDetails e (case q of Inr rec \<Rightarrow> rp_ID rec | Inl _ \<Rightarrow> [])
      (paymentBillDetailsToBillDetail (pq_BillDetails req)) w1 = (b, w2)" by fastforce
  have w2: "evolves w w2"
    using evolves_trans [OF w1 evolves_ops(4) [of w1 e]] bd by (metis snd_conv)
  show ?thesis
    using s bd w1 w2 evolves_trans [OF w1 evolves_notify(1)] evolves_trans [OF w2 evolves_notify(1)]
    by (auto simp: payment_single_def evolves.same split: sum.splits)
qed

lemma evolves_payment: "evolves w (snd (payment e req paid w))"
proof -
  have b: "evolves w (snd (payment_billed e req paid acc r w))" for acc r
    by (auto simp: payment_billed_def evolves.same evolves_markExpired evolves_payment_variable evolves_payment_single
        split: sum.split option.split)
  show ?thesis
    by (auto simp: payment_def b evolves.same evolves_paymentNoBill split: sum.split option.split bool.split)
qed

lemma evolves_recordPaymentFlag: "evolves w (recordPaymentFlag e req out w)"
  by (auto simp: recordPaymentFlag_def evolves.same evolves_ops split: option.split)

lemma evolves_Payment: "evolves w (snd (Payment e req paid w))"
  using evolves_trans [OF evolves_payment evolves_recordPaymentFlag]
  by (auto simp: Payment_def Let_def evolves.same split: option.split prod.split)
     (metis evolves_payment evolves_recordPaymentFlag evolves_trans snd_conv)

section \<open>What all traffic keeps\<close>

lemma evolves_db_ok: "evolves w v \<Longrightarrow> db_ok w \<Longrightarrow> db_ok v"
  by (induction rule: evolves.induct) (auto simp: run_call_db_ok)

lemma flags_frame:
  "w_flags (snd (SaveVAAccount e a w)) = w_flags w" "w_flags (snd (UpdateVAAccountStatus e va s w)) = w_flags w"
  "w_flags (snd (NextCustomerNoSequence e t w)) = w_flags w" "w_flags (snd (Create e d w)) = w_flags w"
  "w_flags (snd (UpdateDeliveryResult e i r w)) = w_flags w" "w_flags (snd (CreateStatusInquiryAttempt e av w)) = w_flags w"
  by (simp_all add: SaveVAAccount_def UpdateVAAccountStatus_def NextCustomerNoSequence_def withLock_def Create_def
      UpdateDeliveryResult_def CreateStatusInquiryAttempt_def snd_guard Let_def next_uuid_def split: option.split)

lemma run_call_flags: "(\<And>f. c \<noteq> CRecordFlag f) \<Longrightarrow> w_flags (run_call e c w) = w_flags w"
  by (cases c) (use frame in \<open>auto simp: txns_only_def flags_frame\<close>)

lemma flag_answer_cong: "w_flags v = w_flags w \<Longrightarrow> flag_answer k v = flag_answer k w"
  by (simp add: flag_answer_def)

text \<open>A recorded outcome survives every call.\<close>

lemma evolves_flag: "evolves w v \<Longrightarrow> flag_answer k w = Some a \<Longrightarrow> flag_answer k v = Some a"
proof (induction rule: evolves.induct)
  case (call w v e c)
  show ?case
  proof (cases "\<exists>f. c = CRecordFlag f")
    case True
    then obtain f where "c = CRecordFlag f" ..
    with call flags.keep [of k v a "(e, f)"] show ?thesis by (simp add: put_flag_def)
  next
    case False
    with call flag_answer_cong [OF run_call_flags] show ?thesis by simp
  qed
qed (simp_all add: flag_answer_def)

lemma evolves_success:
  "evolves w v \<Longrightarrow> d \<in> set (w_deliveries w) \<Longrightarrow> nd_Status d = NotificationDeliveryStatusSuccess \<Longrightarrow> d \<in> set (w_deliveries v)"
  by (induction rule: evolves.induct) (auto intro: run_call_keeps_success)

end
