(* ===== verification/UsecaseProps.thy ===== *)
theory UsecaseProps
  imports Traffic
begin

text \<open>
  The properties of the vendor operations: double flags, unknown numbers, exact settlement, instalments,
  closed bills, expiry callbacks, payments without a bill and inquiries.
\<close>

section \<open>Concrete requests\<close>

definition demo_request :: VAPaymentRequest where
  "demo_request = \<lparr>pq_PartnerServiceID = ''12345'', pq_CustomerNo = ''678'', pq_VirtualAccountNo = ''12345678'',
     pq_InquiryRequestID = [], pq_TrxID = [], pq_PaymentRequestID = ''p1'', pq_VirtualAccountName = ''Budi'',
     pq_VirtualAccountEmail = [], pq_VirtualAccountPhone = [], pq_ChannelCode = 6011, pq_HashedSourceAccountNo = [],
     pq_SourceBankCode = [], pq_PaidAmount = Some \<lparr>am_Value = ''250.00'', am_Currency = ''IDR''\<rparr>,
     pq_CumulativePaymentAmount = None, pq_PaidBills = [], pq_TotalAmount = None, pq_TrxDateTime = None,
     pq_ReferenceNo = ''r1'', pq_JournalNum = [], pq_PaymentType = [], pq_FlagAdvise = ''N'', pq_SubCompany = [],
     pq_BillDetails = [], pq_FreeTexts = [], pq_AdditionalInfo = [], pq_ExternalID = ''x1''\<rparr>"

definition demo_paid :: Amount where
  "demo_paid = \<lparr>am_Value = ''250.00'', am_Currency = ''IDR''\<rparr>"

lemma demo_paid_amount: "amountPattern (am_Value demo_paid)" "amount_cents (am_Value demo_paid) = 25000"
  by (simp_all add: demo_paid_def amountPattern_def amount_cents_def is_digit_def digit_val_def)

lemma demo_request_sel [simp]:
  "pq_VirtualAccountNo demo_request = ''12345678''" "pq_PaymentRequestID demo_request = ''p1''"
  "pq_ExternalID demo_request = ''x1''" "pq_BillDetails demo_request = []" "pq_TotalAmount demo_request = None"
  by (simp_all add: demo_request_def)

lemma demo_world_ok: "db_ok demo_world"
  by (simp add: db_ok_def demo_world_def fresh_world_def payment_ids_def demo_account_def account_check_def code_consts)

section \<open>Double flags\<close>

lemma txns_only_flags: "txns_only w v \<Longrightarrow> w_flags v = w_flags w" "notify_only w v \<Longrightarrow> w_flags v = w_flags w"
  by (simp_all add: txns_only_def notify_only_def)

lemma notify_flags [frame]:
  "w_flags (enqueueAndAudit e p va ev w) = w_flags w" "w_flags (notifyMerchantWithVA e req paid trx url w) = w_flags w"
  "w_flags (notifyMerchantForAccount e req paid a d w) = w_flags w"
  by (intro txns_only_flags(2) notify_only_audit notify_only_merchant)+

lemma save_flags [frame]:
  "w_flags (snd (SavePayment e r w)) = w_flags w" "w_flags (snd (SaveNoBillPayment e r w)) = w_flags w"
  "w_flags (snd (UpdateVAStatus e va s w)) = w_flags w" "w_flags (snd (ClaimInquiryRequestID e i q w)) = w_flags w"
  by (intro txns_only_flags(1) txns_only_SavePayment txns_only_SaveNoBillPayment txns_only_updates)+

text \<open>A result and its state, read off a call whose frame is known.\<close>

lemma snd_of: "f = (r, v) \<Longrightarrow> g (snd f) = x \<Longrightarrow> g v = x"
  by simp

lemma mark_flags [frame]:
  "w_flags (markExpiredAndNotify e r w) = w_flags w" "w_flags (markRegistrationExpiredAndNotify e a w) = w_flags w"
  by (auto simp: markExpiredAndNotify_def markRegistrationExpiredAndNotify_def frame
      split: prod.split sum.split dest: snd_of [where g = w_flags, OF _ save_flags(3)] snd_of [where g = w_flags, OF _ flags_frame(2)])

lemma payment_flags [frame]: "w_flags (snd (payment e req paid w)) = w_flags w"
proof -
  note s = snd_of [where g = w_flags]
  have n: "w_flags (snd (paymentNoBill e req paid a w)) = w_flags w" for a
    by (auto simp: paymentNoBill_def frame split: prod.split sum.split bool.split option.split
        dest: s [OF _ save_flags(2)])
  have v: "w_flags (snd (payment_variable e req paid r w)) = w_flags w" for r
    by (auto simp: payment_variable_def frame split: prod.split sum.split dest: s [OF _ SaveVAPayment_frame(2)])
  have i: "w_flags (snd (payment_single e req paid r w)) = w_flags w" for r
    by (auto simp: payment_single_def frame split: prod.splits sum.splits if_splits
        dest!: s [OF _ save_flags(1)] s [OF _ SaveBillDetails_frame(3)])
  have b: "w_flags (snd (payment_billed e req paid acc r w)) = w_flags w" for acc r
    by (auto simp: payment_billed_def frame v i split: sum.split option.split)
  show ?thesis by (auto simp: payment_def n b split: sum.split option.split bool.split)
qed

lemma NormalizeBillDetails_keeps [simp]:
  "pq_ExternalID (NormalizeBillDetails r) = pq_ExternalID r"
  "pq_PaymentRequestID (NormalizeBillDetails r) = pq_PaymentRequestID r"
  "pq_FlagAdvise (NormalizeBillDetails r) = pq_FlagAdvise r"
  "pq_VirtualAccountNo (NormalizeBillDetails r) = pq_VirtualAccountNo r"
  "pq_TotalAmount (NormalizeBillDetails r) = pq_TotalAmount r"
  "pq_ReferenceNo (NormalizeBillDetails r) = pq_ReferenceNo r"
  by (simp_all add: NormalizeBillDetails_def Let_def)

lemma is_advice_Normalize [simp]: "is_advice (NormalizeBillDetails r) = is_advice r"
  by (simp add: is_advice_def)

definition outcome_answer :: "DomainError + VAPaymentResponse \<Rightarrow> string \<times> string \<times> VAPaymentStatus" where
  "outcome_answer outcome = (case outcome of
      Inr r \<Rightarrow> (pr_ResponseCode r, pr_ResponseMessage r, case pr_VirtualAccountData r of None \<Rightarrow> zeroPaymentStatus | Some d \<Rightarrow> d)
    | Inl err \<Rightarrow> (de_SNAPCode err, de_Message err, case de_PaymentData err of None \<Rightarrow> zeroPaymentStatus | Some d \<Rightarrow> d))"

definition decided :: "DomainError + VAPaymentResponse \<Rightarrow> bool" where
  "decided outcome = (case outcome of Inr _ \<Rightarrow> True | Inl err \<Rightarrow> \<not> HasPrefix (de_SNAPCode err) ''5'')"

lemma flag_of_outcome_decided:
  assumes "decided outcome"
  obtains f where "flag_of_outcome req outcome = Some f" "pf_ExternalID f = pq_ExternalID req"
    "pf_PaymentRequestID f = pq_PaymentRequestID req" "pf_ID f = []" "flag_call_val (e, f) = outcome_answer outcome"
  using assms
  by (cases outcome) (auto simp: decided_def flag_of_outcome_def Let_def flag_call_val_def outcome_answer_def)

text \<open>The first request of a pair leaves its outcome on file.\<close>

lemma first_outcome_recorded:
  assumes "Payment e req paid w = (outcome, w1)" and "decided outcome"
    and "pq_ExternalID req \<noteq> []" and "pq_PaymentRequestID req \<noteq> []"
    and "flag_answer (pq_ExternalID req, pq_PaymentRequestID req) w = None"
    and "e_fault e (OpRecordFlag (pq_ExternalID req) (pq_PaymentRequestID req)) = None"
    and "\<And>n. e_uuid e n \<notin> f_id ` set (w_flags w)"
  shows "flag_answer (pq_ExternalID req, pq_PaymentRequestID req) w1 = Some (outcome_answer outcome)"
proof -
  let ?req = "NormalizeBillDetails req" and ?k = "flag_key (pq_ExternalID req) (pq_PaymentRequestID req)"
  have none: "find ?k (w_flags w) = None" using assms(5) by (simp add: flag_answer_def)
  then have "findPaymentFlag e ?req w = None"
    by (cases "e_fault e (OpFindFlag (pq_ExternalID req) (pq_PaymentRequestID req))")
       (simp_all add: findPaymentFlag_def FindPaymentFlag_def)
  then obtain v where v: "payment e ?req paid w = (outcome, v)" "w1 = recordPaymentFlag e ?req outcome v"
    using assms(1) by (auto simp: Payment_def Let_def split: prod.splits)
  have flags: "w_flags v = w_flags w" using payment_flags [of e ?req paid w] v(1) by simp
  obtain f where f: "flag_of_outcome ?req outcome = Some f" "pf_ExternalID f = pq_ExternalID req"
      "pf_PaymentRequestID f = pq_PaymentRequestID req" "pf_ID f = []" "flag_call_val (e, f) = outcome_answer outcome"
    by (rule flag_of_outcome_decided [OF assms(2), of ?req e]) simp
  have "w1 = snd (RecordPaymentFlag e f v)" using v(2) f(1) assms(3,4) by (simp add: recordPaymentFlag_def)
  then have "flag_answer (pq_ExternalID req, pq_PaymentRequestID req) w1 = Some (flag_call_val (e, f))"
    using assms(3,4,6,7) f(2,3,4) none
    by (simp add: RecordPaymentFlag_def Let_def next_uuid_def flags fresh_id_def flag_answer_def find_append
        flag_key_def flag_row_of_def flag_call_val_def)
  with f(5) show ?thesis by simp
qed

text \<open>The second request of a pair is answered from the file.\<close>

lemma second_answered_from_file:
  assumes "flag_answer (pq_ExternalID req, pq_PaymentRequestID req) w = Some (code, message, data)"
    and "pq_ExternalID req \<noteq> []" and "pq_PaymentRequestID req \<noteq> []"
    and "e_fault e (OpFindFlag (pq_ExternalID req) (pq_PaymentRequestID req)) = None"
  shows "Payment e req paid w =
    (if is_advice req
     then (if code = CodePaymentSuccess
           then Inr \<lparr>pr_ResponseCode = code, pr_ResponseMessage = message, pr_VirtualAccountData = Some data, pr_AdditionalInfo = []\<rparr>
           else Inl (NewPaymentError code message (Some ErrVAPaymentDuplicate) (Some data)))
     else Inl (NewPaymentError CodePaymentInconsistent snapMsgInconsistentRequest (Some ErrVAPaymentDuplicate) (Some data)), w)"
proof -
  let ?req = "NormalizeBillDetails req"
  obtain f where f: "find (flag_key (pq_ExternalID req) (pq_PaymentRequestID req)) (w_flags w) = Some f"
    "f_response_code f = code" "f_response_message f = message" "f_virtual_account_data f = data"
    using assms(1) by (auto simp: flag_answer_def)
  have "findPaymentFlag e ?req w = Some (flag_of_row f)"
    using assms(2-4) f(1) by (simp add: findPaymentFlag_def FindPaymentFlag_def)
  with f(2-4) show ?thesis by (simp add: Payment_def Let_def replayPaymentFlag_def flag_of_row_def)
qed

text \<open>C1: A payment request that repeats the external and payment identifiers of an earlier, decided request
  changes nothing, whatever traffic came in between and whatever else the request says. A plain repeat is
  refused with 4042518 carrying the data block of the first answer; a repeat with \<open>flagAdvise Y\<close> gets the
  first code, message and data block back. A first answer without a data block is repeated with a blank one.\<close>

theorem double_flag_repeats_first_answer:
  assumes first: "Payment e req paid w = (outcome, w1)" "decided outcome"
    and pair: "pq_ExternalID req \<noteq> []" "pq_PaymentRequestID req \<noteq> []"
      "flag_answer (pq_ExternalID req, pq_PaymentRequestID req) w = None"
    and env: "e_fault e (OpRecordFlag (pq_ExternalID req) (pq_PaymentRequestID req)) = None"
      "\<And>n. e_uuid e n \<notin> f_id ` set (w_flags w)"
      "e_fault e' (OpFindFlag (pq_ExternalID req) (pq_PaymentRequestID req)) = None"
    and between: "evolves w1 w2"
    and again: "pq_ExternalID req' = pq_ExternalID req" "pq_PaymentRequestID req' = pq_PaymentRequestID req"
  shows "Payment e' req' paid' w2 = (case outcome_answer outcome of (code, message, data) \<Rightarrow>
    (if is_advice req'
     then (if code = CodePaymentSuccess
           then Inr \<lparr>pr_ResponseCode = code, pr_ResponseMessage = message, pr_VirtualAccountData = Some data, pr_AdditionalInfo = []\<rparr>
           else Inl (NewPaymentError code message (Some ErrVAPaymentDuplicate) (Some data)))
     else Inl (NewPaymentError CodePaymentInconsistent snapMsgInconsistentRequest (Some ErrVAPaymentDuplicate) (Some data)), w2))"
proof -
  obtain code message data where a: "outcome_answer outcome = (code, message, data)" by (cases "outcome_answer outcome")
  have "flag_answer (pq_ExternalID req, pq_PaymentRequestID req) w1 = Some (code, message, data)"
    using first_outcome_recorded [OF first pair env(1,2)] a by simp
  with between have "flag_answer (pq_ExternalID req, pq_PaymentRequestID req) w2 = Some (code, message, data)"
    by (rule evolves_flag)
  with second_answered_from_file [of req' w2 code message data e' paid'] again pair env(3) a show ?thesis by simp
qed

section \<open>Reaching a transaction\<close>

text \<open>The row a virtual account number stands for, and the record the lookup makes of it.\<close>

definition current_txn :: "string \<Rightarrow> world \<Rightarrow> txn option" where
  "current_txn va w = top_by va_better (filter (\<lambda>t. t_virtual_account_no t = va) (w_txns w))"

definition record_of :: "env \<Rightarrow> world \<Rightarrow> txn \<Rightarrow> VAInquiryRecord" where
  "record_of e w t = projr (scan_inquiry e (numeric_text0 (t_paid_amount t))
     (or_empty (orelse (t_payment_request_id t) (newest_instalment (t_id t) w))) t)"

lemma record_of_sel [simp]:
  assumes "t_total_amount t = Some n"
  shows "ri_ID (record_of e w t) = t_id t" "ri_Status (record_of e w t) = t_status t"
    "ri_VirtualAccountNo (record_of e w t) = t_virtual_account_no t" "ri_TotalAmount (record_of e w t) = e_scan e n"
    "ri_PaidAmount (record_of e w t) = numeric_text0 (t_paid_amount t)" "ri_VAType (record_of e w t) = or_empty (t_va_type t)"
    "ri_InquiryRequestID (record_of e w t) = t_inquiry_request_id t" "ri_TrxID (record_of e w t) = t_trx_id t"
    "ri_ExpiredDate (record_of e w t) = t_expired_date t" "ri_NotificationURL (record_of e w t) = t_notification_url t"
    "ri_CustomerName (record_of e w t) = t_customer_name t" "ri_Currency (record_of e w t) = t_currency t"
    "ri_PartnerServiceID (record_of e w t) = t_partner_service_id t" "ri_CustomerNo (record_of e w t) = t_customer_no t"
  using assms by (simp_all add: record_of_def scan_inquiry_def)

lemma GetVA_current:
  assumes "e_fault e (OpGetVA va) = None" and "current_txn va w = Some t" and "t_total_amount t = Some n"
  shows "GetVAByVirtualAccountNo e va w = (Inr (record_of e w t), w)"
  using assms by (simp add: GetVAByVirtualAccountNo_def current_txn_def record_of_def scan_inquiry_def)

lemma GetVA_none:
  assumes "e_fault e (OpGetVA va) = None" and "current_txn va w = None"
  shows "GetVAByVirtualAccountNo e va w = (Inl ErrMerchantVANotFound, w)"
  using assms by (auto simp: GetVAByVirtualAccountNo_def current_txn_def)

lemma current_txn_mem: "current_txn va w = Some t \<Longrightarrow> t \<in> set (w_txns w) \<and> t_virtual_account_no t = va"
  using top_by_mem unfolding current_txn_def by fastforce

text \<open>A first request: neither identifier has been used, and the number is not a no-bill registration.\<close>

definition first_request :: "env \<Rightarrow> VAPaymentRequest \<Rightarrow> world \<Rightarrow> bool" where
  "first_request e req w = (no_faults e \<and>
     flag_answer (pq_ExternalID req, pq_PaymentRequestID req) w = None \<and>
     find (has_payment_id (pq_PaymentRequestID req)) (w_txns w) = None \<and>
     find (\<lambda>p. p_payment_request_id p = Some (pq_PaymentRequestID req)) (w_payments w) = None)"

definition account_of :: "string \<Rightarrow> world \<Rightarrow> VAAccount option" where
  "account_of va w = find (account_va va) (w_accounts w)"

lemma first_request_flag: "first_request e req w \<Longrightarrow> findPaymentFlag e (NormalizeBillDetails req) w = None"
  by (simp add: first_request_def findPaymentFlag_def FindPaymentFlag_def no_faults_def flag_answer_def)

lemma first_request_Payment:
  assumes "first_request e req w"
  shows "Payment e req paid w = (case payment e (NormalizeBillDetails req) paid w of
    (outcome, v) \<Rightarrow> (outcome, recordPaymentFlag e (NormalizeBillDetails req) outcome v))"
  using first_request_flag [OF assms] by (simp add: Payment_def Let_def)

lemma record_frame [frame]:
  "w_txns (recordPaymentFlag e req out w) = w_txns w" "w_payments (recordPaymentFlag e req out w) = w_payments w"
  "w_bills (recordPaymentFlag e req out w) = w_bills w" "w_accounts (recordPaymentFlag e req out w) = w_accounts w"
  "w_queue (recordPaymentFlag e req out w) = w_queue w" "w_deliveries (recordPaymentFlag e req out w) = w_deliveries w"
  by (simp_all add: recordPaymentFlag_def RecordPaymentFlag_def snd_guard Let_def next_uuid_def split: option.split)

lemma payment_start:
  assumes "first_request e req w"
  shows "payment e (NormalizeBillDetails req) paid w =
    (case account_of (pq_VirtualAccountNo req) w of
       Some a \<Rightarrow> if IsNoBill (Some a) then paymentNoBill e (NormalizeBillDetails req) paid a w
                else (case optional isNotFound (fst (GetVAByVirtualAccountNo e (pq_VirtualAccountNo req) w)) of
                    Inl err \<Rightarrow> (Inl (internal_error ServiceCodePayment err), w)
                  | Inr None \<Rightarrow> (Inl (vaNotFoundPaymentError (NormalizeBillDetails req)), w)
                  | Inr (Some r) \<Rightarrow> payment_billed e (NormalizeBillDetails req) paid (Some a) r w)
     | None \<Rightarrow> (case optional isNotFound (fst (GetVAByVirtualAccountNo e (pq_VirtualAccountNo req) w)) of
                    Inl err \<Rightarrow> (Inl (internal_error ServiceCodePayment err), w)
                  | Inr None \<Rightarrow> (Inl (vaNotFoundPaymentError (NormalizeBillDetails req)), w)
                  | Inr (Some r) \<Rightarrow> payment_billed e (NormalizeBillDetails req) paid None r w))"
  using assms
  by (auto simp: payment_def first_request_def no_faults_def GetPaymentByPaymentRequestID_def GetVAAccount_def optional_def
      isNotFound_def account_of_def IsNoBill_def split: option.splits)

lemma payment_reaches:
  assumes "first_request e req w" and "\<not> IsNoBill (account_of (pq_VirtualAccountNo req) w)"
    and "current_txn (pq_VirtualAccountNo req) w = Some t" and "t_total_amount t = Some n"
  shows "payment e (NormalizeBillDetails req) paid w =
    payment_billed e (NormalizeBillDetails req) paid (account_of (pq_VirtualAccountNo req) w) (record_of e w t) w"
  unfolding payment_start [OF assms(1)]
  using GetVA_current [OF _ assms(3,4), of e] assms(1,2)
  by (auto simp: first_request_def no_faults_def optional_def split: option.splits)

lemma no_replay: "first_request e req w \<Longrightarrow> replayVariableInstalment e (NormalizeBillDetails req) paid r w = Inr None"
  by (auto simp: first_request_def replayVariableInstalment_def FindVAInstalment_def no_faults_def)

section \<open>Unknown numbers\<close>

text \<open>A payment for a number that has no transaction and no no-bill registration is refused with 4042512
  and flag status 01, echoing the request's identity and no amount, and creates no transaction, no
  instalment and no callback.\<close>

theorem unknown_number_is_refused:
  assumes "first_request e req w" and "\<not> IsNoBill (account_of (pq_VirtualAccountNo req) w)"
    and "\<forall>t \<in> set (w_txns w). t_virtual_account_no t \<noteq> pq_VirtualAccountNo req"
    and "Payment e req paid w = (outcome, w')"
  shows "(\<exists>err d. outcome = Inl err \<and> de_SNAPCode err = ''4042512'' \<and> de_PaymentData err = Some d \<and>
      ps_VirtualAccountNo d = pq_VirtualAccountNo req \<and> ps_PaymentRequestID d = pq_PaymentRequestID req \<and>
      ps_PaymentFlagStatus d = ''01'' \<and> ps_PaidAmount d = Some \<lparr>am_Value = [], am_Currency = []\<rparr>) \<and>
    w_txns w' = w_txns w \<and> w_payments w' = w_payments w \<and> w_accounts w' = w_accounts w \<and> w_queue w' = w_queue w"
proof -
  have "filter (\<lambda>t. t_virtual_account_no t = pq_VirtualAccountNo req) (w_txns w) = []"
    using assms(3) by (simp add: filter_empty_conv)
  then have "current_txn (pq_VirtualAccountNo req) w = None" by (simp add: current_txn_def)
  then have "payment e (NormalizeBillDetails req) paid w = (Inl (vaNotFoundPaymentError (NormalizeBillDetails req)), w)"
    unfolding payment_start [OF assms(1)]
    using GetVA_none [of e "pq_VirtualAccountNo req" w] assms(1,2)
    by (auto simp: first_request_def no_faults_def optional_def isNotFound_def split: option.splits)
  then show ?thesis
    using assms(4) first_request_Payment [OF assms(1), of paid]
    by (auto simp: frame vaNotFoundPaymentError_def NewPaymentError_def zeroAmt_def code_consts FlagStatusForCode_def)
qed

section \<open>Single settlement\<close>

lemma update_where_cong: "(\<And>x. x \<in> set xs \<Longrightarrow> p x = q x) \<Longrightarrow> update_where p f xs = update_where q f xs"
  by (simp add: update_where_def)

lemma SavePayment_existing:
  assumes "no_faults e" and "db_ok w" and "t \<in> set (w_txns w)" and "rp_ID pay = []"
    and "rp_InquiryRequestID pay = t_inquiry_request_id t" and "rp_TotalAmount pay \<noteq> []"
    and "e_numeric e (rp_TotalAmount pay) = Some q" and "e_numeric e (rp_PaidAmount pay) = Some p"
  shows "SavePayment e pay w = (Inr (payment_defaults e pay w), update_txns (\<lambda>u. t_id u = t_id t)
    (payment_upsert (payment_row (payment_defaults e pay w) q p None)) (next_uuid w))"
proof -
  let ?x = "payment_row (payment_defaults e pay w) q p None" and ?k = "has_inquiry_id (t_inquiry_request_id t)"
  have d: "distinct (map t_id (w_txns w))" "distinct (map t_inquiry_request_id (w_txns w))"
    using assms(2) by (simp_all add: db_ok_def)
  have same: "?k u \<longleftrightarrow> t_id u = t_id t" if "u \<in> set (w_txns w)" for u
    using d that assms(3) by (metis eq_key_imp_eq_value has_inquiry_id_def distinct_map inj_on_def)
  have key: "t_inquiry_request_id ?x = t_inquiry_request_id t"
    by (simp add: payment_row_def payment_defaults_def assms(5))
  obtain u where u: "find ?k (w_txns w) = Some u"
    using assms(3) by (cases "find ?k (w_txns w)") (auto simp: find_None_iff has_inquiry_id_def)
  have "upsert_txn payment_upsert ?x (next_uuid w) = (Inr (t_id u), update_txns (\<lambda>u. t_id u = t_id t) (payment_upsert ?x) (next_uuid w))"
    using u update_where_cong [of "w_txns w" ?k "\<lambda>u. t_id u = t_id t", OF same]
    by (simp add: upsert_txn_def key next_uuid_def update_txns_def)
  then show ?thesis
    using assms(1,4,6-8) by (simp add: SavePayment_def Let_def no_faults_def payment_defaults_def)
qed

text \<open>The request's amounts against a bill: the amount paid, and the total it states when it states one.\<close>

definition tenders :: "VAPaymentRequest \<Rightarrow> Amount \<Rightarrow> nat \<Rightarrow> bool" where
  "tenders req paid tot = (amount_cents (am_Value paid) = tot \<and>
     (case pq_TotalAmount req of None \<Rightarrow> True | Some a \<Rightarrow> amount_cents (am_Value a) = tot))"

definition amounts_ok :: "VAPaymentRequest \<Rightarrow> Amount \<Rightarrow> bool" where
  "amounts_ok req paid = (amountPattern (am_Value paid) \<and> amount_cents (am_Value paid) < 10 ^ 15 \<and>
     (case pq_TotalAmount req of None \<Rightarrow> True
      | Some a \<Rightarrow> amountPattern (am_Value a) \<and> amount_cents (am_Value a) < 10 ^ 15))"

lemma wrong_amount_iff:
  assumes "numeric_env e" and "amounts_ok req paid" and "ri_TotalAmount r = e_scan e (int tot)" and "tot < 10 ^ 15"
  shows "wrong_amount req paid r \<longleftrightarrow> \<not> tenders req paid tot"
proof -
  have p: "amountPattern (am_Value paid)" "amount_cents (am_Value paid) < 10 ^ 15"
    using assms(2) by (simp_all add: amounts_ok_def)
  have t: "amountPattern (am_Value a)" "amount_cents (am_Value a) < 10 ^ 15" if "pq_TotalAmount req = Some a" for a
    using assms(2) that by (simp_all add: amounts_ok_def)
  show ?thesis
    using amountsEqual_cents [OF p assms(1,4)] amountsEqual_texts [OF p t] assms(3) numeric_env_scan(1) [OF assms(1,4)]
    by (auto simp: wrong_amount_def tenders_def split: option.split)
qed

lemma amountPattern_nonempty: "amountPattern s \<Longrightarrow> s \<noteq> []"
  by (auto simp: amountPattern_def)

lemma amounts_numeric:
  assumes "numeric_env e" and "amounts_ok req paid"
  shows "e_numeric e (am_Value paid) = Some (int (amount_cents (am_Value paid)))"
    and "\<exists>q. e_numeric e (paymentTotalAmountValue req paid) = Some q"
    and "paymentTotalAmountValue req paid \<noteq> []"
  using assms amountPattern_nonempty numeric_env_read [OF assms(1), of "am_Value paid"]
    numeric_env_read [OF assms(1), of "paymentTotalAmountValue req paid"]
  by (auto simp: amounts_ok_def paymentTotalAmountValue_def split: option.splits)

text \<open>The settled row of a paid bill.\<close>

definition settled_by :: "env \<Rightarrow> VAPaymentRequest \<Rightarrow> nat \<Rightarrow> txn \<Rightarrow> txn \<Rightarrow> bool" where
  "settled_by e req tot t t' = (t_id t' = t_id t \<and> t_virtual_account_no t' = t_virtual_account_no t \<and>
     t_status t' = ''00'' \<and> t_paid_amount t' = Some (int tot) \<and> t_total_amount t' = t_total_amount t \<and>
     t_payment_request_id t' = Some (pq_PaymentRequestID req) \<and> t_reference_no t' = Some (pq_ReferenceNo req) \<and>
     t_inquiry_request_id t' = t_inquiry_request_id t)"

lemma payment_upsert_sel:
  "t_id (payment_upsert x t) = t_id t" "t_virtual_account_no (payment_upsert x t) = t_virtual_account_no t"
  "t_status (payment_upsert x t) = t_status x" "t_paid_amount (payment_upsert x t) = t_paid_amount x"
  "t_total_amount (payment_upsert x t) = t_total_amount t" "t_payment_request_id (payment_upsert x t) = t_payment_request_id x"
  "t_reference_no (payment_upsert x t) = t_reference_no x" "t_inquiry_request_id (payment_upsert x t) = t_inquiry_request_id t"
  by (simp_all add: payment_upsert_def)

lemma payment_row_sel:
  "t_status (payment_row r tot paid ty) = rp_Status r" "t_paid_amount (payment_row r tot paid ty) = Some paid"
  "t_payment_request_id (payment_row r tot paid ty) = Some (rp_PaymentRequestID r)"
  "t_reference_no (payment_row r tot paid ty) = Some (rp_ReferenceNo r)"
  "t_id (payment_row r tot paid ty) = rp_ID r" "t_inquiry_request_id (payment_row r tot paid ty) = rp_InquiryRequestID r"
  by (simp_all add: payment_row_def)

lemma settlement_record_sel:
  "rp_ID (settlement_record e req paid r) = []" "rp_InquiryRequestID (settlement_record e req paid r) = settlement_key req r"
  "rp_TotalAmount (settlement_record e req paid r) = paymentTotalAmountValue req paid"
  "rp_PaidAmount (settlement_record e req paid r) = am_Value paid" "rp_Status (settlement_record e req paid r) = ''00''"
  "rp_PaymentRequestID (settlement_record e req paid r) = pq_PaymentRequestID req"
  "rp_ReferenceNo (settlement_record e req paid r) = pq_ReferenceNo req"
  by (simp_all add: settlement_record_def request_record_def)

lemma payment_defaults_sel:
  "rp_Status (payment_defaults e p w) = rp_Status p" "rp_PaymentRequestID (payment_defaults e p w) = rp_PaymentRequestID p"
  "rp_ReferenceNo (payment_defaults e p w) = rp_ReferenceNo p"
  "rp_InquiryRequestID (payment_defaults e p w) = rp_InquiryRequestID p"
  "rp_ID p = [] \<Longrightarrow> rp_ID (payment_defaults e p w) = fresh_id e w"
  by (simp_all add: payment_defaults_def)

lemmas row_sel = payment_upsert_sel payment_row_sel settlement_record_sel payment_defaults_sel

text \<open>Settling by a record that carries the key of a row, whether or not the record is what the row is now.\<close>

lemma settlement_saves:
  assumes "numeric_env e" and "no_faults e" and "db_ok w" and "u \<in> set (w_txns w)" and "ri_InquiryRequestID r = t_inquiry_request_id u"
    and "t_inquiry_request_id u \<noteq> []" and "amounts_ok req paid" and "tenders req paid tot"
  obtains f where "SavePayment e (settlement_record e req paid r) w =
      (Inr (payment_defaults e (settlement_record e req paid r) w), update_txns (\<lambda>x. t_id x = t_id u) f (next_uuid w))"
    and "settled_by e req tot u (f u)"
proof -
  let ?r = "settlement_record e req paid r"
  obtain q where q: "e_numeric e (paymentTotalAmountValue req paid) = Some q" using amounts_numeric(2) [OF assms(1,7)] by blast
  have key: "settlement_key req r = t_inquiry_request_id u" using assms(5,6) by (simp add: settlement_key_def)
  let ?f = "payment_upsert (payment_row (payment_defaults e ?r w) q (int (amount_cents (am_Value paid))) None)"
  have "SavePayment e ?r w = (Inr (payment_defaults e ?r w), update_txns (\<lambda>x. t_id x = t_id u) ?f (next_uuid w))"
    by (rule SavePayment_existing [OF assms(2,3,4)]) (use key q amounts_numeric [OF assms(1,7)] in \<open>simp_all add: row_sel\<close>)
  moreover have "settled_by e req tot u (?f u)" using assms(8) by (simp add: settled_by_def row_sel tenders_def)
  ultimately show thesis by (rule that)
qed

lemma payment_single_saves:
  assumes "numeric_env e" and "no_faults e" and "db_ok w" and "t \<in> set (w_txns w)" and "t_total_amount t = Some (int tot)"
    and "tot < 10 ^ 15" and "t_inquiry_request_id t \<noteq> []" and "amounts_ok req paid" and "tenders req paid tot"
  obtains f where "SavePayment e (settlement_record e req paid (record_of e w t)) w =
      (Inr (payment_defaults e (settlement_record e req paid (record_of e w t)) w),
       update_txns (\<lambda>u. t_id u = t_id t) f (next_uuid w))"
    and "settled_by e req tot t (f t)"
  by (rule settlement_saves [OF assms(1-4) _ assms(7-9), where r = "record_of e w t"])
    (use assms(5) in \<open>simp_all add: that\<close>)

lemma Normalize_bills: "pq_BillDetails (NormalizeBillDetails r) = filter (\<lambda>b. \<not> IsEmpty b) (pq_BillDetails r)"
  by (simp add: NormalizeBillDetails_def Let_def)

lemma Normalize_amounts [simp]:
  "amounts_ok (NormalizeBillDetails req) paid = amounts_ok req paid" "tenders (NormalizeBillDetails req) paid tot = tenders req paid tot"
  "settled_by e (NormalizeBillDetails req) tot t t' = settled_by e req tot t t'"
  by (simp_all add: amounts_ok_def tenders_def settled_by_def)

text \<open>A pending bill whose expiry has not passed, reached by a first request and settled in one payment.\<close>

definition reaches_single :: "env \<Rightarrow> VAPaymentRequest \<Rightarrow> world \<Rightarrow> txn \<Rightarrow> nat \<Rightarrow> bool" where
  "reaches_single e req w t tot = (first_request e req w \<and> numeric_env e \<and> db_ok w \<and>
     \<not> IsNoBill (account_of (pq_VirtualAccountNo req) w) \<and> current_txn (pq_VirtualAccountNo req) w = Some t \<and>
     t_total_amount t = Some (int tot) \<and> tot < 10 ^ 15 \<and> t_status t = ''03'' \<and>
     (case t_expired_date t of None \<Rightarrow> True | Some d \<Rightarrow> \<not> After (e_now e) d) \<and> t_inquiry_request_id t \<noteq> [] \<and>
     paymentBilling (account_of (pq_VirtualAccountNo req) w) (record_of e w t) \<noteq> VATypeBillingVariable)"

lemma reaches_single_payment:
  assumes "reaches_single e req w t tot"
  shows "payment e (NormalizeBillDetails req) paid w = payment_single e (NormalizeBillDetails req) paid (record_of e w t) w"
proof -
  from assms have f: "first_request e req w" and t: "t_total_amount t = Some (int tot)" by (simp_all add: reaches_single_def)
  have "payment e (NormalizeBillDetails req) paid w =
      payment_billed e (NormalizeBillDetails req) paid (account_of (pq_VirtualAccountNo req) w) (record_of e w t) w"
    using payment_reaches [OF f _ _ t] assms by (simp add: reaches_single_def)
  then show ?thesis
    using assms t no_replay [OF f] by (auto simp: payment_billed_def reaches_single_def record_isExpired_def IsPayable_def split: option.splits)
qed

text \<open>The run of such a payment: the amount check, then the row it settles.\<close>

lemma single_settlement:
  assumes "reaches_single e req w t tot" and "amounts_ok req paid"
  shows "Payment e req paid w = (case payment_single e (NormalizeBillDetails req) paid (record_of e w t) w of
      (out, v) \<Rightarrow> (out, recordPaymentFlag e (NormalizeBillDetails req) out v))"
    and "wrong_amount (NormalizeBillDetails req) paid (record_of e w t) \<longleftrightarrow> \<not> tenders req paid tot"
    and "tenders req paid tot \<Longrightarrow> \<exists>g v. SavePayment e (settlement_record e (NormalizeBillDetails req) paid (record_of e w t)) w =
        (Inr (payment_defaults e (settlement_record e (NormalizeBillDetails req) paid (record_of e w t)) w), v) \<and>
      settled_by e req tot t g \<and> w_txns v = map (\<lambda>u. if t_id u = t_id t then g else u) (w_txns w) \<and> txns_only w v"
proof -
  let ?req = "NormalizeBillDetails req" and ?r = "record_of e w t"
  from assms(1) have f: "first_request e req w" and env: "numeric_env e" "no_faults e" and ok: "db_ok w"
    and c: "current_txn (pq_VirtualAccountNo req) w = Some t" and t: "t_total_amount t = Some (int tot)" "tot < 10 ^ 15"
    and i: "t_inquiry_request_id t \<noteq> []"
    by (simp_all add: reaches_single_def first_request_def)
  have mem: "t \<in> set (w_txns w)" using current_txn_mem [OF c] by simp
  show "Payment e req paid w = (case payment_single e ?req paid ?r w of (out, v) \<Rightarrow> (out, recordPaymentFlag e ?req out v))"
    using first_request_Payment [OF f] reaches_single_payment [OF assms(1)] by simp
  show "wrong_amount ?req paid ?r \<longleftrightarrow> \<not> tenders req paid tot"
    using wrong_amount_iff [OF env(1), of ?req paid ?r tot] assms(2) t by simp
  assume "tenders req paid tot"
  then obtain g where s: "SavePayment e (settlement_record e ?req paid ?r) w =
      (Inr (payment_defaults e (settlement_record e ?req paid ?r) w), update_txns (\<lambda>u. t_id u = t_id t) g (next_uuid w))"
    and g: "settled_by e req tot t (g t)"
    using payment_single_saves [OF env ok mem t i, of ?req paid] assms(2) by auto
  have "w_txns (update_txns (\<lambda>u. t_id u = t_id t) g (next_uuid w)) = map (\<lambda>u. if t_id u = t_id t then g t else u) (w_txns w)"
    using ok mem by (auto simp: update_txns_def update_where_def next_uuid_def db_ok_def distinct_map dest: inj_onD)
  moreover have "txns_only w (update_txns (\<lambda>u. t_id u = t_id t) g (next_uuid w))"
    using txns_only_trans [OF txns_only_refl(2) txns_only_update] .
  ultimately show "\<exists>g v. SavePayment e (settlement_record e ?req paid ?r) w =
        (Inr (payment_defaults e (settlement_record e ?req paid ?r) w), v) \<and>
      settled_by e req tot t g \<and> w_txns v = map (\<lambda>u. if t_id u = t_id t then g else u) (w_txns w) \<and> txns_only w v"
    using s g by blast
qed

lemma settles_exactly:
  assumes "reaches_single e req w t tot" and "amounts_ok req paid" and "list_all IsEmpty (pq_BillDetails req)"
    and "Payment e req paid w = (outcome, w')"
  shows "if tenders req paid tot
    then (\<exists>resp t'. outcome = Inr resp \<and> pr_ResponseCode resp = ''2002500'' \<and> settled_by e req tot t t' \<and>
        w_txns w' = map (\<lambda>u. if t_id u = t_id t then t' else u) (w_txns w) \<and> w_payments w' = w_payments w)
    else (\<exists>err. outcome = Inl err \<and> de_SNAPCode err = ''4042513'' \<and>
        w_txns w' = w_txns w \<and> w_payments w' = w_payments w \<and> w_queue w' = w_queue w)"
proof (cases "tenders req paid tot")
  case True
  let ?req = "NormalizeBillDetails req" and ?r = "record_of e w t"
  note S = single_settlement [OF assms(1,2)]
  have bills: "pq_BillDetails ?req = []" using assms(3) by (simp add: Normalize_bills filter_empty_conv list_all_iff)
  from S(3) [OF True] obtain g v where s: "SavePayment e (settlement_record e ?req paid ?r) w =
      (Inr (payment_defaults e (settlement_record e ?req paid ?r) w), v)" and g: "settled_by e req tot t g"
    and rows: "w_txns v = map (\<lambda>u. if t_id u = t_id t then g else u) (w_txns w)" and v: "txns_only w v" by blast
  have fr: "w_txns (notifyMerchantWithVA e ?req paid trx url v) = w_txns v"
      "w_payments (notifyMerchantWithVA e ?req paid trx url v) = w_payments w" for trx url
    using notify_only_merchant(1) [of v e ?req paid trx url] v by (simp_all add: notify_only_def txns_only_def)
  have "outcome = Inr (accepted (accepted_data e ?req (settlement_name ?req ?r) paid (paymentTotalAmount ?req paid)))"
    and "w_txns w' = map (\<lambda>u. if t_id u = t_id t then g else u) (w_txns w)" and "w_payments w' = w_payments w"
    using S(1,2) assms(4) True s bills rows fr by (auto simp: payment_single_def frame)
  with g True show ?thesis by (auto simp: accepted_def code_consts)
next
  case False
  with single_settlement(1,2) [OF assms(1,2)] assms(4) show ?thesis
    by (auto simp: payment_single_def frame NewDomainError_def code_consts)
qed

text \<open>C4: A pending bill that is not paid in instalments is settled by a first payment exactly when the
  amount paid, and the total the request states if it states one, equal the billed total to the hundredth.
  Then the bill's row, and no other, becomes settled with that amount under the request's payment
  identifier; otherwise the answer is 4042513 and no transaction, instalment or callback changes.\<close>

theorem fixed_bill_settled_exactly:
  assumes "reaches_single e req w t tot" and "amounts_ok req paid" and "list_all IsEmpty (pq_BillDetails req)"
    and "Payment e req paid w = (outcome, w')"
  shows "if tenders req paid tot
    then (\<exists>resp t'. outcome = Inr resp \<and> pr_ResponseCode resp = ''2002500'' \<and> settled_by e req tot t t' \<and>
        w_txns w' = map (\<lambda>u. if t_id u = t_id t then t' else u) (w_txns w) \<and> w_payments w' = w_payments w)
    else (\<exists>err. outcome = Inl err \<and> de_SNAPCode err = ''4042513'' \<and>
        w_txns w' = w_txns w \<and> w_payments w' = w_payments w \<and> w_queue w' = w_queue w)"
  using assms by (rule settles_exactly)

lemma demo_reaches: "reaches_single demo_env demo_request demo_world demo_txn 25000"
proof -
  have "first_request demo_env demo_request demo_world"
    by (simp add: first_request_def demo_no_faults flag_answer_def demo_world_def fresh_world_def has_payment_id_def demo_txn_def)
  moreover have "account_of ''12345678'' demo_world = Some demo_account" "current_txn ''12345678'' demo_world = Some demo_txn"
    by (simp_all add: account_of_def account_va_def current_txn_def demo_world_def fresh_world_def demo_account_def demo_txn_def)
  moreover have "t_total_amount demo_txn = Some (int 25000)" "t_status demo_txn = ''03''" "t_expired_date demo_txn = None"
    "t_inquiry_request_id demo_txn \<noteq> []" by (simp_all add: demo_txn_def)
  ultimately show ?thesis
    by (simp add: reaches_single_def demo_numeric_env demo_world_ok IsNoBill_def demo_account_def paymentBilling_def code_consts)
qed

lemma demo_amounts: "amounts_ok demo_request demo_paid" "tenders demo_request demo_paid 25000"
  using demo_paid_amount by (simp_all add: amounts_ok_def tenders_def)

lemma demo_settles: "\<exists>resp w'. Payment demo_env demo_request demo_paid demo_world = (Inr resp, w')"
proof -
  obtain out w' where p: "Payment demo_env demo_request demo_paid demo_world = (out, w')" by fastforce
  with settles_exactly [OF demo_reaches demo_amounts(1) _ p] demo_amounts(2) show ?thesis by auto
qed

theorem fixed_bill_settled_exactly_witness:
  "\<exists>resp w' t'. Payment demo_env demo_request demo_paid demo_world = (Inr resp, w') \<and>
     t' \<in> set (w_txns w') \<and> t_status t' = ''00'' \<and> t_paid_amount t' = Some 25000"
proof -
  obtain out w' where p: "Payment demo_env demo_request demo_paid demo_world = (out, w')" by fastforce
  with fixed_bill_settled_exactly [OF demo_reaches demo_amounts(1) _ p] demo_amounts(2)
  show ?thesis by (auto simp: demo_world_def settled_by_def)
qed

theorem double_flag_repeats_first_answer_witness:
  "\<exists>resp w1 err. Payment demo_env demo_request demo_paid demo_world = (Inr resp, w1) \<and>
     Payment demo_env demo_request demo_paid w1 = (Inl err, w1) \<and> de_SNAPCode err = ''4042518''"
proof -
  obtain resp w1 where p: "Payment demo_env demo_request demo_paid demo_world = (Inr resp, w1)" using demo_settles by blast
  have "\<not> is_advice demo_request" by (simp add: is_advice_def demo_request_def code_consts EqualFold_def upper_byte_def)
  with double_flag_repeats_first_answer [of demo_env demo_request demo_paid demo_world "Inr resp" w1 demo_env w1 demo_request demo_paid]
    p evolves.same [of w1] show ?thesis
    by (auto simp: decided_def outcome_answer_def flag_answer_def demo_world_def fresh_world_def NewPaymentError_def code_consts)
qed

theorem unknown_number_is_refused_witness:
  "\<exists>err w'. Payment demo_env demo_request demo_paid fresh_world = (Inl err, w') \<and> de_SNAPCode err = ''4042512'' \<and> w_txns w' = []"
proof -
  obtain out w' where p: "Payment demo_env demo_request demo_paid fresh_world = (out, w')" by fastforce
  have "first_request demo_env demo_request fresh_world"
    by (simp add: first_request_def demo_no_faults flag_answer_def fresh_world_def)
  with unknown_number_is_refused [OF _ _ _ p] p show ?thesis
    by (auto simp: account_of_def IsNoBill_def fresh_world_def)
qed

lemma insert_bills_unknown:
  "tid \<notin> t_id ` set (w_txns w) \<Longrightarrow> bs \<noteq> [] \<Longrightarrow> \<exists>err v. insert_bills e tid bs w = (Inl err, v)"
  by (cases bs) (auto split: sum.split)

lemma SaveBillDetails_unknown:
  assumes "no_faults e" and "tid \<notin> t_id ` set (w_txns w)" and "bs \<noteq> []"
  shows "\<exists>err n. SaveBillDetails e tid bs w = (Inl err, w\<lparr>w_uuids := n\<rparr>)"
  using insert_bills_unknown [of tid "w\<lparr>w_bills := filter (\<lambda>b. b_transaction_id b \<noteq> tid) (w_bills w)\<rparr>" bs e] assms
  by (auto simp: SaveBillDetails_def no_faults_def)

text \<open>When such a payment also lists bills, the row is settled but saving the bills fails, because the
  identifier the settlement hands on is a new one that no row has. The vendor is told of an internal
  error, no callback is queued for the merchant, and the outcome is not kept for a repeat.\<close>

theorem bill_details_break_settlement:
  assumes "reaches_single e req w t tot" and "amounts_ok req paid" and "tenders req paid tot"
    and "\<exists>b \<in> set (pq_BillDetails req). \<not> IsEmpty b"
    and "\<And>n. e_uuid e n \<notin> t_id ` set (w_txns w)"
    and "Payment e req paid w = (outcome, w')"
  shows "(\<exists>err. outcome = Inl err \<and> de_SNAPCode err = ''5002500'') \<and>
    (\<exists>t'. settled_by e req tot t t' \<and> w_txns w' = map (\<lambda>u. if t_id u = t_id t then t' else u) (w_txns w)) \<and>
    w_queue w' = w_queue w \<and> w_flags w' = w_flags w"
proof -
  let ?req = "NormalizeBillDetails req" and ?r = "record_of e w t"
  let ?bs = "paymentBillDetailsToBillDetail (pq_BillDetails ?req)" and ?s = "settlement_record e ?req paid ?r"
  note S = single_settlement [OF assms(1,2)]
  have bills: "pq_BillDetails ?req \<noteq> []" using assms(4) by (simp add: Normalize_bills filter_empty_conv)
  from S(3) [OF assms(3)] obtain g v where s: "SavePayment e ?s w = (Inr (payment_defaults e ?s w), v)"
    and g: "settled_by e req tot t g"
    and rows: "w_txns v = map (\<lambda>u. if t_id u = t_id t then g else u) (w_txns w)" and v: "txns_only w v" by blast
  have "rp_ID (payment_defaults e ?s w) \<notin> t_id ` set (w_txns v)"
    using assms(5) [of "w_uuids w"] g rows by (force simp: row_sel fresh_id_def settled_by_def image_iff)
  moreover have "no_faults e" using assms(1) by (simp add: reaches_single_def first_request_def)
  ultimately obtain err n where b: "SaveBillDetails e (rp_ID (payment_defaults e ?s w)) ?bs v = (Inl err, v\<lparr>w_uuids := n\<rparr>)"
    using SaveBillDetails_unknown [of e _ v ?bs] bills by (force simp: paymentBillDetailsToBillDetail_def)
  have p5: "HasPrefix (de_SNAPCode (internal_error ServiceCodePayment err)) ''5''" "de_SNAPCode (internal_error ServiceCodePayment err) = ''5002500''"
    by (simp_all add: internal_error_def NewDomainError_def CodeInternalError_def SNAPCode_def code_consts)
  have "outcome = Inl (internal_error ServiceCodePayment err)" "w' = v\<lparr>w_uuids := n\<rparr>"
    using S(1,2) assms(3,6) s b bills p5 by (auto simp: payment_single_def recordPaymentFlag_def flag_of_outcome_def Let_def)
  with p5 g rows v show ?thesis by (auto simp: txns_only_def)
qed

section \<open>Which bills are payable\<close>

definition paid_cents :: "txn \<Rightarrow> int" where
  "paid_cents t = (case t_paid_amount t of None \<Rightarrow> 0 | Some k \<Rightarrow> k)"

text \<open>Amounts a \<^verbatim>\<open>NUMERIC(16,2)\<close> column holds in practice: not negative, below ten trillion.\<close>

definition sane_row :: "txn \<Rightarrow> nat \<Rightarrow> nat \<Rightarrow> bool" where
  "sane_row t paid tot = (t_total_amount t = Some (int tot) \<and> tot < 10 ^ 15 \<and> paid_cents t = int paid \<and> paid < 10 ^ 15)"

lemma zero_text: "amountPattern ''0''" "amount_cents ''0'' = 0"
  by (simp_all add: amountPattern_def amount_cents_def is_digit_def digit_val_def)

lemma ParseFloat_paid:
  assumes "paid_cents t = int paid" and "paid < 10 ^ 15"
  shows "ParseFloat (numeric_text0 (t_paid_amount t)) = Some (money paid)"
  using assms ParseFloat_amount [OF zero_text(1)] ParseFloat_cents_text [of paid] zero_text(2)
  by (auto simp: paid_cents_def numeric_text0_def numeric_text_def split: option.splits)

lemma IsPayable_agrees:
  assumes "numeric_env e" and "sane_row t paid tot"
  shows "IsPayable (record_of e w t) \<longleftrightarrow> payable_row t"
proof -
  have tot: "t_total_amount t = Some (int tot)" "tot < 10 ^ 15" and paid: "paid_cents t = int paid" "paid < 10 ^ 15"
    using assms(2) by (simp_all add: sane_row_def)
  show ?thesis
    using ParseFloat_paid [OF paid] numeric_env_scan(3) [OF assms(1) tot(2)] money_less [OF paid(2) tot(2)] tot(1) paid(1)
    by (auto simp: IsPayable_def payable_row_def IsVariableBill_def paid_cents_def)
qed

text \<open>The query that chooses a number's transaction and the rule the use cases apply to it agree: a row
  ranks as payable in the \<^verbatim>\<open>ORDER BY\<close> exactly when \<^verbatim>\<open>IsPayable\<close> holds of the record read from it, although
  one compares decimals and the other binary floating point.\<close>

theorem payable_rule_agrees_with_query:
  assumes "numeric_env e" and "sane_row t paid tot"
  shows "IsPayable (record_of e w t) \<longleftrightarrow> payable_row t"
  using assms by (rule IsPayable_agrees)

lemma current_not_pending:
  assumes "current_txn va w = Some t" and "\<not> payable_row t"
  shows "\<not> has_pending va w"
proof
  assume "has_pending va w"
  then obtain s where s: "s \<in> set (w_txns w)" "pending_of va s" by (auto simp: has_pending_def)
  then have "(va_rank t, - tm_ns (t_created_at t)) \<le> (va_rank s, - tm_ns (t_created_at s))"
    using va_order.top_least [of _ t s] assms(1) unfolding current_txn_def by (auto simp: pending_of_def)
  with s(2) assms(2) show False by (auto simp: va_rank_def payable_row_def pending_of_def less_eq_prod_def split: if_splits)
qed

text \<open>C21: A first payment on a bill that is closed is refused with the code of its state, 4042514 when it is
  paid in full, 4042519 when it is expired, 4042512 when it is deleted and 4092500 for any other state,
  and changes no transaction, instalment, delivery or callback.\<close>

theorem closed_bill_is_refused:
  assumes "first_request e req w" and "numeric_env e" and "\<not> IsNoBill (account_of (pq_VirtualAccountNo req) w)"
    and "current_txn (pq_VirtualAccountNo req) w = Some t" and "sane_row t p tot" and "\<not> payable_row t"
    and "Payment e req paid w = (outcome, w')"
  shows "(\<exists>err. outcome = Inl err \<and> de_SNAPCode err =
      (if t_status t = ''00'' then ''4042514'' else if t_status t = ''02'' then ''4042519''
       else if t_status t = ''04'' then ''4042512'' else ''4092500'')) \<and>
    w_txns w' = w_txns w \<and> w_payments w' = w_payments w \<and> w_deliveries w' = w_deliveries w \<and> w_queue w' = w_queue w"
proof -
  let ?req = "NormalizeBillDetails req" and ?r = "record_of e w t"
  have t: "t_total_amount t = Some (int tot)" using assms(5) by (simp add: sane_row_def)
  have np: "\<not> IsPayable ?r" using IsPayable_agrees [OF assms(2,5)] assms(6) by simp
  have open3: "t_status t \<noteq> ''03''" using assms(6) by (simp add: payable_row_def)
  have same: "markExpiredAndNotify e ?r w = w"
    using markExpired_no_pending [of ?r w e] current_not_pending [OF assms(4,6)] t current_txn_mem [OF assms(4)] by simp
  have "payment e ?req paid w = (Inl (if t_status t = ''02''
      then NewPaymentError CodePaymentExpired errInvalidBill (Some ErrVAExpiredPayment) (Some (paymentRejectionData ?req ?r CodePaymentExpired))
      else nonPendingPaymentError ?req ?r), w)"
    using payment_reaches [OF assms(1,3,4) t] no_replay [OF assms(1)] np open3 same t
    by (auto simp: payment_billed_def record_isExpired_def)
  with first_request_Payment [OF assms(1), of paid] assms(7) t show ?thesis
    by (auto simp: frame nonPendingPaymentError_def NewPaymentError_def code_consts)
qed

section \<open>Exercising the rules\<close>

definition demo_bill :: VAPaymentBillDetail where
  "demo_bill = \<lparr>pb_BillCode = ''01'', pb_BillNo = ''1'', pb_BillName = [], pb_BillShortName = [], pb_BillDescription = None,
     pb_BillSubCompany = [], pb_BillAmount = None, pb_AdditionalInfo = [], pb_BillReferenceNo = [], pb_BillerReferenceID = [],
     pb_Status = [], pb_Reason = None\<rparr>"

theorem bill_details_break_settlement_witness:
  "\<exists>err w' t'. Payment demo_env (demo_request\<lparr>pq_BillDetails := [demo_bill]\<rparr>) demo_paid demo_world = (Inl err, w') \<and>
     de_SNAPCode err = ''5002500'' \<and> t' \<in> set (w_txns w') \<and> t_status t' = ''00'' \<and> w_queue w' = []"
proof -
  let ?req = "demo_request\<lparr>pq_BillDetails := [demo_bill]\<rparr>"
  obtain out w' where p: "Payment demo_env ?req demo_paid demo_world = (out, w')" by fastforce
  have r: "reaches_single demo_env ?req demo_world demo_txn 25000"
    using demo_reaches by (simp add: reaches_single_def first_request_def)
  have a: "amounts_ok ?req demo_paid" "tenders ?req demo_paid 25000" using demo_amounts by (simp_all add: amounts_ok_def tenders_def)
  have b: "\<exists>b \<in> set (pq_BillDetails ?req). \<not> IsEmpty b" by (simp add: demo_bill_def IsEmpty_def)
  have u: "e_uuid demo_env n \<notin> t_id ` set (w_txns demo_world)" for n
    by (simp add: demo_world_def demo_txn_def)
  from bill_details_break_settlement [OF r a b u p] p show ?thesis
    by (auto simp: demo_world_def fresh_world_def settled_by_def)
qed

lemma demo_sane: "sane_row demo_txn 0 25000"
  by (simp add: sane_row_def demo_txn_def paid_cents_def)

theorem payable_rule_agrees_with_query_witness: "IsPayable (record_of demo_env demo_world demo_txn)"
  using payable_rule_agrees_with_query [OF demo_numeric_env demo_sane, of demo_world] by (simp add: payable_row_def demo_txn_def)

theorem closed_bill_is_refused_witness:
  "\<exists>err w'. Payment demo_env demo_request demo_paid (fresh_world\<lparr>w_txns := [demo_txn\<lparr>t_status := ''04''\<rparr>]\<rparr>) = (Inl err, w') \<and>
     de_SNAPCode err = ''4042512'' \<and> w_txns w' = [demo_txn\<lparr>t_status := ''04''\<rparr>]"
proof -
  let ?w = "fresh_world\<lparr>w_txns := [demo_txn\<lparr>t_status := ''04''\<rparr>]\<rparr>" and ?t = "demo_txn\<lparr>t_status := ''04''\<rparr>"
  obtain out w' where p: "Payment demo_env demo_request demo_paid ?w = (out, w')" by fastforce
  have f: "first_request demo_env demo_request ?w"
    by (simp add: first_request_def demo_no_faults flag_answer_def fresh_world_def has_payment_id_def demo_txn_def)
  have a: "\<not> IsNoBill (account_of (pq_VirtualAccountNo demo_request) ?w)" by (simp add: account_of_def fresh_world_def IsNoBill_def)
  have c: "current_txn (pq_VirtualAccountNo demo_request) ?w = Some ?t" by (simp add: current_txn_def demo_txn_def)
  have t: "sane_row ?t 0 25000" "\<not> payable_row ?t" by (simp_all add: sane_row_def demo_txn_def paid_cents_def payable_row_def)
  from closed_bill_is_refused [OF f demo_numeric_env a c t p] p show ?thesis by (auto simp: demo_txn_def)
qed

end
