(* ===== verification/InquiryProps.thy ===== *)
theory InquiryProps
  imports UsecaseProps
begin

text \<open>
  Inquiries: what they may change, when they succeed, and that the payment a successful inquiry invites
  is accepted.
\<close>

section \<open>What an inquiry changes\<close>

definition inquiry_change :: "env \<Rightarrow> string \<Rightarrow> txn \<Rightarrow> txn \<Rightarrow> bool" where
  "inquiry_change e inq t t' = (t' = t \<or> (t_status t = ''03'' \<and> t' = set_status e ''02'' t) \<or>
     (claimable t \<and> t' = t\<lparr>t_inquiry_request_id := inq, t_updated_at := e_now e\<rparr>))"

lemma list_all2_update_where:
  assumes "\<And>x. p x \<Longrightarrow> R x (f x)" and "\<And>x. R x x"
  shows "list_all2 R xs (update_where p f xs)"
  using assms by (induction xs) simp_all

lemma Claim_txns:
  "list_all2 (inquiry_change e q) (w_txns w) (w_txns (snd (ClaimInquiryRequestID e i q w)))"
proof -
  have "list_all2 (inquiry_change e q) (w_txns w) (update_where (\<lambda>t. t_id t = i \<and> claimable t)
      (\<lambda>t. t\<lparr>t_inquiry_request_id := q, t_updated_at := e_now e\<rparr>) (w_txns w))"
    by (rule list_all2_update_where) (simp_all add: inquiry_change_def)
  moreover have "list_all2 (inquiry_change e q) (w_txns w) (w_txns w)"
    by (rule list.rel_refl) (simp add: inquiry_change_def)
  ultimately show ?thesis by (simp add: ClaimInquiryRequestID_def snd_guard update_txns_def)
qed

lemma markExpired_change:
  "list_all2 (inquiry_change e q) (w_txns w) (w_txns (markExpiredAndNotify e r w))"
proof -
  have "list_all2 (inquiry_change e q) (w_txns w) (update_where (pending_of (ri_VirtualAccountNo r)) (set_status e ''02'') (w_txns w))"
    by (rule list_all2_update_where) (simp_all add: inquiry_change_def pending_of_def)
  moreover have "list_all2 (inquiry_change e q) (w_txns w) (w_txns w)"
    by (rule list.rel_refl) (simp add: inquiry_change_def)
  ultimately show ?thesis using markExpired_txns [of e r w] by auto
qed

lemma mark_other_tables:
  "w_payments (markExpiredAndNotify e r w) = w_payments w" "w_bills (markExpiredAndNotify e r w) = w_bills w"
  "w_accounts (markExpiredAndNotify e r w) = w_accounts w"
  "w_txns (markRegistrationExpiredAndNotify e a w) = w_txns w" "w_payments (markRegistrationExpiredAndNotify e a w) = w_payments w"
  "w_bills (markRegistrationExpiredAndNotify e a w) = w_bills w"
proof -
  note n = notify_only_audit [unfolded notify_only_def]
  show "w_payments (markExpiredAndNotify e r w) = w_payments w" "w_bills (markExpiredAndNotify e r w) = w_bills w"
    "w_accounts (markExpiredAndNotify e r w) = w_accounts w"
    by (simp_all add: markExpired_char Let_def n update_txns_def)
  show "w_txns (markRegistrationExpiredAndNotify e a w) = w_txns w" "w_payments (markRegistrationExpiredAndNotify e a w) = w_payments w"
    "w_bills (markRegistrationExpiredAndNotify e a w) = w_bills w"
    by (simp_all add: markRegistrationExpiredAndNotify_def repo close_account_def n split: option.split)
qed

lemma inquiry_record_effect:
  "list_all2 (inquiry_change e (iq_InquiryRequestID req)) (w_txns w) (w_txns (snd (inquiry_record e req r w)))"
  "w_payments (snd (inquiry_record e req r w)) = w_payments w" "w_bills (snd (inquiry_record e req r w)) = w_bills w"
  "w_flags (snd (inquiry_record e req r w)) = w_flags w" "w_accounts (snd (inquiry_record e req r w)) = w_accounts w"
proof -
  have refl: "list_all2 (inquiry_change e q) (w_txns w) (w_txns w)" for q
    by (rule list.rel_refl) (simp add: inquiry_change_def)
  note c = txns_only_updates(1) [of w e "ri_ID r" "iq_InquiryRequestID req", unfolded txns_only_def]
  show "list_all2 (inquiry_change e (iq_InquiryRequestID req)) (w_txns w) (w_txns (snd (inquiry_record e req r w)))"
    using Claim_txns [of e "iq_InquiryRequestID req" w "ri_ID r"] markExpired_change refl
    by (auto simp: inquiry_record_def Let_def split: prod.split sum.split)
  show "w_payments (snd (inquiry_record e req r w)) = w_payments w" "w_bills (snd (inquiry_record e req r w)) = w_bills w"
    "w_flags (snd (inquiry_record e req r w)) = w_flags w" "w_accounts (snd (inquiry_record e req r w)) = w_accounts w"
    using c by (auto simp: inquiry_record_def Let_def mark_flags mark_other_tables split: prod.split sum.split)
qed

lemma inquiryNoBill_effect:
  "w_txns (snd (inquiryNoBill e req a w)) = w_txns w" "w_payments (snd (inquiryNoBill e req a w)) = w_payments w"
  "w_bills (snd (inquiryNoBill e req a w)) = w_bills w" "w_flags (snd (inquiryNoBill e req a w)) = w_flags w"
  by (simp_all add: inquiryNoBill_def mark_other_tables frame)

text \<open>An inquiry settles nothing and creates nothing, in any environment: it records no instalment, bill
  or payment outcome, and leaves every transaction row in place and as it was, except that a pending row
  may become expired and a row that still carries a placeholder may receive the inquiry's identifier.\<close>

theorem inquiry_settles_nothing:
  "list_all2 (inquiry_change e (iq_InquiryRequestID req)) (w_txns w) (w_txns (snd (Inquiry e req w))) \<and>
   w_payments (snd (Inquiry e req w)) = w_payments w \<and> w_bills (snd (Inquiry e req w)) = w_bills w \<and>
   w_flags (snd (Inquiry e req w)) = w_flags w"
proof -
  have "list_all2 (inquiry_change e (iq_InquiryRequestID req)) (w_txns w) (w_txns w)"
    by (rule list.rel_refl) (simp add: inquiry_change_def)
  then show ?thesis
    by (auto simp: Inquiry_def inquiry_record_effect inquiryNoBill_effect split: sum.split option.split bool.split)
qed

section \<open>A claim does not change what a number stands for\<close>

lemma top_by_map:
  assumes "\<And>x y. better (f x) (f y) = better x y"
  shows "top_by better (map f xs) = map_option f (top_by better xs)"
  using assms by (induction xs) (simp_all split: option.split)

lemma current_txn_update:
  assumes "\<And>t. t_virtual_account_no (f t) = t_virtual_account_no t" and "\<And>t. payable_row (f t) = payable_row t"
    and "\<And>t. t_created_at (f t) = t_created_at t"
  shows "current_txn va (update_txns p f w) = map_option (\<lambda>t. if p t then f t else t) (current_txn va w)"
proof -
  let ?g = "\<lambda>t. if p t then f t else t"
  have "filter (\<lambda>t. t_virtual_account_no t = va) (map ?g xs) = map ?g (filter (\<lambda>t. t_virtual_account_no t = va) xs)" for xs
    using assms(1) by (induction xs) auto
  moreover have "va_better (?g x) (?g y) = va_better x y" for x y
    using assms(2,3) by (simp add: va_better_def va_rank_def)
  ultimately show ?thesis
    by (simp add: current_txn_def update_txns_def update_where_def top_by_map)
qed

definition claimed :: "env \<Rightarrow> string \<Rightarrow> string \<Rightarrow> txn \<Rightarrow> txn" where
  "claimed e i q t = (if t_id t = i \<and> claimable t then t\<lparr>t_inquiry_request_id := q, t_updated_at := e_now e\<rparr> else t)"

lemma claimed_sel [simp]:
  "t_id (claimed e i q t) = t_id t" "t_virtual_account_no (claimed e i q t) = t_virtual_account_no t"
  "t_total_amount (claimed e i q t) = t_total_amount t" "t_status (claimed e i q t) = t_status t"
  "t_expired_date (claimed e i q t) = t_expired_date t" "t_va_type (claimed e i q t) = t_va_type t"
  "t_payment_request_id (claimed e i q t) = t_payment_request_id t"
  by (simp_all add: claimed_def)

lemma Claim_world:
  "snd (ClaimInquiryRequestID e i q w) = w \<or>
   (snd (ClaimInquiryRequestID e i q w) = update_txns (\<lambda>t. t_id t = i \<and> claimable t)
      (\<lambda>t. t\<lparr>t_inquiry_request_id := q, t_updated_at := e_now e\<rparr>) w)"
  by (auto simp: ClaimInquiryRequestID_def snd_guard)

lemma first_request_claim:
  assumes "first_request e req w"
  shows "first_request e req (update_txns (\<lambda>t. t_id t = i \<and> claimable t)
     (\<lambda>t. t\<lparr>t_inquiry_request_id := q, t_updated_at := n\<rparr>) w)"
  using assms
  by (auto simp: first_request_def flag_answer_def update_txns_def find_None_iff set_update_where has_payment_id_def)

lemma reaches_single_claim:
  assumes "reaches_single e' req w t tot" and "q \<noteq> []"
  shows "\<exists>t1. t_id t1 = t_id t \<and> reaches_single e' req (snd (ClaimInquiryRequestID e i q w)) t1 tot"
proof -
  let ?f = "\<lambda>t. t\<lparr>t_inquiry_request_id := q, t_updated_at := e_now e\<rparr>" and ?p = "\<lambda>t. t_id t = i \<and> claimable t"
  let ?w = "update_txns ?p ?f w"
  have ok: "db_ok (snd (ClaimInquiryRequestID e i q w))"
    using assms(1) by (intro db_ok_ClaimInquiryRequestID) (simp add: reaches_single_def)
  show ?thesis
  proof (cases "snd (ClaimInquiryRequestID e i q w) = w")
    case True
    with assms show ?thesis by auto
  next
    case False
    then have w: "snd (ClaimInquiryRequestID e i q w) = ?w" using Claim_world by blast
    have c: "current_txn va ?w = map_option (claimed e i q) (current_txn va w)" for va
      using current_txn_update [of ?f va ?p w] by (simp add: claimed_def [abs_def] payable_row_def)
    have acc: "account_of va ?w = account_of va w" for va by (simp add: account_of_def update_txns_def)
    have tot: "t_total_amount t = Some (int tot)" using assms(1) by (simp add: reaches_single_def)
    have "reaches_single e' req ?w (claimed e i q t) tot"
      using assms ok first_request_claim [where e = e' and req = req and w = w and i = i and q = q and n = "e_now e"] tot unfolding w
      by (auto simp: reaches_single_def c acc paymentBilling_def claimed_def split: option.splits)
    with w show ?thesis by (intro exI [of _ "claimed e i q t"]) simp
  qed
qed

section \<open>From inquiry to payment\<close>

lemma Claim_succeeds:
  assumes "no_faults e" and "db_ok w" and "t \<in> set (w_txns w)"
    and "find (has_inquiry_id q) (w_txns w) = None \<or> find (has_inquiry_id q) (w_txns w) = Some t"
  shows "fst (ClaimInquiryRequestID e (t_id t) q w) = Inr ()"
proof -
  have "t_id u = t_id t" if "u \<in> set (w_txns w)" "t_inquiry_request_id u = q" for u
  proof -
    from assms(4) that have "find (has_inquiry_id q) (w_txns w) = Some t" by (auto simp: find_None_iff has_inquiry_id_def)
    then have "t_inquiry_request_id t = q" using find_Some_mem by (fastforce simp: has_inquiry_id_def)
    with that assms(2,3) show ?thesis by (auto simp: db_ok_def distinct_map dest: inj_onD)
  qed
  with assms(1) show ?thesis by (auto simp: ClaimInquiryRequestID_def no_faults_def)
qed

text \<open>A pending, unexpired record is presented with its total.\<close>

lemma inquiry_record_presents:
  assumes "no_faults e" and "db_ok w" and "t \<in> set (w_txns w)"
    and "find (has_inquiry_id (iq_InquiryRequestID req)) (w_txns w) \<in> {None, Some t}"
    and "scan_inquiry e pa pr t = Inr r" and "t_status t = ''03''"
    and "case t_expired_date t of None \<Rightarrow> True | Some d \<Rightarrow> \<not> After (e_now e) d"
  shows "\<exists>resp d a. fst (inquiry_record e req r w) = Inr resp \<and> ir_ResponseCode resp = CodeInquirySuccess \<and>
     ir_VirtualAccountData resp = Some d \<and> ad_TotalAmount d = Some a \<and> am_Value a = or_default zeroAmount (ri_TotalAmount r)"
    and "snd (inquiry_record e req r w) = w \<or>
      (iq_InquiryRequestID req \<noteq> [] \<and> snd (inquiry_record e req r w) = snd (ClaimInquiryRequestID e (t_id t) (iq_InquiryRequestID req) w))"
proof -
  have r: "ri_Status r = ''03''" "ri_ID r = t_id t" "ri_ExpiredDate r = t_expired_date t"
    using assms(5,6) by (auto simp: scan_inquiry_def split: option.splits)
  then have ne: "\<not> record_isExpired e r" using assms(7) by (auto simp: record_isExpired_def split: option.splits)
  obtain v where v: "ClaimInquiryRequestID e (t_id t) (iq_InquiryRequestID req) w = (Inr (), v)"
    using Claim_succeeds [OF assms(1-3)] assms(4) by (metis (no_types, lifting) fst_eqD insertE singletonD surj_pair)
  show "\<exists>resp d a. fst (inquiry_record e req r w) = Inr resp \<and> ir_ResponseCode resp = CodeInquirySuccess \<and>
     ir_VirtualAccountData resp = Some d \<and> ad_TotalAmount d = Some a \<and> am_Value a = or_default zeroAmount (ri_TotalAmount r)"
    using r ne v by (auto simp: inquiry_record_def inquiryResponseFromRecord_def inquiryAccountDataFromRecord_def)
  show "snd (inquiry_record e req r w) = w \<or>
      (iq_InquiryRequestID req \<noteq> [] \<and> snd (inquiry_record e req r w) = snd (ClaimInquiryRequestID e (t_id t) (iq_InquiryRequestID req) w))"
    using r ne v by (auto simp: inquiry_record_def)
qed

lemma Inquiry_finds:
  assumes "no_faults e" and "\<not> IsNoBill (account_of (iq_VirtualAccountNo req) w)"
    and "current_txn (iq_VirtualAccountNo req) w = Some t" and "t_total_amount t = Some n"
    and "find (has_inquiry_id (iq_InquiryRequestID req)) (w_txns w) \<in> {None, Some t}"
  shows "\<exists>pa pr r. scan_inquiry e pa pr t = Inr r \<and> ri_TotalAmount r = e_scan e n \<and> Inquiry e req w = inquiry_record e req r w"
proof -
  let ?va = "iq_VirtualAccountNo req"
  obtain pa pr r where r: "scan_inquiry e pa pr t = Inr r" "find_inquiry_record e req w = Inr (Some r)"
    using assms(1,3-5) GetVA_current [of e ?va w t n]
    by (auto simp: find_inquiry_record_def GetInquiry_def no_faults_def optional_def isNotFound_def scan_inquiry_def
        record_of_def)
  have "ri_TotalAmount r = e_scan e n" using r(1) assms(4) by (auto simp: scan_inquiry_def)
  moreover have "Inquiry e req w = inquiry_record e req r w"
    using assms(1,2) r(2)
    by (auto simp: Inquiry_def GetVAAccount_def no_faults_def optional_def account_of_def IsNoBill_def split: option.splits)
  ultimately show ?thesis using r(1) by blast
qed

lemma inquiry_then_payment:
  assumes "reaches_single e preq w t tot" and "reaches_single e' preq w t tot"
    and "iq_VirtualAccountNo ireq = pq_VirtualAccountNo preq"
    and "find (has_inquiry_id (iq_InquiryRequestID ireq)) (w_txns w) \<in> {None, Some t}"
    and "amounts_ok preq paid" and "tenders preq paid tot" and "list_all IsEmpty (pq_BillDetails preq)"
  shows "\<exists>resp w1 d a r w2. Inquiry e ireq w = (Inr resp, w1) \<and> ir_ResponseCode resp = ''2002400'' \<and>
    ir_VirtualAccountData resp = Some d \<and> ad_TotalAmount d = Some a \<and> am_Value a = e_scan e (int tot) \<and>
    Payment e' preq paid w1 = (Inr r, w2) \<and> pr_ResponseCode r = ''2002500'' \<and>
    (\<exists>t' \<in> set (w_txns w2). t_id t' = t_id t \<and> t_status t' = ''00'' \<and> t_paid_amount t' = Some (int tot) \<and>
       t_payment_request_id t' = Some (pq_PaymentRequestID preq))"
proof -
  from assms(1) have env: "no_faults e" "numeric_env e" and ok: "db_ok w" and c: "current_txn (pq_VirtualAccountNo preq) w = Some t"
    and t: "t_total_amount t = Some (int tot)" "tot < 10 ^ 15" "t_status t = ''03''"
      "case t_expired_date t of None \<Rightarrow> True | Some d \<Rightarrow> \<not> After (e_now e) d"
    and nb: "\<not> IsNoBill (account_of (pq_VirtualAccountNo preq) w)"
    by (simp_all add: reaches_single_def first_request_def)
  have mem: "t \<in> set (w_txns w)" using current_txn_mem [OF c] by simp
  from Inquiry_finds [OF env(1), of ireq w t "int tot"] nb c t(1) assms(3,4)
  obtain pa pr r where r: "scan_inquiry e pa pr t = Inr r" "ri_TotalAmount r = e_scan e (int tot)"
    and I: "Inquiry e ireq w = inquiry_record e ireq r w" by auto
  note P = inquiry_record_presents [OF env(1) ok mem assms(4) r(1) t(3,4)]
  have shown: "or_default zeroAmount (ri_TotalAmount r) = e_scan e (int tot)"
    using numeric_env_scan(1) [OF env(2) t(2)] r(2) by (simp add: or_default_def)
  obtain t1 where t1: "t_id t1 = t_id t" "reaches_single e' preq (snd (Inquiry e ireq w)) t1 tot"
    using P(2) reaches_single_claim [OF assms(2), of "iq_InquiryRequestID ireq" e "t_id t"] assms(2) I by auto
  let ?w1 = "snd (Inquiry e ireq w)"
  obtain r2 w2 where p: "Payment e' preq paid ?w1 = (r2, w2)" by fastforce
  have settled: "\<exists>resp t'. r2 = Inr resp \<and> pr_ResponseCode resp = ''2002500'' \<and> settled_by e' preq tot t1 t' \<and>
        w_txns w2 = map (\<lambda>u. if t_id u = t_id t1 then t' else u) (w_txns ?w1)"
    using settles_exactly [OF t1(2) assms(5,7) p] assms(6) by auto
  have "t1 \<in> set (w_txns ?w1)" using t1(2) current_txn_mem by (auto simp: reaches_single_def)
  with settled have "\<exists>t' \<in> set (w_txns w2). t_id t' = t_id t \<and> t_status t' = ''00'' \<and> t_paid_amount t' = Some (int tot) \<and>
       t_payment_request_id t' = Some (pq_PaymentRequestID preq)"
    using t1(1) by (force simp: settled_by_def)
  moreover obtain resp d a where "fst (Inquiry e ireq w) = Inr resp" and i: "ir_ResponseCode resp = ''2002400''"
     "ir_VirtualAccountData resp = Some d" "ad_TotalAmount d = Some a" "am_Value a = e_scan e (int tot)"
    using P(1) I shown by (auto simp: code_consts)
  moreover from this(1) have "Inquiry e ireq w = (Inr resp, ?w1)" by (simp add: prod_eq_iff)
  ultimately show ?thesis using p settled by blast
qed


definition demo_inquiry :: VAInquiryRequest where
  "demo_inquiry = \<lparr>iq_PartnerServiceID = ''12345'', iq_CustomerNo = ''678'', iq_VirtualAccountNo = ''12345678'',
     iq_TrxDateInit = None, iq_Amount = None, iq_ChannelCode = 6011, iq_Language = [], iq_HashedSourceAccountNo = [],
     iq_SourceBankCode = [], iq_InquiryRequestID = ''i1'', iq_AdditionalInfo = [], iq_PassApp = []\<rparr>"


end
