(* ===== verification/InstalmentProps.thy ===== *)
theory InstalmentProps
  imports InquiryProps
begin

text \<open>
  Variable bills: over any sequence of inquiries and payments, with any database failures, the instalments
  collected on a bill never exceed it.
\<close>

section \<open>The invariant of a variable bill\<close>

definition billing_of :: "string \<Rightarrow> world \<Rightarrow> txn \<Rightarrow> string" where
  "billing_of va w t = (case account_of va w of
      Some a \<Rightarrow> if ac_Billing a \<noteq> [] then ac_Billing a else BillingForVAType (or_empty (t_va_type t))
    | None \<Rightarrow> BillingForVAType (or_empty (t_va_type t)))"

text \<open>
  The number has one transaction, billed as variable, whose paid amount is the sum of its instalments;
  the sum lies between zero and the total.
\<close>

definition within_bill :: "string \<Rightarrow> string \<Rightarrow> nat \<Rightarrow> world \<Rightarrow> bool" where
  "within_bill va tid tot w = (db_ok w \<and> (\<exists>t. filter (\<lambda>t. t_virtual_account_no t = va) (w_txns w) = [t] \<and> t_id t = tid \<and>
     t_total_amount t = Some (int tot) \<and> paid_cents t = paid_sum tid w \<and> billing_of va w t = VATypeBillingVariable) \<and>
     0 \<le> paid_sum tid w \<and> paid_sum tid w \<le> int tot)"

lemma filter_single_mem: "filter p xs = [x] \<Longrightarrow> x \<in> set xs"
  by (auto simp: filter_eq_Cons_iff)

lemma filter_va_map:
  assumes "\<And>t. t_virtual_account_no (g t) = t_virtual_account_no t"
  shows "filter (\<lambda>t. t_virtual_account_no t = va) (map g xs) = map g (filter (\<lambda>t. t_virtual_account_no t = va) xs)"
  using assms by (induction xs) auto

text \<open>Steps that leave instalments, registrations and the amounts of the rows alone keep the invariant.\<close>

lemma within_bill_keep:
  assumes "within_bill va tid tot w" and "db_ok v" and "w_txns v = map g (w_txns w)"
    and "\<And>t. t_virtual_account_no (g t) = t_virtual_account_no t \<and> t_id (g t) = t_id t \<and>
       t_total_amount (g t) = t_total_amount t \<and> t_paid_amount (g t) = t_paid_amount t \<and> t_va_type (g t) = t_va_type t"
    and "w_payments v = w_payments w" and "w_accounts v = w_accounts w"
  shows "within_bill va tid tot v"
proof -
  have "paid_sum tid v = paid_sum tid w" by (simp add: paid_sum_def instalments_of_def assms(5))
  moreover have "account_of va v = account_of va w" by (simp add: account_of_def assms(6))
  moreover have "filter (\<lambda>t. t_virtual_account_no t = va) (w_txns v) = map g (filter (\<lambda>t. t_virtual_account_no t = va) (w_txns w))"
    using assms(3,4) by (simp add: filter_va_map)
  moreover have "t_id (g t) = t_id t" "t_total_amount (g t) = t_total_amount t" "paid_cents (g t) = paid_cents t"
    "billing_of va v (g t) = billing_of va w t" for t
    using assms(4) [of t] calculation(2) by (simp_all add: paid_cents_def billing_of_def split: option.split)
  ultimately show ?thesis using assms(1,2) by (auto simp: within_bill_def)
qed

lemma update_where_is_map: "update_where p f xs = map (\<lambda>t. if p t then f t else t) xs"
  by (simp add: update_where_def)

lemma within_bill_mark:
  assumes "within_bill va tid tot w"
  shows "within_bill va tid tot (markExpiredAndNotify e r w)"
proof -
  have ok: "db_ok (markExpiredAndNotify e r w)"
    using evolves_db_ok [OF evolves_markExpired] assms by (simp add: within_bill_def)
  have "\<exists>g. w_txns (markExpiredAndNotify e r w) = map g (w_txns w) \<and> (\<forall>t. g t = t \<or> g t = set_status e ''02'' t)"
    using markExpired_txns [of e r w]
  proof
    assume "w_txns (markExpiredAndNotify e r w) = w_txns w"
    then show ?thesis by (intro exI [of _ "\<lambda>t. t"]) simp
  next
    assume "w_txns (markExpiredAndNotify e r w) =
      update_where (pending_of (ri_VirtualAccountNo r)) (set_status e ''02'') (w_txns w)"
    then show ?thesis
      by (intro exI [of _ "\<lambda>t. if pending_of (ri_VirtualAccountNo r) t then set_status e ''02'' t else t"])
        (simp add: update_where_is_map)
  qed
  then obtain g where g: "w_txns (markExpiredAndNotify e r w) = map g (w_txns w)" "\<And>t. g t = t \<or> g t = set_status e ''02'' t"
    by blast
  have "t_virtual_account_no (g t) = t_virtual_account_no t \<and> t_id (g t) = t_id t \<and>
       t_total_amount (g t) = t_total_amount t \<and> t_paid_amount (g t) = t_paid_amount t \<and> t_va_type (g t) = t_va_type t" for t
    using g(2) [of t] by (auto simp: set_status_def)
  then show ?thesis
    by (rule within_bill_keep [OF assms ok g(1)]) (simp_all add: mark_other_tables)
qed

lemma within_bill_uuids: "within_bill va tid tot w \<Longrightarrow> within_bill va tid tot (w\<lparr>w_uuids := n\<rparr>)"
  by (simp add: within_bill_def billing_of_def account_of_def paid_sum_def instalments_of_def db_ok_def payment_ids_def)

lemma within_bill_notify: "within_bill va tid tot w \<Longrightarrow> notify_only w v \<Longrightarrow> db_ok v \<Longrightarrow> within_bill va tid tot v"
  by (rule within_bill_keep [where g = "\<lambda>t. t"]) (simp_all add: notify_only_def)

lemma within_bill_record: "within_bill va tid tot w \<Longrightarrow> within_bill va tid tot (recordPaymentFlag e req out w)"
proof -
  assume a: "within_bill va tid tot w"
  then have "db_ok (recordPaymentFlag e req out w)"
    using evolves_db_ok [OF evolves_recordPaymentFlag] by (simp add: within_bill_def)
  with a show ?thesis by (rule within_bill_keep [where g = "\<lambda>t. t"]) (simp_all add: frame)
qed

section \<open>One instalment\<close>

lemma SaveVAPayment_error:
  "SaveVAPayment e i p a r w = (Inl err, v) \<Longrightarrow> v = w \<or> (\<exists>n. v = w\<lparr>w_uuids := n\<rparr>)"
  by (auto simp: SaveVAPayment_def guard_def split: option.splits prod.splits sum.splits)

lemma SaveVAPayment_within:
  assumes env: "numeric_env e" and inv: "within_bill va tid tot w" and bound: "tot < 10 ^ 15"
    and amt: "amountPattern amt" "amount_cents amt < 10 ^ 15"
    and fits: "paid_sum tid w + int (amount_cents amt) \<le> int tot"
    and save: "SaveVAPayment e tid prid amt ref w = (Inr (paid, status, recorded), w')"
  shows "within_bill va tid tot w'"
proof -
  from inv obtain t where t: "filter (\<lambda>t. t_virtual_account_no t = va) (w_txns w) = [t]" "t_id t = tid"
      "t_total_amount t = Some (int tot)" "billing_of va w t = VATypeBillingVariable"
    and ok: "db_ok w" and s: "0 \<le> paid_sum tid w" "paid_sum tid w \<le> int tot"
    by (auto simp: within_bill_def)
  have mem: "t \<in> set (w_txns w)" using t(1) by (rule filter_single_mem)
  obtain k where k: "paid_sum tid w = int k" using s(1) nonneg_int_cases by blast
  have bill: "\<forall>u \<in> set (w_txns w). t_id u = tid \<longrightarrow> (\<exists>b < 10 ^ 15. t_total_amount u = Some (int b))"
  proof (intro ballI impI)
    fix u assume "u \<in> set (w_txns w)" "t_id u = tid"
    with mem t(2) ok have "u = t" by (auto simp: db_ok_def distinct_map dest: inj_onD)
    with t(3) bound show "\<exists>b < 10 ^ 15. t_total_amount u = Some (int b)" by auto
  qed
  have L: "paid_sum tid w' = int k + (if recorded then int (amount_cents amt) else 0)" "ledger_agrees tid w'"
    using SaveVAPayment_ledger [OF env save ok amt(1) k _ bill] k s bound fits by auto
  from save obtain w1 u b n where i: "insert_instalment e tid prid amt ref w = (Inr recorded, w1)"
    and "find (\<lambda>t. t_id t = tid) (w_txns w) = Some u" "t_total_amount u = Some b" "paid = sum_text tid w1"
      "status = instalment_status paid (numeric_text b)" "e_numeric e paid = Some n"
    and w': "w' = update_txns (\<lambda>t. t_id t = tid)
        (\<lambda>t. t\<lparr>t_paid_amount := Some n, t_status := status, t_updated_at := e_now e\<rparr>) w1"
    by (rule SaveVAPayment_ok)
  let ?g = "\<lambda>t. if t_id t = tid then t\<lparr>t_paid_amount := Some n, t_status := status, t_updated_at := e_now e\<rparr> else t"
  have rows: "w_txns w' = map ?g (w_txns w)"
    using insert_instalment_txns [of e tid prid amt ref w] i w' by (simp add: update_txns_def update_where_is_map)
  have acc: "w_accounts w' = w_accounts w" using SaveVAPayment_frame(3) [of e tid prid amt ref w] save by simp
  have one: "filter (\<lambda>t. t_virtual_account_no t = va) (w_txns w') = [?g t]"
    using t(1) by (simp add: rows filter_va_map)
  then have "?g t \<in> set (w_txns w')" by (rule filter_single_mem)
  with L(2) t(2) have "t_paid_amount (?g t) = Some (paid_sum tid w')" unfolding ledger_agrees_def by fastforce
  moreover have "db_ok w'" using db_ok_SaveVAPayment [OF ok, of e tid prid amt ref] save by simp
  moreover have "billing_of va w' (?g t) = VATypeBillingVariable"
    using t(2,4) by (auto simp: billing_of_def account_of_def acc split: option.splits)
  ultimately show ?thesis using one t(2,3) L(1) k s fits by (auto simp: within_bill_def paid_cents_def)
qed

section \<open>Any request on the number\<close>

text \<open>
  The failures of a statement are the driver's own: never one of the errors by which the repository says
  that a row does not exist.
\<close>

definition driver_faults :: "env \<Rightarrow> bool" where
  "driver_faults e = (\<forall>opn err. e_fault e opn = Some err \<longrightarrow> (\<exists>s. err = ErrOther s))"

lemma within_bill_current:
  assumes "within_bill va tid tot w"
  obtains t where "current_txn va w = Some t" "t_id t = tid" "t_total_amount t = Some (int tot)"
    "paid_cents t = paid_sum tid w" "billing_of va w t = VATypeBillingVariable" "t_virtual_account_no t = va"
proof -
  from assms obtain t where t: "filter (\<lambda>t. t_virtual_account_no t = va) (w_txns w) = [t]" "t_id t = tid"
      "t_total_amount t = Some (int tot)" "paid_cents t = paid_sum tid w" "billing_of va w t = VATypeBillingVariable"
    by (auto simp: within_bill_def)
  then have c: "current_txn va w = Some t" by (simp add: current_txn_def)
  show thesis by (rule that [OF c t(2-5)]) (use current_txn_mem [OF c] in simp)
qed

lemma within_bill_variable:
  assumes env: "numeric_env e" and inv: "within_bill va tid tot w" and bound: "0 < tot" "tot < 10 ^ 15"
    and amt: "amountPattern (am_Value paid)" "amount_cents (am_Value paid) < 10 ^ 15"
    and r: "ri_ID r = tid" "ri_TotalAmount r = e_scan e (int tot)"
      "ri_PaidAmount r = numeric_text0 (t_paid_amount t)" "paid_cents t = paid_sum tid w"
  shows "within_bill va tid tot (snd (payment_variable e req paid r w))"
proof (cases "variableBillOverpayment paid r")
  case True
  with inv show ?thesis by (simp add: payment_variable_def)
next
  case False
  have s: "0 \<le> paid_sum tid w" "paid_sum tid w \<le> int tot" using inv by (simp_all add: within_bill_def)
  then obtain k where k: "paid_sum tid w = int k" using nonneg_int_cases by blast
  have "t_paid_amount t = None \<and> k = 0 \<or> t_paid_amount t = Some (int k)"
    using r(4) k by (auto simp: paid_cents_def split: option.splits)
  then have fits: "paid_sum tid w + int (amount_cents (am_Value paid)) \<le> int tot"
    using overpayment_iff [OF amt(1) _ env r(2) _ r(3), of k] False bound amt(2) s k by auto
  obtain q w1 where q: "SaveVAPayment e tid (pq_PaymentRequestID req) (am_Value paid) (pq_ReferenceNo req) w = (q, w1)"
    by fastforce
  show ?thesis
  proof (cases q)
    case (Inl err)
    with SaveVAPayment_error q have "w1 = w \<or> (\<exists>n. w1 = w\<lparr>w_uuids := n\<rparr>)" by blast
    with inv within_bill_uuids have "within_bill va tid tot w1" by auto
    with False Inl q r(1) show ?thesis by (simp add: payment_variable_def)
  next
    case (Inr x)
    obtain pa st rec where x: "x = (pa, st, rec)" by (cases x)
    have w1: "within_bill va tid tot w1"
      using SaveVAPayment_within [OF env inv bound(2) amt fits] q Inr x by blast
    have "db_ok (notifyMerchantWithVA e req paid trx url w1)" for trx url
      using evolves_db_ok [OF evolves_notify(1)] w1 by (simp add: within_bill_def)
    with w1 within_bill_notify [OF w1 notify_only_merchant(1)] False Inr x q r(1) show ?thesis
      by (simp add: payment_variable_def)
  qed
qed

lemma within_bill_payment:
  assumes env: "numeric_env e" "driver_faults e" and inv: "within_bill va tid tot w" and bound: "0 < tot" "tot < 10 ^ 15"
    and amt: "amountPattern (am_Value paid)" "amount_cents (am_Value paid) < 10 ^ 15" and va: "pq_VirtualAccountNo req = va"
  shows "within_bill va tid tot (snd (payment e req paid w))"
proof -
  from inv obtain t where t: "current_txn va w = Some t" "t_id t = tid" "t_total_amount t = Some (int tot)"
      "paid_cents t = paid_sum tid w" "billing_of va w t = VATypeBillingVariable" "t_virtual_account_no t = va"
    by (rule within_bill_current)
  let ?r = "record_of e w t" and ?a = "account_of va w"
  have nb: "\<not> IsNoBill ?a"
    using t(5) by (auto simp: billing_of_def IsNoBill_def code_consts split: option.splits)
  have v: "paymentBilling ?a ?r = VATypeBillingVariable"
    using t(3,5) by (auto simp: paymentBilling_def billing_of_def split: option.splits)
  have billed: "within_bill va tid tot (snd (payment_billed e req paid ?a ?r w))"
    using inv within_bill_mark [OF inv] v within_bill_variable [OF env(1) inv bound amt, of ?r t req] t
    by (auto simp: payment_billed_def split: sum.split option.split)
  have look: "\<exists>s. optional isNotFound (fst (GetVAByVirtualAccountNo e va w)) = Inl s \<or>
      optional isNotFound (fst (GetVAByVirtualAccountNo e va w)) = Inr (Some ?r)"
    using GetVA_current [OF _ t(1,3), of e] env(2)
    by (cases "e_fault e (OpGetVA va)") (fastforce simp: GetVAByVirtualAccountNo_def driver_faults_def optional_def isNotFound_def)+
  have acc: "\<exists>s. optional (\<lambda>err. err = ErrVAAccountNotFound) (fst (GetVAAccount e va w)) = Inl s \<or>
      optional (\<lambda>err. err = ErrVAAccountNotFound) (fst (GetVAAccount e va w)) = Inr ?a"
    using env(2) by (cases "e_fault e (OpGetAccount va)")
      (fastforce simp: GetVAAccount_def account_of_def driver_faults_def optional_def split: option.split)+
  show ?thesis
    using look acc inv nb billed va
    by (cases ?a) (auto simp: payment_def split: sum.split option.split)
qed

text \<open>An inquiry on any number keeps the invariant, and so does a payment on this one.\<close>

datatype vendor_call = VInquiry env VAInquiryRequest | VPayment env VAPaymentRequest Amount

fun vendor_step :: "vendor_call \<Rightarrow> world \<Rightarrow> world" where
  "vendor_step (VInquiry e req) w = snd (Inquiry e req w)"
| "vendor_step (VPayment e req paid) w = snd (Payment e req paid w)"

fun instalment_traffic :: "string \<Rightarrow> vendor_call \<Rightarrow> bool" where
  "instalment_traffic va (VInquiry e req) = (driver_faults e \<and> iq_VirtualAccountNo req = va)"
| "instalment_traffic va (VPayment e req paid) = (numeric_env e \<and> driver_faults e \<and> pq_VirtualAccountNo req = va \<and>
     amountPattern (am_Value paid) \<and> amount_cents (am_Value paid) < 10 ^ 15)"

lemma within_bill_Payment:
  assumes "within_bill va tid tot w" and "0 < tot" and "tot < 10 ^ 15" and "instalment_traffic va (VPayment e req paid)"
  shows "within_bill va tid tot (snd (Payment e req paid w))"
proof -
  have "within_bill va tid tot (snd (payment e (NormalizeBillDetails req) paid w))"
    by (rule within_bill_payment [OF _ _ assms(1-3)]) (use assms(4) in simp_all)
  then show ?thesis using assms(1) within_bill_record
    by (auto simp: Payment_def Let_def split: option.split prod.split)
qed

lemma within_bill_record_inquiry:
  assumes "within_bill va tid tot w"
  shows "within_bill va tid tot (snd (inquiry_record e req r w))"
proof -
  let ?c = "ClaimInquiryRequestID e (ri_ID r) (iq_InquiryRequestID req) w"
  have ok: "db_ok (snd ?c)" using assms db_ok_ClaimInquiryRequestID by (simp add: within_bill_def)
  have "within_bill va tid tot (snd ?c)"
  proof (cases "snd ?c = w")
    case False
    then have w: "snd ?c = update_txns (\<lambda>t. t_id t = ri_ID r \<and> claimable t)
        (\<lambda>t. t\<lparr>t_inquiry_request_id := iq_InquiryRequestID req, t_updated_at := e_now e\<rparr>) w"
      using Claim_world by blast
    show ?thesis
      by (rule within_bill_keep [OF assms ok, where g = "claimed e (ri_ID r) (iq_InquiryRequestID req)"])
        (simp_all add: w update_txns_def update_where_is_map claimed_def)
  qed (use assms in simp)
  then show ?thesis using assms within_bill_mark [OF assms]
    by (auto simp: inquiry_record_def Let_def split: prod.split sum.split)
qed

lemma within_bill_Inquiry:
  assumes "within_bill va tid tot w" and "instalment_traffic va (VInquiry e req)"
  shows "within_bill va tid tot (snd (Inquiry e req w))"
proof -
  let ?a = "account_of va w"
  from assms(1) obtain t where t: "billing_of va w t = VATypeBillingVariable" by (rule within_bill_current)
  have nb: "\<not> IsNoBill ?a"
    using t by (auto simp: billing_of_def IsNoBill_def code_consts split: option.splits)
  have acc: "\<exists>s. optional (\<lambda>err. err = ErrVAAccountNotFound) (fst (GetVAAccount e va w)) = Inl s \<or>
      optional (\<lambda>err. err = ErrVAAccountNotFound) (fst (GetVAAccount e va w)) = Inr ?a"
    using assms(2) by (cases "e_fault e (OpGetAccount va)")
      (fastforce simp: GetVAAccount_def account_of_def driver_faults_def optional_def split: option.split)+
  then show ?thesis
    using assms nb within_bill_record_inquiry [OF assms(1)]
    by (cases ?a) (auto simp: Inquiry_def split: sum.split option.split)
qed

lemma within_bill_step:
  assumes "within_bill va tid tot w" and "0 < tot" and "tot < 10 ^ 15" and "instalment_traffic va c"
  shows "within_bill va tid tot (vendor_step c w)"
  using assms within_bill_Payment within_bill_Inquiry by (cases c) auto

text \<open>C5: Starting from a variable bill whose instalments sum to at most its total, no sequence of inquiries and
  payments on its number, with any well-formed amounts and with any database failures along the way,
  collects more than the total; and the row's paid amount stays the sum of the instalments.\<close>

theorem instalments_never_exceed_bill:
  assumes "within_bill va tid tot w" and "0 < tot" and "tot < 10 ^ 15" and "list_all (instalment_traffic va) calls"
  shows "within_bill va tid tot (fold vendor_step calls w) \<and> paid_sum tid (fold vendor_step calls w) \<le> int tot"
proof -
  have "within_bill va tid tot (fold vendor_step calls w)"
    using assms(1,4) by (induction calls arbitrary: w) (auto intro: within_bill_step [OF _ assms(2,3)])
  then show ?thesis by (simp add: within_bill_def)
qed

definition demo_variable :: world where
  "demo_variable = fresh_world\<lparr>w_txns := [demo_txn\<lparr>t_va_type := Some ''02''\<rparr>]\<rparr>"

theorem instalments_never_exceed_bill_witness:
  "paid_sum ''t1'' (fold vendor_step [VPayment demo_env demo_request demo_paid,
     VPayment demo_env (demo_request\<lparr>pq_PaymentRequestID := ''p2''\<rparr>) demo_paid] demo_variable) \<le> 25000"
proof -
  have v: "t_va_type (demo_txn\<lparr>t_va_type := Some ''02''\<rparr>) = Some ''02''" "t_id demo_txn = ''t1''"
    "t_total_amount demo_txn = Some 25000" "t_paid_amount demo_txn = None" "t_virtual_account_no demo_txn = ''12345678''"
    by (simp_all add: demo_txn_def)
  have w: "within_bill ''12345678'' ''t1'' 25000 demo_variable"
    by (simp add: within_bill_def demo_variable_def fresh_world_def db_ok_def payment_ids_def paid_sum_def instalments_of_def
        paid_cents_def billing_of_def account_of_def v BillingForVAType_def)
  have d: "driver_faults demo_env" by (simp add: driver_faults_def)
  have calls: "list_all (instalment_traffic ''12345678'') [VPayment demo_env demo_request demo_paid,
     VPayment demo_env (demo_request\<lparr>pq_PaymentRequestID := ''p2''\<rparr>) demo_paid]"
    using d demo_paid_amount by (simp add: demo_numeric_env)
  show ?thesis using instalments_never_exceed_bill [OF w _ _ calls] by simp
qed

end
