(* ===== verification/CallbackProps.thy ===== *)
theory CallbackProps
  imports InstalmentProps
begin

text \<open>
  Merchant callbacks: the first expiry of a number is told and no later one, every task in the queue has its audit row, and the worker
  records what the merchant answered.
\<close>

section \<open>Audit rows are kept\<close>

definition told :: "string \<Rightarrow> string \<Rightarrow> string \<Rightarrow> world \<Rightarrow> bool" where
  "told va ev trig w = (\<exists>d \<in> set (w_deliveries w). nd_VirtualAccountNo d = va \<and> nd_EventType d = ev \<and> nd_Trigger d = trig)"

lemma apply_result_sel [simp]:
  "nd_VirtualAccountNo (apply_result e r d) = nd_VirtualAccountNo d" "nd_EventType (apply_result e r d) = nd_EventType d"
  "nd_Trigger (apply_result e r d) = nd_Trigger d" "nd_ID (apply_result e r d) = nd_ID d"
  by (simp_all add: apply_result_def)

lemma told_update:
  "told va ev trig (w\<lparr>w_deliveries := update_where p (apply_result e r) (w_deliveries w)\<rparr>) = told va ev trig w"
proof -
  let ?k = "\<lambda>d. (nd_VirtualAccountNo d, nd_EventType d, nd_Trigger d)"
  have "told va ev trig v \<longleftrightarrow> (va, ev, trig) \<in> set (map ?k (w_deliveries v))" for v by (auto simp: told_def)
  moreover have "map ?k (update_where p (apply_result e r) (w_deliveries w)) = map ?k (w_deliveries w)"
    by (rule map_update_where) simp
  ultimately show ?thesis by (simp only: world.select_convs(6) world.update_convs(6)) simp
qed

lemma told_run_call: "told va ev trig w \<Longrightarrow> told va ev trig (run_call e c w)"
proof -
  assume t: "told va ev trig w"
  consider (create) d where "c = CCreateDelivery d" | (update) i r where "c = CUpdateDelivery i r"
    | (other) "\<And>d. c \<noteq> CCreateDelivery d" "\<And>i r. c \<noteq> CUpdateDelivery i r" by blast
  then show ?thesis
  proof cases
    case (create d)
    with t Create_keeps show ?thesis by (auto simp: told_def)
  next
    case (update i r)
    with t show ?thesis by (simp add: UpdateDeliveryResult_def snd_guard told_update)
  next
    case other
    with t run_call_deliveries [of c e w] show ?thesis by (simp add: told_def)
  qed
qed

lemma told_evolves: "evolves w v \<Longrightarrow> told va ev trig w \<Longrightarrow> told va ev trig v"
  by (induction rule: evolves.induct) (auto simp: told_run_call, simp_all add: told_def)

lemma already_told_iff:
  "already_told e va w \<longleftrightarrow> e_delivery_repo e \<and> e_fault e (OpExistsDelivery va) = None \<and>
     told va NotificationEventVAExpired NotificationTriggerAuto w"
  by (auto simp: already_told_def ExistsByVirtualAccountNoAndEventType_def told_def guard_def split: option.splits)

section \<open>Every queued task is on file\<close>

text \<open>The audit store works: it is configured, its insert succeeds and the identifier is new.\<close>

definition auditing :: "env \<Rightarrow> string \<Rightarrow> world \<Rightarrow> bool" where
  "auditing e va w = (e_delivery_repo e \<and> e_fault e (OpCreateDelivery va) = None \<and> fresh_id e w \<noteq> [] \<and>
     (\<forall>d \<in> set (w_deliveries w). nd_ID d \<noteq> fresh_id e w))"

lemma dispatch_row_on_file:
  assumes "auditing e va w"
  shows "\<exists>d \<in> set (w_deliveries (dispatch_row e p va ev tr w)). nd_ID d = fresh_id e w \<and> nd_VirtualAccountNo d = va \<and>
    nd_EventType d = ev \<and> nd_Trigger d = tr \<and> nd_Status d = NotificationDeliveryStatusQueued"
  using assms
  by (auto simp: auditing_def dispatch_row_def Create_def Let_def queued_delivery_def next_uuid_def)

lemma dispatch_told:
  assumes "auditing e va w"
  shows "told va ev tr (snd (dispatchNotification e payload va ev tr w))"
proof -
  have "told va ev tr (dispatch_row e (sent_payload e payload tr w) va ev tr w)"
    using dispatch_row_on_file [OF assms, of "sent_payload e payload tr w" ev tr] by (auto simp: told_def)
  then show ?thesis unfolding dispatch_char Let_def
    by (auto simp: told_update UpdateDeliveryResult_def snd_guard split: option.split) (simp_all add: told_def)
qed

text \<open>A callback never enters the queue without its audit row: when a dispatch queues a task, the delivery
  row it names is on file, as queued, for the same number, event and trigger; and a dispatch the queue
  refuses leaves the queue as it was and its row marked as failed, or as duplicate when the queue
  already holds the same task.\<close>

theorem dispatch_is_audited:
  assumes "auditing e va w" and "e_notifier e" and "e_fault e (OpUpdateDelivery (fresh_id e w)) = None"
    and "dispatchNotification e payload va ev tr w = (res, w')"
  shows "\<exists>p d. np_DeliveryID p = nd_ID d \<and> d \<in> set (w_deliveries w') \<and> nd_VirtualAccountNo d = va \<and> nd_EventType d = ev \<and>
    nd_Trigger d = tr \<and>
    (case e_enqueue e p of
       None \<Rightarrow> w_queue w' = w_queue w @ [p] \<and> nd_Status d = NotificationDeliveryStatusQueued
     | Some x \<Rightarrow> w_queue w' = w_queue w \<and> nd_Status d =
         (if x = ErrNotificationDuplicate then NotificationDeliveryStatusDuplicate else NotificationDeliveryStatusFailed))"
proof -
  let ?p = "sent_payload e payload tr w"
  let ?v = "dispatch_row e ?p va ev tr w"
  obtain d where d: "d \<in> set (w_deliveries ?v)" "nd_ID d = fresh_id e w" "nd_VirtualAccountNo d = va"
      "nd_EventType d = ev" "nd_Trigger d = tr" "nd_Status d = NotificationDeliveryStatusQueued"
    using dispatch_row_on_file [OF assms(1)] by blast
  have repo: "e_delivery_repo e" using assms(1) by (simp add: auditing_def)
  have w': "w' = snd (dispatchNotification e payload va ev tr w)" using assms(4) by simp
  have id: "np_DeliveryID ?p = fresh_id e w" by (simp add: sent_payload_def)
  show ?thesis
  proof (cases "e_enqueue e ?p")
    case None
    then have "w' = ?v\<lparr>w_queue := w_queue ?v @ [?p]\<rparr>" using assms(2) by (simp add: w' dispatch_char Let_def)
    with None d id show ?thesis by (intro exI [of _ ?p] exI [of _ d]) simp
  next
    case (Some x)
    define r where "r = \<lparr>nr_Status = (if x = ErrNotificationDuplicate then NotificationDeliveryStatusDuplicate else NotificationDeliveryStatusFailed),
             nr_AttemptCount = 0, nr_HTTPStatus = 0, nr_ErrorDetail = Error x\<rparr>"
    have w2: "w' = ?v\<lparr>w_deliveries := update_where (open_delivery (fresh_id e w)) (apply_result e r) (w_deliveries ?v)\<rparr>"
      using Some assms(2,3) repo by (simp add: w' dispatch_char Let_def r_def UpdateDeliveryResult_def)
    have "apply_result e r d \<in> set (w_deliveries w')"
      using d(1,2,6) by (auto simp: w2 set_update_where open_delivery_def code_consts)
    moreover have "nd_Status (apply_result e r d) = nr_Status r" by (simp add: apply_result_def)
    ultimately show ?thesis
      using Some d id w2 by (intro exI [of _ ?p] exI [of _ "apply_result e r d"]) (simp add: r_def)
  qed
qed

section \<open>Only the first expiry of a number is told\<close>

text \<open>The two ways an expiry is found: for a bill that is inquired or paid, and for a registration without a bill.\<close>

definition expire :: "env \<Rightarrow> VAInquiryRecord + VAAccount \<Rightarrow> world \<Rightarrow> world" where
  "expire e x w = (case x of Inl r \<Rightarrow> markExpiredAndNotify e r w | Inr a \<Rightarrow> markRegistrationExpiredAndNotify e a w)"

definition number_of :: "VAInquiryRecord + VAAccount \<Rightarrow> string" where
  "number_of x = (case x of Inl r \<Rightarrow> ri_VirtualAccountNo r | Inr a \<Rightarrow> ac_VirtualAccountNo a)"

lemma auditing_cong: "w_deliveries v = w_deliveries w \<Longrightarrow> w_uuids v = w_uuids w \<Longrightarrow> auditing e va v = auditing e va w"
  by (simp add: auditing_def fresh_id_def)

lemma expire_told:
  assumes "auditing e (number_of x) w" and "w_queue (expire e x w) \<noteq> w_queue w"
  shows "told (number_of x) NotificationEventVAExpired NotificationTriggerAuto (expire e x w)"
proof (cases x)
  case (Inl r)
  have a: "auditing e (ri_VirtualAccountNo r) (update_txns p f w)" for p f
    using assms(1) auditing_cong [of "update_txns p f w" w] by (simp add: Inl number_of_def update_txns_def)
  show ?thesis using assms(2) dispatch_told [OF a]
    by (auto simp: Inl expire_def number_of_def markExpired_char Let_def enqueueAndAudit_def update_txns_def split: if_splits)
next
  case (Inr acc)
  have a: "auditing e (ac_VirtualAccountNo acc) (close_account e' va s w)" for e' va s
    using assms(1) auditing_cong [of "close_account e' va s w" w] by (simp add: Inr number_of_def close_account_def)
  show ?thesis using assms(2) dispatch_told [OF a]
    by (auto simp: Inr expire_def number_of_def markRegistrationExpiredAndNotify_def repo enqueueAndAudit_def close_account_def
        split: if_splits option.splits)
qed

lemma expire_silent:
  assumes "told (number_of x) NotificationEventVAExpired NotificationTriggerAuto w" and "e_delivery_repo e"
    and "e_fault e (OpExistsDelivery (number_of x)) = None"
  shows "w_queue (expire e x w) = w_queue w"
    and "isl x \<Longrightarrow> e_fault e (OpUpdateVAStatus (number_of x)) = None \<Longrightarrow>
      w_txns (expire e x w) = update_where (pending_of (number_of x)) (set_status e ''02'') (w_txns w)"
proof -
  have "told va ev tr (update_txns p f v) = told va ev tr v" "told va ev tr (close_account e' va' s v) = told va ev tr v" for va ev tr p f e' va' s v
    by (simp_all add: told_def update_txns_def close_account_def)
  then have t: "already_told e (number_of x) (update_txns p f w)" "already_told e (number_of x) (close_account e' va' s w)" for p f e' va' s
    using assms by (simp_all add: already_told_iff)
  show "w_queue (expire e x w) = w_queue w"
    using t by (cases x) (auto simp: expire_def number_of_def markExpired_char Let_def update_txns_def close_account_def
        markRegistrationExpiredAndNotify_def repo split: option.split)
  show "w_txns (expire e x w) = update_where (pending_of (number_of x)) (set_status e ''02'') (w_txns w)"
    if f: "isl x" "e_fault e (OpUpdateVAStatus (number_of x)) = None"
  proof (cases "has_pending (number_of x) w")
    case True
    with t f show ?thesis by (cases x) (auto simp: expire_def number_of_def markExpired_char Let_def update_txns_def)
  next
    case False
    then have "update_where (pending_of (number_of x)) g (w_txns w) = w_txns w" for g
      by (auto simp: has_pending_def update_where_def intro: map_idI)
    with False f show ?thesis by (cases x) (auto simp: expire_def number_of_def markExpired_no_pending)
  qed
qed

text \<open>C22: The dedupe of expiry callbacks is per number, not per bill. Once the expiry of a bill or of a registration has
  put a callback into the queue, while the audit row of that callback could be written, no later expiry of that
  number queues another one as long as the audit table can be read, whatever happened in between: repeated
  detections of one expiry are told once, but so is a new bill of the number that was opened in between; it is
  closed like the first and nobody is told.\<close>

theorem only_first_expiry_is_told:
  assumes "auditing e (number_of x) w" and "w_queue (expire e x w) \<noteq> w_queue w" and "evolves (expire e x w) v"
    and "e_delivery_repo e'" and "e_fault e' (OpExistsDelivery (number_of x)) = None" and "number_of x' = number_of x"
  shows "w_queue (expire e' x' v) = w_queue v \<and>
    (isl x' \<and> e_fault e' (OpUpdateVAStatus (number_of x)) = None \<longrightarrow>
       w_txns (expire e' x' v) = update_where (pending_of (number_of x)) (set_status e' ''02'') (w_txns v))"
proof -
  have "told (number_of x') NotificationEventVAExpired NotificationTriggerAuto v"
    using told_evolves [OF assms(3) expire_told [OF assms(1,2)]] assms(6) by simp
  from expire_silent [OF this assms(4)] assms(5,6) show ?thesis by simp
qed

section \<open>The worker records the answer\<close>

text \<open>When the worker has tried to deliver a task whose row is not yet successful, the row says what
  happened: success exactly when the merchant's endpoint answered with a status below 400, retrying
  while attempts remain and failed after the last, with the attempt number never going down and the
  merchant's status and message on failure.\<close>

theorem worker_records_the_answer:
  assumes "e_delivery_repo e" and "e_fault e (OpUpdateDelivery (np_DeliveryID task)) = None" and "np_DeliveryID task \<noteq> []"
    and "d \<in> set (w_deliveries w)" and "open_delivery (np_DeliveryID task) d"
    and "HandlePaymentNotification e post task retried maxRetry w = (err, w')"
  shows "\<exists>d' \<in> set (w_deliveries w'). nd_ID d' = nd_ID d \<and> nd_AttemptCount d' = max (nd_AttemptCount d) (retried + 1) \<and>
    nd_Status d' = (if np_NotificationURL task \<noteq> [] \<and> (\<exists>code body. post (np_NotificationURL task) (notification_body e task) = Inr (code, body) \<and> code < 400)
       then NotificationDeliveryStatusSuccess
       else if retried < maxRetry then NotificationDeliveryStatusRetrying else NotificationDeliveryStatusFailed) \<and>
    (case err of None \<Rightarrow> nd_HTTPStatus d' = 200 | Some x \<Rightarrow> nd_HTTPStatus d' = dl_httpStatus x \<and> nd_ErrorDetail d' = dl_text x)"
proof -
  let ?r = "delivery_result retried maxRetry err"
  have err: "err = deliver e post task" and w': "w' = w\<lparr>w_deliveries := update_where (open_delivery (np_DeliveryID task)) (apply_result e ?r) (w_deliveries w)\<rparr>"
    using assms(1-3,6) by (auto simp: HandlePaymentNotification_def Let_def recordResult_def UpdateDeliveryResult_def)
  have "apply_result e ?r d \<in> set (w_deliveries w')" using assms(4,5) by (auto simp: w' set_update_where)
  moreover have "err = None \<longleftrightarrow> np_NotificationURL task \<noteq> [] \<and>
      (\<exists>code body. post (np_NotificationURL task) (notification_body e task) = Inr (code, body) \<and> code < 400)"
    by (auto simp: err deliver_def not_le split: sum.splits)
  ultimately show ?thesis
    by (intro bexI [of _ "apply_result e ?r d"]) (auto simp: apply_result_def delivery_result_def split: option.split)
qed

section \<open>Exercising the callbacks\<close>

definition demo_payload :: PaymentNotificationPayload where
  "demo_payload = emptyPayload\<lparr>np_EventType := ''payment.received'', np_NotificationURL := ''http://m''\<rparr>"

lemma demo_auditing: "auditing demo_env va demo_world"
  by (simp add: auditing_def demo_world_def fresh_world_def fresh_id_def)

theorem dispatch_is_audited_witness:
  "\<exists>p d w'. w' = snd (dispatchNotification demo_env demo_payload ''12345678'' ''payment.received'' ''auto'' demo_world) \<and>
     w_queue w' = [p] \<and> d \<in> set (w_deliveries w') \<and> np_DeliveryID p = nd_ID d \<and> nd_Status d = NotificationDeliveryStatusQueued"
proof -
  obtain res w' where d: "dispatchNotification demo_env demo_payload ''12345678'' ''payment.received'' ''auto'' demo_world = (res, w')"
    by fastforce
  from dispatch_is_audited [OF demo_auditing _ _ d] d show ?thesis by (auto simp: demo_world_def fresh_world_def)
qed

text \<open>The bill of the number expires and is told; the number is billed again; the new bill expires untold.\<close>

theorem only_first_expiry_is_told_witness:
  "\<exists>r w1 w2. w1 = expire demo_env (Inl r) demo_world \<and> w_queue w1 \<noteq> [] \<and>
     w2 = run_call demo_env (CSaveInquiry r) w1 \<and> has_pending ''12345678'' w2 \<and>
     w_queue (expire demo_env (Inl r) w2) = w_queue w2 \<and> \<not> has_pending ''12345678'' (expire demo_env (Inl r) w2)"
proof -
  let ?r = "record_of demo_env demo_world demo_txn"
  let ?w = "update_txns (pending_of ''12345678'') (set_status demo_env ''02'') demo_world"
  have r: "ri_VirtualAccountNo ?r = ''12345678''" "ri_NotificationURL ?r = ''http://m''" "ri_InquiryRequestID ?r = ''12345678''"
    "ri_Status ?r = ''03''" "ri_TotalAmount ?r = numeric_text 25000" "ri_ID ?r = ''t1''"
    by (simp_all add: record_of_def scan_inquiry_def demo_txn_def)
  define w1 where "w1 = expire demo_env (Inl ?r) demo_world"
  have "\<not> already_told demo_env ''12345678'' ?w"
    by (simp add: already_told_iff told_def update_txns_def demo_world_def fresh_world_def)
  then have q: "w_queue w1 \<noteq> w_queue demo_world"
    using demo_pending by (simp add: w1_def expire_def markExpired_char Let_def r enqueueAndAudit_def queue_dispatch update_txns_def)
  obtain t where t: "w_txns w1 = [t]" "t_inquiry_request_id t = ''12345678''" "t_virtual_account_no t = ''12345678''"
    using markExpired_txns [of demo_env ?r demo_world]
    by (auto simp: w1_def expire_def r demo_world_def demo_txn_def update_where_def set_status_def)
  define w2 where "w2 = run_call demo_env (CSaveInquiry ?r) w1"
  have "demo_numeric (numeric_text 25000) = Some 25000" by (simp add: demo_numeric_def numeric_text_def cents_text_pattern)
  then have p: "has_pending ''12345678'' w2"
    by (simp add: w2_def SaveInquiry_def Let_def r upsert_txn_def t has_inquiry_id_def inquiry_row_def update_txns_def update_where_def
        has_pending_def pending_of_def inquiry_upsert_def)
  have a: "auditing demo_env (number_of (Inl ?r)) demo_world" by (rule demo_auditing)
  have v: "evolves w1 w2" unfolding w2_def by (rule evolves_run)
  have "w_queue (expire demo_env (Inl ?r) w2) = w_queue w2 \<and>
      w_txns (expire demo_env (Inl ?r) w2) = w_txns (update_txns (pending_of ''12345678'') (set_status demo_env ''02'') w2)"
    using only_first_expiry_is_told [OF a, of w2 demo_env "Inl ?r"] q v
    by (simp add: w1_def [symmetric] number_of_def r update_txns_def)
  then have s: "w_queue (expire demo_env (Inl ?r) w2) = w_queue w2" "\<not> has_pending ''12345678'' (expire demo_env (Inl ?r) w2)"
    using set_status_clears [of "''02''" "''12345678''" demo_env w2] by (simp_all add: has_pending_def)
  have "w_queue w1 \<noteq> []" using q by (simp add: demo_world_def fresh_world_def)
  then show ?thesis using w1_def w2_def p s by blast
qed

theorem worker_records_the_answer_witness:
  "\<exists>d'. d' \<in> set (w_deliveries (snd (HandlePaymentNotification demo_env (\<lambda>_ _. Inr (503, ''busy''))
       (demo_payload\<lparr>np_DeliveryID := ''d1''\<rparr>) 0 3 (fresh_world\<lparr>w_deliveries := [demo_delivery\<lparr>nd_Status := ''queued''\<rparr>]\<rparr>)))) \<and>
     nd_Status d' = NotificationDeliveryStatusRetrying"
proof -
  let ?w = "fresh_world\<lparr>w_deliveries := [demo_delivery\<lparr>nd_Status := ''queued''\<rparr>]\<rparr>"
  let ?t = "demo_payload\<lparr>np_DeliveryID := ''d1''\<rparr>" and ?p = "\<lambda>_ _. Inr (503, ''busy'') :: string + int \<times> string"
  obtain err w' where h: "HandlePaymentNotification demo_env ?p ?t 0 3 ?w = (err, w')" by fastforce
  have o: "open_delivery (np_DeliveryID ?t) (demo_delivery\<lparr>nd_Status := ''queued''\<rparr>)"
    by (simp add: open_delivery_def demo_delivery_def code_consts)
  from worker_records_the_answer [OF _ _ _ _ o h] h show ?thesis by (fastforce simp: demo_payload_def)
qed

end
