(* ===== verification/StatusProps.thy ===== *)
theory StatusProps
  imports CallbackProps
begin

text \<open>
  Status inquiries and payments without a bill.
\<close>

section \<open>Status\<close>

definition status_row :: "string \<Rightarrow> world \<Rightarrow> txn option" where
  "status_row i w = find (\<lambda>t. has_payment_id i t \<or> has_inquiry_id i t) (w_txns w)"

text \<open>The row a status request is answered from: by payment identifier when one is given, else, or when none
  matches, by inquiry identifier.\<close>

definition status_answer_row :: "VAStatusRequest \<Rightarrow> world \<Rightarrow> txn option" where
  "status_answer_row req w = (if sq_PaymentRequestID req = [] then status_row (sq_InquiryRequestID req) w
     else orelse (status_row (sq_PaymentRequestID req) w) (status_row (sq_InquiryRequestID req) w))"

lemma GetPayment_row: "no_faults e \<Longrightarrow> fst (GetPayment e i w) =
    (case status_row i w of None \<Rightarrow> Inl ErrVAInvalidBill | Some t \<Rightarrow> Inr (scanPayment e t))"
  by (simp add: GetPayment_def no_faults_def status_row_def)

lemma status_lookup_row:
  assumes "no_faults e"
  shows "status_lookup e req w = (case status_answer_row req w of None \<Rightarrow> Inl ErrVAInvalidBill | Some t \<Rightarrow> Inr (scanPayment e t))"
  using GetPayment_row [OF assms]
  by (auto simp: status_lookup_def Let_def status_answer_row_def isNotFound_def split: option.split)

lemma Status_row:
  assumes "no_faults e"
  shows "Status e req w = (case status_answer_row req w of
      Some t \<Rightarrow> (Inr (status_of_payment e (scanPayment e t) w), w)
    | None \<Rightarrow> (Inl (NewDomainError CodeStatusNotFound ''Transaction Not Found'' None), w))"
proof (cases "status_answer_row req w")
  case None
  then have "status_row (sq_InquiryRequestID req) w = None"
    by (auto simp: status_answer_row_def split: if_splits)
  then have "find (has_inquiry_id (sq_InquiryRequestID req)) (w_txns w) = None"
    by (auto simp: status_row_def find_None_iff)
  then have "fst (GetInquiry e (sq_InquiryRequestID req) w) = Inl ErrVAInvalidBill"
    using assms by (simp add: GetInquiry_def no_faults_def)
  with None status_lookup_row [OF assms, of req w] show ?thesis by (simp add: Status_def isNotFound_def)
qed (simp add: Status_def status_lookup_row [OF assms])

text \<open>While the database answers, a status request changes nothing and is answered from one transaction row,
  found by payment identifier or by inquiry identifier, with that row's stored status as the payment flag
  status and its stored amounts; when there is no such row the answer is 4042601. The branch that would
  describe a pending inquiry is never taken: a pending row is answered with whatever its payment columns
  hold, an empty payment identifier and an unformatted zero before any payment.\<close>

theorem status_reports_the_stored_row:
  assumes "no_faults e" and "Status e req w = (outcome, w')"
  shows "w' = w \<and> (case status_answer_row req w of
      None \<Rightarrow> (\<exists>err. outcome = Inl err \<and> de_SNAPCode err = ''4042601'')
    | Some t \<Rightarrow> (\<exists>resp d. outcome = Inr resp \<and> sr_VirtualAccountData resp = Some d \<and> sd_PaymentFlagStatus d = t_status t \<and>
        sd_PaymentFlagReason d = Some (getPaymentFlagReason (t_status t)) \<and>
        sd_PaymentRequestID d = (case t_payment_request_id t of None \<Rightarrow> [] | Some i \<Rightarrow> i) \<and>
        sd_PaidAmount d = Some \<lparr>am_Value = (case t_paid_amount t of None \<Rightarrow> ''0'' | Some n \<Rightarrow> e_scan e n), am_Currency = t_currency t\<rparr>))"
proof (cases "status_answer_row req w")
  case (Some t)
  have "outcome = Inr (status_of_payment e (scanPayment e t) w)" "w' = w"
    using assms(2) Status_row [OF assms(1), of req w] Some by auto
  with Some show ?thesis
    by (simp add: status_of_payment_def scanPayment_def scan_numeric0_def or_empty_def)
qed (use assms(2) Status_row [OF assms(1), of req w] in \<open>auto simp: NewDomainError_def code_consts\<close>)

text \<open>The status endpoint publishes the gateway's own state codes: a bill that expired without being paid is
  reported with payment flag status 02, described as a timeout of the payment.\<close>

theorem expired_bill_reported_as_timeout:
  assumes "no_faults e" and "status_answer_row req w = Some t" and "t_status t = ''02''"
  shows "\<exists>resp d. fst (Status e req w) = Inr resp \<and> sr_ResponseCode resp = CodeStatusSuccess \<and> sr_VirtualAccountData resp = Some d \<and>
    sd_PaymentFlagStatus d = ''02'' \<and> sd_PaymentFlagReason d = Some (bilingual ''Timeout'' ''Waktu Habis'')"
  using assms Status_row [OF assms(1), of req w]
  by (simp add: status_of_payment_def scanPayment_def getPaymentFlagReason_def)

section \<open>Payments without a bill\<close>

lemma SaveNoBillPayment_new:
  assumes "no_faults e" and "rp_ID pay = []" and "e_numeric e (rp_TotalAmount pay) = Some q" and "e_numeric e (rp_PaidAmount pay) = Some p"
    and "rp_InquiryRequestID pay \<notin> t_inquiry_request_id ` set (w_txns w)" and "fresh_id e w \<notin> t_id ` set (w_txns w)"
  shows "SaveNoBillPayment e pay w = (Inr (payment_defaults e pay w), (next_uuid w)\<lparr>w_txns := w_txns w @
    [payment_row (payment_defaults e pay w) q p (Some (rp_VAType pay))]\<rparr>)"
  using assms by (simp add: SaveNoBillPayment_def Let_def no_faults_def next_uuid_def payment_row_def payment_defaults_def)

text \<open>The row of an open-amount payment.\<close>

definition own_row :: "VAPaymentRequest \<Rightarrow> nat \<Rightarrow> txn \<Rightarrow> bool" where
  "own_row req n t = (t_virtual_account_no t = pq_VirtualAccountNo req \<and> t_status t = ''00'' \<and>
     t_paid_amount t = Some (int n) \<and> t_total_amount t = Some (int n) \<and>
     t_payment_request_id t = Some (pq_PaymentRequestID req) \<and> t_inquiry_request_id t = pq_PaymentRequestID req)"

text \<open>A first payment on an active registration without a bill is accepted for every positive amount, as a
  settled transaction of its own, and leaves the registration and all other transactions as they were; an
  amount of zero is refused with 4042513 and changes none of them.\<close>

theorem open_amount_payment_adds_its_row:
  assumes "first_request e req w" and "numeric_env e" and "account_of (pq_VirtualAccountNo req) w = Some a"
    and "ac_Billing a = VATypeBillingNone" and "ac_Status a = VAAccountStatusActive" and "\<not> account_IsExpired a (e_now e)"
    and "amountPattern (am_Value paid)" and "amount_cents (am_Value paid) < 10 ^ 15"
    and "pq_PaymentRequestID req \<notin> t_inquiry_request_id ` set (w_txns w)" and "fresh_id e w \<notin> t_id ` set (w_txns w)"
    and "Payment e req paid w = (outcome, w')"
  shows "w_accounts w' = w_accounts w \<and> (if 0 < amount_cents (am_Value paid)
    then (\<exists>resp t. outcome = Inr resp \<and> pr_ResponseCode resp = ''2002500'' \<and>
       own_row req (amount_cents (am_Value paid)) t \<and> w_txns w' = w_txns w @ [t])
    else (\<exists>err. outcome = Inl err \<and> de_SNAPCode err = ''4042513'' \<and> w_txns w' = w_txns w))"
proof -
  let ?req = "NormalizeBillDetails req" and ?n = "amount_cents (am_Value paid)"
  let ?s = "no_bill_record e (NormalizeBillDetails req) paid a"
  have va: "ac_VirtualAccountNo a = pq_VirtualAccountNo req"
    using assms(3) find_Some_mem by (fastforce simp: account_of_def account_va_def)
  have p: "payment e ?req paid w = paymentNoBill e ?req paid a w"
    using payment_start [OF assms(1), of paid] assms(3,4) by (simp add: IsNoBill_def)
  have f: "ParseFloat (am_Value paid) = Some (money ?n)" using assms(7,8) by (simp add: ParseFloat_amount)
  have z: "f64_le (money ?n) (Fin 0) \<longleftrightarrow> ?n = 0" using assms(8) by (rule money_positive)
  have num: "e_numeric e (am_Value paid) = Some (int ?n)" using numeric_env_read [OF assms(2,7)] assms(8) by simp
  have sel: "rp_ID ?s = []" "rp_TotalAmount ?s = am_Value paid" "rp_PaidAmount ?s = am_Value paid"
    "rp_InquiryRequestID ?s = pq_PaymentRequestID req" "rp_VirtualAccountNo ?s = pq_VirtualAccountNo req"
    "rp_PaymentRequestID ?s = pq_PaymentRequestID req" "rp_Status ?s = ''00''"
    by (simp_all add: no_bill_record_def request_record_def va)
  let ?t = "payment_row (payment_defaults e ?s w) (int ?n) (int ?n) (Some (rp_VAType ?s))"
  have save: "SaveNoBillPayment e ?s w = (Inr (payment_defaults e ?s w), (next_uuid w)\<lparr>w_txns := w_txns w @ [?t]\<rparr>)"
    by (rule SaveNoBillPayment_new) (use assms(1,9,10) num sel in \<open>simp_all add: first_request_def\<close>)
  have row: "own_row req ?n ?t"
    by (simp add: own_row_def payment_row_def payment_defaults_def sel)
  let ?v = "(next_uuid w)\<lparr>w_txns := w_txns w @ [?t]\<rparr>"
  have fr: "w_txns (notifyMerchantForAccount e ?req paid a d ?v) = w_txns w @ [?t]"
      "w_accounts (notifyMerchantForAccount e ?req paid a d ?v) = w_accounts w" for d
    using notify_only_merchant(2) [of ?v e ?req paid a d] by (simp_all add: notify_only_def next_uuid_def)
  show ?thesis
  proof (cases "0 < ?n")
    case True
    with p assms(5,6) f z save have "\<exists>resp. payment e ?req paid w = (Inr resp, notifyMerchantForAccount e ?req paid a (transaction_date e ?req) ?v) \<and>
        pr_ResponseCode resp = CodePaymentSuccess"
      by (simp add: paymentNoBill_def accepted_def)
    with first_request_Payment [OF assms(1), of paid] assms(11) True row fr show ?thesis
      by (auto simp: frame code_consts)
  next
    case False
    with p assms(5,6) f z first_request_Payment [OF assms(1), of paid] assms(11) show ?thesis
      by (auto simp: paymentNoBill_def frame NewDomainError_def code_consts)
  qed
qed

section \<open>Exercising the rules\<close>

definition demo_status :: VAStatusRequest where
  "demo_status = \<lparr>sq_PartnerServiceID = ''12345'', sq_CustomerNo = ''678'', sq_VirtualAccountNo = ''12345678'',
     sq_InquiryRequestID = ''12345678'', sq_PaymentRequestID = [], sq_AdditionalInfo = []\<rparr>"

lemma demo_status_row: "status_answer_row demo_status (demo_world\<lparr>w_txns := [demo_txn\<lparr>t_status := s\<rparr>]\<rparr>) = Some (demo_txn\<lparr>t_status := s\<rparr>)"
  by (simp add: status_answer_row_def status_row_def demo_status_def has_inquiry_id_def demo_txn_def)

theorem status_reports_the_stored_row_witness:
  "\<exists>resp d. fst (Status demo_env demo_status (demo_world\<lparr>w_txns := [demo_txn\<lparr>t_status := ''03''\<rparr>]\<rparr>)) = Inr resp \<and>
     sr_VirtualAccountData resp = Some d \<and> sd_PaymentFlagStatus d = ''03'' \<and> sd_PaymentRequestID d = []"
proof -
  let ?w = "demo_world\<lparr>w_txns := [demo_txn\<lparr>t_status := ''03''\<rparr>]\<rparr>"
  obtain out w' where s: "Status demo_env demo_status ?w = (out, w')" by fastforce
  from status_reports_the_stored_row [OF demo_no_faults s] s demo_status_row [of "''03''"] show ?thesis
    by (auto simp: demo_txn_def)
qed

theorem expired_bill_reported_as_timeout_witness:
  "\<exists>resp d. fst (Status demo_env demo_status (demo_world\<lparr>w_txns := [demo_txn\<lparr>t_status := ''02''\<rparr>]\<rparr>)) = Inr resp \<and>
     sr_VirtualAccountData resp = Some d \<and> sd_PaymentFlagStatus d = ''02''"
  using expired_bill_reported_as_timeout [OF demo_no_faults demo_status_row [of "''02''"]] by auto

definition demo_open :: VAAccount where
  "demo_open = demo_account\<lparr>ac_Billing := ''none'', ac_VAType := ''01''\<rparr>"

theorem open_amount_payment_adds_its_row_witness:
  "\<exists>resp w' t. Payment demo_env demo_request demo_paid (fresh_world\<lparr>w_accounts := [demo_open]\<rparr>) = (Inr resp, w') \<and>
     w_txns w' = [t] \<and> t_paid_amount t = Some 25000 \<and> w_accounts w' = [demo_open]"
proof -
  let ?w = "fresh_world\<lparr>w_accounts := [demo_open]\<rparr>"
  obtain out w' where p: "Payment demo_env demo_request demo_paid ?w = (out, w')" by fastforce
  have f: "first_request demo_env demo_request ?w"
    by (simp add: first_request_def demo_no_faults flag_answer_def fresh_world_def)
  have a: "account_of (pq_VirtualAccountNo demo_request) ?w = Some demo_open"
    by (simp add: account_of_def account_va_def demo_open_def demo_account_def)
  have b: "ac_Billing demo_open = VATypeBillingNone" "ac_Status demo_open = VAAccountStatusActive"
      "\<not> account_IsExpired demo_open (e_now demo_env)"
    by (simp_all add: demo_open_def demo_account_def account_IsExpired_def code_consts)
  from open_amount_payment_adds_its_row [OF f demo_numeric_env a b demo_paid_amount(1) _ _ _ p] p demo_paid_amount(2)
  show ?thesis by (auto simp: fresh_world_def own_row_def)
qed

end
