(* ===== verification/EntryProps.thy ===== *)
theory EntryProps
  imports StatusProps
begin

text \<open>
  The edge of the gateway: which requests pass the validators, what a rejection carries, and that the
  amounts that pass are compared exactly behind the edge although the code compares binary floats.
\<close>

section \<open>Validators\<close>

text \<open>C40: The payment validator accepts a request exactly when it is well formed: the identity fields agree and
  fit their columns, the payment identifier is present and fits, the paid amount has at most thirteen
  digits and exactly two decimals in an allowed currency, the other amounts, bills and texts are within
  their limits, the channel and the advice flag are known values, and under strict checking the
  optional mandatory fields are present.\<close>

theorem payment_validator_is_exact: "ValidatePaymentRequest r strict = None \<longleftrightarrow> payment_wellformed strict r"
  by (rule ValidatePaymentRequest_None)

text \<open>The inquiry validator accepts a request exactly when its identity fields agree and fit, its inquiry
  identifier is present and fits, its channel and amount are allowed and its optional fields fit, with the
  initiation date and channel present under strict checking.\<close>

theorem inquiry_validator_is_exact: "ValidateInquiryRequest r strict = None \<longleftrightarrow> inquiry_wellformed strict r"
  by (rule ValidateInquiryRequest_None)

section \<open>Rejections\<close>

text \<open>Every rejection of the three virtual-account services is a complete envelope: it repeats the response
  code, carries a data block with the failed status and with amounts, and a reason in both languages that
  is not empty and fits the field, whatever message caused it.\<close>

theorem rejections_are_complete:
  assumes "service \<in> {ServiceCodeInquiry, ServiceCodePayment, ServiceCodeStatus}" and "code \<notin> success_codes"
  shows "complete_rejection (NewSNAPErrorBody service code message echo) \<and>
    body_code (NewSNAPErrorBody service code message echo) = code"
  using transfer_va_rejection_complete [OF assms] by simp

theorem rejections_are_complete_witness:
  "complete_rejection (NewSNAPErrorBody ''25'' ''4042512'' ''m''
     \<lparr>ec_PartnerServiceID = [], ec_CustomerNo = [], ec_VirtualAccountNo = [], ec_InquiryRequestID = [], ec_PaymentRequestID = []\<rparr>)"
  using rejections_are_complete [of "''25''" "''4042512''"] by (simp add: code_consts success_codes_def)

text \<open>The reason of a field violation names the offending field in both languages, for every field name of
  at most thirty-nine bytes.\<close>

theorem field_violations_name_the_field:
  assumes "length service = 2" and "length field \<le> 39"
  shows "ReasonForCodeMessage (CodeInvalidField service) (''Invalid Field Format '' @ field) =
      bilingual (''Invalid Field Format '' @ field) (''Format Field Tidak Valid '' @ field) \<and>
    ReasonForCodeMessage (CodeMissingMandatory service) (''Invalid Mandatory Field '' @ field) =
      bilingual (''Invalid Mandatory Field '' @ field) (''Field Wajib Tidak Valid '' @ field)"
  using field_violation_names_field [OF assms] by simp

theorem field_violations_name_the_field_witness:
  "bt_Indonesia (ReasonForCodeMessage (CodeInvalidField ''25'') (''Invalid Field Format '' @ ''paidAmount'')) =
    ''Format Field Tidak Valid '' @ ''paidAmount''"
  using field_violations_name_the_field [of "''25''" "''paidAmount''"] by simp

section \<open>Exact amounts\<close>

text \<open>A payment request that passes validation carries a positive paid amount, and all its amounts lie in
  the range in which the use cases' floating-point comparisons are exact.\<close>

theorem validated_amounts_are_exact:
  assumes "ValidatePaymentRequest r strict = None"
  shows "\<exists>paid. pq_PaidAmount r = Some paid \<and> amounts_ok r paid \<and> 0 < amount_cents (am_Value paid)"
proof -
  obtain paid where p: "pq_PaidAmount r = Some paid" "paid_ok paid" "bills_ok r paid"
    using assms by (auto simp: ValidatePaymentRequest_None payment_wellformed_def split: option.splits)
  have "amountPattern (am_Value paid)" "amount_cents (am_Value paid) < 10 ^ 15" "0 < amount_cents (am_Value paid)"
    using p(2) paid_is_amount paid_cents_bound by (simp_all add: paid_ok_def)
  moreover have "case pq_TotalAmount r of None \<Rightarrow> True | Some a \<Rightarrow> amountPattern (am_Value a) \<and> amount_cents (am_Value a) < 10 ^ 15"
    using p(3) by (auto simp: bills_ok_def amount_ok_def split: option.splits)
  ultimately show ?thesis using p(1) by (auto simp: amounts_ok_def)
qed

theorem validated_amounts_are_exact_witness:
  "\<exists>paid. pq_PaidAmount demo_request = Some paid \<and> amounts_ok demo_request paid"
proof -
  have a: "amountPattern ''250.00''" "paidAmountPattern ''250.00''" "amount_cents ''250.00'' = 25000"
    by (simp_all add: amountPattern_def paidAmountPattern_def amount_cents_def is_digit_def digit_val_def)
  have t: "TrimSpace ''12345'' = ''12345''" "TrimSpace ''678'' = ''678''" "TrimSpace ''12345678'' = ''12345678''"
    "TrimSpace ''p1'' = ''p1''" "ToUpper (TrimSpace ''IDR'') = ''IDR''" by code_simp+
  have "payment_wellformed False demo_request"
    using a by (simp add: payment_wellformed_def demo_request_def identity_ok_def t paid_ok_def currency_ok_def bills_ok_def
        lengths_ok_def suffix_def)
  then have "ValidatePaymentRequest demo_request False = None" by (simp add: ValidatePaymentRequest_None)
  from validated_amounts_are_exact [OF this] show ?thesis by blast
qed

text \<open>Two amounts in that range compare equal to the gateway exactly when they are the same number of
  hundredths, however many decimals they are written with.\<close>

theorem amounts_compare_exactly:
  assumes "amountPattern a" and "amount_cents a < 10 ^ 15" and "amountPattern b" and "amount_cents b < 10 ^ 15"
  shows "amountsEqual a b \<longleftrightarrow> amount_cents a = amount_cents b"
  using assms by (rule amountsEqual_texts)

theorem amounts_compare_exactly_witness: "amountsEqual ''250'' ''250.00'' \<and> \<not> amountsEqual ''250.00'' ''250.01''"
proof -
  have p: "amountPattern ''250''" "amountPattern ''250.00''" "amountPattern ''250.01''"
    and c: "amount_cents ''250'' = 25000" "amount_cents ''250.00'' = 25000" "amount_cents ''250.01'' = 25001"
    by (simp_all add: amountPattern_def amount_cents_def is_digit_def digit_val_def)
  show ?thesis
    using amounts_compare_exactly [OF p(1) _ p(2)] amounts_compare_exactly [OF p(2) _ p(3)] c by simp
qed

end
