(* ===== verification/VaTypeRules.thy ===== *)
theory VaTypeRules
  imports Database
begin

text \<open>
  The VA-type rules an operator maintains: the tables \<^verbatim>\<open>master_va_type\<close> and
  \<^verbatim>\<open>master_partner_service_ids\<close> (\<^verbatim>\<open>database/master_data_repository.go\<close>), their Redis copies
  (\<^verbatim>\<open>redis/master_data_cache.go\<close>) and the provider with its in-process snapshot
  (\<^verbatim>\<open>cache/va_type_rule_provider.go\<close>).

  The environment says which calls fail and ranks the keys of the two tables as the collation of the
  database does. A Redis key that expires is a step of its own. The list functions return a nil slice
  exactly for an empty table, and a nil slice is cached as a JSON null that decodes to nil, so nil is
  the empty list throughout. The row identifiers are never read back and are left out.
\<close>

record VATypeRule =
  vt_VAType :: string
  vt_PartnerServiceID :: string
  vt_Dynamic :: bool
  vt_Billing :: string
  vt_Description :: string

record PartnerServiceIDRecord =
  psr_PartnerServiceID :: string
  psr_BankCode :: string

text \<open>The reads of PostgreSQL carry a number: a request that reads the table again may get another answer.\<close>

datatype rules_op = OpListTypes nat | OpListPartners nat | OpWriteType string | OpWritePartner string
  | OpCacheGetTypes | OpCacheSetTypes | OpCacheGetPartners | OpCacheSetPartners

record rules_env =
  re_fault :: "rules_op \<Rightarrow> gerr option"
  re_rank :: "string \<Rightarrow> nat"

record rules_state =
  rs_types :: "VATypeRule list"
  rs_partners :: "PartnerServiceIDRecord list"
  rs_cached_types :: "VATypeRule list option"
  rs_cached_partners :: "PartnerServiceIDRecord list option"
  rs_vaTypes :: "VATypeRule list"
  rs_partnerIDs :: "PartnerServiceIDRecord list"

type_synonym 'a rop = "rules_state \<Rightarrow> (gerr + 'a) \<times> rules_state"

definition rguard :: "rules_env \<Rightarrow> rules_op \<Rightarrow> 'a rop \<Rightarrow> 'a rop" where
  "rguard e opn f s = (case re_fault e opn of Some err \<Rightarrow> (Inl err, s) | None \<Rightarrow> f s)"

section \<open>The master tables\<close>

definition ListVATypes :: "rules_env \<Rightarrow> nat \<Rightarrow> rules_state \<Rightarrow> gerr + VATypeRule list" where
  "ListVATypes e n s = (case re_fault e (OpListTypes n) of Some err \<Rightarrow> Inl err
     | None \<Rightarrow> Inr (sort_key (re_rank e \<circ> vt_VAType) (rs_types s)))"

definition ListPartnerServiceIDs :: "rules_env \<Rightarrow> nat \<Rightarrow> rules_state \<Rightarrow> gerr + PartnerServiceIDRecord list" where
  "ListPartnerServiceIDs e n s = (case re_fault e (OpListPartners n) of Some err \<Rightarrow> Inl err
     | None \<Rightarrow> Inr (sort_key (re_rank e \<circ> psr_PartnerServiceID) (rs_partners s)))"

definition billing_check :: "VATypeRule \<Rightarrow> bool" where
  "billing_check r = (vt_Billing r \<in> {VATypeBillingNone, VATypeBillingVariable, VATypeBillingFixed})"

definition master_check_error :: gerr where
  "master_check_error = ErrOther ''violates check constraint''"

definition table_CreateVAType :: "rules_env \<Rightarrow> VATypeRule \<Rightarrow> unit rop" where
  "table_CreateVAType e rule = rguard e (OpWriteType (vt_VAType rule)) (\<lambda>s.
     if \<not> billing_check rule then (Inl master_check_error, s)
     else if vt_VAType rule \<in> vt_VAType ` set (rs_types s) then (Inl ErrUniqueViolation, s)
     else (Inr (), s\<lparr>rs_types := rs_types s @ [rule]\<rparr>))"

definition table_UpdateVAType :: "rules_env \<Rightarrow> VATypeRule \<Rightarrow> unit rop" where
  "table_UpdateVAType e rule = rguard e (OpWriteType (vt_VAType rule)) (\<lambda>s.
     if vt_VAType rule \<in> vt_VAType ` set (rs_types s) \<and> \<not> billing_check rule then (Inl master_check_error, s)
     else (Inr (), s\<lparr>rs_types := update_where (\<lambda>r. vt_VAType r = vt_VAType rule) (\<lambda>_. rule) (rs_types s)\<rparr>))"

definition table_DeleteVAType :: "rules_env \<Rightarrow> string \<Rightarrow> unit rop" where
  "table_DeleteVAType e vaType = rguard e (OpWriteType vaType) (\<lambda>s.
     (Inr (), s\<lparr>rs_types := filter (\<lambda>r. vt_VAType r \<noteq> vaType) (rs_types s)\<rparr>))"

definition table_CreatePartnerServiceID :: "rules_env \<Rightarrow> PartnerServiceIDRecord \<Rightarrow> unit rop" where
  "table_CreatePartnerServiceID e record = rguard e (OpWritePartner (psr_PartnerServiceID record)) (\<lambda>s.
     if psr_PartnerServiceID record \<in> psr_PartnerServiceID ` set (rs_partners s) \<or>
        psr_BankCode record \<in> psr_BankCode ` set (rs_partners s) then (Inl ErrUniqueViolation, s)
     else (Inr (), s\<lparr>rs_partners := rs_partners s @ [record]\<rparr>))"

definition table_UpdatePartnerServiceID :: "rules_env \<Rightarrow> PartnerServiceIDRecord \<Rightarrow> unit rop" where
  "table_UpdatePartnerServiceID e record = rguard e (OpWritePartner (psr_PartnerServiceID record)) (\<lambda>s.
     if psr_PartnerServiceID record \<in> psr_PartnerServiceID ` set (rs_partners s) \<and>
        (\<exists>r \<in> set (rs_partners s). psr_PartnerServiceID r \<noteq> psr_PartnerServiceID record \<and>
           psr_BankCode r = psr_BankCode record) then (Inl ErrUniqueViolation, s)
     else (Inr (), s\<lparr>rs_partners := update_where (\<lambda>r. psr_PartnerServiceID r = psr_PartnerServiceID record)
             (\<lambda>r. r\<lparr>psr_BankCode := psr_BankCode record\<rparr>) (rs_partners s)\<rparr>))"

definition table_DeletePartnerServiceID :: "rules_env \<Rightarrow> string \<Rightarrow> unit rop" where
  "table_DeletePartnerServiceID e p = rguard e (OpWritePartner p) (\<lambda>s.
     (Inr (), s\<lparr>rs_partners := filter (\<lambda>r. psr_PartnerServiceID r \<noteq> p) (rs_partners s)\<rparr>))"

section \<open>The Redis copies\<close>

text \<open>A miss and a cached nil both read as nil.\<close>

definition GetVATypes :: "rules_env \<Rightarrow> rules_state \<Rightarrow> gerr + VATypeRule list" where
  "GetVATypes e s = (case re_fault e OpCacheGetTypes of Some err \<Rightarrow> Inl err
     | None \<Rightarrow> Inr (case rs_cached_types s of None \<Rightarrow> [] | Some rules \<Rightarrow> rules))"

definition SetVATypes :: "rules_env \<Rightarrow> VATypeRule list \<Rightarrow> rules_state \<Rightarrow> rules_state" where
  "SetVATypes e rules s = (if re_fault e OpCacheSetTypes = None then s\<lparr>rs_cached_types := Some rules\<rparr> else s)"

definition GetPartnerServiceIDs :: "rules_env \<Rightarrow> rules_state \<Rightarrow> gerr + PartnerServiceIDRecord list" where
  "GetPartnerServiceIDs e s = (case re_fault e OpCacheGetPartners of Some err \<Rightarrow> Inl err
     | None \<Rightarrow> Inr (case rs_cached_partners s of None \<Rightarrow> [] | Some records \<Rightarrow> records))"

definition SetPartnerServiceIDs :: "rules_env \<Rightarrow> PartnerServiceIDRecord list \<Rightarrow> rules_state \<Rightarrow> rules_state" where
  "SetPartnerServiceIDs e records s =
    (if re_fault e OpCacheSetPartners = None then s\<lparr>rs_cached_partners := Some records\<rparr> else s)"

definition expire_cache :: "rules_state \<Rightarrow> rules_state" where
  "expire_cache s = s\<lparr>rs_cached_types := None, rs_cached_partners := None\<rparr>"

section \<open>The provider\<close>

definition RefreshNow :: "rules_env \<Rightarrow> unit rop" where
  "RefreshNow e s = (case ListVATypes e 0 s of Inl err \<Rightarrow> (Inl err, s)
     | Inr vaTypes \<Rightarrow> (case ListPartnerServiceIDs e 0 s of Inl err \<Rightarrow> (Inl err, s)
        | Inr partnerIDs \<Rightarrow> (Inr (), SetPartnerServiceIDs e partnerIDs (SetVATypes e vaTypes
            (s\<lparr>rs_vaTypes := vaTypes, rs_partnerIDs := partnerIDs\<rparr>)))))"

definition fallback_types :: "rules_env \<Rightarrow> gerr \<Rightarrow> VATypeRule list rop" where
  "fallback_types e err s = (if rs_vaTypes s \<noteq> [] then (Inr (rs_vaTypes s), s)
     else (case ListVATypes e 1 s of Inl _ \<Rightarrow> Inl err | Inr fresh \<Rightarrow> Inr fresh, s))"

definition currentVATypes :: "rules_env \<Rightarrow> VATypeRule list rop" where
  "currentVATypes e s = (case GetVATypes e s of
      Inl err \<Rightarrow> fallback_types e err s
    | Inr cached \<Rightarrow> if cached \<noteq> [] then (Inr cached, s\<lparr>rs_vaTypes := cached\<rparr>)
        else (case ListVATypes e 0 s of
            Inr fresh \<Rightarrow> (Inr fresh, SetVATypes e fresh (s\<lparr>rs_vaTypes := fresh\<rparr>))
          | Inl dbErr \<Rightarrow> fallback_types e dbErr s))"

definition fallback_partners :: "rules_env \<Rightarrow> gerr \<Rightarrow> PartnerServiceIDRecord list rop" where
  "fallback_partners e err s = (if rs_partnerIDs s \<noteq> [] then (Inr (rs_partnerIDs s), s)
     else (case ListPartnerServiceIDs e 1 s of Inl _ \<Rightarrow> Inl err | Inr fresh \<Rightarrow> Inr fresh, s))"

definition currentPartnerIDs :: "rules_env \<Rightarrow> PartnerServiceIDRecord list rop" where
  "currentPartnerIDs e s = (case GetPartnerServiceIDs e s of
      Inl err \<Rightarrow> fallback_partners e err s
    | Inr cached \<Rightarrow> if cached \<noteq> [] then (Inr cached, s\<lparr>rs_partnerIDs := cached\<rparr>)
        else (case ListPartnerServiceIDs e 0 s of
            Inr fresh \<Rightarrow> (Inr fresh, SetPartnerServiceIDs e fresh (s\<lparr>rs_partnerIDs := fresh\<rparr>))
          | Inl dbErr \<Rightarrow> fallback_partners e dbErr s))"

definition canonicalPartnerServiceID :: "string \<Rightarrow> string" where
  "canonicalPartnerServiceID p = TrimSpace p"

definition rule_matches :: "string \<Rightarrow> string \<Rightarrow> VATypeRule \<Rightarrow> bool" where
  "rule_matches partner vaType r =
    (vt_VAType r = vaType \<and> canonicalPartnerServiceID (vt_PartnerServiceID r) = canonicalPartnerServiceID partner)"

definition LookupVATypeRule :: "rules_env \<Rightarrow> string \<Rightarrow> string \<Rightarrow> VATypeRule option rop" where
  "LookupVATypeRule e partner vaType s = (case currentVATypes e s of
      (Inl err, s') \<Rightarrow> (Inl err, s')
    | (Inr rules, s') \<Rightarrow> (Inr (find (rule_matches partner vaType) rules), s'))"

definition partner_matches :: "string \<Rightarrow> PartnerServiceIDRecord \<Rightarrow> bool" where
  "partner_matches partner r =
    (canonicalPartnerServiceID (psr_PartnerServiceID r) = canonicalPartnerServiceID partner)"

definition IsReservedPartnerServiceID :: "rules_env \<Rightarrow> string \<Rightarrow> bool rop" where
  "IsReservedPartnerServiceID e partner s = (case currentPartnerIDs e s of
      (Inl err, s') \<Rightarrow> (Inl err, s')
    | (Inr records, s') \<Rightarrow> (Inr (list_ex (partner_matches partner) records), s'))"

text \<open>A write of the provider: the statement, then the refresh.\<close>

definition then_refresh :: "rules_env \<Rightarrow> unit rop \<Rightarrow> unit rop" where
  "then_refresh e f s = (case f s of (Inl err, s') \<Rightarrow> (Inl err, s') | (Inr _, s') \<Rightarrow> RefreshNow e s')"

definition CreateVAType :: "rules_env \<Rightarrow> VATypeRule \<Rightarrow> unit rop" where
  "CreateVAType e rule = then_refresh e (table_CreateVAType e rule)"

definition UpdateVAType :: "rules_env \<Rightarrow> VATypeRule \<Rightarrow> unit rop" where
  "UpdateVAType e rule = then_refresh e (table_UpdateVAType e rule)"

definition DeleteVAType :: "rules_env \<Rightarrow> string \<Rightarrow> unit rop" where
  "DeleteVAType e vaType = then_refresh e (table_DeleteVAType e vaType)"

definition CreatePartnerServiceID :: "rules_env \<Rightarrow> PartnerServiceIDRecord \<Rightarrow> unit rop" where
  "CreatePartnerServiceID e record = then_refresh e (table_CreatePartnerServiceID e record)"

definition UpdatePartnerServiceID :: "rules_env \<Rightarrow> PartnerServiceIDRecord \<Rightarrow> unit rop" where
  "UpdatePartnerServiceID e record = then_refresh e (table_UpdatePartnerServiceID e record)"

definition DeletePartnerServiceID :: "rules_env \<Rightarrow> string \<Rightarrow> unit rop" where
  "DeletePartnerServiceID e p = then_refresh e (table_DeletePartnerServiceID e p)"

end
