(* ===== verification/ListRepo.thy ===== *)
theory ListRepo
  imports AuxRepo
begin

text \<open>
  The two paginated listings of \<^verbatim>\<open>va_repository.go\<close>: registered numbers with what was paid on them, and
  transactions. The count and the page are read in one step. \<^verbatim>\<open>LIMIT\<close> and \<^verbatim>\<open>OFFSET\<close> refuse negative
  numbers; rows with the same creation time come in any order.
\<close>

record VAAccountListFilter =
  af_PartnerServiceID :: string
  af_FromDate :: "gtime option"
  af_ToDate :: "gtime option"
  af_Status :: string
  af_VirtualAccountNo :: string
  af_Offset :: int
  af_Limit :: int

record VAAccountListItem =
  al_VirtualAccountNo :: string
  al_CustomerNo :: string
  al_CustomerName :: string
  al_VAType :: string
  al_Status :: string
  al_ExpiredDate :: "gtime option"
  al_CreatedAt :: gtime
  al_TransactionCount :: int
  al_TotalPaid :: "Amount option"

record VATransactionListItem =
  tl_VirtualAccountNo :: string
  tl_CustomerNo :: string
  tl_CustomerName :: string
  tl_PaymentRequestID :: string
  tl_ReferenceNo :: string
  tl_PaidAmount :: "Amount option"
  tl_TotalAmount :: "Amount option"
  tl_Status :: string
  tl_TransactionDate :: "gtime option"
  tl_CreatedAt :: gtime

record VAListFilter =
  vf_PartnerServiceID :: string
  vf_FromDate :: "gtime option"
  vf_ToDate :: "gtime option"
  vf_Status :: string
  vf_VirtualAccountNo :: string
  vf_Offset :: int
  vf_Limit :: int

text \<open>An optional condition of the \<^verbatim>\<open>WHERE\<close> clause.\<close>

definition if_given :: "string \<Rightarrow> string \<Rightarrow> bool" where
  "if_given wanted actual = (wanted = [] \<or> actual = wanted)"

definition in_range :: "gtime option \<Rightarrow> gtime option \<Rightarrow> gtime \<Rightarrow> bool" where
  "in_range lo hi t = ((case lo of None \<Rightarrow> True | Some d \<Rightarrow> \<not> Before t d) \<and>
     (case hi of None \<Rightarrow> True | Some d \<Rightarrow> \<not> After t d))"

text \<open>\<^verbatim>\<open>ORDER BY created_at DESC LIMIT n OFFSET m\<close>.\<close>

definition newest_first :: "env \<Rightarrow> ('r \<Rightarrow> string) \<Rightarrow> ('r \<Rightarrow> gtime) \<Rightarrow> 'r list \<Rightarrow> 'r list" where
  "newest_first e ident created rows = order_by e ident (\<lambda>r. - tm_ns (created r)) rows"

definition page_of :: "int \<Rightarrow> int \<Rightarrow> 'r list \<Rightarrow> gerr + 'r list" where
  "page_of limit offset rows = (if limit < 0 then Inl (ErrOther ''LIMIT must not be negative'')
     else if offset < 0 then Inl (ErrOther ''OFFSET must not be negative'')
     else Inr (take (nat limit) (drop (nat offset) rows)))"

definition account_listed :: "VAAccountListFilter \<Rightarrow> VAAccount \<Rightarrow> bool" where
  "account_listed f a = (if_given (af_PartnerServiceID f) (ac_PartnerServiceID a) \<and>
     in_range (af_FromDate f) (af_ToDate f) (ac_CreatedAt a) \<and>
     if_given (af_Status f) (ac_Status a) \<and> if_given (af_VirtualAccountNo f) (ac_VirtualAccountNo a))"

text \<open>The aggregate over the settled transactions of a number; NULL amounts do not count towards the sum.\<close>

definition settled_of :: "string \<Rightarrow> world \<Rightarrow> txn list" where
  "settled_of va w = filter (\<lambda>t. t_virtual_account_no t = va \<and> t_status t = ''00'') (w_txns w)"

definition total_paid_text :: "string \<Rightarrow> world \<Rightarrow> string" where
  "total_paid_text va w = (let ps = List.map_filter t_paid_amount (settled_of va w)
     in if ps = [] then ''0'' else numeric_text (sum_list ps))"

definition account_item :: "world \<Rightarrow> VAAccount \<Rightarrow> VAAccountListItem" where
  "account_item w a = \<lparr>al_VirtualAccountNo = ac_VirtualAccountNo a, al_CustomerNo = ac_CustomerNo a,
     al_CustomerName = ac_CustomerName a, al_VAType = ac_VAType a, al_Status = ac_Status a,
     al_ExpiredDate = ac_ExpiredDate a, al_CreatedAt = ac_CreatedAt a,
     al_TransactionCount = int (length (settled_of (ac_VirtualAccountNo a) w)),
     al_TotalPaid = Some \<lparr>am_Value = total_paid_text (ac_VirtualAccountNo a) w, am_Currency = ''IDR''\<rparr>\<rparr>"

definition ListVAAccounts :: "env \<Rightarrow> VAAccountListFilter \<Rightarrow> (VAAccountListItem list \<times> int) op" where
  "ListVAAccounts e f = guard e OpListAccounts (\<lambda>w.
     let rows = filter (account_listed f) (w_accounts w) in
     (case page_of (af_Limit f) (af_Offset f) (newest_first e ac_ID ac_CreatedAt rows) of
        Inl err \<Rightarrow> Inl err
      | Inr page \<Rightarrow> Inr (map (account_item w) page, int (length rows)), w))"

definition txn_listed :: "VAListFilter \<Rightarrow> txn \<Rightarrow> bool" where
  "txn_listed f t = (if_given (vf_PartnerServiceID f) (t_partner_service_id t) \<and>
     in_range (vf_FromDate f) (vf_ToDate f) (t_created_at t) \<and>
     if_given (vf_Status f) (t_status t) \<and> if_given (vf_VirtualAccountNo f) (t_virtual_account_no t))"

definition txn_item :: "env \<Rightarrow> txn \<Rightarrow> VATransactionListItem" where
  "txn_item e t = \<lparr>tl_VirtualAccountNo = t_virtual_account_no t, tl_CustomerNo = t_customer_no t,
     tl_CustomerName = t_customer_name t, tl_PaymentRequestID = or_empty (t_payment_request_id t),
     tl_ReferenceNo = or_empty (t_reference_no t),
     tl_PaidAmount = map_option (\<lambda>n. \<lparr>am_Value = e_scan e n, am_Currency = ''IDR''\<rparr>) (t_paid_amount t),
     tl_TotalAmount = map_option (\<lambda>n. \<lparr>am_Value = e_scan e n, am_Currency = ''IDR''\<rparr>) (t_total_amount t),
     tl_Status = t_status t, tl_TransactionDate = t_transaction_date t, tl_CreatedAt = t_created_at t\<rparr>"

definition ListVATransactions :: "env \<Rightarrow> VAListFilter \<Rightarrow> (VATransactionListItem list \<times> int) op" where
  "ListVATransactions e f = guard e OpListTxns (\<lambda>w.
     let rows = filter (txn_listed f) (w_txns w) in
     (case page_of (vf_Limit f) (vf_Offset f) (newest_first e t_id t_created_at rows) of
        Inl err \<Rightarrow> Inl err
      | Inr page \<Rightarrow> Inr (map (txn_item e) page, int (length rows)), w))"

section \<open>Pages\<close>

lemma concat_pages: "concat (map (\<lambda>i. take n (drop (i * n) xs)) [0..<m]) = take (m * n) xs"
  by (induction m) (simp_all add: take_add [symmetric] add.commute)

lemma pages_cover:
  assumes "0 < n" and "length xs \<le> m * n"
  shows "concat (map (\<lambda>i. take n (drop (i * n) xs)) [0..<m]) = xs"
  using assms by (simp add: concat_pages)

end
