(* ===== verification/MerchantVa.thy ===== *)
theory MerchantVa
  imports VaUsecase VaTypeRules ListRepo
begin

text \<open>
  \<^verbatim>\<open>internal/usecase/merchant_va_usecase.go\<close>: a merchant creates, deletes and lists virtual accounts. The
  state is the world of the repository and the state of the VA-type rules; without a rule provider
  (its environment is \<^term>\<open>None\<close>) every request is unmanaged. The checks of \<^verbatim>\<open>CreateVA\<close> are grouped into
  one definition per block of the source, in its order; each returns the first error.
\<close>

section \<open>Requests and answers\<close>

record MerchantCreateVARequest =
  cq_PartnerServiceID :: string
  cq_CustomerNo :: string
  cq_VirtualAccountNo :: string
  cq_VirtualAccountName :: string
  cq_VirtualAccountEmail :: string
  cq_VirtualAccountPhone :: string
  cq_TrxID :: string
  cq_TotalAmount :: "Amount option"
  cq_BillDetails :: "BillDetail list"
  cq_FreeTexts :: "BilingualText list"
  cq_VirtualAccountTrxType :: string
  cq_FeeAmount :: "Amount option"
  cq_ExpiredDate :: "gtime option"
  cq_AdditionalInfo :: info

record MerchantVAData =
  md_PartnerServiceID :: string
  md_CustomerNo :: string
  md_VirtualAccountNo :: string
  md_VirtualAccountName :: string
  md_VirtualAccountEmail :: string
  md_VirtualAccountPhone :: string
  md_TrxID :: string
  md_TotalAmount :: "Amount option"
  md_BillDetails :: "BillDetail list"
  md_FreeTexts :: "BilingualText list"
  md_VirtualAccountTrxType :: string
  md_FeeAmount :: "Amount option"
  md_ExpiredDate :: "gtime option"
  md_PaymentDate :: "gtime option"
  md_AdditionalInfo :: info

record MerchantCreateVAResponse =
  cr_ResponseCode :: string
  cr_ResponseMessage :: string
  cr_VirtualAccountData :: "MerchantVAData option"

record MerchantDeleteVARequest =
  dq_PartnerServiceID :: string
  dq_CustomerNo :: string
  dq_VirtualAccountNo :: string
  dq_TrxID :: string
  dq_AdditionalInfo :: info

record MerchantDeleteVAData =
  dd_PartnerServiceID :: string
  dd_CustomerNo :: string
  dd_VirtualAccountNo :: string
  dd_TrxID :: string
  dd_AdditionalInfo :: info

record MerchantDeleteVAResponse =
  dr_ResponseCode :: string
  dr_ResponseMessage :: string
  dr_VirtualAccountData :: "MerchantDeleteVAData option"

record MerchantListVARequest =
  lq_PartnerServiceID :: string
  lq_FromDate :: "gtime option"
  lq_ToDate :: "gtime option"
  lq_Status :: string
  lq_VirtualAccountNo :: string
  lq_Page :: int
  lq_PageSize :: int

record Pagination =
  pg_Page :: int
  pg_PageSize :: int
  pg_TotalRows :: int
  pg_TotalPages :: int

record MerchantListVAResponse =
  lr_ResponseCode :: string
  lr_ResponseMessage :: string
  lr_Data :: "VAAccountListItem list"
  lr_Pagination :: "Pagination option"

record MerchantListTransactionsResponse =
  lt_ResponseCode :: string
  lt_ResponseMessage :: string
  lt_Data :: "VATransactionListItem list"
  lt_Pagination :: "Pagination option"

section \<open>Reading the extension slot\<close>

definition info_string :: "string \<Rightarrow> info \<Rightarrow> string option" where
  "info_string k additionalInfo = (case map_of additionalInfo k of Some (JStr v) \<Rightarrow> Some v | _ \<Rightarrow> None)"

definition notificationURLFromAdditionalInfo :: "info \<Rightarrow> string" where
  "notificationURLFromAdditionalInfo additionalInfo = or_empty (info_string ''dbUrlProcess'' additionalInfo)"

definition subCompanyFromAdditionalInfo :: "info \<Rightarrow> string" where
  "subCompanyFromAdditionalInfo additionalInfo = or_empty (info_string ''subCompany'' additionalInfo)"

text \<open>The VA type, when it is given as a text that is not empty.\<close>

definition vaTypeFromAdditionalInfo :: "info \<Rightarrow> string option" where
  "vaTypeFromAdditionalInfo additionalInfo = (case info_string ''vaType'' additionalInfo of
      None \<Rightarrow> None | Some v \<Rightarrow> if v = [] then None else Some v)"

section \<open>Creating a virtual account\<close>

definition vaNoMatchesPartnerAndCustomer :: "string \<Rightarrow> string \<Rightarrow> string \<Rightarrow> bool" where
  "vaNoMatchesPartnerAndCustomer partnerServiceID customerNo virtualAccountNo =
    (virtualAccountNo = partnerServiceID @ customerNo)"

definition refuse :: "string \<Rightarrow> string \<Rightarrow> DomainError" where
  "refuse code msg = NewDomainError code msg None"

definition unavailable :: "string \<Rightarrow> gerr \<Rightarrow> DomainError" where
  "unavailable what err = NewDomainError ''5002702'' (''System Unavailable ['' @ what @ '': '' @ Error err @ '']'') (Some err)"

definition combination_error :: DomainError where
  "combination_error = refuse ''4002702'' ''Invalid Field Format [partnerServiceId/additionalInfo.vaType combination]''"

text \<open>Managed: the request names a VA type, or its partner service id is reserved.\<close>

definition create_managed :: "rules_env option \<Rightarrow> MerchantCreateVARequest \<Rightarrow> rules_state \<Rightarrow> (DomainError + bool) \<times> rules_state" where
  "create_managed re req s = (if vaTypeFromAdditionalInfo (cq_AdditionalInfo req) \<noteq> None then (Inr True, s)
     else case re of None \<Rightarrow> (Inr False, s)
       | Some r \<Rightarrow> (case IsReservedPartnerServiceID r (cq_PartnerServiceID req) s of
            (Inl err, s') \<Rightarrow> (Inl (unavailable ''VA type master data'' err), s')
          | (Inr reserved, s') \<Rightarrow> (Inr reserved, s')))"

definition check :: "bool \<Rightarrow> DomainError \<Rightarrow> DomainError option" where
  "check bad err = (if bad then Some err else None)"

definition create_fields :: "bool \<Rightarrow> MerchantCreateVARequest \<Rightarrow> DomainError option" where
  "create_fields managed req =
     orelse (check (cq_PartnerServiceID req = []) (refuse ''4002701'' ''Invalid Mandatory Field [partnerServiceId]''))
    (orelse (check (\<not> managed \<and> cq_CustomerNo req = []) (refuse ''4002701'' ''Invalid Mandatory Field [customerNo]''))
    (orelse (check (\<not> managed \<and> cq_VirtualAccountNo req = []) (refuse ''4002701'' ''Invalid Mandatory Field [virtualAccountNo]''))
    (orelse (check (cq_VirtualAccountName req = []) (refuse ''4002701'' ''Invalid Mandatory Field [virtualAccountName]''))
    (orelse (check (MaxVirtualAccountName < length (cq_VirtualAccountName req))
       (refuse ''4002702'' ''Invalid Field Format [virtualAccountName]''))
    (orelse (check (cq_TrxID req = []) (refuse ''4002701'' ''Invalid Mandatory Field [trxId]''))
    (orelse (check (MaxInquiryBillDetails < length (cq_BillDetails req)) (refuse ''4002700'' ''Invalid Field Format [billDetails]''))
    (orelse (check (MaxInquiryFreeTexts < length (cq_FreeTexts req)) (refuse ''4002700'' ''Invalid Field Format [freeTexts]''))
    (check (list_ex (\<lambda>t. MaxFreeTextLength < length (bt_English t) \<or> MaxFreeTextLength < length (bt_Indonesia t)) (cq_FreeTexts req))
       (refuse ''4002700'' ''Invalid Field Format [freeTexts]'')))))))))"

text \<open>What a rule demands of the request.\<close>

definition rule_check :: "VATypeRule \<Rightarrow> MerchantCreateVARequest \<Rightarrow> DomainError option" where
  "rule_check rule req =
     orelse (check (vt_Dynamic rule \<and> cq_CustomerNo req \<noteq> [])
       (refuse ''4002703'' ''Invalid Field Format [customerNo must be empty for dynamic vaType]''))
    (orelse (check (\<not> vt_Dynamic rule \<and> cq_CustomerNo req = [])
       (refuse ''4002704'' ''Invalid Mandatory Field [customerNo required for static vaType]''))
    (orelse (check (\<not> vt_Dynamic rule \<and> cq_VirtualAccountNo req = [])
       (refuse ''4002701'' ''Invalid Mandatory Field [virtualAccountNo]''))
    (orelse (check (vt_Billing rule = VATypeBillingNone \<and> cq_TotalAmount req \<noteq> None)
       (refuse ''4002706'' ''Invalid Field Format [totalAmount must not be set for no-bill vaType]''))
    (check (vt_Billing rule \<noteq> VATypeBillingNone \<and> cq_TotalAmount req = None)
       (refuse ''4002705'' ''Invalid Mandatory Field [totalAmount required for this vaType]'')))))"

definition zeroVATypeRule :: VATypeRule where
  "zeroVATypeRule = \<lparr>vt_VAType = [], vt_PartnerServiceID = [], vt_Dynamic = False, vt_Billing = [], vt_Description = []\<rparr>"

definition create_rule ::
    "rules_env option \<Rightarrow> bool \<Rightarrow> string \<Rightarrow> MerchantCreateVARequest \<Rightarrow> rules_state \<Rightarrow> (DomainError + VATypeRule) \<times> rules_state" where
  "create_rule re managed vaType req s = (if \<not> managed then (Inr zeroVATypeRule, s)
     else case re of None \<Rightarrow> (Inl combination_error, s)
       | Some r \<Rightarrow> (case LookupVATypeRule r (cq_PartnerServiceID req) vaType s of
            (Inl err, s') \<Rightarrow> (Inl (unavailable ''VA type master data'' err), s')
          | (Inr None, s') \<Rightarrow> (Inl combination_error, s')
          | (Inr (Some rule), s') \<Rightarrow> (case rule_check rule req of Some d \<Rightarrow> Inl d | None \<Rightarrow> Inr rule, s')))"

definition validTypes :: "string list" where
  "validTypes = [''C'', ''O'', ''I'', ''M'', ''L'', ''N'', ''X'']"

definition too_long_error :: DomainError where
  "too_long_error = refuse ''4002700'' ''Invalid Field Format [virtualAccountNo too long]''"

definition create_limits :: "MerchantCreateVARequest \<Rightarrow> DomainError option" where
  "create_limits req =
     orelse (check (cq_VirtualAccountTrxType req \<noteq> [] \<and> cq_VirtualAccountTrxType req \<notin> set validTypes)
       (refuse ''4002700'' ''Invalid Field Format [virtualAccountTrxType]''))
    (orelse (check (MaxIssuedVirtualAccountNo < length (cq_VirtualAccountNo req)) too_long_error)
    (check (MaxIssuedCustomerNo < length (cq_CustomerNo req)) (refuse ''4002700'' ''Invalid Field Format [customerNo too long]'')))"

text \<open>The customer number and the virtual account number: generated, or taken from the request and checked.\<close>

definition create_dynamic :: "env \<Rightarrow> string \<Rightarrow> MerchantCreateVARequest \<Rightarrow> world \<Rightarrow> (DomainError + string \<times> string) \<times> world" where
  "create_dynamic e vaType req w = (case NextCustomerNoSequence e vaType w of
      (Inl err, w') \<Rightarrow> (Inl (unavailable ''sequence generator'' err), w')
    | (Inr generated, w') \<Rightarrow>
        if cq_VirtualAccountNo req \<noteq> [] then (Inr (generated, cq_VirtualAccountNo req), w')
        else if MaxIssuedVirtualAccountNo < length (cq_PartnerServiceID req @ generated) then (Inl too_long_error, w')
        else (Inr (generated, cq_PartnerServiceID req @ generated), w'))"

definition create_static :: "env \<Rightarrow> bool \<Rightarrow> bool \<Rightarrow> MerchantCreateVARequest \<Rightarrow> world \<Rightarrow> (DomainError + string \<times> string) \<times> world" where
  "create_static e managed noBill req w =
    (if \<not> vaNoMatchesPartnerAndCustomer (cq_PartnerServiceID req) (cq_CustomerNo req) (cq_VirtualAccountNo req)
     then (Inl (refuse ''4002707'' ''Invalid Field Format [virtualAccountNo does not match partnerServiceId + customerNo]''), w)
     else if managed \<and> \<not> noBill then
       (case RegisterStaticCustomerNo e (cq_PartnerServiceID req) (cq_CustomerNo req) w of
          (Inl err, w') \<Rightarrow> (Inl (if err = ErrVACustomerNoAlreadyRegistered
              then refuse ''4092701'' ''Conflict: customerNo already registered for this partnerServiceId''
              else unavailable ''customerNo registration'' err), w')
        | (Inr _, w') \<Rightarrow> (Inr (cq_CustomerNo req, cq_VirtualAccountNo req), w'))
     else (Inr (cq_CustomerNo req, cq_VirtualAccountNo req), w))"

definition create_number ::
    "env \<Rightarrow> bool \<Rightarrow> VATypeRule \<Rightarrow> string \<Rightarrow> MerchantCreateVARequest \<Rightarrow> world \<Rightarrow> (DomainError + string \<times> string) \<times> world" where
  "create_number e managed rule vaType req w = (if managed \<and> vt_Dynamic rule then create_dynamic e vaType req w
     else create_static e managed (managed \<and> vt_Billing rule = VATypeBillingNone) req w)"

definition create_account :: "env \<Rightarrow> VATypeRule \<Rightarrow> string \<Rightarrow> string \<Rightarrow> string \<Rightarrow> MerchantCreateVARequest \<Rightarrow> VAAccount" where
  "create_account e rule vaType customerNo vaNo req = \<lparr>ac_ID = [], ac_PartnerServiceID = cq_PartnerServiceID req,
     ac_CustomerNo = customerNo, ac_VirtualAccountNo = vaNo, ac_VAType = vaType, ac_Billing = vt_Billing rule,
     ac_CustomerName = cq_VirtualAccountName req, ac_CustomerEmail = cq_VirtualAccountEmail req,
     ac_CustomerPhone = cq_VirtualAccountPhone req, ac_TrxID = cq_TrxID req,
     ac_NotificationURL = notificationURLFromAdditionalInfo (cq_AdditionalInfo req), ac_Status = VAAccountStatusActive,
     ac_ExpiredDate = cq_ExpiredDate req, ac_CreatedAt = e_now e, ac_UpdatedAt = e_now e\<rparr>"

definition create_record :: "env \<Rightarrow> string \<Rightarrow> string \<Rightarrow> string \<Rightarrow> MerchantCreateVARequest \<Rightarrow> VAInquiryRecord" where
  "create_record e vaType customerNo vaNo req = \<lparr>ri_ID = [], ri_PartnerServiceID = cq_PartnerServiceID req,
     ri_CustomerNo = customerNo, ri_CustomerName = cq_VirtualAccountName req, ri_VirtualAccountNo = vaNo,
     ri_InquiryRequestID = vaNo, ri_TrxID = cq_TrxID req,
     ri_NotificationURL = notificationURLFromAdditionalInfo (cq_AdditionalInfo req), ri_Status = ''03'',
     ri_TotalAmount = (case cq_TotalAmount req of None \<Rightarrow> ''0'' | Some a \<Rightarrow> am_Value a),
     ri_Currency = (case cq_TotalAmount req of None \<Rightarrow> ''IDR'' | Some a \<Rightarrow> am_Currency a),
     ri_VAType = vaType, ri_SubCompany = subCompanyFromAdditionalInfo (cq_AdditionalInfo req), ri_PaidAmount = [],
     ri_PaymentRequestID = [], ri_FreeTexts = cq_FreeTexts req, ri_ExpiredDate = cq_ExpiredDate req,
     ri_CreatedAt = e_now e, ri_UpdatedAt = e_now e\<rparr>"

definition buildCreateVAResponse :: "MerchantCreateVARequest \<Rightarrow> string \<Rightarrow> string \<Rightarrow> MerchantCreateVAResponse" where
  "buildCreateVAResponse req customerNo vaNo = \<lparr>cr_ResponseCode = ''2002700'', cr_ResponseMessage = ''Success'',
     cr_VirtualAccountData = Some \<lparr>md_PartnerServiceID = cq_PartnerServiceID req, md_CustomerNo = customerNo,
       md_VirtualAccountNo = vaNo, md_VirtualAccountName = cq_VirtualAccountName req,
       md_VirtualAccountEmail = cq_VirtualAccountEmail req, md_VirtualAccountPhone = cq_VirtualAccountPhone req,
       md_TrxID = cq_TrxID req, md_TotalAmount = cq_TotalAmount req, md_BillDetails = cq_BillDetails req,
       md_FreeTexts = cq_FreeTexts req, md_VirtualAccountTrxType = cq_VirtualAccountTrxType req,
       md_FeeAmount = cq_FeeAmount req, md_ExpiredDate = cq_ExpiredDate req, md_PaymentDate = None,
       md_AdditionalInfo = cq_AdditionalInfo req\<rparr>\<rparr>"

definition internal :: "string \<Rightarrow> gerr \<Rightarrow> DomainError" where
  "internal code err = NewDomainError code errInternalServerError (Some err)"

text \<open>The registration, for every managed request.\<close>

definition create_registration ::
    "env \<Rightarrow> bool \<Rightarrow> VATypeRule \<Rightarrow> string \<Rightarrow> string \<Rightarrow> string \<Rightarrow> MerchantCreateVARequest \<Rightarrow> world \<Rightarrow> (DomainError + unit) \<times> world" where
  "create_registration e managed rule vaType customerNo vaNo req w = (if \<not> managed then (Inr (), w)
     else case SaveVAAccount e (create_account e rule vaType customerNo vaNo req) w of
        (Inl err, w') \<Rightarrow> (Inl (internal ''5002700'' err), w')
      | (Inr _, w') \<Rightarrow> (Inr (), w'))"

text \<open>The pending transaction, unless the number has one; an error of the lookup is ignored.\<close>

definition create_transaction ::
    "env \<Rightarrow> string \<Rightarrow> string \<Rightarrow> string \<Rightarrow> MerchantCreateVARequest \<Rightarrow> world \<Rightarrow> (DomainError + MerchantCreateVAResponse) \<times> world" where
  "create_transaction e vaType customerNo vaNo req w =
    (if (case fst (GetVAByVirtualAccountNo e vaNo w) of Inl _ \<Rightarrow> False | Inr existing \<Rightarrow> ri_Status existing = ''03'')
     then (Inl (refuse ''4092700'' ''Conflict: VA already has an active pending transaction''), w)
     else case SaveInquiry e (create_record e vaType customerNo vaNo req) w of
        (Inl err, w1) \<Rightarrow> (Inl (internal ''5002700'' err), w1)
      | (Inr record, w1) \<Rightarrow>
          if cq_BillDetails req = [] then (Inr (buildCreateVAResponse req customerNo vaNo), w1)
          else (case SaveBillDetails e (ri_ID record) (cq_BillDetails req) w1 of
             (Inl err, w2) \<Rightarrow> (Inl (internal ''5002700'' err), w2)
           | (Inr _, w2) \<Rightarrow> (Inr (buildCreateVAResponse req customerNo vaNo), w2)))"

text \<open>Everything after the checks.\<close>

definition create_issue ::
    "env \<Rightarrow> bool \<Rightarrow> VATypeRule \<Rightarrow> string \<Rightarrow> MerchantCreateVARequest \<Rightarrow> world \<Rightarrow> (DomainError + MerchantCreateVAResponse) \<times> world" where
  "create_issue e managed rule vaType req w = (case create_number e managed rule vaType req w of
      (Inl d, w1) \<Rightarrow> (Inl d, w1)
    | (Inr (customerNo, vaNo), w1) \<Rightarrow> (case create_registration e managed rule vaType customerNo vaNo req w1 of
          (Inl d, w2) \<Rightarrow> (Inl d, w2)
        | (Inr _, w2) \<Rightarrow> if managed \<and> vt_Billing rule = VATypeBillingNone
            then (Inr (buildCreateVAResponse req customerNo vaNo), w2)
            else create_transaction e vaType customerNo vaNo req w2))"

type_synonym merchant_state = "world \<times> rules_state"

definition CreateVA ::
    "env \<Rightarrow> rules_env option \<Rightarrow> MerchantCreateVARequest \<Rightarrow> merchant_state \<Rightarrow>
       (DomainError + MerchantCreateVAResponse) \<times> merchant_state" where
  "CreateVA e re req ms = (let w = fst ms; s = snd ms; vaType = or_empty (vaTypeFromAdditionalInfo (cq_AdditionalInfo req)) in
     case create_managed re req s of
       (Inl d, s1) \<Rightarrow> (Inl d, w, s1)
     | (Inr managed, s1) \<Rightarrow> (case create_fields managed req of
           Some d \<Rightarrow> (Inl d, w, s1)
         | None \<Rightarrow> (case create_rule re managed vaType req s1 of
              (Inl d, s2) \<Rightarrow> (Inl d, w, s2)
            | (Inr rule, s2) \<Rightarrow> (case create_limits req of
                 Some d \<Rightarrow> (Inl d, w, s2)
               | None \<Rightarrow> (case create_issue e managed rule vaType req w of (r, w') \<Rightarrow> (r, w', s2))))))"

section \<open>Listing\<close>

text \<open>A 64-bit \<^verbatim>\<open>int\<close>.\<close>

definition go_int :: "int \<Rightarrow> int" where
  "go_int x = (x + 2 ^ 63) mod 2 ^ 64 - 2 ^ 63"

definition normalizePaging :: "int \<Rightarrow> int \<Rightarrow> int \<times> int" where
  "normalizePaging page pageSize = (if page < 1 then 1 else page, if pageSize < 1 \<or> 100 < pageSize then 20 else pageSize)"

definition paginationFor :: "int \<Rightarrow> int \<Rightarrow> int \<Rightarrow> Pagination" where
  "paginationFor page pageSize tot = \<lparr>pg_Page = page, pg_PageSize = pageSize, pg_TotalRows = tot,
     pg_TotalPages = (if 0 < tot mod pageSize then tot div pageSize + 1 else tot div pageSize)\<rparr>"

definition ListVA :: "env \<Rightarrow> MerchantListVARequest \<Rightarrow> world \<Rightarrow> DomainError + MerchantListVAResponse" where
  "ListVA e req w = (let (page, pageSize) = normalizePaging (lq_Page req) (lq_PageSize req);
       filter = \<lparr>af_PartnerServiceID = lq_PartnerServiceID req, af_FromDate = lq_FromDate req, af_ToDate = lq_ToDate req,
         af_Status = lq_Status req, af_VirtualAccountNo = lq_VirtualAccountNo req,
         af_Offset = go_int ((page - 1) * pageSize), af_Limit = pageSize\<rparr>
     in case fst (ListVAAccounts e filter w) of
        Inl err \<Rightarrow> Inl (internal ''5002400'' err)
      | Inr (items, tot) \<Rightarrow> Inr \<lparr>lr_ResponseCode = ''2002400'', lr_ResponseMessage = ''Successful'', lr_Data = items,
          lr_Pagination = Some (paginationFor page pageSize tot)\<rparr>)"

definition ListTransactions :: "env \<Rightarrow> MerchantListVARequest \<Rightarrow> world \<Rightarrow> DomainError + MerchantListTransactionsResponse" where
  "ListTransactions e req w = (let (page, pageSize) = normalizePaging (lq_Page req) (lq_PageSize req);
       filter = \<lparr>vf_PartnerServiceID = lq_PartnerServiceID req, vf_FromDate = lq_FromDate req, vf_ToDate = lq_ToDate req,
         vf_Status = lq_Status req, vf_VirtualAccountNo = lq_VirtualAccountNo req,
         vf_Offset = go_int ((page - 1) * pageSize), vf_Limit = pageSize\<rparr>
     in case fst (ListVATransactions e filter w) of
        Inl err \<Rightarrow> Inl (internal ''5002400'' err)
      | Inr (items, tot) \<Rightarrow> Inr \<lparr>lt_ResponseCode = ''2002400'', lt_ResponseMessage = ''Successful'', lt_Data = items,
          lt_Pagination = Some (paginationFor page pageSize tot)\<rparr>)"

section \<open>Deleting a virtual account\<close>

definition errOperationNotAllowed :: string where [code_consts]:
  "errOperationNotAllowed = ''Requested Operation Is Not Allowed''"

definition buildDeleteVAResponse :: "MerchantDeleteVARequest \<Rightarrow> MerchantDeleteVAResponse" where
  "buildDeleteVAResponse req = \<lparr>dr_ResponseCode = ''2003100'', dr_ResponseMessage = ''Success'',
     dr_VirtualAccountData = Some \<lparr>dd_PartnerServiceID = dq_PartnerServiceID req, dd_CustomerNo = dq_CustomerNo req,
       dd_VirtualAccountNo = dq_VirtualAccountNo req, dd_TrxID = dq_TrxID req, dd_AdditionalInfo = dq_AdditionalInfo req\<rparr>\<rparr>"

definition delete_registration :: "env \<Rightarrow> MerchantDeleteVARequest \<Rightarrow> world \<Rightarrow> (DomainError + MerchantDeleteVAResponse) \<times> world" where
  "delete_registration e req w = (case UpdateVAAccountStatus e (dq_VirtualAccountNo req) VAAccountStatusInactive w of
      (Inr _, w') \<Rightarrow> (Inr (buildDeleteVAResponse req), w')
    | (Inl err, w') \<Rightarrow> if err = ErrVAAccountNotFound then (Inr (buildDeleteVAResponse req), w')
        else (Inl (internal ''5003100'' err), w'))"

definition delete_transaction :: "env \<Rightarrow> MerchantDeleteVARequest \<Rightarrow> world \<Rightarrow> (DomainError + MerchantDeleteVAResponse) \<times> world" where
  "delete_transaction e req w = (case fst (GetVAByVirtualAccountNo e (dq_VirtualAccountNo req) w) of
      Inl err \<Rightarrow> (Inl (if Contains (Error err) ''not found'' then refuse ''4043112'' ''Invalid Bill/Virtual Account''
          else internal ''5003100'' err), w)
    | Inr va \<Rightarrow> if ri_Status va = ''03'' then
          (case UpdateVAStatus e (dq_VirtualAccountNo req) ''04'' w of
             (Inl err, w') \<Rightarrow> (Inl (internal ''5003100'' err), w')
           | (Inr _, w') \<Rightarrow> (Inr (buildDeleteVAResponse req), w'))
        else if ri_Status va = ''04'' then (Inr (buildDeleteVAResponse req), w)
        else (Inl (refuse ''4053101'' errOperationNotAllowed), w))"

definition DeleteVA :: "env \<Rightarrow> MerchantDeleteVARequest \<Rightarrow> world \<Rightarrow> (DomainError + MerchantDeleteVAResponse) \<times> world" where
  "DeleteVA e req w = (if dq_PartnerServiceID req = [] \<or> dq_CustomerNo req = [] \<or> dq_VirtualAccountNo req = []
     then (Inl (refuse ''4003101'' ''Invalid Mandatory Field''), w)
     else case optional (\<lambda>err. err = ErrVAAccountNotFound) (fst (GetVAAccount e (dq_VirtualAccountNo req) w)) of
        Inl err \<Rightarrow> (Inl (internal ''5003100'' err), w)
      | Inr account \<Rightarrow> if IsNoBill account then delete_registration e req w else delete_transaction e req w)"

end
