(* ===== verification/RulesProps.thy ===== *)
theory RulesProps
  imports VaTypeRules
begin

text \<open>
  Properties of the VA-type rules. The code keeps two lists in the same way, a table with a Redis copy
  and a snapshot; the locale \<^verbatim>\<open>cached_table\<close> states what both readers promise and derives, once, that a
  coherent state stays coherent and keeps answering from the table whatever fails.
\<close>

section \<open>A table with a copy and a snapshot\<close>

locale cached_table =
  fixes tab :: "'s \<Rightarrow> 'r list" and copy :: "'s \<Rightarrow> 'r list option" and snap :: "'s \<Rightarrow> 'r list"
    and current :: "'e \<Rightarrow> 's \<Rightarrow> (gerr + 'r list) \<times> 's" and step :: "'c \<Rightarrow> 's \<Rightarrow> 's"
  assumes current_total: "snap s \<noteq> [] \<Longrightarrow> is_ok (fst (current e s))"
    and current_from: "fst (current e s) = Inr l \<Longrightarrow>
      l = snap s \<or> copy s = Some l \<or> set l = set (tab s)"
    and step_tab: "tab (step c s) = tab s"
    and step_snap: "snap (step c s) = snap s \<or> copy s = Some (snap (step c s)) \<or> set (snap (step c s)) = set (tab s)"
    and step_copy: "copy (step c s) = Some l \<Longrightarrow> copy s = Some l \<or> set l = set (tab s)"
begin

definition coherent :: "'s \<Rightarrow> bool" where
  "coherent s = (tab s \<noteq> [] \<and> set (snap s) = set (tab s) \<and> (\<forall>l. copy s = Some l \<longrightarrow> set l = set (tab s)))"

lemma coherent_step: "coherent s \<Longrightarrow> coherent (step c s)"
  unfolding coherent_def using step_tab [of c s] step_snap [of c s] step_copy [of c s] by auto

lemma coherent_steps: "coherent s \<Longrightarrow> coherent (fold step cs s)"
  by (induction cs arbitrary: s) (simp_all add: coherent_step)

lemma tab_steps: "tab (fold step cs s) = tab s"
  by (induction cs arbitrary: s) (simp_all add: step_tab)

lemma coherent_answer:
  assumes "coherent s"
  shows "\<exists>l. fst (current e (fold step cs s)) = Inr l \<and> set l = set (tab s)"
proof -
  let ?t = "fold step cs s"
  have c: "coherent ?t" by (rule coherent_steps [OF assms])
  then have "snap ?t \<noteq> []" by (auto simp: coherent_def)
  from current_total [OF this] obtain l where l: "fst (current e ?t) = Inr l"
    by (metis is_ok_simps(2) sum.exhaust)
  with current_from [OF l] c have "set l = set (tab ?t)" by (auto simp: coherent_def)
  with l show ?thesis by (simp add: tab_steps)
qed

end

section \<open>Steps that write no table\<close>

datatype rules_step = AskType rules_env string string | AskPartner rules_env string | Tick rules_env | Expire

fun rules_run :: "rules_step \<Rightarrow> rules_state \<Rightarrow> rules_state" where
  "rules_run (AskType e p t) s = snd (LookupVATypeRule e p t s)"
| "rules_run (AskPartner e p) s = snd (IsReservedPartnerServiceID e p s)"
| "rules_run (Tick e) s = snd (RefreshNow e s)"
| "rules_run Expire s = expire_cache s"

lemma snd_LookupVATypeRule: "snd (LookupVATypeRule e p t s) = snd (currentVATypes e s)"
  by (simp add: LookupVATypeRule_def split: prod.split sum.split)

lemma snd_IsReserved: "snd (IsReservedPartnerServiceID e p s) = snd (currentPartnerIDs e s)"
  by (simp add: IsReservedPartnerServiceID_def split: prod.split sum.split)

lemmas rules_defs = currentVATypes_def currentPartnerIDs_def fallback_types_def fallback_partners_def
  GetVATypes_def GetPartnerServiceIDs_def SetVATypes_def SetPartnerServiceIDs_def ListVATypes_def
  ListPartnerServiceIDs_def RefreshNow_def expire_cache_def snd_LookupVATypeRule snd_IsReserved

interpretation type_rules: cached_table rs_types rs_cached_types rs_vaTypes currentVATypes rules_run
proof
  fix s e c and l :: "VATypeRule list"
  show "rs_vaTypes s \<noteq> [] \<Longrightarrow> is_ok (fst (currentVATypes e s))"
    by (auto simp: rules_defs split: option.splits)
  show "fst (currentVATypes e s) = Inr l \<Longrightarrow> l = rs_vaTypes s \<or> rs_cached_types s = Some l \<or> set l = set (rs_types s)"
    by (auto simp: rules_defs split: option.splits if_splits)
  show "rs_types (rules_run c s) = rs_types s"
    by (cases c) (simp_all add: rules_defs split: option.split)
  show "rs_vaTypes (rules_run c s) = rs_vaTypes s \<or> rs_cached_types s = Some (rs_vaTypes (rules_run c s)) \<or>
      set (rs_vaTypes (rules_run c s)) = set (rs_types s)"
    by (cases c) (simp_all add: rules_defs split: option.split)
  show "rs_cached_types (rules_run c s) = Some l \<Longrightarrow> rs_cached_types s = Some l \<or> set l = set (rs_types s)"
    by (cases c) (auto simp: rules_defs split: option.splits if_splits)
qed

interpretation partner_ids: cached_table rs_partners rs_cached_partners rs_partnerIDs currentPartnerIDs rules_run
proof
  fix s e c and l :: "PartnerServiceIDRecord list"
  show "rs_partnerIDs s \<noteq> [] \<Longrightarrow> is_ok (fst (currentPartnerIDs e s))"
    by (auto simp: rules_defs split: option.splits)
  show "fst (currentPartnerIDs e s) = Inr l \<Longrightarrow>
      l = rs_partnerIDs s \<or> rs_cached_partners s = Some l \<or> set l = set (rs_partners s)"
    by (auto simp: rules_defs split: option.splits if_splits)
  show "rs_partners (rules_run c s) = rs_partners s"
    by (cases c) (simp_all add: rules_defs split: option.split)
  show "rs_partnerIDs (rules_run c s) = rs_partnerIDs s \<or> rs_cached_partners s = Some (rs_partnerIDs (rules_run c s)) \<or>
      set (rs_partnerIDs (rules_run c s)) = set (rs_partners s)"
    by (cases c) (simp_all add: rules_defs split: option.split)
  show "rs_cached_partners (rules_run c s) = Some l \<Longrightarrow> rs_cached_partners s = Some l \<or> set l = set (rs_partners s)"
    by (cases c) (auto simp: rules_defs split: option.splits if_splits)
qed

section \<open>Writes\<close>

datatype master_write = NewType VATypeRule | ChangeType VATypeRule | DropType string
  | NewPartner PartnerServiceIDRecord | ChangePartner PartnerServiceIDRecord | DropPartner string

fun master_run :: "rules_env \<Rightarrow> master_write \<Rightarrow> unit rop" where
  "master_run e (NewType r) = CreateVAType e r"
| "master_run e (ChangeType r) = UpdateVAType e r"
| "master_run e (DropType t) = DeleteVAType e t"
| "master_run e (NewPartner r) = CreatePartnerServiceID e r"
| "master_run e (ChangePartner r) = UpdatePartnerServiceID e r"
| "master_run e (DropPartner p) = DeletePartnerServiceID e p"

fun table_run :: "rules_env \<Rightarrow> master_write \<Rightarrow> unit rop" where
  "table_run e (NewType r) = table_CreateVAType e r"
| "table_run e (ChangeType r) = table_UpdateVAType e r"
| "table_run e (DropType t) = table_DeleteVAType e t"
| "table_run e (NewPartner r) = table_CreatePartnerServiceID e r"
| "table_run e (ChangePartner r) = table_UpdatePartnerServiceID e r"
| "table_run e (DropPartner p) = table_DeletePartnerServiceID e p"

lemmas master_defs = CreateVAType_def UpdateVAType_def DeleteVAType_def CreatePartnerServiceID_def
  UpdatePartnerServiceID_def DeletePartnerServiceID_def

lemmas table_defs = table_CreateVAType_def table_UpdateVAType_def table_DeleteVAType_def
  table_CreatePartnerServiceID_def table_UpdatePartnerServiceID_def table_DeletePartnerServiceID_def rguard_def

lemma master_run_table: "master_run e wr = then_refresh e (table_run e wr)"
  by (cases wr) (simp_all add: master_defs)

lemma master_run_done:
  assumes "master_run e wr s = (Inr u, s1)"
  obtains s0 where "table_run e wr s = (Inr (), s0)" and "RefreshNow e s0 = (Inr (), s1)"
  using assms by (auto simp: master_run_table then_refresh_def split: prod.splits sum.splits)

definition cache_accepts :: "rules_env \<Rightarrow> bool" where
  "cache_accepts e = (re_fault e OpCacheSetTypes = None \<and> re_fault e OpCacheSetPartners = None)"

lemma RefreshNow_tables: "RefreshNow e s = (r, s') \<Longrightarrow> rs_types s' = rs_types s \<and> rs_partners s' = rs_partners s"
  by (auto simp: rules_defs split: option.splits)

lemma RefreshNow_coherent:
  assumes "RefreshNow e s = (Inr u, s')" and "cache_accepts e"
  shows "rs_types s' \<noteq> [] \<Longrightarrow> type_rules.coherent s'" and "rs_partners s' \<noteq> [] \<Longrightarrow> partner_ids.coherent s'"
  using assms
  by (auto simp: rules_defs cache_accepts_def type_rules.coherent_def partner_ids.coherent_def split: option.splits)

text \<open>The unique key of the table.\<close>

definition types_distinct :: "rules_state \<Rightarrow> bool" where
  "types_distinct s = distinct (map vt_VAType (rs_types s))"

lemma table_run_distinct: "types_distinct s \<Longrightarrow> table_run e wr s = (r, s') \<Longrightarrow> types_distinct s'"
  by (cases wr) (auto simp: table_defs types_distinct_def map_update_where distinct_map_filter split: option.splits if_splits)

text \<open>With at most one match, what a search finds depends on the elements only.\<close>

lemma find_by_set:
  assumes "set l = set m" and "\<And>x y. x \<in> set m \<Longrightarrow> y \<in> set m \<Longrightarrow> p x \<Longrightarrow> p y \<Longrightarrow> x = y"
  shows "find p l = find p m"
proof (cases "find p l")
  case None
  with assms(1) have "find p m = None" by (simp add: find_None_iff)
  with None show ?thesis by simp
next
  case (Some x)
  then have x: "x \<in> set m" "p x" using assms(1) by (auto simp: find_Some_iff)
  then obtain y where y: "find p m = Some y" by (cases "find p m") (auto simp: find_None_iff)
  then have "y \<in> set m" "p y" by (auto simp: find_Some_iff)
  with assms(2) x have "x = y" by blast
  with Some y show ?thesis by simp
qed

lemma find_rule:
  assumes "types_distinct s" and "set l = set (rs_types s)"
  shows "find (rule_matches p t) l = find (rule_matches p t) (rs_types s)"
  using assms by (intro find_by_set) (auto simp: rule_matches_def types_distinct_def distinct_map inj_on_def)

lemma find_witness: "types_distinct s \<Longrightarrow> r \<in> set (rs_types s) \<Longrightarrow>
    find (rule_matches (vt_PartnerServiceID r) (vt_VAType r)) (rs_types s) = Some r"
proof -
  assume d: "types_distinct s" and r: "r \<in> set (rs_types s)"
  have p: "rule_matches (vt_PartnerServiceID r) (vt_VAType r) r" by (simp add: rule_matches_def)
  then obtain x where x: "find (rule_matches (vt_PartnerServiceID r) (vt_VAType r)) (rs_types s) = Some x"
    using r by (metis find_None_iff2 not_Some_eq)
  then have "x \<in> set (rs_types s)" "vt_VAType x = vt_VAType r" by (auto simp: find_Some_iff rule_matches_def)
  with d r have "x = r" by (auto simp: types_distinct_def distinct_map inj_on_def)
  with x show ?thesis by simp
qed

lemma fst_LookupVATypeRule: "fst (currentVATypes e s) = Inr l \<Longrightarrow>
    fst (LookupVATypeRule e p t s) = Inr (find (rule_matches p t) l)"
  by (auto simp: LookupVATypeRule_def split: prod.splits)

lemma fst_IsReserved: "fst (currentPartnerIDs e s) = Inr l \<Longrightarrow>
    fst (IsReservedPartnerServiceID e p s) = Inr (list_ex (partner_matches p) l)"
  by (auto simp: IsReservedPartnerServiceID_def split: prod.splits)

lemma TrimSpace_blanks: "TrimSpace (replicate n CHR '' '' @ s) = TrimSpace s"
  by (induction n) (simp_all add: TrimSpace_def trim_front.simps(2) ascii_space_def)

text \<open>What the tables hold after a write.\<close>

fun write_done :: "master_write \<Rightarrow> rules_state \<Rightarrow> bool" where
  "write_done (NewType r) s = (r \<in> set (rs_types s))"
| "write_done (ChangeType r) s = (vt_VAType r \<in> vt_VAType ` set (rs_types s) \<longrightarrow> r \<in> set (rs_types s))"
| "write_done (DropType t) s = (t \<notin> vt_VAType ` set (rs_types s))"
| "write_done (NewPartner r) s = (r \<in> set (rs_partners s))"
| "write_done (ChangePartner r) s = True"
| "write_done (DropPartner p) s = (p \<notin> psr_PartnerServiceID ` set (rs_partners s))"

lemma table_run_done: "table_run e wr s = (Inr u, s') \<Longrightarrow> write_done wr s'"
  by (cases wr) (auto simp: table_defs set_update_where split: option.splits if_splits)

section \<open>Properties\<close>

definition six_types :: "VATypeRule list" where
  "six_types = map (\<lambda>(t, d, b, p). \<lparr>vt_VAType = t, vt_PartnerServiceID = p, vt_Dynamic = d, vt_Billing = b, vt_Description = []\<rparr>)
    [(''01'', False, ''none'', ''15973''), (''02'', False, ''variable'', ''15974''), (''03'', False, ''fixed'', ''15975''),
     (''04'', True, ''none'', ''15973''), (''05'', True, ''variable'', ''15974''), (''06'', True, ''fixed'', ''15975'')]"

definition seeded_rules :: rules_state where
  "seeded_rules = \<lparr>rs_types = six_types,
     rs_partners = map (\<lambda>p. \<lparr>psr_PartnerServiceID = p, psr_BankCode = ''BANK-'' @ p\<rparr>) [''15973'', ''15974'', ''15975''],
     rs_cached_types = None, rs_cached_partners = None, rs_vaTypes = [], rs_partnerIDs = []\<rparr>"

definition calm :: rules_env where
  "calm = \<lparr>re_fault = (\<lambda>_. None), re_rank = num_of\<rparr>"

definition outage :: rules_env where
  "outage = \<lparr>re_fault = (\<lambda>_. Some (ErrOther ''connection refused'')), re_rank = num_of\<rparr>"

definition redis_readonly :: rules_env where
  "redis_readonly = \<lparr>re_fault = (\<lambda>x. if x = OpCacheSetTypes \<or> x = OpCacheSetPartners then Some (ErrOther ''READONLY'') else None),
     re_rank = num_of\<rparr>"

definition type_07 :: VATypeRule where
  "type_07 = \<lparr>vt_VAType = ''07'', vt_PartnerServiceID = ''15973'', vt_Dynamic = False, vt_Billing = ''none'', vt_Description = []\<rparr>"

text \<open>C28: once a write of the master data has succeeded, Redis took the copies and both tables have rows, every question up
  to the next write is answered from the tables, whatever lookups, refreshes, expiries of the Redis keys and failures
  of Redis and PostgreSQL come in between, and even while both are down; in particular a rule just created is found.\<close>

theorem rules_survive_outages:
  assumes "master_run e wr s = (Inr (), s1)" and "cache_accepts e" and "types_distinct s"
    and "rs_types s1 \<noteq> []" and "rs_partners s1 \<noteq> []"
  shows "fst (LookupVATypeRule e' p t (fold rules_run steps s1)) = Inr (find (rule_matches p t) (rs_types s1)) \<and>
    fst (IsReservedPartnerServiceID e' p (fold rules_run steps s1)) = Inr (list_ex (partner_matches p) (rs_partners s1)) \<and>
    write_done wr s1 \<and>
    (\<forall>r \<in> set (rs_types s1).
      fst (LookupVATypeRule e' (vt_PartnerServiceID r) (vt_VAType r) (fold rules_run steps s1)) = Inr (Some r))"
proof -
  obtain s0 where s0: "table_run e wr s = (Inr (), s0)" "RefreshNow e s0 = (Inr (), s1)"
    using master_run_done [OF assms(1)] .
  have tabs: "rs_types s1 = rs_types s0" "rs_partners s1 = rs_partners s0" using RefreshNow_tables [OF s0(2)] by simp_all
  have d: "types_distinct s1" using table_run_distinct [OF assms(3) s0(1)] tabs by (simp add: types_distinct_def)
  obtain l where l: "fst (currentVATypes e' (fold rules_run steps s1)) = Inr l" "set l = set (rs_types s1)"
    using type_rules.coherent_answer [OF RefreshNow_coherent(1) [OF s0(2) assms(2,4)]] by blast
  obtain m where m: "fst (currentPartnerIDs e' (fold rules_run steps s1)) = Inr m" "set m = set (rs_partners s1)"
    using partner_ids.coherent_answer [OF RefreshNow_coherent(2) [OF s0(2) assms(2,5)]] by blast
  have lk: "fst (LookupVATypeRule e' p t (fold rules_run steps s1)) = Inr (find (rule_matches p t) (rs_types s1))" for p t
    using fst_LookupVATypeRule [OF l(1)] find_rule [OF d l(2)] by simp
  have rv: "fst (IsReservedPartnerServiceID e' p (fold rules_run steps s1)) = Inr (list_ex (partner_matches p) (rs_partners s1))"
    using fst_IsReserved [OF m(1)] m(2) by (simp add: list_ex_iff)
  have wd: "write_done wr s1" using table_run_done [OF s0(1)] tabs by (cases wr) simp_all
  from lk rv wd find_witness [OF d] show ?thesis by simp
qed

theorem rules_survive_outages_witness:
  "let s1 = snd (master_run calm (NewType type_07) seeded_rules) in
    rs_types s1 = six_types @ [type_07] \<and>
    fst (LookupVATypeRule outage ''15973'' ''07'' (fold rules_run [Expire, AskType outage ''15973'' ''01''] s1)) = Inr (Some type_07)"
proof -
  let ?s1 = "snd (master_run calm (NewType type_07) seeded_rules)"
  have r: "master_run calm (NewType type_07) seeded_rules = (Inr (), ?s1)" and t: "rs_types ?s1 = six_types @ [type_07]"
    and q: "rs_partners ?s1 \<noteq> []"
    by (simp_all add: master_defs then_refresh_def table_defs calm_def seeded_rules_def six_types_def type_07_def billing_check_def
        code_consts RefreshNow_def ListVATypes_def ListPartnerServiceIDs_def SetVATypes_def SetPartnerServiceIDs_def)
  have c: "cache_accepts calm" "types_distinct seeded_rules"
    by (simp_all add: cache_accepts_def calm_def types_distinct_def seeded_rules_def six_types_def)
  have "type_07 \<in> set (rs_types ?s1)" "rs_types ?s1 \<noteq> []" unfolding t by simp_all
  with rules_survive_outages [OF r c _ q, of outage "''15973''" "''07''" "[Expire, AskType outage ''15973'' ''01'']"]
  have "fst (LookupVATypeRule outage (vt_PartnerServiceID type_07) (vt_VAType type_07)
      (fold rules_run [Expire, AskType outage ''15973'' ''01''] ?s1)) = Inr (Some type_07)" by blast
  then show ?thesis unfolding Let_def using t by (simp add: type_07_def del: master_run.simps fold_simps)
qed

text \<open>a partner service id arrives padded with blanks to eight characters and is stored without them; the
  padding never changes which rule is found or whether the id is reserved.\<close>

theorem padding_is_ignored:
  "LookupVATypeRule e (replicate n CHR '' '' @ partner) vaType s = LookupVATypeRule e partner vaType s \<and>
   IsReservedPartnerServiceID e (replicate n CHR '' '' @ partner) s = IsReservedPartnerServiceID e partner s"
proof -
  have "canonicalPartnerServiceID (replicate n CHR '' '' @ partner) = canonicalPartnerServiceID partner"
    by (simp add: canonicalPartnerServiceID_def TrimSpace_blanks)
  then have r: "rule_matches (replicate n CHR '' '' @ partner) vaType = rule_matches partner vaType"
    and p: "partner_matches (replicate n CHR '' '' @ partner) = partner_matches partner"
    by (simp_all add: rule_matches_def [abs_def] partner_matches_def [abs_def])
  show ?thesis unfolding LookupVATypeRule_def IsReservedPartnerServiceID_def r p by simp
qed

text \<open>a write whose Redis copy could not be stored is not visible while the old copy is still readable: the
  next lookup answers from the old copy and puts it back into the snapshot, although the write reported success
  and had updated the snapshot.\<close>

theorem old_copy_hides_write:
  assumes "master_run e wr s = (Inr (), s1)" and "re_fault e OpCacheSetTypes \<noteq> None"
    and "rs_cached_types s = Some old" and "old \<noteq> []" and "re_fault e' OpCacheGetTypes = None"
  shows "fst (LookupVATypeRule e' p t s1) = Inr (find (rule_matches p t) old) \<and>
    rs_vaTypes (snd (LookupVATypeRule e' p t s1)) = old"
proof -
  obtain s0 where s0: "table_run e wr s = (Inr (), s0)" "RefreshNow e s0 = (Inr (), s1)"
    using master_run_done [OF assms(1)] .
  have "rs_cached_types s0 = Some old"
    using s0(1) assms(3) by (cases wr) (auto simp: table_defs split: option.splits if_splits)
  with s0(2) assms(2) have "rs_cached_types s1 = Some old"
    by (auto simp: rules_defs split: option.splits if_splits)
  with assms(4,5) show ?thesis by (simp add: LookupVATypeRule_def currentVATypes_def GetVATypes_def)
qed

theorem old_copy_hides_write_witness:
  "let s1 = snd (master_run redis_readonly (NewType type_07) (seeded_rules\<lparr>rs_cached_types := Some six_types\<rparr>)) in
    type_07 \<in> set (rs_types s1) \<and> type_07 \<in> set (rs_vaTypes s1) \<and>
    fst (LookupVATypeRule calm ''15973'' ''07'' s1) = Inr None"
proof -
  let ?s = "seeded_rules\<lparr>rs_cached_types := Some six_types\<rparr>"
  let ?s1 = "snd (master_run redis_readonly (NewType type_07) ?s)"
  have n: "vt_VAType type_07 \<notin> vt_VAType ` set six_types" "billing_check type_07"
    by (simp_all add: type_07_def six_types_def billing_check_def code_consts)
  have run: "master_run redis_readonly (NewType type_07) ?s = (Inr (), ?s\<lparr>rs_types := six_types @ [type_07],
      rs_vaTypes := sort_key (num_of \<circ> vt_VAType) (six_types @ [type_07]),
      rs_partnerIDs := sort_key (num_of \<circ> psr_PartnerServiceID) (rs_partners seeded_rules)\<rparr>)"
    using n by (simp add: master_defs then_refresh_def table_defs redis_readonly_def seeded_rules_def
        RefreshNow_def ListVATypes_def ListPartnerServiceIDs_def SetVATypes_def SetPartnerServiceIDs_def)
  then have r: "master_run redis_readonly (NewType type_07) ?s = (Inr (), ?s1)"
    and t: "rs_types ?s1 = six_types @ [type_07]" and v: "type_07 \<in> set (rs_vaTypes ?s1)" by simp_all
  have "fst (LookupVATypeRule calm ''15973'' ''07'' ?s1) = Inr (find (rule_matches ''15973'' ''07'') six_types)"
    using old_copy_hides_write [OF r, of six_types calm "''15973''" "''07''"]
    by (simp add: redis_readonly_def calm_def six_types_def)
  moreover have "find (rule_matches ''15973'' ''07'') six_types = None"
    by (simp add: six_types_def rule_matches_def)
  ultimately show ?thesis unfolding Let_def using t v by (simp del: master_run.simps)
qed

end
