(* ===== verification/MerchantProps.thy ===== *)
theory MerchantProps
  imports MerchantVa RulesProps InstalmentProps
begin

text \<open>
  The properties of the merchant operations: what a creation issues and what a refusal leaves alone, how
  a created number is paid, deletion, and the listings.
\<close>

section \<open>The listings\<close>

definition wanted :: "MerchantListVARequest \<Rightarrow> VAAccount \<Rightarrow> bool" where
  "wanted req a = (if_given (lq_PartnerServiceID req) (ac_PartnerServiceID a) \<and>
     in_range (lq_FromDate req) (lq_ToDate req) (ac_CreatedAt a) \<and>
     if_given (lq_Status req) (ac_Status a) \<and> if_given (lq_VirtualAccountNo req) (ac_VirtualAccountNo a))"

definition listed_accounts :: "env \<Rightarrow> MerchantListVARequest \<Rightarrow> world \<Rightarrow> VAAccount list" where
  "listed_accounts e req w = newest_first e ac_ID ac_CreatedAt (filter (wanted req) (w_accounts w))"

lemma go_int_small: "0 \<le> x \<Longrightarrow> x < 2 ^ 63 \<Longrightarrow> go_int x = x"
  by (simp add: go_int_def)

lemma length_newest_first [simp]: "length (newest_first e i f xs) = length xs"
  by (simp add: newest_first_def)

lemma ListVA_page:
  assumes "e_fault e OpListAccounts = None" and "1 \<le> lq_PageSize req" and "lq_PageSize req \<le> 100"
    and "1 \<le> lq_Page req" and "(lq_Page req - 1) * lq_PageSize req < 2 ^ 63"
  shows "ListVA e req w = Inr \<lparr>lr_ResponseCode = ''2002400'', lr_ResponseMessage = ''Successful'',
     lr_Data = map (account_item w) (take (nat (lq_PageSize req)) (drop (nat ((lq_Page req - 1) * lq_PageSize req)) (listed_accounts e req w))),
     lr_Pagination = Some (paginationFor (lq_Page req) (lq_PageSize req) (int (length (listed_accounts e req w))))\<rparr>"
proof -
  have o: "0 \<le> (lq_Page req - 1) * lq_PageSize req" "\<not> (lq_Page req - 1) * lq_PageSize req < 0"
    using assms(2,4) by (simp_all add: not_less)
  have f: "account_listed \<lparr>af_PartnerServiceID = lq_PartnerServiceID req, af_FromDate = lq_FromDate req, af_ToDate = lq_ToDate req,
         af_Status = lq_Status req, af_VirtualAccountNo = lq_VirtualAccountNo req, af_Offset = x, af_Limit = y\<rparr> = wanted req" for x y
    by (rule ext) (simp add: account_listed_def wanted_def)
  show ?thesis
    using assms o
    by (simp add: ListVA_def normalizePaging_def ListVAAccounts_def page_of_def go_int_small f listed_accounts_def Let_def)
qed

lemma page_count:
  assumes "0 < (n :: nat)"
  obtains m where "pg_TotalPages (paginationFor p (int n) (int k)) = int m" "k \<le> m * n" "\<And>i. i < m \<Longrightarrow> i * n < k"
proof -
  let ?q = "k div n" and ?r = "k mod n"
  have k: "k = ?q * n + ?r" by simp
  have pages: "pg_TotalPages (paginationFor p (int n) (int k)) = int (if 0 < ?r then ?q + 1 else ?q)"
    by (simp add: paginationFor_def zmod_int [symmetric] zdiv_int [symmetric])
  show thesis
  proof (cases "0 < ?r")
    case True
    have "i * n < k" if "i < ?q + 1" for i
      using that True k mult_le_mono1 [of i ?q n] by linarith
    moreover have "k \<le> (?q + 1) * n" using k mod_less_divisor [OF assms, of k] by (simp only: add_mult_distrib mult_1)
    ultimately show thesis using that [of "?q + 1"] pages True by simp
  next
    case False
    then have "k = ?q * n" using k by simp
    moreover have "i * n < ?q * n" if "i < ?q" for i using that assms by simp
    ultimately show thesis using that [of ?q] pages False by (metis le_refl)
  qed
qed

lemma listed_accounts_page [simp]: "listed_accounts e (req\<lparr>lq_Page := p\<rparr>) w = listed_accounts e req w"
  by (simp add: listed_accounts_def wanted_def [abs_def])

lemma pages_of_one_order:
  assumes "distinct (map (tm_ns \<circ> ac_CreatedAt) rows)" and "0 < s" and "length rows \<le> n * s"
    and "\<And>i. i < n \<Longrightarrow> data i = map (account_item w) (take s (drop (i * s) (newest_first (e i) ac_ID ac_CreatedAt rows)))"
  shows "concat (map data [0..<n]) = map (account_item w) (sort_key (\<lambda>a. - tm_ns (ac_CreatedAt a)) rows)"
proof -
  let ?r = "sort_key (\<lambda>a. - tm_ns (ac_CreatedAt a)) rows"
  have "distinct (map (\<lambda>a. - tm_ns (ac_CreatedAt a)) rows)" using assms(1) by (simp add: distinct_map inj_on_def comp_def)
  then have "newest_first (e i) ac_ID ac_CreatedAt rows = ?r" for i
    unfolding newest_first_def by (rule order_by_distinct)
  then have "map data [0..<n] = map (map (account_item w)) (map (\<lambda>i. take s (drop (i * s) ?r)) [0..<n])"
    using assms(4) by simp
  then have "concat (map data [0..<n]) = map (account_item w) (concat (map (\<lambda>i. take s (drop (i * s) ?r)) [0..<n]))"
    by (simp only: map_concat)
  then show ?thesis using pages_cover [OF assms(2), of ?r n] assms(3) by simp
qed

text \<open>C27: The pages of the listing of registered numbers partition it when no two matching registrations have the same
  creation time: read from the first to the last page the answer announces, each page with its own query, they show
  every registration that matches the filters exactly once, newest first. With or without equal creation times,
  every page repeats the true number of rows and pages and has as many rows as fit.\<close>

theorem listing_pages_partition:
  assumes "\<forall>i. e_fault (e i) OpListAccounts = None" and "1 \<le> lq_PageSize req" and "lq_PageSize req \<le> 100"
    and "db_ok w" and "length (w_accounts w) < 2 ^ 63"
  defines "rows \<equiv> filter (wanted req) (w_accounts w)"
  shows "\<exists>n. (\<forall>i < n. \<exists>resp. ListVA (e i) (req\<lparr>lq_Page := int i + 1\<rparr>) w = Inr resp \<and>
        length (lr_Data resp) = min (nat (lq_PageSize req)) (length rows - i * nat (lq_PageSize req)) \<and>
        lr_Pagination resp = Some \<lparr>pg_Page = int i + 1, pg_PageSize = lq_PageSize req,
          pg_TotalRows = int (length rows), pg_TotalPages = int n\<rparr>) \<and>
     (distinct (map (tm_ns \<circ> ac_CreatedAt) rows) \<longrightarrow>
       concat (map (\<lambda>i. lr_Data (projr (ListVA (e i) (req\<lparr>lq_Page := int i + 1\<rparr>) w))) [0..<n]) =
         map (account_item w) (sort_key (\<lambda>a. - tm_ns (ac_CreatedAt a)) rows)) \<and>
     distinct (map al_VirtualAccountNo (map (account_item w) rows))"
proof -
  let ?rows = "\<lambda>i. listed_accounts (e i) req w" and ?s = "nat (lq_PageSize req)"
  have s: "0 < ?s" "int ?s = lq_PageSize req" using assms(2) by simp_all
  have len: "length (?rows i) = length rows" for i by (simp add: listed_accounts_def rows_def)
  have short: "length rows < 2 ^ 63" using length_filter_le [of "wanted req" "w_accounts w"] assms(5) unfolding rows_def by linarith
  obtain n where n: "pg_TotalPages (paginationFor p (int ?s) (int (length rows))) = int n" "length rows \<le> n * ?s"
      "\<And>i. i < n \<Longrightarrow> i * ?s < length rows" for p
    by (rule page_count [OF s(1), of _ "length rows"]) (simp add: paginationFor_def)
  have page: "ListVA (e i) (req\<lparr>lq_Page := int i + 1\<rparr>) w = Inr \<lparr>lr_ResponseCode = ''2002400'', lr_ResponseMessage = ''Successful'',
     lr_Data = map (account_item w) (take ?s (drop (i * ?s) (?rows i))),
     lr_Pagination = Some (paginationFor (int i + 1) (lq_PageSize req) (int (length rows)))\<rparr>" if "i < n" for i
  proof -
    have "int i * lq_PageSize req = int (i * ?s)" using s(2) by simp
    moreover from n(3) [OF that] short have "i * ?s < 2 ^ 63" by linarith
    ultimately have "int i * lq_PageSize req < 2 ^ 63" and "nat (int i * lq_PageSize req) = i * ?s"
      by (metis of_nat_less_numeral_power_cancel_iff) (metis \<open>int i * lq_PageSize req = int (i * ?s)\<close> nat_int)
    then show ?thesis using ListVA_page [of "e i" "req\<lparr>lq_Page := int i + 1\<rparr>" w] assms(1-3) len [of i] by simp
  qed
  have sizes: "length (lr_Data (projr (ListVA (e i) (req\<lparr>lq_Page := int i + 1\<rparr>) w))) = min ?s (length rows - i * ?s)" if "i < n" for i
    using page [OF that] len by (simp add: min.commute)
  have all: "concat (map (\<lambda>i. lr_Data (projr (ListVA (e i) (req\<lparr>lq_Page := int i + 1\<rparr>) w))) [0..<n]) =
      map (account_item w) (sort_key (\<lambda>a. - tm_ns (ac_CreatedAt a)) rows)" if d: "distinct (map (tm_ns \<circ> ac_CreatedAt) rows)"
    by (rule pages_of_one_order [OF d s(1) n(2), of _ w e]) (simp add: page listed_accounts_def rows_def)
  have "distinct (map al_VirtualAccountNo (map (account_item w) rows))"
    using assms(4) inj_on_subset [of ac_VirtualAccountNo "set (w_accounts w)" "{a \<in> set (w_accounts w). wanted req a}"]
    by (auto simp: rows_def db_ok_def account_item_def comp_def distinct_map)
  moreover have "paginationFor (int i + 1) (lq_PageSize req) (int (length rows)) = \<lparr>pg_Page = int i + 1, pg_PageSize = lq_PageSize req,
          pg_TotalRows = int (length rows), pg_TotalPages = int n\<rparr>" for i
    using n(1) [of "int i + 1"] s(2) by (simp add: paginationFor_def)
  ultimately show ?thesis using page sizes all by (intro exI [of _ n]) simp
qed

definition demo_listing :: MerchantListVARequest where
  "demo_listing = \<lparr>lq_PartnerServiceID = [], lq_FromDate = None, lq_ToDate = None, lq_Status = ''ACTIVE'',
     lq_VirtualAccountNo = [], lq_Page = 1, lq_PageSize = 1\<rparr>"

definition second_account :: VAAccount where
  "second_account = demo_account\<lparr>ac_ID := ''a2'', ac_CustomerNo := ''679'', ac_VirtualAccountNo := ''12345679'',
     ac_CreatedAt := Add demo_time 1\<rparr>"

definition two_accounts :: world where
  "two_accounts = fresh_world\<lparr>w_accounts := [demo_account, second_account]\<rparr>"

lemma two_accounts_ok: "db_ok two_accounts"
  by (simp add: two_accounts_def db_ok_def payment_ids_def fresh_world_def demo_account_def second_account_def account_owner_def account_check_def code_consts)

theorem listing_pages_partition_witness:
  "\<exists>n. concat (map (\<lambda>i. lr_Data (projr (ListVA (demo_env\<lparr>e_tie := \<lambda>_. int i\<rparr>) (demo_listing\<lparr>lq_Page := int i + 1\<rparr>) two_accounts))) [0..<n]) =
     [account_item two_accounts second_account, account_item two_accounts demo_account]"
proof -
  have f: "filter (wanted demo_listing) (w_accounts two_accounts) = [demo_account, second_account]"
    by (simp add: two_accounts_def demo_listing_def wanted_def if_given_def in_range_def demo_account_def second_account_def code_consts)
  have "distinct (map (tm_ns \<circ> ac_CreatedAt) (filter (wanted demo_listing) (w_accounts two_accounts)))"
    "sort_key (\<lambda>a. - tm_ns (ac_CreatedAt a)) (filter (wanted demo_listing) (w_accounts two_accounts)) = [second_account, demo_account]"
    unfolding f by (simp_all add: demo_account_def second_account_def Add_def)
  moreover have "\<forall>i. e_fault (demo_env\<lparr>e_tie := \<lambda>_. int i\<rparr>) OpListAccounts = None" "length (w_accounts two_accounts) < 2 ^ 63"
    using demo_no_faults by (simp_all add: no_faults_def two_accounts_def)
  moreover have "1 \<le> lq_PageSize demo_listing" "lq_PageSize demo_listing \<le> 100" by (simp_all add: demo_listing_def)
  moreover have "db_ok two_accounts" by (rule two_accounts_ok)
  ultimately show ?thesis using listing_pages_partition [of "\<lambda>i. demo_env\<lparr>e_tie := \<lambda>_. int i\<rparr>" demo_listing two_accounts] by auto
qed

text \<open>Registrations with the same creation time have no order of their own: two queries may put the same one first, and
  then the pages show it twice and the other one never.\<close>

theorem tied_pages_may_repeat:
  "\<exists>w e1 e2. db_ok w \<and> no_faults e1 \<and> no_faults e2 \<and> length (filter (wanted demo_listing) (w_accounts w)) = 2 \<and>
     lr_Data (projr (ListVA e1 (demo_listing\<lparr>lq_Page := 1\<rparr>) w)) = lr_Data (projr (ListVA e2 (demo_listing\<lparr>lq_Page := 2\<rparr>) w)) \<and>
     length (lr_Data (projr (ListVA e1 (demo_listing\<lparr>lq_Page := 1\<rparr>) w))) = 1"
proof -
  define b where "b = second_account\<lparr>ac_CreatedAt := demo_time\<rparr>"
  define w where "w = fresh_world\<lparr>w_accounts := [demo_account, b]\<rparr>"
  define f where "f = demo_env\<lparr>e_tie := \<lambda>i. if i = ''a1'' then 1 else 0\<rparr>"
  have ok: "db_ok w"
    by (simp add: w_def b_def db_ok_def payment_ids_def fresh_world_def demo_account_def second_account_def account_owner_def account_check_def code_consts)
  have r: "filter (wanted demo_listing) (w_accounts w) = [demo_account, b]"
    by (simp add: w_def b_def demo_listing_def wanted_def if_given_def in_range_def demo_account_def second_account_def code_consts)
  have l: "listed_accounts demo_env demo_listing w = [demo_account, b]" "listed_accounts f demo_listing w = [b, demo_account]"
    by (simp_all add: listed_accounts_def r newest_first_def order_by_def f_def b_def demo_account_def second_account_def) (simp add: demo_env_def)
  have nf: "e_fault demo_env OpListAccounts = None" "e_fault f OpListAccounts = None" "no_faults f"
    using demo_no_faults by (simp_all add: no_faults_def f_def)
  have size: "lq_PageSize demo_listing = 1" by (simp add: demo_listing_def)
  have "lr_Data (projr (ListVA demo_env (demo_listing\<lparr>lq_Page := 1\<rparr>) w)) = [account_item w demo_account]"
    "lr_Data (projr (ListVA f (demo_listing\<lparr>lq_Page := 2\<rparr>) w)) = [account_item w demo_account]"
    using ListVA_page [of demo_env "demo_listing\<lparr>lq_Page := 1\<rparr>" w] ListVA_page [of f "demo_listing\<lparr>lq_Page := 2\<rparr>" w] l nf
    by (simp_all add: size)
  with ok r nf(3) demo_no_faults show ?thesis by (intro exI [of _ w] exI [of _ demo_env] exI [of _ f]) simp
qed

section \<open>The shape of a creation\<close>

definition vaType_of :: "MerchantCreateVARequest \<Rightarrow> string" where
  "vaType_of req = or_empty (vaTypeFromAdditionalInfo (cq_AdditionalInfo req))"

text \<open>How a request is classified: whether it is managed, and by which rule.\<close>

definition create_class :: "rules_env option \<Rightarrow> MerchantCreateVARequest \<Rightarrow> rules_state \<Rightarrow> (bool \<times> VATypeRule) option" where
  "create_class re req s = (case create_managed re req s of
      (Inl d, s1) \<Rightarrow> None
    | (Inr managed, s1) \<Rightarrow> (case fst (create_rule re managed (vaType_of req) req s1) of
        Inl d \<Rightarrow> None | Inr rule \<Rightarrow> Some (managed, rule)))"

lemma CreateVA_cases:
  assumes "CreateVA e re req (w, s) = (out, w', s')"
  obtains (refused) d where "out = Inl d" "w' = w"
  | (issued) managed rule where "create_class re req s = Some (managed, rule)" "create_fields managed req = None"
      "create_limits req = None" "create_issue e managed rule (vaType_of req) req w = (out, w')"
proof -
  obtain m s1 where m: "create_managed re req s = (m, s1)" by fastforce
  show thesis
  proof (cases m)
    case (Inl d)
    with assms m show thesis by (intro refused) (auto simp: CreateVA_def)
  next
    case (Inr managed)
    obtain q s2 where q: "create_rule re managed (vaType_of req) req s1 = (q, s2)" by fastforce
    show thesis
    proof (cases "create_fields managed req = None \<and> create_limits req = None \<and> is_ok q")
      case True
      then obtain rule where "q = Inr rule" by (cases q) auto
      with True m Inr q assms show thesis
        by (intro issued [of managed rule]) (auto simp: CreateVA_def create_class_def vaType_of_def split: prod.splits)
    next
      case False
      with m Inr q assms show thesis
        by (cases q) (auto simp: CreateVA_def vaType_of_def Let_def split: option.splits intro: refused)
    qed
  qed
qed

definition seqs_only :: "world \<Rightarrow> world \<Rightarrow> bool" where
  "seqs_only w w' = (\<exists>q. w' = w\<lparr>w_seqs := q\<rparr>)"

lemma seqs_only_refl [simp]: "seqs_only w w"
  unfolding seqs_only_def by (rule exI [of _ "w_seqs w"]) simp

lemma seqs_only_update [simp]: "seqs_only w (w\<lparr>w_seqs := q\<rparr>)"
  unfolding seqs_only_def by blast

lemma seqs_onlyD:
  assumes "seqs_only w w'"
  shows "w' = w\<lparr>w_seqs := w_seqs w'\<rparr>" "w_txns w' = w_txns w" "w_accounts w' = w_accounts w"
  using assms by (auto simp: seqs_only_def)

lemma NextCustomerNo_seqs: "NextCustomerNoSequence e t w = (r, w') \<Longrightarrow> seqs_only w w'"
  by (auto simp: NextCustomerNoSequence_def withLock_def guard_def split: option.splits if_splits)

lemma RegisterStatic_world: "snd (RegisterStaticCustomerNo e p c w) = w"
  by (simp add: RegisterStaticCustomerNo_def withLock_def snd_guard)

lemma create_number_seqs: "create_number e managed rule vaType req w = (r, w') \<Longrightarrow> seqs_only w w'"
proof -
  assume r: "create_number e managed rule vaType req w = (r, w')"
  have d: "seqs_only w (snd (create_dynamic e vaType req w))"
    using NextCustomerNo_seqs [of e vaType w] by (auto simp: create_dynamic_def split: prod.split sum.split)
  have "snd (create_static e managed b req w) = w" for b
    using RegisterStatic_world [of e "cq_PartnerServiceID req" "cq_CustomerNo req" w]
    by (auto simp: create_static_def split: prod.split sum.split)
  with d r show ?thesis by (auto simp: create_number_def prod_eq_iff split: if_splits)
qed

lemma create_issue_refused:
  assumes "create_issue e managed rule vaType req w = (Inl err, w')"
    and "HasPrefix (de_SNAPCode err) ''400'' \<or> de_SNAPCode err = ''4092701''"
  shows "seqs_only w w'"
proof -
  obtain n w1 where n: "create_number e managed rule vaType req w = (n, w1)" by fastforce
  have s: "seqs_only w w1" by (rule create_number_seqs [OF n])
  show ?thesis
  proof (cases n)
    case (Inl d)
    with n s assms(1) show ?thesis by (simp add: create_issue_def)
  next
    case (Inr nos)
    obtain customerNo vaNo where nos: "nos = (customerNo, vaNo)" by fastforce
    have "de_SNAPCode err = ''5002700'' \<or> de_SNAPCode err = ''4092700''"
      using assms(1) n Inr nos
      by (auto simp: create_issue_def create_registration_def create_transaction_def internal_def refuse_def NewDomainError_def
          split: prod.splits sum.splits if_splits)
    with assms(2) show ?thesis by auto
  qed
qed

text \<open>a creation refused for its fields, or because its customer number is taken, changes no table; at most
  the sequence of customer numbers advances.\<close>

theorem refused_creation_changes_nothing:
  assumes "CreateVA e re req (w, s) = (Inl err, w', s')"
    and "HasPrefix (de_SNAPCode err) ''400'' \<or> de_SNAPCode err = ''4092701''"
  shows "w' = w\<lparr>w_seqs := w_seqs w'\<rparr>"
proof (rule CreateVA_cases [OF assms(1)])
  fix managed rule
  assume "create_issue e managed rule (vaType_of req) req w = (Inl err, w')"
  from create_issue_refused [OF this assms(2)] show ?thesis by (rule seqs_onlyD)
qed simp

definition blank_create :: MerchantCreateVARequest where
  "blank_create = \<lparr>cq_PartnerServiceID = [], cq_CustomerNo = [], cq_VirtualAccountNo = [], cq_VirtualAccountName = [],
     cq_VirtualAccountEmail = [], cq_VirtualAccountPhone = [], cq_TrxID = [], cq_TotalAmount = None, cq_BillDetails = [],
     cq_FreeTexts = [], cq_VirtualAccountTrxType = [], cq_FeeAmount = None, cq_ExpiredDate = None, cq_AdditionalInfo = []\<rparr>"

theorem refused_creation_changes_nothing_witness:
  "\<exists>err w' s'. CreateVA demo_env None blank_create (demo_world, seeded_rules) = (Inl err, w', s') \<and>
     de_SNAPCode err = ''4002701'' \<and> w' = demo_world\<lparr>w_seqs := w_seqs w'\<rparr>"
proof -
  have "\<exists>err w' s'. CreateVA demo_env None blank_create (demo_world, seeded_rules) = (Inl err, w', s') \<and> de_SNAPCode err = ''4002701''"
    by (simp add: CreateVA_def create_managed_def vaTypeFromAdditionalInfo_def info_string_def blank_create_def create_fields_def check_def
        refuse_def NewDomainError_def)
  then obtain err w' s' where c: "CreateVA demo_env None blank_create (demo_world, seeded_rules) = (Inl err, w', s')"
    "de_SNAPCode err = ''4002701''" by blast
  with refused_creation_changes_nothing [OF c(1)] show ?thesis by simp
qed

section \<open>Merchant operations are traffic\<close>

lemma evolves_merchant_ops:
  "evolves w (snd (SaveInquiry e r w))" "evolves w (snd (SaveVAAccount e a w))" "evolves w (snd (NextCustomerNoSequence e t w))"
  using evolves_run [of w e "CSaveInquiry r"] evolves_run [of w e "CSaveVAAccount a"] evolves_run [of w e "CNextSequence t"] by simp_all

lemma evolves_create_number: "evolves w (snd (create_number e managed rule vaType req w))"
  using evolves_merchant_ops(3) [of w e vaType] RegisterStatic_world [of e "cq_PartnerServiceID req" "cq_CustomerNo req" w]
  by (auto simp: create_number_def create_dynamic_def create_static_def evolves.same split: prod.split sum.split)

lemma evolves_create_registration: "evolves w (snd (create_registration e managed rule vaType c va req w))"
  using evolves_merchant_ops(2) [of w e "create_account e rule vaType c va req"]
  by (auto simp: create_registration_def evolves.same split: prod.split sum.split)

lemma evolves_create_transaction: "evolves w (snd (create_transaction e vaType c va req w))"
proof -
  obtain r w1 where s: "SaveInquiry e (create_record e vaType c va req) w = (r, w1)" by fastforce
  have w1: "evolves w w1" using evolves_merchant_ops(1) [of w e "create_record e vaType c va req"] s by simp
  have "evolves w (snd (SaveBillDetails e i bs w1))" for i bs by (rule evolves_trans [OF w1 evolves_ops(4)])
  with s w1 show ?thesis
    by (auto simp: create_transaction_def evolves.same split: prod.splits sum.splits) (metis snd_conv)+
qed

lemma evolves_create_issue: "evolves w (snd (create_issue e managed rule vaType req w))"
proof -
  obtain n w1 where n: "create_number e managed rule vaType req w = (n, w1)" by fastforce
  have w1: "evolves w w1" using evolves_create_number [of w e managed rule vaType req] n by simp
  have "evolves w (snd (create_registration e m rule vaType c va req w1))" for m c va
    by (rule evolves_trans [OF w1 evolves_create_registration])
  then have r: "evolves w w2" if "create_registration e m rule vaType c va req w1 = (q, w2)" for m c va q w2
    using that by (metis snd_conv)
  show ?thesis
    using n w1 by (auto simp: create_issue_def split: prod.split sum.split
        dest: r intro: evolves_trans [OF r evolves_create_transaction])
qed

lemma evolves_CreateVA: "CreateVA e re req (w, s) = (out, w', s') \<Longrightarrow> evolves w w'"
proof (erule CreateVA_cases)
  fix managed rule assume "create_issue e managed rule (vaType_of req) req w = (out, w')"
  then show ?thesis using evolves_create_issue [of w e managed rule "vaType_of req" req] by simp
qed (simp add: evolves.same)

lemma evolves_DeleteVA: "evolves w (snd (DeleteVA e req w))"
  using evolves_ops(3) [of w e "dq_VirtualAccountNo req" "''04''"]
    evolves_ops(8) [of w e "dq_VirtualAccountNo req" VAAccountStatusInactive]
  by (auto simp: DeleteVA_def delete_registration_def delete_transaction_def evolves.same split: sum.split prod.split)

end
