(* ===== verification/CreateProps.thy ===== *)
theory CreateProps
  imports MerchantProps
begin

text \<open>
  What a successful creation leaves behind, and the properties that follow: the bill can be inquired and
  paid, a static number is issued once unless it belongs to another pair, a deleted number is closed for good.
\<close>

section \<open>What a successful creation leaves\<close>

text \<open>A registration touches no transaction, and leaves the number registered.\<close>

lemma SaveVAAccount_registered:
  assumes "SaveVAAccount e a w = (Inr b, w')"
  shows "w_txns w' = w_txns w" and "\<exists>x. account_of (ac_VirtualAccountNo a) w' = Some x \<and>
     (account_of (ac_VirtualAccountNo a) w = None \<longrightarrow> account_owner x = account_owner a \<and> ac_Billing x = ac_Billing a) \<and>
     (\<forall>y. account_of (ac_VirtualAccountNo a) w = Some y \<longrightarrow> account_owner x = account_owner y \<and> ac_Billing x = ac_Billing y)"
proof -
  let ?a = "account_defaults e a w" and ?va = "ac_VirtualAccountNo a"
  have va: "ac_VirtualAccountNo ?a = ?va" "account_owner ?a = account_owner a" "ac_Billing ?a = ac_Billing a"
    by (simp_all add: account_defaults_def account_owner_def)
  have f: "find (account_va ?va) (update_where (account_va ?va) (account_upsert ?a) xs) = map_option (account_upsert ?a) (find (account_va ?va) xs)" for xs
    by (induction xs) (simp_all add: account_va_def account_upsert_def va(1))
  show "w_txns w' = w_txns w"
    using assms by (auto simp: SaveVAAccount_def Let_def guard_def next_uuid_def split: option.splits if_splits)
  show "\<exists>x. account_of ?va w' = Some x \<and>
     (account_of ?va w = None \<longrightarrow> account_owner x = account_owner a \<and> ac_Billing x = ac_Billing a) \<and>
     (\<forall>y. account_of ?va w = Some y \<longrightarrow> account_owner x = account_owner y \<and> ac_Billing x = ac_Billing y)"
  proof (cases "find (account_va ?va) (w_accounts w)")
    case None
    with assms va have "w_accounts w' = w_accounts w @ [?a]"
      by (auto simp: SaveVAAccount_def Let_def guard_def next_uuid_def split: option.splits if_splits)
    with None va show ?thesis by (simp add: account_of_def find_append account_va_def)
  next
    case (Some y)
    with assms va have "w_accounts w' = update_where (account_va ?va) (account_upsert ?a) (w_accounts w)"
      by (auto simp: SaveVAAccount_def Let_def guard_def next_uuid_def split: option.splits if_splits)
    with Some f show ?thesis by (simp add: account_of_def account_owner_def account_upsert_def)
  qed
qed

lemma create_registration_ok:
  assumes "create_registration e managed rule vaType c va req w = (Inr u, w')"
  shows "w_txns w' = w_txns w" and "managed \<Longrightarrow> account_of va w' \<noteq> None"
    and "managed \<Longrightarrow> account_of va w = None \<Longrightarrow> (cq_PartnerServiceID req, c) \<in> account_owner ` set (w_accounts w')"
proof -
  let ?a = "create_account e rule vaType c va req"
  have a: "ac_VirtualAccountNo ?a = va" "account_owner ?a = (cq_PartnerServiceID req, c)"
    by (simp_all add: create_account_def account_owner_def)
  have "managed \<Longrightarrow> \<exists>b. SaveVAAccount e ?a w = (Inr b, w')" "\<not> managed \<Longrightarrow> w' = w"
    using assms by (auto simp: create_registration_def split: prod.splits sum.splits)
  then show "w_txns w' = w_txns w" "managed \<Longrightarrow> account_of va w' \<noteq> None"
    and "managed \<Longrightarrow> account_of va w = None \<Longrightarrow> (cq_PartnerServiceID req, c) \<in> account_owner ` set (w_accounts w')"
    using SaveVAAccount_registered [of e ?a w] a find_Some_mem unfolding account_of_def
    by (metis, metis not_Some_eq, metis image_eqI)
qed

lemma create_number_ok:
  assumes "create_number e managed rule vaType req w = (Inr (c, va), w')" and "cq_PartnerServiceID req \<noteq> []"
  shows "va \<noteq> []" and "\<not> (managed \<and> vt_Dynamic rule) \<Longrightarrow> c = cq_CustomerNo req \<and> va = cq_PartnerServiceID req @ c"
  using assms
  by (auto simp: create_number_def create_dynamic_def create_static_def vaNoMatchesPartnerAndCustomer_def
      split: prod.splits sum.splits if_splits)

lemma create_fields_partner: "create_fields managed req = None \<Longrightarrow> cq_PartnerServiceID req \<noteq> []"
  by (auto simp: create_fields_def check_def)

lemma create_managed_type:
  assumes "create_managed re req s = (Inr False, s1)" shows "vaType_of req = []"
  using assms by (auto simp: create_managed_def vaType_of_def split: option.splits prod.splits sum.splits if_splits)

lemma create_class_unmanaged: "create_class re req s = Some (False, rule) \<Longrightarrow> vaType_of req = []"
  by (auto simp: create_class_def split: prod.splits sum.splits intro: create_managed_type)

text \<open>The run of a creation that succeeds with a bill.\<close>

lemma create_issue_billed:
  assumes "create_issue e managed rule vaType req w = (Inr resp, w')" and "cq_PartnerServiceID req \<noteq> []"
    and "\<not> (managed \<and> vt_Billing rule = VATypeBillingNone)"
  obtains c va w1 w2 r w3 where "create_number e managed rule vaType req w = (Inr (c, va), w1)"
    "create_registration e managed rule vaType c va req w1 = (Inr (), w2)" "resp = buildCreateVAResponse req c va"
    "SaveInquiry e (create_record e vaType c va req) w2 = (Inr r, w3)" "w_txns w' = w_txns w3" "w_accounts w' = w_accounts w2"
proof -
  obtain n w1 where n: "create_number e managed rule vaType req w = (n, w1)" by fastforce
  then obtain c va where ok: "n = Inr (c, va)" using assms(1) by (cases n) (auto simp: create_issue_def)
  obtain g w2 where g: "create_registration e managed rule vaType c va req w1 = (g, w2)" by fastforce
  have gi: "g = Inr ()" using assms(1) n ok g by (cases g) (auto simp: create_issue_def)
  have t: "create_transaction e vaType c va req w2 = (Inr resp, w')"
    using assms(1,3) n ok g gi by (auto simp: create_issue_def)
  obtain q w3 where q: "SaveInquiry e (create_record e vaType c va req) w2 = (q, w3)" by fastforce
  then obtain r where r: "q = Inr r" using t by (cases q) (auto simp: create_transaction_def split: if_splits)
  have "w_accounts w3 = w_accounts w2"
    using txns_only_SaveInquiry [of w2 e "create_record e vaType c va req"] q by (simp add: txns_only_def)
  moreover have "resp = buildCreateVAResponse req c va \<and> w_txns w' = w_txns w3 \<and> w_accounts w' = w_accounts w3"
    using t q r SaveBillDetails_frame(1,4) [of e "ri_ID r" "cq_BillDetails req" w3]
    by (auto simp: create_transaction_def split: if_splits prod.splits sum.splits)
  ultimately show thesis using that n ok g gi q r by simp
qed

text \<open>On a number without transactions the bill becomes its only, pending row.\<close>

definition created_row :: "MerchantCreateVARequest \<Rightarrow> string \<Rightarrow> string \<Rightarrow> int \<Rightarrow> txn \<Rightarrow> bool" where
  "created_row req vaType va n t = (t_virtual_account_no t = va \<and> t_inquiry_request_id t = va \<and> t_status t = ''03'' \<and>
     t_total_amount t = Some n \<and> t_paid_amount t = None \<and> t_expired_date t = cq_ExpiredDate req \<and>
     t_va_type t = Some vaType \<and> t_payment_request_id t = None)"

lemma SaveInquiry_new:
  assumes "SaveInquiry e (create_record e vaType c va req) w = (Inr r, w')"
    and "\<forall>t \<in> set (w_txns w). t_inquiry_request_id t \<noteq> va" and "cq_TotalAmount req = Some a" and "e_numeric e (am_Value a) = Some n"
  shows "\<exists>t. w_txns w' = w_txns w @ [t] \<and> created_row req vaType va n t"
proof -
  have "find (has_inquiry_id va) (w_txns w) = None" using assms(2) by (simp add: find_None_iff has_inquiry_id_def)
  with assms(1,3,4) show ?thesis
    by (auto simp: SaveInquiry_def Let_def guard_def create_record_def upsert_txn_def inquiry_row_def next_uuid_def created_row_def
        split: option.splits if_splits)
qed

lemma create_class_rule:
  assumes "create_class re req s = Some (True, rule)" shows "rule_check rule req = None"
  using assms by (auto simp: create_class_def create_rule_def split: prod.splits sum.splits option.splits)

lemma create_class_billed:
  assumes "create_class re req s = Some (managed, rule)" and "cq_TotalAmount req \<noteq> None"
  shows "\<not> (managed \<and> vt_Billing rule = VATypeBillingNone)"
  using create_class_rule [of re req s rule] assms by (cases managed) (auto simp: rule_check_def check_def)

lemma create_billed_world:
  assumes "CreateVA e re req (w, s) = (Inr resp, w', s')" and "cr_VirtualAccountData resp = Some d" and "md_VirtualAccountNo d = va"
    and "\<forall>t \<in> set (w_txns w). t_inquiry_request_id t \<noteq> va" and "cq_TotalAmount req = Some a" and "e_numeric e (am_Value a) = Some n"
  shows "va \<noteq> []" and "\<exists>t. w_txns w' = w_txns w @ [t] \<and> created_row req (vaType_of req) va n t"
    and "account_of va w' = None \<Longrightarrow> vaType_of req = []"
proof -
  obtain managed rule where c: "create_class re req s = Some (managed, rule)" "create_fields managed req = None"
    and i: "create_issue e managed rule (vaType_of req) req w = (Inr resp, w')"
    by (rule CreateVA_cases [OF assms(1)]) auto
  note p = create_fields_partner [OF c(2)]
  have b: "\<not> (managed \<and> vt_Billing rule = VATypeBillingNone)" by (rule create_class_billed [OF c(1)]) (simp add: assms(5))
  obtain cu va' w1 w2 r w3 where n: "create_number e managed rule (vaType_of req) req w = (Inr (cu, va'), w1)"
    and g: "create_registration e managed rule (vaType_of req) cu va' req w1 = (Inr (), w2)" and rs: "resp = buildCreateVAResponse req cu va'"
    and q: "SaveInquiry e (create_record e (vaType_of req) cu va' req) w2 = (Inr r, w3)"
    and w': "w_txns w' = w_txns w3" "w_accounts w' = w_accounts w2"
    by (rule create_issue_billed [OF i p b])
  have va: "va' = va" using rs assms(2,3) by (auto simp: buildCreateVAResponse_def)
  have t: "w_txns w2 = w_txns w" using create_registration_ok(1) [OF g] seqs_onlyD(2) [OF create_number_seqs [OF n]] by simp
  show "va \<noteq> []" using create_number_ok(1) [OF n p] va by simp
  show "\<exists>t. w_txns w' = w_txns w @ [t] \<and> created_row req (vaType_of req) va n t"
    using SaveInquiry_new [OF q _ assms(5,6)] assms(4) t w'(1) va by simp
  show "account_of va w' = None \<Longrightarrow> vaType_of req = []"
    using create_registration_ok(2) [OF g] create_class_unmanaged [of re req s rule] c(1) w'(2) va
    by (cases managed) (auto simp: account_of_def)
qed

lemma created_reaches:
  assumes "CreateVA e re req (w, s) = (Inr resp, w', s')" and "cr_VirtualAccountData resp = Some d" and "md_VirtualAccountNo d = va"
    and "\<forall>t \<in> set (w_txns w). t_inquiry_request_id t \<noteq> va \<and> t_virtual_account_no t \<noteq> va"
    and "cq_TotalAmount req = Some a" and "amountPattern (am_Value a)" and "amount_cents (am_Value a) < 10 ^ 15"
    and "numeric_env e" and "db_ok w" and "\<forall>b. account_of va w' = Some b \<longrightarrow> ac_Billing b = VATypeBillingFixed"
  shows "\<exists>t. w_txns w' = w_txns w @ [t] \<and> t_virtual_account_no t = va \<and> t_inquiry_request_id t = va \<and>
    (\<forall>e' preq. first_request e' preq w' \<longrightarrow> numeric_env e' \<longrightarrow> pq_VirtualAccountNo preq = va \<longrightarrow>
       (case cq_ExpiredDate req of None \<Rightarrow> True | Some x \<Rightarrow> \<not> After (e_now e') x) \<longrightarrow>
       reaches_single e' preq w' t (amount_cents (am_Value a)))"
proof -
  have num: "e_numeric e (am_Value a) = Some (int (amount_cents (am_Value a)))"
    using numeric_env_read [OF assms(8,6)] assms(7) by simp
  note W = create_billed_world [OF assms(1-3) _ assms(5) num]
  obtain t where t: "w_txns w' = w_txns w @ [t]" "created_row req (vaType_of req) va (int (amount_cents (am_Value a))) t"
    using W(2) assms(4) by auto
  have cur: "current_txn va w' = Some t"
    using t assms(4) by (simp add: current_txn_def filter_empty_conv created_row_def)
  have ok: "db_ok w'" by (rule evolves_db_ok [OF evolves_CreateVA [OF assms(1)] assms(9)])
  have nb: "\<not> IsNoBill (account_of va w')"
    using assms(10) by (auto simp: IsNoBill_def code_consts split: option.splits)
  have bill: "paymentBilling (account_of va w') (record_of e' w' t) \<noteq> VATypeBillingVariable" for e'
    using assms(4,10) W(3) t(2)
    by (cases "account_of va w'") (auto simp: paymentBilling_def created_row_def BillingForVAType_def code_consts)
  show ?thesis
    using t cur ok nb bill W(1) assms(4,7)
    by (intro exI [of _ t]) (auto simp: reaches_single_def created_row_def)
qed

text \<open>C9: a fixed bill a merchant has just created on a new number can be inquired and paid: the inquiry shows the
  amount of the creation, and a first payment of that amount settles the bill under the payment's identifier,
  as long as neither comes after the expiry the merchant set.\<close>

theorem created_bill_can_be_paid:
  assumes "CreateVA e re req (w, s) = (Inr resp, w1, s1)" and "cr_VirtualAccountData resp = Some d" and "md_VirtualAccountNo d = va"
    and "\<forall>t \<in> set (w_txns w). t_inquiry_request_id t \<noteq> va \<and> t_virtual_account_no t \<noteq> va \<and>
       t_inquiry_request_id t \<noteq> iq_InquiryRequestID ireq"
    and "cq_TotalAmount req = Some a" and "amountPattern (am_Value a)" and "amount_cents (am_Value a) < 10 ^ 15"
    and "numeric_env e" and "db_ok w" and "\<forall>b. account_of va w1 = Some b \<longrightarrow> ac_Billing b = VATypeBillingFixed"
    and "iq_VirtualAccountNo ireq = va" and "pq_VirtualAccountNo preq = va"
    and "first_request e1 preq w1" and "numeric_env e1" and "first_request e2 preq w1" and "numeric_env e2"
    and "case cq_ExpiredDate req of None \<Rightarrow> True | Some x \<Rightarrow> \<not> After (e_now e1) x \<and> \<not> After (e_now e2) x"
    and "amounts_ok preq paid" and "tenders preq paid (amount_cents (am_Value a))" and "list_all IsEmpty (pq_BillDetails preq)"
  shows "\<exists>ir w2 x m r w3 t'. Inquiry e1 ireq w1 = (Inr ir, w2) \<and> ir_ResponseCode ir = ''2002400'' \<and>
    ir_VirtualAccountData ir = Some x \<and> ad_TotalAmount x = Some m \<and> am_Value m = e_scan e1 (int (amount_cents (am_Value a))) \<and>
    Payment e2 preq paid w2 = (Inr r, w3) \<and> pr_ResponseCode r = ''2002500'' \<and>
    t' \<in> set (w_txns w3) \<and> t_status t' = ''00'' \<and> t_paid_amount t' = Some (int (amount_cents (am_Value a))) \<and>
    t_payment_request_id t' = Some (pq_PaymentRequestID preq)"
proof -
  obtain t where t: "w_txns w1 = w_txns w @ [t]" "t_virtual_account_no t = va" "t_inquiry_request_id t = va"
    and R: "\<And>e'. first_request e' preq w1 \<Longrightarrow> numeric_env e' \<Longrightarrow>
       (case cq_ExpiredDate req of None \<Rightarrow> True | Some x \<Rightarrow> \<not> After (e_now e') x) \<Longrightarrow>
       reaches_single e' preq w1 t (amount_cents (am_Value a))"
    using created_reaches [OF assms(1-3) _ assms(5-10)] assms(4,12) by auto
  have r1: "reaches_single e1 preq w1 t (amount_cents (am_Value a))" "reaches_single e2 preq w1 t (amount_cents (am_Value a))"
    using R assms(13-17) by (auto split: option.splits)
  have "find (has_inquiry_id (iq_InquiryRequestID ireq)) (w_txns w) = None"
    using assms(4) by (auto simp: find_None_iff has_inquiry_id_def)
  then have "find (has_inquiry_id (iq_InquiryRequestID ireq)) (w_txns w1) \<in> {None, Some t}"
    using t(1) by (simp add: find_append)
  moreover have "iq_VirtualAccountNo ireq = pq_VirtualAccountNo preq" using assms(11,12) by simp
  ultimately show ?thesis using inquiry_then_payment [OF r1 _ _ assms(18-20), of ireq] by blast
qed

section \<open>A static number is issued once\<close>

text \<open>No call takes an owner out of the registry.\<close>

lemma run_call_owner:
  assumes "x \<in> account_owner ` set (w_accounts w)"
  shows "x \<in> account_owner ` set (w_accounts (run_call e c w))"
proof -
  have u: "account_owner ` set (update_where p f as) = account_owner ` set as" if "\<And>a. account_owner (f a) = account_owner a" for p f as
    using map_update_where [of p account_owner f as] that by (metis list.set_map)
  have o: "account_owner (account_upsert y b) = account_owner b" "account_owner (b\<lparr>ac_Status := st, ac_UpdatedAt := n\<rparr>) = account_owner b"
    for y b st n by (simp_all add: account_upsert_def account_owner_def)
  have s: "x \<in> account_owner ` set (w_accounts (snd (SaveVAAccount e a w)))" for a
    using assms u [OF o(1)] by (auto simp: SaveVAAccount_def snd_guard Let_def next_uuid_def split: option.split)
  have st: "x \<in> account_owner ` set (w_accounts (snd (UpdateVAAccountStatus e va st w)))" for va st
    using assms u [OF o(2)] by (auto simp: UpdateVAAccountStatus_def snd_guard Let_def)
  have n: "w_accounts (snd (RecordPaymentFlag e f w)) = w_accounts w" "w_accounts (snd (NextCustomerNoSequence e t w)) = w_accounts w"
    "w_accounts (snd (Create e d w)) = w_accounts w" "w_accounts (snd (UpdateDeliveryResult e i r w)) = w_accounts w"
    "w_accounts (snd (CreateStatusInquiryAttempt e av w)) = w_accounts w" for f t d i r av
    by (simp_all add: RecordPaymentFlag_def NextCustomerNoSequence_def withLock_def Create_def UpdateDeliveryResult_def
        CreateStatusInquiryAttempt_def snd_guard Let_def next_uuid_def split: option.split)
  show ?thesis by (cases c) (use frame in \<open>auto simp: txns_only_def n s st assms\<close>)
qed

lemma evolves_owner:
  "evolves w v \<Longrightarrow> x \<in> account_owner ` set (w_accounts w) \<Longrightarrow> x \<in> account_owner ` set (w_accounts v)"
  by (induction rule: evolves.induct) (simp_all add: run_call_owner)

lemma RegisterStatic_taken:
  assumes "(p, c) \<in> account_owner ` set (w_accounts w)" shows "\<exists>err. fst (RegisterStaticCustomerNo e p c w) = Inl err"
proof -
  have "count_where (\<lambda>a. account_owner a = (p, c)) (w_accounts w) \<noteq> 0" using assms by (auto simp: count_where_0_iff)
  then show ?thesis by (auto simp: RegisterStaticCustomerNo_def withLock_def guard_def split: option.split)
qed

definition static_billed :: "(bool \<times> VATypeRule) option \<Rightarrow> bool" where
  "static_billed c = (case c of Some (True, rule) \<Rightarrow> \<not> vt_Dynamic rule \<and> vt_Billing rule \<noteq> VATypeBillingNone | _ \<Rightarrow> False)"

lemma account_upsert_owner: "account_owner (account_upsert y b) = account_owner b"
  by (simp add: account_upsert_def account_owner_def)

lemma static_saved:
  assumes "CreateVA e re req (w, s) = (Inr resp, w', s')" and "static_billed (create_class re req s)"
  obtains rule vaType w1 w2 where "create_registration e True rule vaType (cq_CustomerNo req) (cq_PartnerServiceID req @ cq_CustomerNo req) req w1 = (Inr (), w2)"
    "w_accounts w1 = w_accounts w" "w_accounts w' = w_accounts w2"
proof -
  obtain managed rule where c: "create_class re req s = Some (managed, rule)" "create_fields managed req = None"
    and i: "create_issue e managed rule (vaType_of req) req w = (Inr resp, w')"
    by (rule CreateVA_cases [OF assms(1)]) auto
  then have m: "managed" "\<not> vt_Dynamic rule" "vt_Billing rule \<noteq> VATypeBillingNone"
    using assms(2) by (auto simp: static_billed_def split: bool.splits)
  note p = create_fields_partner [OF c(2)]
  have b: "\<not> (managed \<and> vt_Billing rule = VATypeBillingNone)" using m by simp
  obtain cu va w1 w2 r w3 where n: "create_number e managed rule (vaType_of req) req w = (Inr (cu, va), w1)"
    and g: "create_registration e managed rule (vaType_of req) cu va req w1 = (Inr (), w2)" and w': "w_accounts w' = w_accounts w2"
    by (rule create_issue_billed [OF i p b])
  have "cu = cq_CustomerNo req" "va = cq_PartnerServiceID req @ cu" using create_number_ok(2) [OF n p] m by simp_all
  with g m(1) w' seqs_onlyD(3) [OF create_number_seqs [OF n]] show thesis by (intro that [of rule "vaType_of req" w1 w2]) simp_all
qed

lemma static_registers:
  assumes "CreateVA e re req (w, s) = (Inr resp, w', s')" and "static_billed (create_class re req s)"
    and "account_of (cq_PartnerServiceID req @ cq_CustomerNo req) w = None"
  shows "(cq_PartnerServiceID req, cq_CustomerNo req) \<in> account_owner ` set (w_accounts w')"
proof (rule static_saved [OF assms(1,2)])
  fix rule vaType w1 w2
  assume g: "create_registration e True rule vaType (cq_CustomerNo req) (cq_PartnerServiceID req @ cq_CustomerNo req) req w1 = (Inr (), w2)"
    and w: "w_accounts w1 = w_accounts w" "w_accounts w' = w_accounts w2"
  then show ?thesis using create_registration_ok(3) [OF g] assms(3) by (simp add: account_of_def)
qed

lemma static_refused:
  assumes "(cq_PartnerServiceID req, cq_CustomerNo req) \<in> account_owner ` set (w_accounts w)" and "static_billed (create_class re req s)"
    and "CreateVA e re req (w, s) = (out, w', s')"
  shows "(\<exists>err. out = Inl err) \<and> w' = w"
proof (rule CreateVA_cases [OF assms(3)])
  fix managed rule
  assume c: "create_class re req s = Some (managed, rule)" and i: "create_issue e managed rule (vaType_of req) req w = (out, w')"
  have m: "managed" "\<not> vt_Dynamic rule" "vt_Billing rule \<noteq> VATypeBillingNone"
    using assms(2) c by (auto simp: static_billed_def split: bool.splits)
  obtain err where r: "fst (RegisterStaticCustomerNo e (cq_PartnerServiceID req) (cq_CustomerNo req) w) = Inl err"
    using RegisterStatic_taken [OF assms(1)] by blast
  have "\<exists>d. create_number e managed rule (vaType_of req) req w = (Inl d, w)"
    using m r RegisterStatic_world [of e "cq_PartnerServiceID req" "cq_CustomerNo req" w]
    by (auto simp: create_number_def create_static_def split: prod.splits sum.splits)
  with i show ?thesis by (auto simp: create_issue_def)
qed auto

text \<open>
  The number of a pair may already be registered for another pair, since it is their concatenation; the upsert then keeps
  the owner that is on file.
\<close>

definition registered_elsewhere :: "string \<Rightarrow> string \<Rightarrow> world \<Rightarrow> bool" where
  "registered_elsewhere p c w = (case account_of (p @ c) w of None \<Rightarrow> False | Some a \<Rightarrow> account_owner a \<noteq> (p, c))"

lemma SaveVAAccount_owners:
  assumes "account_of (ac_VirtualAccountNo a) w \<noteq> None"
  shows "account_owner ` set (w_accounts (snd (SaveVAAccount e a w))) = account_owner ` set (w_accounts w)"
proof -
  have u: "account_owner ` set (update_where p (account_upsert y) as) = account_owner ` set as" for p y as
    using map_update_where [of p account_owner "account_upsert y" as] by (metis account_upsert_owner list.set_map)
  have "ac_VirtualAccountNo (account_defaults e a w) = ac_VirtualAccountNo a" by (simp add: account_defaults_def)
  with assms show ?thesis by (auto simp: SaveVAAccount_def snd_guard Let_def account_of_def next_uuid_def u split: option.split)
qed

lemma create_registration_existing:
  assumes "create_registration e managed rule vaType c va req w = (Inr u, w')" and "account_of va w \<noteq> None"
  shows "account_owner ` set (w_accounts w') = account_owner ` set (w_accounts w)"
proof -
  let ?a = "create_account e rule vaType c va req"
  have "w' = (if managed then snd (SaveVAAccount e ?a w) else w)"
    using assms(1) by (auto simp: create_registration_def split: prod.splits sum.splits)
  then show ?thesis using SaveVAAccount_owners [of ?a w e] assms(2) by (simp add: create_account_def)
qed

lemma static_upserts:
  assumes "CreateVA e re req (w, s) = (Inr resp, w', s')" and "static_billed (create_class re req s)"
    and "account_of (cq_PartnerServiceID req @ cq_CustomerNo req) w \<noteq> None"
  shows "account_owner ` set (w_accounts w') = account_owner ` set (w_accounts w)"
proof (rule static_saved [OF assms(1,2)])
  fix rule vaType w1 w2
  assume g: "create_registration e True rule vaType (cq_CustomerNo req) (cq_PartnerServiceID req @ cq_CustomerNo req) req w1 = (Inr (), w2)"
    and w: "w_accounts w1 = w_accounts w" "w_accounts w' = w_accounts w2"
  then show ?thesis using create_registration_existing [OF g] assms(3) by (simp add: account_of_def)
qed

lemma static_owners:
  assumes "CreateVA e re req (w, s) = (Inr resp, w', s')" and "static_billed (create_class re req s)"
  defines "p \<equiv> cq_PartnerServiceID req" and "c \<equiv> cq_CustomerNo req"
  shows "(p, c) \<notin> account_owner ` set (w_accounts w)"
    and "((p, c) \<in> account_owner ` set (w_accounts w')) \<longleftrightarrow> \<not> registered_elsewhere p c w"
proof -
  show n: "(p, c) \<notin> account_owner ` set (w_accounts w)"
    using static_refused [OF _ assms(2,1)] unfolding p_def c_def by auto
  show "((p, c) \<in> account_owner ` set (w_accounts w')) \<longleftrightarrow> \<not> registered_elsewhere p c w"
  proof (cases "account_of (p @ c) w")
    case None
    then show ?thesis using static_registers [OF assms(1,2)] by (simp add: registered_elsewhere_def p_def c_def)
  next
    case (Some a)
    then have "account_owner a \<noteq> (p, c)" using n find_Some_mem unfolding account_of_def by (metis image_eqI)
    moreover have "account_owner ` set (w_accounts w') = account_owner ` set (w_accounts w)"
      using static_upserts [OF assms(1,2)] Some by (simp add: p_def c_def)
    ultimately show ?thesis using n Some by (simp add: registered_elsewhere_def)
  qed
qed

text \<open>C25: A static number with a bill is issued once, unless the number was already registered for another pair of partner
  service id and customer number. After a creation for a pair has succeeded, and whatever traffic follows, deletion,
  expiry and settlement included, every later static creation with a bill for the same pair is refused and changes
  nothing, in any environment; when the number was registered for another pair before, that pair stays the owner and
  the registration check still finds the pair of the request free after the creation.\<close>

theorem static_number_issued_once:
  assumes "CreateVA e re req (w, s) = (Inr resp, w1, s1)" and "static_billed (create_class re req s)"
    and "evolves w1 w2"
    and "cq_PartnerServiceID req' = cq_PartnerServiceID req" and "cq_CustomerNo req' = cq_CustomerNo req"
    and "static_billed (create_class re' req' s2)"
    and "CreateVA e' re' req' (w2, s2) = (out, w3, s3)"
  shows "if registered_elsewhere (cq_PartnerServiceID req) (cq_CustomerNo req) w
    then (no_faults e' \<longrightarrow> RegisterStaticCustomerNo e' (cq_PartnerServiceID req) (cq_CustomerNo req) w1 = (Inr (), w1))
    else (\<exists>err. out = Inl err) \<and> w3 = w2"
proof (cases "registered_elsewhere (cq_PartnerServiceID req) (cq_CustomerNo req) w")
  case True
  then have "(cq_PartnerServiceID req, cq_CustomerNo req) \<notin> account_owner ` set (w_accounts w1)"
    using static_owners(2) [OF assms(1,2)] by simp
  then have "\<forall>a \<in> set (w_accounts w1). account_owner a \<noteq> (cq_PartnerServiceID req, cq_CustomerNo req)" by (metis image_eqI)
  then have "count_where (\<lambda>a. account_owner a = (cq_PartnerServiceID req, cq_CustomerNo req)) (w_accounts w1) = 0"
    by (simp add: count_where_0_iff)
  with True show ?thesis by (simp add: RegisterStaticCustomerNo_def withLock_def no_faults_def)
next
  case False
  then have "(cq_PartnerServiceID req', cq_CustomerNo req') \<in> account_owner ` set (w_accounts w2)"
    using evolves_owner [OF assms(3)] static_owners(2) [OF assms(1,2)] assms(4,5) by simp
  from static_refused [OF this assms(6,7)] False show ?thesis by simp
qed

section \<open>A refused creation that is not without effect\<close>

lemma CreateVA_run:
  assumes "create_class re req s = Some (managed, rule)" and "create_fields managed req = None" and "create_limits req = None"
  obtains s' where "CreateVA e re req (w, s) =
    (fst (create_issue e managed rule (vaType_of req) req w), snd (create_issue e managed rule (vaType_of req) req w), s')"
proof -
  obtain s1 where m: "create_managed re req s = (Inr managed, s1)" "fst (create_rule re managed (vaType_of req) req s1) = Inr rule"
    using assms(1) by (auto simp: create_class_def split: prod.splits sum.splits)
  then obtain s2 where "create_rule re managed (vaType_of req) req s1 = (Inr rule, s2)" by (metis prod.collapse)
  with m(1) assms(2,3) show thesis
    by (intro that [of s2]) (simp add: CreateVA_def Let_def vaType_of_def split: prod.split)
qed

lemma SaveVAAccount_existing:
  assumes "no_faults e" and "ac_ID a = []" and "account_of (ac_VirtualAccountNo a) w = Some old" and "account_check a"
    and "ac_Status a \<noteq> []"
  shows "SaveVAAccount e a w = (Inr ((account_defaults e a w)\<lparr>ac_ID := ac_ID old\<rparr>), (next_uuid w)\<lparr>w_accounts :=
     update_where (account_va (ac_VirtualAccountNo a)) (account_upsert (account_defaults e a w)) (w_accounts w)\<rparr>)"
proof -
  have "account_check (account_defaults e a w)" "ac_VirtualAccountNo (account_defaults e a w) = ac_VirtualAccountNo a"
    using assms(4,5) by (simp_all add: account_check_def account_defaults_def)
  with assms(1-3) show ?thesis
    by (simp add: SaveVAAccount_def no_faults_def Let_def next_uuid_def account_of_def)
qed

lemma find_update_where_same:
  assumes "\<And>x. p x \<Longrightarrow> p (f x)"
  shows "find p (update_where p f xs) = map_option f (find p xs)"
  using assms by (induction xs) auto

text \<open>the registration is saved before the check for a pending bill. When a merchant creates a dynamic
  number it chose itself and the number has a pending bill, the creation is refused with 4092700, but the
  holder, the callback address and the expiry of the registration are already those of the refused request,
  and a closed registration is active again.\<close>

theorem refused_creation_rewrites_registration:
  assumes "create_class re req s = Some (True, rule)" and "create_fields True req = None" and "create_limits req = None"
    and "vt_Dynamic rule" and "vt_Billing rule = VATypeBillingVariable \<or> vt_Billing rule = VATypeBillingFixed"
    and "no_faults e" and "map_of (w_seqs w) (vaType_of req) = Some k" and "length (dec k) \<le> 16"
    and "cq_VirtualAccountNo req = va" and "va \<noteq> []" and "account_of va w = Some old"
    and "current_txn va w = Some t" and "t_status t = ''03''" and "t_total_amount t = Some n"
  shows "\<exists>err w' s' a. CreateVA e re req (w, s) = (Inl err, w', s') \<and> de_SNAPCode err = ''4092700'' \<and>
    account_of va w' = Some a \<and> ac_CustomerName a = cq_VirtualAccountName req \<and>
    ac_NotificationURL a = notificationURLFromAdditionalInfo (cq_AdditionalInfo req) \<and>
    ac_ExpiredDate a = cq_ExpiredDate req \<and> ac_Status a = VAAccountStatusActive"
proof -
  let ?ty = "vaType_of req"
  obtain c w1 where n: "create_number e True rule ?ty req w = (Inr (c, va), w1)" and w1: "w_accounts w1 = w_accounts w" "w_txns w1 = w_txns w"
    using assms(4,6-10) by (auto simp: create_number_def create_dynamic_def NextCustomerNoSequence_def withLock_def no_faults_def)
  let ?a = "create_account e rule ?ty c va req"
  have va: "ac_VirtualAccountNo ?a = va" by (simp add: create_account_def)
  let ?b = "account_upsert (account_defaults e ?a w1) old"
  let ?w2 = "(next_uuid w1)\<lparr>w_accounts := update_where (account_va va) (account_upsert (account_defaults e ?a w1)) (w_accounts w1)\<rparr>"
  have "create_registration e True rule ?ty c va req w1 = (Inr (), ?w2)"
    using SaveVAAccount_existing [OF assms(6), of ?a w1 old] va assms(5,11) w1
    by (auto simp: create_registration_def create_account_def account_check_def code_consts account_of_def)
  moreover have acc: "account_of va ?w2 = Some ?b"
    using assms(11) w1 find_update_where_same [of "account_va va" "account_upsert (account_defaults e ?a w1)" "w_accounts w1"]
    by (simp add: account_of_def account_va_def account_upsert_def)
  moreover have "current_txn va ?w2 = Some t" using assms(12) w1 by (simp add: current_txn_def next_uuid_def)
  then have "create_transaction e ?ty c va req ?w2 = (Inl (refuse ''4092700'' ''Conflict: VA already has an active pending transaction''), ?w2)"
    using GetVA_current [of e va ?w2 t n] assms(6,13,14) by (simp add: no_faults_def create_transaction_def)
  moreover have "vt_Billing rule \<noteq> VATypeBillingNone" using assms(5) by (auto simp: code_consts)
  ultimately have "create_issue e True rule ?ty req w = (Inl (refuse ''4092700'' ''Conflict: VA already has an active pending transaction''), ?w2)"
    using n by (simp add: create_issue_def)
  moreover obtain s' where "CreateVA e re req (w, s) = (fst (create_issue e True rule ?ty req w), snd (create_issue e True rule ?ty req w), s')"
    by (rule CreateVA_run [OF assms(1-3)])
  moreover have "ac_CustomerName ?b = cq_VirtualAccountName req" "ac_ExpiredDate ?b = cq_ExpiredDate req"
    "ac_NotificationURL ?b = notificationURLFromAdditionalInfo (cq_AdditionalInfo req)" "ac_Status ?b = VAAccountStatusActive"
    by (simp_all add: account_upsert_def account_defaults_def create_account_def code_consts)
  ultimately show ?thesis using acc by (simp add: refuse_def NewDomainError_def)
qed

section \<open>A creation run\<close>

definition demo_create :: MerchantCreateVARequest where
  "demo_create = \<lparr>cq_PartnerServiceID = ''15975'', cq_CustomerNo = ''678'', cq_VirtualAccountNo = ''15975678'',
     cq_VirtualAccountName = ''Budi'', cq_VirtualAccountEmail = [], cq_VirtualAccountPhone = [], cq_TrxID = ''trx1'',
     cq_TotalAmount = Some \<lparr>am_Value = ''250.00'', am_Currency = ''IDR''\<rparr>, cq_BillDetails = [], cq_FreeTexts = [],
     cq_VirtualAccountTrxType = [], cq_FeeAmount = None, cq_ExpiredDate = None,
     cq_AdditionalInfo = [(''vaType'', JStr ''03'')]\<rparr>"

definition fixed_rule :: VATypeRule where
  "fixed_rule = \<lparr>vt_VAType = ''03'', vt_PartnerServiceID = ''15975'', vt_Dynamic = False, vt_Billing = ''fixed'', vt_Description = []\<rparr>"

lemma demo_type: "vaType_of demo_create = ''03''" "vaTypeFromAdditionalInfo (cq_AdditionalInfo demo_create) = Some ''03''"
  by (simp_all add: demo_create_def vaType_of_def vaTypeFromAdditionalInfo_def info_string_def)

lemma seeded_find:
  assumes "types_distinct s" and "r \<in> set (rs_types s)" and "rs_cached_types s = None" and "s = seeded_rules"
  shows "fst (LookupVATypeRule calm (vt_PartnerServiceID r) (vt_VAType r) s) = Inr (Some r)"
proof -
  have "fst (currentVATypes calm s) = Inr (sort_key (num_of \<circ> vt_VAType) (rs_types s))"
    using assms(3) by (simp add: currentVATypes_def GetVATypes_def ListVATypes_def calm_def)
  then show ?thesis
    using fst_LookupVATypeRule find_rule [OF assms(1), of "sort_key (num_of \<circ> vt_VAType) (rs_types s)"] find_witness [OF assms(1,2)] by simp
qed

lemma seeded_distinct: "types_distinct seeded_rules"
  by (simp add: types_distinct_def seeded_rules_def six_types_def)

lemma demo_class: "create_class (Some calm) demo_create seeded_rules = Some (True, fixed_rule)"
proof -
  have "fst (LookupVATypeRule calm (vt_PartnerServiceID fixed_rule) (vt_VAType fixed_rule) seeded_rules) = Inr (Some fixed_rule)"
    by (rule seeded_find [OF seeded_distinct]) (simp_all add: seeded_rules_def six_types_def fixed_rule_def)
  then obtain s2 where "LookupVATypeRule calm ''15975'' ''03'' seeded_rules = (Inr (Some fixed_rule), s2)"
    by (metis fixed_rule_def VATypeRule.select_convs(1,2) prod.collapse)
  moreover have "rule_check fixed_rule demo_create = None"
    by (simp add: rule_check_def check_def fixed_rule_def demo_create_def code_consts)
  moreover have "cq_PartnerServiceID demo_create = ''15975''" by (simp add: demo_create_def)
  ultimately show ?thesis by (simp add: create_class_def create_managed_def demo_type create_rule_def)
qed

lemma demo_checks: "create_fields True demo_create = None" "create_limits demo_create = None"
  by (simp_all add: create_fields_def create_limits_def check_def demo_create_def code_consts)

lemma demo_issue:
  "\<exists>t a w'. create_issue demo_env True fixed_rule ''03'' demo_create fresh_world = (Inr (buildCreateVAResponse demo_create ''678'' ''15975678''), w') \<and>
     w_txns w' = [t] \<and> t_payment_request_id t = None \<and> w_accounts w' = [a] \<and> ac_Billing a = ''fixed'' \<and> ac_VirtualAccountNo a = ''15975678'' \<and>
     w_flags w' = [] \<and> w_payments w' = []"
proof -
  have "e_numeric demo_env ''250.00'' = Some 25000"
    using numeric_env_read [OF demo_numeric_env] demo_paid_amount by (simp add: demo_paid_def)
  then show ?thesis using demo_no_faults
    by (simp add: create_issue_def create_number_def create_static_def vaNoMatchesPartnerAndCustomer_def RegisterStaticCustomerNo_def withLock_def
        no_faults_def create_registration_def SaveVAAccount_def create_account_def account_defaults_def account_check_def code_consts
        create_transaction_def GetVAByVirtualAccountNo_def SaveInquiry_def create_record_def upsert_txn_def inquiry_row_def
        next_uuid_def fresh_world_def demo_create_def fixed_rule_def Let_def)
qed

lemma demo_created:
  obtains t a w' s' where "CreateVA demo_env (Some calm) demo_create (fresh_world, seeded_rules) =
      (Inr (buildCreateVAResponse demo_create ''678'' ''15975678''), w', s')"
    "w_txns w' = [t]" "t_payment_request_id t = None" "w_accounts w' = [a]" "ac_Billing a = VATypeBillingFixed"
    "ac_VirtualAccountNo a = ''15975678''" "w_flags w' = []" "w_payments w' = []"
proof -
  obtain t a w' where i: "create_issue demo_env True fixed_rule ''03'' demo_create fresh_world =
      (Inr (buildCreateVAResponse demo_create ''678'' ''15975678''), w')" "w_txns w' = [t]" "t_payment_request_id t = None" "w_accounts w' = [a]"
      "ac_Billing a = ''fixed''" "ac_VirtualAccountNo a = ''15975678''" "w_flags w' = []" "w_payments w' = []"
    using demo_issue by blast
  obtain s' where "CreateVA demo_env (Some calm) demo_create (fresh_world, seeded_rules) =
      (fst (create_issue demo_env True fixed_rule (vaType_of demo_create) demo_create fresh_world),
       snd (create_issue demo_env True fixed_rule (vaType_of demo_create) demo_create fresh_world), s')"
    by (rule CreateVA_run [OF demo_class demo_checks])
  with that [of w' s' t a] i show thesis by (simp add: demo_type code_consts)
qed

theorem created_bill_can_be_paid_witness:
  "\<exists>resp w1 s1 ir w2 r w3. CreateVA demo_env (Some calm) demo_create (fresh_world, seeded_rules) = (Inr resp, w1, s1) \<and>
     Inquiry demo_env (demo_inquiry\<lparr>iq_VirtualAccountNo := ''15975678''\<rparr>) w1 = (Inr ir, w2) \<and>
     Payment demo_env (demo_request\<lparr>pq_VirtualAccountNo := ''15975678''\<rparr>) demo_paid w2 = (Inr r, w3) \<and> pr_ResponseCode r = ''2002500''"
proof -
  obtain t a w' s' where c: "CreateVA demo_env (Some calm) demo_create (fresh_world, seeded_rules) =
      (Inr (buildCreateVAResponse demo_create ''678'' ''15975678''), w', s')"
    and w: "w_txns w' = [t]" "t_payment_request_id t = None" "w_accounts w' = [a]" "ac_Billing a = VATypeBillingFixed"
    "ac_VirtualAccountNo a = ''15975678''" "w_flags w' = []" "w_payments w' = []" by (rule demo_created)
  let ?p = "demo_request\<lparr>pq_VirtualAccountNo := ''15975678''\<rparr>" and ?i = "demo_inquiry\<lparr>iq_VirtualAccountNo := ''15975678''\<rparr>"
  let ?d = "the (cr_VirtualAccountData (buildCreateVAResponse demo_create ''678'' ''15975678''))"
  have f: "first_request demo_env ?p w'"
    using w by (simp add: first_request_def demo_no_faults flag_answer_def has_payment_id_def)
  have am: "amounts_ok ?p demo_paid" "tenders ?p demo_paid (amount_cents (am_Value demo_paid))"
    using demo_amounts demo_paid_amount by (simp_all add: amounts_ok_def tenders_def)
  have d: "cr_VirtualAccountData (buildCreateVAResponse demo_create ''678'' ''15975678'') = Some ?d" "md_VirtualAccountNo ?d = ''15975678''"
    "cq_TotalAmount demo_create = Some demo_paid" "cq_ExpiredDate demo_create = None"
    by (simp_all add: buildCreateVAResponse_def demo_create_def demo_paid_def)
  have acc: "\<forall>b. account_of ''15975678'' w' = Some b \<longrightarrow> ac_Billing b = VATypeBillingFixed"
    using w by (simp add: account_of_def)
  have ok: "db_ok fresh_world" by (simp add: db_ok_def fresh_world_def payment_ids_def)
  from created_bill_can_be_paid [OF c d(1,2) _ d(3) demo_paid_amount(1) _ demo_numeric_env ok acc, of ?i ?p demo_env demo_env demo_paid]
  have "\<exists>ir w2 r w3. Inquiry demo_env ?i w' = (Inr ir, w2) \<and> Payment demo_env ?p demo_paid w2 = (Inr r, w3) \<and> pr_ResponseCode r = ''2002500''"
    using f am d demo_numeric_env demo_paid_amount by (simp add: fresh_world_def) blast
  with c show ?thesis by blast
qed

theorem static_number_issued_once_witness:
  "\<exists>resp w1 s1 err s2. CreateVA demo_env (Some calm) demo_create (fresh_world, seeded_rules) = (Inr resp, w1, s1) \<and>
     CreateVA demo_env (Some calm) demo_create (w1, seeded_rules) = (Inl err, w1, s2)"
proof -
  obtain resp w1 s1 where c: "CreateVA demo_env (Some calm) demo_create (fresh_world, seeded_rules) = (Inr resp, w1, s1)"
    using demo_created by metis
  obtain out w3 s3 where o: "CreateVA demo_env (Some calm) demo_create (w1, seeded_rules) = (out, w3, s3)" by (metis prod.collapse)
  have b: "static_billed (create_class (Some calm) demo_create seeded_rules)"
    by (simp add: demo_class static_billed_def fixed_rule_def code_consts)
  have "\<not> registered_elsewhere (cq_PartnerServiceID demo_create) (cq_CustomerNo demo_create) fresh_world"
    by (simp add: registered_elsewhere_def account_of_def fresh_world_def)
  with static_number_issued_once [OF c b evolves.same _ _ b o] have "(\<exists>err. out = Inl err) \<and> w3 = w1" by simp
  with c o show ?thesis by blast
qed

definition own_number :: MerchantCreateVARequest where
  "own_number = demo_create\<lparr>cq_CustomerNo := [], cq_VirtualAccountNo := ''12345678'', cq_VirtualAccountName := ''Ani'',
     cq_AdditionalInfo := [(''vaType'', JStr ''06''), (''dbUrlProcess'', JStr ''https://ani'')]\<rparr>"

definition dynamic_rule :: VATypeRule where
  "dynamic_rule = \<lparr>vt_VAType = ''06'', vt_PartnerServiceID = ''15975'', vt_Dynamic = True, vt_Billing = ''fixed'', vt_Description = []\<rparr>"

lemma own_number_class: "create_class (Some calm) own_number seeded_rules = Some (True, dynamic_rule)" "vaType_of own_number = ''06''"
proof -
  have "fst (LookupVATypeRule calm (vt_PartnerServiceID dynamic_rule) (vt_VAType dynamic_rule) seeded_rules) = Inr (Some dynamic_rule)"
    by (rule seeded_find [OF seeded_distinct]) (simp_all add: seeded_rules_def six_types_def dynamic_rule_def)
  then obtain s2 where "LookupVATypeRule calm ''15975'' ''06'' seeded_rules = (Inr (Some dynamic_rule), s2)"
    by (metis dynamic_rule_def VATypeRule.select_convs(1,2) prod.collapse)
  moreover have "rule_check dynamic_rule own_number = None" "cq_PartnerServiceID own_number = ''15975''"
    by (simp_all add: rule_check_def check_def dynamic_rule_def own_number_def demo_create_def code_consts)
  moreover have ty: "vaType_of own_number = ''06''" "vaTypeFromAdditionalInfo (cq_AdditionalInfo own_number) = Some ''06''"
    by (simp_all add: own_number_def vaType_of_def vaTypeFromAdditionalInfo_def info_string_def)
  ultimately show "create_class (Some calm) own_number seeded_rules = Some (True, dynamic_rule)"
    by (simp add: create_class_def create_managed_def create_rule_def)
  show "vaType_of own_number = ''06''" by (rule ty)
qed

theorem refused_creation_rewrites_registration_witness:
  "\<exists>err w' s' a. CreateVA demo_env (Some calm) own_number (demo_world, seeded_rules) = (Inl err, w', s') \<and>
     de_SNAPCode err = ''4092700'' \<and> account_of ''12345678'' w' = Some a \<and> ac_CustomerName a = ''Ani'' \<and> ac_NotificationURL a = ''https://ani''"
proof -
  have chk: "create_fields True own_number = None" "create_limits own_number = None"
    by (simp_all add: create_fields_def create_limits_def check_def own_number_def demo_create_def code_consts)
  have r: "vt_Dynamic dynamic_rule" "vt_Billing dynamic_rule = VATypeBillingVariable \<or> vt_Billing dynamic_rule = VATypeBillingFixed"
    by (simp_all add: dynamic_rule_def code_consts)
  have q: "map_of (w_seqs demo_world) (vaType_of own_number) = Some 1" "length (dec 1) \<le> 16"
    by (simp_all add: own_number_class(2) demo_world_def fresh_world_def dec.simps)
  have v: "cq_VirtualAccountNo own_number = ''12345678''" "''12345678'' \<noteq> []" by (simp_all add: own_number_def)
  have acc: "account_of ''12345678'' demo_world = Some demo_account" "current_txn ''12345678'' demo_world = Some demo_txn"
    by (simp_all add: account_of_def account_va_def current_txn_def demo_world_def fresh_world_def demo_account_def demo_txn_def)
  have t: "t_status demo_txn = ''03''" "t_total_amount demo_txn = Some 25000" by (simp_all add: demo_txn_def)
  have "cq_VirtualAccountName own_number = ''Ani''"
    "notificationURLFromAdditionalInfo (cq_AdditionalInfo own_number) = ''https://ani''"
    by (simp_all add: own_number_def notificationURLFromAdditionalInfo_def info_string_def)
  with refused_creation_rewrites_registration [OF own_number_class(1) chk r demo_no_faults q v acc t] show ?thesis by auto
qed

section \<open>Deletion\<close>

lemma delete_registration_closes:
  assumes "driver_faults e" and "delete_registration e req w = (Inr resp, w')"
  shows "\<not> has_active (dq_VirtualAccountNo req) w'" and "w' = w \<or> w' = close_account e (dq_VirtualAccountNo req) VAAccountStatusInactive w"
  using assms close_account_clears [OF account_exit_status(2)]
  by (auto simp: delete_registration_def repo driver_faults_def split: option.splits if_splits)

lemma delete_transaction_closes:
  assumes "delete_transaction e req w = (Inr resp, w')"
  shows "\<not> has_pending (dq_VirtualAccountNo req) w'"
    and "w' = w \<or> w' = update_txns (pending_of (dq_VirtualAccountNo req)) (set_status e ''04'') w"
proof -
  let ?va = "dq_VirtualAccountNo req"
  obtain r where r: "fst (GetVAByVirtualAccountNo e ?va w) = Inr r" "ri_Status r = ''03'' \<or> ri_Status r = ''04''"
    using assms by (auto simp: delete_transaction_def split: sum.splits if_splits)
  then obtain t where t: "current_txn ?va w = Some t" "t_status t = ri_Status r"
    by (auto simp: GetVAByVirtualAccountNo_def guard_def current_txn_def scan_inquiry_def split: option.splits)
  have "\<not> has_pending ?va w" if "ri_Status r = ''04''"
    using current_not_pending [OF t(1)] t(2) that by (simp add: payable_row_def)
  then show "\<not> has_pending ?va w'" "w' = w \<or> w' = update_txns (pending_of ?va) (set_status e ''04'') w"
    using assms r set_status_clears [of "''04''" ?va e w] by (auto simp: delete_transaction_def repo split: option.splits if_splits)
qed

text \<open>C26: a deletion that succeeds closes the number: a registration without a bill is no longer active, any other
  number has no pending bill left. Bills that were already settled, expired or deleted, instalments, recorded
  outcomes and callbacks are untouched.\<close>

theorem deletion_closes_the_number:
  assumes "driver_faults e" and "DeleteVA e req w = (Inr resp, w')" and "va = dq_VirtualAccountNo req"
  shows "(if IsNoBill (account_of va w) then \<not> has_active va w' \<and> w_txns w' = w_txns w
      else \<not> has_pending va w' \<and> w_accounts w' = w_accounts w) \<and>
    (\<forall>t \<in> set (w_txns w). \<not> pending_of va t \<longrightarrow> t \<in> set (w_txns w')) \<and>
    w_payments w' = w_payments w \<and> w_flags w' = w_flags w \<and> w_deliveries w' = w_deliveries w \<and> w_queue w' = w_queue w"
proof -
  have "optional (\<lambda>err. err = ErrVAAccountNotFound) (fst (GetVAAccount e va w)) = Inr (account_of va w) \<or>
      (\<exists>err. optional (\<lambda>err. err = ErrVAAccountNotFound) (fst (GetVAAccount e va w)) = Inl err)"
    using assms(1) by (cases "e_fault e (OpGetAccount va)")
      (fastforce simp: GetVAAccount_def account_of_def driver_faults_def optional_def split: option.split)+
  then have run: "(if IsNoBill (account_of va w) then delete_registration e req w else delete_transaction e req w) = (Inr resp, w')"
    using assms(2,3) by (auto simp: DeleteVA_def split: if_splits)
  show ?thesis
  proof (cases "IsNoBill (account_of va w)")
    case True
    with run have "delete_registration e req w = (Inr resp, w')" by simp
    from delete_registration_closes [OF assms(1) this] True assms(3) show ?thesis by (auto simp: close_account_def)
  next
    case False
    with run have "delete_transaction e req w = (Inr resp, w')" by simp
    from delete_transaction_closes [OF this] False assms(3) show ?thesis
      by (auto simp: update_txns_def set_update_where)
  qed
qed

definition demo_delete :: MerchantDeleteVARequest where
  "demo_delete = \<lparr>dq_PartnerServiceID = ''12345'', dq_CustomerNo = ''678'', dq_VirtualAccountNo = ''12345678'', dq_TrxID = [], dq_AdditionalInfo = []\<rparr>"

theorem deletion_closes_the_number_witness:
  "\<exists>resp w'. DeleteVA demo_env demo_delete demo_world = (Inr resp, w') \<and> \<not> has_pending ''12345678'' w' \<and> has_pending ''12345678'' demo_world"
proof -
  have acc: "account_of ''12345678'' demo_world = Some demo_account" "current_txn ''12345678'' demo_world = Some demo_txn"
    by (simp_all add: account_of_def account_va_def current_txn_def demo_world_def fresh_world_def demo_account_def demo_txn_def)
  have t: "t_status demo_txn = ''03''" "t_total_amount demo_txn = Some 25000" "\<not> IsNoBill (Some demo_account)"
    by (simp_all add: demo_txn_def IsNoBill_def demo_account_def code_consts)
  have p: "has_pending ''12345678'' demo_world" by (simp add: has_pending_def pending_of_def demo_world_def demo_txn_def)
  have g: "fst (GetVAAccount demo_env ''12345678'' demo_world) = Inr demo_account"
    using acc(1) by (simp add: GetVAAccount_def account_of_def)
  have "\<exists>resp w'. DeleteVA demo_env demo_delete demo_world = (Inr resp, w')"
    using GetVA_current [OF _ acc(2) t(2), of demo_env] t p g
    by (simp add: DeleteVA_def demo_delete_def delete_transaction_def optional_def repo)
  then obtain resp w' where d: "DeleteVA demo_env demo_delete demo_world = (Inr resp, w')" by blast
  have "driver_faults demo_env" by (simp add: driver_faults_def)
  from deletion_closes_the_number [OF this d refl] acc t(3) p d show ?thesis by (simp add: demo_delete_def)
qed

end
