(* ===== verification/Reconcile.thy ===== *)
theory Reconcile
  imports VaUsecase
begin

text \<open>
  Reconciliation with the vendor: \<^verbatim>\<open>internal/usecase/reconciliation_usecase.go\<close> over
  \<^verbatim>\<open>internal/domain/reconciliation.go\<close>, the periodic worker \<^verbatim>\<open>reconcile_worker.go\<close> and the administration
  handler \<^verbatim>\<open>admin_reconcile_handler.go\<close>.

  The outbound client is a parameter: \<^verbatim>\<open>rc_PaymentStatus\<close> is what the vendor's status service answers a request
  with, an error or a (possibly nil) response. Every transaction of a sweep is reconciled in its own step
  environment, with its own clock reading, failures and vendor, so a sweep takes a sequence of them.
\<close>

section \<open>Outcomes\<close>

definition ReconcileOutcomeSettled :: string where [code_consts]: "ReconcileOutcomeSettled = ''settled''"
definition ReconcileOutcomePending :: string where [code_consts]: "ReconcileOutcomePending = ''pending''"
definition ReconcileOutcomeNotPaid :: string where [code_consts]: "ReconcileOutcomeNotPaid = ''not_paid''"
definition ReconcileOutcomeAlreadySettled :: string where [code_consts]: "ReconcileOutcomeAlreadySettled = ''already_settled''"
definition ReconcileOutcomeError :: string where [code_consts]: "ReconcileOutcomeError = ''error''"
definition ReconcileTriggerSweep :: string where [code_consts]: "ReconcileTriggerSweep = ''sweep''"
definition ReconcileTriggerAdmin :: string where [code_consts]: "ReconcileTriggerAdmin = ''admin''"

record ReconcileResult =
  rr_VirtualAccountNo :: string
  rr_Outcome :: string
  rr_Settled :: bool
  rr_VendorResponseCode :: string
  rr_VendorPaymentFlagStatus :: string
  rr_PaidAmount :: "Amount option"
  rr_ReconciledAt :: gtime

section \<open>The reconciler\<close>

text \<open>Durations are in nanoseconds.\<close>

record ReconcileConfig =
  rf_PendingAfter :: int
  rf_BatchSize :: int
  rf_ClientID :: string

record rc_step =
  rc_env :: env
  rc_PaymentStatus :: "VAStatusRequest \<Rightarrow> gerr + VAStatusResponse option"
  rc_elapsed :: int

definition DefaultReconcileConfig :: ReconcileConfig where
  "DefaultReconcileConfig = \<lparr>rf_PendingAfter = 15 * 60 * nanos_per_second, rf_BatchSize = 100, rf_ClientID = []\<rparr>"

definition NewReconciliationUsecase :: "ReconcileConfig \<Rightarrow> ReconcileConfig" where
  "NewReconciliationUsecase cfg = cfg\<lparr>
     rf_PendingAfter := (if rf_PendingAfter cfg \<le> 0 then rf_PendingAfter DefaultReconcileConfig else rf_PendingAfter cfg),
     rf_BatchSize := (if rf_BatchSize cfg \<le> 0 then rf_BatchSize DefaultReconcileConfig else rf_BatchSize cfg)\<rparr>"

text \<open>What the vendor's answer means.\<close>

definition classifyVendorStatus :: "string \<Rightarrow> VAStatusData \<Rightarrow> string" where
  "classifyVendorStatus code data =
    (if code = CodeStatusNotFound then ReconcileOutcomeNotPaid
     else if code \<noteq> CodeStatusSuccess then ReconcileOutcomeError
     else if sd_PaymentFlagStatus data = PaymentFlagSuccess \<or> sd_PaymentFlagStatus data = PaymentFlagTimeout
       then ReconcileOutcomeSettled
     else if sd_PaymentFlagStatus data = PaymentFlagPending then ReconcileOutcomePending
     else ReconcileOutcomeNotPaid)"

definition TimePtr :: "gtime option \<Rightarrow> gtime option" where
  "TimePtr t = (case t of None \<Rightarrow> None | Some x \<Rightarrow> if IsZero x then None else Some x)"

section \<open>Settling\<close>

definition recovered_currency :: "Amount \<Rightarrow> string" where
  "recovered_currency paid = (if am_Currency paid = [] then defaultCurrency else am_Currency paid)"

definition recovered_date :: "env \<Rightarrow> VAStatusData \<Rightarrow> gtime" where
  "recovered_date e data = (case TimePtr (sd_TransactionDate data) of Some t \<Rightarrow> t
     | None \<Rightarrow> (case TimePtr (sd_TrxDateTime data) of Some t \<Rightarrow> t | None \<Rightarrow> e_now e))"

definition recovered_settlement :: "env \<Rightarrow> VAStatusData \<Rightarrow> Amount \<Rightarrow> VendorSettlement" where
  "recovered_settlement e data paid = \<lparr>vs_PaidAmount = am_Value paid, vs_Currency = recovered_currency paid,
     vs_PaymentRequestID = sd_PaymentRequestID data, vs_ReferenceNo = sd_ReferenceNo data,
     vs_TransactionDate = recovered_date e data\<rparr>"

text \<open>The callback of a recovered payment. Fields the source leaves unset are the zero values.\<close>

definition recovered_payload :: "env \<Rightarrow> VAInquiryRecord \<Rightarrow> VAStatusData \<Rightarrow> Amount \<Rightarrow> PaymentNotificationPayload" where
  "recovered_payload e record data paid = (
     let amt = Some \<lparr>am_Value = am_Value paid, am_Currency = recovered_currency paid\<rparr> in
     \<lparr>np_EventType = NotificationEventPaymentReceived, np_PartnerServiceID = ri_PartnerServiceID record,
      np_CustomerNo = ri_CustomerNo record, np_VirtualAccountNo = ri_VirtualAccountNo record, np_TrxID = ri_TrxID record,
      np_PaymentRequestID = (if sd_PaymentRequestID data = [] then ri_InquiryRequestID record else sd_PaymentRequestID data),
      np_PaidAmount = amt, np_CumulativePaymentAmount = None, np_PaidBills = [], np_TotalAmount = amt,
      np_TrxDateTime = rfc3339 (recovered_date e data), np_ReferenceNo = sd_ReferenceNo data, np_JournalNum = [],
      np_PaymentType = [], np_FlagAdvise = [], np_NotificationURL = ri_NotificationURL record, np_ExpiredAt = [],
      np_DeliveryID = [], np_Trigger = []\<rparr>)"

definition notifyRecovered :: "env \<Rightarrow> VAInquiryRecord \<Rightarrow> VAStatusData \<Rightarrow> Amount \<Rightarrow> world \<Rightarrow> world" where
  "notifyRecovered e record data paid w =
    (if \<not> e_notifier e \<or> ri_NotificationURL record = [] then w
     else snd (dispatchNotification e (recovered_payload e record data paid) (ri_VirtualAccountNo record)
            NotificationEventPaymentReceived NotificationTriggerAuto w))"

definition no_paid_amount :: gerr where
  "no_paid_amount = ErrOther ''vendor reported a successful payment flag with no paidAmount''"

definition settle :: "env \<Rightarrow> VAInquiryRecord \<Rightarrow> VAStatusData \<Rightarrow> bool op" where
  "settle e record data w = (case sd_PaidAmount data of None \<Rightarrow> (Inl no_paid_amount, w)
     | Some paid \<Rightarrow> if am_Value paid = [] then (Inl no_paid_amount, w)
        else (case SettlePendingFromVendor e (ri_VirtualAccountNo record) (recovered_settlement e data paid) w of
            (Inl err, w1) \<Rightarrow> (Inl err, w1)
          | (Inr False, w1) \<Rightarrow> (Inr False, w1)
          | (Inr True, w1) \<Rightarrow> (Inr True, notifyRecovered e record data paid w1)))"

section \<open>One transaction\<close>

text \<open>
  The closure \<^verbatim>\<open>finish\<close>: the audit row and the result. A failure to store the row is not reported. The row
  gets its identifier from the repository.
\<close>

definition finish_attempt ::
    "ReconcileConfig \<Rightarrow> rc_step \<Rightarrow> VAInquiryRecord \<Rightarrow> string \<Rightarrow> VAStatusResponse option \<Rightarrow> string \<Rightarrow> VAStatusInquiryAttempt" where
  "finish_attempt cfg u record outcome resp errDetail = (
     let data = (case resp of None \<Rightarrow> None | Some r \<Rightarrow> sr_VirtualAccountData r) in
     \<lparr>at_ID = [], at_VirtualAccountNo = ri_VirtualAccountNo record, at_ClientID = rf_ClientID cfg,
      at_PaymentRequestID = (case data of None \<Rightarrow> [] | Some d \<Rightarrow> sd_PaymentRequestID d),
      at_Outcome = outcome,
      at_VendorResponseCode = (case resp of None \<Rightarrow> [] | Some r \<Rightarrow> sr_ResponseCode r),
      at_VendorPaymentFlagStatus = (case data of None \<Rightarrow> [] | Some d \<Rightarrow> sd_PaymentFlagStatus d),
      at_DurationMs = rc_elapsed u div 1000000, at_ErrorDetail = errDetail, at_AttemptedAt = e_now (rc_env u)\<rparr>)"

definition finish_result ::
    "rc_step \<Rightarrow> VAInquiryRecord \<Rightarrow> string \<Rightarrow> bool \<Rightarrow> VAStatusResponse option \<Rightarrow> ReconcileResult" where
  "finish_result u record outcome settled resp = (
     let data = (case resp of None \<Rightarrow> None | Some r \<Rightarrow> sr_VirtualAccountData r) in
     \<lparr>rr_VirtualAccountNo = ri_VirtualAccountNo record, rr_Outcome = outcome, rr_Settled = settled,
      rr_VendorResponseCode = (case resp of None \<Rightarrow> [] | Some r \<Rightarrow> sr_ResponseCode r),
      rr_VendorPaymentFlagStatus = (case data of None \<Rightarrow> [] | Some d \<Rightarrow> sd_PaymentFlagStatus d),
      rr_PaidAmount = (case data of None \<Rightarrow> None | Some d \<Rightarrow> sd_PaidAmount d),
      rr_ReconciledAt = Add (e_now (rc_env u)) (rc_elapsed u)\<rparr>)"

definition finish ::
    "ReconcileConfig \<Rightarrow> rc_step \<Rightarrow> VAInquiryRecord \<Rightarrow> string \<Rightarrow> bool \<Rightarrow> VAStatusResponse option \<Rightarrow> string \<Rightarrow> world \<Rightarrow>
      ReconcileResult \<times> world" where
  "finish cfg u record outcome settled resp errDetail w =
    (finish_result u record outcome settled resp,
     snd (CreateStatusInquiryAttempt (rc_env u) (finish_attempt cfg u record outcome resp errDetail) w))"

definition status_request :: "VAInquiryRecord \<Rightarrow> VAStatusRequest" where
  "status_request record = \<lparr>sq_PartnerServiceID = ri_PartnerServiceID record, sq_CustomerNo = ri_CustomerNo record,
     sq_VirtualAccountNo = ri_VirtualAccountNo record, sq_InquiryRequestID = ri_InquiryRequestID record,
     sq_PaymentRequestID = [], sq_AdditionalInfo = []\<rparr>"

text \<open>What follows a readable answer of the vendor.\<close>

definition reconcile_answer ::
    "ReconcileConfig \<Rightarrow> rc_step \<Rightarrow> VAInquiryRecord \<Rightarrow> VAStatusResponse \<Rightarrow> VAStatusData \<Rightarrow> world \<Rightarrow> ReconcileResult \<times> world" where
  "reconcile_answer cfg u record resp data w = (
     let outcome = classifyVendorStatus (sr_ResponseCode resp) data in
     if outcome \<noteq> ReconcileOutcomeSettled then finish cfg u record outcome False (Some resp) [] w
     else case settle (rc_env u) record data w of
         (Inl err, w1) \<Rightarrow> finish cfg u record ReconcileOutcomeError False (Some resp) (Error err) w1
       | (Inr False, w1) \<Rightarrow> finish cfg u record ReconcileOutcomeAlreadySettled False (Some resp) [] w1
       | (Inr True, w1) \<Rightarrow> finish cfg u record ReconcileOutcomeSettled True (Some resp) [] w1)"

definition reconcileRecord :: "ReconcileConfig \<Rightarrow> rc_step \<Rightarrow> VAInquiryRecord \<Rightarrow> world \<Rightarrow> ReconcileResult \<times> world" where
  "reconcileRecord cfg u record w =
    (if ri_Status record \<noteq> ''03'' then finish cfg u record ReconcileOutcomeAlreadySettled False None [] w
     else if IsPlaceholderInquiryRequestID (ri_InquiryRequestID record) (ri_TrxID record) (ri_VirtualAccountNo record)
       then finish cfg u record ReconcileOutcomeNotPaid False None
              ''never inquired by the vendor; no vendor-side transaction to reconcile'' w
     else case rc_PaymentStatus u (status_request record) of
         Inl err \<Rightarrow> finish cfg u record ReconcileOutcomeError False None (Error err) w
       | Inr None \<Rightarrow> finish cfg u record ReconcileOutcomeError False None ''vendor returned no virtualAccountData'' w
       | Inr (Some resp) \<Rightarrow> (case sr_VirtualAccountData resp of
            None \<Rightarrow> finish cfg u record ReconcileOutcomeError False (Some resp) ''vendor returned no virtualAccountData'' w
          | Some data \<Rightarrow> reconcile_answer cfg u record resp data w))"

definition Reconcile :: "ReconcileConfig \<Rightarrow> rc_step \<Rightarrow> string \<Rightarrow> ReconcileResult op" where
  "Reconcile cfg u va w = (case GetVAByVirtualAccountNo (rc_env u) va w of
      (Inl err, w1) \<Rightarrow> (Inl err, w1)
    | (Inr record, w1) \<Rightarrow> (case reconcileRecord cfg u record w1 of (res, w2) \<Rightarrow> (Inr res, w2)))"

section \<open>The sweep\<close>

text \<open>The loop over the selected records; the \<open>i\<close>-th record is reconciled in the \<open>i\<close>-th step environment.\<close>

fun sweep_records :: "ReconcileConfig \<Rightarrow> (nat \<Rightarrow> rc_step) \<Rightarrow> nat \<Rightarrow> VAInquiryRecord list \<Rightarrow> world \<Rightarrow> ReconcileResult list \<times> world" where
  "sweep_records cfg us i [] w = ([], w)"
| "sweep_records cfg us i (record # records) w = (case reconcileRecord cfg (us i) record w of
     (res, w1) \<Rightarrow> (case sweep_records cfg us (i + 1) records w1 of (results, w2) \<Rightarrow> (res # results, w2)))"

definition Sweep :: "ReconcileConfig \<Rightarrow> env \<Rightarrow> (nat \<Rightarrow> rc_step) \<Rightarrow> ReconcileResult list op" where
  "Sweep cfg e us w = (case ListStalePendingTransactions e (Add (e_now e) (- rf_PendingAfter cfg)) (rf_BatchSize cfg) w of
      (Inl err, w1) \<Rightarrow> (Inl (ErrOther (''select stale pending transactions: '' @ Error err)), w1)
    | (Inr stale, w1) \<Rightarrow> (case sweep_records cfg us 0 stale w1 of (results, w2) \<Rightarrow> (Inr results, w2)))"

text \<open>The periodic task: the queue retries a sweep whose selection failed.\<close>

definition HandleReconcileSweep :: "ReconcileConfig \<Rightarrow> env \<Rightarrow> (nat \<Rightarrow> rc_step) \<Rightarrow> unit op" where
  "HandleReconcileSweep cfg e us w = (case Sweep cfg e us w of
      (Inl err, w1) \<Rightarrow> (Inl err, w1) | (Inr results, w1) \<Rightarrow> (Inr (), w1))"

section \<open>The administration handler\<close>

record reconcileResponse =
  rq_VirtualAccountNo :: string
  rq_Outcome :: string
  rq_Settled :: bool
  rq_VendorResponseCode :: string
  rq_VendorPaymentFlagStatus :: string
  rq_PaidAmount :: "Amount option"
  rq_ReconciledAt :: string

text \<open>The HTTP status with the body; a deployment without outbound credentials has no reconciler.\<close>

definition AdminReconcileHandler_Reconcile ::
    "ReconcileConfig option \<Rightarrow> rc_step \<Rightarrow> string \<Rightarrow> world \<Rightarrow> (nat \<times> (string + reconcileResponse)) \<times> world" where
  "AdminReconcileHandler_Reconcile reconciler u va w = (case reconciler of
      None \<Rightarrow> ((503, Inl ''vendor status reconciliation is not configured (see RECONCILE_ENABLED and the vendor's outbound credentials)''), w)
    | Some cfg \<Rightarrow>
        if va = [] then ((404, Inl ''transaction not found''), w)
        else (case Reconcile cfg u va w of
          (Inl err, w1) \<Rightarrow> ((if err = ErrMerchantVANotFound \<or> err = ErrVAInvalidBill
              then (404, Inl ''transaction not found'') else (500, Inl ''internal server error'')), w1)
        | (Inr r, w1) \<Rightarrow> ((200, Inr \<lparr>rq_VirtualAccountNo = rr_VirtualAccountNo r, rq_Outcome = rr_Outcome r,
             rq_Settled = rr_Settled r, rq_VendorResponseCode = rr_VendorResponseCode r,
             rq_VendorPaymentFlagStatus = rr_VendorPaymentFlagStatus r, rq_PaidAmount = rr_PaidAmount r,
             rq_ReconciledAt = rfc3339 (UTC (rr_ReconciledAt r))\<rparr>), w1)))"

end
