(* ===== verification/ReconcileProps.thy ===== *)
theory ReconcileProps
  imports Reconcile InstalmentProps
begin

text \<open>
  The reconciler: what one reconciliation may change, that a lost payment is recovered once, that a sweep
  examines and records every stale bill, and what a recovery does to a bill paid in instalments.
\<close>

section \<open>One reconciliation\<close>

text \<open>The payment the vendor reports for a record, when its answer counts as one.\<close>

definition vendor_paid :: "rc_step \<Rightarrow> VAInquiryRecord \<Rightarrow> (VAStatusData \<times> Amount) option" where
  "vendor_paid u record =
    (if ri_Status record \<noteq> ''03'' \<or>
        IsPlaceholderInquiryRequestID (ri_InquiryRequestID record) (ri_TrxID record) (ri_VirtualAccountNo record) then None
     else case rc_PaymentStatus u (status_request record) of
         Inr (Some resp) \<Rightarrow> (case sr_VirtualAccountData resp of
            Some data \<Rightarrow>
              if sr_ResponseCode resp = ''2002600'' \<and> sd_PaymentFlagStatus data \<in> {''00'', ''02''}
              then (case sd_PaidAmount data of Some paid \<Rightarrow> if am_Value paid = [] then None else Some (data, paid) | None \<Rightarrow> None)
              else None
          | None \<Rightarrow> None)
       | _ \<Rightarrow> None)"

definition can_settle :: "rc_step \<Rightarrow> VAInquiryRecord \<Rightarrow> world \<Rightarrow> (VAStatusData \<times> Amount \<times> int) option" where
  "can_settle u record w = (case vendor_paid u record of None \<Rightarrow> None
     | Some (data, paid) \<Rightarrow> (case e_numeric (rc_env u) (am_Value paid) of None \<Rightarrow> None
        | Some n \<Rightarrow> if e_fault (rc_env u) (OpSettle (ri_VirtualAccountNo record)) = None \<and>
              has_pending (ri_VirtualAccountNo record) w then Some (data, paid, n) else None))"

text \<open>The state before the audit row is written.\<close>

definition after_settling :: "rc_step \<Rightarrow> VAInquiryRecord \<Rightarrow> world \<Rightarrow> world" where
  "after_settling u record w = (case can_settle u record w of None \<Rightarrow> w
     | Some (data, paid, n) \<Rightarrow> notifyRecovered (rc_env u) record data paid
         (update_txns (pending_of (ri_VirtualAccountNo record))
            (settle_row (rc_env u) (recovered_settlement (rc_env u) data paid) n) w))"

lemma classify_settled [simp]:
  "classifyVendorStatus code data = ReconcileOutcomeSettled \<longleftrightarrow>
    code = ''2002600'' \<and> sd_PaymentFlagStatus data \<in> {''00'', ''02''}"
  by (auto simp: classifyVendorStatus_def code_consts)

lemma settle_char:
  "settle e record data w = (case sd_PaidAmount data of None \<Rightarrow> (Inl no_paid_amount, w)
     | Some paid \<Rightarrow> if am_Value paid = [] then (Inl no_paid_amount, w)
        else case e_fault e (OpSettle (ri_VirtualAccountNo record)) of Some err \<Rightarrow> (Inl err, w)
        | None \<Rightarrow> (case e_numeric e (am_Value paid) of None \<Rightarrow> (Inl numeric_error, w)
           | Some n \<Rightarrow> if has_pending (ri_VirtualAccountNo record) w
               then (Inr True, notifyRecovered e record data paid (update_txns (pending_of (ri_VirtualAccountNo record))
                       (settle_row e (recovered_settlement e data paid) n) w))
               else (Inr False, w)))"
  by (auto simp: settle_def Settle_char recovered_settlement_def split: option.split)

text \<open>Every path ends in \<^verbatim>\<open>finish\<close>, on the state the settlement left.\<close>

lemma reconcile_finish:
  "\<exists>outcome resp err. reconcileRecord cfg u record w =
     finish cfg u record outcome (can_settle u record w \<noteq> None) resp err (after_settling u record w) \<and>
     (outcome = ReconcileOutcomeSettled \<longleftrightarrow> can_settle u record w \<noteq> None)"
proof (cases "ri_Status record \<noteq> ''03'' \<or>
    IsPlaceholderInquiryRequestID (ri_InquiryRequestID record) (ri_TrxID record) (ri_VirtualAccountNo record)")
  case True
  then have "can_settle u record w = None" by (simp add: can_settle_def vendor_paid_def)
  with True show ?thesis
    by (cases "ri_Status record \<noteq> ''03''") (fastforce simp: reconcileRecord_def after_settling_def code_consts)+
next
  case False
  note live = this
  show ?thesis
  proof (cases "rc_PaymentStatus u (status_request record)")
    case (Inl err)
    with live have "can_settle u record w = None" by (simp add: can_settle_def vendor_paid_def)
    with live Inl show ?thesis by (fastforce simp: reconcileRecord_def after_settling_def code_consts)
  next
    case (Inr answer)
    show ?thesis
    proof (cases "\<exists>resp data. answer = Some resp \<and> sr_VirtualAccountData resp = Some data")
      case no: False
      with live Inr have "can_settle u record w = None"
        by (auto simp: can_settle_def vendor_paid_def split: option.splits)
      with live Inr no show ?thesis
        by (cases answer) (fastforce simp: reconcileRecord_def after_settling_def code_consts split: option.splits)+
    next
      case True
      then obtain resp data where a: "answer = Some resp" "sr_VirtualAccountData resp = Some data" by blast
      have r: "reconcileRecord cfg u record w = reconcile_answer cfg u record resp data w"
        using live Inr a by (simp add: reconcileRecord_def)
      have v: "vendor_paid u record = (if sr_ResponseCode resp = ''2002600'' \<and> sd_PaymentFlagStatus data \<in> {''00'', ''02''}
          then (case sd_PaidAmount data of Some paid \<Rightarrow> if am_Value paid = [] then None else Some (data, paid) | None \<Rightarrow> None)
          else None)"
        using live Inr a by (simp add: vendor_paid_def)
      show ?thesis
      proof (cases "classifyVendorStatus (sr_ResponseCode resp) data = ReconcileOutcomeSettled")
        case False
        then have "can_settle u record w = None" by (auto simp: can_settle_def v)
        with False show ?thesis
          by (fastforce simp: r reconcile_answer_def Let_def after_settling_def code_consts simp del: classify_settled)
      next
        case True
        then have "sr_ResponseCode resp = ''2002600'' \<and> sd_PaymentFlagStatus data \<in> {''00'', ''02''}" by simp
        then have c: "can_settle u record w = (case sd_PaidAmount data of None \<Rightarrow> None
            | Some paid \<Rightarrow> if am_Value paid = [] then None else (case e_numeric (rc_env u) (am_Value paid) of None \<Rightarrow> None
               | Some n \<Rightarrow> if e_fault (rc_env u) (OpSettle (ri_VirtualAccountNo record)) = None \<and>
                    has_pending (ri_VirtualAccountNo record) w then Some (data, paid, n) else None))"
          by (auto simp: can_settle_def v split: option.split)
        have diff: "ReconcileOutcomeError \<noteq> ReconcileOutcomeSettled" "ReconcileOutcomeAlreadySettled \<noteq> ReconcileOutcomeSettled"
          by (simp_all add: code_consts)
        show ?thesis
          using True diff by (fastforce simp: r reconcile_answer_def Let_def settle_char c after_settling_def
              split: option.split)
      qed
    qed
  qed
qed

lemma finish_sel [simp]:
  "rr_Settled (fst (finish cfg u record outcome b resp err w)) = b"
  "rr_Outcome (fst (finish cfg u record outcome b resp err w)) = outcome"
  "rr_VirtualAccountNo (fst (finish cfg u record outcome b resp err w)) = ri_VirtualAccountNo record"
  by (simp_all add: finish_def finish_result_def Let_def)

lemma attempt_only:
  "w_txns (snd (CreateStatusInquiryAttempt e a w)) = w_txns w" "w_payments (snd (CreateStatusInquiryAttempt e a w)) = w_payments w"
  "w_bills (snd (CreateStatusInquiryAttempt e a w)) = w_bills w" "w_flags (snd (CreateStatusInquiryAttempt e a w)) = w_flags w"
  "w_accounts (snd (CreateStatusInquiryAttempt e a w)) = w_accounts w" "w_seqs (snd (CreateStatusInquiryAttempt e a w)) = w_seqs w"
  "w_deliveries (snd (CreateStatusInquiryAttempt e a w)) = w_deliveries w" "w_queue (snd (CreateStatusInquiryAttempt e a w)) = w_queue w"
  by (simp_all add: CreateStatusInquiryAttempt_def snd_guard Let_def next_uuid_def)

lemma notify_only_recovered: "notify_only w (notifyRecovered e record data paid w)"
  by (simp add: notifyRecovered_def notify_only_dispatch)

text \<open>The callback a recovery queues, if any.\<close>

definition recovered_callbacks :: "rc_step \<Rightarrow> VAInquiryRecord \<Rightarrow> world \<Rightarrow> PaymentNotificationPayload list" where
  "recovered_callbacks u record w = (case can_settle u record w of None \<Rightarrow> []
     | Some (data, paid, n) \<Rightarrow> (let p = sent_payload (rc_env u) (recovered_payload (rc_env u) record data paid) NotificationTriggerAuto w in
         if e_notifier (rc_env u) \<and> ri_NotificationURL record \<noteq> [] \<and> e_enqueue (rc_env u) p = None then [p] else []))"

lemma after_settling_txns:
  "w_txns (after_settling u record w) = (case can_settle u record w of None \<Rightarrow> w_txns w
     | Some (data, paid, n) \<Rightarrow> update_where (pending_of (ri_VirtualAccountNo record))
         (settle_row (rc_env u) (recovered_settlement (rc_env u) data paid) n) (w_txns w))"
  using notify_only_recovered by (auto simp: after_settling_def notify_only_def update_txns_def split: option.split)

lemma after_settling_frame:
  "w_payments (after_settling u record w) = w_payments w" "w_bills (after_settling u record w) = w_bills w"
  "w_flags (after_settling u record w) = w_flags w" "w_accounts (after_settling u record w) = w_accounts w"
  "w_seqs (after_settling u record w) = w_seqs w" "w_attempts (after_settling u record w) = w_attempts w"
  using notify_only_recovered by (auto simp: after_settling_def notify_only_def update_txns_def split: option.split)

lemma sent_payload_update: "sent_payload e p tr (update_txns q f w) = sent_payload e p tr w"
  by (simp add: sent_payload_def update_txns_def fresh_id_def)

lemma queue_update_txns [simp]: "w_queue (update_txns q f w) = w_queue w"
  by (simp add: update_txns_def)

lemma after_settling_queue: "w_queue (after_settling u record w) = w_queue w @ recovered_callbacks u record w"
  by (auto simp: after_settling_def recovered_callbacks_def notifyRecovered_def queue_dispatch sent_payload_update Let_def
      split: option.split)

lemma after_settling_idle: "can_settle u record w = None \<Longrightarrow> after_settling u record w = w"
  by (simp add: after_settling_def)

text \<open>The whole step, up to the audit row and the identifiers.\<close>

lemma reconcile_step:
  assumes "reconcileRecord cfg u record w = (r, w')"
  shows "rr_Settled r \<longleftrightarrow> can_settle u record w \<noteq> None" and "rr_VirtualAccountNo r = ri_VirtualAccountNo record"
    and "rr_Settled r \<longleftrightarrow> rr_Outcome r = ReconcileOutcomeSettled"
    and "w_txns w' = w_txns (after_settling u record w)" and "w_queue w' = w_queue w @ recovered_callbacks u record w"
    and "w_deliveries w' = w_deliveries (after_settling u record w)"
    and "w_payments w' = w_payments w" "w_bills w' = w_bills w" "w_flags w' = w_flags w" "w_accounts w' = w_accounts w"
      "w_seqs w' = w_seqs w"
proof -
  obtain outcome resp err where f: "reconcileRecord cfg u record w =
     finish cfg u record outcome (can_settle u record w \<noteq> None) resp err (after_settling u record w)"
    and o: "outcome = ReconcileOutcomeSettled \<longleftrightarrow> can_settle u record w \<noteq> None"
    using reconcile_finish by blast
  have r: "r = fst (finish cfg u record outcome (can_settle u record w \<noteq> None) resp err (after_settling u record w))"
    and w': "w' = snd (CreateStatusInquiryAttempt (rc_env u) (finish_attempt cfg u record outcome resp err) (after_settling u record w))"
    using assms f by (simp_all add: finish_def)
  show "rr_Settled r \<longleftrightarrow> can_settle u record w \<noteq> None" "rr_VirtualAccountNo r = ri_VirtualAccountNo record"
    "rr_Settled r \<longleftrightarrow> rr_Outcome r = ReconcileOutcomeSettled" using o by (simp_all add: r)
  show "w_txns w' = w_txns (after_settling u record w)" "w_queue w' = w_queue w @ recovered_callbacks u record w"
    "w_deliveries w' = w_deliveries (after_settling u record w)"
    "w_payments w' = w_payments w" "w_bills w' = w_bills w" "w_flags w' = w_flags w" "w_accounts w' = w_accounts w"
    "w_seqs w' = w_seqs w"
    by (simp_all add: w' attempt_only after_settling_frame after_settling_queue)
qed

text \<open>C23: A reconciliation moves money only on the vendor's word. It settles exactly when the record was pending
  and known to the vendor, the vendor answered 2002600 with the flag 00 or 02 and an amount PostgreSQL reads,
  the update did not fail and the number still has a pending bill; then its pending bills carry that amount as
  settled and at most one callback, for this number and amount, is queued. In every other case, a failing or
  refusing vendor included, no bill, callback or delivery changes. Instalments, bill lines, recorded outcomes
  and registrations never change.\<close>

theorem reconcile_follows_vendor:
  "case reconcileRecord cfg u record w of (r, w') \<Rightarrow>
     (case can_settle u record w of
        None \<Rightarrow> \<not> rr_Settled r \<and> w_txns w' = w_txns w \<and> w_queue w' = w_queue w \<and> w_deliveries w' = w_deliveries w
      | Some (data, paid, n) \<Rightarrow> rr_Settled r \<and> w_queue w' = w_queue w @ recovered_callbacks u record w \<and>
          w_txns w' = update_where (pending_of (ri_VirtualAccountNo record))
            (settle_row (rc_env u) (recovered_settlement (rc_env u) data paid) n) (w_txns w)) \<and>
     (rr_Settled r \<longleftrightarrow> rr_Outcome r = ReconcileOutcomeSettled) \<and>
     length (recovered_callbacks u record w) \<le> 1 \<and>
     list_all (\<lambda>p. np_VirtualAccountNo p = ri_VirtualAccountNo record) (recovered_callbacks u record w) \<and>
     w_payments w' = w_payments w \<and> w_bills w' = w_bills w \<and> w_flags w' = w_flags w \<and> w_accounts w' = w_accounts w"
proof -
  obtain r w' where e: "reconcileRecord cfg u record w = (r, w')" by fastforce
  have "list_all (\<lambda>p. np_VirtualAccountNo p = ri_VirtualAccountNo record) (recovered_callbacks u record w)"
    "length (recovered_callbacks u record w) \<le> 1"
    by (auto simp: recovered_callbacks_def sent_payload_def recovered_payload_def Let_def split: option.split)
  then show ?thesis using reconcile_step [OF e]
    by (cases "can_settle u record w") (auto simp: e after_settling_txns after_settling_idle recovered_callbacks_def)
qed

section \<open>A lost payment is recovered once\<close>

type_synonym rc_call = "ReconcileConfig \<times> rc_step \<times> VAInquiryRecord"

text \<open>
  Reconciliations of any callers in the order in which they run: sweeps of several replicas and calls of the
  administration interface. The records were selected earlier, so they may be out of date.
\<close>

fun reconcile_all :: "rc_call list \<Rightarrow> world \<Rightarrow> ReconcileResult list \<times> world" where
  "reconcile_all [] w = ([], w)"
| "reconcile_all ((cfg, u, record) # calls) w = (case reconcileRecord cfg u record w of
     (r, w1) \<Rightarrow> (case reconcile_all calls w1 of (rs, w2) \<Rightarrow> (r # rs, w2)))"

definition settled_for :: "string \<Rightarrow> ReconcileResult \<Rightarrow> bool" where
  "settled_for va r = (rr_Settled r \<and> rr_VirtualAccountNo r = va)"

definition try_reconcile :: "string \<Rightarrow> rc_call \<Rightarrow> world \<Rightarrow> bool \<times> world" where
  "try_reconcile va c w = (case c of (cfg, u, record) \<Rightarrow> case reconcileRecord cfg u record w of
     (r, w1) \<Rightarrow> (settled_for va r, w1))"

lemma can_settle_pending: "can_settle u record w \<noteq> None \<Longrightarrow> has_pending (ri_VirtualAccountNo record) w"
  by (auto simp: can_settle_def split: option.splits if_splits)

lemma pending_settle_row [simp]: "\<not> pending_of va (settle_row e s n t)"
  by (simp add: pending_of_def settle_row_def)

lemma has_pending_cong: "w_txns v = w_txns w \<Longrightarrow> has_pending va v = has_pending va w"
  by (simp add: has_pending_def)

lemma settle_keeps_other:
  assumes "va' \<noteq> va"
  shows "has_pending va' (update_txns (pending_of va) (settle_row e s n) w) = has_pending va' w"
proof -
  have "pending_of va' (if pending_of va t then settle_row e s n t else t) = pending_of va' t" for t
    using assms by (auto simp: pending_of_def settle_row_def)
  moreover have "w_txns (update_txns (pending_of va) (settle_row e s n) w) =
      map (\<lambda>t. if pending_of va t then settle_row e s n t else t) (w_txns w)"
    by (simp add: update_txns_def update_where_is_map)
  ultimately show ?thesis by (simp only: has_pending_def list.set_map bex_simps)
qed

lemma reconcile_pending:
  assumes "reconcileRecord cfg u record w = (r, w')"
  shows "has_pending va w' = (has_pending va w \<and> \<not> settled_for va r)"
proof (cases "can_settle u record w")
  case None
  then show ?thesis using reconcile_step [OF assms]
    by (simp add: settled_for_def has_pending_def after_settling_txns)
next
  case (Some x)
  then obtain data paid n where x: "can_settle u record w = Some (data, paid, n)" by (cases x) auto
  let ?v = "update_txns (pending_of (ri_VirtualAccountNo record))
      (settle_row (rc_env u) (recovered_settlement (rc_env u) data paid) n) w"
  have "w_txns w' = w_txns ?v" using reconcile_step(4) [OF assms] x by (simp add: after_settling_txns update_txns_def)
  then have v: "has_pending va w' = has_pending va ?v" by (rule has_pending_cong)
  have s: "settled_for va r \<longleftrightarrow> ri_VirtualAccountNo record = va"
    using reconcile_step(1,2) [OF assms] x by (auto simp: settled_for_def)
  show ?thesis
  proof (cases "ri_VirtualAccountNo record = va")
    case True
    then show ?thesis using v s close_clears [of va "settle_row (rc_env u) (recovered_settlement (rc_env u) data paid) n" w] by simp
  next
    case False
    then show ?thesis using v s settle_keeps_other [of va "ri_VirtualAccountNo record"] by simp
  qed
qed

interpretation recovering: one_shot "has_pending va" "try_reconcile va" for va
proof
  fix c w w'
  assume a: "try_reconcile va c w = (True, w')"
  obtain cfg u rc r where c: "c = (cfg, u, rc)" and e: "reconcileRecord cfg u rc w = (r, w')" and s: "settled_for va r"
    using a by (auto simp: try_reconcile_def split: prod.splits)
  then show "has_pending va w \<and> \<not> has_pending va w'"
    using reconcile_pending [OF e, of va] can_settle_pending [of u rc w] reconcile_step(1,2) [OF e]
    by (auto simp: settled_for_def)
next
  fix c w w'
  assume "try_reconcile va c w = (False, w')"
  then show "has_pending va w' = has_pending va w"
    using reconcile_pending [of _ _ _ w _ w' va] by (auto simp: try_reconcile_def split: prod.splits)
qed

lemma reconcile_all_attempts:
  "attempts (try_reconcile va) calls w = (map (settled_for va) (fst (reconcile_all calls w)), snd (reconcile_all calls w))"
  by (induction calls w rule: reconcile_all.induct) (auto simp: try_reconcile_def Let_def split: prod.split)

definition callbacks_for :: "string \<Rightarrow> world \<Rightarrow> nat" where
  "callbacks_for va w = length (filter (\<lambda>p. np_VirtualAccountNo p = va) (w_queue w))"

lemma reconcile_callbacks:
  assumes "reconcileRecord cfg u record w = (r, w')"
  shows "callbacks_for va w' \<le> callbacks_for va w + (if settled_for va r then 1 else 0)"
  using reconcile_step(1,2,5) [OF assms]
  by (auto simp: callbacks_for_def settled_for_def recovered_callbacks_def sent_payload_def recovered_payload_def Let_def
      split: option.splits)

lemma reconcile_all_callbacks:
  "callbacks_for va (snd (reconcile_all calls w)) \<le> callbacks_for va w + count_list (map (settled_for va) (fst (reconcile_all calls w))) True"
proof (induction calls w rule: reconcile_all.induct)
  case (2 cfg u rc calls w)
  obtain r w1 where e: "reconcileRecord cfg u rc w = (r, w1)" by fastforce
  show ?case using 2 [OF e [symmetric]] reconcile_callbacks [OF e, of va] e
    by (auto split: prod.splits if_splits)
qed simp

text \<open>C10: A lost payment is recovered once. Whatever sweeps and calls of operators run, in any order, over
  records that may be out of date, with any vendor answers and failures: for every number at most one of them
  settles, at most one callback is queued for it, and one settles exactly when the number stops being
  pending.\<close>

theorem lost_payment_recovered_once:
  "case reconcile_all calls w of (results, w') \<Rightarrow>
     length (filter (settled_for va) results) \<le> 1 \<and>
     callbacks_for va w' \<le> callbacks_for va w + length (filter (settled_for va) results) \<and>
     (length (filter (settled_for va) results) = 1 \<longleftrightarrow> has_pending va w \<and> \<not> has_pending va w')"
proof -
  obtain rs w' where r: "reconcile_all calls w = (rs, w')" by fastforce
  have c: "count_list (map (settled_for va) rs) True = length (filter (settled_for va) rs)"
    by (induction rs) auto
  have a: "attempts (try_reconcile va) calls w = (map (settled_for va) rs, w')"
    using reconcile_all_attempts [of va calls w] r by simp
  have "length (filter (settled_for va) rs) \<le> 1" using recovering.at_most_one_winner [OF a] c by simp
  moreover have "length (filter (settled_for va) rs) = 1 \<longleftrightarrow> has_pending va w \<and> \<not> has_pending va w'"
    using recovering.winner_iff_ended [OF a] recovering.dead_all [OF _ a] c
    by (cases "has_pending va w") (auto simp: count_list_0_iff)
  ultimately show ?thesis using reconcile_all_callbacks [of va calls w] r c by simp
qed

section \<open>Reconciliation is traffic\<close>

lemma evolves_attempt: "evolves w (snd (CreateStatusInquiryAttempt e a w))"
  using evolves_run [of w e "CCreateAttempt a"] by simp

lemma evolves_settle: "evolves w (snd (settle e rc data w))"
proof -
  have n: "evolves v (notifyRecovered e rc data paid v)" for v paid
    by (simp add: notifyRecovered_def evolves_dispatch evolves.same)
  have s: "evolves w w1" if "SettlePendingFromVendor e va x w = (q, w1)" for q w1 va x
    using evolves_run [of w e "CSettle va x"] that by simp
  show ?thesis
    by (auto simp: settle_def evolves.same split: option.split prod.split sum.split bool.split
        intro: s evolves_trans [OF s n])
qed

lemma evolves_reconcileRecord: "evolves w (snd (reconcileRecord cfg u rc w))"
proof -
  have f: "evolves v (snd (finish cfg u rc out b resp err v))" for v out b resp err
    by (simp add: finish_def evolves_attempt)
  have "evolves w (snd (reconcile_answer cfg u rc resp data w))" for resp data
  proof (cases "settle (rc_env u) rc data w")
    case (Pair q w1)
    then have "evolves w w1" using evolves_settle [of w "rc_env u" rc data] by simp
    then have "evolves w (snd (finish cfg u rc out b r err w1))" for out b r err
      using f evolves_trans by blast
    with Pair f show ?thesis by (auto simp: reconcile_answer_def Let_def split: sum.split bool.split)
  qed
  then show ?thesis using f by (auto simp: reconcileRecord_def split: sum.split option.split)
qed

section \<open>A sweep examines and records every stale bill\<close>

text \<open>The identifiers not yet handed out are not in the audit table.\<close>

definition attempts_fresh :: "(nat \<Rightarrow> string) \<Rightarrow> world \<Rightarrow> bool" where
  "attempts_fresh uid w = (\<forall>a \<in> set (w_attempts w). \<forall>n \<ge> w_uuids w. at_ID a \<noteq> uid n)"

lemma uuids_guard: "(\<And>v. w_uuids (snd (f v)) = w_uuids v) \<Longrightarrow> w_uuids (snd (guard e opn f w)) = w_uuids w"
  by (simp add: guard_def split: option.split)

lemma uuids_dispatch: "w_uuids w \<le> w_uuids (snd (dispatchNotification e payload va ev tr w))"
  unfolding dispatch_char Let_def
  by (simp add: dispatch_row_def Create_def UpdateDeliveryResult_def Let_def next_uuid_def snd_guard split: option.split)

lemma after_settling_uuids: "w_uuids w \<le> w_uuids (after_settling u rc w)"
proof -
  have "w_uuids v \<le> w_uuids (notifyRecovered e rc data paid v)" for e data paid v
    by (simp add: notifyRecovered_def uuids_dispatch)
  from this [of "update_txns p f w" for p f] show ?thesis
    by (simp add: after_settling_def update_txns_def split: option.split)
qed

lemma attempts_fresh_settling: "attempts_fresh uid w \<Longrightarrow> attempts_fresh uid (after_settling u rc w)"
  using after_settling_uuids [of w u rc] by (auto simp: attempts_fresh_def after_settling_frame)

lemma attempt_appends:
  assumes "e_fault e OpCreateAttempt = None" and "at_ID a = []" and "attempts_fresh (e_uuid e) w" and "inj (e_uuid e)"
  defines "w' \<equiv> snd (CreateStatusInquiryAttempt e a w)"
  shows "\<exists>b. w_attempts w' = w_attempts w @ [b] \<and> at_VirtualAccountNo b = at_VirtualAccountNo a \<and> at_Outcome b = at_Outcome a"
    and "attempts_fresh (e_uuid e) w'"
proof -
  define b where "b = a\<lparr>at_ID := fresh_id e w, at_AttemptedAt := (if IsZero (at_AttemptedAt a) then e_now e else at_AttemptedAt a)\<rparr>"
  have "fresh_id e w \<notin> at_ID ` set (w_attempts w)"
    using assms(3) by (auto simp: attempts_fresh_def fresh_id_def) (metis order_refl)
  then have w': "w' = (next_uuid w)\<lparr>w_attempts := w_attempts w @ [b]\<rparr>"
    using assms(1,2) by (simp add: w'_def CreateStatusInquiryAttempt_def Let_def b_def next_uuid_def)
  then show "\<exists>b. w_attempts w' = w_attempts w @ [b] \<and> at_VirtualAccountNo b = at_VirtualAccountNo a \<and> at_Outcome b = at_Outcome a"
    by (intro exI [of _ b]) (simp add: b_def)
  show "attempts_fresh (e_uuid e) w'"
    using assms(3,4) by (auto simp: w' attempts_fresh_def next_uuid_def b_def fresh_id_def dest: injD)
qed

lemma reconcile_audited:
  assumes "e_fault (rc_env u) OpCreateAttempt = None" and "e_uuid (rc_env u) = uid" and "inj uid" and "attempts_fresh uid w"
    and "reconcileRecord cfg u rc w = (r, w')"
  shows "\<exists>b. w_attempts w' = w_attempts w @ [b] \<and> at_VirtualAccountNo b = rr_VirtualAccountNo r \<and> at_Outcome b = rr_Outcome r"
    and "attempts_fresh uid w'"
proof -
  obtain outcome resp err where f: "reconcileRecord cfg u rc w =
     finish cfg u rc outcome (can_settle u rc w \<noteq> None) resp err (after_settling u rc w)"
    using reconcile_finish by blast
  let ?a = "finish_attempt cfg u rc outcome resp err"
  have r: "rr_VirtualAccountNo r = ri_VirtualAccountNo rc" "rr_Outcome r = outcome"
    and w': "w' = snd (CreateStatusInquiryAttempt (rc_env u) ?a (after_settling u rc w))"
    using assms(5) f by (auto simp: finish_def finish_result_def Let_def)
  have a: "at_ID ?a = []" "at_VirtualAccountNo ?a = ri_VirtualAccountNo rc" "at_Outcome ?a = outcome"
    by (simp_all add: finish_attempt_def Let_def)
  note n = attempt_appends [OF assms(1) a(1), of "after_settling u rc w"]
  have fr: "attempts_fresh (e_uuid (rc_env u)) (after_settling u rc w)" using attempts_fresh_settling assms(2,4) by simp
  show "\<exists>b. w_attempts w' = w_attempts w @ [b] \<and> at_VirtualAccountNo b = rr_VirtualAccountNo r \<and> at_Outcome b = rr_Outcome r"
    using n(1) [OF fr] assms(2,3) a r by (simp add: w' after_settling_frame)
  show "attempts_fresh uid w'" using n(2) [OF fr] assms(2,3) by (simp add: w')
qed

definition audited_steps :: "(nat \<Rightarrow> string) \<Rightarrow> (nat \<Rightarrow> rc_step) \<Rightarrow> bool" where
  "audited_steps uid us = (\<forall>i. e_fault (rc_env (us i)) OpCreateAttempt = None \<and> e_uuid (rc_env (us i)) = uid)"

lemma sweep_audited:
  assumes "audited_steps uid us" and "inj uid" and "attempts_fresh uid w" and "sweep_records cfg us i rcs w = (results, w')"
  shows "map rr_VirtualAccountNo results = map ri_VirtualAccountNo rcs \<and>
    (\<exists>rows. w_attempts w' = w_attempts w @ rows \<and>
       map (\<lambda>b. (at_VirtualAccountNo b, at_Outcome b)) rows = map (\<lambda>r. (rr_VirtualAccountNo r, rr_Outcome r)) results)"
  using assms(3,4)
proof (induction rcs arbitrary: i w results)
  case (Cons rc rcs)
  obtain r w1 where e: "reconcileRecord cfg (us i) rc w = (r, w1)" by fastforce
  obtain rs where s: "sweep_records cfg us (i + 1) rcs w1 = (rs, w')" and rs: "results = r # rs"
    using Cons.prems(2) e by (auto split: prod.splits)
  have st: "e_fault (rc_env (us i)) OpCreateAttempt = None" "e_uuid (rc_env (us i)) = uid"
    using assms(1) by (simp_all add: audited_steps_def)
  note a = reconcile_audited [OF st assms(2) Cons.prems(1) e]
  from a(1) obtain b where b: "w_attempts w1 = w_attempts w @ [b]" "at_VirtualAccountNo b = rr_VirtualAccountNo r"
      "at_Outcome b = rr_Outcome r" by blast
  from Cons.IH [OF a(2) s] obtain rows where IH: "map rr_VirtualAccountNo rs = map ri_VirtualAccountNo rcs"
      "w_attempts w' = w_attempts w1 @ rows"
      "map (\<lambda>b. (at_VirtualAccountNo b, at_Outcome b)) rows = map (\<lambda>r. (rr_VirtualAccountNo r, rr_Outcome r)) rs" by blast
  then show ?case using b rs reconcile_step(2) [OF e] by (intro conjI exI [of _ "b # rows"]) simp_all
qed simp

lemma scan_all_ok: "(\<And>t. t \<in> set ts \<Longrightarrow> f t = Inr (g t)) \<Longrightarrow> scan_all f ts = Inr (map g ts)"
  by (induction ts) simp_all

definition stale_bills :: "env \<Rightarrow> ReconcileConfig \<Rightarrow> world \<Rightarrow> txn list" where
  "stale_bills e cfg w = take (nat (rf_BatchSize cfg))
     (by_created e (filter (stale_row e (Add (e_now e) (- rf_PendingAfter cfg))) (w_txns w)))"

text \<open>A sweep examines every stale bill: when the selection succeeds, each pending, unexpired bill older than the
  threshold, oldest first and up to the batch size, gets a result and an audit row with the same outcome,
  whatever the vendor answers and whichever settlements and callbacks fail along the way. A configuration left
  at zero sweeps as well.\<close>

theorem sweep_examines_every_stale_bill:
  assumes "cfg = NewReconciliationUsecase cfg0" and "e_fault e OpListStale = None"
    and "\<forall>t \<in> set (w_txns w). t_status t = ''03'' \<longrightarrow> t_total_amount t \<noteq> None"
    and "audited_steps uid us" and "inj uid" and "attempts_fresh uid w"
  shows "\<exists>results w' rows. Sweep cfg e us w = (Inr results, w') \<and> 0 < rf_BatchSize cfg \<and> 0 < rf_PendingAfter cfg \<and>
    map rr_VirtualAccountNo results = map t_virtual_account_no (stale_bills e cfg w) \<and>
    w_attempts w' = w_attempts w @ rows \<and>
    map (\<lambda>b. (at_VirtualAccountNo b, at_Outcome b)) rows = map (\<lambda>r. (rr_VirtualAccountNo r, rr_Outcome r)) results"
proof -
  have cfg: "0 < rf_BatchSize cfg" "0 < rf_PendingAfter cfg"
    by (simp_all add: assms(1) NewReconciliationUsecase_def DefaultReconcileConfig_def nanos_per_second_def)
  define g where "g t = projr (scan_inquiry e [] [] t)" for t
  have scan: "scan_inquiry e [] [] t = Inr (g t) \<and> ri_VirtualAccountNo (g t) = t_virtual_account_no t"
    if t: "t \<in> set (stale_bills e cfg w)" for t
  proof -
    have "t \<in> set (w_txns w) \<and> t_status t = ''03''"
      using t by (auto simp: stale_bills_def by_created_def order_by_def stale_row_def dest!: in_set_takeD)
    with assms(3) show ?thesis by (auto simp: g_def scan_inquiry_def)
  qed
  have l: "ListStalePendingTransactions e (Add (e_now e) (- rf_PendingAfter cfg)) (rf_BatchSize cfg) w =
      (Inr (map g (stale_bills e cfg w)), w)"
    using cfg assms(2) scan_all_ok [of "stale_bills e cfg w" "scan_inquiry e [] []" g] scan
    by (simp add: ListStalePendingTransactions_def stale_bills_def)
  obtain results w' where s: "sweep_records cfg us 0 (map g (stale_bills e cfg w)) w = (results, w')" by fastforce
  have "map ri_VirtualAccountNo (map g (stale_bills e cfg w)) = map t_virtual_account_no (stale_bills e cfg w)"
    using scan by simp
  with sweep_audited [OF assms(4-6) s] cfg show ?thesis by (auto simp: Sweep_def l s)
qed

text \<open>A vendor that reports 100.50 paid for every number, and a variable bill it knows.\<close>

definition demo_answer :: VAStatusData where
  "demo_answer = zeroStatusData\<lparr>sd_PaymentFlagStatus := ''00'', sd_PaymentRequestID := ''v1'',
     sd_PaidAmount := Some \<lparr>am_Value = ''100.50'', am_Currency = ''IDR''\<rparr>\<rparr>"

definition demo_step :: rc_step where
  "demo_step = \<lparr>rc_env = demo_env,
     rc_PaymentStatus = (\<lambda>_. Inr (Some \<lparr>sr_ResponseCode = ''2002600'', sr_ResponseMessage = ''Successful'',
        sr_VirtualAccountData = Some demo_answer, sr_AdditionalInfo = []\<rparr>)),
     rc_elapsed = 5000000\<rparr>"

definition demo_stale :: txn where
  "demo_stale = demo_txn\<lparr>t_va_type := Some ''02'', t_inquiry_request_id := ''inq1''\<rparr>"

definition demo_stuck :: world where
  "demo_stuck = fresh_world\<lparr>w_txns := [demo_stale]\<rparr>"

lemma demo_stale_sel [simp]:
  "t_id demo_stale = ''t1''" "t_status demo_stale = ''03''" "t_total_amount demo_stale = Some 25000" "t_paid_amount demo_stale = None"
  "t_virtual_account_no demo_stale = ''12345678''" "t_va_type demo_stale = Some ''02''" "t_inquiry_request_id demo_stale = ''inq1''"
  "t_trx_id demo_stale = ''trx1''" "t_created_at demo_stale = demo_time" "t_expired_date demo_stale = None"
  by (simp_all add: demo_stale_def demo_txn_def)

theorem sweep_examines_every_stale_bill_witness:
  "\<exists>results w' rows. Sweep (NewReconciliationUsecase \<lparr>rf_PendingAfter = 0, rf_BatchSize = 0, rf_ClientID = ''BCA''\<rparr>) demo_env (\<lambda>i. demo_step) demo_stuck =
      (Inr results, w') \<and> map rr_VirtualAccountNo results = [''12345678''] \<and>
    w_attempts w' = rows \<and> map at_Outcome rows = map rr_Outcome results"
proof -
  let ?c = "NewReconciliationUsecase \<lparr>rf_PendingAfter = 0, rf_BatchSize = 0, rf_ClientID = ''BCA''\<rparr>"
  have steps: "audited_steps (\<lambda>n. ''u'' @ dec n) (\<lambda>i. demo_step)" by (simp add: audited_steps_def demo_step_def demo_env_def)
  have inj: "inj (\<lambda>n. ''u'' @ dec n)" by (simp add: inj_def)
  have fr: "attempts_fresh (\<lambda>n. ''u'' @ dec n) demo_stuck" by (simp add: attempts_fresh_def demo_stuck_def fresh_world_def)
  have st: "map t_virtual_account_no (stale_bills demo_env ?c demo_stuck) = [''12345678'']"
    by (simp add: stale_bills_def demo_stuck_def by_created_def order_by_def stale_row_def Before_def Add_def demo_time_def demo_env_def
        NewReconciliationUsecase_def DefaultReconcileConfig_def nanos_per_second_def)
  have "\<exists>results w' rows. Sweep ?c demo_env (\<lambda>i. demo_step) demo_stuck = (Inr results, w') \<and> 0 < rf_BatchSize ?c \<and> 0 < rf_PendingAfter ?c \<and>
    map rr_VirtualAccountNo results = map t_virtual_account_no (stale_bills demo_env ?c demo_stuck) \<and>
    w_attempts w' = w_attempts demo_stuck @ rows \<and>
    map (\<lambda>b. (at_VirtualAccountNo b, at_Outcome b)) rows = map (\<lambda>r. (rr_VirtualAccountNo r, rr_Outcome r)) results"
    by (rule sweep_examines_every_stale_bill [OF refl _ _ steps inj fr]) (simp_all add: demo_stuck_def)
  then obtain results w' rows where x: "Sweep ?c demo_env (\<lambda>i. demo_step) demo_stuck = (Inr results, w')"
    "map rr_VirtualAccountNo results = [''12345678'']" "w_attempts w' = rows"
    "map (\<lambda>b. (at_VirtualAccountNo b, at_Outcome b)) rows = map (\<lambda>r. (rr_VirtualAccountNo r, rr_Outcome r)) results"
    unfolding st by (auto simp: demo_stuck_def fresh_world_def)
  have "map at_Outcome rows = map rr_Outcome results" using arg_cong [OF x(4), of "map snd"] by (simp add: comp_def)
  with x show ?thesis by auto
qed

section \<open>A recovered instalment is forgotten\<close>

text \<open>On a bill paid in instalments the recovered payment does not enter the ledger. The recovery marks the bill
  settled with the vendor's amount alone, whatever its total and its earlier instalments, and the next
  instalment, if one is accepted, replaces that amount by the sum of the recorded instalments: the recovered
  money is in no table any more.\<close>

theorem recovered_instalment_is_forgotten:
  assumes "within_bill va tid tot w" and "tot < 10 ^ 15"
    and "reconcileRecord cfg u rc w = (r, w1)" and "rr_Settled r" and "ri_VirtualAccountNo rc = va"
    and "numeric_env e" and "SaveVAPayment e tid prid amt ref w1 = (Inr (paid, status, True), w2)"
    and "amountPattern amt" and "paid_sum tid w + int (amount_cents amt) < 10 ^ 15"
  shows "\<exists>data a n. can_settle u rc w = Some (data, a, n) \<and> paid_sum tid w1 = paid_sum tid w \<and>
    (\<forall>t \<in> set (w_txns w1). t_id t = tid \<longrightarrow> t_status t = ''00'' \<and> t_paid_amount t = Some n) \<and>
    (\<forall>t \<in> set (w_txns w2). t_id t = tid \<longrightarrow> t_paid_amount t = Some (paid_sum tid w + int (amount_cents amt)))"
proof -
  from assms(1) obtain t where t: "filter (\<lambda>t. t_virtual_account_no t = va) (w_txns w) = [t]" "t_id t = tid"
      "t_total_amount t = Some (int tot)" and ok: "db_ok w" and s: "0 \<le> paid_sum tid w"
    by (auto simp: within_bill_def)
  have mem: "t \<in> set (w_txns w)" using t(1) by (rule filter_single_mem)
  have uniq: "x = t" if "x \<in> set (w_txns w)" "t_id x = tid" for x
    using mem t(2) ok that by (auto simp: db_ok_def distinct_map dest: inj_onD)
  obtain data a n where c: "can_settle u rc w = Some (data, a, n)"
    using reconcile_step(1) [OF assms(3)] assms(4) by auto
  have "has_pending va w" using can_settle_pending [of u rc w] c assms(5) by simp
  then obtain p where p: "p \<in> set (w_txns w)" "pending_of va p" by (auto simp: has_pending_def)
  then have "p \<in> set (filter (\<lambda>t. t_virtual_account_no t = va) (w_txns w))" by (simp add: pending_of_def)
  then have pend: "pending_of va t" using t(1) p(2) by simp
  let ?f = "settle_row (rc_env u) (recovered_settlement (rc_env u) data a) n"
  have w1: "w_txns w1 = update_where (pending_of va) ?f (w_txns w)"
    using reconcile_step(4) [OF assms(3)] c assms(5) by (simp add: after_settling_txns)
  have id: "t_id (settle_row e' s' n' x) = t_id x" for e' s' n' x by (simp add: settle_row_def)
  have row: "x = ?f t" if "x \<in> set (w_txns w1)" "t_id x = tid" for x
    using that uniq pend by (auto simp: w1 set_update_where id)
  have tot: "t_total_amount (?f t) = Some (int tot)" using t(3) by (simp add: settle_row_def orelse_def)
  have sum: "paid_sum tid w1 = paid_sum tid w"
    using reconcile_step(7) [OF assms(3)] by (simp add: paid_sum_def instalments_of_def)
  have ok1: "db_ok w1" using evolves_db_ok [OF evolves_reconcileRecord ok, of cfg u rc] assms(3) by simp
  obtain k where k: "paid_sum tid w1 = int k" using s sum nonneg_int_cases by metis
  have "paid_sum tid w2 = int k + int (amount_cents amt) \<and> ledger_agrees tid w2"
    using SaveVAPayment_ledger [OF assms(6,7) ok1 assms(8) k] assms(2,9) sum k row tot by auto
  moreover have "t_status (?f t) = ''00''" "t_paid_amount (?f t) = Some n" by (simp_all add: settle_row_def)
  ultimately show ?thesis using c sum k row by (auto simp: ledger_agrees_def)
qed

theorem recovered_instalment_is_forgotten_witness:
  "\<exists>rc r w1 w2. reconcileRecord DefaultReconcileConfig demo_step rc demo_stuck = (r, w1) \<and> rr_Settled r \<and>
    w2 = snd (SaveVAPayment demo_env ''t1'' ''p1'' ''100.50'' ''r'' w1) \<and>
    (\<forall>t \<in> set (w_txns w1). t_id t = ''t1'' \<longrightarrow> t_status t = ''00'' \<and> t_paid_amount t = Some 10050) \<and>
    (\<forall>t \<in> set (w_txns w2). t_id t = ''t1'' \<longrightarrow> t_paid_amount t = Some 10050)"
proof -
  define rc where "rc = projr (scan_inquiry demo_env [] [] demo_stale)"
  have rc: "ri_VirtualAccountNo rc = ''12345678''" "ri_Status rc = ''03''" "ri_InquiryRequestID rc = ''inq1''" "ri_TrxID rc = ''trx1''"
    by (simp_all add: rc_def scan_inquiry_def)
  have amt: "amountPattern ''100.50''" "amount_cents ''100.50'' = 10050"
    by (simp_all add: amountPattern_def amount_cents_def is_digit_def digit_val_def)
  have num: "demo_numeric ''100.50'' = Some 10050" by (simp add: demo_numeric_def amt)
  have read: "demo_numeric (cents_text 10050) = Some 10050" by (simp add: demo_numeric_def cents_text_pattern)
  obtain r w1 where e: "reconcileRecord DefaultReconcileConfig demo_step rc demo_stuck = (r, w1)" by fastforce
  have c: "can_settle demo_step rc demo_stuck = Some (demo_answer, \<lparr>am_Value = ''100.50'', am_Currency = ''IDR''\<rparr>, 10050)"
    by (simp add: can_settle_def vendor_paid_def rc IsPlaceholderInquiryRequestID_def demo_step_def demo_answer_def num
        has_pending_def demo_stuck_def pending_of_def)
  then have settled: "rr_Settled r" using reconcile_step(1) [OF e] by simp
  have inv: "within_bill ''12345678'' ''t1'' 25000 demo_stuck"
    by (simp add: within_bill_def demo_stuck_def fresh_world_def db_ok_def payment_ids_def paid_sum_def instalments_of_def
        paid_cents_def billing_of_def account_of_def BillingForVAType_def)
  have w1: "w_txns w1 = [settle_row demo_env (recovered_settlement demo_env demo_answer \<lparr>am_Value = ''100.50'', am_Currency = ''IDR''\<rparr>) 10050 demo_stale]"
      "w_payments w1 = []"
    using reconcile_step(4,7) [OF e] c
    by (simp_all add: after_settling_txns rc demo_step_def demo_stuck_def fresh_world_def pending_of_def)
  obtain q w2 where sv: "SaveVAPayment demo_env ''t1'' ''p1'' ''100.50'' ''r'' w1 = (q, w2)" by fastforce
  have "\<exists>p st. q = Inr (p, st, True)"
    using sv by (auto simp: SaveVAPayment_def save_va_payment_tx_def insert_instalment_def Let_def num read w1
        next_uuid_def fresh_id_def sum_text_def instalments_of_def paid_sum_def numeric_text_def null_if_empty_def
        settle_row_def orelse_def)
  then obtain p st where q: "q = Inr (p, st, True)" by blast
  have "paid_sum ''t1'' demo_stuck = 0" by (simp add: paid_sum_def instalments_of_def demo_stuck_def fresh_world_def)
  then show ?thesis
    using recovered_instalment_is_forgotten [OF inv _ e settled rc(1) demo_numeric_env, of "''p1''" "''100.50''" "''r''" p st w2]
      sv q amt e settled c by (intro exI [of _ rc] exI [of _ r] exI [of _ w1] exI [of _ w2]) simp
qed

end
