(* ===== verification/SnapTime.thy ===== *)
theory SnapTime
  imports GoTime SnapCodes
begin

text \<open>
  Reading timestamps: \<^verbatim>\<open>time.Parse(time.RFC3339, s)\<close> of Go's library, which the signature checks, the
  administration handlers and \<^verbatim>\<open>domain/snap_time.go\<close> use, and the JSON form of \<^verbatim>\<open>SNAPTime\<close>. A JSON value is \<^verbatim>\<open>null\<close>
  or a string here, the two shapes the field can have.
\<close>

section \<open>Parsing\<close>

definition take_num :: "nat \<Rightarrow> string \<Rightarrow> (int \<times> string) option" where
  "take_num n s = (if n \<le> length s \<and> list_all is_digit (take n s) then Some (int (num_of (take n s)), drop n s) else None)"

fun expect :: "char \<Rightarrow> string \<Rightarrow> string option" where
  "expect c [] = None"
| "expect c (x # s) = (if x = c then Some s else None)"

text \<open>The hour may have one digit.\<close>

definition take_hour :: "string \<Rightarrow> (int \<times> string) option" where
  "take_hour s = (case take_num 2 s of Some r \<Rightarrow> Some r | None \<Rightarrow> take_num 1 s)"

text \<open>A fraction after the seconds is accepted though the layout has none; digits after the ninth are dropped.\<close>

definition take_fraction :: "string \<Rightarrow> int \<times> string" where
  "take_fraction s = (case s of
      c # d # r \<Rightarrow> if (c = CHR ''.'' \<or> c = CHR '','') \<and> is_digit d
        then (let ds = takeWhile is_digit (d # r); used = take 9 ds in
          (int (num_of used) * 10 ^ (9 - length used), dropWhile is_digit (d # r)))
        else (0, s)
    | _ \<Rightarrow> (0, s))"

fun zone_sign :: "char \<Rightarrow> int option" where
  "zone_sign c = (if c = CHR ''+'' then Some 1 else if c = CHR ''-'' then Some (- 1) else None)"

definition take_zone :: "string \<Rightarrow> (int \<times> string) option" where
  "take_zone s = (case s of [] \<Rightarrow> None
     | c # r \<Rightarrow> if c = CHR ''Z'' then Some (0, r)
        else (case zone_sign c of None \<Rightarrow> None | Some sign \<Rightarrow>
          (case take_num 2 r of None \<Rightarrow> None | Some (hr, r1) \<Rightarrow>
            (case expect CHR '':'' r1 of None \<Rightarrow> None | Some r2 \<Rightarrow>
              (case take_num 2 r2 of None \<Rightarrow> None | Some (mm, r3) \<Rightarrow>
                if 24 < hr \<or> 60 < mm then None else Some (sign * (hr * 60 + mm) * 60, r3))))))"

definition take_date :: "string \<Rightarrow> ((int \<times> int \<times> int) \<times> string) option" where
  "take_date s = (case take_num 4 s of None \<Rightarrow> None | Some (y, s1) \<Rightarrow>
     (case expect CHR ''-'' s1 of None \<Rightarrow> None | Some s2 \<Rightarrow>
      (case take_num 2 s2 of None \<Rightarrow> None | Some (m, s3) \<Rightarrow>
       (case expect CHR ''-'' s3 of None \<Rightarrow> None | Some s4 \<Rightarrow>
        (case take_num 2 s4 of None \<Rightarrow> None | Some (d, s5) \<Rightarrow>
          if 1 \<le> m \<and> m \<le> 12 \<and> 1 \<le> d \<and> d \<le> month_lengths y ! nat (m - 1) then Some ((y, m, d), s5) else None)))))"

definition take_clock :: "string \<Rightarrow> (int \<times> string) option" where
  "take_clock s = (case take_hour s of None \<Rightarrow> None | Some (h, s1) \<Rightarrow>
     (case expect CHR '':'' s1 of None \<Rightarrow> None | Some s2 \<Rightarrow>
      (case take_num 2 s2 of None \<Rightarrow> None | Some (mi, s3) \<Rightarrow>
       (case expect CHR '':'' s3 of None \<Rightarrow> None | Some s4 \<Rightarrow>
        (case take_num 2 s4 of None \<Rightarrow> None | Some (sec, s5) \<Rightarrow>
          if h < 24 \<and> mi < 60 \<and> sec < 60 then Some (h * 3600 + mi * 60 + sec, s5) else None)))))"

definition ParseRFC3339 :: "string \<Rightarrow> gtime option" where
  "ParseRFC3339 s = (case take_date s of None \<Rightarrow> None | Some ((y, m, d), s1) \<Rightarrow>
     (case expect CHR ''T'' s1 of None \<Rightarrow> None | Some s2 \<Rightarrow>
      (case take_clock s2 of None \<Rightarrow> None | Some (clock, s3) \<Rightarrow>
       (case take_fraction s3 of (nsec, s4) \<Rightarrow>
        (case take_zone s4 of None \<Rightarrow> None | Some (off, s5) \<Rightarrow>
          if s5 \<noteq> [] then None
          else Some \<lparr>tm_ns = (days_of_civil y m d * 86400 + clock - off) * nanos_per_second + nsec, tm_off = off\<rparr>)))))"

section \<open>SNAPTime\<close>

datatype json_time = JNull | JString string

definition time_error :: "string \<Rightarrow> gerr" where
  "time_error raw = ErrOther (''parsing time '' @ raw)"

text \<open>The zero time stands for an absent value.\<close>

definition go_zero_time :: gtime where
  "go_zero_time = \<lparr>tm_ns = 0, tm_off = 0\<rparr>"

fun SNAPTime_UnmarshalJSON :: "json_time \<Rightarrow> gerr + gtime" where
  "SNAPTime_UnmarshalJSON JNull = Inr go_zero_time"
| "SNAPTime_UnmarshalJSON (JString raw) = (if TrimSpace raw = [] then Inr go_zero_time
     else case ParseRFC3339 raw of None \<Rightarrow> Inl (time_error raw) | Some t \<Rightarrow> Inr t)"

definition SNAPTime_MarshalJSON :: "gtime \<Rightarrow> json_time" where
  "SNAPTime_MarshalJSON t = (if IsZero t then JString [] else JString (rfc3339 t))"

section \<open>The calendar stays in range\<close>

lemma year_yday_range:
  assumes "year_yday d = (y, n)"
  shows "0 \<le> n" and "n < (if is_leap y then 366 else 365)"
proof -
  define n400 r where "n400 = d div 146097" and "r = d mod 146097"
  define n100 where "n100 = min (r div 36524) 3"
  define r2 where "r2 = r - n100 * 36524"
  define n4 r3 where "n4 = r2 div 1461" and "r3 = r2 mod 1461"
  define n1 where "n1 = min (r3 div 365) 3"
  have "year_yday d = (400 * n400 + 100 * n100 + 4 * n4 + n1 + 1, r3 - n1 * 365)"
    by (simp only: year_yday_def Let_def n400_def r_def n100_def r2_def n4_def r3_def n1_def)
  with assms have y: "y = 400 * n400 + 100 * n100 + 4 * n4 + n1 + 1" and n: "n = r3 - n1 * 365" by simp_all
  have r: "0 \<le> r" "r < 146097" by (simp_all add: r_def)
  have n100: "0 \<le> n100" "n100 \<le> 3" using r by (simp_all add: n100_def)
  have "r div 36524 * 36524 + r mod 36524 = r" "0 \<le> r mod 36524" "r mod 36524 < 36524" by simp_all
  then have r2: "0 \<le> r2" "r2 \<le> 36524" "n100 < 3 \<Longrightarrow> r2 < 36524"
    using r by (cases "r div 36524 \<le> 3"; simp only: r2_def n100_def min_def if_True if_False; linarith)+
  have n4: "0 \<le> n4" "n4 \<le> 24" "r2 = 1461 * n4 + r3" using r2 by (simp_all add: n4_def r3_def)
  have r3: "0 \<le> r3" "r3 < 1461" by (simp_all add: r3_def)
  have n1: "0 \<le> n1" "n1 \<le> 3" "n1 * 365 \<le> r3" "n1 < 3 \<Longrightarrow> r3 < (n1 + 1) * 365"
    using r3 by (auto simp: n1_def min_def)
  show "0 \<le> n" using n n1 by simp
  show "n < (if is_leap y then 366 else 365)"
  proof (cases "n1 < 3")
    case True
    then show ?thesis using n n1(4) by simp
  next
    case False
    then have n1': "n1 = 3" using n1 by simp
    show ?thesis
    proof (cases "n4 = 24 \<and> n100 < 3")
      case True
      then show ?thesis using n n1' n4(3) r2(3) by simp
    next
      case False
      have "y = 4 * (100 * n400 + 25 * n100 + n4 + 1)" using y n1' by simp
      then have four: "y mod 4 = 0" by simp
      have "y mod 100 \<noteq> 0 \<or> y mod 400 = 0"
      proof (cases "n4 = 24")
        case True
        with False n100 have "n100 = 3" by simp
        with True y n1' have "y = 400 * (n400 + 1)" by simp
        then show ?thesis by simp
      next
        case False
        have "y = 100 * (4 * n400 + n100) + (4 * n4 + 4)" using y n1' by simp
        then have "y mod 100 = (4 * n4 + 4) mod 100" by (simp only: mod_mult_self4)
        also have "\<dots> = 4 * n4 + 4" by (rule mod_pos_pos_trivial) (use n4 False in auto)
        finally show ?thesis using n4 by simp
      qed
      with four have "is_leap y" by (simp add: is_leap_def)
      then show ?thesis using n n1' r3 by simp
    qed
  qed
qed

lemma month_day_range:
  "month_day m ls d = (m', k) \<Longrightarrow> 0 \<le> d \<Longrightarrow> d < sum_list ls \<Longrightarrow>
    m \<le> m' \<and> nat (m' - m) < length ls \<and> 1 \<le> k \<and> k \<le> ls ! nat (m' - m)"
proof (induction m ls d arbitrary: m' k rule: month_day.induct)
  case (2 m l ls d)
  show ?case
  proof (cases "d < l \<or> ls = []")
    case True
    then have "d < l" using "2.prems" by auto
    then show ?thesis using "2.prems" by auto
  next
    case False
    with 2 have IH: "m + 1 \<le> m' \<and> nat (m' - (m + 1)) < length ls \<and> 1 \<le> k \<and> k \<le> ls ! nat (m' - (m + 1))" by auto
    then have "nat (m' - m) = Suc (nat (m' - (m + 1)))" by linarith
    with IH show ?thesis by simp
  qed
qed simp

lemma civil_range:
  assumes "civil d = (y, m, k)"
  shows "1 \<le> m" "m \<le> 12" "1 \<le> k" "k \<le> month_lengths y ! nat (m - 1)"
proof -
  obtain y' n where yn: "year_yday d = (y', n)" by (cases "year_yday d")
  obtain m' k' where mk: "month_day 1 (month_lengths y') n = (m', k')"
    by (cases "month_day 1 (month_lengths y') n")
  from assms yn mk have eq: "y' = y" "m' = m" "k' = k" by (simp_all add: civil_def)
  have "sum_list (month_lengths y') = (if is_leap y' then 366 else 365)" by (simp add: month_lengths_def)
  then have "1 \<le> m' \<and> nat (m' - 1) < length (month_lengths y') \<and> 1 \<le> k' \<and> k' \<le> month_lengths y' ! nat (m' - 1)"
    using month_day_range [OF mk] year_yday_range [OF yn] by simp
  then show "1 \<le> m" "m \<le> 12" "1 \<le> k" "k \<le> month_lengths y ! nat (m - 1)"
    using eq by (auto simp: month_lengths_def)
qed

section \<open>Printed timestamps parse back\<close>

lemma stamp_digits_pad0: "list_all is_digit (pad0 w (dec n))"
  using dec_digits by (auto simp: pad0_def list_all_iff is_digit_def)

lemma take_num_pad0:
  assumes "n < 10 ^ w" and "0 < w"
  shows "take_num w (pad0 w (dec n) @ s) = Some (int n, s)"
proof -
  have l: "length (pad0 w (dec n)) = w" using length_dec_le [OF assms(2,1)] by (simp add: length_pad0)
  then show ?thesis using stamp_digits_pad0 [of w n] by (simp add: take_num_def num_of_pad0 num_of_dec)
qed

lemma take_num_dec2: "0 \<le> n \<Longrightarrow> n < 100 \<Longrightarrow> take_num 2 (dec2 n @ s) = Some (n, s)"
  using take_num_pad0 [of "nat n" 2 s] by (simp add: dec2_def)

lemma take_num_dec4: "0 \<le> n \<Longrightarrow> n < 10000 \<Longrightarrow> take_num 4 (dec4 n @ s) = Some (n, s)"
  using take_num_pad0 [of "nat n" 4 s] by (simp add: dec4_def)

lemma take_hour_dec2: "0 \<le> n \<Longrightarrow> n < 100 \<Longrightarrow> take_hour (dec2 n @ s) = Some (n, s)"
  by (simp add: take_hour_def take_num_dec2)

lemma take_clock_text:
  assumes "0 \<le> c" and "c < 86400"
  shows "take_clock (clock_text c @ s) = Some (c, s)"
proof -
  define h mi sec where "h = c div 3600" and "mi = c div 60 mod 60" and "sec = c mod 60"
  have r: "0 \<le> h" "h < 24" "0 \<le> mi" "mi < 60" "0 \<le> sec" "sec < 60" using assms by (auto simp: h_def mi_def sec_def)
  have "c div 3600 = c div 60 div 60" by (simp add: zdiv_zmult2_eq)
  moreover have "c div 60 div 60 * 60 + c div 60 mod 60 = c div 60" "c div 60 * 60 + c mod 60 = c" by simp_all
  ultimately have c: "h * 3600 + mi * 60 + sec = c" unfolding h_def mi_def sec_def by linarith
  have n: "take_hour (dec2 h @ s) = Some (h, s)" "take_num 2 (dec2 mi @ s) = Some (mi, s)" "take_num 2 (dec2 sec @ s) = Some (sec, s)" for s
    using r by (simp_all add: take_hour_dec2 take_num_dec2)
  have "clock_text c = dec2 h @ CHR '':'' # dec2 mi @ CHR '':'' # dec2 sec"
    by (simp add: clock_text_def h_def mi_def sec_def)
  then show ?thesis using r c by (simp add: take_clock_def n)
qed

lemma zone_not_fraction: "take_fraction (zone_text off) = (0, zone_text off)"
  by (auto simp: take_fraction_def zone_text_def Let_def split: list.split)

lemma take_zone_text:
  assumes "off = 60 * k" and "- 1500 < k" and "k < 1500"
  shows "take_zone (zone_text off) = Some (off, [])"
proof (cases "off = 0")
  case False
  define h mi where "h = \<bar>off\<bar> div 60 div 60" and "mi = \<bar>off\<bar> div 60 mod 60"
  have m: "\<bar>off\<bar> div 60 = \<bar>k\<bar>" using assms(1) by (simp add: abs_mult)
  have r: "0 \<le> h" "h \<le> 24" "0 \<le> mi" "mi < 60" using m assms(2,3) by (auto simp: h_def mi_def)
  have b: "h * 60 + mi = \<bar>k\<bar>" using m by (simp add: h_def mi_def)
  have n: "take_num 2 (dec2 h @ s) = Some (h, s)" "take_num 2 (dec2 mi) = Some (mi, [])" for s
    using take_num_dec2 [of h s] take_num_dec2 [of mi "[]"] r by simp_all
  have z: "zone_text off = (if off < 0 then CHR ''-'' else CHR ''+'') # dec2 h @ CHR '':'' # dec2 mi"
    using False by (simp add: zone_text_def Let_def h_def mi_def)
  have lim: "\<not> (24 < h \<or> 60 < mi)" using r by simp
  have "take_zone (zone_text off) = Some ((if off < 0 then - 1 else 1) * (h * 60 + mi) * 60, [])"
    unfolding take_zone_def z using lim by (cases "off < 0") (simp_all add: n)
  then show ?thesis using assms(1) by (auto simp: b)
qed (simp add: take_zone_def zone_text_def)

text \<open>The instants the format can show: a year of four digits and a zone of whole minutes.\<close>

definition printable :: "gtime \<Rightarrow> bool" where
  "printable t = (let (y, m, d) = local_date t in 0 \<le> y \<and> y < 10000 \<and> tm_off t mod 60 = 0 \<and> \<bar>tm_off t\<bar> < 90000)"

definition to_the_second :: "gtime \<Rightarrow> gtime" where
  "to_the_second t = t\<lparr>tm_ns := tm_ns t div nanos_per_second * nanos_per_second\<rparr>"

text \<open>The text before the zone, and how it reads with a fraction after it.\<close>

definition stamp_text :: "gtime \<Rightarrow> string" where
  "stamp_text t = (let (y, m, d) = local_date t in dec4 y @ ''-'' @ dec2 m @ ''-'' @ dec2 d @ ''T'' @ clock_text (local_seconds t mod 86400))"

lemma rfc3339_stamp: "rfc3339 t = stamp_text t @ zone_text (tm_off t)"
  by (simp add: rfc3339_def stamp_text_def split: prod.split)

lemma Parse_stamp:
  assumes "printable t" and frac: "take_fraction (f @ zone_text (tm_off t)) = (n, zone_text (tm_off t))"
  shows "ParseRFC3339 (stamp_text t @ f @ zone_text (tm_off t)) = Some (t\<lparr>tm_ns := tm_ns t div nanos_per_second * nanos_per_second + n\<rparr>)"
proof -
  let ?s = "local_seconds t"
  obtain y m d where c: "local_date t = (y, m, d)" by (cases "local_date t")
  then have civ: "civil (?s div 86400) = (y, m, d)" by (simp add: local_date_def)
  note rng = civil_range [OF civ]
  have y: "0 \<le> y" "y < 10000" and off: "tm_off t mod 60 = 0" "\<bar>tm_off t\<bar> < 90000"
    using assms(1) c by (simp_all add: printable_def)
  have d: "d < 100"
  proof -
    have "nat (m - 1) < length (month_lengths y)" using rng by (simp add: month_lengths_def)
    then have "month_lengths y ! nat (m - 1) \<in> set (month_lengths y)" by (rule nth_mem)
    then have "month_lengths y ! nat (m - 1) \<le> 31" by (auto simp: month_lengths_def split: if_splits)
    with rng show ?thesis by simp
  qed
  have date: "take_date (dec4 y @ CHR ''-'' # dec2 m @ CHR ''-'' # dec2 d @ s) = Some ((y, m, d), s)" for s
    using rng y d by (simp add: take_date_def take_num_dec4 take_num_dec2)
  have days: "days_of_civil y m d = ?s div 86400" using civil_inverse [OF civ] .
  have clock: "take_clock (clock_text (?s mod 86400) @ s) = Some (?s mod 86400, s)" for s
    by (rule take_clock_text) simp_all
  obtain k where k: "tm_off t = 60 * k" using off(1) by auto
  have zone: "take_zone (zone_text (tm_off t)) = Some (tm_off t, [])"
    by (rule take_zone_text [OF k]) (use off(2) k in auto)
  have "?s div 86400 * 86400 + ?s mod 86400 - tm_off t = tm_ns t div nanos_per_second"
    by (simp add: local_seconds_def)
  then show ?thesis
    by (simp add: ParseRFC3339_def stamp_text_def c date clock frac zone days)
qed

lemma Parse_rfc3339:
  assumes "printable t"
  shows "ParseRFC3339 (rfc3339 t) = Some (to_the_second t)"
  using Parse_stamp [OF assms, of "[]" 0] by (simp add: rfc3339_stamp zone_not_fraction to_the_second_def)

lemma stamp_digit_plain: "is_digit c \<Longrightarrow> plain_byte c"
  by (auto simp: is_digit_def plain_byte_def ascii_space_def Let_def)

lemma dec2_ends: "dec2 n \<noteq> []" "plain_byte (last (dec2 n))"
proof -
  show ne: "dec2 n \<noteq> []" by (simp add: dec2_def pad0_def)
  then have "last (dec2 n) \<in> set (dec2 n)" by simp
  then show "plain_byte (last (dec2 n))"
    using stamp_digits_pad0 [of 2 "nat n"] stamp_digit_plain by (auto simp: dec2_def list_all_iff)
qed

lemma rfc3339_trimmed:
  assumes "printable t"
  shows "TrimSpace (rfc3339 t) = rfc3339 t" "rfc3339 t \<noteq> []"
proof -
  obtain y m d where c: "local_date t = (y, m, d)" by (cases "local_date t")
  then have y: "0 \<le> y" using assms by (simp add: printable_def)
  have z: "zone_text o' \<noteq> [] \<and> plain_byte (last (zone_text o'))" for o'
    using dec2_ends by (simp add: zone_text_def Let_def plain_byte_def ascii_space_def)
  obtain h r where h: "dec4 y = h # r" "is_digit h"
  proof -
    have "dec4 y = pad0 4 (dec (nat y))" using y by (simp add: dec4_def)
    moreover from this have "dec4 y \<noteq> []" by (simp add: pad0_def)
    ultimately show thesis using stamp_digits_pad0 [of 4 "nat y"] that
      by (cases "dec4 y") (metis, metis list.pred_inject(2))
  qed
  have "plain_byte (hd (rfc3339 t)) \<and> plain_byte (last (rfc3339 t))"
    using z [of "tm_off t"] h stamp_digit_plain by (simp add: rfc3339_def c)
  then show "TrimSpace (rfc3339 t) = rfc3339 t" by (intro TrimSpace_plain disjI2)
  show "rfc3339 t \<noteq> []" using h by (simp add: rfc3339_def c)
qed

text \<open>A timestamp this service writes into an answer reads back as the same instant to the second in the same
  zone, an absent one as absent; and the blank a vendor sends for an absent timestamp is read as absent, not
  as an error.\<close>

theorem snap_time_round_trip:
  assumes "printable t"
  shows "SNAPTime_UnmarshalJSON (SNAPTime_MarshalJSON t) = Inr (if IsZero t then go_zero_time else to_the_second t) \<and>
    SNAPTime_UnmarshalJSON (JString (replicate n CHR '' '')) = Inr go_zero_time"
proof -
  have "TrimSpace (replicate n CHR '' '') = []"
    by (induction n) (simp_all add: TrimSpace_def trim_front.simps(2) ascii_space_def)
  then show ?thesis using Parse_rfc3339 [OF assms] rfc3339_trimmed [OF assms]
    by (simp add: SNAPTime_MarshalJSON_def)
qed

theorem snap_time_round_trip_witness:
  "SNAPTime_UnmarshalJSON (SNAPTime_MarshalJSON \<lparr>tm_ns = 63900000000000000001, tm_off = 25200\<rparr>) =
    Inr \<lparr>tm_ns = 63900000000000000000, tm_off = 25200\<rparr>"
proof -
  have "printable \<lparr>tm_ns = 63900000000000000001, tm_off = 25200\<rparr>"
    by (simp add: printable_def local_date_def local_seconds_def nanos_per_second_def civil_def year_yday_def Let_def
        month_lengths_def is_leap_def)
  from snap_time_round_trip [OF this] show ?thesis
    by (simp add: IsZero_def to_the_second_def nanos_per_second_def)
qed

end
