(* ===== verification/Resend.thy ===== *)
theory Resend
  imports VaUsecase SnapTime
begin

text \<open>
  Resending callbacks: \<^verbatim>\<open>internal/usecase/resend_callback_usecase.go\<close>, the queries of
  \<^verbatim>\<open>database/va_repository.go\<close> behind it (\<^verbatim>\<open>ListForResend\<close>, \<^verbatim>\<open>ReconstructPayload\<close>) and the administration handler
  \<^verbatim>\<open>admin_resend_handler.go\<close>. The body of a request is bound by the framework; the handler starts at its result.
\<close>

section \<open>Selecting originals\<close>

record NotificationDeliveryFilter =
  df_From :: gtime
  df_To :: gtime
  df_VirtualAccountNo :: string
  df_Statuses :: "string list"
  df_Limit :: nat

text \<open>\<^verbatim>\<open>LTRIM\<close> removes leading blanks.\<close>

definition ltrim :: "string \<Rightarrow> string" where
  "ltrim s = dropWhile (\<lambda>c. c = CHR '' '') s"

definition resend_selected :: "NotificationDeliveryFilter \<Rightarrow> NotificationDelivery \<Rightarrow> bool" where
  "resend_selected f d = (nd_Trigger d = ''auto'' \<and> \<not> Before (nd_AttemptedAt d) (df_From f) \<and> Before (nd_AttemptedAt d) (df_To f) \<and>
     (df_VirtualAccountNo f = [] \<or> ltrim (nd_VirtualAccountNo d) = ltrim (df_VirtualAccountNo f)) \<and>
     (df_Statuses f = [] \<or> nd_Status d \<in> set (df_Statuses f)))"

definition ListForResend :: "env \<Rightarrow> NotificationDeliveryFilter \<Rightarrow> NotificationDelivery list op" where
  "ListForResend e f = guard e OpListResend (\<lambda>w.
     (Inr (take (df_Limit f) (order_by e nd_ID (\<lambda>d. tm_ns (nd_AttemptedAt d)) (filter (resend_selected f) (w_deliveries w)))), w))"

section \<open>Rebuilding a payload\<close>

definition reconstructWindow :: int where
  "reconstructWindow = 5 * 60 * nanos_per_second"

definition in_window :: "gtime \<Rightarrow> gtime \<Rightarrow> bool" where
  "in_window at' t = (tm_ns at' - reconstructWindow \<le> tm_ns t \<and> tm_ns t \<le> tm_ns at' + reconstructWindow)"

text \<open>\<^verbatim>\<open>virtual_account_no IN ($1, LTRIM($1))\<close>.\<close>

definition same_number :: "string \<Rightarrow> string \<Rightarrow> bool" where
  "same_number va no = (no = va \<or> no = ltrim va)"

text \<open>The candidate closest in time; candidates are pairs of the time of the write and the payload.\<close>

definition closest :: "gtime \<Rightarrow> (gtime \<times> 'p) list \<Rightarrow> 'p option" where
  "closest at' cs = map_option snd (top_by (\<lambda>a b. \<bar>tm_ns (fst a) - tm_ns at'\<bar> < \<bar>tm_ns (fst b) - tm_ns at'\<bar>) cs)"

definition payment_payload ::
    "txn \<Rightarrow> string \<Rightarrow> string \<Rightarrow> string \<Rightarrow> string \<Rightarrow> string \<Rightarrow> string \<Rightarrow> string \<Rightarrow> gtime option \<Rightarrow> PaymentNotificationPayload" where
  "payment_payload t prid paidValue totalValue refno bills ptype advise trxTime =
    \<lparr>np_EventType = NotificationEventPaymentReceived, np_PartnerServiceID = t_partner_service_id t, np_CustomerNo = t_customer_no t,
     np_VirtualAccountNo = t_virtual_account_no t, np_TrxID = t_trx_id t, np_PaymentRequestID = prid,
     np_PaidAmount = Some \<lparr>am_Value = paidValue, am_Currency = t_currency t\<rparr>, np_CumulativePaymentAmount = None, np_PaidBills = bills,
     np_TotalAmount = Some \<lparr>am_Value = totalValue, am_Currency = t_currency t\<rparr>,
     np_TrxDateTime = (case trxTime of None \<Rightarrow> [] | Some x \<Rightarrow> rfc3339 x), np_ReferenceNo = refno, np_JournalNum = [],
     np_PaymentType = ptype, np_FlagAdvise = advise, np_NotificationURL = t_notification_url t, np_ExpiredAt = [],
     np_DeliveryID = [], np_Trigger = []\<rparr>"

text \<open>The first arm of the union: the instalments of the number's transactions.\<close>

definition instalment_candidates :: "NotificationDelivery \<Rightarrow> world \<Rightarrow> (gtime \<times> PaymentNotificationPayload) list" where
  "instalment_candidates d w = concat (map (\<lambda>p. map (\<lambda>t. (p_created_at p,
       payment_payload t (or_empty (p_payment_request_id p)) (numeric_text (p_amount p))
         (numeric_text (case t_total_amount t of Some n \<Rightarrow> n | None \<Rightarrow> p_amount p)) (p_reference_no p) [] [] [] (Some (p_paid_at p))))
     (filter (\<lambda>t. t_id t = p_transaction_id p \<and> same_number (nd_VirtualAccountNo d) (t_virtual_account_no t)) (w_txns w)))
     (filter (\<lambda>p. in_window (nd_AttemptedAt d) (p_created_at p)) (w_payments w)))"

text \<open>The second arm: settled transactions, variable bills only with a payment identifier of their own.\<close>

definition settled_candidate :: "NotificationDelivery \<Rightarrow> txn \<Rightarrow> bool" where
  "settled_candidate d t = (same_number (nd_VirtualAccountNo d) (t_virtual_account_no t) \<and> t_status t = ''00'' \<and>
     (t_payment_request_id t \<noteq> None \<or> or_empty (t_va_type t) \<notin> {''02'', ''05''}) \<and>
     in_window (nd_AttemptedAt d) (t_updated_at t))"

definition settled_candidates :: "NotificationDelivery \<Rightarrow> world \<Rightarrow> (gtime \<times> PaymentNotificationPayload) list" where
  "settled_candidates d w = map (\<lambda>t. (t_updated_at t,
       payment_payload t (or_empty (orelse (t_payment_request_id t) (null_if_empty (t_inquiry_request_id t))))
         (numeric_text0 (orelse (t_paid_amount t) (t_total_amount t))) (numeric_text0 (orelse (t_total_amount t) (t_paid_amount t)))
         (or_empty (t_reference_no t)) (or_empty (t_paid_bills t)) (or_empty (t_payment_type t)) (or_empty (t_flag_advise t))
         (orelse (t_trx_date_time t) (t_transaction_date t))))
     (filter (settled_candidate d) (w_txns w))"

definition reconstructPaymentReceived :: "env \<Rightarrow> NotificationDelivery \<Rightarrow> PaymentNotificationPayload op" where
  "reconstructPaymentReceived e d = guard e (OpReconstruct (nd_VirtualAccountNo d)) (\<lambda>w.
     (case closest (nd_AttemptedAt d) (instalment_candidates d w @ settled_candidates d w) of
        None \<Rightarrow> Inl ErrNotificationPayloadUnrecoverable | Some p \<Rightarrow> Inr p, w))"

definition reconstructVAExpired :: "env \<Rightarrow> NotificationDelivery \<Rightarrow> PaymentNotificationPayload op" where
  "reconstructVAExpired e d = guard e (OpReconstruct (nd_VirtualAccountNo d)) (\<lambda>w.
     (case closest (nd_AttemptedAt d)
        (map (\<lambda>t. (t_updated_at t, expired_payload (t_partner_service_id t) (t_customer_no t) (t_virtual_account_no t) (t_trx_id t)
               (t_notification_url t) (t_expired_date t)))
           (filter (\<lambda>t. same_number (nd_VirtualAccountNo d) (t_virtual_account_no t) \<and> t_status t = ''02'' \<and>
              in_window (nd_AttemptedAt d) (t_updated_at t)) (w_txns w)) @
         map (\<lambda>a. (ac_UpdatedAt a, expired_payload (ac_PartnerServiceID a) (ac_CustomerNo a) (ac_VirtualAccountNo a) (ac_TrxID a)
               (ac_NotificationURL a) (ac_ExpiredDate a)))
           (filter (\<lambda>a. same_number (nd_VirtualAccountNo d) (ac_VirtualAccountNo a) \<and> ac_Status a = VAAccountStatusExpired \<and>
              in_window (nd_AttemptedAt d) (ac_UpdatedAt a)) (w_accounts w))) of
        None \<Rightarrow> Inl ErrNotificationPayloadUnrecoverable | Some p \<Rightarrow> Inr p, w))"

definition ReconstructPayload :: "env \<Rightarrow> NotificationDelivery \<Rightarrow> PaymentNotificationPayload op" where
  "ReconstructPayload e d w =
    (if nd_EventType d = NotificationEventPaymentReceived then reconstructPaymentReceived e d w
     else if nd_EventType d = NotificationEventVAExpired then reconstructVAExpired e d w
     else (Inl ErrNotificationPayloadUnrecoverable, w))"

section \<open>Resending one\<close>

record ResendCallbackResult =
  rs_VirtualAccountNo :: string
  rs_EventType :: string
  rs_ResentAt :: gtime
  rs_DeliveryStatus :: string

definition resend_payload :: "env \<Rightarrow> string \<Rightarrow> VAInquiryRecord \<Rightarrow> PaymentNotificationPayload" where
  "resend_payload e event va =
    \<lparr>np_EventType = event, np_PartnerServiceID = ri_PartnerServiceID va, np_CustomerNo = ri_CustomerNo va,
     np_VirtualAccountNo = ri_VirtualAccountNo va, np_TrxID = ri_TrxID va,
     np_PaymentRequestID = (if event = NotificationEventPaymentReceived then ri_PaymentRequestID va else []),
     np_PaidAmount = (if event = NotificationEventPaymentReceived
        then Some \<lparr>am_Value = ri_TotalAmount va, am_Currency = ri_Currency va\<rparr> else None),
     np_CumulativePaymentAmount = None, np_PaidBills = [], np_TotalAmount = None,
     np_TrxDateTime = rfc3339 (e_now e), np_ReferenceNo = [], np_JournalNum = [], np_PaymentType = [], np_FlagAdvise = [],
     np_NotificationURL = ri_NotificationURL va,
     np_ExpiredAt = (case ri_ExpiredDate va of None \<Rightarrow> []
        | Some x \<Rightarrow> if event = NotificationEventVAExpired then rfc3339 x else []),
     np_DeliveryID = [], np_Trigger = []\<rparr>"

definition Resend :: "env \<Rightarrow> string \<Rightarrow> ResendCallbackResult op" where
  "Resend e va w = (case GetVAByVirtualAccountNo e va w of
      (Inl _, w1) \<Rightarrow> (Inl ErrMerchantVANotFound, w1)
    | (Inr merchantVA, w1) \<Rightarrow> (case GetLatestByVirtualAccountNo e va w1 of
        (Inl err, w2) \<Rightarrow> (Inl err, w2)
      | (Inr None, w2) \<Rightarrow> (Inl ErrResendNoDeliveryRecord, w2)
      | (Inr (Some latest), w2) \<Rightarrow>
          if ri_NotificationURL merchantVA = [] then (Inl ErrResendNoNotificationURL, w2)
          else (case dispatchNotification e (resend_payload e (nd_EventType latest) merchantVA) va (nd_EventType latest)
                  NotificationTriggerManual w2 of
            ((_, status, _), w3) \<Rightarrow> (Inr \<lparr>rs_VirtualAccountNo = va, rs_EventType = nd_EventType latest,
               rs_ResentAt = e_now e, rs_DeliveryStatus = status\<rparr>, w3))))"

section \<open>Resending a range\<close>

record BulkResendItem =
  bi_SourceDeliveryID :: string
  bi_DeliveryID :: string
  bi_VirtualAccountNo :: string
  bi_EventType :: string
  bi_Status :: string
  bi_Error :: string
  bi_Reconstructed :: bool

record BulkResendResult =
  br_Items :: "BulkResendItem list"
  br_ResentAt :: gtime

definition MaxBulkResend :: nat where
  "MaxBulkResend = 500"

definition resend_item :: "NotificationDelivery \<Rightarrow> BulkResendItem" where
  "resend_item original = \<lparr>bi_SourceDeliveryID = nd_ID original, bi_DeliveryID = [],
     bi_VirtualAccountNo = nd_VirtualAccountNo original, bi_EventType = nd_EventType original, bi_Status = [], bi_Error = [],
     bi_Reconstructed = False\<rparr>"

text \<open>What follows once the payload to send is known.\<close>

definition resend_source ::
    "env \<Rightarrow> NotificationDelivery \<Rightarrow> bool \<Rightarrow> PaymentNotificationPayload \<Rightarrow> world \<Rightarrow> BulkResendItem \<times> world" where
  "resend_source e original rebuilt source w =
    (if np_NotificationURL source = []
     then ((resend_item original)\<lparr>bi_Status := ''skipped'', bi_Error := Error ErrResendNoNotificationURL, bi_Reconstructed := rebuilt\<rparr>, w)
     else (case dispatchNotification e source (nd_VirtualAccountNo original) (nd_EventType original) NotificationTriggerManual w of
        ((i, status, err), w1) \<Rightarrow>
          ((resend_item original)\<lparr>bi_DeliveryID := i, bi_Status := status, bi_Error := err, bi_Reconstructed := rebuilt\<rparr>, w1)))"

definition resend_one :: "env \<Rightarrow> NotificationDelivery \<Rightarrow> world \<Rightarrow> BulkResendItem \<times> world" where
  "resend_one e original w = (case nd_Payload original of
      Some source \<Rightarrow> resend_source e original False source w
    | None \<Rightarrow> (case ReconstructPayload e original w of
        (Inl err, w1) \<Rightarrow> ((resend_item original)\<lparr>bi_Status := (if err \<noteq> ErrNotificationPayloadUnrecoverable
             then NotificationDeliveryStatusFailed else ''skipped''), bi_Error := Error err\<rparr>, w1)
      | (Inr source, w1) \<Rightarrow> resend_source e original True source w1))"

fun resend_all :: "env \<Rightarrow> NotificationDelivery list \<Rightarrow> world \<Rightarrow> BulkResendItem list \<times> world" where
  "resend_all e [] w = ([], w)"
| "resend_all e (d # ds) w = (case resend_one e d w of (item, w1) \<Rightarrow>
     (case resend_all e ds w1 of (items, w2) \<Rightarrow> (item # items, w2)))"

definition ResendRange :: "env \<Rightarrow> NotificationDeliveryFilter \<Rightarrow> BulkResendResult op" where
  "ResendRange e f w = (case ListForResend e (f\<lparr>df_Limit := MaxBulkResend + 1\<rparr>) w of
      (Inl err, w1) \<Rightarrow> (Inl err, w1)
    | (Inr originals, w1) \<Rightarrow> if MaxBulkResend < length originals then (Inl ErrResendRangeTooLarge, w1)
        else (case resend_all e originals w1 of (items, w2) \<Rightarrow> (Inr \<lparr>br_Items = items, br_ResentAt = e_now e\<rparr>, w2)))"

section \<open>The administration handler\<close>

record resendCallbackResponse =
  rb_VirtualAccountNo :: string
  rb_EventType :: string
  rb_ResentAt :: string
  rb_DeliveryStatus :: string

definition AdminResendHandler_Resend :: "env \<Rightarrow> string \<Rightarrow> world \<Rightarrow> (nat \<times> (string + resendCallbackResponse)) \<times> world" where
  "AdminResendHandler_Resend e va w = (if va = [] then ((404, Inl ''transaction not found''), w)
     else (case Resend e va w of
       (Inl err, w1) \<Rightarrow> ((if err = ErrMerchantVANotFound then (404, Inl ''transaction not found'')
          else if err = ErrResendNoDeliveryRecord then (422, Inl ''no callback delivery on record for this transaction'')
          else if err = ErrResendNoNotificationURL then (422, Inl ''transaction has no registered notification URL'')
          else (500, Inl ''internal server error'')), w1)
     | (Inr r, w1) \<Rightarrow> ((200, Inr \<lparr>rb_VirtualAccountNo = rs_VirtualAccountNo r, rb_EventType = rs_EventType r,
          rb_ResentAt = rfc3339 (UTC (rs_ResentAt r)), rb_DeliveryStatus = rs_DeliveryStatus r\<rparr>), w1)))"

definition maxResendRange :: int where
  "maxResendRange = 31 * 24 * 3600 * nanos_per_second"

record resendRangeRequest =
  rg_StartTime :: string
  rg_EndTime :: string
  rg_VirtualAccountNo :: string
  rg_Status :: "string list"

record resendRangeResponse =
  rp_Matched :: nat
  rp_Queued :: nat
  rp_Failed :: nat
  rp_Skipped :: nat
  rp_ResentAt :: string
  rp_Items :: "BulkResendItem list"

definition resendRangeStatuses :: "string list" where
  "resendRangeStatuses = [NotificationDeliveryStatusQueued, NotificationDeliveryStatusRetrying, NotificationDeliveryStatusSuccess,
     NotificationDeliveryStatusFailed, NotificationDeliveryStatusDuplicate]"

definition range_filter :: "resendRangeRequest \<Rightarrow> string + NotificationDeliveryFilter" where
  "range_filter req = (case ParseRFC3339 (rg_StartTime req) of
      None \<Rightarrow> Inl ''startTime must be RFC 3339, e.g. 2026-10-27T00:00:00+07:00''
    | Some from \<Rightarrow> (case ParseRFC3339 (rg_EndTime req) of
        None \<Rightarrow> Inl ''endTime must be RFC 3339, e.g. 2026-10-28T00:00:00+07:00''
      | Some to \<Rightarrow>
          if \<not> Before from to then Inl ''startTime must be before endTime''
          else if maxResendRange < tm_ns to - tm_ns from then Inl ''range must not exceed 31 days''
          else (case find (\<lambda>s. s \<notin> set resendRangeStatuses) (rg_Status req) of
              Some s \<Rightarrow> Inl (''unknown status: '' @ s)
            | None \<Rightarrow> Inr \<lparr>df_From = from, df_To = to, df_VirtualAccountNo = TrimSpace (rg_VirtualAccountNo req),
                 df_Statuses = rg_Status req, df_Limit = 0\<rparr>)))"

definition range_response :: "BulkResendResult \<Rightarrow> resendRangeResponse" where
  "range_response r = \<lparr>rp_Matched = length (br_Items r),
     rp_Queued = length (filter (\<lambda>i. bi_Status i = NotificationDeliveryStatusQueued) (br_Items r)),
     rp_Failed = length (filter (\<lambda>i. bi_Status i \<noteq> NotificationDeliveryStatusQueued \<and> bi_Status i \<noteq> ''skipped'') (br_Items r)),
     rp_Skipped = length (filter (\<lambda>i. bi_Status i = ''skipped'') (br_Items r)),
     rp_ResentAt = rfc3339 (UTC (br_ResentAt r)), rp_Items = br_Items r\<rparr>"

text \<open>The request is nothing when the body could not be bound.\<close>

definition AdminResendHandler_ResendRange ::
    "env \<Rightarrow> resendRangeRequest option \<Rightarrow> world \<Rightarrow> (nat \<times> (string + resendRangeResponse)) \<times> world" where
  "AdminResendHandler_ResendRange e bound w = (case bound of None \<Rightarrow> ((400, Inl ''invalid request payload''), w)
    | Some req \<Rightarrow> (case range_filter req of
        Inl err \<Rightarrow> ((400, Inl err), w)
      | Inr f \<Rightarrow> (case ResendRange e f w of
          (Inl err, w1) \<Rightarrow> ((if err = ErrResendRangeTooLarge
             then (422, Inl ''more than 500 callbacks in range; narrow the range or filter by status/virtualAccountNo'')
             else (500, Inl ''internal server error'')), w1)
        | (Inr r, w1) \<Rightarrow> ((200, Inr (range_response r)), w1))))"

end
