(* ===== verification/ResendProps.thy ===== *)
theory ResendProps
  imports Resend CallbackProps
begin

text \<open>
  Resending: what is resent is what was first sent, a bulk resend is bounded and never resends a resend, and
  neither touches a transaction.
\<close>

section \<open>What a delivery row keeps\<close>

definition delivery_core :: "NotificationDelivery \<Rightarrow> string \<times> string \<times> string \<times> string \<times> gtime \<times> PaymentNotificationPayload option" where
  "delivery_core d = (nd_ID d, nd_VirtualAccountNo d, nd_EventType d, nd_Trigger d, nd_AttemptedAt d, nd_Payload d)"

lemma core_apply_result [simp]: "delivery_core (apply_result e r d) = delivery_core d"
  by (simp add: delivery_core_def apply_result_def)

lemma core_update: "map delivery_core (update_where p (apply_result e r) ds) = map delivery_core ds"
  by (rule map_update_where) simp

lemma core_run_call: "set (map delivery_core (w_deliveries w)) \<subseteq> set (map delivery_core (w_deliveries (run_call e c w)))"
proof -
  consider (create) d where "c = CCreateDelivery d" | (update) i r where "c = CUpdateDelivery i r"
    | (other) "\<And>d. c \<noteq> CCreateDelivery d" "\<And>i r. c \<noteq> CUpdateDelivery i r" by blast
  then show ?thesis
  proof cases
    case (create d)
    with Create_keeps show ?thesis by fastforce
  next
    case (update i r)
    then show ?thesis by (simp add: UpdateDeliveryResult_def snd_guard core_update del: set_map)
  next
    case other
    with run_call_deliveries [of c e w] show ?thesis by simp
  qed
qed

lemma core_evolves:
  "evolves w v \<Longrightarrow> set (map delivery_core (w_deliveries w)) \<subseteq> set (map delivery_core (w_deliveries v))"
proof (induction rule: evolves.induct)
  case (call w v e c)
  show ?case using call.IH core_run_call by (rule subset_trans)
qed simp_all

section \<open>One dispatch\<close>

lemma dispatch_outcome:
  "fst (dispatchNotification e payload va ev tr w) =
    (fresh_id e w,
     case (if e_notifier e then e_enqueue e (sent_payload e payload tr w) else Some (ErrOther ''notification enqueuer unavailable'')) of
       None \<Rightarrow> (NotificationDeliveryStatusQueued, [])
     | Some x \<Rightarrow> (if x = ErrNotificationDuplicate then NotificationDeliveryStatusDuplicate else NotificationDeliveryStatusFailed, Error x))"
  by (simp add: dispatchNotification_def sent_payload_def EnqueuePaymentNotification_def Let_def split: option.split)

text \<open>A dispatch adds at most its own row; the others keep what identifies them.\<close>

lemma core_Create:
  "\<exists>new. map delivery_core (w_deliveries (snd (Create e d w))) = map delivery_core (w_deliveries w) @ new \<and>
     (\<forall>c \<in> set new. fst (snd (snd (snd c))) = nd_Trigger d)"
  by (auto simp: Create_def Let_def snd_guard next_uuid_def delivery_core_def)

lemma core_dispatch:
  "\<exists>new. map delivery_core (w_deliveries (snd (dispatchNotification e payload va ev tr w))) = map delivery_core (w_deliveries w) @ new \<and>
     (\<forall>c \<in> set new. fst (snd (snd (snd c))) = tr)"
proof -
  let ?p = "sent_payload e payload tr w"
  have row: "\<exists>new. map delivery_core (w_deliveries (dispatch_row e ?p va ev tr w)) = map delivery_core (w_deliveries w) @ new \<and>
     (\<forall>c \<in> set new. fst (snd (snd (snd c))) = tr)"
    using core_Create [of e "queued_delivery e (fresh_id e w) ?p va ev tr" "next_uuid w"]
    by (simp add: dispatch_row_def next_uuid_def queued_delivery_def)
  have "map delivery_core (w_deliveries (snd (dispatchNotification e payload va ev tr w))) =
      map delivery_core (w_deliveries (dispatch_row e ?p va ev tr w))"
    unfolding dispatch_char Let_def by (simp add: UpdateDeliveryResult_def snd_guard core_update split: option.split)
  with row show ?thesis by simp
qed

section \<open>A bulk resend\<close>

text \<open>Selecting by trigger, time and number looks only at what a row keeps.\<close>

definition any_status :: "NotificationDeliveryFilter \<Rightarrow> NotificationDeliveryFilter" where
  "any_status f = f\<lparr>df_Statuses := []\<rparr>"

definition selectable :: "NotificationDeliveryFilter \<Rightarrow> world \<Rightarrow> (string \<times> string \<times> string \<times> string \<times> gtime \<times> PaymentNotificationPayload option) list" where
  "selectable f w = map delivery_core (filter (resend_selected (any_status f)) (w_deliveries w))"

definition core_selected :: "NotificationDeliveryFilter \<Rightarrow> string \<times> string \<times> string \<times> string \<times> gtime \<times> PaymentNotificationPayload option \<Rightarrow> bool" where
  "core_selected f c = (case c of (i, va, ev, tr, at', p) \<Rightarrow> tr = ''auto'' \<and> \<not> Before at' (df_From f) \<and> Before at' (df_To f) \<and>
     (df_VirtualAccountNo f = [] \<or> ltrim va = ltrim (df_VirtualAccountNo f)))"

lemma selectable_core: "selectable f w = filter (core_selected f) (map delivery_core (w_deliveries w))"
proof -
  have "resend_selected (any_status f) = core_selected f \<circ> delivery_core"
    by (auto simp: fun_eq_iff core_selected_def delivery_core_def resend_selected_def any_status_def)
  then show ?thesis by (simp add: selectable_def filter_map)
qed

lemma manual_not_selected: "fst (snd (snd (snd c))) = NotificationTriggerManual \<Longrightarrow> \<not> core_selected f c"
  by (auto simp: core_selected_def code_consts split: prod.split)

lemma selectable_dispatch:
  "selectable f (snd (dispatchNotification e payload va ev NotificationTriggerManual w)) = selectable f w"
proof -
  obtain new where n: "map delivery_core (w_deliveries (snd (dispatchNotification e payload va ev NotificationTriggerManual w))) =
      map delivery_core (w_deliveries w) @ new" "\<forall>c \<in> set new. fst (snd (snd (snd c))) = NotificationTriggerManual"
    using core_dispatch by blast
  then have "filter (core_selected f) new = []" using manual_not_selected by (auto simp: filter_empty_conv)
  then show ?thesis by (simp add: selectable_core n(1))
qed

lemma Reconstruct_pure: "snd (ReconstructPayload e d w) = w"
  by (simp add: ReconstructPayload_def reconstructPaymentReceived_def reconstructVAExpired_def snd_guard)

lemma ListForResend_pure: "snd (ListForResend e f w) = w"
  by (simp add: ListForResend_def snd_guard)

definition queued_item :: "BulkResendItem \<Rightarrow> bool" where
  "queued_item i = (bi_Status i = NotificationDeliveryStatusQueued)"

definition item_of :: "BulkResendItem \<Rightarrow> string \<times> string \<times> string" where
  "item_of i = (bi_SourceDeliveryID i, bi_VirtualAccountNo i, bi_EventType i)"

definition source_of :: "NotificationDelivery \<Rightarrow> string \<times> string \<times> string" where
  "source_of d = (nd_ID d, nd_VirtualAccountNo d, nd_EventType d)"

text \<open>One original: its item, the callback it queues if any, and what stays.\<close>

lemma resend_source_step:
  assumes "resend_source e original b source w = (item, w')"
  shows "notify_only w w'" and "selectable f w' = selectable f w" and "item_of item = source_of original"
    and "w_queue w' = w_queue w @ (if queued_item item then [sent_payload e source NotificationTriggerManual w] else [])"
    and "np_NotificationURL source \<noteq> [] \<Longrightarrow> e_notifier e \<Longrightarrow> e_enqueue e (sent_payload e source NotificationTriggerManual w) = None \<Longrightarrow>
      queued_item item"
proof -
  show "notify_only w w'" "selectable f w' = selectable f w" "item_of item = source_of original"
    using assms notify_only_dispatch [of w e source "nd_VirtualAccountNo original" "nd_EventType original" NotificationTriggerManual]
      selectable_dispatch [of f e source "nd_VirtualAccountNo original" "nd_EventType original" w]
    by (auto simp: resend_source_def item_of_def source_of_def resend_item_def split: if_splits prod.splits)
  show "w_queue w' = w_queue w @ (if queued_item item then [sent_payload e source NotificationTriggerManual w] else [])"
    and "np_NotificationURL source \<noteq> [] \<Longrightarrow> e_notifier e \<Longrightarrow> e_enqueue e (sent_payload e source NotificationTriggerManual w) = None \<Longrightarrow>
      queued_item item"
    using assms dispatch_outcome [of e source "nd_VirtualAccountNo original" "nd_EventType original" NotificationTriggerManual w]
      queue_dispatch [of e source "nd_VirtualAccountNo original" "nd_EventType original" NotificationTriggerManual w]
    by (auto simp: resend_source_def queued_item_def resend_item_def code_consts split: if_splits prod.splits option.splits)
qed

lemma resend_one_step:
  assumes "resend_one e original w = (item, w')"
  shows "notify_only w w'" and "selectable f w' = selectable f w" and "item_of item = source_of original"
    and "\<exists>new. w_queue w' = w_queue w @ new \<and> length new = (if queued_item item then 1 else 0) \<and>
      (\<forall>source. nd_Payload original = Some source \<and> np_NotificationURL source \<noteq> [] \<and> e_notifier e \<and> (\<forall>p. e_enqueue e p = None) \<longrightarrow>
        (\<exists>p \<in> set new. stored_payload p = stored_payload source))"
proof -
  have "\<exists>b source. resend_source e original b source w = (item, w') \<and> (nd_Payload original = None \<or> nd_Payload original = Some source) \<or>
      nd_Payload original = None \<and> w' = w \<and> item_of item = source_of original \<and> \<not> queued_item item"
  proof (cases "nd_Payload original")
    case None
    then show ?thesis using assms Reconstruct_pure [of e original w]
      by (auto simp: resend_one_def item_of_def source_of_def resend_item_def queued_item_def code_consts
          split: prod.splits sum.splits if_splits)
  next
    case (Some source)
    then show ?thesis using assms by (auto simp: resend_one_def)
  qed
  then consider (sent) b source where "resend_source e original b source w = (item, w')"
      "nd_Payload original = None \<or> nd_Payload original = Some source"
    | (unsent) "nd_Payload original = None" "w' = w" "item_of item = source_of original" "\<not> queued_item item" by metis
  then have "notify_only w w' \<and> selectable f w' = selectable f w \<and> item_of item = source_of original \<and>
    (\<exists>new. w_queue w' = w_queue w @ new \<and> length new = (if queued_item item then 1 else 0) \<and>
      (\<forall>source. nd_Payload original = Some source \<and> np_NotificationURL source \<noteq> [] \<and> e_notifier e \<and> (\<forall>p. e_enqueue e p = None) \<longrightarrow>
        (\<exists>p \<in> set new. stored_payload p = stored_payload source)))"
  proof cases
    case sent
    then show ?thesis using resend_source_step [OF sent(1)]
      by (cases "np_NotificationURL source = []") (auto simp: stored_payload_def sent_payload_def)
  qed auto
  then show "notify_only w w'" "selectable f w' = selectable f w" "item_of item = source_of original"
    "\<exists>new. w_queue w' = w_queue w @ new \<and> length new = (if queued_item item then 1 else 0) \<and>
      (\<forall>source. nd_Payload original = Some source \<and> np_NotificationURL source \<noteq> [] \<and> e_notifier e \<and> (\<forall>p. e_enqueue e p = None) \<longrightarrow>
        (\<exists>p \<in> set new. stored_payload p = stored_payload source))"
    by blast+
qed

definition repeats :: "env \<Rightarrow> NotificationDelivery list \<Rightarrow> PaymentNotificationPayload list \<Rightarrow> bool" where
  "repeats e ds new = (\<forall>d \<in> set ds. \<forall>source. nd_Payload d = Some source \<and> np_NotificationURL source \<noteq> [] \<and> e_notifier e \<and>
     (\<forall>p. e_enqueue e p = None) \<longrightarrow> (\<exists>p \<in> set new. stored_payload p = stored_payload source))"

lemma resend_all_step:
  assumes "resend_all e ds w = (items, w')"
  shows "notify_only w w' \<and> selectable f w' = selectable f w \<and> map item_of items = map source_of ds \<and>
    (\<exists>new. w_queue w' = w_queue w @ new \<and> length new = length (filter queued_item items) \<and> repeats e ds new)"
  using assms
proof (induction e ds w arbitrary: items w' rule: resend_all.induct)
  case (2 e d ds w)
  obtain item w1 where o: "resend_one e d w = (item, w1)" by fastforce
  obtain items1 where a: "resend_all e ds w1 = (items1, w')" and i: "items = item # items1"
    using "2.prems" o by (auto split: prod.splits)
  note one = resend_one_step [OF o]
  obtain n1 where n1: "w_queue w1 = w_queue w @ n1" "length n1 = (if queued_item item then 1 else 0)" "repeats e [d] n1"
    using one(4) by (auto simp: repeats_def)
  from "2.IH" [OF o [symmetric] a] obtain n2 where n2: "w_queue w' = w_queue w1 @ n2"
      "length n2 = length (filter queued_item items1)" "repeats e ds n2"
    and f: "notify_only w1 w'" "selectable f w' = selectable f w1" "map item_of items1 = map source_of ds" by blast
  have "repeats e (d # ds) (n1 @ n2)" using n1(3) n2(3) unfolding repeats_def by simp blast
  with n1 n2 f one(1) one(2) [of f] one(3) i show ?case
    by (auto intro: notify_only_trans)
qed (simp add: repeats_def)

text \<open>C38: A bulk resend touches no transaction, instalment, outcome or registration. A range that matches more than
  500 callbacks, or whose selection fails, sends nothing at all; otherwise every original of the range is
  answered for in order, exactly the items reported as queued entered the queue, and the resends are not
  selected by any later range, so repeating a range never resends a resend.\<close>

theorem bulk_resend_is_bounded:
  "case ResendRange e f w of (res, w') \<Rightarrow>
     notify_only w w' \<and> (\<forall>g. selectable g w' = selectable g w) \<and>
     (case res of Inl err \<Rightarrow> w' = w
      | Inr r \<Rightarrow> length (br_Items r) \<le> 500 \<and>
          map item_of (br_Items r) =
            map source_of (order_by e nd_ID (\<lambda>d. tm_ns (nd_AttemptedAt d)) (filter (resend_selected f) (w_deliveries w))) \<and>
          length (w_queue w') = length (w_queue w) + length (filter queued_item (br_Items r)))"
proof -
  let ?l = "order_by e nd_ID (\<lambda>d. tm_ns (nd_AttemptedAt d)) (filter (resend_selected f) (w_deliveries w))"
  have sel: "resend_selected (f\<lparr>df_Limit := n\<rparr>) = resend_selected f" for n by (simp add: fun_eq_iff resend_selected_def)
  have notify_refl: "notify_only w w" by simp
  show ?thesis
  proof (cases "e_fault e OpListResend")
    case (Some err)
    then show ?thesis by (simp add: ResendRange_def ListForResend_def)
  next
    case None
    then have l: "ListForResend e (f\<lparr>df_Limit := 501\<rparr>) w = (Inr (take 501 ?l), w)"
      by (simp add: ListForResend_def sel)
    show ?thesis
    proof (cases "500 < length ?l")
      case True
      then show ?thesis by (simp add: ResendRange_def l MaxBulkResend_def)
    next
      case False
      then have t: "take 501 ?l = ?l" by simp
      obtain items w' where a: "resend_all e ?l w = (items, w')" by fastforce
      have r: "ResendRange e f w = (Inr \<lparr>br_Items = items, br_ResentAt = e_now e\<rparr>, w')"
        using False by (simp add: ResendRange_def l t a MaxBulkResend_def del: length_filter_le)
      have len: "length items = length ?l" using resend_all_step [OF a] by (metis length_map)
      obtain new where "w_queue w' = w_queue w @ new" "length new = length (filter queued_item items)"
        using resend_all_step [OF a] by blast
      then show ?thesis using resend_all_step [OF a] False len by (simp add: r)
    qed
  qed
qed

section \<open>What is resent is what was sent\<close>

lemma ResendRange_repeats:
  assumes "ResendRange e f w = (Inr r, w')"
  shows "\<exists>new. w_queue w' = w_queue w @ new \<and> repeats e (filter (resend_selected f) (w_deliveries w)) new"
proof -
  let ?l = "order_by e nd_ID (\<lambda>d. tm_ns (nd_AttemptedAt d)) (filter (resend_selected f) (w_deliveries w))"
  have sel: "resend_selected (f\<lparr>df_Limit := n\<rparr>) = resend_selected f" for n by (simp add: fun_eq_iff resend_selected_def)
  have "\<exists>items. resend_all e (take 501 ?l) w = (items, w') \<and> length (take 501 ?l) \<le> 500"
    using assms by (auto simp: ResendRange_def ListForResend_def guard_def sel MaxBulkResend_def split: option.splits if_splits prod.splits)
  then obtain items where a: "resend_all e ?l w = (items, w')" by auto
  then obtain new where "w_queue w' = w_queue w @ new" "repeats e ?l new" using resend_all_step [OF a] by blast
  then show ?thesis by (auto simp: repeats_def)
qed

lemma dispatch_stores:
  assumes "auditing e va w"
  shows "(fresh_id e w, va, ev, tr, e_now e, Some (stored_payload payload)) \<in>
    set (map delivery_core (w_deliveries (snd (dispatchNotification e payload va ev tr w))))"
proof -
  let ?p = "sent_payload e payload tr w"
  have "(fresh_id e w, va, ev, tr, e_now e, Some (stored_payload payload)) \<in>
      set (map delivery_core (w_deliveries (dispatch_row e ?p va ev tr w)))"
    using assms by (auto simp: auditing_def dispatch_row_def Create_def Let_def queued_delivery_def next_uuid_def delivery_core_def
        stored_payload_def sent_payload_def)
  then show ?thesis unfolding dispatch_char Let_def
    by (simp add: UpdateDeliveryResult_def snd_guard core_update del: set_map split: option.split)
qed

text \<open>A resend repeats the original. When a callback has been queued automatically, then after any later traffic,
  whatever has become of the number, a bulk resend of a range that covers it puts a callback into the queue
  that equals the original in every field the merchant receives.\<close>

theorem resend_repeats_the_original:
  assumes "auditing e va w" and "e_notifier e" and "e_enqueue e (sent_payload e payload NotificationTriggerAuto w) = None"
    and "dispatchNotification e payload va ev NotificationTriggerAuto w = (res, w1)" and "np_NotificationURL payload \<noteq> []"
    and "evolves w1 w2"
    and "ResendRange e2 f w2 = (Inr r, w3)" and "e_notifier e2" and "\<forall>q. e_enqueue e2 q = None"
    and "df_Statuses f = []" and "df_VirtualAccountNo f = [] \<or> ltrim va = ltrim (df_VirtualAccountNo f)"
    and "\<not> Before (e_now e) (df_From f)" and "Before (e_now e) (df_To f)"
  shows "\<exists>p q new. w_queue w1 = w_queue w @ [p] \<and> w_queue w3 = w_queue w2 @ new \<and> q \<in> set new \<and>
    stored_payload q = stored_payload p"
proof -
  let ?p = "sent_payload e payload NotificationTriggerAuto w"
  have q1: "w_queue w1 = w_queue w @ [?p]"
    using queue_dispatch [of e payload va ev NotificationTriggerAuto w] assms(2,3,4) by simp
  have sp: "stored_payload ?p = stored_payload payload" by (simp add: stored_payload_def sent_payload_def)
  let ?c = "(fresh_id e w, va, ev, NotificationTriggerAuto, e_now e, Some (stored_payload payload))"
  have "?c \<in> set (map delivery_core (w_deliveries w1))"
    using dispatch_stores [OF assms(1), of ev NotificationTriggerAuto payload] assms(4) by simp
  then have "?c \<in> set (map delivery_core (w_deliveries w2))" using core_evolves [OF assms(6)] by blast
  then obtain d where d: "d \<in> set (w_deliveries w2)" "delivery_core d = ?c" by (auto simp del: prod.inject)
  then have "resend_selected f d"
    using assms(10-13) by (auto simp: resend_selected_def delivery_core_def code_consts)
  moreover have "nd_Payload d = Some (stored_payload payload)" using d(2) by (simp add: delivery_core_def)
  moreover have "np_NotificationURL (stored_payload payload) \<noteq> []" using assms(5) by (simp add: stored_payload_def)
  moreover obtain new where new: "w_queue w3 = w_queue w2 @ new" "repeats e2 (filter (resend_selected f) (w_deliveries w2)) new"
    using ResendRange_repeats [OF assms(7)] by blast
  ultimately obtain q where "q \<in> set new" "stored_payload q = stored_payload (stored_payload payload)"
    using d(1) assms(8,9) unfolding repeats_def by force
  moreover have "stored_payload (stored_payload payload) = stored_payload ?p" by (simp add: sp) (simp add: stored_payload_def)
  ultimately show ?thesis using q1 new(1) by (intro exI [of _ ?p] exI [of _ q] exI [of _ new]) simp
qed

definition demo_payload :: PaymentNotificationPayload where
  "demo_payload = emptyPayload\<lparr>np_EventType := NotificationEventPaymentReceived, np_NotificationURL := ''http://m''\<rparr>"

definition demo_range :: NotificationDeliveryFilter where
  "demo_range = \<lparr>df_From = demo_time, df_To = Add (e_now demo_env) 1, df_VirtualAccountNo = [], df_Statuses = [], df_Limit = 0\<rparr>"

theorem resend_repeats_the_original_witness:
  "\<exists>w1 r w3 p q. w1 = snd (dispatchNotification demo_env demo_payload ''12345678'' NotificationEventPaymentReceived NotificationTriggerAuto demo_world) \<and>
    ResendRange demo_env demo_range w1 = (Inr r, w3) \<and> w_queue w1 = [p] \<and> q \<in> set (tl (w_queue w3)) \<and>
    stored_payload q = stored_payload p"
proof -
  obtain res w1 where d: "dispatchNotification demo_env demo_payload ''12345678'' NotificationEventPaymentReceived NotificationTriggerAuto demo_world = (res, w1)"
    by fastforce
  have "length (w_deliveries w1) \<le> 1"
    using arg_cong [OF d, of snd] by (auto simp: dispatch_char Let_def dispatch_row_def Create_def next_uuid_def demo_world_def fresh_world_def)
  then have few: "length (filter (resend_selected g) (w_deliveries w1)) \<le> 500" for g
    using length_filter_le [of "resend_selected g" "w_deliveries w1"] by linarith
  obtain r w3 where rr: "ResendRange demo_env demo_range w1 = (Inr r, w3)"
  proof -
    obtain items w3 where "resend_all demo_env (take 501 (order_by demo_env nd_ID (\<lambda>d. tm_ns (nd_AttemptedAt d))
        (filter (resend_selected (demo_range\<lparr>df_Limit := 501\<rparr>)) (w_deliveries w1)))) w1 = (items, w3)" by fastforce
    then show thesis using that few [of "demo_range\<lparr>df_Limit := 501\<rparr>"]
      by (auto simp: ResendRange_def ListForResend_def MaxBulkResend_def)
  qed
  have a: "auditing demo_env ''12345678'' demo_world"
    by (simp add: auditing_def demo_world_def fresh_world_def fresh_id_def)
  have t: "\<not> Before (e_now demo_env) (df_From demo_range)" "Before (e_now demo_env) (df_To demo_range)" "df_Statuses demo_range = []"
      "df_VirtualAccountNo demo_range = []"
    by (simp_all add: Before_def demo_range_def demo_time_def demo_env_def Add_def)
  have "\<exists>p q new. w_queue w1 = w_queue demo_world @ [p] \<and> w_queue w3 = w_queue w1 @ new \<and> q \<in> set new \<and>
      stored_payload q = stored_payload p"
    by (rule resend_repeats_the_original [OF a _ _ d _ evolves.same rr]) (simp_all add: t demo_payload_def)
  then show ?thesis using d rr by (fastforce simp: demo_world_def fresh_world_def)
qed

text \<open>
  A single resend rebuilds the payload from the current row and reports the billed total as the amount paid,
  whatever the payment was; for an instalment or a recovered payment the two differ.
\<close>

theorem single_resend_reports_total:
  assumes "no_faults e" and "e_notifier e" and "\<forall>p. e_enqueue e p = None"
    and "current_txn va w = Some t" and "t_total_amount t = Some n" and "t_notification_url t \<noteq> []"
    and "top_by later_delivery (filter (\<lambda>d. nd_VirtualAccountNo d = va) (w_deliveries w)) = Some d"
    and "nd_EventType d = NotificationEventPaymentReceived"
  shows "\<exists>r w' p a. Resend e va w = (Inr r, w') \<and> w_queue w' = w_queue w @ [p] \<and> np_PaidAmount p = Some a \<and> am_Value a = e_scan e n"
proof -
  let ?r = "record_of e w t"
  have nf: "e_fault e opn = None" for opn using assms(1) by (simp add: no_faults_def)
  have url: "ri_NotificationURL ?r = t_notification_url t" "ri_TotalAmount ?r = e_scan e n"
    using assms(5) by (simp_all add: record_of_def scan_inquiry_def)
  let ?p = "resend_payload e NotificationEventPaymentReceived ?r"
  obtain i st er w' where x: "dispatchNotification e ?p va NotificationEventPaymentReceived NotificationTriggerManual w = ((i, st, er), w')"
    by (metis prod.collapse)
  have "Resend e va w = (Inr \<lparr>rs_VirtualAccountNo = va, rs_EventType = NotificationEventPaymentReceived, rs_ResentAt = e_now e, rs_DeliveryStatus = st\<rparr>, w')"
    using GetVA_current [OF nf assms(4,5)] assms(6-8) nf url x by (simp add: Resend_def GetLatestByVirtualAccountNo_def)
  moreover have "w_queue w' = w_queue w @ [sent_payload e ?p NotificationTriggerManual w]"
    using queue_dispatch [of e ?p va NotificationEventPaymentReceived NotificationTriggerManual w] x assms(2,3) by simp
  ultimately show ?thesis using url by (fastforce simp: sent_payload_def resend_payload_def)
qed

end
