(* ===== verification/VaHandler.thy ===== *)
theory VaHandler
  imports VaUsecase Validation
begin

text \<open>
  The vendor handlers of \<^verbatim>\<open>internal/adapter/delivery/http/handler/va_handler.go\<close>. The framework binds the body;
  a handler starts at the result, nothing when the body could not be parsed. An answer is the HTTP status with
  the body. The log lines of a failed inquiry are left out.
\<close>

type_synonym http_answer = "nat \<times> snap_body"

definition noEcho :: VAIdentityEcho where
  "noEcho = \<lparr>ec_PartnerServiceID = [], ec_CustomerNo = [], ec_VirtualAccountNo = [], ec_InquiryRequestID = [], ec_PaymentRequestID = []\<rparr>"

text \<open>The vendor the authentication put into the context, if the route has one.\<close>

record VendorContext =
  vc_Vendor :: string
  vc_Channel :: string
  vc_StrictMandatoryFields :: bool

definition strictMandatoryFor :: "bool \<Rightarrow> VendorContext option \<Rightarrow> bool" where
  "strictMandatoryFor strictMandatory vendor = (case vendor of Some v \<Rightarrow> vc_StrictMandatoryFields v | None \<Rightarrow> strictMandatory)"

definition violationCode :: "string \<Rightarrow> FieldViolation \<Rightarrow> string \<times> string" where
  "violationCode service v = (if fv_Kind v = ViolationMandatory
     then (CodeMissingMandatory service, ''Invalid Mandatory Field ['' @ fv_Field v @ '']'')
     else (CodeInvalidField service, ''Invalid Field Format ['' @ fv_Field v @ '']''))"

definition inquiryEcho :: "VAInquiryRequest \<Rightarrow> VAIdentityEcho" where
  "inquiryEcho req = noEcho\<lparr>ec_PartnerServiceID := iq_PartnerServiceID req, ec_CustomerNo := iq_CustomerNo req,
     ec_VirtualAccountNo := iq_VirtualAccountNo req, ec_InquiryRequestID := iq_InquiryRequestID req\<rparr>"

definition paymentEcho :: "VAPaymentRequest \<Rightarrow> VAIdentityEcho" where
  "paymentEcho req = noEcho\<lparr>ec_PartnerServiceID := pq_PartnerServiceID req, ec_CustomerNo := pq_CustomerNo req,
     ec_VirtualAccountNo := pq_VirtualAccountNo req, ec_PaymentRequestID := pq_PaymentRequestID req\<rparr>"

definition statusEcho :: "VAStatusRequest \<Rightarrow> VAIdentityEcho" where
  "statusEcho req = \<lparr>ec_PartnerServiceID = sq_PartnerServiceID req, ec_CustomerNo = sq_CustomerNo req,
     ec_VirtualAccountNo = sq_VirtualAccountNo req, ec_InquiryRequestID = sq_InquiryRequestID req,
     ec_PaymentRequestID = sq_PaymentRequestID req\<rparr>"

definition mapSNAPCodeToHTTP :: "string \<Rightarrow> nat" where
  "mapSNAPCodeToHTTP snapCode = (if length snapCode < 3 then 500 else
     (case map_of [(''200'', 200), (''400'', 400), (''401'', 401), (''403'', 403), (''404'', 404), (''405'', 405), (''409'', 409),
        (''422'', 422), (''500'', 500), (''504'', 504)] (take 3 snapCode) of Some n \<Rightarrow> n | None \<Rightarrow> 500))"

section \<open>Inquiry\<close>

text \<open>Every error of the use cases is a \<^verbatim>\<open>DomainError\<close>, so the branch for other errors is not taken.\<close>

definition inquiryError :: "DomainError \<Rightarrow> VAIdentityEcho \<Rightarrow> http_answer" where
  "inquiryError err echoData = (
     let resp = NewInquiryErrorResponse (de_SNAPCode err) (de_Message err) echoData in
     (mapSNAPCodeToHTTP (de_SNAPCode err),
      InquiryBody (case de_InquiryData err of None \<Rightarrow> resp
        | Some resolved \<Rightarrow> (case (ad_InquiryStatus resolved, ir_VirtualAccountData resp) of
            ([], Some d) \<Rightarrow> resp\<lparr>ir_VirtualAccountData := Some (resolved\<lparr>ad_InquiryStatus := ad_InquiryStatus d,
                 ad_InquiryReason := ad_InquiryReason d\<rparr>)\<rparr>
          | _ \<Rightarrow> resp\<lparr>ir_VirtualAccountData := Some resolved\<rparr>))))"

definition VAHandler_Inquiry ::
    "env \<Rightarrow> bool \<Rightarrow> VendorContext option \<Rightarrow> VAInquiryRequest option \<Rightarrow> world \<Rightarrow> http_answer \<times> world" where
  "VAHandler_Inquiry e strictMandatory vendor bound w = (case bound of
      None \<Rightarrow> ((400, InquiryBody (NewInquiryErrorResponse CodeInquiryBadRequest ''Bad Request'' noEcho)), w)
    | Some req \<Rightarrow> (case ValidateInquiryRequest req (strictMandatoryFor strictMandatory vendor) of
        Some v \<Rightarrow> (case violationCode ServiceCodeInquiry v of
          (code, message) \<Rightarrow> ((400, InquiryBody (NewInquiryErrorResponse code message (inquiryEcho req))), w))
      | None \<Rightarrow> (case Inquiry e req w of
          (Inl err, w1) \<Rightarrow> (inquiryError err (inquiryEcho req), w1)
        | (Inr resp, w1) \<Rightarrow> ((200, InquiryBody resp), w1))))"

section \<open>Payment\<close>

definition echoPaymentRequestFields :: "VAPaymentStatus \<Rightarrow> VAPaymentRequest \<Rightarrow> VAPaymentStatus" where
  "echoPaymentRequestFields data req = data\<lparr>ps_VirtualAccountName := pq_VirtualAccountName req,
     ps_TrxDateTime := pq_TrxDateTime req, ps_ReferenceNo := pq_ReferenceNo req,
     ps_PaidAmount := orelse (pq_PaidAmount req) (ps_PaidAmount data),
     ps_TotalAmount := orelse (pq_TotalAmount req) (ps_TotalAmount data)\<rparr>"

definition echoed_rejection :: "string \<Rightarrow> string \<Rightarrow> VAPaymentRequest \<Rightarrow> http_answer" where
  "echoed_rejection code message req = (
     let resp = NewPaymentErrorResponse code message (paymentEcho req) in
     (mapSNAPCodeToHTTP code, PaymentBody (resp\<lparr>pr_VirtualAccountData :=
        map_option (\<lambda>d. echoPaymentRequestFields d req) (pr_VirtualAccountData resp)\<rparr>)))"

definition paymentError :: "DomainError \<Rightarrow> VAPaymentRequest \<Rightarrow> http_answer" where
  "paymentError err req = (case de_PaymentData err of
      None \<Rightarrow> echoed_rejection (de_SNAPCode err) (de_Message err) req
    | Some stored \<Rightarrow> (
        let resp = NewPaymentErrorResponse (de_SNAPCode err) (de_Message err) (paymentEcho req) in
        (mapSNAPCodeToHTTP (de_SNAPCode err),
         PaymentBody (case (ps_PaymentFlagStatus stored, pr_VirtualAccountData resp) of
            ([], Some d) \<Rightarrow> resp\<lparr>pr_VirtualAccountData := Some (stored\<lparr>ps_PaymentFlagStatus := ps_PaymentFlagStatus d,
                 ps_PaymentFlagReason := ps_PaymentFlagReason d\<rparr>)\<rparr>
          | _ \<Rightarrow> resp\<lparr>pr_VirtualAccountData := Some stored\<rparr>))))"

text \<open>The request as the handler completes it: the header's identifier, and blank bill lines removed.\<close>

definition completed_request :: "string \<Rightarrow> VAPaymentRequest \<Rightarrow> VAPaymentRequest" where
  "completed_request externalID req = NormalizeBillDetails (req\<lparr>pq_ExternalID := externalID\<rparr>)"

text \<open>A validated request has a paid amount; a nil one in the use case would panic.\<close>

definition VAHandler_Payment ::
    "env \<Rightarrow> bool \<Rightarrow> VendorContext option \<Rightarrow> string \<Rightarrow> VAPaymentRequest option \<Rightarrow> world \<Rightarrow> http_answer \<times> world" where
  "VAHandler_Payment e strictMandatory vendor externalID bound w = (case bound of
      None \<Rightarrow> ((400, PaymentBody (NewPaymentErrorResponse CodePaymentBadRequest ''Bad Request'' noEcho)), w)
    | Some req0 \<Rightarrow> (
        let req = completed_request externalID req0;
            v = ValidatePaymentRequest req (strictMandatoryFor strictMandatory vendor) in
        case v of
          Some violation \<Rightarrow>
            if PaidAmountViolationIsInvalidAmount v then (echoed_rejection CodePaymentInvalidAmt MsgInvalidAmount req, w)
            else (case violationCode ServiceCodePayment violation of
              (code, message) \<Rightarrow> ((400, PaymentBody (NewPaymentErrorResponse code message (paymentEcho req))), w))
        | None \<Rightarrow> (case Payment e req (the (pq_PaidAmount req)) w of
            (Inl err, w1) \<Rightarrow> (paymentError err req, w1)
          | (Inr resp, w1) \<Rightarrow> ((mapSNAPCodeToHTTP (pr_ResponseCode resp), PaymentBody resp), w1))))"

section \<open>Status\<close>

definition VAHandler_Status :: "env \<Rightarrow> VAStatusRequest option \<Rightarrow> world \<Rightarrow> http_answer \<times> world" where
  "VAHandler_Status e bound w = (case bound of
      None \<Rightarrow> ((400, StatusBody (NewStatusErrorResponse CodeStatusBadRequest ''Bad Request'' noEcho)), w)
    | Some req \<Rightarrow> (case ValidateStatusRequest req of
        Some v \<Rightarrow> (case violationCode ServiceCodeStatus v of
          (code, message) \<Rightarrow> ((400, StatusBody (NewStatusErrorResponse code message (statusEcho req))), w))
      | None \<Rightarrow> (case Status e req w of
          (Inl err, w1) \<Rightarrow> ((mapSNAPCodeToHTTP (de_SNAPCode err),
             StatusBody (NewStatusErrorResponse (de_SNAPCode err) (de_Message err) (statusEcho req))), w1)
        | (Inr resp, w1) \<Rightarrow> ((200, StatusBody resp), w1))))"

end
