(* ===== verification/HandlerProps.thy ===== *)
theory HandlerProps
  imports VaHandler Traffic
begin

text \<open>
  The vendor handlers: the HTTP status is the one of the response code, a request that is not well formed never
  reaches a use case, and a well-formed one has exactly the effect of its use case.
\<close>

section \<open>Status and code\<close>

definition agrees :: "http_answer \<Rightarrow> bool" where
  "agrees a = (fst a = mapSNAPCodeToHTTP (body_code (snd a)))"

definition client_error :: "http_answer \<Rightarrow> bool" where
  "client_error a = (400 \<le> fst a \<and> fst a < 500)"

lemma map_code [simp]:
  "mapSNAPCodeToHTTP (CHR ''2'' # CHR ''0'' # CHR ''0'' # s) = 200" "mapSNAPCodeToHTTP (CHR ''4'' # CHR ''0'' # CHR ''0'' # s) = 400"
  "mapSNAPCodeToHTTP (CHR ''4'' # CHR ''0'' # CHR ''4'' # s) = 404" "mapSNAPCodeToHTTP (CHR ''4'' # CHR ''0'' # CHR ''9'' # s) = 409"
  "mapSNAPCodeToHTTP (CHR ''4'' # CHR ''0'' # CHR ''1'' # s) = 401"
  by (simp_all add: mapSNAPCodeToHTTP_def)

lemma violation_agrees:
  assumes "violationCode service v = (code, message)"
  shows "mapSNAPCodeToHTTP code = 400"
  using assms by (auto simp: violationCode_def code_helpers split: if_splits)

lemma error_codes [simp]:
  "body_code (InquiryBody (NewInquiryErrorResponse code message echo)) = code"
  "body_code (PaymentBody (NewPaymentErrorResponse code message echo)) = code"
  "body_code (StatusBody (NewStatusErrorResponse code message echo)) = code"
  by (simp_all add: body_code_def NewInquiryErrorResponse_def NewPaymentErrorResponse_def NewStatusErrorResponse_def)

lemma Inquiry_success_code: "fst (Inquiry e req w) = Inr resp \<Longrightarrow> ir_ResponseCode resp = ''2002400''"
proof -
  have n: "fst (inquiryNoBill e req a w) = Inr resp \<Longrightarrow> ir_ResponseCode resp = ''2002400''" for a
    by (auto simp: inquiryNoBill_def code_consts split: if_splits)
  have r: "fst (inquiry_record e req r w) = Inr resp \<Longrightarrow> ir_ResponseCode resp = ''2002400''" for r
    by (auto simp: inquiry_record_def Let_def inquiryResponseFromRecord_def code_consts split: if_splits prod.splits sum.splits)
  assume "fst (Inquiry e req w) = Inr resp"
  then show ?thesis by (auto simp: Inquiry_def dest: n r split: sum.splits option.splits bool.splits)
qed

lemma Status_success_code: "fst (Status e req w) = Inr resp \<Longrightarrow> sr_ResponseCode resp = ''2002600''"
  by (auto simp: Status_def status_of_payment_def status_of_inquiry_def Let_def code_consts split: sum.splits if_splits)

lemma agrees_body [simp]:
  "agrees (n, InquiryBody r) = (n = mapSNAPCodeToHTTP (ir_ResponseCode r))"
  "agrees (n, PaymentBody p) = (n = mapSNAPCodeToHTTP (pr_ResponseCode p))"
  "agrees (n, StatusBody q) = (n = mapSNAPCodeToHTTP (sr_ResponseCode q))"
  by (simp_all add: agrees_def body_code_def)

lemma paymentError_agrees: "agrees (paymentError err req)"
  by (auto simp: agrees_def paymentError_def echoed_rejection_def Let_def body_code_def NewPaymentErrorResponse_def
      split: option.split list.split)

lemma inquiryError_agrees: "agrees (inquiryError err echoData)"
  by (auto simp: agrees_def inquiryError_def Let_def body_code_def NewInquiryErrorResponse_def split: option.split list.split)

section \<open>Validation comes first\<close>

text \<open>The request the payment use case gets to see.\<close>

definition accepted_payment ::
    "bool \<Rightarrow> VendorContext option \<Rightarrow> string \<Rightarrow> VAPaymentRequest option \<Rightarrow> (VAPaymentRequest \<times> Amount) option" where
  "accepted_payment strict vendor externalID bound = (case bound of None \<Rightarrow> None
     | Some req0 \<Rightarrow> (let req = completed_request externalID req0 in
         if payment_wellformed (strictMandatoryFor strict vendor) req then map_option (Pair req) (pq_PaidAmount req) else None))"

definition accepted_inquiry :: "bool \<Rightarrow> VendorContext option \<Rightarrow> VAInquiryRequest option \<Rightarrow> VAInquiryRequest option" where
  "accepted_inquiry strict vendor bound = (case bound of None \<Rightarrow> None
     | Some req \<Rightarrow> if inquiry_wellformed (strictMandatoryFor strict vendor) req then Some req else None)"

lemma wellformed_paid: "payment_wellformed strict req \<Longrightarrow> \<exists>paid. pq_PaidAmount req = Some paid"
  by (cases "pq_PaidAmount req") (simp_all add: payment_wellformed_def)

lemma payment_handler:
  "case VAHandler_Payment e strict vendor externalID bound w of (a, w') \<Rightarrow> agrees a \<and>
     (case accepted_payment strict vendor externalID bound of None \<Rightarrow> client_error a \<and> w' = w
      | Some (req, paid) \<Rightarrow> w' = snd (Payment e req paid w) \<and> pq_ExternalID req = externalID)"
proof (cases bound)
  case None
  then show ?thesis by (simp add: VAHandler_Payment_def agrees_def client_error_def accepted_payment_def code_consts)
next
  case (Some req0)
  define req where "req = completed_request externalID req0"
  define s where "s = strictMandatoryFor strict vendor"
  note wf = ValidatePaymentRequest_None [of req s]
  have ext: "pq_ExternalID req = externalID" by (simp add: req_def completed_request_def NormalizeBillDetails_def Let_def)
  show ?thesis
  proof (cases "ValidatePaymentRequest req s")
    case None
    with wf have ok: "payment_wellformed s req" by simp
    then obtain paid where p: "pq_PaidAmount req = Some paid" using wellformed_paid by blast
    have "accepted_payment strict vendor externalID bound = Some (req, paid)"
      using Some ok p by (simp add: accepted_payment_def req_def s_def Let_def)
    with Some None p ext paymentError_agrees show ?thesis
      by (auto simp: VAHandler_Payment_def Let_def req_def [symmetric] s_def [symmetric] split: prod.split sum.split)
        (metis paymentError_agrees)
  next
    case v: (Some violation)
    with wf have no: "accepted_payment strict vendor externalID bound = None"
      using Some by (simp add: accepted_payment_def req_def s_def Let_def)
    obtain code message where c: "violationCode ServiceCodePayment violation = (code, message)" by fastforce
    have "agrees (echoed_rejection CodePaymentInvalidAmt MsgInvalidAmount req)" "client_error (echoed_rejection CodePaymentInvalidAmt MsgInvalidAmount req)"
      by (simp_all add: agrees_def client_error_def echoed_rejection_def Let_def body_code_def NewPaymentErrorResponse_def code_consts)
    with Some v no c violation_agrees [OF c] show ?thesis
      by (simp add: VAHandler_Payment_def Let_def req_def [symmetric] s_def [symmetric] agrees_def client_error_def)
  qed
qed

lemma inquiry_handler:
  "case VAHandler_Inquiry e strict vendor bound w of (a, w') \<Rightarrow> agrees a \<and>
     (case accepted_inquiry strict vendor bound of None \<Rightarrow> client_error a \<and> w' = w
      | Some req \<Rightarrow> w' = snd (Inquiry e req w))"
proof (cases bound)
  case None
  then show ?thesis by (simp add: VAHandler_Inquiry_def agrees_def client_error_def accepted_inquiry_def code_consts)
next
  case (Some req)
  define s where "s = strictMandatoryFor strict vendor"
  note wf = ValidateInquiryRequest_None [of req s]
  show ?thesis
  proof (cases "ValidateInquiryRequest req s")
    case None
    with wf Some have "accepted_inquiry strict vendor bound = Some req" by (simp add: accepted_inquiry_def s_def)
    with Some None inquiryError_agrees show ?thesis
      using Inquiry_success_code [of e req w]
      by (auto simp: VAHandler_Inquiry_def s_def [symmetric] split: prod.split sum.split) (metis inquiryError_agrees)
  next
    case v: (Some violation)
    with wf Some have "accepted_inquiry strict vendor bound = None" by (simp add: accepted_inquiry_def s_def)
    moreover obtain code message where c: "violationCode ServiceCodeInquiry violation = (code, message)" by fastforce
    ultimately show ?thesis using Some v violation_agrees [OF c]
      by (simp add: VAHandler_Inquiry_def s_def [symmetric] c agrees_def client_error_def)
  qed
qed

lemma Status_pure: "snd (Status e req w) = w"
  by (simp add: Status_def split: sum.split)

lemma status_handler: "case VAHandler_Status e bound w of (a, w') \<Rightarrow> agrees a \<and> w' = w"
proof (cases bound)
  case None
  then show ?thesis by (simp add: VAHandler_Status_def agrees_def code_consts)
next
  case (Some req)
  show ?thesis
  proof (cases "ValidateStatusRequest req")
    case None
    then show ?thesis using Some Status_success_code [of e req w] Status_pure [of e req w]
      by (auto simp: VAHandler_Status_def agrees_def body_code_def NewStatusErrorResponse_def split: prod.split sum.split)
  next
    case v: (Some violation)
    obtain code message where c: "violationCode ServiceCodeStatus violation = (code, message)" by fastforce
    show ?thesis using Some v violation_agrees [OF c] by (simp add: VAHandler_Status_def c agrees_def)
  qed
qed

text \<open>The three vendor endpoints answer consistently and validate first: the HTTP status is always the one of
  the response code in the body. A request that cannot be parsed or is not well formed is answered with a
  client error and changes nothing; a well-formed inquiry or payment has exactly the effect of its use case,
  called with the identifier of the header; a status request changes nothing.\<close>

theorem handlers_validate_first:
  "(case VAHandler_Inquiry e strict vendor ib w of (a, w') \<Rightarrow> agrees a \<and>
      (case accepted_inquiry strict vendor ib of None \<Rightarrow> client_error a \<and> w' = w | Some req \<Rightarrow> w' = snd (Inquiry e req w))) \<and>
   (case VAHandler_Payment e strict vendor externalID pb w of (a, w') \<Rightarrow> agrees a \<and>
      (case accepted_payment strict vendor externalID pb of None \<Rightarrow> client_error a \<and> w' = w
       | Some (req, paid) \<Rightarrow> w' = snd (Payment e req paid w) \<and> pq_ExternalID req = externalID)) \<and>
   (case VAHandler_Status e sb w of (a, w') \<Rightarrow> agrees a \<and> w' = w)"
  by (intro conjI inquiry_handler payment_handler status_handler)

end
