(* ===== verification/Crypto.thy ===== *)
theory Crypto
  imports Prelude
begin

text \<open>
  Symmetric signatures: \<^verbatim>\<open>internal/infrastructure/crypto/hmac.go\<close>. The digests of the standard library and its JSON
  compaction are parameters, functions about which nothing is assumed; base64 is modelled, since the check of a
  signature depends on what its decoder accepts.
\<close>

record crypto_env =
  cr_sha256 :: "string \<Rightarrow> string"
  cr_hmac_sha256 :: "string \<Rightarrow> string \<Rightarrow> string"
  cr_hmac_sha512 :: "string \<Rightarrow> string \<Rightarrow> string"
  cr_compact :: "string \<Rightarrow> string option"

section \<open>Base64\<close>

definition b64_alphabet :: string where
  "b64_alphabet = ''ABCDEFGHIJKLMNOPQRSTUVWXYZabcdefghijklmnopqrstuvwxyz0123456789+/''"

definition b64_char :: "nat \<Rightarrow> char" where
  "b64_char n = b64_alphabet ! n"

definition b64_val :: "char \<Rightarrow> nat option" where
  "b64_val c = map_of (zip b64_alphabet [0..<64]) c"

definition byte :: "nat \<Rightarrow> char" where
  "byte n = char_of n"

definition ord :: "char \<Rightarrow> nat" where
  "ord c = of_char c"

text \<open>\<^verbatim>\<open>StdEncoding.EncodeToString\<close>: three bytes as four letters, padded.\<close>

fun b64_encode :: "string \<Rightarrow> string" where
  "b64_encode (x # y # z # r) = [b64_char (ord x div 4), b64_char (ord x mod 4 * 16 + ord y div 16),
     b64_char (ord y mod 16 * 4 + ord z div 64), b64_char (ord z mod 64)] @ b64_encode r"
| "b64_encode [x, y] = [b64_char (ord x div 4), b64_char (ord x mod 4 * 16 + ord y div 16), b64_char (ord y mod 16 * 4), CHR ''='']"
| "b64_encode [x] = [b64_char (ord x div 4), b64_char (ord x mod 4 * 16), CHR ''='', CHR ''='']"
| "b64_encode [] = []"

text \<open>
  The decoder of \<^verbatim>\<open>StdEncoding\<close> (padded) and \<^verbatim>\<open>RawStdEncoding\<close>: line breaks are skipped, the bits left over in the
  last letter are ignored.
\<close>

fun b64_quads :: "bool \<Rightarrow> string \<Rightarrow> string option" where
  "b64_quads padded (a # b # c # d # r) = (case (b64_val a, b64_val b) of
      (Some x, Some y) \<Rightarrow> (case b64_val c of
          None \<Rightarrow> if padded \<and> c = CHR ''='' \<and> d = CHR ''='' \<and> r = [] then Some [byte (x * 4 + y div 16)] else None
        | Some z \<Rightarrow> (case b64_val d of
            None \<Rightarrow> if padded \<and> d = CHR ''='' \<and> r = [] then Some [byte (x * 4 + y div 16), byte (y mod 16 * 16 + z div 4)] else None
          | Some v \<Rightarrow> map_option (append [byte (x * 4 + y div 16), byte (y mod 16 * 16 + z div 4), byte (z mod 4 * 64 + v)])
              (b64_quads padded r)))
    | _ \<Rightarrow> None)"
| "b64_quads padded [a, b, c] = (case (b64_val a, b64_val b, b64_val c) of
      (Some x, Some y, Some z) \<Rightarrow> if padded then None else Some [byte (x * 4 + y div 16), byte (y mod 16 * 16 + z div 4)]
    | _ \<Rightarrow> None)"
| "b64_quads padded [a, b] = (case (b64_val a, b64_val b) of
      (Some x, Some y) \<Rightarrow> if padded then None else Some [byte (x * 4 + y div 16)] | _ \<Rightarrow> None)"
| "b64_quads padded [a] = None"
| "b64_quads padded [] = Some []"

definition line_break :: "char \<Rightarrow> bool" where
  "line_break c = (ord c = 10 \<or> ord c = 13)"

definition b64_decode :: "bool \<Rightarrow> string \<Rightarrow> string option" where
  "b64_decode padded s = b64_quads padded (filter (\<lambda>c. \<not> line_break c) s)"

section \<open>Signing and verifying\<close>

definition BodyHashHex :: string where [code_consts]: "BodyHashHex = ''hex''"
definition BodyHashBase64 :: string where [code_consts]: "BodyHashBase64 = ''base64''"

text \<open>\<^verbatim>\<open>NewHMACSigner\<close>: the digest by name, SHA-512 when it is not recognised.\<close>

definition mac_of :: "crypto_env \<Rightarrow> string \<Rightarrow> string \<Rightarrow> string \<Rightarrow> string" where
  "mac_of c algorithm secret msg = (if ToUpper algorithm = ''HMAC-SHA256'' then cr_hmac_sha256 c secret msg
     else cr_hmac_sha512 c secret msg)"

definition Sign :: "crypto_env \<Rightarrow> string \<Rightarrow> string \<Rightarrow> string \<Rightarrow> string" where
  "Sign c algorithm secret stringToSign = b64_encode (mac_of c algorithm secret stringToSign)"

definition Verify :: "crypto_env \<Rightarrow> string \<Rightarrow> string \<Rightarrow> string \<Rightarrow> string \<Rightarrow> bool" where
  "Verify c algorithm secret stringToSign signature = (
     let expected = Sign c algorithm secret stringToSign in
     if expected = signature then True
     else (case b64_decode True expected of None \<Rightarrow> False
       | Some expectedBytes \<Rightarrow> (case b64_decode True signature of
           Some actual \<Rightarrow> expectedBytes = actual
         | None \<Rightarrow> (case b64_decode False signature of None \<Rightarrow> False | Some actual \<Rightarrow> expectedBytes = actual))))"

definition BuildStringToSign :: "string \<Rightarrow> string \<Rightarrow> string \<Rightarrow> string \<Rightarrow> string \<Rightarrow> string" where
  "BuildStringToSign method relativeURL accessToken requestBodyHash timestamp =
     method @ '':'' @ relativeURL @ '':'' @ accessToken @ '':'' @ requestBodyHash @ '':'' @ timestamp"

definition MinifyJSON :: "crypto_env \<Rightarrow> string \<Rightarrow> string" where
  "MinifyJSON c data = (if TrimSpace data = [] then data else case cr_compact c data of None \<Rightarrow> data | Some s \<Rightarrow> s)"

definition hex_digit :: "nat \<Rightarrow> char" where
  "hex_digit n = ''0123456789abcdef'' ! n"

definition hex_encode :: "string \<Rightarrow> string" where
  "hex_encode s = concat (map (\<lambda>ch. [hex_digit (ord ch div 16), hex_digit (ord ch mod 16)]) s)"

definition HashRequestBody :: "crypto_env \<Rightarrow> string \<Rightarrow> string \<Rightarrow> string" where
  "HashRequestBody c body encoding = (let sum = cr_sha256 c (MinifyJSON c body) in
     if EqualFold encoding BodyHashBase64 then b64_encode sum else hex_encode sum)"

definition HashSHA256Hex :: "crypto_env \<Rightarrow> string \<Rightarrow> string" where
  "HashSHA256Hex c data = hex_encode (cr_sha256 c data)"

definition HashSHA256Base64 :: "crypto_env \<Rightarrow> string \<Rightarrow> string" where
  "HashSHA256Base64 c data = b64_encode (cr_sha256 c data)"

section \<open>Asymmetric signatures\<close>

text \<open>
  \<^verbatim>\<open>rsa_verifier.go\<close>, \<^verbatim>\<open>rsa_signer.go\<close> and \<^verbatim>\<open>validateRSAPublicKeyPEM\<close> of the client handler. PEM blocks, the key formats of
  \<^verbatim>\<open>crypto/x509\<close> and RSA itself are parameters; a key is the bytes it was read from.
\<close>

datatype parsed_key = RSAKey string | OtherKey string

record rsa_lib =
  rl_pem :: "string \<Rightarrow> string option"
  rl_pkix :: "string \<Rightarrow> string + parsed_key"
  rl_pkcs1 :: "string \<Rightarrow> string option"
  rl_pkcs8 :: "string \<Rightarrow> string + parsed_key"
  rl_verify :: "string \<Rightarrow> string \<Rightarrow> string \<Rightarrow> bool"
  rl_sign :: "string \<Rightarrow> string \<Rightarrow> string + string"

definition VerifySignature :: "crypto_env \<Rightarrow> rsa_lib \<Rightarrow> string \<Rightarrow> string \<Rightarrow> string \<Rightarrow> string option" where
  "VerifySignature c lib pubKeyPEM stringToSign signatureBase64 = (case rl_pem lib pubKeyPEM of
      None \<Rightarrow> Some ''failed to parse PEM block containing public key''
    | Some block \<Rightarrow> (case rl_pkix lib block of
        Inl err \<Rightarrow> Some (''failed to parse PKIX public key: '' @ err)
      | Inr (OtherKey k) \<Rightarrow> Some ''public key is not an RSA public key''
      | Inr (RSAKey k) \<Rightarrow> (case b64_decode True signatureBase64 of
          None \<Rightarrow> Some ''failed to base64 decode signature''
        | Some sigBytes \<Rightarrow> if rl_verify lib k (cr_sha256 c stringToSign) sigBytes then None
            else Some ''rsa signature verification failed'')))"

definition validateRSAPublicKeyPEM :: "rsa_lib \<Rightarrow> string \<Rightarrow> string option" where
  "validateRSAPublicKeyPEM lib pemStr = (case rl_pem lib pemStr of
      None \<Rightarrow> Some ''failed to parse PEM block, expected -----BEGIN PUBLIC KEY-----''
    | Some block \<Rightarrow> (case rl_pkix lib block of
        Inl err \<Rightarrow> Some (''not a valid PKIX public key: '' @ err)
      | Inr (OtherKey k) \<Rightarrow> Some ''public key is not RSA''
      | Inr (RSAKey k) \<Rightarrow> None))"

definition private_key_bytes :: "rsa_lib \<Rightarrow> string \<Rightarrow> string" where
  "private_key_bytes lib raw = (case rl_pem lib raw of Some block \<Rightarrow> block
     | None \<Rightarrow> (case b64_decode True raw of None \<Rightarrow> raw
        | Some decoded \<Rightarrow> (case rl_pem lib decoded of Some block \<Rightarrow> block | None \<Rightarrow> decoded)))"

definition parseRSAPrivateKey :: "rsa_lib \<Rightarrow> string \<Rightarrow> string + string" where
  "parseRSAPrivateKey lib raw = (let keyBytes = private_key_bytes lib raw in
     case rl_pkcs1 lib keyBytes of Some k \<Rightarrow> Inr k
     | None \<Rightarrow> (case rl_pkcs8 lib keyBytes of
         Inl err \<Rightarrow> Inl (''failed to parse RSA private key: '' @ err)
       | Inr (OtherKey k) \<Rightarrow> Inl ''private key is not RSA''
       | Inr (RSAKey k) \<Rightarrow> Inr k))"

definition RSASigner_Sign :: "crypto_env \<Rightarrow> rsa_lib \<Rightarrow> string \<Rightarrow> string \<Rightarrow> string + string" where
  "RSASigner_Sign c lib rawPrivateKey stringToSign = (case parseRSAPrivateKey lib rawPrivateKey of
      Inl err \<Rightarrow> Inl err
    | Inr k \<Rightarrow> (case rl_sign lib k (cr_sha256 c stringToSign) of
        Inl err \<Rightarrow> Inl (''rsa signing failed: '' @ err)
      | Inr sig \<Rightarrow> Inr (b64_encode sig)))"

section \<open>Base64 inverts\<close>

lemma b64_val_char: "n < 64 \<Longrightarrow> b64_val (b64_char n) = Some n"
proof -
  have "distinct b64_alphabet" "length b64_alphabet = 64" by (simp_all add: b64_alphabet_def)
  moreover assume "n < 64"
  ultimately show ?thesis
    using map_of_zip_nth [of b64_alphabet "[0..<64]" n] by (simp add: b64_val_def b64_char_def)
qed

lemma b64_val_pad [simp]: "b64_val CHR ''='' = None"
  by (simp add: b64_val_def b64_alphabet_def upt_rec)

lemma b64_alphabet_plain: "list_all (\<lambda>c. \<not> line_break c \<and> c \<noteq> CHR ''='') b64_alphabet"
  by (simp add: b64_alphabet_def line_break_def ord_def)

lemma b64_char_plain: "n < 64 \<Longrightarrow> \<not> line_break (b64_char n)"
  using b64_alphabet_plain unfolding list_all_length b64_char_def by (simp add: b64_alphabet_def)

lemma b64_pad_plain [simp]: "\<not> line_break CHR ''=''"
  by (simp add: line_break_def ord_def)

lemma ord_less: "ord c < 256"
  by (simp add: ord_def)

lemma ord_high: "ord c div 4 < 64" "ord c div 16 < 16" "ord c div 64 < 4"
  using ord_less [of c] by (simp_all add: less_mult_imp_div_less)

lemma packed_less: "a < m \<Longrightarrow> b < n \<Longrightarrow> a * n + b < m * (n :: nat)"
  using mult_le_mono1 [of "Suc a" m n] by simp

lemma six_bits:
  "ord x div 4 < 64" "ord x mod 4 * 16 + ord y div 16 < 64" "ord y mod 16 * 4 + ord z div 64 < 64" "ord z mod 64 < 64"
  "ord x mod 4 * 16 < 64" "ord y mod 16 * 4 < 64"
proof -
  show "ord x div 4 < 64" by (rule ord_high)
  show "ord x mod 4 * 16 + ord y div 16 < 64" using packed_less [OF _ ord_high(2) [of y], of "ord x mod 4" 4] by simp
  show "ord y mod 16 * 4 + ord z div 64 < 64" using packed_less [OF _ ord_high(3) [of z], of "ord y mod 16" 16] by simp
  show "ord z mod 64 < 64" by simp
  show "ord x mod 4 * 16 < 64" using packed_less [of "ord x mod 4" 4 0 16] by simp
  show "ord y mod 16 * 4 < 64" using packed_less [of "ord y mod 16" 16 0 4] by simp
qed

lemma ord_top [simp]: "ord c div 16 div 16 = 0" "ord c div 64 div 4 = 0"
  "ord c div 16 mod 16 = ord c div 16" "ord c div 64 mod 4 = ord c div 64"
  using ord_high [of c] by simp_all

lemma byte_ord [simp]: "byte (ord c) = c"
  by (simp add: byte_def ord_def)

lemmas b64_bits = b64_val_char six_bits b64_char_plain

lemma b64_quads_encode: "b64_quads True (b64_encode s) = Some s"
  by (induction s rule: b64_encode.induct) (simp_all add: b64_bits)

lemma b64_encode_plain: "filter (\<lambda>c. \<not> line_break c) (b64_encode s) = b64_encode s"
  by (induction s rule: b64_encode.induct) (simp_all add: b64_bits)

lemma b64_round_trip: "b64_decode True (b64_encode s) = Some s"
  by (simp add: b64_decode_def b64_encode_plain b64_quads_encode)

lemma b64_encode_inject: "b64_encode s = b64_encode t \<Longrightarrow> s = t"
  using b64_round_trip by (metis option.inject)

text \<open>A client that leaves the padding out.\<close>

definition unpadded :: "string \<Rightarrow> string" where
  "unpadded s = filter (\<lambda>c. c \<noteq> CHR ''='') s"

lemma b64_char_not_pad: "n < 64 \<Longrightarrow> b64_char n \<noteq> CHR ''=''"
  using b64_val_char [of n] by fastforce

lemma unpadded_plain: "filter (\<lambda>c. \<not> line_break c) (unpadded (b64_encode s)) = unpadded (b64_encode s)"
  by (metis (no_types, lifting) b64_encode_plain filter_filter filter_cong unpadded_def conj_commute)

lemma b64_unpadded_padded: "b64_decode True (unpadded (b64_encode s)) = Some t \<Longrightarrow> t = s"
proof -
  have "b64_quads True (unpadded (b64_encode s)) = Some t \<Longrightarrow> t = s" for t
    by (induction s arbitrary: t rule: b64_encode.induct) (auto simp: unpadded_def b64_bits b64_char_not_pad)
  then show "b64_decode True (unpadded (b64_encode s)) = Some t \<Longrightarrow> t = s" by (simp add: b64_decode_def unpadded_plain)
qed

lemma b64_unpadded: "b64_decode False (unpadded (b64_encode s)) = Some s"
proof -
  have "b64_quads False (unpadded (b64_encode s)) = Some s"
    by (induction s rule: b64_encode.induct) (simp_all add: unpadded_def b64_bits b64_char_not_pad)
  then show ?thesis by (simp add: b64_decode_def unpadded_plain)
qed

section \<open>What the checks accept\<close>

text \<open>The reading of a signature: padded first, unpadded when that fails.\<close>

definition read_signature :: "string \<Rightarrow> string option" where
  "read_signature s = orelse (b64_decode True s) (b64_decode False s)"

lemma Verify_iff: "Verify c alg secret msg s \<longleftrightarrow> read_signature s = Some (mac_of c alg secret msg)"
  by (auto simp: Verify_def Sign_def Let_def b64_round_trip read_signature_def orelse_def split: option.splits)

lemma Verify_Sign: "Verify c alg secret msg (Sign c alg secret msg)"
  by (simp add: Verify_def)

lemma Verify_unpadded: "Verify c alg secret msg (unpadded (Sign c alg secret msg))"
  using b64_unpadded_padded by (auto simp: Verify_iff read_signature_def orelse_def Sign_def b64_unpadded split: option.splits)

lemma hex_digit_plain: "n < 16 \<Longrightarrow> hex_digit n \<noteq> CHR '':''"
proof -
  have "list_all (\<lambda>c. c \<noteq> CHR '':'') ''0123456789abcdef''" by simp
  then show "n < 16 \<Longrightarrow> hex_digit n \<noteq> CHR '':''" unfolding list_all_length hex_digit_def by simp
qed

lemma b64_char_no_colon: "n < 64 \<Longrightarrow> b64_char n \<noteq> CHR '':''"
proof -
  have "list_all (\<lambda>c. c \<noteq> CHR '':'') b64_alphabet" by (simp add: b64_alphabet_def)
  then show "n < 64 \<Longrightarrow> b64_char n \<noteq> CHR '':''" unfolding list_all_length b64_char_def by (simp add: b64_alphabet_def)
qed

lemma b64_encode_no_colon: "CHR '':'' \<notin> set (b64_encode s)"
  by (induction s rule: b64_encode.induct) (simp_all add: b64_char_no_colon [symmetric] six_bits b64_char_no_colon [THEN not_sym])

lemma hex_encode_no_colon: "CHR '':'' \<notin> set (hex_encode s)"
  using ord_less by (auto simp: hex_encode_def less_mult_imp_div_less hex_digit_plain [THEN not_sym])

lemma hash_no_colon: "CHR '':'' \<notin> set (HashRequestBody c body enc)"
  by (simp add: HashRequestBody_def Let_def b64_encode_no_colon hex_encode_no_colon)

lemma hex_digit_inject: "m < 16 \<Longrightarrow> n < 16 \<Longrightarrow> hex_digit m = hex_digit n \<longleftrightarrow> m = n"
  unfolding hex_digit_def by (rule nth_eq_iff_index_eq) simp_all

lemma hex_encode_inject: "hex_encode s = hex_encode t \<Longrightarrow> s = t"
proof (induction s arbitrary: t)
  case Nil
  then show ?case by (cases t) (simp_all add: hex_encode_def)
next
  case (Cons x s)
  then obtain y t' where t: "t = y # t'" by (cases t) (simp_all add: hex_encode_def)
  have "hex_digit (ord x div 16) = hex_digit (ord y div 16)" "hex_digit (ord x mod 16) = hex_digit (ord y mod 16)"
    and rest: "hex_encode s = hex_encode t'"
    using Cons.prems by (simp_all add: t hex_encode_def)
  then have "ord x div 16 = ord y div 16" "ord x mod 16 = ord y mod 16" by (simp_all add: hex_digit_inject ord_high)
  then have "ord x = ord y" by (metis div_mult_mod_eq)
  then have "x = y" by (metis byte_ord)
  then show ?case using Cons.IH [OF rest] t by simp
qed

lemma HashRequestBody_inject:
  "HashRequestBody c a enc = HashRequestBody c b enc \<longleftrightarrow> cr_sha256 c (MinifyJSON c a) = cr_sha256 c (MinifyJSON c b)"
proof -
  have "b64_encode x = b64_encode y \<longleftrightarrow> x = y" "hex_encode x = hex_encode y \<longleftrightarrow> x = y" for x y
    using b64_encode_inject hex_encode_inject by (blast, blast)
  then show ?thesis by (simp add: HashRequestBody_def Let_def)
qed

lemma colon_split:
  "CHR '':'' \<notin> set a \<Longrightarrow> CHR '':'' \<notin> set b \<Longrightarrow> a @ CHR '':'' # r = b @ CHR '':'' # s \<longleftrightarrow> a = b \<and> r = s"
proof (induction a arbitrary: b)
  case Nil
  then show ?case by (cases b) auto
next
  case (Cons x a)
  then show ?case by (cases b) auto
qed

lemma BuildStringToSign_inject:
  "list_all (\<lambda>s. CHR '':'' \<notin> set s) [m, u, t, h, m', u', t', h'] \<Longrightarrow>
   BuildStringToSign m u t h ts = BuildStringToSign m' u' t' h' ts' \<longleftrightarrow> (m, u, t, h, ts) = (m', u', t', h', ts')"
  by (simp add: BuildStringToSign_def colon_split)

end
