(* ===== verification/Clients.thy ===== *)
theory Clients
  imports Database Crypto
begin

text \<open>
  Client onboarding: \<^verbatim>\<open>domain/client.go\<close>, the tables behind \<^verbatim>\<open>database/client_repository.go\<close>, the public-key cache
  \<^verbatim>\<open>redis/client_key_cache.go\<close>, \<^verbatim>\<open>usecase/client_usecase.go\<close> and the handlers of \<^verbatim>\<open>client_handler.go\<close>. Every query
  may fail for a reason of its own (a lost connection, a value too long for its column); the unique and foreign
  keys of the migrations are checked.
\<close>

section \<open>Data\<close>

definition ClientStatusActive :: string where [code_consts]: "ClientStatusActive = ''ACTIVE''"
definition ClientStatusRevoked :: string where [code_consts]: "ClientStatusRevoked = ''REVOKED''"
definition ClientStatusSuspended :: string where [code_consts]: "ClientStatusSuspended = ''SUSPENDED''"

record ClientApp =
  ca_ID :: string
  ca_ClientID :: string
  ca_ClientName :: string
  ca_Status :: string
  ca_CreatedAt :: gtime
  ca_UpdatedAt :: gtime

record ClientKey =
  ck_ID :: string
  ck_ClientID :: string
  ck_KeyID :: string
  ck_PublicKeyPEM :: string
  ck_Algorithm :: string
  ck_IsActive :: bool
  ck_CreatedAt :: gtime
  ck_UpdatedAt :: gtime

record ClientSecret =
  cx_ID :: string
  cx_ClientID :: string
  cx_SecretID :: string
  cx_SecretValue :: string
  cx_IsActive :: bool
  cx_CreatedAt :: gtime
  cx_UpdatedAt :: gtime

definition ErrClientNotFound :: gerr where "ErrClientNotFound = ErrOther ''client not found''"
definition ErrClientRevoked :: gerr where "ErrClientRevoked = ErrOther ''client is revoked or inactive''"

text \<open>The tables and the cache, whose entries carry the instant they expire at.\<close>

record clients =
  cd_apps :: "ClientApp list"
  cd_keys :: "ClientKey list"
  cd_secrets :: "ClientSecret list"
  cd_cache :: "string \<Rightarrow> (string \<times> int) option"

datatype client_query = QGetClient | QGetKey | QCreateClient | QCreateKey | QRevokeKey | QGetSecret | QCreateSecret | QRevokeSecret
  | QCacheSet | QCacheGet

text \<open>The clock, the identifiers \<^verbatim>\<open>uuid.New\<close> hands out, which queries fail, and whether there is a cache.\<close>

record client_env =
  ce_now :: gtime
  ce_app_uuid :: string
  ce_key_uuid :: string
  ce_fails :: "client_query \<Rightarrow> bool"
  ce_keyCache :: bool

definition query_error :: "string \<Rightarrow> gerr" where
  "query_error msg = ErrOther msg"

section \<open>The repository\<close>

definition GetClientByID :: "client_env \<Rightarrow> string \<Rightarrow> clients \<Rightarrow> gerr + ClientApp" where
  "GetClientByID e clientID w = (if ce_fails e QGetClient then Inl (query_error ''failed to query client_apps'')
     else case find (\<lambda>a. ca_ClientID a = clientID) (cd_apps w) of None \<Rightarrow> Inl ErrClientNotFound | Some a \<Rightarrow> Inr a)"

definition GetActiveClientPublicKey :: "client_env \<Rightarrow> string \<Rightarrow> clients \<Rightarrow> gerr + string" where
  "GetActiveClientPublicKey e clientID w = (if ce_fails e QGetKey then Inl (query_error ''failed to query client_keys'')
     else case top_by (\<lambda>a b. tm_ns (ck_CreatedAt b) < tm_ns (ck_CreatedAt a))
        (filter (\<lambda>k. ck_ClientID k = clientID \<and> ck_IsActive k) (cd_keys w)) of
       None \<Rightarrow> Inl ErrClientNotFound | Some k \<Rightarrow> Inr (ck_PublicKeyPEM k))"

definition CreateClient :: "client_env \<Rightarrow> ClientApp \<Rightarrow> clients \<Rightarrow> (gerr + unit) \<times> clients" where
  "CreateClient e a w = (if ce_fails e QCreateClient then (Inl (query_error ''failed to insert client_apps''), w)
     else if \<exists>b \<in> set (cd_apps w). ca_ID b = ca_ID a \<or> ca_ClientID b = ca_ClientID a then (Inl ErrUniqueViolation, w)
     else (Inr (), w\<lparr>cd_apps := cd_apps w @ [a]\<rparr>))"

definition CreateClientKey :: "client_env \<Rightarrow> ClientKey \<Rightarrow> clients \<Rightarrow> (gerr + unit) \<times> clients" where
  "CreateClientKey e k w = (if ce_fails e QCreateKey then (Inl (query_error ''failed to insert client_keys''), w)
     else if \<exists>b \<in> set (cd_keys w). ck_ID b = ck_ID k \<or> (ck_ClientID b = ck_ClientID k \<and> ck_KeyID b = ck_KeyID k)
     then (Inl ErrUniqueViolation, w)
     else if ck_ClientID k \<notin> ca_ClientID ` set (cd_apps w) then (Inl ErrForeignKeyViolation, w)
     else (Inr (), w\<lparr>cd_keys := cd_keys w @ [k]\<rparr>))"

definition RevokeClientKey :: "client_env \<Rightarrow> string \<Rightarrow> string \<Rightarrow> clients \<Rightarrow> (gerr + unit) \<times> clients" where
  "RevokeClientKey e clientID keyID w = (if ce_fails e QRevokeKey then (Inl (query_error ''failed to revoke client_key''), w)
     else (Inr (), w\<lparr>cd_keys := update_where (\<lambda>k. ck_ClientID k = clientID \<and> ck_KeyID k = keyID)
       (\<lambda>k. k\<lparr>ck_IsActive := False, ck_UpdatedAt := ce_now e\<rparr>) (cd_keys w)\<rparr>))"

definition GetActiveClientSecret :: "client_env \<Rightarrow> string \<Rightarrow> clients \<Rightarrow> gerr + string" where
  "GetActiveClientSecret e clientID w = (if ce_fails e QGetSecret then Inl (query_error ''failed to query client_secrets'')
     else case top_by (\<lambda>a b. tm_ns (cx_CreatedAt b) < tm_ns (cx_CreatedAt a))
        (filter (\<lambda>k. cx_ClientID k = clientID \<and> cx_IsActive k) (cd_secrets w)) of
       None \<Rightarrow> Inl ErrClientNotFound | Some k \<Rightarrow> Inr (cx_SecretValue k))"

definition CreateClientSecret :: "client_env \<Rightarrow> ClientSecret \<Rightarrow> clients \<Rightarrow> (gerr + unit) \<times> clients" where
  "CreateClientSecret e k w = (if ce_fails e QCreateSecret then (Inl (query_error ''failed to insert client_secrets''), w)
     else if \<exists>b \<in> set (cd_secrets w). cx_ID b = cx_ID k \<or> (cx_ClientID b = cx_ClientID k \<and> cx_SecretID b = cx_SecretID k)
     then (Inl ErrUniqueViolation, w)
     else if cx_ClientID k \<notin> ca_ClientID ` set (cd_apps w) then (Inl ErrForeignKeyViolation, w)
     else (Inr (), w\<lparr>cd_secrets := cd_secrets w @ [k]\<rparr>))"

definition RevokeClientSecret :: "client_env \<Rightarrow> string \<Rightarrow> string \<Rightarrow> clients \<Rightarrow> (gerr + unit) \<times> clients" where
  "RevokeClientSecret e clientID secretID w = (if ce_fails e QRevokeSecret then (Inl (query_error ''failed to revoke client_secret''), w)
     else (Inr (), w\<lparr>cd_secrets := update_where (\<lambda>k. cx_ClientID k = clientID \<and> cx_SecretID k = secretID)
       (\<lambda>k. k\<lparr>cx_IsActive := False, cx_UpdatedAt := ce_now e\<rparr>) (cd_secrets w)\<rparr>))"

section \<open>The key cache\<close>

definition cache_key :: "string \<Rightarrow> string" where
  "cache_key clientID = ''client:key:'' @ clientID"

definition GetClientPublicKey :: "client_env \<Rightarrow> string \<Rightarrow> clients \<Rightarrow> gerr + string" where
  "GetClientPublicKey e clientID w = (if ce_fails e QCacheGet then Inl (query_error ''failed to get client key from redis cache'')
     else Inr (case cd_cache w (cache_key clientID) of
        Some (pem, until) \<Rightarrow> if tm_ns (ce_now e) < until then pem else [] | None \<Rightarrow> []))"

definition SetClientPublicKey :: "client_env \<Rightarrow> string \<Rightarrow> string \<Rightarrow> clients \<Rightarrow> clients" where
  "SetClientPublicKey e clientID pubKeyPEM w = (if ce_fails e QCacheSet then w
     else w\<lparr>cd_cache := (cd_cache w)(cache_key clientID := Some (pubKeyPEM, tm_ns (ce_now e) + 3600 * nanos_per_second))\<rparr>)"

definition cache_new_key :: "client_env \<Rightarrow> string \<Rightarrow> string \<Rightarrow> clients \<Rightarrow> clients" where
  "cache_new_key e clientID pubKeyPEM w = (if ce_keyCache e then SetClientPublicKey e clientID pubKeyPEM w else w)"

section \<open>The use case\<close>

definition new_id :: "string \<Rightarrow> string \<Rightarrow> string" where
  "new_id given fresh = (if given = [] then fresh else given)"

definition active_key :: "client_env \<Rightarrow> string \<Rightarrow> ClientKey \<Rightarrow> ClientKey" where
  "active_key e clientID k = k\<lparr>ck_ID := new_id (ck_ID k) (ce_key_uuid e), ck_ClientID := clientID, ck_IsActive := True,
     ck_CreatedAt := ce_now e, ck_UpdatedAt := ce_now e\<rparr>"

definition active_app :: "client_env \<Rightarrow> ClientApp \<Rightarrow> ClientApp" where
  "active_app e a = a\<lparr>ca_ID := new_id (ca_ID a) (ce_app_uuid e), ca_Status := ClientStatusActive, ca_CreatedAt := ce_now e,
     ca_UpdatedAt := ce_now e\<rparr>"

definition active_secret :: "client_env \<Rightarrow> ClientSecret \<Rightarrow> ClientSecret" where
  "active_secret e k = k\<lparr>cx_ID := new_id (cx_ID k) (ce_key_uuid e), cx_IsActive := True, cx_CreatedAt := ce_now e,
     cx_UpdatedAt := ce_now e\<rparr>"

text \<open>The two inserts of a registration are not one transaction: the client stays when its key is refused.\<close>

definition RegisterClient :: "client_env \<Rightarrow> ClientApp \<Rightarrow> ClientKey option \<Rightarrow> clients \<Rightarrow> (gerr + unit) \<times> clients" where
  "RegisterClient e client key w = (
     if ca_ClientID client = [] \<or> ca_ClientName client = [] then (Inl (ErrOther ''client_id and client_name are required''), w)
     else (case CreateClient e (active_app e client) w of
        (Inl err, w1) \<Rightarrow> (Inl err, w1)
      | (Inr _, w1) \<Rightarrow> (case key of None \<Rightarrow> (Inr (), w1)
         | Some k \<Rightarrow> (case CreateClientKey e (active_key e (ca_ClientID client) k) w1 of
             (Inl err, w2) \<Rightarrow> (Inl err, w2)
           | (Inr _, w2) \<Rightarrow> (Inr (), cache_new_key e (ca_ClientID client) (ck_PublicKeyPEM k) w2)))))"

definition AddClientKey :: "client_env \<Rightarrow> ClientKey \<Rightarrow> clients \<Rightarrow> (gerr + unit) \<times> clients" where
  "AddClientKey e key w = (
     if ck_ClientID key = [] \<or> ck_KeyID key = [] \<or> ck_PublicKeyPEM key = []
     then (Inl (ErrOther ''client_id, key_id and public_key_pem are required''), w)
     else (case CreateClientKey e (active_key e (ck_ClientID key) key) w of
        (Inl err, w1) \<Rightarrow> (Inl err, w1)
      | (Inr _, w1) \<Rightarrow> (Inr (), cache_new_key e (ck_ClientID key) (ck_PublicKeyPEM key) w1)))"

definition AddClientSecret :: "client_env \<Rightarrow> ClientSecret \<Rightarrow> clients \<Rightarrow> (gerr + unit) \<times> clients" where
  "AddClientSecret e secret w = (
     if cx_ClientID secret = [] \<or> cx_SecretID secret = [] \<or> cx_SecretValue secret = []
     then (Inl (ErrOther ''client_id, secret_id and secret_value are required''), w)
     else CreateClientSecret e (active_secret e secret) w)"

section \<open>The handlers\<close>

record RegisterClientRequest =
  rg_ClientID :: string
  rg_ClientName :: string
  rg_KeyID :: string
  rg_PublicKeyPEM :: string
  rg_Algorithm :: string

record AddClientKeyRequest =
  kq_KeyID :: string
  kq_PublicKeyPEM :: string
  kq_Algorithm :: string

record AddClientSecretRequest =
  xq_SecretID :: string
  xq_SecretValue :: string

record clientResponse =
  cp_Status :: string
  cp_Message :: string
  cp_Client :: "ClientApp option"
  cp_Key :: "ClientKey option"
  cp_Secret :: "ClientSecret option"

definition onboard_error :: "nat \<Rightarrow> string \<Rightarrow> nat \<times> clientResponse" where
  "onboard_error code msg = (code, \<lparr>cp_Status = ''error'', cp_Message = msg, cp_Client = None, cp_Key = None, cp_Secret = None\<rparr>)"

definition onboard_ok :: clientResponse where
  "onboard_ok = \<lparr>cp_Status = ''ok'', cp_Message = [], cp_Client = None, cp_Key = None, cp_Secret = None\<rparr>"

definition answer_of ::
    "(gerr \<Rightarrow> string) \<Rightarrow> nat \<Rightarrow> clientResponse \<Rightarrow> (gerr + unit) \<times> clients \<Rightarrow> (nat \<times> clientResponse) \<times> clients" where
  "answer_of text code resp r = (case r of (Inl err, w) \<Rightarrow> (onboard_error 500 (text err), w) | (Inr _, w) \<Rightarrow> ((code, resp), w))"

definition key_algorithm :: "string \<Rightarrow> string" where
  "key_algorithm given = (let a = TrimSpace given in if a = [] then ''SHA256withRSA'' else a)"

definition new_key :: "string \<Rightarrow> string \<Rightarrow> string \<Rightarrow> string \<Rightarrow> ClientKey" where
  "new_key clientID keyID pem algorithm = \<lparr>ck_ID = [], ck_ClientID = clientID, ck_KeyID = keyID, ck_PublicKeyPEM = pem,
     ck_Algorithm = key_algorithm algorithm, ck_IsActive = False, ck_CreatedAt = \<lparr>tm_ns = 0, tm_off = 0\<rparr>,
     ck_UpdatedAt = \<lparr>tm_ns = 0, tm_off = 0\<rparr>\<rparr>"

definition new_app :: "string \<Rightarrow> string \<Rightarrow> ClientApp" where
  "new_app clientID clientName = \<lparr>ca_ID = [], ca_ClientID = clientID, ca_ClientName = clientName, ca_Status = [],
     ca_CreatedAt = \<lparr>tm_ns = 0, tm_off = 0\<rparr>, ca_UpdatedAt = \<lparr>tm_ns = 0, tm_off = 0\<rparr>\<rparr>"

definition new_secret :: "string \<Rightarrow> string \<Rightarrow> string \<Rightarrow> ClientSecret" where
  "new_secret clientID secretID val = \<lparr>cx_ID = [], cx_ClientID = clientID, cx_SecretID = secretID, cx_SecretValue = val,
     cx_IsActive = False, cx_CreatedAt = \<lparr>tm_ns = 0, tm_off = 0\<rparr>, cx_UpdatedAt = \<lparr>tm_ns = 0, tm_off = 0\<rparr>\<rparr>"

text \<open>The request is nothing when the body could not be bound; \<open>text\<close> prints an error. The secret's value is
  stored in the structure but not serialised.\<close>

definition ClientHandler_RegisterClient ::
    "client_env \<Rightarrow> rsa_lib \<Rightarrow> (gerr \<Rightarrow> string) \<Rightarrow> RegisterClientRequest option \<Rightarrow> clients \<Rightarrow> (nat \<times> clientResponse) \<times> clients" where
  "ClientHandler_RegisterClient e lib text bound w = (case bound of
      None \<Rightarrow> (onboard_error 400 ''Invalid request payload'', w)
    | Some req \<Rightarrow>
       if rg_ClientID req = [] \<or> rg_ClientName req = [] then (onboard_error 400 ''clientId and clientName are required'', w)
       else if rg_PublicKeyPEM req = []
       then (let client = new_app (rg_ClientID req) (rg_ClientName req) in
         answer_of text 201 (onboard_ok\<lparr>cp_Client := Some (active_app e client)\<rparr>) (RegisterClient e client None w))
       else if rg_KeyID req = [] then (onboard_error 400 ''keyId is required when publicKeyPem is provided'', w)
       else (case validateRSAPublicKeyPEM lib (rg_PublicKeyPEM req) of
          Some err \<Rightarrow> (onboard_error 400 (''invalid publicKeyPem: '' @ err), w)
        | None \<Rightarrow> (let client = new_app (rg_ClientID req) (rg_ClientName req);
              key = new_key (rg_ClientID req) (rg_KeyID req) (rg_PublicKeyPEM req) (rg_Algorithm req) in
            answer_of text 201 (onboard_ok\<lparr>cp_Client := Some (active_app e client), cp_Key := Some (active_key e (rg_ClientID req) key)\<rparr>)
              (RegisterClient e client (Some key) w))))"

definition ClientHandler_AddClientKey ::
    "client_env \<Rightarrow> rsa_lib \<Rightarrow> (gerr \<Rightarrow> string) \<Rightarrow> string \<Rightarrow> AddClientKeyRequest option \<Rightarrow> clients \<Rightarrow>
      (nat \<times> clientResponse) \<times> clients" where
  "ClientHandler_AddClientKey e lib text clientID bound w = (
     if clientID = [] then (onboard_error 400 ''clientId path parameter is required'', w)
     else (case bound of None \<Rightarrow> (onboard_error 400 ''Invalid request payload'', w)
      | Some req \<Rightarrow>
         if kq_KeyID req = [] \<or> kq_PublicKeyPEM req = [] then (onboard_error 400 ''keyId and publicKeyPem are required'', w)
         else (case validateRSAPublicKeyPEM lib (kq_PublicKeyPEM req) of
            Some err \<Rightarrow> (onboard_error 400 (''invalid publicKeyPem: '' @ err), w)
          | None \<Rightarrow> (let key = new_key clientID (kq_KeyID req) (kq_PublicKeyPEM req) (kq_Algorithm req) in
              answer_of text 201 (onboard_ok\<lparr>cp_Key := Some (active_key e clientID key)\<rparr>) (AddClientKey e key w)))))"

definition ClientHandler_RevokeClientKey ::
    "client_env \<Rightarrow> (gerr \<Rightarrow> string) \<Rightarrow> string \<Rightarrow> string \<Rightarrow> clients \<Rightarrow> (nat \<times> clientResponse) \<times> clients" where
  "ClientHandler_RevokeClientKey e text clientID keyID w = (
     if clientID = [] \<or> keyID = [] then (onboard_error 400 ''clientId and keyId path parameters are required'', w)
     else answer_of text 200 (onboard_ok\<lparr>cp_Message := ''key revoked''\<rparr>) (RevokeClientKey e clientID keyID w))"

definition ClientHandler_AddClientSecret ::
    "client_env \<Rightarrow> (gerr \<Rightarrow> string) \<Rightarrow> string \<Rightarrow> AddClientSecretRequest option \<Rightarrow> clients \<Rightarrow> (nat \<times> clientResponse) \<times> clients" where
  "ClientHandler_AddClientSecret e text clientID bound w = (
     if clientID = [] then (onboard_error 400 ''clientId path parameter is required'', w)
     else (case bound of None \<Rightarrow> (onboard_error 400 ''Invalid request payload'', w)
      | Some req \<Rightarrow>
         if xq_SecretID req = [] \<or> xq_SecretValue req = [] then (onboard_error 400 ''secretId and secretValue are required'', w)
         else (let secret = new_secret clientID (xq_SecretID req) (xq_SecretValue req) in
           answer_of text 201 (onboard_ok\<lparr>cp_Secret := Some (active_secret e secret)\<rparr>) (AddClientSecret e secret w))))"

definition ClientHandler_RevokeClientSecret ::
    "client_env \<Rightarrow> (gerr \<Rightarrow> string) \<Rightarrow> string \<Rightarrow> string \<Rightarrow> clients \<Rightarrow> (nat \<times> clientResponse) \<times> clients" where
  "ClientHandler_RevokeClientSecret e text clientID secretID w = (
     if clientID = [] \<or> secretID = [] then (onboard_error 400 ''clientId and secretId path parameters are required'', w)
     else answer_of text 200 (onboard_ok\<lparr>cp_Message := ''secret revoked''\<rparr>) (RevokeClientSecret e clientID secretID w))"

end
