(* ===== verification/Tokens.thy ===== *)
theory Tokens
  imports Clients SnapTime
begin

text \<open>
  Access tokens and signature helpers: \<^verbatim>\<open>domain/token.go\<close>, \<^verbatim>\<open>domain/signature.go\<close>, \<^verbatim>\<open>crypto/jwt_issuer.go\<close>,
  \<^verbatim>\<open>usecase/token_usecase.go\<close>, \<^verbatim>\<open>usecase/signature_usecase.go\<close> and their handlers. Signing and parsing a JWT are
  the library's: the parameter \<open>jl_sign\<close> gives the text of a token, \<open>jl_method\<close> the family of the algorithm its header
  names, nothing when it does not parse, and \<open>jl_check\<close> what checking it with the issuer's public key at an instant
  (in seconds) gives.
\<close>

section \<open>The issuer\<close>

datatype jwt_method = SigningMethodRSA | OtherMethod

record jwt_claims =
  jc_client_id :: "string option"
  jc_jti :: "string option"
  jc_iat :: int
  jc_exp :: int
  jc_iss :: string

record jwt_lib =
  jl_sign :: "jwt_claims \<Rightarrow> string + string"
  jl_method :: "string \<Rightarrow> jwt_method option"
  jl_check :: "int \<Rightarrow> string \<Rightarrow> string + jwt_claims"

record TokenClaims =
  tc_ClientID :: string
  tc_JTI :: string
  tc_IssuedAt :: int
  tc_Expires :: int

text \<open>\<^verbatim>\<open>time.Time.Unix\<close>: instants count from year 1, Unix seconds from 1970.\<close>

definition Unix :: "gtime \<Rightarrow> int" where
  "Unix t = tm_ns t div nanos_per_second - 62135596800"

definition issued_claims :: "string \<Rightarrow> string \<Rightarrow> gtime \<Rightarrow> int \<Rightarrow> jwt_claims" where
  "issued_claims clientID jti now ttl = \<lparr>jc_client_id = Some clientID, jc_jti = Some jti, jc_iat = Unix now,
     jc_exp = Unix (Add now ttl), jc_iss = ''payment-gateway''\<rparr>"

definition JWTIssuer_GenerateB2BToken :: "jwt_lib \<Rightarrow> gtime \<Rightarrow> string \<Rightarrow> string \<Rightarrow> int \<Rightarrow> gerr + string \<times> string" where
  "JWTIssuer_GenerateB2BToken lib now jti clientID ttl = (case jl_sign lib (issued_claims clientID jti now ttl) of
      Inl err \<Rightarrow> Inl (ErrOther (''failed to sign JWT: '' @ err)) | Inr s \<Rightarrow> Inr (s, jti))"

definition ValidateToken :: "jwt_lib \<Rightarrow> gtime \<Rightarrow> string \<Rightarrow> gerr + TokenClaims" where
  "ValidateToken lib now tokenString = (case jl_method lib tokenString of
      Some SigningMethodRSA \<Rightarrow> (case jl_check lib (Unix now) tokenString of
        Inl err \<Rightarrow> Inl (ErrOther (''invalid token: '' @ err))
      | Inr claims \<Rightarrow> Inr \<lparr>tc_ClientID = or_empty (jc_client_id claims), tc_JTI = or_empty (jc_jti claims), tc_IssuedAt = 0, tc_Expires = 0\<rparr>)
    | Some OtherMethod \<Rightarrow> Inl (ErrOther ''invalid token: unexpected signing method'')
    | None \<Rightarrow> Inl (ErrOther ''invalid token''))"

section \<open>Issuing a token\<close>

record SNAPTokenResponse =
  tr_ResponseCode :: string
  tr_ResponseMessage :: string
  tr_AccessToken :: string
  tr_TokenType :: string
  tr_ExpiresIn :: string

text \<open>What the use cases run with: the clock, the identifier of the next token, the libraries, the client store.\<close>

record token_env =
  te_now :: gtime
  te_jti :: string
  te_crypto :: crypto_env
  te_rsa :: rsa_lib
  te_jwt :: jwt_lib
  te_client :: client_env
  te_skipSkewCheck :: bool

definition five_minutes :: int where
  "five_minutes = 300 * nanos_per_second"

definition skewed :: "gtime \<Rightarrow> gtime \<Rightarrow> bool" where
  "skewed now t = (five_minutes < tm_ns now - tm_ns t \<or> five_minutes < tm_ns t - tm_ns now)"

definition token_error :: "string \<Rightarrow> string \<Rightarrow> string \<Rightarrow> DomainError" where
  "token_error code msg cause = NewDomainError code msg (Some (ErrOther cause))"

definition ErrMissingHeader :: string where "ErrMissingHeader = ''missing required SNAP header''"

definition access_string :: "string \<Rightarrow> string \<Rightarrow> string" where
  "access_string clientID timestamp = clientID @ ''|'' @ timestamp"

text \<open>The checks before the client is looked up: \<^verbatim>\<open>None\<close> when they pass.\<close>

definition token_fields :: "token_env \<Rightarrow> string \<Rightarrow> string \<Rightarrow> string \<Rightarrow> string \<Rightarrow> DomainError option" where
  "token_fields e clientID timestamp signature grantType = (
     if grantType \<noteq> ''client_credentials''
     then Some (token_error CodeTokenInvalidField ''Invalid field format [clientId/clientSecret/grantType]'' ''invalid grant type'')
     else if clientID = [] then Some (token_error CodeTokenMissingClientKey ''Invalid mandatory field [X-CLIENT-KEY]'' ErrMissingHeader)
     else if timestamp = [] then Some (token_error CodeTokenInvalidTimestamp ''Invalid field format [X-TIMESTAMP]'' ErrMissingHeader)
     else if signature = [] then Some (token_error CodeTokenInvalidField ''Invalid field format [X-SIGNATURE]'' ErrMissingHeader)
     else (case ParseRFC3339 timestamp of
        None \<Rightarrow> Some (token_error CodeTokenInvalidTimestamp ''Invalid field format [X-TIMESTAMP]'' ''parsing time'')
      | Some parsed \<Rightarrow> if \<not> te_skipSkewCheck e \<and> skewed (te_now e) parsed
          then Some (token_error CodeTokenInvalidTimestamp ''Invalid field format [X-TIMESTAMP]'' ''invalid or expired timestamp'')
          else None))"

definition TokenUsecase_GenerateB2BToken ::
    "token_env \<Rightarrow> string \<Rightarrow> string \<Rightarrow> string \<Rightarrow> string \<Rightarrow> clients \<Rightarrow> DomainError + SNAPTokenResponse" where
  "TokenUsecase_GenerateB2BToken e clientID timestamp signature grantType w = (
     case token_fields e clientID timestamp signature grantType of Some err \<Rightarrow> Inl err
     | None \<Rightarrow> (case GetClientByID (te_client e) clientID w of
         Inl err \<Rightarrow> Inl (if err = ErrClientNotFound then NewDomainError CodeTokenUnauthorized ''Unauthorized. [Unknown client]'' (Some err)
           else NewDomainError CodeTokenInternalError ''Internal Server Error'' (Some err))
       | Inr client \<Rightarrow>
          if ca_Status client \<noteq> ClientStatusActive
          then Inl (NewDomainError CodeTokenUnauthorized ''Unauthorized. [Unknown client]'' (Some ErrClientRevoked))
          else (case GetActiveClientPublicKey (te_client e) clientID w of
             Inl err \<Rightarrow> Inl (NewDomainError CodeTokenUnauthorized ''Unauthorized. [Unknown client]'' (Some err))
           | Inr pubKeyPEM \<Rightarrow> (case VerifySignature (te_crypto e) (te_rsa e) pubKeyPEM (access_string clientID timestamp) signature of
               Some err \<Rightarrow> Inl (token_error CodeTokenUnauthorized ''Unauthorized. [Signature]'' err)
             | None \<Rightarrow> (case JWTIssuer_GenerateB2BToken (te_jwt e) (te_now e) (te_jti e) clientID (900 * nanos_per_second) of
                 Inl err \<Rightarrow> Inl (NewDomainError ''5007300'' ''Failed to generate token'' (Some err))
               | Inr (accessToken, _) \<Rightarrow> Inr \<lparr>tr_ResponseCode = ''2007300'', tr_ResponseMessage = ''Successful'',
                   tr_AccessToken = accessToken, tr_TokenType = ''Bearer'', tr_ExpiresIn = ''900''\<rparr>)))))"

definition tokenHTTPStatus :: "string \<Rightarrow> nat" where
  "tokenHTTPStatus snapCode = (if length snapCode < 3 then 500
     else if take 3 snapCode = ''400'' then 400 else if take 3 snapCode = ''401'' then 401
     else if take 3 snapCode = ''504'' then 504 else 500)"

definition token_rejection :: "string \<Rightarrow> string \<Rightarrow> SNAPTokenResponse" where
  "token_rejection code msg = \<lparr>tr_ResponseCode = code, tr_ResponseMessage = msg, tr_AccessToken = [], tr_TokenType = [], tr_ExpiresIn = []\<rparr>"

text \<open>The handler: the grant type of the bound body, nothing when it could not be bound, and the three headers.\<close>

definition GetB2BAccessToken ::
    "token_env \<Rightarrow> string option \<Rightarrow> string \<Rightarrow> string \<Rightarrow> string \<Rightarrow> clients \<Rightarrow> nat \<times> SNAPTokenResponse" where
  "GetB2BAccessToken e bound clientKey timestamp signature w = (case bound of
      None \<Rightarrow> (400, token_rejection CodeTokenInvalidField ''Invalid field format [clientId/clientSecret/grantType]'')
    | Some grantType \<Rightarrow> (case TokenUsecase_GenerateB2BToken e clientKey timestamp signature grantType w of
        Inl err \<Rightarrow> (tokenHTTPStatus (de_SNAPCode err), token_rejection (de_SNAPCode err) (de_Message err))
      | Inr resp \<Rightarrow> (200, resp)))"

section \<open>The signature helpers\<close>

record SignatureResponse =
  gr_ResponseCode :: string
  gr_ResponseMessage :: string
  gr_Signature :: string

definition signature_ok :: "string \<Rightarrow> SignatureResponse" where
  "signature_ok s = \<lparr>gr_ResponseCode = ''2000000'', gr_ResponseMessage = ''Successful'', gr_Signature = s\<rparr>"

definition GenerateAccessTokenSignature ::
    "crypto_env \<Rightarrow> rsa_lib \<Rightarrow> string \<Rightarrow> string \<Rightarrow> string \<Rightarrow> DomainError + SignatureResponse" where
  "GenerateAccessTokenSignature c lib clientKey timestamp privateKey = (
     if clientKey = [] \<or> timestamp = [] \<or> privateKey = []
     then Inl (token_error ''4000000'' ''Bad Request. Missing required fields (X-CLIENT-KEY, X-TIMESTAMP, X-PRIVATE-KEY)'' ErrMissingHeader)
     else if ParseRFC3339 timestamp = None
     then Inl (token_error ''4000000'' ''Bad Request. Invalid timestamp format (must be ISO 8601)'' ''parsing time'')
     else (case RSASigner_Sign c lib privateKey (access_string clientKey timestamp) of
        Inl err \<Rightarrow> Inl (token_error ''4000000'' ''Bad Request. Failed to sign stringToSign with provided private key'' err)
      | Inr signature \<Rightarrow> Inr (signature_ok signature)))"

text \<open>A secret that happens to be base64 is decoded first.\<close>

definition helper_secret :: "string \<Rightarrow> string" where
  "helper_secret clientSecret = (case b64_decode True clientSecret of Some decoded \<Rightarrow> decoded | None \<Rightarrow> clientSecret)"

definition GenerateServiceSignatureWithEncoding ::
    "crypto_env \<Rightarrow> string \<Rightarrow> string \<Rightarrow> string \<Rightarrow> string \<Rightarrow> string \<Rightarrow> string \<Rightarrow> string \<Rightarrow> DomainError + SignatureResponse" where
  "GenerateServiceSignatureWithEncoding c clientSecret httpMethod endpointURL accessToken timestamp requestBody bodyHashEncoding = (
     if clientSecret = [] \<or> httpMethod = [] \<or> endpointURL = [] \<or> timestamp = []
     then Inl (token_error ''4000000''
       ''Bad Request. Missing required fields (X-CLIENT-SECRET, HttpMethod, EndpointUrl, X-TIMESTAMP)'' ErrMissingHeader)
     else if ParseRFC3339 timestamp = None
     then Inl (token_error ''4000000'' ''Bad Request. Invalid timestamp format (must be ISO 8601)'' ''parsing time'')
     else (let bodyHash = HashRequestBody c requestBody bodyHashEncoding;
             stringToSign = httpMethod @ '':'' @ endpointURL @ '':'' @ accessToken @ '':'' @ bodyHash @ '':'' @ timestamp
       in Inr (signature_ok (Sign c ''HMAC-SHA512'' (helper_secret clientSecret) stringToSign))))"

definition GenerateServiceSignature ::
    "crypto_env \<Rightarrow> string \<Rightarrow> string \<Rightarrow> string \<Rightarrow> string \<Rightarrow> string \<Rightarrow> string \<Rightarrow> DomainError + SignatureResponse" where
  "GenerateServiceSignature c clientSecret httpMethod endpointURL accessToken timestamp requestBody =
     GenerateServiceSignatureWithEncoding c clientSecret httpMethod endpointURL accessToken timestamp requestBody BodyHashHex"

definition mapSignatureError :: "DomainError \<Rightarrow> nat \<times> SignatureResponse" where
  "mapSignatureError err = (if de_SNAPCode err = ''4000000'' then 400 else if de_SNAPCode err = ''4010000'' then 401 else 500,
     \<lparr>gr_ResponseCode = de_SNAPCode err, gr_ResponseMessage = de_Message err, gr_Signature = []\<rparr>)"

text \<open>The two handlers, with the headers they read and the body, nothing when it cannot be read.\<close>

definition SignatureHandler_GenerateAccessTokenSignature ::
    "crypto_env \<Rightarrow> rsa_lib \<Rightarrow> string \<Rightarrow> string \<Rightarrow> string \<Rightarrow> nat \<times> SignatureResponse" where
  "SignatureHandler_GenerateAccessTokenSignature c lib clientKey timestamp privateKey =
     (case GenerateAccessTokenSignature c lib clientKey timestamp privateKey of Inl err \<Rightarrow> mapSignatureError err | Inr r \<Rightarrow> (200, r))"

definition SignatureHandler_GenerateServiceSignature ::
    "crypto_env \<Rightarrow> string \<Rightarrow> string \<Rightarrow> string \<Rightarrow> string \<Rightarrow> string \<Rightarrow> string option \<Rightarrow> nat \<times> SignatureResponse" where
  "SignatureHandler_GenerateServiceSignature c clientSecret httpMethod endpointURL accessToken timestamp body = (case body of
      None \<Rightarrow> (400, \<lparr>gr_ResponseCode = ''4000000'', gr_ResponseMessage = ''Bad Request. Invalid request payload format.'', gr_Signature = []\<rparr>)
    | Some b \<Rightarrow> (case GenerateServiceSignature c clientSecret httpMethod endpointURL accessToken timestamp b of
        Inl err \<Rightarrow> mapSignatureError err | Inr r \<Rightarrow> (200, r)))"

end
