(* ===== verification/VendorConfigs.thy ===== *)
theory VendorConfigs
  imports Crypto "HOL-Library.Word"
begin

text \<open>
  Vendor configuration: \<^verbatim>\<open>internal/infrastructure/config/vendor_config.go\<close>. The configuration directory is the list
  of its entries in the order \<^verbatim>\<open>os.ReadDir\<close> gives them, each a directory or a file with its bytes, nothing when it
  cannot be opened; the process environment maps a name to its value, empty when unset. \<^verbatim>\<open>int\<close> has 64 bits.
\<close>

section \<open>Strings\<close>

text \<open>\<^verbatim>\<open>strings.Split\<close> on one byte, and \<^verbatim>\<open>strings.SplitN\<close> with limit 2.\<close>

fun Split :: "char \<Rightarrow> string \<Rightarrow> string list" where
  "Split sep [] = [[]]"
| "Split sep (c # s) = (if c = sep then [] # Split sep s
     else (case Split sep s of [] \<Rightarrow> [[c]] | p # ps \<Rightarrow> (c # p) # ps))"

definition SplitN2 :: "char \<Rightarrow> string \<Rightarrow> string list" where
  "SplitN2 sep s = (if sep \<in> set s then [takeWhile (\<lambda>c. c \<noteq> sep) s, tl (dropWhile (\<lambda>c. c \<noteq> sep) s)] else [s])"

definition TrimPrefix :: "string \<Rightarrow> string \<Rightarrow> string" where
  "TrimPrefix s p = (if HasPrefix s p then drop (length p) s else s)"

definition TrimSuffix :: "string \<Rightarrow> string \<Rightarrow> string" where
  "TrimSuffix s p = (if HasSuffix s p then take (length s - length p) s else s)"

text \<open>\<^verbatim>\<open>filepath.Ext\<close> of a name without separators: from the last dot.\<close>

definition Ext :: "string \<Rightarrow> string" where
  "Ext s = (if CHR ''.'' \<in> set s then CHR ''.'' # rev (takeWhile (\<lambda>c. c \<noteq> CHR ''.'') (rev s)) else [])"

section \<open>The settings\<close>

record VendorConfig =
  vg_Vendor :: string
  vg_Channel :: string
  vg_ClientID :: string
  vg_ClientSecret :: string
  vg_OutboundPrivateKeyPath :: string
  vg_BaseURL :: string
  vg_TokenEndpoint :: string
  vg_APIEndpoints :: "string \<Rightarrow> string option"
  vg_ChannelID :: string
  vg_PartnerID :: string
  vg_OutboundPartnerID :: string
  vg_Origin :: string
  vg_RequestTimeout :: "64 word"
  vg_SignatureAlgorithm :: string
  vg_StrictMandatoryFields :: bool
  vg_BodyHashEncoding :: string
  vg_RequiredHeaders :: "string list"
  vg_ResponseCodeFormat :: string
  vg_Defaults :: "string \<Rightarrow> string option"
  vg_DebugLogging :: bool
  vg_CorrelationHeader :: string

definition default_config :: "string \<Rightarrow> string \<Rightarrow> VendorConfig" where
  "default_config vendor channel = \<lparr>vg_Vendor = vendor, vg_Channel = channel, vg_ClientID = [], vg_ClientSecret = [],
     vg_OutboundPrivateKeyPath = [], vg_BaseURL = [], vg_TokenEndpoint = [], vg_APIEndpoints = (\<lambda>_. None), vg_ChannelID = [],
     vg_PartnerID = [], vg_OutboundPartnerID = [], vg_Origin = [], vg_RequestTimeout = 30, vg_SignatureAlgorithm = ''HMAC-SHA512'',
     vg_StrictMandatoryFields = True, vg_BodyHashEncoding = BodyHashHex, vg_RequiredHeaders = [''X-TIMESTAMP'', ''X-SIGNATURE''],
     vg_ResponseCodeFormat = ''AAABBCC'', vg_Defaults = (\<lambda>_. None), vg_DebugLogging = False, vg_CorrelationHeader = ''X-Correlation-ID''\<rparr>"

text \<open>Digits are accumulated at the width of \<^verbatim>\<open>int\<close>.\<close>

fun parse_digits :: "64 word \<Rightarrow> string \<Rightarrow> 64 word option" where
  "parse_digits val [] = Some val"
| "parse_digits val (c # s) = (if is_digit c then parse_digits (val * 10 + of_nat (digit_val c)) s else None)"

definition parseIntOrDefault :: "string \<Rightarrow> 64 word \<Rightarrow> 64 word" where
  "parseIntOrDefault s defaultVal = (case parse_digits 0 s of None \<Rightarrow> defaultVal
     | Some val \<Rightarrow> if val = 0 then defaultVal else val)"

section \<open>The file format\<close>

text \<open>
  \<^verbatim>\<open>bufio.Scanner\<close>: lines end at a line feed, one carriage return before it is dropped, nothing follows a final line
  feed, and a line that does not fit its buffer of 65536 bytes is an error.
\<close>

definition LF :: char where "LF = CHR 0x0A"
definition CR :: char where "CR = CHR 0x0D"

definition drop_cr :: "string \<Rightarrow> string" where
  "drop_cr s = (if s \<noteq> [] \<and> last s = CR then butlast s else s)"

definition raw_lines :: "string \<Rightarrow> string list" where
  "raw_lines content = (let ls = Split LF content in if last ls = [] then butlast ls else ls)"

definition max_line :: nat where "max_line = 65536"

definition unquote :: "string \<Rightarrow> string" where
  "unquote v = (if 2 \<le> length v \<and> (hd v = CHR 0x22 \<and> last v = CHR 0x22 \<or> hd v = CHR 0x27 \<and> last v = CHR 0x27)
     then butlast (tl v) else v)"

definition env_line :: "string \<Rightarrow> (string \<times> string) option" where
  "env_line text = (let line = TrimSpace text in
     if line = [] \<or> HasPrefix line ''#'' then None
     else (case SplitN2 CHR ''='' line of [k, v] \<Rightarrow> Some (TrimSpace k, unquote (TrimSpace v)) | _ \<Rightarrow> None))"

fun env_vars :: "string list \<Rightarrow> (string \<Rightarrow> string option) \<Rightarrow> (string \<Rightarrow> string option)" where
  "env_vars [] vars = vars"
| "env_vars (l # ls) vars = env_vars ls (case env_line (drop_cr l) of None \<Rightarrow> vars | Some (k, v) \<Rightarrow> vars(k \<mapsto> v))"

text \<open>Nothing stands for an error, with which the variables read so far are discarded by the caller.\<close>

definition parseEnvFile :: "string option \<Rightarrow> (string \<Rightarrow> string option) option" where
  "parseEnvFile file = (case file of None \<Rightarrow> None
     | Some content \<Rightarrow> if \<exists>l \<in> set (raw_lines content). max_line \<le> length l then None
         else Some (env_vars (raw_lines content) (\<lambda>_. None)))"

section \<open>Applying variables\<close>

definition set_from :: "(string \<Rightarrow> string option) \<Rightarrow> string \<Rightarrow> string \<Rightarrow> string" where
  "set_from vars name old = (case vars name of Some v \<Rightarrow> v | None \<Rightarrow> old)"

definition applyEnvVars :: "VendorConfig \<Rightarrow> (string \<Rightarrow> string option) \<Rightarrow> VendorConfig" where
  "applyEnvVars c vars = c\<lparr>
     vg_ClientID := set_from vars ''VENDOR_CLIENT_ID'' (vg_ClientID c),
     vg_ClientSecret := set_from vars ''VENDOR_CLIENT_SECRET'' (vg_ClientSecret c),
     vg_BaseURL := set_from vars ''VENDOR_BASE_URL'' (vg_BaseURL c),
     vg_TokenEndpoint := set_from vars ''VENDOR_TOKEN_ENDPOINT'' (vg_TokenEndpoint c),
     vg_OutboundPrivateKeyPath := set_from vars ''VENDOR_PRIVATE_KEY_PATH'' (vg_OutboundPrivateKeyPath c),
     vg_ChannelID := set_from vars ''VENDOR_CHANNEL_ID'' (vg_ChannelID c),
     vg_PartnerID := set_from vars ''VENDOR_PARTNER_ID'' (vg_PartnerID c),
     vg_OutboundPartnerID := set_from vars ''VENDOR_OUTBOUND_PARTNER_ID'' (vg_OutboundPartnerID c),
     vg_Origin := set_from vars ''VENDOR_ORIGIN'' (vg_Origin c),
     vg_RequestTimeout := (case vars ''VENDOR_REQUEST_TIMEOUT'' of Some v \<Rightarrow> parseIntOrDefault v 30 | None \<Rightarrow> vg_RequestTimeout c),
     vg_SignatureAlgorithm := set_from vars ''VENDOR_SIGNATURE_ALGORITHM'' (vg_SignatureAlgorithm c),
     vg_BodyHashEncoding := set_from vars ''VENDOR_BODY_HASH_ENCODING'' (vg_BodyHashEncoding c),
     vg_StrictMandatoryFields := (case vars ''VENDOR_STRICT_MANDATORY_FIELDS'' of Some v \<Rightarrow> v \<noteq> ''false'' | None \<Rightarrow> vg_StrictMandatoryFields c),
     vg_DebugLogging := (case vars ''VENDOR_DEBUG_LOGGING'' of Some v \<Rightarrow> v = ''true'' | None \<Rightarrow> vg_DebugLogging c),
     vg_CorrelationHeader := set_from vars ''VENDOR_CORRELATION_HEADER'' (vg_CorrelationHeader c),
     vg_ResponseCodeFormat := set_from vars ''VENDOR_RESPONSE_CODE_FORMAT'' (vg_ResponseCodeFormat c),
     vg_RequiredHeaders := (case vars ''VENDOR_REQUIRED_HEADERS'' of Some v \<Rightarrow> Split CHR '','' v | None \<Rightarrow> vg_RequiredHeaders c),
     vg_APIEndpoints := (\<lambda>name. orelse (vars (''VENDOR_ENDPOINT_'' @ name)) (vg_APIEndpoints c name))\<rparr>"

definition override :: "(string \<Rightarrow> string) \<Rightarrow> string \<Rightarrow> string \<Rightarrow> string" where
  "override getenv name old = (if getenv name \<noteq> [] then getenv name else old)"

definition applyEnvOverrides :: "VendorConfig \<Rightarrow> (string \<Rightarrow> string) \<Rightarrow> VendorConfig" where
  "applyEnvOverrides c getenv = c\<lparr>
     vg_ClientID := override getenv ''VENDOR_CLIENT_ID'' (vg_ClientID c),
     vg_ClientSecret := override getenv ''VENDOR_CLIENT_SECRET'' (vg_ClientSecret c),
     vg_BaseURL := override getenv ''VENDOR_BASE_URL'' (vg_BaseURL c),
     vg_ChannelID := override getenv ''VENDOR_CHANNEL_ID'' (vg_ChannelID c),
     vg_PartnerID := override getenv ''VENDOR_PARTNER_ID'' (vg_PartnerID c),
     vg_OutboundPartnerID := override getenv ''VENDOR_OUTBOUND_PARTNER_ID'' (vg_OutboundPartnerID c),
     vg_BodyHashEncoding := override getenv ''VENDOR_BODY_HASH_ENCODING'' (vg_BodyHashEncoding c),
     vg_StrictMandatoryFields := (if getenv ''VENDOR_STRICT_MANDATORY_FIELDS'' \<noteq> []
        then getenv ''VENDOR_STRICT_MANDATORY_FIELDS'' \<noteq> ''false'' else vg_StrictMandatoryFields c)\<rparr>"

section \<open>Loading\<close>

datatype dir_entry = Directory string | Regular string "string option"

fun open_file :: "dir_entry list \<Rightarrow> string \<Rightarrow> string option" where
  "open_file [] name = None"
| "open_file (Directory n # es) name = open_file es name"
| "open_file (Regular n c # es) name = (if n = name then c else open_file es name)"

definition config_name :: "string \<Rightarrow> string \<Rightarrow> string" where
  "config_name vendor channel = ''.env.'' @ vendor @ ''.'' @ channel"

definition Load :: "dir_entry list \<Rightarrow> (string \<Rightarrow> string) \<Rightarrow> string \<Rightarrow> string \<Rightarrow> VendorConfig" where
  "Load dir getenv vendor channel = (let config = default_config vendor channel in
     applyEnvOverrides (case parseEnvFile (open_file dir (config_name vendor channel)) of
        None \<Rightarrow> config | Some vars \<Rightarrow> applyEnvVars config vars) getenv)"

text \<open>The vendor and channel a file name stands for; the last extension of the channel is cut off.\<close>

definition vendor_channel :: "dir_entry \<Rightarrow> (string \<times> string) option" where
  "vendor_channel entry = (case entry of Directory n \<Rightarrow> None
     | Regular name _ \<Rightarrow> if \<not> HasPrefix name ''.env.'' then None
        else (case SplitN2 CHR ''.'' (drop 5 name) of
           [vendor, rest] \<Rightarrow> Some (vendor, TrimSuffix rest (Ext rest)) | _ \<Rightarrow> None))"

definition LoadAll :: "dir_entry list option \<Rightarrow> (string \<Rightarrow> string) \<Rightarrow> VendorConfig list option" where
  "LoadAll dir getenv = (case dir of None \<Rightarrow> None
     | Some entries \<Rightarrow> Some (map (\<lambda>(vendor, channel). Load entries getenv vendor channel) (List.map_filter vendor_channel entries)))"

end
