(* ===== verification/Auth.thy ===== *)
theory Auth
  imports Tokens VendorConfigs VaHandler
begin

text \<open>
  Authentication: \<^verbatim>\<open>symmetric_signature.go\<close>, \<^verbatim>\<open>snap_auth.go\<close>, \<^verbatim>\<open>merchant_auth.go\<close> and \<^verbatim>\<open>admin_auth.go\<close> of
  \<^verbatim>\<open>internal/adapter/delivery/http/middleware\<close>. A middleware takes the handler behind it as an argument. The clock is
  read once per request here. The body of a request is nothing when it cannot be read.
\<close>

section \<open>Requests\<close>

record http_request =
  hr_Method :: string
  hr_Path :: string
  hr_Headers :: "(string \<times> string) list"
  hr_Body :: "string option"

text \<open>\<^verbatim>\<open>Header.Get\<close>: the first value of the name, whatever its case; empty when absent.\<close>

definition HeaderGet :: "http_request \<Rightarrow> string \<Rightarrow> string" where
  "HeaderGet req name = (case find (\<lambda>(k, v). map upper_byte k = map upper_byte name) (hr_Headers req) of
      Some (k, v) \<Rightarrow> v | None \<Rightarrow> [])"

record auth_env =
  ae_now :: gtime
  ae_crypto :: crypto_env
  ae_jwt :: jwt_lib
  ae_client :: client_env
  ae_skipSkewCheck :: bool

section \<open>The symmetric signature\<close>

record symmetricSignature =
  ss_Secret :: string
  ss_Algorithm :: string
  ss_Method :: string
  ss_RelativeURL :: string
  ss_AccessToken :: string
  ss_Timestamp :: string
  ss_Body :: string
  ss_BodyHashEncodings :: "string list"
  ss_ExtraBodyHashes :: "string list"

text \<open>The digests to try, in order, without empty ones and repetitions.\<close>

fun add_hashes :: "string list \<Rightarrow> string list \<Rightarrow> string list" where
  "add_hashes candidates [] = candidates"
| "add_hashes candidates (h # hs) = add_hashes (if h = [] \<or> h \<in> set candidates then candidates else candidates @ [h]) hs"

definition bodyHashCandidates :: "crypto_env \<Rightarrow> symmetricSignature \<Rightarrow> string list" where
  "bodyHashCandidates c s = add_hashes [] (map (HashRequestBody c (ss_Body s)) (ss_BodyHashEncodings s) @ ss_ExtraBodyHashes s)"

definition stringToSign :: "symmetricSignature \<Rightarrow> string \<Rightarrow> string" where
  "stringToSign s bodyHash = BuildStringToSign (ss_Method s) (ss_RelativeURL s) (ss_AccessToken s) bodyHash (ss_Timestamp s)"

definition verify :: "crypto_env \<Rightarrow> symmetricSignature \<Rightarrow> string \<Rightarrow> bool" where
  "verify c s provided = (if ss_Secret s = [] \<or> provided = [] then False
     else list_ex (\<lambda>bodyHash. Verify c (ss_Algorithm s) (ss_Secret s) (stringToSign s bodyHash) provided) (bodyHashCandidates c s))"

definition signatureFromRequest :: "http_request \<Rightarrow> string \<Rightarrow> string \<Rightarrow> string \<Rightarrow> symmetricSignature" where
  "signatureFromRequest req accessToken timestamp bodyBytes = \<lparr>ss_Secret = [], ss_Algorithm = [], ss_Method = hr_Method req,
     ss_RelativeURL = hr_Path req, ss_AccessToken = accessToken, ss_Timestamp = timestamp, ss_Body = bodyBytes,
     ss_BodyHashEncodings = [], ss_ExtraBodyHashes = []\<rparr>"

section \<open>Vendors\<close>

definition headerTimestamp :: string where [code_consts]: "headerTimestamp = ''X-TIMESTAMP''"
definition headerSignature :: string where [code_consts]: "headerSignature = ''X-SIGNATURE''"
definition headerPartnerID :: string where [code_consts]: "headerPartnerID = ''X-PARTNER-ID''"
definition headerExternalID :: string where [code_consts]: "headerExternalID = ''X-EXTERNAL-ID''"
definition headerChannelID :: string where [code_consts]: "headerChannelID = ''CHANNEL-ID''"
definition maxExternalIDLength :: nat where "maxExternalIDLength = 36"

definition documentedTransferVAHeaders :: "string list" where
  "documentedTransferVAHeaders = [''CONTENT-TYPE'', ''AUTHORIZATION'', ''X-TIMESTAMP'', ''X-SIGNATURE'', ''ORIGIN'', ''CHANNEL-ID'',
     ''X-PARTNER-ID'', ''X-EXTERNAL-ID'']"

definition isDocumentedTransferVAHeader :: "string \<Rightarrow> bool" where
  "isDocumentedTransferVAHeader header = (ToUpper (TrimSpace header) \<in> set documentedTransferVAHeaders)"

definition snapUnauthorized :: "string \<Rightarrow> string \<Rightarrow> http_answer" where
  "snapUnauthorized service message = (401, BareBody (NewSNAPErrorResponse (CodeUnauthorized service) message))"

definition snapInvalidTokenFn :: "string \<Rightarrow> http_answer" where
  "snapInvalidTokenFn service = (401, BareBody (NewSNAPErrorResponse (CodeInvalidToken service) ''Invalid Token (B2B)''))"

definition snapMissingMandatory :: "string \<Rightarrow> string \<Rightarrow> http_answer" where
  "snapMissingMandatory service field =
     (400, NewSNAPErrorBody service (CodeMissingMandatory service) (''Invalid Mandatory Field ['' @ field @ '']'') noEcho)"

definition snapInvalidField :: "string \<Rightarrow> string \<Rightarrow> http_answer" where
  "snapInvalidField service field =
     (400, NewSNAPErrorBody service (CodeInvalidField service) (''Invalid Field Format ['' @ field @ '']'') noEcho)"

definition matchesAllowedValue :: "string \<Rightarrow> string \<Rightarrow> bool" where
  "matchesAllowedValue val allowed = list_ex (\<lambda>entry. TrimSpace entry = TrimSpace val) (Split CHR '','' allowed)"

definition isNumericString :: "string \<Rightarrow> bool" where
  "isNumericString s = (list_all is_digit s \<and> s \<noteq> [])"

definition validatePinnedHeader :: "http_request \<Rightarrow> string \<Rightarrow> string \<Rightarrow> string \<Rightarrow> string \<Rightarrow> http_answer option" where
  "validatePinnedHeader req header allowed service mismatchMessage = (
     if allowed = [] then None
     else if HeaderGet req header = [] then Some (snapMissingMandatory service header)
     else if \<not> matchesAllowedValue (HeaderGet req header) allowed then Some (snapUnauthorized service mismatchMessage)
     else None)"

definition required_headers :: "VendorConfig \<Rightarrow> string list" where
  "required_headers vc = (if vg_RequiredHeaders vc = [] then [''X-TIMESTAMP'', ''X-SIGNATURE''] else vg_RequiredHeaders vc)"

fun missing_header :: "http_request \<Rightarrow> string list \<Rightarrow> string option" where
  "missing_header req [] = None"
| "missing_header req (h # hs) = (let header = TrimSpace h in
     if \<not> isDocumentedTransferVAHeader header then missing_header req hs
     else if HeaderGet req header = [] then Some header else missing_header req hs)"

definition validateExternalID :: "http_request \<Rightarrow> VendorConfig \<Rightarrow> string \<Rightarrow> http_answer option" where
  "validateExternalID req vc service = (if hr_Method req = ''GET'' then None
     else (let externalID = HeaderGet req headerExternalID in
       if externalID = [] then Some (snapMissingMandatory service headerExternalID)
       else if maxExternalIDLength < length externalID then Some (snapInvalidField service headerExternalID)
       else if vg_StrictMandatoryFields vc \<and> \<not> isNumericString externalID then Some (snapInvalidField service headerExternalID)
       else None))"

definition validateSNAPHeaders :: "http_request \<Rightarrow> VendorConfig \<Rightarrow> string \<Rightarrow> http_answer option" where
  "validateSNAPHeaders req vc service = (case missing_header req (required_headers vc) of
      Some header \<Rightarrow> Some (snapMissingMandatory service header)
    | None \<Rightarrow> (case validatePinnedHeader req headerChannelID (vg_ChannelID vc) service ''Unauthorized. [Unknown channel]'' of
        Some r \<Rightarrow> Some r
      | None \<Rightarrow> (case validatePinnedHeader req headerPartnerID (vg_PartnerID vc) service ''Unauthorized. [Unknown client]'' of
          Some r \<Rightarrow> Some r
        | None \<Rightarrow> validateExternalID req vc service)))"

definition validateSNAPTimestamp :: "auth_env \<Rightarrow> string \<Rightarrow> string \<Rightarrow> http_answer option" where
  "validateSNAPTimestamp e timestamp service = (case ParseRFC3339 timestamp of
      None \<Rightarrow> Some (snapInvalidField service ''X-TIMESTAMP'')
    | Some parsed \<Rightarrow> if \<not> ae_skipSkewCheck e \<and> skewed (ae_now e) parsed
        then Some (snapUnauthorized service ''Unauthorized. [Timestamp skew exceeds 5 minutes]'') else None)"

definition resolveVendorAccessToken :: "auth_env \<Rightarrow> http_request \<Rightarrow> VendorConfig \<Rightarrow> string \<Rightarrow> http_answer + string" where
  "resolveVendorAccessToken e req vc service = (
     if vg_ClientID vc = [] then Inr []
     else (let authHeader = HeaderGet req ''Authorization'' in
       if \<not> HasPrefix authHeader ''Bearer '' then Inl (snapInvalidTokenFn service)
       else (let token = TrimPrefix authHeader ''Bearer '' in
         case ValidateToken (ae_jwt e) (ae_now e) token of
           Inl err \<Rightarrow> Inl (snapInvalidTokenFn service)
         | Inr claims \<Rightarrow> if tc_ClientID claims \<noteq> vg_ClientID vc
             then Inl (snapUnauthorized service ''Unauthorized. [Unknown client]'') else Inr token)))"

definition vendor_signature :: "http_request \<Rightarrow> VendorConfig \<Rightarrow> string \<Rightarrow> string \<Rightarrow> symmetricSignature" where
  "vendor_signature req vc accessToken bodyBytes = (signatureFromRequest req accessToken (HeaderGet req headerTimestamp) bodyBytes)
     \<lparr>ss_Secret := vg_ClientSecret vc, ss_Algorithm := vg_SignatureAlgorithm vc, ss_BodyHashEncodings := [vg_BodyHashEncoding vc]\<rparr>"

text \<open>\<^verbatim>\<open>None\<close> when the request is authentic for this vendor.\<close>

definition authenticateVendor :: "auth_env \<Rightarrow> http_request \<Rightarrow> VendorConfig \<Rightarrow> string \<Rightarrow> string \<Rightarrow> http_answer option" where
  "authenticateVendor e req vc service bodyBytes = (case validateSNAPHeaders req vc service of
      Some r \<Rightarrow> Some r
    | None \<Rightarrow> (case validateSNAPTimestamp e (HeaderGet req headerTimestamp) service of
        Some r \<Rightarrow> Some r
      | None \<Rightarrow> (case resolveVendorAccessToken e req vc service of
          Inl r \<Rightarrow> Some r
        | Inr accessToken \<Rightarrow>
            if \<not> verify (ae_crypto e) (vendor_signature req vc accessToken bodyBytes) (HeaderGet req headerSignature)
            then Some (snapUnauthorized service ''Unauthorized. [Signature]'') else None)))"

definition claims_vendor :: "http_request \<Rightarrow> VendorConfig \<Rightarrow> bool" where
  "claims_vendor req vc = (
     \<not> (vg_PartnerID vc \<noteq> [] \<and> HeaderGet req headerPartnerID \<noteq> [] \<and> \<not> matchesAllowedValue (HeaderGet req headerPartnerID) (vg_PartnerID vc)) \<and>
     \<not> (vg_ChannelID vc \<noteq> [] \<and> HeaderGet req headerChannelID \<noteq> [] \<and> \<not> matchesAllowedValue (HeaderGet req headerChannelID) (vg_ChannelID vc)))"

definition candidateVendors :: "http_request \<Rightarrow> VendorConfig list \<Rightarrow> VendorConfig list" where
  "candidateVendors req vendorConfigs = (let candidates = filter (claims_vendor req) vendorConfigs in
     if candidates = [] then vendorConfigs else candidates)"

text \<open>The loop over the candidates: the first that accepts, else the first rejection.\<close>

fun try_vendors :: "auth_env \<Rightarrow> http_request \<Rightarrow> string \<Rightarrow> string \<Rightarrow> http_answer option \<Rightarrow> VendorConfig list \<Rightarrow>
    http_answer option + VendorConfig" where
  "try_vendors e req service bodyBytes firstRejection [] = Inl firstRejection"
| "try_vendors e req service bodyBytes firstRejection (vc # vcs) = (case authenticateVendor e req vc service bodyBytes of
      None \<Rightarrow> Inr vc
    | Some rejection \<Rightarrow> try_vendors e req service bodyBytes (orelse firstRejection (Some rejection)) vcs)"

definition vendor_context :: "VendorConfig \<Rightarrow> VendorContext" where
  "vendor_context vc = \<lparr>vc_Vendor = vg_Vendor vc, vc_Channel = vg_Channel vc, vc_StrictMandatoryFields = vg_StrictMandatoryFields vc\<rparr>"

definition MultiVendorSNAPAuth ::
    "auth_env \<Rightarrow> VendorConfig list \<Rightarrow> http_request \<Rightarrow> (VendorContext \<Rightarrow> 'w \<Rightarrow> http_answer \<times> 'w) \<Rightarrow> 'w \<Rightarrow> http_answer \<times> 'w" where
  "MultiVendorSNAPAuth e vendorConfigs req handler w = (let service = ServiceCodeForPath (hr_Path req) in
     case hr_Body req of None \<Rightarrow> (snapUnauthorized service ''Unauthorized. [Unable to read request body]'', w)
     | Some bodyBytes \<Rightarrow> (let candidates = candidateVendors req vendorConfigs in
         if candidates = [] then (snapUnauthorized service ''Unauthorized. [Unknown client]'', w)
         else (case try_vendors e req service bodyBytes None candidates of
            Inr vc \<Rightarrow> handler (vendor_context vc) w
          | Inl (Some rejection) \<Rightarrow> (rejection, w)
          | Inl None \<Rightarrow> (snapUnauthorized service ''Unauthorized. [Unknown client]'', w))))"

definition SNAPAuthMiddleware ::
    "auth_env \<Rightarrow> VendorConfig \<Rightarrow> http_request \<Rightarrow> (VendorContext \<Rightarrow> 'w \<Rightarrow> http_answer \<times> 'w) \<Rightarrow> 'w \<Rightarrow> http_answer \<times> 'w" where
  "SNAPAuthMiddleware e vc = MultiVendorSNAPAuth e [vc]"

section \<open>Merchants\<close>

definition merchantSignatureAlgorithm :: string where "merchantSignatureAlgorithm = ''HMAC-SHA512''"

definition merchant_unauthorized :: "string \<Rightarrow> nat \<times> SNAPErrorResponse" where
  "merchant_unauthorized reason = (401, NewSNAPErrorResponse ''4010000'' (''Unauthorized. ['' @ reason @ '']''))"

definition merchant_signature :: "crypto_env \<Rightarrow> http_request \<Rightarrow> string \<Rightarrow> string \<Rightarrow> string \<Rightarrow> string \<Rightarrow> bool \<Rightarrow> symmetricSignature" where
  "merchant_signature c req secret token timestamp bodyBytes acceptLegacyBodyHash =
     (let signature = (signatureFromRequest req token timestamp bodyBytes)
        \<lparr>ss_Secret := secret, ss_Algorithm := merchantSignatureAlgorithm, ss_BodyHashEncodings := [BodyHashHex]\<rparr> in
      if acceptLegacyBodyHash then signature\<lparr>ss_BodyHashEncodings := [BodyHashHex, BodyHashBase64],
         ss_ExtraBodyHashes := [HashSHA256Base64 c bodyBytes]\<rparr>
      else signature)"

definition verifyMerchantSignature :: "crypto_env \<Rightarrow> http_request \<Rightarrow> string \<Rightarrow> string \<Rightarrow> string \<Rightarrow> string \<Rightarrow> bool \<Rightarrow> bool" where
  "verifyMerchantSignature c req secret token timestamp bodyBytes acceptLegacyBodyHash =
     verify c (merchant_signature c req secret token timestamp bodyBytes acceptLegacyBodyHash) (HeaderGet req ''X-SIGNATURE'')"

text \<open>The checks in order: the reason of the first that fails.\<close>

definition merchant_check :: "auth_env \<Rightarrow> bool \<Rightarrow> http_request \<Rightarrow> clients \<Rightarrow> string option" where
  "merchant_check e acceptLegacyBodyHash req w = (let authHeader = HeaderGet req ''Authorization'' in
     if \<not> HasPrefix authHeader ''Bearer '' then Some ''Missing or invalid Authorization header''
     else (let token = TrimPrefix authHeader ''Bearer '' in
       case ValidateToken (ae_jwt e) (ae_now e) token of
         Inl err \<Rightarrow> Some ''Invalid or expired access token''
       | Inr claims \<Rightarrow> (case GetActiveClientSecret (ae_client e) (tc_ClientID claims) w of
           Inl err \<Rightarrow> Some ''No signing secret provisioned for this client''
         | Inr secret \<Rightarrow>
            if secret = [] then Some ''No signing secret provisioned for this client''
            else (let timestamp = HeaderGet req ''X-TIMESTAMP'' in
              case ParseRFC3339 timestamp of
                None \<Rightarrow> Some ''Invalid or missing X-TIMESTAMP''
              | Some parsed \<Rightarrow>
                 if \<not> ae_skipSkewCheck e \<and> skewed (ae_now e) parsed then Some ''Timestamp skew exceeds 5 minutes''
                 else (case hr_Body req of
                    None \<Rightarrow> Some ''Unable to read request body''
                  | Some bodyBytes \<Rightarrow>
                     if \<not> verifyMerchantSignature (ae_crypto e) req secret token timestamp bodyBytes acceptLegacyBodyHash
                     then Some ''Invalid signature'' else None)))))"

text \<open>The answer of the handler is wrapped, since its body is the handler's own.\<close>

definition MerchantAuthMiddleware ::
    "auth_env \<Rightarrow> bool \<Rightarrow> http_request \<Rightarrow> clients \<Rightarrow> ('w \<Rightarrow> 'r \<times> 'w) \<Rightarrow> 'w \<Rightarrow> ((nat \<times> SNAPErrorResponse) + 'r) \<times> 'w" where
  "MerchantAuthMiddleware e acceptLegacyBodyHash req cl handler w = (case merchant_check e acceptLegacyBodyHash req cl of
      Some reason \<Rightarrow> (Inl (merchant_unauthorized reason), w)
    | None \<Rightarrow> (case handler w of (r, w1) \<Rightarrow> (Inr r, w1)))"

section \<open>Administration\<close>

definition AdminAuthMiddleware ::
    "string \<Rightarrow> http_request \<Rightarrow> ('w \<Rightarrow> 'r \<times> 'w) \<Rightarrow> 'w \<Rightarrow> ((nat \<times> string) + 'r) \<times> 'w" where
  "AdminAuthMiddleware apiKey req handler w = (
     if apiKey = [] then (Inl (503, ''Admin API is disabled. Set ADMIN_API_KEY to enable it.''), w)
     else (let provided = HeaderGet req ''X-Admin-API-Key'' in
       if provided = [] \<or> provided \<noteq> apiKey
       then (Inl (401, ''Unauthorized. Invalid or missing X-Admin-API-Key header.''), w)
       else (case handler w of (r, w1) \<Rightarrow> (Inr r, w1))))"

end
