(* ===== verification/TokenProps.thy ===== *)
theory TokenProps
  imports Auth
begin

text \<open>
  Who gets an access token and for how long, which key and secret of a client are in force, and how the vendor settings
  are put together.
\<close>

section \<open>Issuing\<close>

definition in_time :: "token_env \<Rightarrow> string \<Rightarrow> bool" where
  "in_time e timestamp = (\<exists>t. ParseRFC3339 timestamp = Some t \<and> (te_skipSkewCheck e \<or> \<bar>tm_ns (te_now e) - tm_ns t\<bar> \<le> five_minutes))"

text \<open>The newest active key of the client, and the check of a signature under it.\<close>

definition signed_by_client :: "token_env \<Rightarrow> string \<Rightarrow> string \<Rightarrow> string \<Rightarrow> clients \<Rightarrow> bool" where
  "signed_by_client e clientID timestamp signature w = (\<exists>pem block key bytes.
     GetActiveClientPublicKey (te_client e) clientID w = Inr pem \<and> rl_pem (te_rsa e) pem = Some block \<and>
     rl_pkix (te_rsa e) block = Inr (RSAKey key) \<and> b64_decode True signature = Some bytes \<and>
     rl_verify (te_rsa e) key (cr_sha256 (te_crypto e) (clientID @ ''|'' @ timestamp)) bytes)"

definition token_deserved :: "token_env \<Rightarrow> string \<Rightarrow> string \<Rightarrow> string \<Rightarrow> string \<Rightarrow> clients \<Rightarrow> bool" where
  "token_deserved e clientID timestamp signature grantType w = (grantType = ''client_credentials'' \<and> clientID \<noteq> [] \<and> signature \<noteq> [] \<and>
     in_time e timestamp \<and> (\<exists>app. GetClientByID (te_client e) clientID w = Inr app \<and> ca_Status app = ''ACTIVE'') \<and>
     signed_by_client e clientID timestamp signature w)"

lemma ParseRFC3339_Nil [simp]: "ParseRFC3339 [] = None"
  by (simp add: ParseRFC3339_def take_date_def take_num_def)

lemma token_fields_None:
  "token_fields e clientID timestamp signature grantType = None \<longleftrightarrow>
     grantType = ''client_credentials'' \<and> clientID \<noteq> [] \<and> signature \<noteq> [] \<and> in_time e timestamp"
  by (auto simp: token_fields_def in_time_def skewed_def split: option.splits)

lemma VerifySignature_None:
  "VerifySignature c lib pem msg sig = None \<longleftrightarrow> (\<exists>block key bytes. rl_pem lib pem = Some block \<and>
     rl_pkix lib block = Inr (RSAKey key) \<and> b64_decode True sig = Some bytes \<and> rl_verify lib key (cr_sha256 c msg) bytes)"
  by (auto simp: VerifySignature_def split: option.splits sum.splits parsed_key.splits)

lemma signed_by_client_iff:
  "signed_by_client e clientID timestamp signature w \<longleftrightarrow> (\<exists>pem. GetActiveClientPublicKey (te_client e) clientID w = Inr pem \<and>
     VerifySignature (te_crypto e) (te_rsa e) pem (access_string clientID timestamp) signature = None)"
  by (auto simp: signed_by_client_def VerifySignature_None access_string_def)

lemma token_fields_code: "token_fields e clientID timestamp signature grantType = Some err \<Longrightarrow> tokenHTTPStatus (de_SNAPCode err) = 400"
  by (auto simp: token_fields_def token_error_def NewDomainError_def tokenHTTPStatus_def CodeTokenInvalidField_def CodeTokenMissingClientKey_def
      CodeTokenInvalidTimestamp_def split: option.splits if_splits)

text \<open>C24: The token endpoint issues a token to exactly the requests that ask for client credentials in the name of an active
  client, with a timestamp within five minutes and the signature of client and timestamp under that client's newest
  active key; the token is the one the issuer signs for this client for 900 seconds. Every other request gets no
  token and an error status.\<close>

theorem token_only_for_signed_client:
  "case GetB2BAccessToken e bound clientKey timestamp signature w of (status, resp) \<Rightarrow>
     if (\<exists>g. bound = Some g \<and> token_deserved e clientKey timestamp signature g w)
     then (case jl_sign (te_jwt e) (issued_claims clientKey (te_jti e) (te_now e) (900 * nanos_per_second)) of
         Inr token \<Rightarrow> status = 200 \<and> tr_AccessToken resp = token \<and> tr_ExpiresIn resp = ''900''
       | Inl _ \<Rightarrow> status = 500 \<and> tr_AccessToken resp = [])
     else status \<in> {400, 401, 500} \<and> tr_AccessToken resp = []"
proof (cases bound)
  case None
  then show ?thesis by (simp add: GetB2BAccessToken_def token_rejection_def)
next
  case (Some g)
  have st: "tokenHTTPStatus CodeTokenUnauthorized = 401" "tokenHTTPStatus CodeTokenInternalError = 500" "tokenHTTPStatus ''5007300'' = 500"
    by (simp_all add: tokenHTTPStatus_def CodeTokenUnauthorized_def CodeTokenInternalError_def)
  show ?thesis
  proof (cases "token_fields e clientKey timestamp signature g")
    case None
    note f = this [unfolded token_fields_None]
    show ?thesis using None f st Some
      by (auto simp: GetB2BAccessToken_def TokenUsecase_GenerateB2BToken_def token_deserved_def signed_by_client_iff
          ClientStatusActive_def JWTIssuer_GenerateB2BToken_def token_rejection_def
          NewDomainError_def token_error_def split: sum.splits option.splits)
  next
    case (Some err)
    then have "\<not> token_deserved e clientKey timestamp signature g w"
      using token_fields_None [of e clientKey timestamp signature g] by (auto simp: token_deserved_def)
    then show ?thesis using Some \<open>bound = _\<close> token_fields_code [OF Some]
      by (simp add: GetB2BAccessToken_def TokenUsecase_GenerateB2BToken_def token_rejection_def)
  qed
qed

section \<open>Rotating credentials\<close>

lemma top_by_snoc: "\<forall>r \<in> set rows. better x r \<Longrightarrow> top_by better (rows @ [x]) = Some x"
  by (induction rows) simp_all

definition secrets_before :: "gtime \<Rightarrow> string \<Rightarrow> clients \<Rightarrow> bool" where
  "secrets_before t clientID w = list_all (\<lambda>k. cx_ClientID k = clientID \<longrightarrow> tm_ns (cx_CreatedAt k) < tm_ns t) (cd_secrets w)"

lemma CreateClientSecret_Inr:
  "CreateClientSecret e k w = (Inr (), w1) \<Longrightarrow> w1 = w\<lparr>cd_secrets := cd_secrets w @ [k]\<rparr> \<and>
     (\<forall>b \<in> set (cd_secrets w). \<not> (cx_ClientID b = cx_ClientID k \<and> cx_SecretID b = cx_SecretID k))"
  by (auto simp: CreateClientSecret_def split: if_splits)

text \<open>A secret added later than the others of its client is the one signatures are checked with from then on, alone, and
  revoking it brings the previous one back.\<close>

theorem newest_secret_in_force:
  assumes "\<not> ce_fails e QGetSecret" and "\<not> ce_fails e QRevokeSecret" and "AddClientSecret e s w = (Inr (), w1)"
    and "secrets_before (ce_now e) (cx_ClientID s) w"
  shows "GetActiveClientSecret e (cx_ClientID s) w1 = Inr (cx_SecretValue s) \<and>
    GetActiveClientSecret e (cx_ClientID s) (snd (RevokeClientSecret e (cx_ClientID s) (cx_SecretID s) w1)) =
      GetActiveClientSecret e (cx_ClientID s) w"
proof -
  define k where "k = active_secret e s"
  have k: "cx_ClientID k = cx_ClientID s" "cx_SecretID k = cx_SecretID s" "cx_SecretValue k = cx_SecretValue s" "cx_IsActive k"
    "cx_CreatedAt k = ce_now e" by (simp_all add: k_def active_secret_def)
  have w1: "w1 = w\<lparr>cd_secrets := cd_secrets w @ [k]\<rparr>"
    and new: "\<forall>b \<in> set (cd_secrets w). \<not> (cx_ClientID b = cx_ClientID s \<and> cx_SecretID b = cx_SecretID s)"
    using CreateClientSecret_Inr [of e k w w1] assms(3) k by (auto simp: AddClientSecret_def k_def split: if_splits)
  have "GetActiveClientSecret e (cx_ClientID s) w1 = Inr (cx_SecretValue s)"
    using assms(1,4) k top_by_snoc [of "filter (\<lambda>b. cx_ClientID b = cx_ClientID s \<and> cx_IsActive b) (cd_secrets w)"
        "\<lambda>a b. tm_ns (cx_CreatedAt b) < tm_ns (cx_CreatedAt a)" k]
    by (simp add: GetActiveClientSecret_def w1 secrets_before_def list_all_iff)
  moreover have "snd (RevokeClientSecret e (cx_ClientID s) (cx_SecretID s) w1) =
      w\<lparr>cd_secrets := cd_secrets w @ [k\<lparr>cx_IsActive := False, cx_UpdatedAt := ce_now e\<rparr>]\<rparr>"
    using assms(2) k update_where_none [OF new] by (simp add: RevokeClientSecret_def w1 update_where_def)
  ultimately show ?thesis by (simp add: GetActiveClientSecret_def)
qed

definition demo_secret :: ClientSecret where
  "demo_secret = new_secret ''m1'' ''s2'' ''newer''"

definition demo_clients :: clients where
  "demo_clients = \<lparr>cd_apps = [new_app ''m1'' ''Shop''], cd_keys = [],
     cd_secrets = [(new_secret ''m1'' ''s1'' ''older'')\<lparr>cx_ID := ''a'', cx_IsActive := True\<rparr>], cd_cache = (\<lambda>_. None)\<rparr>"

definition demo_client_env :: client_env where
  "demo_client_env = \<lparr>ce_now = \<lparr>tm_ns = 5, tm_off = 0\<rparr>, ce_app_uuid = ''u'', ce_key_uuid = ''b'', ce_fails = (\<lambda>_. False), ce_keyCache = False\<rparr>"

theorem newest_secret_in_force_witness:
  "\<exists>w1. AddClientSecret demo_client_env demo_secret demo_clients = (Inr (), w1) \<and>
     GetActiveClientSecret demo_client_env ''m1'' w1 = Inr ''newer'' \<and>
     GetActiveClientSecret demo_client_env ''m1'' (snd (RevokeClientSecret demo_client_env ''m1'' ''s2'' w1)) = Inr ''older''"
proof -
  have m: "fst (AddClientSecret demo_client_env demo_secret demo_clients) = Inr ()"
    "secrets_before (ce_now demo_client_env) (cx_ClientID demo_secret) demo_clients"
    "GetActiveClientSecret demo_client_env ''m1'' demo_clients = Inr ''older''"
    by (simp_all add: AddClientSecret_def demo_secret_def new_secret_def CreateClientSecret_def demo_client_env_def demo_clients_def new_app_def
        active_secret_def new_id_def secrets_before_def GetActiveClientSecret_def)
  have s: "cx_ClientID demo_secret = ''m1''" "cx_SecretID demo_secret = ''s2''" "cx_SecretValue demo_secret = ''newer''"
    "\<not> ce_fails demo_client_env q" for q
    by (simp_all add: demo_secret_def new_secret_def demo_client_env_def)
  obtain w1 where "AddClientSecret demo_client_env demo_secret demo_clients = (Inr (), w1)" using m(1) by (metis prod.collapse)
  then show ?thesis using newest_secret_in_force [OF s(4) s(4) _ m(2)] m(3) by (auto simp: s)
qed

section \<open>Vendor settings\<close>

text \<open>A line of a settings file: the value in double quotes, whatever else it contains.\<close>

definition setting_line :: "string \<times> string \<Rightarrow> string" where
  "setting_line kv = fst kv @ ''='' @ [CHR 0x22] @ snd kv @ [CHR 0x22]"

definition setting_ok :: "string \<times> string \<Rightarrow> bool" where
  "setting_ok kv = (fst kv \<noteq> [] \<and> plain_byte (hd (fst kv)) \<and> plain_byte (last (fst kv)) \<and> hd (fst kv) \<noteq> CHR ''#'' \<and>
     CHR ''='' \<notin> set (fst kv) \<and> LF \<notin> set (setting_line kv) \<and> length (setting_line kv) < 65536)"

lemma Split_line: "sep \<notin> set l \<Longrightarrow> Split sep (l @ sep # s) = l # Split sep s"
  by (induction l) auto

lemma raw_lines_concat:
  "\<forall>l \<in> set ls. LF \<notin> set l \<Longrightarrow> raw_lines (concat (map (\<lambda>l. l @ [LF]) ls)) = ls"
proof -
  assume "\<forall>l \<in> set ls. LF \<notin> set l"
  then have "Split LF (concat (map (\<lambda>l. l @ [LF]) ls)) = ls @ [[]]" by (induction ls) (simp_all add: Split_line)
  then show ?thesis by (simp add: raw_lines_def)
qed

lemma quote_plain [simp]: "plain_byte CHR 0x22"
  by (simp add: plain_byte_def ascii_space_def)

lemma env_line_setting: "setting_ok kv \<Longrightarrow> env_line (drop_cr (setting_line kv)) = Some kv"
proof -
  assume ok: "setting_ok kv"
  obtain c k v where kv: "kv = (c # k, v)" using ok by (cases kv; cases "fst kv") (auto simp: setting_ok_def)
  have d: "drop_cr (setting_line kv) = setting_line kv" by (simp add: drop_cr_def setting_line_def CR_def)
  have t: "TrimSpace (setting_line kv) = setting_line kv" "TrimSpace (c # k) = c # k"
      "TrimSpace (CHR 0x22 # v @ [CHR 0x22]) = CHR 0x22 # v @ [CHR 0x22]"
    using ok by (auto intro!: TrimSpace_plain simp: setting_line_def setting_ok_def kv)
  have s: "SplitN2 CHR ''='' (setting_line kv) = [c # k, CHR 0x22 # v @ [CHR 0x22]]"
    using ok by (auto simp: SplitN2_def setting_line_def setting_ok_def kv takeWhile_append dropWhile_append)
  have u: "unquote (CHR 0x22 # v @ [CHR 0x22]) = v" by (simp add: unquote_def)
  show ?thesis using ok
    by (simp add: env_line_def Let_def d t s u) (auto simp: setting_line_def kv setting_ok_def)
qed

lemma env_vars_settings:
  "\<forall>kv \<in> set kvs. setting_ok kv \<Longrightarrow> env_vars (map setting_line kvs) vars = vars ++ map_of (rev kvs)"
proof (induction kvs arbitrary: vars)
  case (Cons kv kvs)
  then show ?case by (cases kv) (auto simp: env_line_setting map_add_def fun_eq_iff split: option.splits)
qed simp

text \<open>A settings file that has each value in double quotes is read back as it was written, whatever bytes but line feeds
  the values contain; of two lines for the same name the later counts.\<close>

theorem written_settings_are_read:
  assumes "list_all setting_ok kvs"
  shows "parseEnvFile (Some (concat (map (\<lambda>kv. setting_line kv @ [LF]) kvs))) = Some (map_of (rev kvs))"
proof -
  have ok: "\<forall>kv \<in> set kvs. setting_ok kv" using assms by (simp add: list_all_iff)
  then have l: "raw_lines (concat (map (\<lambda>kv. setting_line kv @ [LF]) kvs)) = map setting_line kvs"
    using raw_lines_concat [of "map setting_line kvs"] by (simp add: comp_def setting_ok_def)
  show ?thesis using ok env_vars_settings [OF ok, of "\<lambda>_. None"]
    by (auto simp: parseEnvFile_def l max_line_def setting_ok_def)
qed

theorem written_settings_are_read_witness:
  "parseEnvFile (Some (concat (map (\<lambda>kv. setting_line kv @ [LF]) [(''A'', ''x=1''), (''A'', '' y'')]))) = Some [''A'' \<mapsto> '' y'']"
  using written_settings_are_read [of "[(''A'', ''x=1''), (''A'', '' y'')]"]
  by (simp add: setting_ok_def plain_byte_def ascii_space_def setting_line_def LF_def fun_eq_iff)

text \<open>The value a vendor's own file gives a setting, the default when it does not.\<close>

definition file_setting :: "dir_entry list \<Rightarrow> VendorConfig \<Rightarrow> string \<Rightarrow> string \<Rightarrow> string" where
  "file_setting dir vc name dflt = (case parseEnvFile (open_file dir (config_name (vg_Vendor vc) (vg_Channel vc))) of
      Some vars \<Rightarrow> (case vars name of Some v \<Rightarrow> v | None \<Rightarrow> dflt) | None \<Rightarrow> dflt)"

text \<open>Each credential of a vendor is the process variable when that is set, else the vendor's own file, else the default;
  so one process variable replaces the credential of every vendor at once. Settings without a process variable come from
  the file alone.\<close>

theorem settings_precedence:
  "case LoadAll dir getenv of None \<Rightarrow> dir = None
   | Some vcs \<Rightarrow> list_all (\<lambda>vc.
       vg_ClientSecret vc = override getenv ''VENDOR_CLIENT_SECRET'' (file_setting (the dir) vc ''VENDOR_CLIENT_SECRET'' []) \<and>
       vg_ClientID vc = override getenv ''VENDOR_CLIENT_ID'' (file_setting (the dir) vc ''VENDOR_CLIENT_ID'' []) \<and>
       vg_PartnerID vc = override getenv ''VENDOR_PARTNER_ID'' (file_setting (the dir) vc ''VENDOR_PARTNER_ID'' []) \<and>
       vg_BodyHashEncoding vc = override getenv ''VENDOR_BODY_HASH_ENCODING'' (file_setting (the dir) vc ''VENDOR_BODY_HASH_ENCODING'' ''hex'') \<and>
       vg_SignatureAlgorithm vc = file_setting (the dir) vc ''VENDOR_SIGNATURE_ALGORITHM'' ''HMAC-SHA512'') vcs"
proof (cases dir)
  case (Some entries)
  define settled where "settled vc = (
       vg_ClientSecret vc = override getenv ''VENDOR_CLIENT_SECRET'' (file_setting entries vc ''VENDOR_CLIENT_SECRET'' []) \<and>
       vg_ClientID vc = override getenv ''VENDOR_CLIENT_ID'' (file_setting entries vc ''VENDOR_CLIENT_ID'' []) \<and>
       vg_PartnerID vc = override getenv ''VENDOR_PARTNER_ID'' (file_setting entries vc ''VENDOR_PARTNER_ID'' []) \<and>
       vg_BodyHashEncoding vc = override getenv ''VENDOR_BODY_HASH_ENCODING'' (file_setting entries vc ''VENDOR_BODY_HASH_ENCODING'' ''hex'') \<and>
       vg_SignatureAlgorithm vc = file_setting entries vc ''VENDOR_SIGNATURE_ALGORITHM'' ''HMAC-SHA512'')" for vc
  have "settled (Load entries getenv v c)" for v c
    by (cases "parseEnvFile (open_file entries (config_name v c))")
      (simp_all add: settled_def Load_def Let_def applyEnvOverrides_def applyEnvVars_def set_from_def file_setting_def default_config_def BodyHashHex_def
        split: option.splits)
  then show ?thesis by (simp add: Some LoadAll_def list_all_iff settled_def [symmetric] split: prod.splits)
qed (simp add: LoadAll_def)

end
