(* ===== verification/Idempotency.thy ===== *)
theory Idempotency
  imports SnapTime
begin

text \<open>
  The idempotency middleware \<^verbatim>\<open>internal/adapter/delivery/http/middleware/idempotency.go\<close> over the Redis client
  \<^verbatim>\<open>internal/infrastructure/redis/redis.go\<close>. Redis is a key-value store with expiry: a key is readable until its
  time to live has passed, \<^verbatim>\<open>SETNX\<close> succeeds when the key is not there, and a time to live of zero keeps the key.
  Any call may fail. The handler behind the middleware is a parameter.
\<close>

section \<open>The store\<close>

record CachedResponse =
  cs_StatusCode :: nat
  cs_Body :: snap_body
  cs_PaymentRequestID :: string

text \<open>An entry with the instant it expires at, in nanoseconds; nothing when it does not.\<close>

record idem_store =
  st_values :: "string \<Rightarrow> (CachedResponse \<times> int option) option"
  st_locks :: "string \<Rightarrow> int option option"

record redis_env =
  rd_now :: int
  rd_get_fails :: bool
  rd_lock_fails :: bool
  rd_set_fails :: bool
  rd_release_fails :: bool

definition expiry :: "redis_env \<Rightarrow> int \<Rightarrow> int option" where
  "expiry e ttl = (if ttl \<le> 0 then None else Some (rd_now e + ttl))"

definition alive :: "int \<Rightarrow> int option \<Rightarrow> bool" where
  "alive now x = (case x of None \<Rightarrow> True | Some t \<Rightarrow> now < t)"

definition redis_error :: gerr where
  "redis_error = ErrOther ''failed to get redis cache''"

definition GetResponseCache :: "redis_env \<Rightarrow> string \<Rightarrow> idem_store \<Rightarrow> gerr + CachedResponse option" where
  "GetResponseCache e key st = (if rd_get_fails e then Inl redis_error
     else Inr (case st_values st key of None \<Rightarrow> None | Some (c, x) \<Rightarrow> if alive (rd_now e) x then Some c else None))"

definition AcquireLock :: "redis_env \<Rightarrow> string \<Rightarrow> int \<Rightarrow> idem_store \<Rightarrow> (gerr + bool) \<times> idem_store" where
  "AcquireLock e key ttl st = (if rd_lock_fails e then (Inl redis_error, st)
     else if (case st_locks st key of None \<Rightarrow> False | Some x \<Rightarrow> alive (rd_now e) x) then (Inr False, st)
     else (Inr True, st\<lparr>st_locks := (st_locks st)(key := Some (expiry e ttl))\<rparr>))"

definition ReleaseLock :: "redis_env \<Rightarrow> string \<Rightarrow> idem_store \<Rightarrow> idem_store" where
  "ReleaseLock e key st = (if rd_release_fails e then st else st\<lparr>st_locks := (st_locks st)(key := None)\<rparr>)"

definition SetResponseCache :: "redis_env \<Rightarrow> string \<Rightarrow> CachedResponse \<Rightarrow> int \<Rightarrow> idem_store \<Rightarrow> idem_store" where
  "SetResponseCache e key value ttl st = (if rd_set_fails e then st
     else st\<lparr>st_values := (st_values st)(key := Some (value, expiry e ttl))\<rparr>)"

section \<open>The middleware\<close>

text \<open>The body's \<^verbatim>\<open>paymentRequestId\<close>, nothing when the body does not parse.\<close>

record idem_request =
  mq_Method :: string
  mq_Path :: string
  mq_ExternalID :: string
  mq_PaymentRequestID :: "string option"

record idem_config =
  ix_doubleFlagPassthrough :: "(string \<Rightarrow> bool) option"
  ix_zone :: int
  ix_lockTTL :: int
  ix_cacheTTL :: int

definition dayStamp :: "idem_config \<Rightarrow> int \<Rightarrow> string" where
  "dayStamp cfg now = yyyymmdd (in_zone (ix_zone cfg) \<lparr>tm_ns = now, tm_off = 0\<rparr>)"

definition idempotencyKey :: "idem_config \<Rightarrow> int \<Rightarrow> string \<Rightarrow> string" where
  "idempotencyKey cfg now externalID = dayStamp cfg now @ '':'' @ externalID"

definition passes_double_flags :: "idem_config \<Rightarrow> idem_request \<Rightarrow> bool" where
  "passes_double_flags cfg req = (case ix_doubleFlagPassthrough cfg of None \<Rightarrow> False | Some pred \<Rightarrow> pred (mq_Path req))"

definition paymentRequestIDOf :: "idem_config \<Rightarrow> idem_request \<Rightarrow> string" where
  "paymentRequestIDOf cfg req = (if \<not> passes_double_flags cfg req then []
     else case mq_PaymentRequestID req of None \<Rightarrow> [] | Some p \<Rightarrow> p)"

definition isDoubleFlag :: "idem_config \<Rightarrow> idem_request \<Rightarrow> CachedResponse \<Rightarrow> string \<Rightarrow> bool" where
  "isDoubleFlag cfg req cached prid = (passes_double_flags cfg req \<and> prid \<noteq> [] \<and> cs_PaymentRequestID cached = prid)"

definition emptyEcho :: VAIdentityEcho where
  "emptyEcho = \<lparr>ec_PartnerServiceID = [], ec_CustomerNo = [], ec_VirtualAccountNo = [], ec_InquiryRequestID = [], ec_PaymentRequestID = []\<rparr>"

definition conflict :: "idem_request \<Rightarrow> nat \<times> snap_body" where
  "conflict req = (409, NewSNAPErrorBody (ServiceCodeForPath (mq_Path req)) (CodeConflict (ServiceCodeForPath (mq_Path req)))
     ''Conflict'' emptyEcho)"

definition missing_external_id :: "idem_request \<Rightarrow> nat \<times> snap_body" where
  "missing_external_id req = (400, NewSNAPErrorBody (ServiceCodeForPath (mq_Path req))
     (CodeMissingMandatory (ServiceCodeForPath (mq_Path req))) ''Invalid Mandatory Field [X-EXTERNAL-ID]'' emptyEcho)"

definition is_reading :: "idem_request \<Rightarrow> bool" where
  "is_reading req = (mq_Method req \<in> {''GET'', ''OPTIONS'', ''HEAD''})"

text \<open>The three accesses to the store: before the lock, and after the handler.\<close>

definition already_answered :: "idem_config \<Rightarrow> redis_env \<Rightarrow> string \<Rightarrow> idem_request \<Rightarrow> idem_store \<Rightarrow> bool" where
  "already_answered cfg e key req st = (case GetResponseCache e key st of
      Inr (Some cached) \<Rightarrow> \<not> isDoubleFlag cfg req cached (paymentRequestIDOf cfg req) | _ \<Rightarrow> False)"

definition record_answer :: "idem_config \<Rightarrow> redis_env \<Rightarrow> string \<Rightarrow> idem_request \<Rightarrow> nat \<times> snap_body \<Rightarrow> idem_store \<Rightarrow> idem_store" where
  "record_answer cfg e key req answer st = (if fst answer < 500
     then SetResponseCache e key \<lparr>cs_StatusCode = fst answer, cs_Body = snd answer, cs_PaymentRequestID = paymentRequestIDOf cfg req\<rparr>
            (ix_cacheTTL cfg) st
     else st)"

text \<open>
  One request: \<open>e1\<close> is Redis and the clock before the handler runs, \<open>e2\<close> after it. The flag says whether the
  handler was called.
\<close>

definition IdempotencyMiddleware ::
    "idem_config \<Rightarrow> redis_env \<Rightarrow> redis_env \<Rightarrow> idem_request \<Rightarrow> ('w \<Rightarrow> (nat \<times> snap_body) \<times> 'w) \<Rightarrow> idem_store \<Rightarrow> 'w \<Rightarrow>
      (nat \<times> snap_body) \<times> bool \<times> idem_store \<times> 'w" where
  "IdempotencyMiddleware cfg e1 e2 req next st w =
    (if is_reading req then (case next w of (answer, w1) \<Rightarrow> (answer, True, st, w1))
     else if mq_ExternalID req = [] then (missing_external_id req, False, st, w)
     else
       let key = idempotencyKey cfg (rd_now e1) (mq_ExternalID req) in
       if already_answered cfg e1 key req st then (conflict req, False, st, w)
       else (case AcquireLock e1 key (ix_lockTTL cfg) st of (locked, st1) \<Rightarrow>
         if locked \<noteq> Inr True then (conflict req, False, st1, w)
         else (case next w of (answer, w1) \<Rightarrow>
           (answer, True, ReleaseLock e2 key (record_answer cfg e2 key req answer st1), w1))))"

section \<open>Requests at the same time\<close>

text \<open>
  The same accesses as steps of concurrent requests on one store. The handler's answer is arbitrary. Requests
  that do not carry an identifier, or only read, never touch the store and are left out. \<open>sy_since\<close> is auxiliary:
  the instant at which a request was granted its lock, which no step reads.
\<close>

datatype idem_phase = Arrived | Checked string | Handling string | Answered string "nat \<times> snap_body"
  | Recorded string "nat \<times> snap_body" | Finished "nat \<times> snap_body"

record idem_system =
  sy_now :: int
  sy_store :: idem_store
  sy_phase :: "nat \<Rightarrow> idem_phase"
  sy_since :: "nat \<Rightarrow> int"
  sy_handled :: "nat list"

definition set_phase :: "nat \<Rightarrow> idem_phase \<Rightarrow> idem_system \<Rightarrow> idem_system" where
  "set_phase i p s = s\<lparr>sy_phase := (sy_phase s)(i := p)\<rparr>"

inductive idem_step :: "idem_config \<Rightarrow> (nat \<Rightarrow> idem_request) \<Rightarrow> idem_system \<Rightarrow> idem_system \<Rightarrow> bool" for cfg reqs where
  tick: "sy_now s \<le> n \<Longrightarrow> idem_step cfg reqs s (s\<lparr>sy_now := n\<rparr>)"
| check: "sy_phase s i = Arrived \<Longrightarrow> rd_now e = sy_now s \<Longrightarrow> key = idempotencyKey cfg (rd_now e) (mq_ExternalID (reqs i)) \<Longrightarrow>
    idem_step cfg reqs s (set_phase i (if already_answered cfg e key (reqs i) (sy_store s)
       then Finished (conflict (reqs i)) else Checked key) s)"
| acquire: "sy_phase s i = Checked key \<Longrightarrow> rd_now e = sy_now s \<Longrightarrow> AcquireLock e key (ix_lockTTL cfg) (sy_store s) = (Inr True, st) \<Longrightarrow>
    idem_step cfg reqs s (set_phase i (Handling key) (s\<lparr>sy_store := st, sy_since := (sy_since s)(i := sy_now s), sy_handled := sy_handled s @ [i]\<rparr>))"
| refuse: "sy_phase s i = Checked key \<Longrightarrow> rd_now e = sy_now s \<Longrightarrow> AcquireLock e key (ix_lockTTL cfg) (sy_store s) = (r, st) \<Longrightarrow> r \<noteq> Inr True \<Longrightarrow>
    idem_step cfg reqs s (set_phase i (Finished (conflict (reqs i))) (s\<lparr>sy_store := st\<rparr>))"
| answer: "sy_phase s i = Handling key \<Longrightarrow> idem_step cfg reqs s (set_phase i (Answered key a) s)"
| store: "sy_phase s i = Answered key a \<Longrightarrow> rd_now e = sy_now s \<Longrightarrow>
    idem_step cfg reqs s (set_phase i (Recorded key a) (s\<lparr>sy_store := record_answer cfg e key (reqs i) a (sy_store s)\<rparr>))"
| release: "sy_phase s i = Recorded key a \<Longrightarrow> rd_now e = sy_now s \<Longrightarrow>
    idem_step cfg reqs s (set_phase i (Finished a) (s\<lparr>sy_store := ReleaseLock e key (sy_store s)\<rparr>))"

end
