(* ===== verification/IdemProps.thy ===== *)
theory IdemProps
  imports Idempotency
begin

text \<open>
  Replay protection: a refinement of the middleware to a set of spent identifiers, that an identifier is spent for
  the rest of its day and free on the next, mutual exclusion of concurrent repeats, and the race it leaves.
\<close>

section \<open>Days\<close>

definition local_day :: "idem_config \<Rightarrow> int \<Rightarrow> int" where
  "local_day cfg now = local_seconds (in_zone (ix_zone cfg) \<lparr>tm_ns = now, tm_off = 0\<rparr>) div 86400"

definition day_length :: int where
  "day_length = 86400 * nanos_per_second"

lemma same_day_near:
  assumes "local_day cfg t = local_day cfg u"
  shows "t < u + day_length"
proof -
  define a b where "a = t div 1000000000 + ix_zone cfg" and "b = u div 1000000000 + ix_zone cfg"
  have "a div 86400 = b div 86400"
    using assms by (simp add: a_def b_def local_day_def local_seconds_def in_zone_def nanos_per_second_def)
  moreover have "a = a div 86400 * 86400 + a mod 86400" "b = b div 86400 * 86400 + b mod 86400" "a mod 86400 < 86400" "0 \<le> b mod 86400"
    by simp_all
  ultimately have "a - b < 86400" by linarith
  then have "t div 1000000000 \<le> u div 1000000000 + 86399" by (simp add: a_def b_def)
  moreover have "t = t div 1000000000 * 1000000000 + t mod 1000000000" "t mod 1000000000 < 1000000000"
    "u = u div 1000000000 * 1000000000 + u mod 1000000000" "0 \<le> u mod 1000000000" by simp_all
  ultimately show ?thesis unfolding day_length_def nanos_per_second_def by linarith
qed

lemma same_day_key: "local_day cfg t = local_day cfg u \<Longrightarrow> idempotencyKey cfg t x = idempotencyKey cfg u x"
  by (simp add: idempotencyKey_def dayStamp_def yyyymmdd_def local_date_def local_day_def)

text \<open>A stamp of a year of four digits is its date.\<close>

definition four_digit_year :: "idem_config \<Rightarrow> int \<Rightarrow> bool" where
  "four_digit_year cfg now = (case civil (local_day cfg now) of (y, m, d) \<Rightarrow> 0 \<le> y \<and> y < 10000)"

lemma dec_fixed_inject:
  assumes "0 \<le> m" "0 \<le> n"
  shows "dec2 m = dec2 n \<Longrightarrow> m = n" "dec4 m = dec4 n \<Longrightarrow> m = n"
  using assms pad0_dec_inject by (auto simp: dec2_def dec4_def)

lemma month_length_small: "civil n = (y, m, d) \<Longrightarrow> 0 \<le> m \<and> m < 100 \<and> 0 \<le> d \<and> d < 100"
proof -
  assume c: "civil n = (y, m, d)"
  note rng = civil_range [OF c]
  have "nat (m - 1) < length (month_lengths y)" using rng by (simp add: month_lengths_def)
  then have "month_lengths y ! nat (m - 1) \<in> set (month_lengths y)" by (rule nth_mem)
  then have "month_lengths y ! nat (m - 1) \<le> 31" by (auto simp: month_lengths_def split: if_splits)
  with rng show ?thesis by simp
qed

lemma length_dec_fixed:
  "0 \<le> n \<Longrightarrow> n < 100 \<Longrightarrow> length (dec2 n) = 2" "0 \<le> n \<Longrightarrow> n < 10000 \<Longrightarrow> length (dec4 n) = 4"
  using length_dec_le [of 2 "nat n"] length_dec_le [of 4 "nat n"] by (auto simp: dec2_def dec4_def length_pad0)

lemma next_day_key:
  assumes "four_digit_year cfg t" and "four_digit_year cfg u" and "local_day cfg t \<noteq> local_day cfg u"
  shows "idempotencyKey cfg t x \<noteq> idempotencyKey cfg u x"
proof
  assume k: "idempotencyKey cfg t x = idempotencyKey cfg u x"
  obtain y m d where c: "civil (local_day cfg t) = (y, m, d)" by (cases "civil (local_day cfg t)")
  obtain y' m' d' where c': "civil (local_day cfg u) = (y', m', d')" by (cases "civil (local_day cfg u)")
  have y: "0 \<le> y" "y < 10000" "0 \<le> y'" "y' < 10000" using assms(1,2) c c' by (simp_all add: four_digit_year_def)
  note s = month_length_small [OF c] month_length_small [OF c']
  have e: "dec4 y @ dec2 m @ dec2 d = dec4 y' @ dec2 m' @ dec2 d'"
    using k c c' by (simp add: idempotencyKey_def dayStamp_def yyyymmdd_def local_date_def local_day_def)
  then have "dec4 y = dec4 y'" "dec2 m @ dec2 d = dec2 m' @ dec2 d'"
    using y length_dec_fixed(2) [of y] length_dec_fixed(2) [of y'] by (auto simp: append_eq_append_conv)
  moreover from this have "dec2 m = dec2 m'" "dec2 d = dec2 d'"
    using s length_dec_fixed(1) [of m] length_dec_fixed(1) [of m'] by (auto simp: append_eq_append_conv)
  ultimately have "y = y'" "m = m'" "d = d'" using dec_fixed_inject y s by metis+
  then have "local_day cfg t = local_day cfg u" using civil_inverse [OF c] civil_inverse [OF c'] by simp
  with assms(3) show False by simp
qed

section \<open>The middleware refines a set of spent identifiers\<close>

text \<open>
  The abstract specification: which keys have been answered, with the payment identifier of the answered
  request. It has no locks, no expiry and no failures.
\<close>

type_synonym spent = "string \<Rightarrow> string option"

definition is_repeat :: "idem_config \<Rightarrow> idem_request \<Rightarrow> string option \<Rightarrow> bool" where
  "is_repeat cfg req x = (case x of None \<Rightarrow> False
     | Some p \<Rightarrow> \<not> (passes_double_flags cfg req \<and> paymentRequestIDOf cfg req \<noteq> [] \<and> p = paymentRequestIDOf cfg req))"

definition spend ::
    "idem_config \<Rightarrow> idem_request \<Rightarrow> string \<Rightarrow> ('w \<Rightarrow> (nat \<times> snap_body) \<times> 'w) \<Rightarrow> spent \<Rightarrow> 'w \<Rightarrow> (nat \<times> snap_body) \<times> bool \<times> spent \<times> 'w" where
  "spend cfg req key next seen w = (if is_repeat cfg req (seen key) then (conflict req, False, seen, w)
     else (case next w of (a, w1) \<Rightarrow> (a, True, if fst a < 500 then seen(key \<mapsto> paymentRequestIDOf cfg req) else seen, w1)))"

definition spent_at :: "int \<Rightarrow> idem_store \<Rightarrow> spent" where
  "spent_at now st key = (case st_values st key of None \<Rightarrow> None
     | Some (c, x) \<Rightarrow> if alive now x then Some (cs_PaymentRequestID c) else None)"

definition redis_works :: "redis_env \<Rightarrow> bool" where
  "redis_works e = (\<not> rd_get_fails e \<and> \<not> rd_lock_fails e \<and> \<not> rd_set_fails e \<and> \<not> rd_release_fails e)"

definition unlocked :: "int \<Rightarrow> string \<Rightarrow> idem_store \<Rightarrow> bool" where
  "unlocked now key st = (case st_locks st key of None \<Rightarrow> True | Some x \<Rightarrow> \<not> alive now x)"

lemma already_answered_iff:
  "\<not> rd_get_fails e \<Longrightarrow> already_answered cfg e key req st \<longleftrightarrow> is_repeat cfg req (spent_at (rd_now e) st key)"
  by (auto simp: already_answered_def GetResponseCache_def is_repeat_def spent_at_def isDoubleFlag_def split: option.splits)

lemma expiry_alive: "alive (rd_now e) (expiry e ttl)"
  by (simp add: alive_def expiry_def)

text \<open>C16: With Redis working, and no other request holding the identifier, the middleware is the abstract rule: a
  day's identifier that was answered is refused, except for a double flag, everything else is handed on, and
  answers below 500 spend the identifier; the lock is free again afterwards.\<close>

theorem middleware_refines_spent_ids:
  assumes "redis_works e1" and "redis_works e2" and "\<not> is_reading req" and "mq_ExternalID req \<noteq> []"
    and "key = idempotencyKey cfg (rd_now e1) (mq_ExternalID req)" and "unlocked (rd_now e1) key st"
    and "spent_at (rd_now e2) st = spent_at (rd_now e1) st"
  shows "(case IdempotencyMiddleware cfg e1 e2 req next st w of (a, called, st', w') \<Rightarrow>
      (a, called, spent_at (rd_now e2) st', w') = spend cfg req key next (spent_at (rd_now e1) st) w \<and>
      unlocked (rd_now e2) key st' = (called \<or> unlocked (rd_now e2) key st))"
proof -
  have ok: "\<not> rd_get_fails e1" "\<not> rd_lock_fails e1" "\<not> rd_set_fails e2" "\<not> rd_release_fails e2"
    using assms(1,2) by (simp_all add: redis_works_def)
  obtain a w1 where n: "next w = (a, w1)" by fastforce
  have l: "AcquireLock e1 key (ix_lockTTL cfg) st = (Inr True, st\<lparr>st_locks := (st_locks st)(key := Some (expiry e1 (ix_lockTTL cfg)))\<rparr>)"
    using ok assms(6) by (auto simp: AcquireLock_def unlocked_def split: option.splits)
  show ?thesis
  proof (cases "is_repeat cfg req (spent_at (rd_now e1) st key)")
    case True
    then show ?thesis using already_answered_iff [OF ok(1), of cfg key req st] assms(3-5,7)
      by (simp add: IdempotencyMiddleware_def Let_def spend_def)
  next
    case False
    define st' where "st' = ReleaseLock e2 key (record_answer cfg e2 key req a
        (st\<lparr>st_locks := (st_locks st)(key := Some (expiry e1 (ix_lockTTL cfg)))\<rparr>))"
    have m: "IdempotencyMiddleware cfg e1 e2 req next st w = (a, True, st', w1)"
      using False already_answered_iff [OF ok(1), of cfg key req st] assms(3-5) l n
      by (simp add: IdempotencyMiddleware_def Let_def st'_def)
    have v: "st_values st' = (if fst a < 500 then (st_values st)(key \<mapsto> (\<lparr>cs_StatusCode = fst a, cs_Body = snd a,
        cs_PaymentRequestID = paymentRequestIDOf cfg req\<rparr>, expiry e2 (ix_cacheTTL cfg))) else st_values st)"
      using ok by (simp add: st'_def ReleaseLock_def record_answer_def SetResponseCache_def)
    have "spent_at (rd_now e2) st' = (if fst a < 500 then (spent_at (rd_now e2) st)(key \<mapsto> paymentRequestIDOf cfg req)
        else spent_at (rd_now e2) st)"
      by (auto simp: fun_eq_iff spent_at_def v expiry_alive)
    moreover have "unlocked (rd_now e2) key st'" using ok by (simp add: st'_def ReleaseLock_def unlocked_def)
    ultimately show ?thesis using False n assms(7) by (simp add: m spend_def)
  qed
qed

definition demo_redis :: "int \<Rightarrow> redis_env" where
  "demo_redis t = \<lparr>rd_now = t, rd_get_fails = False, rd_lock_fails = False, rd_set_fails = False, rd_release_fails = False\<rparr>"

definition empty_store :: idem_store where
  "empty_store = \<lparr>st_values = (\<lambda>_. None), st_locks = (\<lambda>_. None)\<rparr>"

definition demo_idem :: idem_config where
  "demo_idem = \<lparr>ix_doubleFlagPassthrough = Some (\<lambda>p. p = ''/transfer-va/payment''), ix_zone = 25200,
     ix_lockTTL = 30 * nanos_per_second, ix_cacheTTL = 2 * day_length\<rparr>"

definition demo_post :: idem_request where
  "demo_post = \<lparr>mq_Method = ''POST'', mq_Path = ''/transfer-va/inquiry'', mq_ExternalID = ''41'', mq_PaymentRequestID = None\<rparr>"

theorem middleware_refines_spent_ids_witness:
  "case IdempotencyMiddleware demo_idem (demo_redis 0) (demo_redis 5) demo_post (\<lambda>n. (conflict demo_post, n + 1)) empty_store (0 :: nat) of
     (a, called, st', w') \<Rightarrow> called \<and> w' = 1 \<and> spent_at 5 st' (idempotencyKey demo_idem 0 ''41'') = Some []"
proof -
  have r: "redis_works (demo_redis t)" for t by (simp add: redis_works_def demo_redis_def)
  have nr: "\<not> is_reading demo_post" "mq_ExternalID demo_post \<noteq> []" by (simp_all add: is_reading_def demo_post_def)
  have u: "unlocked (rd_now (demo_redis 0)) k empty_store" "spent_at t empty_store = (\<lambda>_. None)" for k t
    by (simp_all add: unlocked_def empty_store_def spent_at_def fun_eq_iff)
  have "paymentRequestIDOf demo_idem demo_post = []"
    by (simp add: paymentRequestIDOf_def passes_double_flags_def demo_idem_def demo_post_def)
  then show ?thesis
    using middleware_refines_spent_ids [OF r [of 0] r [of 5] nr refl u(1), of demo_idem "\<lambda>n. (conflict demo_post, n + 1)" "0 :: nat"]
    by (auto simp: u spend_def is_repeat_def conflict_def demo_redis_def demo_post_def split: prod.splits)
qed

section \<open>An identifier is spent for its day\<close>

text \<open>A request with the Redis environments around its handler and the handler's answer.\<close>

type_synonym idem_run = "redis_env \<times> redis_env \<times> idem_request \<times> (nat \<times> snap_body)"

definition idem_after :: "idem_config \<Rightarrow> idem_run \<Rightarrow> idem_store \<Rightarrow> idem_store" where
  "idem_after cfg r st = (case r of (e1, e2, req, a) \<Rightarrow>
     case IdempotencyMiddleware cfg e1 e2 req (\<lambda>u. (a, u)) st () of (_, _, st', _) \<Rightarrow> st')"

text \<open>The key is marked as answered with a payment identifier, until the given instant at least.\<close>

definition marked :: "string \<Rightarrow> string \<Rightarrow> int \<Rightarrow> idem_store \<Rightarrow> bool" where
  "marked key p until st = (\<exists>c x. st_values st key = Some (c, x) \<and> cs_PaymentRequestID c = p \<and> (\<forall>now < until. alive now x))"

lemma marked_spent: "marked key p until st \<Longrightarrow> now < until \<Longrightarrow> spent_at now st key = Some p"
  by (auto simp: marked_def spent_at_def)

lemma marked_cong: "st_values st' key = st_values st key \<Longrightarrow> marked key p until st' = marked key p until st"
  by (simp add: marked_def)

lemma values_Release [simp]: "st_values (ReleaseLock e key st) = st_values st"
  by (simp add: ReleaseLock_def)

lemma values_Acquire: "AcquireLock e key ttl st = (r, st') \<Longrightarrow> st_values st' = st_values st"
  by (auto simp: AcquireLock_def split: if_splits)

lemma marked_record:
  assumes "fst a < 500" and "\<not> rd_set_fails e" and "until \<le> rd_now e + ix_cacheTTL cfg"
  shows "marked key (paymentRequestIDOf cfg req) until (record_answer cfg e key req a st)"
  using assms by (auto simp: marked_def record_answer_def SetResponseCache_def alive_def expiry_def)

lemma run_keeps_mark:
  assumes m: "marked key p until st" and "\<not> rd_get_fails e1" and "rd_now e1 < until" and "until \<le> rd_now e2 + ix_cacheTTL cfg"
    and r: "IdempotencyMiddleware cfg e1 e2 req next st w = (a, called, st', w')"
  shows "marked key p until st'"
proof (cases "is_reading req \<or> mq_ExternalID req = []")
  case True
  then have "st' = st" using r by (auto simp: IdempotencyMiddleware_def split: if_splits prod.splits)
  with m show ?thesis by simp
next
  case False
  define k where "k = idempotencyKey cfg (rd_now e1) (mq_ExternalID req)"
  obtain locked st1 where l: "AcquireLock e1 k (ix_lockTTL cfg) st = (locked, st1)" by fastforce
  note v1 = values_Acquire [OF l]
  obtain b w1 where n: "next w = (b, w1)" by fastforce
  consider "st' = st" | "st' = st1"
    | "\<not> already_answered cfg e1 k req st" "st' = ReleaseLock e2 k (record_answer cfg e2 k req b st1)"
    using r False l n by (auto simp: IdempotencyMiddleware_def Let_def k_def [symmetric] split: if_splits)
  then show ?thesis
  proof cases
    case 3
    show ?thesis
    proof (cases "k = key")
      case True
      have "\<not> is_repeat cfg req (Some p)"
        using 3(1) already_answered_iff [OF assms(2), of cfg k req st] marked_spent [OF m assms(3)] True by simp
      then have p: "paymentRequestIDOf cfg req = p" by (simp add: is_repeat_def)
      have "marked k p until (record_answer cfg e2 k req b st1)"
        using marked_record [of b e2 until cfg k req st1] m marked_cong [of st1 key st p until] v1 assms(4) p True
        by (cases "fst b < 500 \<and> \<not> rd_set_fails e2") (auto simp: record_answer_def SetResponseCache_def)
      with True show ?thesis by (simp add: 3(2) marked_def)
    next
      case False
      then have "st_values st' key = st_values st key"
        using 3(2) v1 by (simp add: record_answer_def SetResponseCache_def)
      with m show ?thesis by (simp add: marked_def)
    qed
  qed (use m v1 in \<open>simp_all add: marked_def\<close>)
qed

definition between :: "redis_env \<Rightarrow> redis_env \<Rightarrow> idem_run \<Rightarrow> bool" where
  "between e f r = (case r of (e1, e2, req, a) \<Rightarrow> \<not> rd_get_fails e1 \<and> rd_now e \<le> rd_now e1 \<and> rd_now e1 \<le> rd_now e2 \<and> rd_now e2 \<le> rd_now f)"

lemma runs_keep_mark:
  assumes "marked key p until st" and "\<forall>r \<in> set runs. between e f r" and "rd_now f < until"
    and "until = rd_now e + ix_cacheTTL cfg"
  shows "marked key p until (fold (idem_after cfg) runs st)"
  using assms(1,2)
proof (induction runs arbitrary: st)
  case (Cons r runs)
  obtain e1 e2 req a where r: "r = (e1, e2, req, a)" by (cases r)
  have b: "\<not> rd_get_fails e1" "rd_now e1 < until" "until \<le> rd_now e2 + ix_cacheTTL cfg"
    using Cons.prems(2) assms(3,4) by (auto simp: between_def r)
  obtain x y st' z where m: "IdempotencyMiddleware cfg e1 e2 req (\<lambda>u. (a, u)) st () = (x, y, st', z)"
    by (metis prod_cases4)
  have "marked key p until (idem_after cfg r st)"
    using run_keeps_mark [OF Cons.prems(1) b m] by (simp add: idem_after_def r m)
  with Cons show ?case by simp
qed simp

lemma answer_marks:
  assumes "IdempotencyMiddleware cfg e1 e2 req next st w = (a, True, st1, w1)" and "\<not> is_reading req" and "mq_ExternalID req \<noteq> []"
    and "fst a < 500" and "\<not> rd_set_fails e2"
  shows "marked (idempotencyKey cfg (rd_now e1) (mq_ExternalID req)) (paymentRequestIDOf cfg req) (rd_now e2 + ix_cacheTTL cfg) st1"
proof -
  define key where "key = idempotencyKey cfg (rd_now e1) (mq_ExternalID req)"
  have "\<exists>s. st1 = ReleaseLock e2 key (record_answer cfg e2 key req a s)"
    using assms(1-3) by (auto simp: IdempotencyMiddleware_def Let_def key_def split: if_splits prod.splits)
  then show ?thesis unfolding key_def [symmetric]
    using marked_record [OF assms(4,5), of "rd_now e2 + ix_cacheTTL cfg" cfg key req] by (auto simp: marked_def)
qed

lemma marked_refused:
  assumes "marked (idempotencyKey cfg (rd_now e) (mq_ExternalID req)) p until st" and "rd_now e < until" and "\<not> rd_get_fails e"
    and "\<not> is_reading req" and "mq_ExternalID req \<noteq> []" and "is_repeat cfg req (Some p)"
  shows "IdempotencyMiddleware cfg e e2 req next st w = (conflict req, False, st, w)"
  using marked_spent [OF assms(1,2)] assms(4-6) already_answered_iff [OF assms(3)] by (simp add: IdempotencyMiddleware_def Let_def)

text \<open>C17: When a request with an identifier was answered below 500, every later request of the same calendar day
  with that identifier is refused as a conflict without reaching the handler and without effect, whatever
  other requests came in between, unless it is a double flag of the same payment on an endpoint that passes
  them; on another day the identifier addresses a different record.\<close>

theorem external_id_spent_for_the_day:
  assumes "day_length \<le> ix_cacheTTL cfg"
    and "IdempotencyMiddleware cfg e1 e2 req next st w = (a, True, st1, w1)" and "\<not> is_reading req" and "mq_ExternalID req \<noteq> []"
    and "fst a < 500" and "\<not> rd_set_fails e2" and "rd_now e1 \<le> rd_now e2"
    and "\<forall>r \<in> set runs. between e2 f1 r" and "rd_now e2 \<le> rd_now f1"
    and "\<not> rd_get_fails f1" and "\<not> is_reading req'" and "mq_ExternalID req' = mq_ExternalID req"
    and "\<not> (passes_double_flags cfg req' \<and> paymentRequestIDOf cfg req' \<noteq> [] \<and> paymentRequestIDOf cfg req = paymentRequestIDOf cfg req')"
    and "four_digit_year cfg (rd_now e1)" and "four_digit_year cfg (rd_now f1)"
  shows "if local_day cfg (rd_now f1) = local_day cfg (rd_now e1)
    then IdempotencyMiddleware cfg f1 f2 req' next' (fold (idem_after cfg) runs st1) w' =
      (conflict req', False, fold (idem_after cfg) runs st1, w')
    else idempotencyKey cfg (rd_now f1) (mq_ExternalID req') \<noteq> idempotencyKey cfg (rd_now e1) (mq_ExternalID req)"
proof (cases "local_day cfg (rd_now f1) = local_day cfg (rd_now e1)")
  case True
  define key until where "key = idempotencyKey cfg (rd_now e1) (mq_ExternalID req)" and "until = rd_now e2 + ix_cacheTTL cfg"
  have "marked key (paymentRequestIDOf cfg req) until st1"
    unfolding key_def until_def by (rule answer_marks [OF assms(2-6)])
  moreover have f: "rd_now f1 < until" using same_day_near [OF True] assms(1,7) by (simp add: until_def)
  ultimately have m: "marked key (paymentRequestIDOf cfg req) until (fold (idem_after cfg) runs st1)"
    using runs_keep_mark assms(8) until_def by blast
  have "key = idempotencyKey cfg (rd_now f1) (mq_ExternalID req')"
    using same_day_key [OF True] assms(12) by (simp add: key_def)
  moreover have "is_repeat cfg req' (Some (paymentRequestIDOf cfg req))" using assms(13) by (simp add: is_repeat_def)
  ultimately show ?thesis using True marked_refused [of cfg f1 req'] m f assms(4,10-12) by simp
next
  case False
  then show ?thesis using next_day_key [OF assms(15,14) False] assms(12) by simp
qed

theorem external_id_spent_for_the_day_witness:
  "IdempotencyMiddleware demo_idem (demo_redis 60) (demo_redis 70) demo_post (\<lambda>n. (conflict demo_post, n + 1))
      (idem_after demo_idem (demo_redis 0, demo_redis 5, demo_post, conflict demo_post) empty_store) (0 :: nat) =
    (conflict demo_post, False, idem_after demo_idem (demo_redis 0, demo_redis 5, demo_post, conflict demo_post) empty_store, 0)"
proof -
  obtain a b st1 w1 where m: "IdempotencyMiddleware demo_idem (demo_redis 0) (demo_redis 5) demo_post (\<lambda>u. (conflict demo_post, u)) empty_store () =
      (a, b, st1, w1)" by (metis prod_cases4)
  then have ab: "b = True" "a = conflict demo_post"
    by (auto simp: IdempotencyMiddleware_def is_reading_def demo_post_def Let_def already_answered_def GetResponseCache_def
        AcquireLock_def demo_redis_def empty_store_def)
  have st: "idem_after demo_idem (demo_redis 0, demo_redis 5, demo_post, conflict demo_post) empty_store = st1"
    by (simp add: idem_after_def m)
  have d: "local_day demo_idem 60 = local_day demo_idem 0" "four_digit_year demo_idem 0" "four_digit_year demo_idem 60"
    by (simp_all add: four_digit_year_def local_day_def local_seconds_def in_zone_def nanos_per_second_def demo_idem_def
        civil_def year_yday_def month_lengths_def is_leap_def)
  have ttl: "day_length \<le> ix_cacheTTL demo_idem" by (simp add: demo_idem_def day_length_def nanos_per_second_def)
  have p: "paymentRequestIDOf demo_idem demo_post = []" "\<not> is_reading demo_post" "mq_ExternalID demo_post \<noteq> []" "fst (conflict demo_post) < 500"
    by (simp_all add: paymentRequestIDOf_def passes_double_flags_def demo_idem_def demo_post_def is_reading_def conflict_def)
  show ?thesis
    unfolding st using external_id_spent_for_the_day [OF ttl m [unfolded ab], of "[]" "demo_redis 60" demo_post "demo_redis 70"
        "\<lambda>n. (conflict demo_post, n + 1)" "0 :: nat"] p d by (simp add: demo_redis_def)
qed

section \<open>Concurrent repeats\<close>

fun holds :: "idem_phase \<Rightarrow> string option" where
  "holds (Handling k) = Some k"
| "holds (Answered k a) = Some k"
| "holds (Recorded k a) = Some k"
| "holds _ = None"

definition idem_start :: "idem_system \<Rightarrow> bool" where
  "idem_start s = ((\<forall>i. sy_phase s i = Arrived) \<and> sy_handled s = [] \<and> sy_store s = empty_store)"

text \<open>
  No request outlives its lock: every request between acquiring and releasing got its lock less than the lock's time to
  live ago. This speaks of the clock only; that the lock is still stored, and is the request's own, is proved below.
\<close>

definition timely :: "idem_config \<Rightarrow> idem_system \<Rightarrow> bool" where
  "timely cfg s = (\<forall>i. holds (sy_phase s i) \<noteq> None \<longrightarrow> 0 < ix_lockTTL cfg \<longrightarrow> sy_now s < sy_since s i + ix_lockTTL cfg)"

inductive timely_reach :: "idem_config \<Rightarrow> (nat \<Rightarrow> idem_request) \<Rightarrow> idem_system \<Rightarrow> bool" for cfg reqs where
  start: "idem_start s \<Longrightarrow> timely_reach cfg reqs s"
| step: "timely_reach cfg reqs s \<Longrightarrow> idem_step cfg reqs s s' \<Longrightarrow> timely cfg s' \<Longrightarrow> timely_reach cfg reqs s'"

text \<open>The invariant: no two requests hold the same key, and the stored lock of a held key is the holder's.\<close>

definition exclusive :: "idem_system \<Rightarrow> bool" where
  "exclusive s = (\<forall>i j k. holds (sy_phase s i) = Some k \<longrightarrow> holds (sy_phase s j) = Some k \<longrightarrow> i = j)"

definition lease :: "idem_config \<Rightarrow> int \<Rightarrow> int option" where
  "lease cfg t = (if ix_lockTTL cfg \<le> 0 then None else Some (t + ix_lockTTL cfg))"

definition own_locks :: "idem_config \<Rightarrow> idem_system \<Rightarrow> bool" where
  "own_locks cfg s = (\<forall>i k. holds (sy_phase s i) = Some k \<longrightarrow> st_locks (sy_store s) k = Some (lease cfg (sy_since s i)))"

lemma exclusive_mono:
  assumes "exclusive s" and "\<And>i k. holds (sy_phase s' i) = Some k \<Longrightarrow> holds (sy_phase s i) = Some k"
  shows "exclusive s'"
  using assms unfolding exclusive_def by blast

lemma exclusive_acquire:
  assumes "exclusive s" and "\<And>i. holds (sy_phase s i) \<noteq> Some key"
    and "\<And>j k. j \<noteq> i \<Longrightarrow> holds (sy_phase s' j) = Some k \<Longrightarrow> holds (sy_phase s j) = Some k"
    and "holds (sy_phase s' i) = Some key"
  shows "exclusive s'"
  using assms unfolding exclusive_def by (metis option.inject)

lemma own_locks_mono:
  assumes "own_locks cfg s" and "\<And>i k. holds (sy_phase s' i) = Some k \<Longrightarrow> holds (sy_phase s i) = Some k"
    and "\<And>i k. holds (sy_phase s' i) = Some k \<Longrightarrow> st_locks (sy_store s') k = st_locks (sy_store s) k" and "sy_since s' = sy_since s"
  shows "own_locks cfg s'"
  using assms unfolding own_locks_def by metis

lemma acquired:
  assumes "AcquireLock e key (ix_lockTTL cfg) st = (Inr True, st')"
  shows "unlocked (rd_now e) key st" "st_locks st' = (st_locks st)(key := Some (lease cfg (rd_now e)))"
  using assms by (auto simp: AcquireLock_def unlocked_def lease_def expiry_def split: if_splits option.splits)

lemma not_acquired: "AcquireLock e key ttl st = (r, st') \<Longrightarrow> r \<noteq> Inr True \<Longrightarrow> st' = st"
  by (auto simp: AcquireLock_def split: if_splits)

lemma locks_record [simp]: "st_locks (record_answer cfg e key req a st) = st_locks st"
  by (simp add: record_answer_def SetResponseCache_def)

lemma locks_Release: "k \<noteq> key \<Longrightarrow> st_locks (ReleaseLock e key st) k = st_locks st k"
  by (simp add: ReleaseLock_def)

lemma held_is_locked:
  assumes "own_locks cfg s" and "timely cfg s" and "holds (sy_phase s i) = Some k"
  shows "\<not> unlocked (sy_now s) k (sy_store s)"
proof -
  have "st_locks (sy_store s) k = Some (lease cfg (sy_since s i))" using assms(1,3) unfolding own_locks_def by blast
  moreover have "0 < ix_lockTTL cfg \<longrightarrow> sy_now s < sy_since s i + ix_lockTTL cfg" using assms(2,3) unfolding timely_def by simp
  ultimately show ?thesis by (simp add: unlocked_def lease_def alive_def)
qed

lemma acquire_invariant:
  fixes i :: nat
  assumes "own_locks cfg s" and "exclusive s" and "timely cfg s" and "rd_now e = sy_now s"
    and "AcquireLock e key (ix_lockTTL cfg) (sy_store s) = (Inr True, st)"
  defines "s' \<equiv> set_phase i (Handling key) (s\<lparr>sy_store := st, sy_since := (sy_since s)(i := sy_now s), sy_handled := sy_handled s @ [i]\<rparr>)"
  shows "exclusive s' \<and> own_locks cfg s'"
proof
  have free: "holds (sy_phase s j) \<noteq> Some key" for j
    using acquired(1) [OF assms(5)] held_is_locked [OF assms(1,3)] assms(4) by auto
  show "exclusive s'"
    by (rule exclusive_acquire [OF assms(2) free, where i = i]) (simp_all add: s'_def set_phase_def)
  have "st_locks (sy_store s') = (st_locks (sy_store s))(key := Some (lease cfg (sy_now s)))"
    using acquired(2) [OF assms(5)] assms(4) by (simp add: s'_def set_phase_def)
  then show "own_locks cfg s'"
    using assms(1) free by (auto simp: own_locks_def s'_def set_phase_def)
qed

lemma release_invariant:
  fixes e :: redis_env
  assumes "own_locks cfg s" and "exclusive s" and "sy_phase s i = Recorded key a"
  defines "s' \<equiv> set_phase i (Finished a) (s\<lparr>sy_store := ReleaseLock e key (sy_store s)\<rparr>)"
  shows "own_locks cfg s'"
proof (rule own_locks_mono [OF assms(1)])
  have mine: "holds (sy_phase s i) = Some key" by (simp add: assms(3))
  fix j k assume "holds (sy_phase s' j) = Some k"
  then show h: "holds (sy_phase s j) = Some k" by (simp add: s'_def set_phase_def split: if_splits)
  from \<open>holds (sy_phase s' j) = Some k\<close> have "j \<noteq> i" by (auto simp: s'_def set_phase_def)
  with mine h assms(2) have "k \<noteq> key" unfolding exclusive_def by blast
  then show "st_locks (sy_store s') k = st_locks (sy_store s) k" by (simp add: s'_def set_phase_def locks_Release)
qed (simp add: s'_def set_phase_def)

lemma step_invariant:
  assumes "idem_step cfg reqs s s'" and "exclusive s" and "own_locks cfg s" and "timely cfg s"
  shows "exclusive s' \<and> own_locks cfg s'"
  using assms(1)
proof cases
  case (acquire i key e st)
  show ?thesis unfolding acquire(1) by (rule acquire_invariant [OF assms(3,2,4) acquire(3,4)])
next
  case (release i key a e)
  have "exclusive s'" by (rule exclusive_mono [OF assms(2)]) (simp add: release(1) set_phase_def split: if_splits)
  moreover have "own_locks cfg s'" unfolding release(1) by (rule release_invariant [OF assms(3,2) release(2)])
  ultimately show ?thesis ..
next
  case (tick n)
  show ?thesis by (intro conjI exclusive_mono [OF assms(2)] own_locks_mono [OF assms(3)]) (simp_all add: tick(1))
next
  case (check i e key)
  show ?thesis
    by (intro conjI exclusive_mono [OF assms(2)] own_locks_mono [OF assms(3)]) (simp_all add: check(1) set_phase_def split: if_splits)
next
  case (refuse i key e r st)
  note same = not_acquired [OF refuse(4,5)]
  show ?thesis
    by (intro conjI exclusive_mono [OF assms(2)] own_locks_mono [OF assms(3)]) (simp_all add: refuse(1) same set_phase_def split: if_splits)
next
  case (answer i key a)
  show ?thesis
    by (intro conjI exclusive_mono [OF assms(2)] own_locks_mono [OF assms(3)]) (use answer in \<open>simp_all add: set_phase_def split: if_splits\<close>)
next
  case (store i key a e)
  show ?thesis
    by (intro conjI exclusive_mono [OF assms(2)] own_locks_mono [OF assms(3)]) (use store in \<open>simp_all add: set_phase_def split: if_splits\<close>)
qed

text \<open>C18: As long as every request finishes within the time to live of its lock, two requests with the same identifier
  on the same day are never in the handler at the same time, whatever the interleaving and whichever calls to Redis
  fail: no step of another request, refused, answered or released, removes or takes over the lock of a request that
  is being handled, and the stored lock of a request being handled is its own and has not expired.\<close>

theorem no_concurrent_repeats:
  assumes "timely_reach cfg reqs s" and "sy_phase s i = Handling key"
  shows "(sy_phase s j = Handling key \<longleftrightarrow> j = i) \<and>
    st_locks (sy_store s) key = Some (lease cfg (sy_since s i)) \<and> \<not> unlocked (sy_now s) key (sy_store s)"
proof -
  have "exclusive s \<and> own_locks cfg s \<and> timely cfg s"
    using assms(1)
  proof induction
    case (start s)
    then show ?case by (simp add: idem_start_def exclusive_def own_locks_def timely_def)
  next
    case (step s s')
    then show ?case using step_invariant by blast
  qed
  moreover from assms(2) have "holds (sy_phase s i) = Some key" by simp
  ultimately have "st_locks (sy_store s) key = Some (lease cfg (sy_since s i))" "\<not> unlocked (sy_now s) key (sy_store s)"
    "holds (sy_phase s j) = Some key \<Longrightarrow> j = i"
    using held_is_locked unfolding exclusive_def own_locks_def by blast+
  with assms(2) show ?thesis by auto
qed

text \<open>The run of a repeat that was checked before the first request was recorded and locks after it was released.\<close>

definition race_start :: idem_system where
  "race_start = \<lparr>sy_now = 0, sy_store = empty_store, sy_phase = (\<lambda>_. Arrived), sy_since = (\<lambda>_. 0), sy_handled = []\<rparr>"

definition race_key :: "idem_config \<Rightarrow> idem_request \<Rightarrow> string" where
  "race_key cfg req = idempotencyKey cfg 0 (mq_ExternalID req)"

definition race_locked :: "idem_config \<Rightarrow> idem_request \<Rightarrow> idem_store \<Rightarrow> idem_store" where
  "race_locked cfg req st = st\<lparr>st_locks := (st_locks st)(race_key cfg req := Some (expiry (demo_redis 0) (ix_lockTTL cfg)))\<rparr>"

lemma race_check:
  assumes "timely_reach cfg (\<lambda>_. req) s" and "sy_phase s i = Arrived" and "sy_now s = 0" and "timely cfg s"
    and "st_values (sy_store s) (race_key cfg req) = None"
  shows "timely_reach cfg (\<lambda>_. req) (set_phase i (Checked (race_key cfg req)) s)"
proof (rule timely_reach.step [OF assms(1)])
  have "\<not> already_answered cfg (demo_redis 0) (race_key cfg req) req (sy_store s)"
    using assms(5) by (simp add: already_answered_def GetResponseCache_def demo_redis_def)
  then show "idem_step cfg (\<lambda>_. req) s (set_phase i (Checked (race_key cfg req)) s)"
    using idem_step.check [OF assms(2), of "demo_redis 0" "race_key cfg req" cfg "\<lambda>_. req"] assms(3)
    by (simp add: demo_redis_def race_key_def)
  show "timely cfg (set_phase i (Checked (race_key cfg req)) s)"
    using assms(4) by (simp add: timely_def set_phase_def)
qed

lemma race_acquire:
  assumes "timely_reach cfg (\<lambda>_. req) s" and "sy_phase s i = Checked (race_key cfg req)" and "sy_now s = 0"
    and "st_locks (sy_store s) (race_key cfg req) = None" and "\<And>j. holds (sy_phase s j) = None"
  shows "timely_reach cfg (\<lambda>_. req) (set_phase i (Handling (race_key cfg req))
    (s\<lparr>sy_store := race_locked cfg req (sy_store s), sy_since := (sy_since s)(i := 0), sy_handled := sy_handled s @ [i]\<rparr>))"
proof (rule timely_reach.step [OF assms(1)])
  have "AcquireLock (demo_redis 0) (race_key cfg req) (ix_lockTTL cfg) (sy_store s) = (Inr True, race_locked cfg req (sy_store s))"
    using assms(4) by (simp add: AcquireLock_def race_locked_def) (simp add: demo_redis_def)
  then show "idem_step cfg (\<lambda>_. req) s (set_phase i (Handling (race_key cfg req))
      (s\<lparr>sy_store := race_locked cfg req (sy_store s), sy_since := (sy_since s)(i := 0), sy_handled := sy_handled s @ [i]\<rparr>))"
    using idem_step.acquire [OF assms(2), of "demo_redis 0" cfg _ "\<lambda>_. req"] assms(3) by (simp add: demo_redis_def)
  show "timely cfg (set_phase i (Handling (race_key cfg req)) (s\<lparr>sy_store := race_locked cfg req (sy_store s), sy_since := (sy_since s)(i := 0), sy_handled := sy_handled s @ [i]\<rparr>))"
    using assms(3,5) by (auto simp: timely_def set_phase_def)
qed

text \<open>The check of the identifier and its lock are two calls, and the check is not repeated under the lock: for
  every configuration and every request there is a run, without failures or expiry, in which a repeat is
  handled a second time although the first request had been answered and recorded.\<close>

theorem repeat_overtakes_record:
  "\<exists>s. timely_reach cfg (\<lambda>_. req) s \<and> sy_handled s = [0, 1] \<and> sy_phase s 0 = Finished a \<and>
    sy_phase s 1 = Handling (race_key cfg req)"
proof -
  let ?R = "\<lambda>_. req" and ?k = "race_key cfg req" and ?e = "demo_redis 0"
  define s1 where "s1 = set_phase 0 (Checked ?k) race_start"
  define s2 where "s2 = set_phase 1 (Checked ?k) s1"
  define s3 where "s3 = set_phase 0 (Handling ?k) (s2\<lparr>sy_store := race_locked cfg req (sy_store s2), sy_since := (sy_since s2)(0 := 0), sy_handled := sy_handled s2 @ [0]\<rparr>)"
  define s4 where "s4 = set_phase 0 (Answered ?k a) s3"
  define s5 where "s5 = set_phase 0 (Recorded ?k a) (s4\<lparr>sy_store := record_answer cfg ?e ?k req a (sy_store s4)\<rparr>)"
  define s6 where "s6 = set_phase 0 (Finished a) (s5\<lparr>sy_store := ReleaseLock ?e ?k (sy_store s5)\<rparr>)"
  note defs = s1_def s2_def s3_def s4_def s5_def s6_def set_phase_def race_start_def
  have e: "rd_now ?e = 0" "\<not> rd_release_fails ?e" by (simp_all add: demo_redis_def)
  have r0: "timely_reach cfg ?R race_start" by (rule timely_reach.start) (simp add: idem_start_def race_start_def)
  have r1: "timely_reach cfg ?R s1"
    unfolding s1_def by (rule race_check [OF r0]) (simp_all add: race_start_def timely_def empty_store_def)
  have r2: "timely_reach cfg ?R s2"
    unfolding s2_def by (rule race_check [OF r1]) (simp_all add: s1_def set_phase_def race_start_def timely_def empty_store_def)
  have r3: "timely_reach cfg ?R s3"
    unfolding s3_def by (rule race_acquire [OF r2]) (simp_all add: s1_def s2_def set_phase_def race_start_def empty_store_def)
  have held: "timely cfg s" if "sy_now s = 0" "sy_phase s = (sy_phase s3)(0 := p)" "sy_since s = (\<lambda>_. 0)" for s p
    using that by (auto simp: timely_def)
  have n: "sy_now s3 = 0" "sy_now s4 = 0" "sy_now s5 = 0" "sy_now s6 = 0" by (simp_all add: defs)
  have p3: "sy_phase s3 0 = Handling ?k" by (simp add: s3_def set_phase_def)
  have p4: "sy_phase s4 0 = Answered ?k a" "sy_phase s4 = (sy_phase s3)(0 := Answered ?k a)" "sy_store s4 = sy_store s3"
    by (simp_all add: s4_def set_phase_def)
  have p5: "sy_phase s5 0 = Recorded ?k a" "sy_phase s5 = (sy_phase s3)(0 := Recorded ?k a)"
      "st_locks (sy_store s5) = st_locks (sy_store s3)"
    by (simp_all add: s5_def set_phase_def p4 record_answer_def SetResponseCache_def)
  have "idem_step cfg ?R s3 s4" unfolding s4_def by (rule idem_step.answer [OF p3])
  moreover have "timely cfg s4" by (rule held [OF n(2) p4(2)]) (simp add: defs fun_eq_iff)
  ultimately have r4: "timely_reach cfg ?R s4" using timely_reach.step r3 by blast
  have "idem_step cfg ?R s4 s5" unfolding s5_def by (rule idem_step.store [OF p4(1)]) (simp add: e n)
  moreover have "timely cfg s5" by (rule held [OF n(3) p5(2)]) (simp add: defs fun_eq_iff)
  ultimately have r5: "timely_reach cfg ?R s5" using timely_reach.step r4 by blast
  have p6: "sy_phase s6 = (\<lambda>_. Arrived)(0 := Finished a, 1 := Checked ?k)" "sy_handled s6 = [0]"
    by (auto simp: defs fun_eq_iff)
  have "idem_step cfg ?R s5 s6" unfolding s6_def by (rule idem_step.release [OF p5(1)]) (simp add: e n)
  moreover have "timely cfg s6" by (simp add: timely_def p6)
  ultimately have r6: "timely_reach cfg ?R s6" using timely_reach.step r5 by blast
  have "st_locks (sy_store s6) ?k = None" by (simp add: s6_def set_phase_def ReleaseLock_def e)
  from race_acquire [OF r6, of 1, OF _ _ this] show ?thesis
    using p6 n(4) by (intro exI [of _ "set_phase 1 (Handling ?k) (s6\<lparr>sy_store := race_locked cfg req (sy_store s6), sy_since := (sy_since s6)(1 := 0), sy_handled := sy_handled s6 @ [1]\<rparr>)"])
      (simp add: set_phase_def)
qed

theorem no_concurrent_repeats_witness:
  "\<exists>s. timely_reach demo_idem (\<lambda>_. demo_post) s \<and> sy_phase s 1 = Finished (conflict demo_post) \<and>
    (\<forall>j. sy_phase s j = Handling (race_key demo_idem demo_post) \<longleftrightarrow> j = 0) \<and>
    \<not> unlocked (sy_now s) (race_key demo_idem demo_post) (sy_store s)"
proof -
  let ?k = "race_key demo_idem demo_post"
  define s1 where "s1 = set_phase 1 (Checked ?k) (set_phase 0 (Checked ?k) race_start)"
  define s2 where "s2 = set_phase 0 (Handling ?k) (s1\<lparr>sy_store := race_locked demo_idem demo_post (sy_store s1), sy_since := (sy_since s1)(0 := 0),
     sy_handled := sy_handled s1 @ [0]\<rparr>)"
  define s3 where "s3 = set_phase 1 (Finished (conflict demo_post)) (s2\<lparr>sy_store := sy_store s2\<rparr>)"
  have r0: "timely_reach demo_idem (\<lambda>_. demo_post) race_start"
    by (rule timely_reach.start) (simp add: idem_start_def race_start_def)
  have "timely_reach demo_idem (\<lambda>_. demo_post) (set_phase 0 (Checked ?k) race_start)"
    by (rule race_check [OF r0]) (simp_all add: race_start_def timely_def empty_store_def)
  from race_check [OF this, of 1] have r1: "timely_reach demo_idem (\<lambda>_. demo_post) s1"
    by (simp add: s1_def race_start_def set_phase_def timely_def empty_store_def)
  have r2: "timely_reach demo_idem (\<lambda>_. demo_post) s2"
    unfolding s2_def by (rule race_acquire [OF r1]) (simp_all add: s1_def set_phase_def race_start_def empty_store_def)
  have "AcquireLock (demo_redis 0) ?k (ix_lockTTL demo_idem) (sy_store s2) = (Inr False, sy_store s2)"
    using expiry_alive [of "demo_redis 0" "ix_lockTTL demo_idem"]
    by (simp add: AcquireLock_def s2_def set_phase_def race_locked_def) (simp add: demo_redis_def)
  then have "idem_step demo_idem (\<lambda>_. demo_post) s2 s3"
    using idem_step.refuse [of s2 1 ?k "demo_redis 0" demo_idem "Inr False" "sy_store s2" "\<lambda>_. demo_post"]
    by (simp add: s3_def s2_def s1_def set_phase_def race_start_def demo_redis_def)
  moreover have "timely demo_idem s3"
    by (simp add: timely_def s3_def s2_def s1_def set_phase_def race_start_def demo_idem_def nanos_per_second_def)
  ultimately have r3: "timely_reach demo_idem (\<lambda>_. demo_post) s3" using timely_reach.step r2 by blast
  have "sy_phase s3 0 = Handling ?k" "sy_phase s3 1 = Finished (conflict demo_post)" by (simp_all add: s3_def s2_def set_phase_def)
  with no_concurrent_repeats [OF r3 this(1)] r3 show ?thesis by blast
qed

end
