(* ===== verification/AuthProps.thy ===== *)
theory AuthProps
  imports Auth IdemProps
begin

text \<open>
  What the middleware lets through: vendor requests with a verified signature, a fresh timestamp and the token the
  vendor's configuration asks for; merchant requests of a client with an active secret; what a signature binds;
  and the authentication behind the idempotency middleware, as the routes have it.
\<close>

section \<open>The symmetric signature\<close>

lemma set_add_hashes: "set (add_hashes cs hs) = set cs \<union> {h \<in> set hs. h \<noteq> []}"
  by (induction cs hs rule: add_hashes.induct) auto

lemma distinct_add_hashes: "distinct cs \<Longrightarrow> distinct (add_hashes cs hs)"
  by (induction cs hs rule: add_hashes.induct) auto

text \<open>What a signature has to be: the bytes of the code, in base64, over one of the digests.\<close>

definition signs :: "crypto_env \<Rightarrow> symmetricSignature \<Rightarrow> string \<Rightarrow> string \<Rightarrow> bool" where
  "signs c s provided hash = (read_signature provided = Some (mac_of c (ss_Algorithm s) (ss_Secret s)
     (BuildStringToSign (ss_Method s) (ss_RelativeURL s) (ss_AccessToken s) hash (ss_Timestamp s))))"

lemma verify_iff:
  "verify c s provided \<longleftrightarrow> ss_Secret s \<noteq> [] \<and> provided \<noteq> [] \<and>
     (\<exists>hash \<in> set (map (HashRequestBody c (ss_Body s)) (ss_BodyHashEncodings s) @ ss_ExtraBodyHashes s). hash \<noteq> [] \<and> signs c s provided hash)"
  unfolding verify_def bodyHashCandidates_def list_ex_iff signs_def Verify_iff stringToSign_def set_add_hashes by auto

text \<open>Two requests with the same string to sign, in the components that cannot contain a colon, have the same method,
  path, access token and timestamp, and bodies whose minified forms have the same digest: a signature is not
  valid for another request.\<close>

theorem signed_string_binds_request:
  assumes "list_all (\<lambda>x. CHR '':'' \<notin> set x) [ss_Method s, ss_RelativeURL s, ss_AccessToken s, ss_Method t, ss_RelativeURL t, ss_AccessToken t]"
    and "stringToSign s (HashRequestBody c (ss_Body s) enc) = stringToSign t (HashRequestBody c (ss_Body t) enc)"
  shows "ss_Method s = ss_Method t \<and> ss_RelativeURL s = ss_RelativeURL t \<and> ss_AccessToken s = ss_AccessToken t \<and>
    ss_Timestamp s = ss_Timestamp t \<and> cr_sha256 c (MinifyJSON c (ss_Body s)) = cr_sha256 c (MinifyJSON c (ss_Body t))"
  using assms BuildStringToSign_inject [of "ss_Method s" "ss_RelativeURL s" "ss_AccessToken s" "HashRequestBody c (ss_Body s) enc"
      "ss_Method t" "ss_RelativeURL t" "ss_AccessToken t" "HashRequestBody c (ss_Body t) enc" "ss_Timestamp s" "ss_Timestamp t"]
  by (simp add: stringToSign_def hash_no_colon HashRequestBody_inject)

text \<open>A stand-in for the digests: enough to run the checks on an example.\<close>

definition toy_crypto :: crypto_env where
  "toy_crypto = \<lparr>cr_sha256 = (\<lambda>s. ''d'' @ s), cr_hmac_sha256 = (\<lambda>k s. k @ s), cr_hmac_sha512 = (\<lambda>k s. k @ s), cr_compact = Some\<rparr>"

definition toy_request :: http_request where
  "toy_request = \<lparr>hr_Method = ''POST'', hr_Path = ''/a'', hr_Headers = [], hr_Body = Some ''{}''\<rparr>"

theorem signed_string_binds_request_witness:
  "stringToSign (signatureFromRequest toy_request ''t'' ''10:00'' ''{}'') (HashRequestBody toy_crypto ''{}'' ''hex'') =
     stringToSign (signatureFromRequest toy_request ''t'' ''10:00'' ''{}'') (HashRequestBody toy_crypto ''{}'' ''hex'') \<and>
   cr_sha256 toy_crypto (MinifyJSON toy_crypto ''{}'') = cr_sha256 toy_crypto (MinifyJSON toy_crypto ''{}'')"
  using signed_string_binds_request [of "signatureFromRequest toy_request ''t'' ''10:00'' ''{}''"
      "signatureFromRequest toy_request ''t'' ''10:00'' ''{}''" toy_crypto "''hex''"]
  by (simp add: signatureFromRequest_def toy_request_def)

section \<open>Vendors\<close>

definition fresh :: "auth_env \<Rightarrow> string \<Rightarrow> bool" where
  "fresh e timestamp = (\<exists>t. ParseRFC3339 timestamp = Some t \<and> (ae_skipSkewCheck e \<or> \<bar>tm_ns (ae_now e) - tm_ns t\<bar> \<le> five_minutes))"

definition pinned :: "http_request \<Rightarrow> string \<Rightarrow> string \<Rightarrow> bool" where
  "pinned req header allowed = (allowed = [] \<or> (HeaderGet req header \<noteq> [] \<and>
     (\<exists>entry \<in> set (Split CHR '','' allowed). TrimSpace entry = TrimSpace (HeaderGet req header))))"

definition external_id_ok :: "http_request \<Rightarrow> VendorConfig \<Rightarrow> bool" where
  "external_id_ok req vc = (hr_Method req = ''GET'' \<or> (let x = HeaderGet req ''X-EXTERNAL-ID'' in
     x \<noteq> [] \<and> length x \<le> 36 \<and> (vg_StrictMandatoryFields vc \<longrightarrow> list_all is_digit x)))"

text \<open>The token bound into the signature: none for a vendor without a client identifier, else one of that client.\<close>

definition binds_token :: "auth_env \<Rightarrow> http_request \<Rightarrow> VendorConfig \<Rightarrow> string \<Rightarrow> bool" where
  "binds_token e req vc token = (if vg_ClientID vc = [] then token = []
     else HeaderGet req ''Authorization'' = ''Bearer '' @ token \<and>
       (\<exists>claims. ValidateToken (ae_jwt e) (ae_now e) token = Inr claims \<and> tc_ClientID claims = vg_ClientID vc))"

text \<open>The promise of the vendor middleware for one vendor.\<close>

definition vendor_authentic :: "auth_env \<Rightarrow> http_request \<Rightarrow> string \<Rightarrow> VendorConfig \<Rightarrow> bool" where
  "vendor_authentic e req body vc = (
     (\<forall>h \<in> set (required_headers vc). isDocumentedTransferVAHeader (TrimSpace h) \<longrightarrow> HeaderGet req (TrimSpace h) \<noteq> []) \<and>
     pinned req ''CHANNEL-ID'' (vg_ChannelID vc) \<and> pinned req ''X-PARTNER-ID'' (vg_PartnerID vc) \<and> external_id_ok req vc \<and>
     fresh e (HeaderGet req ''X-TIMESTAMP'') \<and> vg_ClientSecret vc \<noteq> [] \<and> HeaderGet req ''X-SIGNATURE'' \<noteq> [] \<and>
     (\<exists>token. binds_token e req vc token \<and> HashRequestBody (ae_crypto e) body (vg_BodyHashEncoding vc) \<noteq> [] \<and>
       read_signature (HeaderGet req ''X-SIGNATURE'') = Some (mac_of (ae_crypto e) (vg_SignatureAlgorithm vc) (vg_ClientSecret vc)
         (BuildStringToSign (hr_Method req) (hr_Path req) token (HashRequestBody (ae_crypto e) body (vg_BodyHashEncoding vc))
           (HeaderGet req ''X-TIMESTAMP'')))))"

lemma missing_header_None:
  "missing_header req hs = None \<longleftrightarrow>
     (\<forall>h \<in> set hs. isDocumentedTransferVAHeader (TrimSpace h) \<longrightarrow> HeaderGet req (TrimSpace h) \<noteq> [])"
  by (induction hs) (auto simp: Let_def)

lemma validatePinned_None: "validatePinnedHeader req header allowed service msg = None \<longleftrightarrow> pinned req header allowed"
  by (auto simp: validatePinnedHeader_def pinned_def matchesAllowedValue_def list_ex_iff)

lemma validateExternalID_None: "validateExternalID req vc service = None \<longleftrightarrow> external_id_ok req vc"
  by (auto simp: validateExternalID_def external_id_ok_def Let_def headerExternalID_def maxExternalIDLength_def isNumericString_def)

lemma validateHeaders_None:
  "validateSNAPHeaders req vc service = None \<longleftrightarrow>
     (\<forall>h \<in> set (required_headers vc). isDocumentedTransferVAHeader (TrimSpace h) \<longrightarrow> HeaderGet req (TrimSpace h) \<noteq> []) \<and>
     pinned req ''CHANNEL-ID'' (vg_ChannelID vc) \<and> pinned req ''X-PARTNER-ID'' (vg_PartnerID vc) \<and> external_id_ok req vc"
proof -
  have "validateSNAPHeaders req vc service = None \<longleftrightarrow> missing_header req (required_headers vc) = None \<and>
      validatePinnedHeader req headerChannelID (vg_ChannelID vc) service ''Unauthorized. [Unknown channel]'' = None \<and>
      validatePinnedHeader req headerPartnerID (vg_PartnerID vc) service ''Unauthorized. [Unknown client]'' = None \<and>
      validateExternalID req vc service = None"
    by (simp add: validateSNAPHeaders_def split: option.splits)
  then show ?thesis
    by (simp add: missing_header_None validatePinned_None validateExternalID_None headerChannelID_def headerPartnerID_def)
qed

lemma not_skewed: "\<not> skewed now t \<longleftrightarrow> \<bar>tm_ns now - tm_ns t\<bar> \<le> five_minutes"
  by (auto simp: skewed_def)

lemma validateTimestamp_None: "validateSNAPTimestamp e timestamp service = None \<longleftrightarrow> fresh e timestamp"
  by (auto simp: validateSNAPTimestamp_def fresh_def not_skewed [symmetric] split: option.splits)

lemma bearer: "(HasPrefix h ''Bearer '' \<and> TrimPrefix h ''Bearer '' = token) \<longleftrightarrow> h = ''Bearer '' @ token"
  by (auto simp: TrimPrefix_def prefix_def)

lemma resolve_token_Inr: "resolveVendorAccessToken e req vc service = Inr token \<longleftrightarrow> binds_token e req vc token"
proof -
  have "HasPrefix h ''Bearer '' \<Longrightarrow> h = ''Bearer '' @ t \<longleftrightarrow> TrimPrefix h ''Bearer '' = t" for h t
    using bearer by blast
  then show ?thesis using bearer [of "HeaderGet req ''Authorization''" token]
    by (auto simp: resolveVendorAccessToken_def binds_token_def Let_def split: sum.splits if_splits)
qed

lemma vendor_verify:
  "verify c (vendor_signature req vc token body) provided \<longleftrightarrow> vg_ClientSecret vc \<noteq> [] \<and> provided \<noteq> [] \<and>
     HashRequestBody c body (vg_BodyHashEncoding vc) \<noteq> [] \<and>
     read_signature provided = Some (mac_of c (vg_SignatureAlgorithm vc) (vg_ClientSecret vc)
         (BuildStringToSign (hr_Method req) (hr_Path req) token (HashRequestBody c body (vg_BodyHashEncoding vc)) (HeaderGet req ''X-TIMESTAMP'')))"
  by (auto simp: verify_iff vendor_signature_def signatureFromRequest_def signs_def headerTimestamp_def)

lemma authenticate_None: "authenticateVendor e req vc service body = None \<longleftrightarrow> vendor_authentic e req body vc"
proof -
  have "authenticateVendor e req vc service body = None \<longleftrightarrow> validateSNAPHeaders req vc service = None \<and>
      validateSNAPTimestamp e (HeaderGet req headerTimestamp) service = None \<and>
      (\<exists>token. resolveVendorAccessToken e req vc service = Inr token \<and>
        verify (ae_crypto e) (vendor_signature req vc token body) (HeaderGet req headerSignature))"
    by (auto simp: authenticateVendor_def split: option.splits sum.splits)
  then show ?thesis
    by (auto simp: vendor_authentic_def validateHeaders_None validateTimestamp_None resolve_token_Inr vendor_verify
        headerTimestamp_def headerSignature_def)
qed

definition refusal :: "http_answer \<Rightarrow> bool" where
  "refusal r = (fst r \<in> {400, 401})"

lemma refusals [simp]:
  "refusal (snapMissingMandatory service f)" "refusal (snapInvalidField service f)" "refusal (snapUnauthorized service f)"
  "refusal (snapInvalidTokenFn service)"
  by (simp_all add: refusal_def snapMissingMandatory_def snapInvalidField_def snapUnauthorized_def snapInvalidTokenFn_def)

lemma pinned_refusal: "validatePinnedHeader req header allowed service msg = Some r \<Longrightarrow> refusal r"
  unfolding validatePinnedHeader_def by (force split: if_splits)

lemma external_refusal: "validateExternalID req vc service = Some r \<Longrightarrow> refusal r"
  unfolding validateExternalID_def Let_def by (force split: if_splits)

lemma headers_refusal: "validateSNAPHeaders req vc service = Some r \<Longrightarrow> refusal r"
  unfolding validateSNAPHeaders_def by (force split: option.splits dest: pinned_refusal external_refusal)

lemma timestamp_refusal: "validateSNAPTimestamp e timestamp service = Some r \<Longrightarrow> refusal r"
  unfolding validateSNAPTimestamp_def by (force split: option.splits if_splits)

lemma token_refusal: "resolveVendorAccessToken e req vc service = Inl r \<Longrightarrow> refusal r"
  unfolding resolveVendorAccessToken_def Let_def by (force split: sum.splits if_splits)

lemma authenticate_refusal: "authenticateVendor e req vc service body = Some r \<Longrightarrow> refusal r"
  unfolding authenticateVendor_def
  by (force split: option.splits sum.splits if_splits dest: headers_refusal timestamp_refusal token_refusal)

lemma try_vendors_find:
  "case find (vendor_authentic e req body) vcs of
     Some vc \<Rightarrow> try_vendors e req service body first vcs = Inr vc
   | None \<Rightarrow> try_vendors e req service body first vcs = Inl (orelse first (case vcs of [] \<Rightarrow> None
       | vc # _ \<Rightarrow> authenticateVendor e req vc service body))"
proof (induction vcs arbitrary: first)
  case (Cons vc vcs)
  show ?case
  proof (cases "authenticateVendor e req vc service body")
    case None
    moreover from this have "vendor_authentic e req body vc" by (simp only: authenticate_None)
    ultimately show ?thesis by simp
  next
    case (Some r)
    moreover from this have "\<not> vendor_authentic e req body vc" by (simp add: authenticate_None [symmetric, of e req body vc service])
    ultimately show ?thesis using Cons.IH [of "orelse first (Some r)"] by (auto simp: orelse_def split: option.splits)
  qed
qed (simp add: orelse_def split: option.splits)

lemma rejected_or_handled:
  "case hr_Body req of
     None \<Rightarrow> MultiVendorSNAPAuth e vcs req handler w = (snapUnauthorized (ServiceCodeForPath (hr_Path req)) ''Unauthorized. [Unable to read request body]'', w)
   | Some body \<Rightarrow> (case find (vendor_authentic e req body) (candidateVendors req vcs) of
       Some vc \<Rightarrow> vc \<in> set vcs \<and> MultiVendorSNAPAuth e vcs req handler w = handler (vendor_context vc) w
     | None \<Rightarrow> fst (fst (MultiVendorSNAPAuth e vcs req handler w)) \<in> {400, 401} \<and> snd (MultiVendorSNAPAuth e vcs req handler w) = w)"
proof (cases "hr_Body req")
  case (Some body)
  define service cs where "service = ServiceCodeForPath (hr_Path req)" and "cs = candidateVendors req vcs"
  have sub: "set cs \<subseteq> set vcs" by (auto simp: cs_def candidateVendors_def Let_def)
  note t = try_vendors_find [of e req service body None cs]
  have m: "MultiVendorSNAPAuth e vcs req handler w = (if cs = [] then (snapUnauthorized service ''Unauthorized. [Unknown client]'', w)
      else (case try_vendors e req service body None cs of
          Inr vc \<Rightarrow> handler (vendor_context vc) w | Inl (Some rejection) \<Rightarrow> (rejection, w)
        | Inl None \<Rightarrow> (snapUnauthorized service ''Unauthorized. [Unknown client]'', w)))"
    unfolding MultiVendorSNAPAuth_def Let_def service_def cs_def by (simp add: Some)
  show ?thesis
  proof (cases "find (vendor_authentic e req body) cs")
    case None
    then have "refusal (fst (MultiVendorSNAPAuth e vcs req handler w)) \<and> snd (MultiVendorSNAPAuth e vcs req handler w) = w"
      using t by (auto simp: m orelse_def split: list.splits option.splits dest: authenticate_refusal)
    with None \<open>hr_Body req = _\<close> show ?thesis by (simp add: cs_def refusal_def)
  next
    case (Some vc)
    then have "vc \<in> set cs" "cs \<noteq> []" by (auto simp: find_Some_iff dest: nth_mem)
    then show ?thesis using Some t sub \<open>hr_Body req = _\<close> by (auto simp: m cs_def [symmetric])
  qed
qed (simp add: MultiVendorSNAPAuth_def Let_def)

text \<open>C12: The handler of a vendor endpoint runs for exactly the requests that one of the candidate vendors' settings
  authenticates, for the first such vendor: required headers present, pinned headers on the vendor's list, a
  timestamp within five minutes, the vendor's own access token if it has a client identifier, and the code of
  method, path, token, body digest and timestamp under the vendor's secret. Every other request is answered 400
  or 401 and changes nothing.\<close>

theorem vendor_traffic_is_authenticated:
  "case hr_Body req of
     None \<Rightarrow> MultiVendorSNAPAuth e vcs req handler w = (snapUnauthorized (ServiceCodeForPath (hr_Path req)) ''Unauthorized. [Unable to read request body]'', w)
   | Some body \<Rightarrow> (case find (vendor_authentic e req body) (candidateVendors req vcs) of
       Some vc \<Rightarrow> vc \<in> set vcs \<and> MultiVendorSNAPAuth e vcs req handler w = handler (vendor_context vc) w
     | None \<Rightarrow> fst (fst (MultiVendorSNAPAuth e vcs req handler w)) \<in> {400, 401} \<and> snd (MultiVendorSNAPAuth e vcs req handler w) = w)"
  by (rule rejected_or_handled)

section \<open>Merchants\<close>

definition accepted_hashes :: "crypto_env \<Rightarrow> bool \<Rightarrow> string \<Rightarrow> string set" where
  "accepted_hashes c legacy body = {HashRequestBody c body ''hex''} \<union>
     (if legacy then {HashRequestBody c body ''base64'', HashSHA256Base64 c body} else {})"

definition merchant_authentic :: "auth_env \<Rightarrow> bool \<Rightarrow> http_request \<Rightarrow> clients \<Rightarrow> bool" where
  "merchant_authentic e legacy req cl = (\<exists>token claims secret body hash.
     HeaderGet req ''Authorization'' = ''Bearer '' @ token \<and> ValidateToken (ae_jwt e) (ae_now e) token = Inr claims \<and>
     GetActiveClientSecret (ae_client e) (tc_ClientID claims) cl = Inr secret \<and> secret \<noteq> [] \<and>
     fresh e (HeaderGet req ''X-TIMESTAMP'') \<and> hr_Body req = Some body \<and> HeaderGet req ''X-SIGNATURE'' \<noteq> [] \<and>
     hash \<in> accepted_hashes (ae_crypto e) legacy body \<and> hash \<noteq> [] \<and>
     read_signature (HeaderGet req ''X-SIGNATURE'') = Some (cr_hmac_sha512 (ae_crypto e) secret
       (BuildStringToSign (hr_Method req) (hr_Path req) token hash (HeaderGet req ''X-TIMESTAMP''))))"

lemma mac_merchant: "mac_of c merchantSignatureAlgorithm secret msg = cr_hmac_sha512 c secret msg"
  by (simp add: mac_of_def merchantSignatureAlgorithm_def upper_byte_def)

lemma merchant_verify:
  "verifyMerchantSignature c req secret token timestamp body legacy \<longleftrightarrow> secret \<noteq> [] \<and> HeaderGet req ''X-SIGNATURE'' \<noteq> [] \<and>
     (\<exists>hash \<in> accepted_hashes c legacy body. hash \<noteq> [] \<and> read_signature (HeaderGet req ''X-SIGNATURE'') =
       Some (cr_hmac_sha512 c secret (BuildStringToSign (hr_Method req) (hr_Path req) token hash timestamp)))"
  by (auto simp: verifyMerchantSignature_def verify_iff merchant_signature_def signatureFromRequest_def signs_def Let_def
      mac_merchant accepted_hashes_def BodyHashHex_def BodyHashBase64_def)

lemma merchant_check_None: "merchant_check e legacy req cl = None \<longleftrightarrow> merchant_authentic e legacy req cl"
proof (cases "HasPrefix (HeaderGet req ''Authorization'') ''Bearer ''")
  case False
  then have "HeaderGet req ''Authorization'' \<noteq> ''Bearer '' @ token" for token using bearer by metis
  with False show ?thesis by (simp add: merchant_check_def merchant_authentic_def)
next
  case True
  define token where "token = TrimPrefix (HeaderGet req ''Authorization'') ''Bearer ''"
  have t: "HeaderGet req ''Authorization'' = ''Bearer '' @ token" using True bearer token_def by metis
  have "merchant_check e legacy req cl = None \<longleftrightarrow> (\<exists>claims secret body. ValidateToken (ae_jwt e) (ae_now e) token = Inr claims \<and>
      GetActiveClientSecret (ae_client e) (tc_ClientID claims) cl = Inr secret \<and> secret \<noteq> [] \<and> fresh e (HeaderGet req ''X-TIMESTAMP'') \<and>
      hr_Body req = Some body \<and>
      verifyMerchantSignature (ae_crypto e) req secret token (HeaderGet req ''X-TIMESTAMP'') body legacy)"
    using True by (auto simp: merchant_check_def Let_def token_def [symmetric] fresh_def not_skewed [symmetric]
        split: option.splits sum.splits if_splits)
  then show ?thesis by (simp add: merchant_authentic_def t merchant_verify) blast
qed

text \<open>C13: A merchant handler runs for exactly the requests with a valid access token of a client that has an active secret,
  a timestamp within five minutes and the code of the request under that secret, over the hexadecimal digest or, while
  the old forms are accepted, over one of the two base64 digests. Every other request is answered 401 and changes
  nothing.\<close>

theorem merchant_traffic_is_authenticated:
  "if merchant_authentic e legacy req cl
   then MerchantAuthMiddleware e legacy req cl handler w = (Inr (fst (handler w)), snd (handler w))
   else (\<exists>r. MerchantAuthMiddleware e legacy req cl handler w = (Inl (401, r), w) \<and> se_ResponseCode r = ''4010000'')"
proof (cases "merchant_check e legacy req cl")
  case None
  then have "merchant_authentic e legacy req cl" by (simp only: merchant_check_None)
  with None show ?thesis by (simp add: MerchantAuthMiddleware_def split: prod.splits)
next
  case (Some reason)
  then have "\<not> merchant_authentic e legacy req cl" by (simp add: merchant_check_None [symmetric])
  with Some show ?thesis by (simp add: MerchantAuthMiddleware_def merchant_unauthorized_def NewSNAPErrorResponse_def)
qed

section \<open>Administration\<close>

theorem admin_fails_closed:
  "if apiKey \<noteq> [] \<and> HeaderGet req ''X-Admin-API-Key'' = apiKey
   then AdminAuthMiddleware apiKey req handler w = (Inr (fst (handler w)), snd (handler w))
   else snd (AdminAuthMiddleware apiKey req handler w) = w \<and> isl (fst (AdminAuthMiddleware apiKey req handler w))"
  by (auto simp: AdminAuthMiddleware_def Let_def split: prod.splits)

section \<open>The signature helper\<close>

lemma b64_encode_Nil [simp]: "b64_encode s = [] \<longleftrightarrow> s = []"
  by (cases s rule: b64_encode.cases) simp_all

lemma helper_signature:
  assumes "GenerateServiceSignature c secret method url token timestamp body = Inr resp"
  shows "secret \<noteq> []" "gr_Signature resp = b64_encode (cr_hmac_sha512 c (helper_secret secret)
      (BuildStringToSign method url token (HashRequestBody c body ''hex'') timestamp))"
  using assms by (auto simp: GenerateServiceSignature_def GenerateServiceSignatureWithEncoding_def Let_def signature_ok_def Sign_def
      BuildStringToSign_def BodyHashHex_def mac_merchant [unfolded merchantSignatureAlgorithm_def] split: if_splits)

text \<open>The merchant check accepts what the signature helper hands out for a request exactly when the code under the secret
  as the helper reads it, decoded from base64 when it is base64, is the code under the secret itself. So a secret that
  is not base64 works, and one that happens to be base64 does not.\<close>

theorem helper_signature_accepted:
  assumes "GenerateServiceSignature c secret (hr_Method req) (hr_Path req) token timestamp body = Inr resp"
    and "HeaderGet req ''X-SIGNATURE'' = gr_Signature resp" and "gr_Signature resp \<noteq> []" and "HashRequestBody c body ''hex'' \<noteq> []"
  shows "verifyMerchantSignature c req secret token timestamp body False \<longleftrightarrow>
    (let msg = BuildStringToSign (hr_Method req) (hr_Path req) token (HashRequestBody c body ''hex'') timestamp in
     cr_hmac_sha512 c (helper_secret secret) msg = cr_hmac_sha512 c secret msg)"
  using helper_signature [OF assms(1)] assms(3,4)
  by (auto simp: merchant_verify assms(2) accepted_hashes_def read_signature_def b64_round_trip orelse_def Let_def)

theorem helper_signature_accepted_witness:
  "\<exists>resp. GenerateServiceSignature toy_crypto ''abcd'' ''POST'' ''/a'' ''t'' ''2026-07-24T10:00:00Z'' ''{}'' = Inr resp \<and>
     \<not> verifyMerchantSignature toy_crypto (toy_request\<lparr>hr_Headers := [(''X-SIGNATURE'', gr_Signature resp)]\<rparr>) ''abcd'' ''t''
         ''2026-07-24T10:00:00Z'' ''{}'' False"
proof -
  have "ParseRFC3339 ''2026-07-24T10:00:00Z'' \<noteq> None" by code_simp
  then obtain resp where r: "GenerateServiceSignature toy_crypto ''abcd'' ''POST'' ''/a'' ''t'' ''2026-07-24T10:00:00Z'' ''{}'' = Inr resp"
    by (simp add: GenerateServiceSignature_def GenerateServiceSignatureWithEncoding_def Let_def)
  have "helper_secret ''abcd'' = [CHR 0x69, CHR 0xB7, CHR 0x1D]" by code_simp
  moreover have "HashRequestBody toy_crypto ''{}'' ''hex'' \<noteq> []" by code_simp
  moreover have "gr_Signature resp \<noteq> []"
    using helper_signature [OF r] by (simp add: toy_crypto_def BuildStringToSign_def)
  ultimately show ?thesis
    using r helper_signature_accepted [of toy_crypto "''abcd''" "toy_request\<lparr>hr_Headers := [(''X-SIGNATURE'', gr_Signature resp)]\<rparr>"
        "''t''" "''2026-07-24T10:00:00Z''" "''{}''" resp]
    by (simp add: toy_request_def HeaderGet_def upper_byte_def toy_crypto_def BuildStringToSign_def)
qed

section \<open>Authentication behind the idempotency check\<close>

definition idem_view :: "http_request \<Rightarrow> string option \<Rightarrow> idem_request" where
  "idem_view req prid = \<lparr>mq_Method = hr_Method req, mq_Path = hr_Path req, mq_ExternalID = HeaderGet req ''X-EXTERNAL-ID'', mq_PaymentRequestID = prid\<rparr>"

text \<open>A vendor route as it is registered: the idempotency middleware around the authentication around the handler.\<close>

definition vendor_route ::
    "idem_config \<Rightarrow> redis_env \<Rightarrow> redis_env \<Rightarrow> auth_env \<Rightarrow> VendorConfig list \<Rightarrow> http_request \<Rightarrow> string option \<Rightarrow>
      (VendorContext \<Rightarrow> 'w \<Rightarrow> http_answer \<times> 'w) \<Rightarrow> idem_store \<Rightarrow> 'w \<Rightarrow> http_answer \<times> bool \<times> idem_store \<times> 'w" where
  "vendor_route cfg e1 e2 ae vcs req prid handler st w =
     IdempotencyMiddleware cfg e1 e2 (idem_view req prid) (MultiVendorSNAPAuth ae vcs req handler) st w"

lemma unauthentic_answer:
  assumes "hr_Body req = Some body" and "find (vendor_authentic e req body) (candidateVendors req vcs) = None"
  shows "\<exists>a. MultiVendorSNAPAuth e vcs req handler w = (a, w) \<and> fst a < 500"
proof -
  have "fst (fst (MultiVendorSNAPAuth e vcs req handler w)) \<in> {400, 401} \<and> snd (MultiVendorSNAPAuth e vcs req handler w) = w"
    using assms rejected_or_handled [where req = req and e = e and vcs = vcs and handler = handler and w = w] by simp
  then show ?thesis by (cases "MultiVendorSNAPAuth e vcs req handler w") auto
qed

lemma first_request_handled:
  assumes "redis_works e1" and "\<not> is_reading req" and "mq_ExternalID req \<noteq> []"
    and "key = idempotencyKey cfg (rd_now e1) (mq_ExternalID req)" and "spent_at (rd_now e1) st key = None" and "unlocked (rd_now e1) key st"
    and "handler w = (a, w1)"
  shows "\<exists>st'. IdempotencyMiddleware cfg e1 e2 req handler st w = (a, True, st', w1)"
proof -
  have ok: "\<not> rd_get_fails e1" "\<not> rd_lock_fails e1" using assms(1) by (simp_all add: redis_works_def)
  have "\<not> already_answered cfg e1 key req st" using already_answered_iff [OF ok(1)] assms(5) by (simp add: is_repeat_def)
  moreover obtain s where "AcquireLock e1 key (ix_lockTTL cfg) st = (Inr True, s)"
    using ok(2) assms(6) by (auto simp: AcquireLock_def unlocked_def split: option.splits)
  ultimately show ?thesis using assms(2-4,7) by (simp add: IdempotencyMiddleware_def Let_def)
qed

end
