(* ===== verification/Gateway.thy ===== *)
theory Gateway
  imports Auth Reconcile "HOL-Library.List_Lexorder" "HOL-Library.Char_ord"
begin

text \<open>
  The outbound client of a vendor: \<^verbatim>\<open>client.go\<close>, \<^verbatim>\<open>token_provider.go\<close>, \<^verbatim>\<open>snap_time.go\<close> and \<^verbatim>\<open>curl_log.go\<close> of
  \<^verbatim>\<open>internal/adapter/gateway/snap\<close>, with the wiring of \<^verbatim>\<open>cmd/api/reconcile_wiring.go\<close>. The network, the file with the
  private key, the parser of URLs and the JSON encoding are parameters. The state is the cached token of the provider;
  its mutex makes one call of \<^verbatim>\<open>AccessToken\<close> one step. \<^verbatim>\<open>int\<close> and \<^verbatim>\<open>time.Duration\<close> have 64 bits.
\<close>

section \<open>Headers\<close>

definition token_byte :: "char \<Rightarrow> bool" where
  "token_byte c = (is_digit c \<or> 65 \<le> ord c \<and> ord c \<le> 90 \<or> 97 \<le> ord c \<and> ord c \<le> 122 \<or> c \<in> set ''!#$%&*+-.^_`|~'' \<or> ord c = 39)"

text \<open>\<^verbatim>\<open>http.CanonicalHeaderKey\<close>: capitals at the beginning and after a hyphen, when every byte may occur in a name.\<close>

fun canonical_from :: "bool \<Rightarrow> string \<Rightarrow> string" where
  "canonical_from up [] = []"
| "canonical_from up (c # s) = (if up then upper_byte c else lower_byte c) # canonical_from (c = CHR ''-'') s"

definition CanonicalHeaderKey :: "string \<Rightarrow> string" where
  "CanonicalHeaderKey name = (if name \<noteq> [] \<and> list_all token_byte name then canonical_from True name else name)"

type_synonym headers = "(string \<times> string) list"

text \<open>\<^verbatim>\<open>Header.Set\<close> replaces the values of the name.\<close>

definition HeaderSet :: "string \<Rightarrow> string \<Rightarrow> headers \<Rightarrow> headers" where
  "HeaderSet name v h = filter (\<lambda>(k, _). k \<noteq> CanonicalHeaderKey name) h @ [(CanonicalHeaderKey name, v)]"

definition header_value :: "headers \<Rightarrow> string \<Rightarrow> string" where
  "header_value h name = (case map_of h (CanonicalHeaderKey name) of Some v \<Rightarrow> v | None \<Rightarrow> [])"

record outbound =
  ob_Method :: string
  ob_URL :: string
  ob_Header :: headers
  ob_Body :: string

section \<open>What is logged\<close>

definition redacted :: string where [code_consts]: "redacted = ''<redacted>''"

definition redactedHeaders :: "string list" where [code_consts]: "redactedHeaders = [''Authorization'']"

definition headerPlaceholders :: "headers" where
  [code_consts]: "headerPlaceholders = [(''Authorization'', ''Bearer $BCA_ACCESS_TOKEN'')]"

definition header_names :: "headers \<Rightarrow> string list" where
  "header_names h = sort (map fst h)"

definition loggableHeaders :: "headers \<Rightarrow> string list" where
  "loggableHeaders h = map (\<lambda>name. name @ '': '' @
     (if CanonicalHeaderKey name \<in> set redactedHeaders then redacted else header_value h name)) (header_names h)"

definition quote_byte :: "char \<Rightarrow> string" where
  "quote_byte c = (if c = CHR 0x27 then [CHR 0x27, CHR 0x22, CHR 0x27, CHR 0x22, CHR 0x27] else [c])"

definition shellQuote :: "string \<Rightarrow> string" where
  "shellQuote s = CHR 0x27 # concat (map quote_byte s) @ [CHR 0x27]"

definition curl_value :: "headers \<Rightarrow> string \<Rightarrow> string" where
  "curl_value h name = (case map_of headerPlaceholders (CanonicalHeaderKey name) of Some placeholder \<Rightarrow> placeholder
     | None \<Rightarrow> if CanonicalHeaderKey name \<in> set redactedHeaders then redacted else header_value h name)"

definition curlCommand :: "string \<Rightarrow> string \<Rightarrow> headers \<Rightarrow> string \<Rightarrow> string" where
  "curlCommand method url h body = ''curl -sS -X '' @ method @ '' '' @ shellQuote url
     @ concat (map (\<lambda>name. '' -H '' @ shellQuote (name @ '': '' @ curl_value h name)) (header_names h))
     @ (if body = [] then [] else '' -d '' @ shellQuote body)"

section \<open>Timestamps and identifiers\<close>

definition wib :: int where "wib = 7 * 60 * 60"

text \<open>The layout writes the offset as digits even when it is zero.\<close>

definition offset_text :: "int \<Rightarrow> string" where
  "offset_text off = (let m = \<bar>off\<bar> div 60 in (if off < 0 then ''-'' else ''+'') @ dec2 (m div 60) @ '':'' @ dec2 (m mod 60))"

definition snap_format :: "gtime \<Rightarrow> string" where
  "snap_format t = (let (y, m, d) = local_date t in
     dec4 y @ ''-'' @ dec2 m @ ''-'' @ dec2 d @ ''T'' @ clock_text (local_seconds t mod 86400) @ offset_text (tm_off t))"

definition snapTimestamp :: "gtime \<Rightarrow> string" where
  "snapTimestamp t = snap_format (in_zone wib t)"

text \<open>\<^verbatim>\<open>newExternalID\<close> at the host's local time with a random number below a million.\<close>

definition newExternalID :: "gtime \<Rightarrow> nat \<Rightarrow> string" where
  "newExternalID now r = (let s = local_seconds now mod 86400 in
     yyyymmdd now @ dec2 (s div 3600) @ dec2 (s div 60 mod 60) @ dec2 (s mod 60) @ pad0 6 (dec r))"

section \<open>Access tokens\<close>

text \<open>\<^verbatim>\<open>strconv.Atoi\<close> with its error; \<^verbatim>\<open>json.Unmarshal\<close> of a number into an \<^verbatim>\<open>int\<close> reads the literal the same way.\<close>

definition go_Atoi :: "string \<Rightarrow> int option" where
  "go_Atoi s = (let neg = (s \<noteq> [] \<and> hd s = CHR ''-''); ds = (if s \<noteq> [] \<and> (hd s = CHR ''-'' \<or> hd s = CHR ''+'') then tl s else s) in
     if ds = [] \<or> \<not> list_all is_digit ds then None
     else (let v = (if neg then - int (num_of ds) else int (num_of ds)) in
       if - (2 ^ 63) \<le> v \<and> v < 2 ^ 63 then Some v else None))"

datatype raw_json = RawString string | RawNumber string | RawNull | RawOther

definition defaultExpiresIn :: int where "defaultExpiresIn = 900"

fun normalizeExpiresIn :: "raw_json option \<Rightarrow> int" where
  "normalizeExpiresIn None = defaultExpiresIn"
| "normalizeExpiresIn (Some (RawString asString)) = (case go_Atoi asString of Some v \<Rightarrow> if 0 < v then v else defaultExpiresIn
     | None \<Rightarrow> defaultExpiresIn)"
| "normalizeExpiresIn (Some (RawNumber lit)) = (case go_Atoi lit of Some v \<Rightarrow> if 0 < v then v else defaultExpiresIn
     | None \<Rightarrow> defaultExpiresIn)"
| "normalizeExpiresIn (Some RawNull) = defaultExpiresIn"
| "normalizeExpiresIn (Some RawOther) = defaultExpiresIn"

record tokenResponse =
  gt_ResponseCode :: string
  gt_ResponseMessage :: string
  gt_AccessToken :: string
  gt_ExpiresIn :: "raw_json option"

text \<open>
  The surroundings of one call: the readings of the clock when the cache is looked at, when the request is signed and
  when the token is stored, the file system, the URL parser (an error or nothing), the network (a transport error, or
  the status with the body or the error of reading it) and the JSON parser.
\<close>

type_synonym network = "outbound \<Rightarrow> string + (nat \<times> (string + string))"

record fetch_env =
  fe_checked :: gtime
  fe_signed :: gtime
  fe_stored :: gtime
  fe_crypto :: crypto_env
  fe_rsa :: rsa_lib
  fe_ReadFile :: "string \<Rightarrow> string + string"
  fe_url :: "string \<Rightarrow> string option"
  fe_Do :: network
  fe_json :: "string \<Rightarrow> string + tokenResponse"

definition no_outbound_credentials :: "VendorConfig \<Rightarrow> string" where
  "no_outbound_credentials cfg = ''vendor '' @ vg_Vendor cfg @ ''/'' @ vg_Channel cfg @
     '' has no outbound credentials (VENDOR_CLIENT_ID / VENDOR_PRIVATE_KEY_PATH)''"

definition token_endpoint :: "VendorConfig \<Rightarrow> string" where
  "token_endpoint cfg = (if vg_TokenEndpoint cfg = [] then ''/openapi/v1.0/access-token/b2b'' else vg_TokenEndpoint cfg)"

definition token_request :: "VendorConfig \<Rightarrow> string \<Rightarrow> string \<Rightarrow> outbound" where
  "token_request cfg timestamp signature = \<lparr>ob_Method = ''POST'', ob_URL = vg_BaseURL cfg @ token_endpoint cfg,
     ob_Header = HeaderSet ''X-SIGNATURE'' signature (HeaderSet ''X-TIMESTAMP'' timestamp
       (HeaderSet ''X-CLIENT-KEY'' (vg_ClientID cfg) (HeaderSet ''Content-Type'' ''application/json'' []))),
     ob_Body = [CHR 0x7B, CHR 0x22] @ ''grantType'' @ [CHR 0x22] @ '':'' @ [CHR 0x22] @ ''client_credentials'' @ [CHR 0x22] @ '',''
       @ [CHR 0x22] @ ''additionalInfo'' @ [CHR 0x22] @ '':{}}''\<rparr>"

definition read_token :: "fetch_env \<Rightarrow> string \<Rightarrow> string + (string \<times> int)" where
  "read_token e respBody = (case fe_json e respBody of
      Inl err \<Rightarrow> Inl (''parse token response: '' @ err)
    | Inr parsed \<Rightarrow> if gt_AccessToken parsed = []
        then Inl (''token response carried no accessToken (responseCode '' @ gt_ResponseCode parsed @ '' '' @ gt_ResponseMessage parsed @ '')'')
        else Inr (gt_AccessToken parsed, normalizeExpiresIn (gt_ExpiresIn parsed)))"

definition token_answer :: "fetch_env \<Rightarrow> string + (nat \<times> (string + string)) \<Rightarrow> string + (string \<times> int)" where
  "token_answer e resp = (case resp of
      Inl err \<Rightarrow> Inl (''token request: '' @ err)
    | Inr (status, Inl err) \<Rightarrow> Inl (''read token response: '' @ err)
    | Inr (status, Inr respBody) \<Rightarrow> if 400 \<le> status
        then Inl (''token request rejected (status '' @ dec status @ ''): '' @ respBody) else read_token e respBody)"

definition fetch :: "fetch_env \<Rightarrow> VendorConfig \<Rightarrow> string + (string \<times> int)" where
  "fetch e cfg = (if vg_ClientID cfg = [] \<or> vg_OutboundPrivateKeyPath cfg = [] then Inl (no_outbound_credentials cfg)
     else (case fe_ReadFile e (vg_OutboundPrivateKeyPath cfg) of
        Inl err \<Rightarrow> Inl (''read outbound private key: '' @ err)
      | Inr privateKey \<Rightarrow> (let timestamp = snapTimestamp (fe_signed e) in
          case RSASigner_Sign (fe_crypto e) (fe_rsa e) privateKey (vg_ClientID cfg @ ''|'' @ timestamp) of
            Inl err \<Rightarrow> Inl (''sign token request: '' @ err)
          | Inr signature \<Rightarrow> (case fe_url e (vg_BaseURL cfg @ token_endpoint cfg) of
              Some err \<Rightarrow> Inl (''build token request: '' @ err)
            | None \<Rightarrow> token_answer e (fe_Do e (token_request cfg timestamp signature))))))"

record TokenProvider =
  tp_token :: string
  tp_expiresAt :: gtime

definition NewTokenProvider :: TokenProvider where
  "NewTokenProvider = \<lparr>tp_token = [], tp_expiresAt = go_zero_time\<rparr>"

definition tokenRefreshMargin :: int where "tokenRefreshMargin = 60 * nanos_per_second"

text \<open>\<^verbatim>\<open>time.Duration(expiresIn) * time.Second\<close> wraps around.\<close>

definition lifetime :: "int \<Rightarrow> int" where
  "lifetime expiresIn = sint (word_of_int expiresIn * (1000000000 :: 64 word))"

definition AccessToken :: "fetch_env \<Rightarrow> VendorConfig \<Rightarrow> TokenProvider \<Rightarrow> (string + string) \<times> TokenProvider" where
  "AccessToken e cfg p = (
     if tp_token p \<noteq> [] \<and> Before (Add (fe_checked e) tokenRefreshMargin) (tp_expiresAt p) then (Inr (tp_token p), p)
     else (case fetch e cfg of
        Inl err \<Rightarrow> (Inl err, \<lparr>tp_token = [], tp_expiresAt = go_zero_time\<rparr>)
      | Inr (token, expiresIn) \<Rightarrow>
          (Inr token, p\<lparr>tp_token := token, tp_expiresAt := Add (fe_stored e) (lifetime expiresIn)\<rparr>)))"

section \<open>Requests\<close>

definition defaultInquiryEndpoint :: string where "defaultInquiryEndpoint = ''/openapi/v1.0/transfer-va/inquiry''"
definition defaultStatusEndpoint :: string where "defaultStatusEndpoint = ''/openapi/v2.0/transfer-va/status''"

text \<open>A client without a provider has no \<^verbatim>\<open>tokens\<close>.\<close>

record Client =
  cl_config :: VendorConfig
  cl_tokens :: bool

definition NewClient :: "VendorConfig \<Rightarrow> bool \<Rightarrow> Client" where
  "NewClient cfg tokens = \<lparr>cl_config = cfg, cl_tokens = tokens\<rparr>"

record gateway_env =
  ge_started :: gtime
  ge_random :: nat
  ge_signed :: gtime
  ge_crypto :: crypto_env
  ge_url :: "string \<Rightarrow> string option"
  ge_token :: fetch_env
  ge_Do :: network

definition outboundPartnerID :: "VendorConfig \<Rightarrow> string" where
  "outboundPartnerID cfg = (if vg_OutboundPartnerID cfg \<noteq> [] then vg_OutboundPartnerID cfg else vg_PartnerID cfg)"

definition endpoint_of :: "VendorConfig \<Rightarrow> string \<Rightarrow> string \<Rightarrow> string" where
  "endpoint_of cfg name fallback = (case vg_APIEndpoints cfg name of None \<Rightarrow> fallback
     | Some endpoint \<Rightarrow> if endpoint = [] then fallback else endpoint)"

definition client_stringToSign :: "crypto_env \<Rightarrow> VendorConfig \<Rightarrow> string \<Rightarrow> string \<Rightarrow> string \<Rightarrow> string \<Rightarrow> string \<Rightarrow> string" where
  "client_stringToSign c cfg method endpoint accessToken body timestamp =
     BuildStringToSign method endpoint accessToken (HashRequestBody c body (vg_BodyHashEncoding cfg)) timestamp"

definition request_headers :: "VendorConfig \<Rightarrow> string \<Rightarrow> string \<Rightarrow> string \<Rightarrow> string \<Rightarrow> headers" where
  "request_headers cfg externalID accessToken timestamp signature = (
     let h = HeaderSet ''X-EXTERNAL-ID'' externalID [];
         h = HeaderSet ''Content-Type'' ''application/json'' h;
         h = HeaderSet ''CHANNEL-ID'' (vg_ChannelID cfg) h;
         h = HeaderSet ''X-PARTNER-ID'' (outboundPartnerID cfg) h;
         h = HeaderSet ''X-TIMESTAMP'' timestamp h;
         h = HeaderSet ''X-SIGNATURE'' signature h;
         h = (if accessToken \<noteq> [] then HeaderSet ''Authorization'' (''Bearer '' @ accessToken) h else h)
     in if vg_Origin cfg \<noteq> [] then HeaderSet ''X-ORIGIN'' (vg_Origin cfg) h else h)"

definition signed_request :: "gateway_env \<Rightarrow> VendorConfig \<Rightarrow> string \<Rightarrow> string \<Rightarrow> string \<Rightarrow> string \<Rightarrow> outbound" where
  "signed_request e cfg accessToken method endpoint body = (
     let timestamp = snapTimestamp (ge_signed e);
         signature = Sign (ge_crypto e) (vg_SignatureAlgorithm cfg) (vg_ClientSecret cfg)
           (client_stringToSign (ge_crypto e) cfg method endpoint accessToken body timestamp)
     in \<lparr>ob_Method = method, ob_URL = vg_BaseURL cfg @ endpoint,
         ob_Header = request_headers cfg (newExternalID (ge_started e) (ge_random e)) accessToken timestamp signature, ob_Body = body\<rparr>)"

text \<open>The entry \<^verbatim>\<open>vendor_api_request_full\<close>: the headers, the string to sign without the token, and the command.\<close>

definition request_log :: "gateway_env \<Rightarrow> VendorConfig \<Rightarrow> string \<Rightarrow> string \<Rightarrow> string \<Rightarrow> string \<Rightarrow> string list \<times> string \<times> string" where
  "request_log e cfg accessToken method endpoint body = (let req = signed_request e cfg accessToken method endpoint body in
     (loggableHeaders (ob_Header req),
      client_stringToSign (ge_crypto e) cfg method endpoint redacted body (snapTimestamp (ge_signed e)),
      curlCommand method (ob_URL req) (ob_Header req) body))"

definition vendor_answer :: "string + (nat \<times> (string + string)) \<Rightarrow> string + string" where
  "vendor_answer resp = (case resp of
      Inl err \<Rightarrow> Inl (''failed to execute request: '' @ err)
    | Inr (status, Inl err) \<Rightarrow> Inl (''failed to read response body: '' @ err)
    | Inr (status, Inr respBody) \<Rightarrow> if 500 \<le> status
        then Inl (''vendor API error (status '' @ dec status @ ''): '' @ respBody) else Inr respBody)"

definition client_token :: "gateway_env \<Rightarrow> Client \<Rightarrow> TokenProvider \<Rightarrow> (string + string) \<times> TokenProvider" where
  "client_token e c p = (if cl_tokens c then AccessToken (ge_token e) (cl_config c) p else (Inr [], p))"

definition doRequest :: "gateway_env \<Rightarrow> Client \<Rightarrow> string \<Rightarrow> string \<Rightarrow> string \<Rightarrow> TokenProvider \<Rightarrow> (string + string) \<times> TokenProvider" where
  "doRequest e c method endpoint body p = (case ge_url e (vg_BaseURL (cl_config c) @ endpoint) of
      Some err \<Rightarrow> (Inl (''failed to create request: '' @ err), p)
    | None \<Rightarrow> (case client_token e c p of
        (Inl err, p1) \<Rightarrow> (Inl (''obtain vendor access token: '' @ err), p1)
      | (Inr accessToken, p1) \<Rightarrow>
          (vendor_answer (ge_Do e (signed_request e (cl_config c) accessToken method endpoint body)), p1)))"

section \<open>The two services\<close>

record ('q, 'r) codec =
  cd_marshal :: "'q \<Rightarrow> string + string"
  cd_unmarshal :: "string \<Rightarrow> string + 'r"

text \<open>The two methods differ in the endpoint, the types and the word in the messages.\<close>

definition call_service ::
    "string \<Rightarrow> string \<Rightarrow> string \<Rightarrow> ('q, 'r) codec \<Rightarrow> gateway_env \<Rightarrow> Client \<Rightarrow> 'q \<Rightarrow> TokenProvider \<Rightarrow> (gerr + 'r) \<times> TokenProvider" where
  "call_service name word fallback codec e c req p = (let endpoint = endpoint_of (cl_config c) name fallback in
     case cd_marshal codec req of
       Inl err \<Rightarrow> (Inl (ErrOther (''failed to marshal '' @ word @ '' request: '' @ err)), p)
     | Inr body \<Rightarrow> (case doRequest e c ''POST'' endpoint body p of
         (Inl err, p1) \<Rightarrow> (Inl (ErrOther err), p1)
       | (Inr resp, p1) \<Rightarrow> (case cd_unmarshal codec resp of
           Inl err \<Rightarrow> (Inl (ErrOther (''failed to unmarshal '' @ word @ '' response: '' @ err)), p1)
         | Inr vaResp \<Rightarrow> (Inr vaResp, p1))))"

definition Client_Inquiry ::
    "(VAInquiryRequest, VAInquiryResponse) codec \<Rightarrow> gateway_env \<Rightarrow> Client \<Rightarrow> VAInquiryRequest \<Rightarrow> TokenProvider \<Rightarrow>
      (gerr + VAInquiryResponse) \<times> TokenProvider" where
  "Client_Inquiry = call_service ''INQUIRY'' ''inquiry'' defaultInquiryEndpoint"

definition Client_PaymentStatus ::
    "(VAStatusRequest, VAStatusResponse) codec \<Rightarrow> gateway_env \<Rightarrow> Client \<Rightarrow> VAStatusRequest \<Rightarrow> TokenProvider \<Rightarrow>
      (gerr + VAStatusResponse) \<times> TokenProvider" where
  "Client_PaymentStatus = call_service ''STATUS'' ''status'' defaultStatusEndpoint"

section \<open>Wiring\<close>

text \<open>\<^verbatim>\<open>getEnvOrDefault\<close>: an unset variable reads as the empty string.\<close>

definition getEnvOrDefault :: "(string \<Rightarrow> string) \<Rightarrow> string \<Rightarrow> string \<Rightarrow> string" where
  "getEnvOrDefault getenv key defaultValue = (if getenv key = [] then defaultValue else getenv key)"

definition getEnvIntOrDefault :: "(string \<Rightarrow> string) \<Rightarrow> string \<Rightarrow> int \<Rightarrow> int" where
  "getEnvIntOrDefault getenv key defaultValue = (let raw = getEnvOrDefault getenv key [] in
     if raw = [] then defaultValue
     else (case go_Atoi raw of Some v \<Rightarrow> if v \<le> 0 then defaultValue else v | None \<Rightarrow> defaultValue))"

definition findVendorConfig :: "VendorConfig list \<Rightarrow> string \<Rightarrow> string \<Rightarrow> VendorConfig option" where
  "findVendorConfig configs vendor channel = find (\<lambda>cfg. vg_Vendor cfg = vendor \<and> vg_Channel cfg = channel) configs"

definition minutes :: "int \<Rightarrow> int" where
  "minutes n = sint (word_of_int n * (60000000000 :: 64 word))"

definition buildReconciler :: "(string \<Rightarrow> string) \<Rightarrow> VendorConfig list \<Rightarrow> (Client \<times> ReconcileConfig) option" where
  "buildReconciler getenv vendorConfigs = (
     if getEnvOrDefault getenv ''RECONCILE_ENABLED'' ''false'' \<noteq> ''true'' then None
     else (case findVendorConfig vendorConfigs (getEnvOrDefault getenv ''RECONCILE_VENDOR'' ''bca'')
             (getEnvOrDefault getenv ''RECONCILE_CHANNEL'' ''va'') of
        None \<Rightarrow> None
      | Some vendorConfig \<Rightarrow>
          if vg_BaseURL vendorConfig = [] then None
          else if vg_ClientID vendorConfig = [] \<or> vg_OutboundPrivateKeyPath vendorConfig = [] then None
          else Some (NewClient vendorConfig True,
            NewReconciliationUsecase \<lparr>
              rf_PendingAfter = minutes (getEnvIntOrDefault getenv ''RECONCILE_PENDING_AFTER_MINUTES'' 15),
              rf_BatchSize = getEnvIntOrDefault getenv ''RECONCILE_BATCH_SIZE'' 100,
              rf_ClientID = vg_ClientID vendorConfig\<rparr>)))"

end
