(* ===== verification/GatewayProps.thy ===== *)
theory GatewayProps
  imports Gateway AuthProps ReconcileProps
begin

text \<open>
  What the outbound client guarantees: the provider hands out tokens that are good for another minute, a request the
  client signs is accepted by the check this service applies to inbound requests, what is logged shows no token, the
  logged command is read by a shell as the request that was sent, a reconciliation settles a bill only on an answer
  of the vendor to a signed request, and an unauthenticated request spends its identifier for an authentic one.
\<close>

section \<open>Tokens\<close>

lemma normalize_range: "0 < normalizeExpiresIn raw" "normalizeExpiresIn raw < 2 ^ 63"
  by (cases raw rule: normalizeExpiresIn.cases;
      auto simp: defaultExpiresIn_def go_Atoi_def Let_def split: option.splits if_splits)+

lemma fetch_range: "fetch e cfg = Inr (token, n) \<Longrightarrow> token \<noteq> [] \<and> 0 < n"
  by (auto simp: fetch_def token_answer_def read_token_def Let_def normalize_range split: if_splits sum.splits prod.splits option.splits)

text \<open>Wrapping around never makes a lifetime longer.\<close>

lemma sint_le: "0 \<le> x \<Longrightarrow> sint (word_of_int x :: 64 word) \<le> x"
proof -
  assume x: "0 \<le> x"
  have "sint (word_of_int x :: 64 word) = signed_take_bit 63 x" by (simp add: signed_of_int)
  also have "\<dots> \<le> x"
  proof (cases "x < 2 ^ 63")
    case True
    then show ?thesis using x by (simp add: signed_take_bit_int_eq_self)
  next
    case False
    then show ?thesis using signed_take_bit_int_less_exp [of 63 x] by simp
  qed
  finally show ?thesis .
qed

lemma lifetime_le: "0 < n \<Longrightarrow> lifetime n \<le> n * nanos_per_second"
  using sint_le [of "n * nanos_per_second"] by (simp add: lifetime_def nanos_per_second_def)

text \<open>The calls of a provider one after another, as the mutex orders them.\<close>

fun token_run :: "VendorConfig \<Rightarrow> fetch_env list \<Rightarrow> TokenProvider \<Rightarrow> (string + string) list \<times> TokenProvider" where
  "token_run cfg [] p = ([], p)"
| "token_run cfg (e # es) p = (case AccessToken e cfg p of (r, p1) \<Rightarrow> (case token_run cfg es p1 of (rs, p2) \<Rightarrow> (r # rs, p2)))"

text \<open>The token was obtained by the \<open>j\<close>-th call, and every call after it up to the \<open>i\<close>-th found it good for another minute.\<close>

definition good_grant :: "VendorConfig \<Rightarrow> fetch_env list \<Rightarrow> nat \<Rightarrow> nat \<Rightarrow> string \<Rightarrow> int \<Rightarrow> bool" where
  "good_grant cfg es i j token n = (j \<le> i \<and> fetch (es ! j) cfg = Inr (token, n) \<and>
     (\<forall>k. j < k \<and> k \<le> i \<longrightarrow> tm_ns (fe_checked (es ! k)) + 60 * nanos_per_second < tm_ns (fe_stored (es ! j)) + n * nanos_per_second))"

text \<open>How the cache relates to the calls before.\<close>

definition backed :: "VendorConfig \<Rightarrow> fetch_env list \<Rightarrow> TokenProvider \<Rightarrow> bool" where
  "backed cfg es p = (tp_token p = [] \<or> (\<exists>j n. j < length es \<and> good_grant cfg es (length es - 1) j (tp_token p) n \<and>
     tp_expiresAt p = Add (fe_stored (es ! j)) (lifetime n)))"

lemma token_run_snoc:
  "token_run cfg (es @ [e]) p = (case token_run cfg es p of (rs, p1) \<Rightarrow> (case AccessToken e cfg p1 of (r, p2) \<Rightarrow> (rs @ [r], p2)))"
  by (induction es arbitrary: p) (auto split: prod.splits)

lemma length_token_run: "length (fst (token_run cfg es p)) = length es"
  by (induction es arbitrary: p) (simp_all add: case_prod_beta)

lemma good_grant_append: "i < length es \<Longrightarrow> good_grant cfg (es @ fs) i j token n = good_grant cfg es i j token n"
  by (auto simp: good_grant_def nth_append)

lemma good_grant_now: "fetch e cfg = Inr (token, n) \<Longrightarrow> good_grant cfg (es @ [e]) (length es) (length es) token n"
  by (simp add: good_grant_def)

lemma good_grant_later:
  assumes "good_grant cfg es (length es - 1) j token n" and "j < length es"
    and "tm_ns (fe_checked e) + 60 * nanos_per_second < tm_ns (fe_stored (es ! j)) + lifetime n"
  shows "good_grant cfg (es @ [e]) (length es) j token n"
proof -
  have "0 < n" using assms(1) fetch_range unfolding good_grant_def by blast
  then have "tm_ns (fe_checked e) + 60 * nanos_per_second < tm_ns (fe_stored (es ! j)) + n * nanos_per_second"
    using lifetime_le [of n] assms(3) by linarith
  moreover have "k < length es \<Longrightarrow> k \<le> length es - 1" for k by simp
  ultimately show ?thesis using assms(1,2) by (auto simp: good_grant_def nth_append le_less)
qed

lemma AccessToken_step:
  assumes "backed cfg es p" and "AccessToken e cfg p = (r, p1)"
  shows "backed cfg (es @ [e]) p1" and "case r of Inr token \<Rightarrow> \<exists>j n. good_grant cfg (es @ [e]) (length es) j token n | Inl err \<Rightarrow> fetch e cfg = Inl err"
proof -
  have "backed cfg (es @ [e]) p1 \<and>
    (case r of Inr token \<Rightarrow> \<exists>j n. good_grant cfg (es @ [e]) (length es) j token n | Inl err \<Rightarrow> fetch e cfg = Inl err)"
  proof (cases "tp_token p \<noteq> [] \<and> Before (Add (fe_checked e) tokenRefreshMargin) (tp_expiresAt p)")
    case True
    then have r: "r = Inr (tp_token p)" "p1 = p" using assms(2) by (auto simp: AccessToken_def)
    from True assms(1) obtain j n where g: "j < length es" "good_grant cfg es (length es - 1) j (tp_token p) n"
      "tp_expiresAt p = Add (fe_stored (es ! j)) (lifetime n)" by (auto simp: backed_def)
    have "tm_ns (fe_checked e) + 60 * nanos_per_second < tm_ns (fe_stored (es ! j)) + lifetime n"
      using True g(3) by (simp add: Before_def Add_def tokenRefreshMargin_def)
    from good_grant_later [OF g(2,1) this] have gg: "good_grant cfg (es @ [e]) (length es) j (tp_token p) n" .
    have "tp_expiresAt p = Add (fe_stored ((es @ [e]) ! j)) (lifetime n)" using g(1,3) by (simp add: nth_append)
    with gg g(1) r have "backed cfg (es @ [e]) p1" by (auto simp: backed_def intro!: exI [of _ j] exI [of _ n])
    with gg r show ?thesis by auto
  next
    case False
    then show ?thesis
    proof (cases "fetch e cfg")
      case (Inr g)
      then obtain token n where g: "fetch e cfg = Inr (token, n)" by (cases g) auto
      with False assms(2) have "r = Inr token" "p1 = p\<lparr>tp_token := token, tp_expiresAt := Add (fe_stored e) (lifetime n)\<rparr>"
        by (auto simp: AccessToken_def)
      then show ?thesis using good_grant_now [OF g, of es]
        by (auto simp: backed_def intro!: exI [of _ "length es"] exI [of _ n])
    qed (use False assms(2) in \<open>auto simp: AccessToken_def backed_def\<close>)
  qed
  then show "backed cfg (es @ [e]) p1" and "case r of Inr token \<Rightarrow> \<exists>j n. good_grant cfg (es @ [e]) (length es) j token n | Inl err \<Rightarrow> fetch e cfg = Inl err"
    by blast+
qed

lemma token_run_backed: "backed cfg es (snd (token_run cfg es NewTokenProvider))"
proof (induction es rule: rev_induct)
  case (snoc e es)
  then show ?case using AccessToken_step(1) [OF snoc] by (auto simp: token_run_snoc split: prod.splits)
qed (simp add: backed_def NewTokenProvider_def)

text \<open>C15: Whatever calls a provider serves, and whatever the vendor answers, each returns either a token the vendor granted in
  this call, or one it granted in an earlier call that was good for more than another minute, counted from the
  lifetime the vendor stated, at every call since; a lifetime too large for 64 bits never extends it. A call fails
  only when the vendor or the signing fails in this very call.\<close>

theorem tokens_are_good_for_a_minute:
  assumes "i < length es"
  shows "case fst (token_run cfg es NewTokenProvider) ! i of
      Inr token \<Rightarrow> token \<noteq> [] \<and> (\<exists>j n. 0 < n \<and> good_grant cfg es i j token n)
    | Inl err \<Rightarrow> fetch (es ! i) cfg = Inl err"
  using assms
proof (induction es rule: rev_induct)
  case (snoc e es)
  obtain rs p where run: "token_run cfg es NewTokenProvider = (rs, p)" by fastforce
  obtain r p1 where acc: "AccessToken e cfg p = (r, p1)" by fastforce
  have l: "length rs = length es" using length_token_run [of cfg es NewTokenProvider] run by simp
  have b: "backed cfg es p" using token_run_backed [of cfg es] run by simp
  have res: "fst (token_run cfg (es @ [e]) NewTokenProvider) = rs @ [r]" using run acc by (simp add: token_run_snoc)
  have fr: "token \<noteq> [] \<and> 0 < n" if "good_grant cfg fs k j token n" for fs k j token n
    using that fetch_range unfolding good_grant_def by blast
  show ?case
  proof (cases "i < length es")
    case True
    then show ?thesis using snoc.IH l by (simp add: res run nth_append good_grant_append split: sum.splits)
  next
    case False
    then have "i = length es" using snoc.prems by simp
    then have "fst (token_run cfg (es @ [e]) NewTokenProvider) ! i = r" "(es @ [e]) ! i = e" "i = length es"
      using l by (simp_all add: res nth_append)
    then show ?thesis using AccessToken_step(2) [OF b acc] fr by (cases r) (simp, simp, blast)
  qed
qed simp

section \<open>Signed requests\<close>

lemma canonical_names [simp]:
  "CanonicalHeaderKey ''X-EXTERNAL-ID'' = ''X-External-Id''" "CanonicalHeaderKey ''Content-Type'' = ''Content-Type''"
  "CanonicalHeaderKey ''CHANNEL-ID'' = ''Channel-Id''" "CanonicalHeaderKey ''X-PARTNER-ID'' = ''X-Partner-Id''"
  "CanonicalHeaderKey ''X-TIMESTAMP'' = ''X-Timestamp''" "CanonicalHeaderKey ''X-SIGNATURE'' = ''X-Signature''"
  "CanonicalHeaderKey ''Authorization'' = ''Authorization''" "CanonicalHeaderKey ''X-ORIGIN'' = ''X-Origin''"
  by (simp_all add: CanonicalHeaderKey_def token_byte_def ord_def upper_byte_def lower_byte_def is_digit_def char_of_eq_iff)

lemma canonical_again [simp]:
  "CanonicalHeaderKey ''X-External-Id'' = ''X-External-Id''" "CanonicalHeaderKey ''Channel-Id'' = ''Channel-Id''"
  "CanonicalHeaderKey ''X-Partner-Id'' = ''X-Partner-Id''" "CanonicalHeaderKey ''X-Timestamp'' = ''X-Timestamp''"
  "CanonicalHeaderKey ''X-Signature'' = ''X-Signature''" "CanonicalHeaderKey ''X-Origin'' = ''X-Origin''"
  by (simp_all add: CanonicalHeaderKey_def token_byte_def ord_def upper_byte_def lower_byte_def is_digit_def char_of_eq_iff)

lemma request_headers_list:
  "request_headers cfg x token ts sig = [(''X-External-Id'', x), (''Content-Type'', ''application/json''), (''Channel-Id'', vg_ChannelID cfg),
     (''X-Partner-Id'', outboundPartnerID cfg), (''X-Timestamp'', ts), (''X-Signature'', sig)] @
     (if token \<noteq> [] then [(''Authorization'', ''Bearer '' @ token)] else []) @ (if vg_Origin cfg \<noteq> [] then [(''X-Origin'', vg_Origin cfg)] else [])"
  by (simp add: request_headers_def HeaderSet_def Let_def)

text \<open>The request as the vendor's server gets it; the base URL leads to the server.\<close>

definition arrives :: "string \<Rightarrow> outbound \<Rightarrow> http_request" where
  "arrives endpoint ob = \<lparr>hr_Method = ob_Method ob, hr_Path = endpoint, hr_Headers = ob_Header ob, hr_Body = Some (ob_Body ob)\<rparr>"

lemma upper_names:
  "map upper_byte ''X-External-Id'' = ''X-EXTERNAL-ID''" "map upper_byte ''Content-Type'' = ''CONTENT-TYPE''"
  "map upper_byte ''Channel-Id'' = ''CHANNEL-ID''" "map upper_byte ''X-Partner-Id'' = ''X-PARTNER-ID''"
  "map upper_byte ''X-Timestamp'' = ''X-TIMESTAMP''" "map upper_byte ''X-Signature'' = ''X-SIGNATURE''"
  "map upper_byte ''Authorization'' = ''AUTHORIZATION''" "map upper_byte ''X-Origin'' = ''X-ORIGIN''"
  "map upper_byte ''X-EXTERNAL-ID'' = ''X-EXTERNAL-ID''" "map upper_byte ''CONTENT-TYPE'' = ''CONTENT-TYPE''"
  "map upper_byte ''CHANNEL-ID'' = ''CHANNEL-ID''" "map upper_byte ''X-PARTNER-ID'' = ''X-PARTNER-ID''"
  "map upper_byte ''X-TIMESTAMP'' = ''X-TIMESTAMP''" "map upper_byte ''X-SIGNATURE'' = ''X-SIGNATURE''"
  "map upper_byte ''AUTHORIZATION'' = ''AUTHORIZATION''"
  by (simp_all add: upper_byte_def char_of_eq_iff)

lemma arriving_headers:
  assumes "hr_Headers req = request_headers cfg x token ts sig"
  shows "HeaderGet req ''X-EXTERNAL-ID'' = x" "HeaderGet req ''CONTENT-TYPE'' = ''application/json''"
    "HeaderGet req ''CHANNEL-ID'' = vg_ChannelID cfg" "HeaderGet req ''X-PARTNER-ID'' = outboundPartnerID cfg"
    "HeaderGet req ''X-TIMESTAMP'' = ts" "HeaderGet req ''X-SIGNATURE'' = sig"
    "HeaderGet req ''AUTHORIZATION'' = (if token = [] then [] else ''Bearer '' @ token)"
    "HeaderGet req ''Authorization'' = (if token = [] then [] else ''Bearer '' @ token)"
  by (simp_all add: HeaderGet_def assms request_headers_list upper_names del: list.map)

text \<open>Identifiers are numeric and have twenty digits.\<close>

lemma digits_dec2: "list_all is_digit (dec2 n)"
  by (simp add: dec2_def digits_pad0_dec)

lemma length_dec2: "n < 100 \<Longrightarrow> length (dec2 n) = 2"
  using length_two_digits [of "nat n"] by (simp add: dec2_def)

lemma length_yyyymmdd:
  assumes "printable t"
  shows "length (yyyymmdd t) = 8" "list_all is_digit (yyyymmdd t)"
proof -
  obtain y m d where c: "local_date t = (y, m, d)" by (cases "local_date t")
  then have civ: "civil (local_seconds t div 86400) = (y, m, d)" by (simp add: local_date_def)
  have y: "0 \<le> y" "y < 10000" using assms c by (simp_all add: printable_def)
  have "month_lengths y ! nat (m - 1) \<le> 31"
    using civil_range(1,2) [OF civ] by (auto simp: month_lengths_def nth_Cons' split: if_splits)
  then have md: "m < 100" "d < 100" using civil_range [OF civ] by linarith+
  have "nat y < 10 ^ 4" using y by simp
  from length_dec_le [OF _ this] have "length (dec (nat y)) \<le> 4" by simp
  then have "length (dec4 y) = 4" using y by (simp add: dec4_def length_pad0 max_def)
  moreover have "list_all is_digit (dec4 y)" using y by (simp add: dec4_def digits_pad0_dec)
  ultimately show "length (yyyymmdd t) = 8" "list_all is_digit (yyyymmdd t)"
    using md by (simp_all add: yyyymmdd_def c length_dec2 digits_dec2)
qed

lemma newExternalID_shape:
  assumes "printable t" and "r < 1000000"
  shows "length (newExternalID t r) = 20" "list_all is_digit (newExternalID t r)"
proof -
  let ?s = "local_seconds t mod 86400"
  have s: "0 \<le> ?s" "?s < 86400" by simp_all
  have h: "?s div 3600 < 100" using s by (simp add: div_less_iff_less_mult)
  have ms: "?s div 60 mod 60 < 100" "?s mod 60 < 100" by (rule less_trans [OF pos_mod_bound], simp_all)+
  have two: "length (dec2 (?s div 3600)) = 2" "length (dec2 (?s div 60 mod 60)) = 2" "length (dec2 (?s mod 60)) = 2"
    using h ms by (simp_all only: length_dec2)
  have six: "length (pad0 6 (dec r)) = 6" using length_dec_le [of 6 r] assms(2) by (simp add: length_pad0 max_def)
  show "length (newExternalID t r) = 20" unfolding newExternalID_def Let_def length_append two six length_yyyymmdd(1) [OF assms(1)] by simp
  show "list_all is_digit (newExternalID t r)"
    unfolding newExternalID_def Let_def list_all_append by (simp only: length_yyyymmdd(2) [OF assms(1)] digits_dec2 digits_pad0_dec simp_thms)
qed

lemma snapTimestamp_rfc3339: "snapTimestamp t = rfc3339 (in_zone wib t)"
  by (simp add: snapTimestamp_def snap_format_def rfc3339_def offset_text_def zone_text_def in_zone_def wib_def)

lemma snapTimestamp_parses:
  "printable (in_zone wib t) \<Longrightarrow> ParseRFC3339 (snapTimestamp t) = Some (to_the_second (in_zone wib t))"
  by (simp add: snapTimestamp_rfc3339 Parse_rfc3339)

text \<open>What the settings of the two sides have to agree on, and which headers the client fills.\<close>

definition same_signing :: "VendorConfig \<Rightarrow> VendorConfig \<Rightarrow> bool" where
  "same_signing cfg vc = (vg_ClientSecret vc = vg_ClientSecret cfg \<and> vg_ClientSecret cfg \<noteq> [] \<and>
     vg_SignatureAlgorithm vc = vg_SignatureAlgorithm cfg \<and> vg_BodyHashEncoding vc = vg_BodyHashEncoding cfg)"

definition known_to :: "VendorConfig \<Rightarrow> VendorConfig \<Rightarrow> bool" where
  "known_to cfg vc = (
     (vg_ChannelID vc = [] \<or> vg_ChannelID cfg \<noteq> [] \<and> matchesAllowedValue (vg_ChannelID cfg) (vg_ChannelID vc)) \<and>
     (vg_PartnerID vc = [] \<or> outboundPartnerID cfg \<noteq> [] \<and> matchesAllowedValue (outboundPartnerID cfg) (vg_PartnerID vc)))"

definition filled_headers :: "VendorConfig \<Rightarrow> string \<Rightarrow> string list" where
  "filled_headers cfg token = [''X-TIMESTAMP'', ''X-SIGNATURE'', ''X-EXTERNAL-ID'', ''CONTENT-TYPE''] @
     (if token = [] then [] else [''AUTHORIZATION'']) @ (if vg_ChannelID cfg = [] then [] else [''CHANNEL-ID'']) @
     (if outboundPartnerID cfg = [] then [] else [''X-PARTNER-ID''])"

definition token_for :: "auth_env \<Rightarrow> VendorConfig \<Rightarrow> string \<Rightarrow> bool" where
  "token_for r vc token = (if vg_ClientID vc = [] then token = []
     else token \<noteq> [] \<and> (case ValidateToken (ae_jwt r) (ae_now r) token of Inl _ \<Rightarrow> False | Inr claims \<Rightarrow> tc_ClientID claims = vg_ClientID vc))"

lemma filled_trimmed: "h \<in> set (filled_headers cfg token) \<Longrightarrow> TrimSpace h = h"
  by (auto simp: filled_headers_def TrimSpace_plain plain_byte_def ascii_space_def split: if_splits)

lemma hash_nonempty: "(\<And>s. cr_sha256 c s \<noteq> []) \<Longrightarrow> HashRequestBody c body enc \<noteq> []"
  by (simp add: HashRequestBody_def Let_def hex_encode_def)

lemma arriving_required:
  assumes "hr_Headers req = request_headers cfg x token ts sig" and "x \<noteq> []" "ts \<noteq> []" "sig \<noteq> []"
    and "h \<in> set (filled_headers cfg token)"
  shows "HeaderGet req (TrimSpace h) \<noteq> []"
  using assms(2-5) filled_trimmed [OF assms(5)] arriving_headers [OF assms(1)] by (auto simp: filled_headers_def split: if_splits)

lemma signed_request_sel [simp]:
  "ob_Method (signed_request e cfg token method endpoint body) = method"
  "ob_Body (signed_request e cfg token method endpoint body) = body"
  by (simp_all add: signed_request_def Let_def)

lemma signed_request_authentic:
  assumes sgn: "same_signing cfg vc" and known: "known_to cfg vc" and token: "token_for r vc token"
    and req: "set (required_headers vc) \<subseteq> set (filled_headers cfg token)"
    and crypto: "ae_crypto r = ge_crypto e" "\<forall>s. cr_sha256 (ge_crypto e) s \<noteq> []"
      "\<forall>k s. mac_of (ge_crypto e) (vg_SignatureAlgorithm cfg) k s \<noteq> []"
    and clocks: "printable (in_zone wib (ge_signed e))" "printable (ge_started e)" "ge_random e < 1000000"
      "\<bar>tm_ns (ae_now r) - tm_ns (to_the_second (ge_signed e))\<bar> \<le> five_minutes"
  shows "vendor_authentic r (arrives endpoint (signed_request e cfg token method endpoint body)) body vc"
proof -
  let ?ob = "signed_request e cfg token method endpoint body"
  let ?req = "arrives endpoint ?ob"
  define x where "x = newExternalID (ge_started e) (ge_random e)"
  define ts where "ts = snapTimestamp (ge_signed e)"
  define hash where "hash = HashRequestBody (ge_crypto e) body (vg_BodyHashEncoding cfg)"
  define sig where "sig = Sign (ge_crypto e) (vg_SignatureAlgorithm cfg) (vg_ClientSecret cfg) (BuildStringToSign method endpoint token hash ts)"
  have h: "hr_Headers ?req = request_headers cfg x token ts sig"
    by (simp add: arrives_def signed_request_def Let_def x_def ts_def hash_def sig_def client_stringToSign_def)
  note got = arriving_headers [OF h]
  have x: "length x = 20" "list_all is_digit x" "x \<noteq> []" using newExternalID_shape [OF clocks(2,3)] by (auto simp: x_def)
  have parsed: "ParseRFC3339 ts = Some (to_the_second (in_zone wib (ge_signed e)))"
    using snapTimestamp_parses [OF clocks(1)] by (simp add: ts_def)
  then have ts: "ts \<noteq> []" by (auto simp: ParseRFC3339_def take_date_def take_num_def)
  have sig: "sig \<noteq> []" using crypto(3) by (simp add: sig_def Sign_def)
  have signed: "read_signature sig = Some (mac_of (ge_crypto e) (vg_SignatureAlgorithm cfg) (vg_ClientSecret cfg) (BuildStringToSign method endpoint token hash ts))"
    using Verify_Sign Verify_iff by (simp add: sig_def)
  have fresh: "fresh r ts" using clocks(4) parsed by (auto simp: fresh_def to_the_second_def in_zone_def)
  have binds: "binds_token r ?req vc token" using token got(8) by (auto simp: binds_token_def token_for_def split: sum.splits if_splits)
  have required: "\<forall>g \<in> set (required_headers vc). isDocumentedTransferVAHeader (TrimSpace g) \<longrightarrow> HeaderGet ?req (TrimSpace g) \<noteq> []"
    using arriving_required [OF h x(3) ts sig] req by blast
  have pins: "pinned ?req ''CHANNEL-ID'' (vg_ChannelID vc)" "pinned ?req ''X-PARTNER-ID'' (vg_PartnerID vc)"
    using known got(3,4) by (auto simp: pinned_def known_to_def matchesAllowedValue_def list_ex_iff)
  have idok: "external_id_ok ?req vc" using x got(1) by (simp add: external_id_ok_def Let_def)
  have hash: "hash \<noteq> []" using hash_nonempty crypto(2) by (simp add: hash_def)
  have path: "hr_Method ?req = method" "hr_Path ?req = endpoint" "hr_Body ?req = Some body" by (simp_all add: arrives_def)
  show ?thesis
    unfolding vendor_authentic_def using required pins idok fresh binds sgn signed hash sig got(5,6)
    by (auto simp: same_signing_def crypto(1) hash_def path intro!: exI [of _ token])
qed

text \<open>C14: A request this client signs for a vendor passes the authentication this service applies to what vendors send it:
  when the receiving settings have the same secret, algorithm and body digest, know the channel and partner sent,
  require only headers the client fills, and accept the token, the middleware hands the request to its handler. The
  clocks may differ by five minutes; that a digest is never empty is the one thing relied on of the hash functions.\<close>

theorem signed_calls_are_accepted:
  assumes sgn: "same_signing cfg vc" and known: "known_to cfg vc" and token: "token_for r vc token"
    and req: "set (required_headers vc) \<subseteq> set (filled_headers cfg token)"
    and crypto: "ae_crypto r = ge_crypto e" "\<forall>s. cr_sha256 (ge_crypto e) s \<noteq> []"
      "\<forall>k s. mac_of (ge_crypto e) (vg_SignatureAlgorithm cfg) k s \<noteq> []"
    and clocks: "printable (in_zone wib (ge_signed e))" "printable (ge_started e)" "ge_random e < 1000000"
      "\<bar>tm_ns (ae_now r) - tm_ns (to_the_second (ge_signed e))\<bar> \<le> five_minutes"
  shows "SNAPAuthMiddleware r vc (arrives endpoint (signed_request e cfg token method endpoint body)) handler w = handler (vendor_context vc) w"
proof -
  let ?req = "arrives endpoint (signed_request e cfg token method endpoint body)"
  have "authenticateVendor r ?req vc service body = None" for service
    using signed_request_authentic [OF assms] by (simp add: authenticate_None)
  moreover have "hr_Body ?req = Some body" by (simp add: arrives_def)
  ultimately show ?thesis by (simp add: SNAPAuthMiddleware_def MultiVendorSNAPAuth_def candidateVendors_def Let_def)
qed

definition sturdy_crypto :: crypto_env where
  "sturdy_crypto = \<lparr>cr_sha256 = (\<lambda>s. ''d'' @ s), cr_hmac_sha256 = (\<lambda>k s. ''m'' @ k @ s), cr_hmac_sha512 = (\<lambda>k s. ''m'' @ k @ s), cr_compact = Some\<rparr>"

definition demo_vendor :: VendorConfig where
  "demo_vendor = (default_config ''bca'' ''va'')\<lparr>vg_ClientSecret := ''k'', vg_BaseURL := ''https://bank'', vg_ChannelID := ''95231''\<rparr>"

definition demo_instant :: gtime where
  "demo_instant = \<lparr>tm_ns = 63900000000000000001, tm_off = 0\<rparr>"

definition demo_fetch :: "int \<Rightarrow> fetch_env" where
  "demo_fetch s = \<lparr>fe_checked = Add demo_instant (s * nanos_per_second), fe_signed = Add demo_instant (s * nanos_per_second),
     fe_stored = Add demo_instant (s * nanos_per_second), fe_crypto = sturdy_crypto,
     fe_rsa = \<lparr>rl_pem = Some, rl_pkix = (\<lambda>_. Inl []), rl_pkcs1 = Some, rl_pkcs8 = (\<lambda>_. Inl []), rl_verify = (\<lambda>_ _ _. True), rl_sign = (\<lambda>k s. Inr s)\<rparr>,
     fe_ReadFile = (\<lambda>_. Inr ''key''), fe_url = (\<lambda>_. None), fe_Do = (\<lambda>_. Inr (200, Inr [])),
     fe_json = (\<lambda>_. Inr \<lparr>gt_ResponseCode = ''2007300'', gt_ResponseMessage = ''Successful'', gt_AccessToken = ''tok'' @ dec (nat s),
       gt_ExpiresIn = Some (RawString ''900'')\<rparr>)\<rparr>"

definition demo_gateway :: gateway_env where
  "demo_gateway = \<lparr>ge_started = demo_instant, ge_random = 7, ge_signed = demo_instant, ge_crypto = sturdy_crypto, ge_url = (\<lambda>_. None),
     ge_token = demo_fetch 0, ge_Do = (\<lambda>_. Inr (200, Inr []))\<rparr>"

definition demo_receiver :: auth_env where
  "demo_receiver = \<lparr>ae_now = demo_instant, ae_crypto = sturdy_crypto,
     ae_jwt = \<lparr>jl_sign = (\<lambda>_. Inl []), jl_method = (\<lambda>_. None), jl_check = (\<lambda>_ _. Inl [])\<rparr>,
     ae_client = \<lparr>ce_now = demo_instant, ce_app_uuid = [], ce_key_uuid = [], ce_fails = (\<lambda>_. False), ce_keyCache = False\<rparr>,
     ae_skipSkewCheck = False\<rparr>"

lemma demo_printable: "printable (in_zone wib demo_instant)" "printable demo_instant"
  by (simp_all add: printable_def demo_instant_def in_zone_def wib_def local_date_def local_seconds_def nanos_per_second_def civil_def year_yday_def Let_def
      month_lengths_def is_leap_def)

theorem signed_calls_are_accepted_witness:
  "SNAPAuthMiddleware demo_receiver demo_vendor (arrives ''/a'' (signed_request demo_gateway demo_vendor [] ''POST'' ''/a'' ''{}''))
     (\<lambda>v n. ((200, BareBody (NewSNAPErrorResponse [] [])), n + 1)) (0 :: nat) = ((200, BareBody (NewSNAPErrorResponse [] [])), 1)"
proof -
  have "matchesAllowedValue ''95231'' ''95231''" by code_simp
  then have "same_signing demo_vendor demo_vendor" "known_to demo_vendor demo_vendor" "token_for demo_receiver demo_vendor []"
    "set (required_headers demo_vendor) \<subseteq> set (filled_headers demo_vendor [])"
    by (simp_all add: same_signing_def known_to_def token_for_def demo_vendor_def default_config_def required_headers_def filled_headers_def)
  moreover have "\<bar>tm_ns (ae_now demo_receiver) - tm_ns (to_the_second (ge_signed demo_gateway))\<bar> \<le> five_minutes"
    by (simp add: demo_receiver_def demo_gateway_def demo_instant_def to_the_second_def five_minutes_def nanos_per_second_def)
  ultimately show ?thesis
    by (subst signed_calls_are_accepted) (simp_all add: demo_printable demo_receiver_def demo_gateway_def sturdy_crypto_def mac_of_def demo_vendor_def)
qed

definition paying_vendor :: VendorConfig where
  "paying_vendor = demo_vendor\<lparr>vg_ClientID := ''c'', vg_OutboundPrivateKeyPath := ''p''\<rparr>"

lemma demo_fetch_token: "fetch (demo_fetch s) paying_vendor = Inr (''tok'' @ dec (nat s), 900)"
  by (simp add: fetch_def paying_vendor_def demo_vendor_def demo_fetch_def RSASigner_Sign_def parseRSAPrivateKey_def private_key_bytes_def
      Let_def token_answer_def read_token_def go_Atoi_def is_digit_def digit_val_def)

lemma demo_fetch_clock [simp]: "tm_ns (fe_checked (demo_fetch s)) = 63900000000000000001 + s * 1000000000"
    "tm_ns (fe_stored (demo_fetch s)) = 63900000000000000001 + s * 1000000000"
  by (simp_all add: demo_fetch_def demo_instant_def Add_def nanos_per_second_def)

lemma lifetime_900: "lifetime 900 = 900000000000"
  by (simp add: lifetime_def)

theorem tokens_are_good_for_a_minute_witness:
  "fst (token_run paying_vendor (map demo_fetch [0, 839, 841]) NewTokenProvider) = [Inr ''tok0'', Inr ''tok0'', Inr ''tok841''] \<and>
   (\<exists>j n. 0 < n \<and> good_grant paying_vendor (map demo_fetch [0, 839, 841]) 1 j ''tok0'' n)"
proof -
  have run: "fst (token_run paying_vendor (map demo_fetch [0, 839, 841]) NewTokenProvider) = [Inr ''tok0'', Inr ''tok0'', Inr ''tok841'']"
    by (simp add: AccessToken_def NewTokenProvider_def demo_fetch_token Before_def Add_def tokenRefreshMargin_def nanos_per_second_def
        lifetime_900 dec.simps digit_char_def char_of_eq_iff)
  show ?thesis using tokens_are_good_for_a_minute [of 1 "map demo_fetch [0, 839, 841]" paying_vendor] unfolding run by simp
qed

section \<open>The log\<close>

lemma log_values:
  assumes "token \<noteq> []" and "token' \<noteq> []"
  shows "header_names (request_headers cfg x token ts sig) = header_names (request_headers cfg x token' ts sig)"
    and "name \<noteq> ''Authorization'' \<Longrightarrow> map_of (request_headers cfg x token ts sig) name = map_of (request_headers cfg x token' ts sig) name"
  using assms by (simp_all add: request_headers_list header_names_def)

text \<open>The access token stays out of the log: two calls that differ in the token alone and happen to have the same
  signature leave the same log entry, so the entry tells about the token nothing but the signature, a code of the
  whole request under the client secret. Neither the headers, nor the string to sign, nor the command shows it.\<close>

theorem tokens_stay_out_of_the_log:
  assumes "token \<noteq> []" and "token' \<noteq> []"
    and "header_value (ob_Header (signed_request e cfg token method endpoint body)) ''X-SIGNATURE'' =
      header_value (ob_Header (signed_request e cfg token' method endpoint body)) ''X-SIGNATURE''"
  shows "request_log e cfg token method endpoint body = request_log e cfg token' method endpoint body"
proof -
  define x ts where "x = newExternalID (ge_started e) (ge_random e)" and "ts = snapTimestamp (ge_signed e)"
  define sign where "sign t = Sign (ge_crypto e) (vg_SignatureAlgorithm cfg) (vg_ClientSecret cfg)
      (client_stringToSign (ge_crypto e) cfg method endpoint t body ts)" for t
  have h: "ob_Header (signed_request e cfg t method endpoint body) = request_headers cfg x t ts (sign t)"
    "ob_URL (signed_request e cfg t method endpoint body) = vg_BaseURL cfg @ endpoint" for t
    by (simp_all add: signed_request_def Let_def x_def ts_def sign_def)
  have "sign token = sign token'" using assms(3) by (simp add: h header_value_def request_headers_list)
  moreover have "loggableHeaders (request_headers cfg x token ts s) = loggableHeaders (request_headers cfg x token' ts s)"
    "curlCommand method u (request_headers cfg x token ts s) body = curlCommand method u (request_headers cfg x token' ts s) body" for s u
    using log_values [OF assms(1,2)]
    by (auto simp: loggableHeaders_def curlCommand_def curl_value_def header_value_def redactedHeaders_def headerPlaceholders_def
        intro!: arg_cong [of _ _ concat] map_cong)
  ultimately show ?thesis by (simp add: request_log_def Let_def h)
qed

theorem tokens_stay_out_of_the_log_witness:
  "request_log (demo_gateway\<lparr>ge_crypto := sturdy_crypto\<lparr>cr_hmac_sha512 := \<lambda>_ _. ''m''\<rparr>\<rparr>) demo_vendor ''secret'' ''POST'' ''/a'' ''{}'' =
   request_log (demo_gateway\<lparr>ge_crypto := sturdy_crypto\<lparr>cr_hmac_sha512 := \<lambda>_ _. ''m''\<rparr>\<rparr>) demo_vendor ''other'' ''POST'' ''/a'' ''{}''"
  by (rule tokens_stay_out_of_the_log) (simp_all add: signed_request_def Let_def header_value_def request_headers_list Sign_def mac_of_def
      demo_vendor_def default_config_def upper_byte_def)

section \<open>The logged command\<close>

text \<open>
  How a POSIX shell splits a line into words, for the part of its grammar without expansions: unquoted letters, digits and
  hyphens, single quotes, which protect everything, and double quotes, which protect everything but three bytes.
\<close>

datatype sh_state = Between | Inside string | Single string | Double string

definition sh_plain :: "char \<Rightarrow> bool" where
  "sh_plain c = (is_digit c \<or> 65 \<le> ord c \<and> ord c \<le> 90 \<or> 97 \<le> ord c \<and> ord c \<le> 122 \<or> c = CHR ''-'')"

definition sh_start :: "string \<Rightarrow> char \<Rightarrow> sh_state option" where
  "sh_start w c = (if c = CHR 0x27 then Some (Single w) else if c = CHR 0x22 then Some (Double w)
     else if sh_plain c then Some (Inside (w @ [c])) else None)"

fun sh_words :: "sh_state \<Rightarrow> string \<Rightarrow> string list option" where
  "sh_words Between [] = Some []"
| "sh_words (Inside w) [] = Some [w]"
| "sh_words (Single w) [] = None"
| "sh_words (Double w) [] = None"
| "sh_words Between (c # s) = (if c = CHR '' '' then sh_words Between s
     else (case sh_start [] c of None \<Rightarrow> None | Some st \<Rightarrow> sh_words st s))"
| "sh_words (Inside w) (c # s) = (if c = CHR '' '' then map_option (Cons w) (sh_words Between s)
     else (case sh_start w c of None \<Rightarrow> None | Some st \<Rightarrow> sh_words st s))"
| "sh_words (Single w) (c # s) = (if c = CHR 0x27 then sh_words (Inside w) s else sh_words (Single (w @ [c])) s)"
| "sh_words (Double w) (c # s) = (if c = CHR 0x22 then sh_words (Inside w) s
     else if c \<in> {CHR ''$'', CHR 0x60, CHR 0x5C} then None else sh_words (Double (w @ [c])) s)"

lemma sh_single: "sh_words (Single w) (concat (map quote_byte s) @ CHR 0x27 # r) = sh_words (Inside (w @ s)) r"
  by (induction s arbitrary: w) (auto simp: quote_byte_def sh_start_def)

lemma sh_quoted: "sh_words Between (shellQuote s @ r) = sh_words (Inside s) r"
  by (simp add: shellQuote_def sh_start_def sh_single)

lemma sh_option:
  "c \<in> {CHR ''H'', CHR ''d''} \<Longrightarrow>
     sh_words (Inside w) ('' -'' @ c # '' '' @ r) = map_option (\<lambda>ws. w # [CHR ''-'', c] # ws) (sh_words Between r)"
  by (elim insertE) (simp_all add: sh_start_def sh_plain_def option.map_comp comp_def ord_def)

lemma sh_headers:
  assumes "\<And>v. sh_words (Inside v) r = Some (v # vs)"
  shows "sh_words (Inside w) (concat (map (\<lambda>name. '' -H '' @ shellQuote (f name)) names) @ r) =
     Some (w # concat (map (\<lambda>name. [''-H'', f name]) names) @ vs)"
proof (induction names arbitrary: w)
  case (Cons name names)
  then show ?case using sh_option [of "CHR ''H''" w "shellQuote (f name) @ concat (map (\<lambda>name. '' -H '' @ shellQuote (f name)) names) @ r"]
    by (simp add: sh_quoted)
qed (simp add: assms)

text \<open>A shell reads the logged command as the program curl with the method, the URL, one header argument per header, the
  body, and nothing else, each byte for byte as it was sent, whatever quotes, blanks or line breaks they contain; the
  Authorization header alone carries the name of a variable in place of the token.\<close>

theorem logged_command_is_the_request:
  "sh_words Between (curlCommand ''POST'' url h body) =
     Some ([''curl'', ''-sS'', ''-X'', ''POST'', url] @
       concat (map (\<lambda>name. [''-H'', name @ '': '' @ (if CanonicalHeaderKey name = ''Authorization'' then ''Bearer $BCA_ACCESS_TOKEN'' else header_value h name)])
         (sort (map fst h))) @
       (if body = [] then [] else [''-d'', body]))"
proof -
  have v: "curl_value h name = (if CanonicalHeaderKey name = ''Authorization'' then ''Bearer $BCA_ACCESS_TOKEN'' else header_value h name)" for name
    by (simp add: curl_value_def headerPlaceholders_def redactedHeaders_def)
  let ?vs = "if body = [] then [] else [''-d'', body]"
  let ?r = "if body = [] then [] else '' -d '' @ shellQuote body"
  have d: "sh_words (Inside v) ?r = Some (v # ?vs)" for v
    using sh_option [of "CHR ''d''" v "shellQuote body"] sh_quoted [of body "[]"] by simp
  have start: "sh_words Between (''curl -sS -X POST '' @ t) = map_option (append [''curl'', ''-sS'', ''-X'', ''POST'']) (sh_words Between t)" for t
    by (simp add: sh_start_def sh_plain_def ord_def option.map_comp comp_def fun_eq_iff cong: option.map_cong)
  let ?f = "\<lambda>name. name @ '': '' @ curl_value h name"
  have "curlCommand ''POST'' url h body = ''curl -sS -X POST '' @ shellQuote url @
      concat (map (\<lambda>name. '' -H '' @ shellQuote (?f name)) (sort (map fst h))) @ ?r"
    by (simp add: curlCommand_def header_names_def)
  then have "sh_words Between (curlCommand ''POST'' url h body) =
      Some ([''curl'', ''-sS'', ''-X'', ''POST''] @ url # concat (map (\<lambda>name. [''-H'', ?f name]) (sort (map fst h))) @ ?vs)"
    by (simp only: start sh_quoted sh_headers [OF d] option.map)
  then show ?thesis by (simp add: v)
qed

section \<open>Reconciling over the client\<close>

text \<open>One reconciliation asks the vendor through the client.\<close>

definition over_gateway ::
    "(VAStatusRequest, VAStatusResponse) codec \<Rightarrow> gateway_env \<Rightarrow> Client \<Rightarrow> TokenProvider \<Rightarrow> rc_step \<Rightarrow> rc_step" where
  "over_gateway codec g c p u = u\<lparr>rc_PaymentStatus := \<lambda>req. map_sum id Some (fst (Client_PaymentStatus codec g c req p))\<rparr>"

lemma AccessToken_nonempty: "AccessToken e cfg p = (Inr token, p1) \<Longrightarrow> token \<noteq> []"
  using fetch_range by (fastforce simp: AccessToken_def split: if_splits sum.splits)

lemma doRequest_Inr:
  assumes "doRequest g c method endpoint body p = (Inr respBody, p1)"
  shows "\<exists>token status. client_token g c p = (Inr token, p1) \<and> status < 500 \<and>
    ge_Do g (signed_request g (cl_config c) token method endpoint body) = Inr (status, Inr respBody)"
  using assms by (fastforce simp: doRequest_def vendor_answer_def split: option.splits prod.splits sum.splits if_splits)

lemma PaymentStatus_Inr:
  assumes "Client_PaymentStatus codec g c req p = (Inr resp, p1)"
  shows "\<exists>body respBody. cd_marshal codec req = Inr body \<and> cd_unmarshal codec respBody = Inr resp \<and>
    doRequest g c ''POST'' (endpoint_of (cl_config c) ''STATUS'' defaultStatusEndpoint) body p = (Inr respBody, p1)"
  using assms by (auto simp: Client_PaymentStatus_def call_service_def Let_def split: sum.splits prod.splits)

text \<open>What a vendor entry must have for the reconciler: it is the one the settings name, and has what a call needs.\<close>

definition chosen_vendor :: "(string \<Rightarrow> string) \<Rightarrow> VendorConfig \<Rightarrow> bool" where
  "chosen_vendor getenv v = (vg_Vendor v = getEnvOrDefault getenv ''RECONCILE_VENDOR'' ''bca'' \<and>
     vg_Channel v = getEnvOrDefault getenv ''RECONCILE_CHANNEL'' ''va'')"

definition callable :: "VendorConfig \<Rightarrow> bool" where
  "callable v = (vg_BaseURL v \<noteq> [] \<and> vg_ClientID v \<noteq> [] \<and> vg_OutboundPrivateKeyPath v \<noteq> [])"

lemma built_client: "buildReconciler getenv cfgs = Some (c, rcfg) \<Longrightarrow>
  cl_tokens c \<and> cl_config c \<in> set cfgs \<and> getenv ''RECONCILE_ENABLED'' = ''true'' \<and> chosen_vendor getenv (cl_config c) \<and> callable (cl_config c)"
  by (auto simp: buildReconciler_def NewClient_def findVendorConfig_def chosen_vendor_def callable_def getEnvOrDefault_def
      dest: find_Some_mem split: if_splits option.splits)

text \<open>The answer of the vendor to the signed status inquiry for a record, as far as it counts.\<close>

definition signed_answer ::
    "(VAStatusRequest, VAStatusResponse) codec \<Rightarrow> gateway_env \<Rightarrow> Client \<Rightarrow> TokenProvider \<Rightarrow> VAInquiryRecord \<Rightarrow> string \<Rightarrow> VAStatusResponse \<Rightarrow> bool" where
  "signed_answer codec g c p record token resp = (\<exists>body status respBody p1.
     client_token g c p = (Inr token, p1) \<and> cd_marshal codec (status_request record) = Inr body \<and>
     ge_Do g (signed_request g (cl_config c) token ''POST'' (endpoint_of (cl_config c) ''STATUS'' defaultStatusEndpoint) body) = Inr (status, Inr respBody) \<and>
     status < 500 \<and> cd_unmarshal codec respBody = Inr resp)"

text \<open>C11: The chain from the settings to the ledger: a reconciler exists only when \<^verbatim>\<open>RECONCILE_ENABLED\<close> is \<^verbatim>\<open>true\<close>, and for
  the configured vendor and channel the settings name, which has a base URL, a client id and a private key to sign with;
  and one of its reconciliations settles a bill only if the vendor answered, with a status below 500, the status inquiry
  for this record that was signed with a token the provider held or fetched, and the answer says 2002600 with the flag
  00 or 02. When no token can be had, the request cannot be sent, the vendor fails, or its answer cannot be read, no
  bill and no callback changes.\<close>

theorem settlement_rests_on_a_signed_answer:
  assumes "buildReconciler getenv cfgs = Some (c, rcfg)"
    and "reconcileRecord rcfg (over_gateway codec g c p u) record w = (r, w')"
  shows "getenv ''RECONCILE_ENABLED'' = ''true'' \<and> cl_config c \<in> set cfgs \<and> chosen_vendor getenv (cl_config c) \<and> callable (cl_config c) \<and>
    (if rr_Settled r then (\<exists>token resp data. token \<noteq> [] \<and> signed_answer codec g c p record token resp \<and> sr_ResponseCode resp = ''2002600'' \<and>
         sr_VirtualAccountData resp = Some data \<and> sd_PaymentFlagStatus data \<in> {''00'', ''02''})
     else w_txns w' = w_txns w \<and> w_queue w' = w_queue w)"
proof (cases "rr_Settled r")
  case True
  let ?u = "over_gateway codec g c p u"
  have "vendor_paid ?u record \<noteq> None"
    using True reconcile_step(1) [OF assms(2)] by (auto simp: can_settle_def split: option.splits)
  then obtain resp data where a: "rc_PaymentStatus ?u (status_request record) = Inr (Some resp)" "sr_ResponseCode resp = ''2002600''"
    "sr_VirtualAccountData resp = Some data" "sd_PaymentFlagStatus data \<in> {''00'', ''02''}"
    by (auto simp: vendor_paid_def split: if_splits sum.splits option.splits)
  obtain q p1 where q: "Client_PaymentStatus codec g c (status_request record) p = (q, p1)" by fastforce
  have "q = Inr resp" using a(1) q by (cases q) (auto simp: over_gateway_def)
  with PaymentStatus_Inr [of codec g c "status_request record" p resp p1] q obtain body respBody where
    b: "cd_marshal codec (status_request record) = Inr body" "cd_unmarshal codec respBody = Inr resp"
      "doRequest g c ''POST'' (endpoint_of (cl_config c) ''STATUS'' defaultStatusEndpoint) body p = (Inr respBody, p1)" by auto
  from doRequest_Inr [OF b(3)] obtain token status where t: "client_token g c p = (Inr token, p1)" "status < 500"
    "ge_Do g (signed_request g (cl_config c) token ''POST'' (endpoint_of (cl_config c) ''STATUS'' defaultStatusEndpoint) body) = Inr (status, Inr respBody)"
    by blast
  have "token \<noteq> []" using t(1) built_client [OF assms(1)] AccessToken_nonempty by (auto simp: client_token_def)
  moreover have "signed_answer codec g c p record token resp" using t b unfolding signed_answer_def by blast
  ultimately show ?thesis using a True built_client [OF assms(1)] by auto
next
  case False
  then have n: "can_settle (over_gateway codec g c p u) record w = None" using reconcile_step(1) [OF assms(2)] by blast
  then show ?thesis using False reconcile_step(4,5) [OF assms(2)] built_client [OF assms(1)]
    by (simp add: after_settling_idle recovered_callbacks_def)
qed

definition demo_codec :: "(VAStatusRequest, VAStatusResponse) codec" where
  "demo_codec = \<lparr>cd_marshal = (\<lambda>_. Inr ''{}''), cd_unmarshal = (\<lambda>_. Inr \<lparr>sr_ResponseCode = ''2002600'', sr_ResponseMessage = ''Successful'',
     sr_VirtualAccountData = Some demo_answer, sr_AdditionalInfo = []\<rparr>)\<rparr>"

definition demo_getenv :: "string \<Rightarrow> string" where
  "demo_getenv name = (if name = ''RECONCILE_ENABLED'' then ''true'' else [])"

theorem settlement_rests_on_a_signed_answer_witness:
  "\<exists>c rcfg record r w'. buildReconciler demo_getenv [paying_vendor] = Some (c, rcfg) \<and>
     reconcileRecord rcfg (over_gateway demo_codec demo_gateway c NewTokenProvider demo_step) record demo_stuck = (r, w') \<and> rr_Settled r \<and>
     (\<exists>token resp data. token \<noteq> [] \<and> signed_answer demo_codec demo_gateway c NewTokenProvider record token resp)"
proof -
  define rcd where "rcd = projr (scan_inquiry demo_env [] [] demo_stale)"
  have rc: "ri_VirtualAccountNo rcd = ''12345678''" "ri_Status rcd = ''03''" "ri_InquiryRequestID rcd = ''inq1''" "ri_TrxID rcd = ''trx1''"
    by (simp_all add: rcd_def scan_inquiry_def)
  obtain rcfg where b: "buildReconciler demo_getenv [paying_vendor] = Some (\<lparr>cl_config = paying_vendor, cl_tokens = True\<rparr>, rcfg)"
    by (simp add: buildReconciler_def NewClient_def getEnvOrDefault_def demo_getenv_def findVendorConfig_def paying_vendor_def demo_vendor_def default_config_def)
  let ?c = "\<lparr>cl_config = paying_vendor, cl_tokens = True\<rparr>"
  let ?u = "over_gateway demo_codec demo_gateway ?c NewTokenProvider demo_step"
  obtain p1 where tok: "AccessToken (demo_fetch 0) paying_vendor NewTokenProvider = (Inr (''tok'' @ dec 0), p1)"
    by (simp add: AccessToken_def NewTokenProvider_def demo_fetch_token)
  have "rc_PaymentStatus ?u q = Inr (Some \<lparr>sr_ResponseCode = ''2002600'', sr_ResponseMessage = ''Successful'',
     sr_VirtualAccountData = Some demo_answer, sr_AdditionalInfo = []\<rparr>)" for q
    by (simp add: over_gateway_def Client_PaymentStatus_def call_service_def demo_codec_def doRequest_def client_token_def demo_gateway_def tok vendor_answer_def Let_def)
  moreover have "demo_numeric ''100.50'' = Some 10050"
    by (simp add: demo_numeric_def amountPattern_def amount_cents_def is_digit_def digit_val_def)
  moreover have "rc_env ?u = demo_env" by (simp add: over_gateway_def demo_step_def)
  ultimately have "can_settle ?u rcd demo_stuck \<noteq> None"
    by (simp add: can_settle_def vendor_paid_def rc IsPlaceholderInquiryRequestID_def demo_answer_def has_pending_def demo_stuck_def pending_of_def)
  moreover obtain r w' where e: "reconcileRecord rcfg ?u rcd demo_stuck = (r, w')" by fastforce
  ultimately have s: "rr_Settled r" using reconcile_step(1) [OF e] by simp
  then show ?thesis using settlement_rests_on_a_signed_answer [OF b e] b e by auto
qed

section \<open>A stranger spends an identifier\<close>

text \<open>C30: The order of the two middlewares has a price: a request that no vendor's settings authenticate, from anyone, marks
  its identifier as answered, and any request of the same day that carries this identifier afterwards, authentic or not,
  is refused as a conflict without reaching the handler, while Redis works and keeps answers for a day or more. The exception is the payment endpoint, when
  both requests went there and the stranger's body names the same paymentRequestId: then the second passes as a double
  flag.\<close>

theorem stranger_spends_identifier:
  assumes "day_length \<le> ix_cacheTTL cfg" and "redis_works e1" and "redis_works e2" and "redis_works f1"
    and "rd_now e1 \<le> rd_now e2" and "rd_now e2 \<le> rd_now f1" and "local_day cfg (rd_now f1) = local_day cfg (rd_now e1)"
    and "key = idempotencyKey cfg (rd_now e1) (HeaderGet req ''X-EXTERNAL-ID'')"
    and "spent_at (rd_now e1) st key = None" and "unlocked (rd_now e1) key st"
    and "hr_Method req = ''POST''" and "hr_Method req' = ''POST''" and "HeaderGet req ''X-EXTERNAL-ID'' \<noteq> []"
    and "HeaderGet req' ''X-EXTERNAL-ID'' = HeaderGet req ''X-EXTERNAL-ID''" 
    and "\<not> (passes_double_flags cfg (idem_view req' prid') \<and> paymentRequestIDOf cfg (idem_view req' prid') \<noteq> [] \<and>
      paymentRequestIDOf cfg (idem_view req prid) = paymentRequestIDOf cfg (idem_view req' prid'))"
    and "hr_Body req = Some body" and "find (vendor_authentic ae req body) (candidateVendors req vcs) = None"
  shows "case vendor_route cfg e1 e2 ae vcs req prid handler st w of (a, called, st', w') \<Rightarrow>
    w' = w \<and> vendor_route cfg f1 f2 ae' vcs req' prid' handler' st' w = (conflict (idem_view req' prid'), False, st', w)"
proof -
  obtain a where a: "MultiVendorSNAPAuth ae vcs req handler w = (a, w)" "fst a < 500"
    using unauthentic_answer [OF assms(16,17), of handler w] by blast
  have v: "\<not> is_reading (idem_view req prid)" "mq_ExternalID (idem_view req prid) \<noteq> []" "\<not> is_reading (idem_view req' prid')"
    "mq_ExternalID (idem_view req' prid') \<noteq> []"
    using assms(11-14) by (simp_all add: is_reading_def idem_view_def)
  have ok: "\<not> rd_set_fails e2" "\<not> rd_get_fails f1" using assms(3,4) by (simp_all add: redis_works_def)
  have "mq_ExternalID (idem_view req prid) = HeaderGet req ''X-EXTERNAL-ID''" by (simp add: idem_view_def)
  then obtain st' where m: "IdempotencyMiddleware cfg e1 e2 (idem_view req prid) (MultiVendorSNAPAuth ae vcs req handler) st w = (a, True, st', w)"
    using first_request_handled [where handler = "MultiVendorSNAPAuth ae vcs req handler" and w = w and a = a and ?w1.0 = w, OF assms(2) v(1,2) _ assms(9,10)]
      a(1) assms(8) by metis
  have mk: "marked (idempotencyKey cfg (rd_now f1) (mq_ExternalID (idem_view req' prid'))) (paymentRequestIDOf cfg (idem_view req prid))
      (rd_now e2 + ix_cacheTTL cfg) st'"
    using answer_marks [OF m v(1,2) a(2) ok(1)] same_day_key [OF assms(7)] assms(14) by (simp add: idem_view_def)
  have "rd_now f1 < rd_now e2 + ix_cacheTTL cfg" using same_day_near [OF assms(7)] assms(1,5) by simp
  then have "IdempotencyMiddleware cfg f1 f2 (idem_view req' prid') (MultiVendorSNAPAuth ae' vcs req' handler') st' w =
      (conflict (idem_view req' prid'), False, st', w)"
    using marked_refused [OF mk _ ok(2) v(3,4)] assms(15) by (simp add: is_repeat_def)
  then show ?thesis using m by (simp add: vendor_route_def)
qed

text \<open>A request without any signature, and then an inquiry signed as the bank signs it, with the same identifier.\<close>

definition inquiry_path :: string where "inquiry_path = ''/openapi/v1.0/transfer-va/inquiry''"

definition stranger :: http_request where
  "stranger = \<lparr>hr_Method = ''POST'', hr_Path = inquiry_path, hr_Headers = [(''X-EXTERNAL-ID'', newExternalID demo_instant 7)], hr_Body = Some []\<rparr>"

definition signed_inquiry :: http_request where
  "signed_inquiry = arrives inquiry_path (signed_request demo_gateway demo_vendor [] ''POST'' inquiry_path ''{}'')"

lemma stranger_headers: "HeaderGet stranger ''X-EXTERNAL-ID'' = newExternalID demo_instant 7" "HeaderGet stranger ''X-SIGNATURE'' = []"
  by (simp_all add: HeaderGet_def stranger_def upper_byte_def)

lemma signed_inquiry_sel: "hr_Method signed_inquiry = ''POST''" "hr_Body signed_inquiry = Some ''{}''"
  "HeaderGet signed_inquiry ''X-EXTERNAL-ID'' = newExternalID demo_instant 7"
  by (simp_all add: signed_inquiry_def arrives_def signed_request_def Let_def demo_gateway_def arriving_headers(1) [OF http_request.select_convs(3)])

lemma signed_inquiry_authentic: "vendor_authentic demo_receiver signed_inquiry ''{}'' demo_vendor"
proof -
  have "matchesAllowedValue ''95231'' ''95231''" by (simp add: matchesAllowedValue_def)
  then have "same_signing demo_vendor demo_vendor" "known_to demo_vendor demo_vendor" "token_for demo_receiver demo_vendor []"
    "set (required_headers demo_vendor) \<subseteq> set (filled_headers demo_vendor [])"
    by (simp_all add: same_signing_def known_to_def token_for_def demo_vendor_def default_config_def required_headers_def filled_headers_def)
  moreover have "\<bar>tm_ns (ae_now demo_receiver) - tm_ns (to_the_second (ge_signed demo_gateway))\<bar> \<le> five_minutes"
    by (simp add: demo_receiver_def demo_gateway_def demo_instant_def to_the_second_def five_minutes_def nanos_per_second_def)
  ultimately show ?thesis unfolding signed_inquiry_def
    by (intro signed_request_authentic) (simp_all add: demo_printable demo_receiver_def demo_gateway_def sturdy_crypto_def mac_of_def)
qed

definition soon :: "int \<Rightarrow> redis_env" where "soon s = demo_redis (tm_ns demo_instant + s * nanos_per_second)"

theorem stranger_spends_identifier_witness:
  "find (vendor_authentic demo_receiver signed_inquiry ''{}'') (candidateVendors signed_inquiry [demo_vendor]) = Some demo_vendor \<and>
   (case vendor_route demo_idem (soon 0) (soon 1) demo_receiver [demo_vendor] stranger None
      (\<lambda>_ n. (conflict demo_post, Suc n)) empty_store (0 :: nat) of
     (a, called, st', w') \<Rightarrow> w' = 0 \<and> vendor_route demo_idem (soon 60) (soon 61) demo_receiver [demo_vendor] signed_inquiry None
       (\<lambda>_ n. (conflict demo_post, Suc n)) st' 0 = (conflict (idem_view signed_inquiry None), False, st', 0))"
proof
  show "find (vendor_authentic demo_receiver signed_inquiry ''{}'') (candidateVendors signed_inquiry [demo_vendor]) = Some demo_vendor"
    by (simp add: candidateVendors_def Let_def signed_inquiry_authentic)
  have r: "redis_works (soon t)" "rd_now (soon t) = tm_ns demo_instant + t * nanos_per_second" for t
    by (simp_all add: redis_works_def soon_def demo_redis_def)
  have d: "local_day demo_idem (rd_now (soon 60)) = local_day demo_idem (rd_now (soon 0))"
    by (simp add: r local_day_def local_seconds_def in_zone_def nanos_per_second_def demo_idem_def demo_instant_def)
  have t: "day_length \<le> ix_cacheTTL demo_idem" by (simp add: demo_idem_def day_length_def nanos_per_second_def)
  have p: "\<not> passes_double_flags demo_idem (idem_view signed_inquiry None)"
    by (simp add: passes_double_flags_def demo_idem_def idem_view_def signed_inquiry_def arrives_def inquiry_path_def)
  have e: "spent_at n empty_store k = None" "unlocked n k empty_store" for n k
    by (simp_all add: spent_at_def unlocked_def empty_store_def)
  have u: "find (vendor_authentic demo_receiver stranger []) (candidateVendors stranger [demo_vendor]) = None"
    using stranger_headers(2) by (simp add: find_None_iff vendor_authentic_def)
  have n: "newExternalID demo_instant 7 \<noteq> []" using newExternalID_shape(1) [OF demo_printable(2), of 7] by fastforce
  have m: "hr_Method stranger = ''POST''" "hr_Body stranger = Some []" by (simp_all add: stranger_def)
  have o: "rd_now (soon 0) \<le> rd_now (soon 1)" "rd_now (soon 1) \<le> rd_now (soon 60)" by (simp_all add: r nanos_per_second_def)
  show "case vendor_route demo_idem (soon 0) (soon 1) demo_receiver [demo_vendor] stranger None
      (\<lambda>_ n. (conflict demo_post, Suc n)) empty_store (0 :: nat) of
     (a, called, st', w') \<Rightarrow> w' = 0 \<and> vendor_route demo_idem (soon 60) (soon 61) demo_receiver [demo_vendor] signed_inquiry None
       (\<lambda>_ n. (conflict demo_post, Suc n)) st' 0 = (conflict (idem_view signed_inquiry None), False, st', 0)"
    by (rule stranger_spends_identifier [OF t r(1) r(1) r(1) o d refl e m(1) signed_inquiry_sel(1) _ _ _ m(2) u])
      (simp_all add: stranger_headers signed_inquiry_sel n p)
qed

end
