(* ===== verification/MerchantHandler.thy ===== *)
theory MerchantHandler
  imports MerchantVa VaHandler
begin

text \<open>
  The merchant handlers of \<^verbatim>\<open>internal/adapter/delivery/http/handler/merchant_va_handler.go\<close>. The framework binds the
  body; a handler starts at the result, nothing when the body could not be parsed. Every error of the use cases is a
  \<^verbatim>\<open>DomainError\<close>, so the branches for other errors are not taken. The log lines of a refused creation are left out.
\<close>

section \<open>Creation\<close>

definition create_failure :: "string \<Rightarrow> string \<Rightarrow> MerchantCreateVAResponse" where
  "create_failure code message = \<lparr>cr_ResponseCode = code, cr_ResponseMessage = message, cr_VirtualAccountData = None\<rparr>"

definition MerchantVAHandler_CreateVA ::
    "env \<Rightarrow> rules_env option \<Rightarrow> MerchantCreateVARequest option \<Rightarrow> merchant_state \<Rightarrow> (nat \<times> MerchantCreateVAResponse) \<times> merchant_state" where
  "MerchantVAHandler_CreateVA e re bound ms = (case bound of
      None \<Rightarrow> ((400, create_failure ''4002700'' ''Invalid Field Format''), ms)
    | Some req \<Rightarrow>
        if cq_PartnerServiceID req = [] \<or> cq_VirtualAccountName req = [] \<or> cq_TrxID req = []
        then ((400, create_failure ''4002701'' ''Invalid Mandatory Field''), ms)
        else (case CreateVA e re req ms of
            (Inl err, ms1) \<Rightarrow> ((mapSNAPCodeToHTTP (de_SNAPCode err), create_failure (de_SNAPCode err) (de_Message err)), ms1)
          | (Inr resp, ms1) \<Rightarrow> ((200, resp), ms1)))"

section \<open>Listings\<close>

definition list_failure :: "string \<Rightarrow> string \<Rightarrow> MerchantListVAResponse" where
  "list_failure code message = \<lparr>lr_ResponseCode = code, lr_ResponseMessage = message, lr_Data = [], lr_Pagination = None\<rparr>"

definition MerchantVAHandler_ListVA :: "env \<Rightarrow> MerchantListVARequest option \<Rightarrow> world \<Rightarrow> nat \<times> MerchantListVAResponse" where
  "MerchantVAHandler_ListVA e bound w = (case bound of
      None \<Rightarrow> (400, list_failure ''4002400'' ''Invalid Field Format'')
    | Some req \<Rightarrow> (case ListVA e req w of
        Inl err \<Rightarrow> (mapSNAPCodeToHTTP (de_SNAPCode err), list_failure (de_SNAPCode err) (de_Message err))
      | Inr resp \<Rightarrow> (200, resp)))"

definition transactions_failure :: "string \<Rightarrow> string \<Rightarrow> MerchantListTransactionsResponse" where
  "transactions_failure code message = \<lparr>lt_ResponseCode = code, lt_ResponseMessage = message, lt_Data = [], lt_Pagination = None\<rparr>"

definition MerchantVAHandler_ListTransactions :: "env \<Rightarrow> MerchantListVARequest option \<Rightarrow> world \<Rightarrow> nat \<times> MerchantListTransactionsResponse" where
  "MerchantVAHandler_ListTransactions e bound w = (case bound of
      None \<Rightarrow> (400, transactions_failure ''4002400'' ''Invalid Field Format'')
    | Some req \<Rightarrow> (case ListTransactions e req w of
        Inl err \<Rightarrow> (mapSNAPCodeToHTTP (de_SNAPCode err), transactions_failure (de_SNAPCode err) (de_Message err))
      | Inr resp \<Rightarrow> (200, resp)))"

section \<open>Deletion\<close>

definition delete_failure :: "string \<Rightarrow> string \<Rightarrow> MerchantDeleteVAResponse" where
  "delete_failure code message = \<lparr>dr_ResponseCode = code, dr_ResponseMessage = message, dr_VirtualAccountData = None\<rparr>"

definition MerchantVAHandler_DeleteVA ::
    "env \<Rightarrow> MerchantDeleteVARequest option \<Rightarrow> world \<Rightarrow> (nat \<times> MerchantDeleteVAResponse) \<times> world" where
  "MerchantVAHandler_DeleteVA e bound w = (case bound of
      None \<Rightarrow> ((400, delete_failure ''4003101'' ''Invalid Field Format''), w)
    | Some req \<Rightarrow>
        if dq_PartnerServiceID req = [] \<or> dq_CustomerNo req = [] \<or> dq_VirtualAccountNo req = []
        then ((400, delete_failure ''4003101'' ''Invalid Mandatory Field''), w)
        else (case DeleteVA e req w of
            (Inl err, w1) \<Rightarrow> ((mapSNAPCodeToHTTP (de_SNAPCode err), delete_failure (de_SNAPCode err) (de_Message err)), w1)
          | (Inr resp, w1) \<Rightarrow> ((200, resp), w1)))"

end
