(* ===== verification/Routes.thy ===== *)
theory Routes
  imports MerchantHandler Gateway Idempotency Resend
begin

text \<open>
  The server as \<^verbatim>\<open>cmd/api/main.go\<close> puts it together: the settings it reads from the environment, the table of routes
  with the middlewares around each handler, and one request through them. The router is a parameter: it picks a
  registered route for a method and a path, with the values of the path parameters; what the framework answers when
  no route fits is not modelled. Binding a body to a request structure and encoding an answer are parameters too.
\<close>

section \<open>Settings\<close>

definition splitAndTrim :: "string \<Rightarrow> string list" where
  "splitAndTrim csv = filter (\<lambda>part. part \<noteq> []) (map TrimSpace (Split CHR '','' csv))"

text \<open>\<^verbatim>\<open>time.Duration\<close> wraps around at 64 bits.\<close>

definition getEnvDurationSeconds :: "(string \<Rightarrow> string) \<Rightarrow> string \<Rightarrow> int \<Rightarrow> int" where
  "getEnvDurationSeconds getenv key defaultSeconds = (
     let seconds = (if getenv key \<noteq> [] then (case go_Atoi (getenv key) of Some parsed \<Rightarrow> parsed | None \<Rightarrow> defaultSeconds) else defaultSeconds)
     in lifetime seconds)"

record deployment =
  dp_appEnv :: string
  dp_skipTimestampSkewCheck :: bool
  dp_acceptLegacyMerchantBodyHash :: bool
  dp_adminAPIKey :: string
  dp_idempotencyLockTTL :: int
  dp_idempotencyCacheTTL :: int
  dp_idempotencyDayZone :: int
  dp_vendorConfigs :: "VendorConfig list"
  dp_reconciler :: "(Client \<times> ReconcileConfig) option"

text \<open>The offset of the zone in which a day begins is given; its lookup by name is not modelled.\<close>

definition deployment_of :: "(string \<Rightarrow> string) \<Rightarrow> int \<Rightarrow> VendorConfig list \<Rightarrow> deployment" where
  "deployment_of getenv zone vendorConfigs = (let appEnv = getEnvOrDefault getenv ''APP_ENV'' ''dev'' in
     \<lparr>dp_appEnv = appEnv, dp_skipTimestampSkewCheck = (appEnv = ''dev'' \<or> appEnv = ''uat''),
      dp_acceptLegacyMerchantBodyHash = (getEnvOrDefault getenv ''MERCHANT_LEGACY_BODY_HASH'' ''true'' \<noteq> ''false''),
      dp_adminAPIKey = getEnvOrDefault getenv ''ADMIN_API_KEY'' [],
      dp_idempotencyLockTTL = getEnvDurationSeconds getenv ''IDEMPOTENCY_LOCK_TTL_SECONDS'' 30,
      dp_idempotencyCacheTTL = getEnvDurationSeconds getenv ''IDEMPOTENCY_CACHE_TTL_SECONDS'' 86400,
      dp_idempotencyDayZone = zone, dp_vendorConfigs = vendorConfigs, dp_reconciler = buildReconciler getenv vendorConfigs\<rparr>)"

section \<open>The table of routes\<close>

text \<open>The idempotency middleware comes with the exemption for double flags or without.\<close>

datatype middleware = AdminAuth | Idempotent bool | VendorAuth | MerchantAuth

datatype endpoint = ep_health | ep_metrics | ep_swagger
  | ep_RegisterClient | ep_AddClientKey | ep_RevokeClientKey | ep_AddClientSecret | ep_RevokeClientSecret
  | ep_Resend | ep_ResendRange | ep_Reconcile
  | ep_SignatureAuth | ep_SignatureService | ep_AccessToken
  | ep_Inquiry | ep_Payment | ep_Status
  | ep_CreateVA | ep_ListVA | ep_ListTransactions | ep_DeleteVA

record route =
  rt_Method :: string
  rt_Path :: string
  rt_Chain :: "middleware list"
  rt_Endpoint :: endpoint

definition rt :: "string \<Rightarrow> string \<Rightarrow> middleware list \<Rightarrow> endpoint \<Rightarrow> route" where
  "rt method path chain h = \<lparr>rt_Method = method, rt_Path = path, rt_Chain = chain, rt_Endpoint = h\<rparr>"

definition testing :: "deployment \<Rightarrow> bool" where
  "testing d = (dp_appEnv d = ''dev'' \<or> dp_appEnv d = ''uat'')"

definition snapBasePaths :: "deployment \<Rightarrow> string list" where
  "snapBasePaths d = (if testing d then [''/openapi/v1.0'', ''/api/v1.0'', ''/v1.0''] else [''/openapi/v1.0'', ''/v1.0''])"

definition statusBasePaths :: "deployment \<Rightarrow> string list" where
  "statusBasePaths d = (if testing d then [''/openapi/v2.0'', ''/api/v2.0'', ''/v2.0''] else [''/openapi/v2.0''])"

definition open_routes :: "route list" where
  "open_routes = [rt ''GET'' ''/health'' [] ep_health, rt ''GET'' ''/metrics'' [] ep_metrics, rt ''GET'' ''/swagger/*'' [] ep_swagger]"

definition adminGroup :: "route list" where
  "adminGroup = [
     rt ''POST'' ''/admin/clients'' [AdminAuth] ep_RegisterClient,
     rt ''POST'' ''/admin/clients/:clientId/keys'' [AdminAuth] ep_AddClientKey,
     rt ''DELETE'' ''/admin/clients/:clientId/keys/:keyId'' [AdminAuth] ep_RevokeClientKey,
     rt ''POST'' ''/admin/clients/:clientId/secret'' [AdminAuth] ep_AddClientSecret,
     rt ''DELETE'' ''/admin/clients/:clientId/secret/:secretId'' [AdminAuth] ep_RevokeClientSecret,
     rt ''POST'' ''/admin/transactions/:virtualAccountNo/resend-callback'' [AdminAuth] ep_Resend,
     rt ''POST'' ''/admin/callbacks/resend'' [AdminAuth] ep_ResendRange,
     rt ''POST'' ''/admin/transactions/:virtualAccountNo/reconcile'' [AdminAuth] ep_Reconcile]"

definition utilGroup :: "route list" where
  "utilGroup = [rt ''POST'' ''/api/v1/utilities/signature-auth'' [] ep_SignatureAuth,
     rt ''POST'' ''/api/v1/utilities/signature-service'' [] ep_SignatureService]"

definition statusRoute :: string where "statusRoute = ''/status''"

definition vendor_chain :: "deployment \<Rightarrow> bool \<Rightarrow> middleware list" where
  "vendor_chain d exempt = (if dp_vendorConfigs d \<noteq> [] then [Idempotent exempt, VendorAuth] else [Idempotent exempt])"

definition transferVAGroup :: "deployment \<Rightarrow> string \<Rightarrow> route list" where
  "transferVAGroup d base = (let group = base @ ''/transfer-va'' in [
     rt ''POST'' (group @ ''/inquiry'') (vendor_chain d True) ep_Inquiry,
     rt ''POST'' (group @ ''/payment'') (vendor_chain d True) ep_Payment,
     rt ''POST'' (group @ statusRoute) (vendor_chain d True) ep_Status,
     rt ''POST'' (group @ ''/create-va'') [Idempotent True, MerchantAuth] ep_CreateVA,
     rt ''POST'' (group @ ''/list'') [Idempotent True, MerchantAuth] ep_ListVA,
     rt ''POST'' (group @ ''/list-transactions'') [Idempotent True, MerchantAuth] ep_ListTransactions,
     rt ''DELETE'' (group @ ''/delete-va'') [Idempotent True, MerchantAuth] ep_DeleteVA])"

definition snapGroup :: "deployment \<Rightarrow> string \<Rightarrow> route list" where
  "snapGroup d base = rt ''POST'' (base @ ''/access-token/b2b'') [] ep_AccessToken # transferVAGroup d base"

definition statusGroup :: "deployment \<Rightarrow> string \<Rightarrow> route list" where
  "statusGroup d base = [rt ''POST'' (base @ ''/transfer-va'' @ statusRoute) (vendor_chain d False) ep_Status]"

definition registered :: "deployment \<Rightarrow> route list" where
  "registered d = open_routes @ adminGroup @ utilGroup @ concat (map (snapGroup d) (snapBasePaths d)) @
     concat (map (statusGroup d) (statusBasePaths d))"

section \<open>The handlers\<close>

record app =
  ap_world :: world
  ap_rules :: rules_state
  ap_clients :: clients

datatype app_body = SnapError SNAPErrorResponse | AdminError string | Health | Opaque
  | ClientAnswer clientResponse | ResendAnswer "string + resendCallbackResponse" | RangeAnswer "string + resendRangeResponse"
  | ReconcileAnswer "string + reconcileResponse" | SignatureAnswer SignatureResponse | TokenAnswer SNAPTokenResponse
  | CreateAnswer MerchantCreateVAResponse | ListAnswer MerchantListVAResponse
  | TransactionsAnswer MerchantListTransactionsResponse | DeleteAnswer MerchantDeleteVAResponse

record binders =
  bn_inquiry :: "string option \<Rightarrow> VAInquiryRequest option"
  bn_payment :: "string option \<Rightarrow> VAPaymentRequest option"
  bn_status :: "string option \<Rightarrow> VAStatusRequest option"
  bn_create :: "string option \<Rightarrow> MerchantCreateVARequest option"
  bn_list :: "string option \<Rightarrow> MerchantListVARequest option"
  bn_delete :: "string option \<Rightarrow> MerchantDeleteVARequest option"
  bn_client :: "string option \<Rightarrow> RegisterClientRequest option"
  bn_key :: "string option \<Rightarrow> AddClientKeyRequest option"
  bn_secret :: "string option \<Rightarrow> AddClientSecretRequest option"
  bn_range :: "string option \<Rightarrow> resendRangeRequest option"
  bn_grant :: "string option \<Rightarrow> string option"
  bn_paymentRequestID :: "string option \<Rightarrow> string option"

text \<open>What one request runs with.\<close>

record app_env =
  ax_env :: env
  ax_rules :: "rules_env option"
  ax_auth :: auth_env
  ax_token :: token_env
  ax_before :: redis_env
  ax_after :: redis_env
  ax_step :: rc_step
  ax_errors :: "gerr \<Rightarrow> string"
  ax_bind :: binders
  ax_encode :: "app_body \<Rightarrow> string"

definition respond :: "app_env \<Rightarrow> ('b \<Rightarrow> app_body) \<Rightarrow> nat \<times> 'b \<Rightarrow> http_answer" where
  "respond x body r = (case r of (status, b) \<Rightarrow> (status, RawBody (ax_encode x (body b))))"

definition on_world :: "(world \<Rightarrow> http_answer \<times> world) \<Rightarrow> app \<Rightarrow> http_answer \<times> app" where
  "on_world f a = (case f (ap_world a) of (r, w) \<Rightarrow> (r, a\<lparr>ap_world := w\<rparr>))"

definition on_clients :: "app_env \<Rightarrow> (clients \<Rightarrow> (nat \<times> clientResponse) \<times> clients) \<Rightarrow> app \<Rightarrow> http_answer \<times> app" where
  "on_clients x f a = (case f (ap_clients a) of (r, c) \<Rightarrow> (respond x ClientAnswer r, a\<lparr>ap_clients := c\<rparr>))"

type_synonym params = "(string \<times> string) list"

definition Param :: "params \<Rightarrow> string \<Rightarrow> string" where
  "Param ps name = (case map_of ps name of Some v \<Rightarrow> v | None \<Rightarrow> [])"

definition answer_with :: "app_env \<Rightarrow> ('b \<Rightarrow> app_body) \<Rightarrow> (nat \<times> 'b) \<times> world \<Rightarrow> http_answer \<times> world" where
  "answer_with x body r = (case r of (b, w) \<Rightarrow> (respond x body b, w))"

definition token_env_of :: "deployment \<Rightarrow> app_env \<Rightarrow> token_env" where
  "token_env_of d x = (ax_token x)\<lparr>te_skipSkewCheck := dp_skipTimestampSkewCheck d\<rparr>"

definition auth_env_of :: "deployment \<Rightarrow> app_env \<Rightarrow> auth_env" where
  "auth_env_of d x = (ax_auth x)\<lparr>ae_skipSkewCheck := dp_skipTimestampSkewCheck d\<rparr>"

definition create_va :: "app_env \<Rightarrow> MerchantCreateVARequest option \<Rightarrow> app \<Rightarrow> http_answer \<times> app" where
  "create_va x bound a = (case MerchantVAHandler_CreateVA (ax_env x) (ax_rules x) bound (ap_world a, ap_rules a) of
     (r, w, s) \<Rightarrow> (respond x CreateAnswer r, a\<lparr>ap_world := w, ap_rules := s\<rparr>))"

fun handle :: "deployment \<Rightarrow> app_env \<Rightarrow> http_request \<Rightarrow> params \<Rightarrow> endpoint \<Rightarrow> VendorContext option \<Rightarrow> app \<Rightarrow> http_answer \<times> app" where
  "handle d x req ps ep_health v a = ((200, RawBody (ax_encode x Health)), a)"
| "handle d x req ps ep_metrics v a = ((200, RawBody (ax_encode x Opaque)), a)"
| "handle d x req ps ep_swagger v a = ((200, RawBody (ax_encode x Opaque)), a)"
| "handle d x req ps ep_RegisterClient v a =
     on_clients x (ClientHandler_RegisterClient (te_client (ax_token x)) (te_rsa (ax_token x)) (ax_errors x) (bn_client (ax_bind x) (hr_Body req))) a"
| "handle d x req ps ep_AddClientKey v a =
     on_clients x (ClientHandler_AddClientKey (te_client (ax_token x)) (te_rsa (ax_token x)) (ax_errors x) (Param ps ''clientId'')
       (bn_key (ax_bind x) (hr_Body req))) a"
| "handle d x req ps ep_RevokeClientKey v a =
     on_clients x (ClientHandler_RevokeClientKey (te_client (ax_token x)) (ax_errors x) (Param ps ''clientId'') (Param ps ''keyId'')) a"
| "handle d x req ps ep_AddClientSecret v a =
     on_clients x (ClientHandler_AddClientSecret (te_client (ax_token x)) (ax_errors x) (Param ps ''clientId'') (bn_secret (ax_bind x) (hr_Body req))) a"
| "handle d x req ps ep_RevokeClientSecret v a =
     on_clients x (ClientHandler_RevokeClientSecret (te_client (ax_token x)) (ax_errors x) (Param ps ''clientId'') (Param ps ''secretId'')) a"
| "handle d x req ps ep_Resend v a =
     on_world (\<lambda>w. answer_with x ResendAnswer (AdminResendHandler_Resend (ax_env x) (Param ps ''virtualAccountNo'') w)) a"
| "handle d x req ps ep_ResendRange v a =
     on_world (\<lambda>w. answer_with x RangeAnswer (AdminResendHandler_ResendRange (ax_env x) (bn_range (ax_bind x) (hr_Body req)) w)) a"
| "handle d x req ps ep_Reconcile v a =
     on_world (\<lambda>w. answer_with x ReconcileAnswer (AdminReconcileHandler_Reconcile (map_option snd (dp_reconciler d)) (ax_step x)
       (Param ps ''virtualAccountNo'') w)) a"
| "handle d x req ps ep_SignatureAuth v a = (respond x SignatureAnswer (SignatureHandler_GenerateAccessTokenSignature (te_crypto (ax_token x))
     (te_rsa (ax_token x)) (HeaderGet req ''X-CLIENT-KEY'') (HeaderGet req ''X-TIMESTAMP'') (HeaderGet req ''X-PRIVATE-KEY'')), a)"
| "handle d x req ps ep_SignatureService v a = (respond x SignatureAnswer (SignatureHandler_GenerateServiceSignature (te_crypto (ax_token x))
     (HeaderGet req ''X-CLIENT-SECRET'') (HeaderGet req ''HttpMethod'') (HeaderGet req ''EndpointUrl'') (HeaderGet req ''AccessToken'')
     (HeaderGet req ''X-TIMESTAMP'') (hr_Body req)), a)"
| "handle d x req ps ep_AccessToken v a = (respond x TokenAnswer (GetB2BAccessToken (token_env_of d x) (bn_grant (ax_bind x) (hr_Body req))
     (HeaderGet req ''X-CLIENT-KEY'') (HeaderGet req ''X-TIMESTAMP'') (HeaderGet req ''X-SIGNATURE'') (ap_clients a)), a)"
| "handle d x req ps ep_Inquiry v a = on_world (VAHandler_Inquiry (ax_env x) True v (bn_inquiry (ax_bind x) (hr_Body req))) a"
| "handle d x req ps ep_Payment v a =
     on_world (VAHandler_Payment (ax_env x) True v (HeaderGet req ''X-EXTERNAL-ID'') (bn_payment (ax_bind x) (hr_Body req))) a"
| "handle d x req ps ep_Status v a = on_world (VAHandler_Status (ax_env x) (bn_status (ax_bind x) (hr_Body req))) a"
| "handle d x req ps ep_CreateVA v a = create_va x (bn_create (ax_bind x) (hr_Body req)) a"
| "handle d x req ps ep_ListVA v a = (respond x ListAnswer (MerchantVAHandler_ListVA (ax_env x) (bn_list (ax_bind x) (hr_Body req)) (ap_world a)), a)"
| "handle d x req ps ep_ListTransactions v a =
     (respond x TransactionsAnswer (MerchantVAHandler_ListTransactions (ax_env x) (bn_list (ax_bind x) (hr_Body req)) (ap_world a)), a)"
| "handle d x req ps ep_DeleteVA v a =
     on_world (\<lambda>w. answer_with x DeleteAnswer (MerchantVAHandler_DeleteVA (ax_env x) (bn_delete (ax_bind x) (hr_Body req)) w)) a"

section \<open>One request\<close>

definition double_flag_route :: "string \<Rightarrow> bool" where
  "double_flag_route path = HasSuffix path ''/transfer-va/payment''"

definition idem_config_of :: "deployment \<Rightarrow> bool \<Rightarrow> idem_config" where
  "idem_config_of d exempt = \<lparr>ix_doubleFlagPassthrough = (if exempt then Some double_flag_route else None),
     ix_zone = dp_idempotencyDayZone d, ix_lockTTL = dp_idempotencyLockTTL d, ix_cacheTTL = dp_idempotencyCacheTTL d\<rparr>"

definition idem_request_of :: "app_env \<Rightarrow> http_request \<Rightarrow> idem_request" where
  "idem_request_of x req = \<lparr>mq_Method = hr_Method req, mq_Path = hr_Path req, mq_ExternalID = HeaderGet req ''X-EXTERNAL-ID'',
     mq_PaymentRequestID = bn_paymentRequestID (ax_bind x) (hr_Body req)\<rparr>"

text \<open>
  The middlewares of a route from the outside in. The state is what the handlers work on; the store of the idempotency
  middleware is threaded beside it, and no route has that middleware twice.
\<close>

definition flatten :: "app_env \<Rightarrow> ('e \<Rightarrow> http_answer) \<Rightarrow> ('e + http_answer) \<times> app \<Rightarrow> http_answer \<times> app" where
  "flatten x reject r = (case r of (Inl err, a) \<Rightarrow> (reject err, a) | (Inr answer, a) \<Rightarrow> (answer, a))"

fun guarded :: "deployment \<Rightarrow> app_env \<Rightarrow> http_request \<Rightarrow> middleware list \<Rightarrow> (VendorContext option \<Rightarrow> app \<Rightarrow> http_answer \<times> app) \<Rightarrow>
    VendorContext option \<Rightarrow> idem_store \<Rightarrow> app \<Rightarrow> http_answer \<times> idem_store \<times> app" where
  "guarded d x req [] h v st a = (case h v a of (r, a1) \<Rightarrow> (r, st, a1))"
| "guarded d x req (AdminAuth # ms) h v st a = (
     case flatten x (\<lambda>(status, msg). (status, RawBody (ax_encode x (AdminError msg))))
       (AdminAuthMiddleware (dp_adminAPIKey d) req (\<lambda>b. case guarded d x req ms h v st b of (r, _, b1) \<Rightarrow> (r, b1)) a) of
       (r, a1) \<Rightarrow> (r, st, a1))"
| "guarded d x req (Idempotent exempt # ms) h v st a = (
     case IdempotencyMiddleware (idem_config_of d exempt) (ax_before x) (ax_after x) (idem_request_of x req)
       (\<lambda>b. case guarded d x req ms h v st b of (r, _, b1) \<Rightarrow> (r, b1)) st a of (r, called, st1, a1) \<Rightarrow> (r, st1, a1))"
| "guarded d x req (VendorAuth # ms) h v st a = (
     case MultiVendorSNAPAuth (auth_env_of d x) (dp_vendorConfigs d) req
       (\<lambda>vc b. case guarded d x req ms h (Some vc) st b of (r, _, b1) \<Rightarrow> (r, b1)) a of (r, a1) \<Rightarrow> (r, st, a1))"
| "guarded d x req (MerchantAuth # ms) h v st a = (
     case flatten x (\<lambda>(status, resp). (status, BareBody resp))
       (MerchantAuthMiddleware (auth_env_of d x) (dp_acceptLegacyMerchantBodyHash d) req (ap_clients a)
          (\<lambda>b. case guarded d x req ms h v st b of (r, _, b1) \<Rightarrow> (r, b1)) a) of
       (r, a1) \<Rightarrow> (r, st, a1))"

type_synonym router = "route list \<Rightarrow> string \<Rightarrow> string \<Rightarrow> (route \<times> params) option"

definition serve ::
    "router \<Rightarrow> deployment \<Rightarrow> app_env \<Rightarrow> http_request \<Rightarrow> idem_store \<Rightarrow> app \<Rightarrow> (http_answer \<times> idem_store \<times> app) option" where
  "serve router d x req st a = (case router (registered d) (hr_Method req) (hr_Path req) of
      None \<Rightarrow> None
    | Some (r, ps) \<Rightarrow> Some (guarded d x req (rt_Chain r) (handle d x req ps (rt_Endpoint r)) None st a))"

end
