(* ===== verification/RoutesProps.thy ===== *)
theory RoutesProps
  imports Routes HandlerProps TokenProps AuthProps GatewayProps RulesProps
begin

text \<open>
  The server as a whole: the table of routes has no two entries for one method and path and guards every handler that
  can change something, whatever changes is changed by an authenticated request, and an authentic payment request
  reaches the payment use case through all layers.
\<close>

section \<open>The merchant handlers\<close>

definition accepted_creation :: "MerchantCreateVARequest option \<Rightarrow> MerchantCreateVARequest option" where
  "accepted_creation bound = (case bound of None \<Rightarrow> None | Some req \<Rightarrow>
     if cq_PartnerServiceID req \<noteq> [] \<and> cq_VirtualAccountName req \<noteq> [] \<and> cq_TrxID req \<noteq> [] then Some req else None)"

definition accepted_deletion :: "MerchantDeleteVARequest option \<Rightarrow> MerchantDeleteVARequest option" where
  "accepted_deletion bound = (case bound of None \<Rightarrow> None | Some req \<Rightarrow>
     if dq_PartnerServiceID req \<noteq> [] \<and> dq_CustomerNo req \<noteq> [] \<and> dq_VirtualAccountNo req \<noteq> [] then Some req else None)"

lemma create_success_code: "fst (CreateVA e re req ms) = Inr resp \<Longrightarrow> cr_ResponseCode resp = ''2002700''"
  by (auto simp: CreateVA_def create_issue_def create_transaction_def buildCreateVAResponse_def Let_def
      split: prod.splits sum.splits option.splits if_splits)

lemma delete_success_code: "fst (DeleteVA e req w) = Inr resp \<Longrightarrow> dr_ResponseCode resp = ''2003100''"
  by (auto simp: DeleteVA_def delete_registration_def delete_transaction_def buildDeleteVAResponse_def
      split: prod.splits sum.splits option.splits if_splits)

lemma create_handler:
  "case MerchantVAHandler_CreateVA e re bound ms of (a, ms') \<Rightarrow> fst a = mapSNAPCodeToHTTP (cr_ResponseCode (snd a)) \<and>
     (case accepted_creation bound of None \<Rightarrow> fst a = 400 \<and> ms' = ms | Some req \<Rightarrow> ms' = snd (CreateVA e re req ms))"
proof (cases "accepted_creation bound")
  case None
  then show ?thesis
    by (auto simp: accepted_creation_def MerchantVAHandler_CreateVA_def create_failure_def split: option.splits if_splits)
next
  case (Some req)
  then have b: "bound = Some req" "cq_PartnerServiceID req \<noteq> []" "cq_VirtualAccountName req \<noteq> []" "cq_TrxID req \<noteq> []"
    by (auto simp: accepted_creation_def split: option.splits if_splits)
  obtain r ms1 where c: "CreateVA e re req ms = (r, ms1)" by (rule prod.exhaust)
  show ?thesis using Some b c create_success_code [of e re req ms]
    by (cases r) (auto simp: MerchantVAHandler_CreateVA_def create_failure_def)
qed

lemma delete_handler:
  "case MerchantVAHandler_DeleteVA e bound w of (a, w') \<Rightarrow> fst a = mapSNAPCodeToHTTP (dr_ResponseCode (snd a)) \<and>
     (case accepted_deletion bound of None \<Rightarrow> fst a = 400 \<and> w' = w | Some req \<Rightarrow> w' = snd (DeleteVA e req w))"
proof (cases "accepted_deletion bound")
  case None
  then show ?thesis
    by (auto simp: accepted_deletion_def MerchantVAHandler_DeleteVA_def delete_failure_def split: option.splits if_splits)
next
  case (Some req)
  then have b: "bound = Some req" "dq_PartnerServiceID req \<noteq> []" "dq_CustomerNo req \<noteq> []" "dq_VirtualAccountNo req \<noteq> []"
    by (auto simp: accepted_deletion_def split: option.splits if_splits)
  obtain r w1 where c: "DeleteVA e req w = (r, w1)" by fastforce
  show ?thesis using Some b c delete_success_code [of e req w]
    by (cases r) (auto simp: MerchantVAHandler_DeleteVA_def delete_failure_def)
qed

text \<open>The four merchant endpoints answer with the HTTP status of the response code in the body. A creation or deletion
  that cannot be parsed or lacks one of its three mandatory fields is answered 400 and changes nothing; every other
  one has exactly the effect of its use case.\<close>

theorem merchant_handlers_validate_first:
  "(case MerchantVAHandler_CreateVA e re cb ms of (a, ms') \<Rightarrow> fst a = mapSNAPCodeToHTTP (cr_ResponseCode (snd a)) \<and>
      (case accepted_creation cb of None \<Rightarrow> fst a = 400 \<and> ms' = ms | Some req \<Rightarrow> ms' = snd (CreateVA e re req ms))) \<and>
   (case MerchantVAHandler_DeleteVA e db w of (a, w') \<Rightarrow> fst a = mapSNAPCodeToHTTP (dr_ResponseCode (snd a)) \<and>
      (case accepted_deletion db of None \<Rightarrow> fst a = 400 \<and> w' = w | Some req \<Rightarrow> w' = snd (DeleteVA e req w))) \<and>
   (case MerchantVAHandler_ListVA e lb w of (status, resp) \<Rightarrow> status = mapSNAPCodeToHTTP (lr_ResponseCode resp)) \<and>
   (case MerchantVAHandler_ListTransactions e tb w of (status, resp) \<Rightarrow> status = mapSNAPCodeToHTTP (lt_ResponseCode resp))"
proof (intro conjI create_handler delete_handler)
  show "case MerchantVAHandler_ListVA e lb w of (status, resp) \<Rightarrow> status = mapSNAPCodeToHTTP (lr_ResponseCode resp)"
    by (auto simp: MerchantVAHandler_ListVA_def list_failure_def ListVA_def Let_def split: option.splits sum.splits prod.splits)
  show "case MerchantVAHandler_ListTransactions e tb w of (status, resp) \<Rightarrow> status = mapSNAPCodeToHTTP (lt_ResponseCode resp)"
    by (auto simp: MerchantVAHandler_ListTransactions_def transactions_failure_def ListTransactions_def Let_def
        split: option.splits sum.splits prod.splits)
qed

section \<open>The table\<close>

text \<open>No two routes of the server have the same method and path, so registering one never hides another, in every
  environment and with or without configured vendors.\<close>

theorem routes_do_not_shadow: "distinct (map (\<lambda>r. (rt_Method r, rt_Path r)) (registered d))"
  by (cases "testing d")
    (simp_all add: registered_def open_routes_def adminGroup_def utilGroup_def snapGroup_def transferVAGroup_def statusGroup_def
      snapBasePaths_def statusBasePaths_def statusRoute_def rt_def Let_def)

definition client_endpoints :: "endpoint set" where
  "client_endpoints = {ep_RegisterClient, ep_AddClientKey, ep_RevokeClientKey, ep_AddClientSecret, ep_RevokeClientSecret}"

definition admin_endpoints :: "endpoint set" where
  "admin_endpoints = {ep_Resend, ep_ResendRange, ep_Reconcile}"

definition vendor_endpoints :: "endpoint set" where
  "vendor_endpoints = {ep_Inquiry, ep_Payment, ep_Status}"

definition merchant_endpoints :: "endpoint set" where
  "merchant_endpoints = {ep_CreateVA, ep_ListVA, ep_ListTransactions, ep_DeleteVA}"

lemma registered_chain:
  assumes "r \<in> set (registered d)"
  shows "rt_Endpoint r \<in> client_endpoints \<union> admin_endpoints \<Longrightarrow> rt_Chain r = [AdminAuth]"
    and "rt_Endpoint r \<in> merchant_endpoints \<Longrightarrow> rt_Chain r = [Idempotent True, MerchantAuth]"
    and "rt_Endpoint r \<in> vendor_endpoints \<Longrightarrow> \<exists>b. rt_Chain r = vendor_chain d b"
    and "rt_Endpoint r = ep_Payment \<Longrightarrow> rt_Chain r = vendor_chain d True"
  using assms
  by (auto simp: registered_def open_routes_def adminGroup_def utilGroup_def snapGroup_def transferVAGroup_def statusGroup_def
      rt_def Let_def client_endpoints_def admin_endpoints_def merchant_endpoints_def vendor_endpoints_def)

section \<open>What a request has to show\<close>

definition by_admin :: "deployment \<Rightarrow> http_request \<Rightarrow> bool" where
  "by_admin d req = (dp_adminAPIKey d \<noteq> [] \<and> HeaderGet req ''X-Admin-API-Key'' = dp_adminAPIKey d)"

definition by_vendor :: "deployment \<Rightarrow> app_env \<Rightarrow> http_request \<Rightarrow> bool" where
  "by_vendor d x req = (\<exists>body vc. hr_Body req = Some body \<and> vc \<in> set (dp_vendorConfigs d) \<and> vendor_authentic (auth_env_of d x) req body vc)"

definition by_merchant :: "deployment \<Rightarrow> app_env \<Rightarrow> http_request \<Rightarrow> clients \<Rightarrow> bool" where
  "by_merchant d x req cl = merchant_authentic (auth_env_of d x) (dp_acceptLegacyMerchantBodyHash d) req cl"

fun passes :: "deployment \<Rightarrow> app_env \<Rightarrow> http_request \<Rightarrow> clients \<Rightarrow> middleware \<Rightarrow> bool" where
  "passes d x req cl AdminAuth = by_admin d req"
| "passes d x req cl (Idempotent exempt) = True"
| "passes d x req cl VendorAuth = by_vendor d x req"
| "passes d x req cl MerchantAuth = by_merchant d x req cl"

lemma idem_effect:
  "snd (snd (snd (IdempotencyMiddleware cfg e1 e2 req handler st w))) = w \<or>
   snd (snd (snd (IdempotencyMiddleware cfg e1 e2 req handler st w))) = snd (handler w)"
  by (auto simp: IdempotencyMiddleware_def Let_def split: prod.splits)

lemma vendor_effect:
  "snd (MultiVendorSNAPAuth e vcs req handler w) = w \<or>
   (\<exists>body vc. hr_Body req = Some body \<and> vc \<in> set vcs \<and> vendor_authentic e req body vc \<and>
     snd (MultiVendorSNAPAuth e vcs req handler w) = snd (handler (vendor_context vc) w))"
proof (cases "hr_Body req")
  case None
  then show ?thesis using rejected_or_handled [where req = req and e = e and vcs = vcs and handler = handler and w = w] by simp
next
  case (Some body)
  show ?thesis
  proof (cases "find (vendor_authentic e req body) (candidateVendors req vcs)")
    case None
    then show ?thesis using rejected_or_handled [where req = req and e = e and vcs = vcs and handler = handler and w = w] Some by simp
  next
    case (Some vc)
    then have "vendor_authentic e req body vc" by (auto simp: find_Some_iff)
    then show ?thesis using rejected_or_handled [where req = req and e = e and vcs = vcs and handler = handler and w = w] Some \<open>hr_Body req = _\<close> by auto
  qed
qed

text \<open>The effect of a guarded handler is nothing, or that of the handler when every middleware lets the request pass.\<close>

lemma guarded_effect:
  "snd (snd (guarded d x req ms h v st a)) = a \<or>
   (\<forall>m \<in> set ms. passes d x req (ap_clients a) m) \<and> (\<exists>v'. snd (snd (guarded d x req ms h v st a)) = snd (h v' a))"
proof (induction ms arbitrary: v)
  case Nil
  show ?case by (simp split: prod.splits) (metis snd_conv)
next
  case (Cons m ms)
  have inner: "snd (case guarded d x req ms h v st b of (r, s, b1) \<Rightarrow> (r, b1)) = snd (snd (guarded d x req ms h v st b))" for b v
    by (simp split: prod.splits)
  show ?case
  proof (cases m)
    case AdminAuth
    then show ?thesis using Cons.IH [of v]
      by (auto simp: AdminAuthMiddleware_def flatten_def by_admin_def Let_def split: prod.splits sum.splits if_splits)
  next
    case (Idempotent exempt)
    let ?m = "IdempotencyMiddleware (idem_config_of d exempt) (ax_before x) (ax_after x) (idem_request_of x req)
       (\<lambda>b. case guarded d x req ms h v st b of (r, s, b1) \<Rightarrow> (r, b1)) st a"
    have "snd (snd (guarded d x req (m # ms) h v st a)) = snd (snd (snd ?m))" using Idempotent by (simp split: prod.splits)
    then show ?thesis
      using Cons.IH [of v] idem_effect [of "idem_config_of d exempt" "ax_before x" "ax_after x" "idem_request_of x req"
          "\<lambda>b. case guarded d x req ms h v st b of (r, s, b1) \<Rightarrow> (r, b1)" st a] Idempotent by (auto simp: inner)
  next
    case VendorAuth
    let ?h = "\<lambda>vc b. case guarded d x req ms h (Some vc) st b of (r, s, b1) \<Rightarrow> (r, b1)"
    have "snd (snd (guarded d x req (m # ms) h v st a)) = snd (MultiVendorSNAPAuth (auth_env_of d x) (dp_vendorConfigs d) req ?h a)"
      using VendorAuth by (simp split: prod.splits)
    then show ?thesis
      using vendor_effect [of "auth_env_of d x" "dp_vendorConfigs d" req ?h a] Cons.IH VendorAuth
      by (auto simp: inner by_vendor_def) metis+
  next
    case MerchantAuth
    then show ?thesis using Cons.IH [of v]
      by (auto simp: MerchantAuthMiddleware_def flatten_def by_merchant_def merchant_check_None [symmetric] split: prod.splits sum.splits option.splits)
  qed
qed

section \<open>What a handler can change\<close>

lemma on_world_effect: "snd (on_world f a) = a\<lparr>ap_world := snd (f (ap_world a))\<rparr>"
  by (simp add: on_world_def split: prod.splits)

lemma on_clients_effect: "snd (on_clients x f a) = a\<lparr>ap_clients := snd (f (ap_clients a))\<rparr>"
  by (simp add: on_clients_def split: prod.splits)

lemma handle_effect:
  assumes "a' = snd (handle d x req ps ep v a)"
  shows "ep \<notin> client_endpoints \<Longrightarrow> ap_clients a' = ap_clients a"
    and "ep \<notin> admin_endpoints \<union> vendor_endpoints \<union> merchant_endpoints \<Longrightarrow> ap_world a' = ap_world a"
    and "ep \<notin> merchant_endpoints \<Longrightarrow> ap_rules a' = ap_rules a"
  using assms
  by (cases ep; simp add: on_world_effect on_clients_effect create_va_def client_endpoints_def admin_endpoints_def vendor_endpoints_def
      merchant_endpoints_def split: prod.splits)+

text \<open>C3: Whoever calls the server, and whatever the request contains: the clients, their keys and secrets change only for a
  caller with the administration key; bills, payments, registrations, callbacks and every other table of the ledger
  change only for such a caller, for a request one of the configured vendors authenticates, or for one a merchant
  signed; the copies of the master data are refreshed only for a merchant. The one thing relied on of the router is
  that it picks a registered route, and the deployment has at least one vendor.\<close>

theorem changes_are_authenticated:
  assumes "\<forall>rs m p r ps. router rs m p = Some (r, ps) \<longrightarrow> r \<in> set rs" and "dp_vendorConfigs d \<noteq> []"
    and "serve router d x req st a = Some (answer, st', a')"
  shows "(ap_clients a' \<noteq> ap_clients a \<longrightarrow> by_admin d req) \<and>
    (ap_world a' \<noteq> ap_world a \<longrightarrow> by_admin d req \<or> by_vendor d x req \<or> by_merchant d x req (ap_clients a)) \<and>
    (ap_rules a' \<noteq> ap_rules a \<longrightarrow> by_merchant d x req (ap_clients a))"
proof -
  from assms(3) obtain r ps where r: "router (registered d) (hr_Method req) (hr_Path req) = Some (r, ps)"
    and g: "guarded d x req (rt_Chain r) (handle d x req ps (rt_Endpoint r)) None st a = (answer, st', a')"
    by (auto simp: serve_def split: option.splits prod.splits)
  have mem: "r \<in> set (registered d)" using assms(1) r by blast
  note chain = registered_chain [OF mem]
  show ?thesis
  proof (cases "a' = a")
    case False
    then obtain v where ok: "\<forall>m \<in> set (rt_Chain r). passes d x req (ap_clients a) m" and a': "a' = snd (handle d x req ps (rt_Endpoint r) v a)"
      using guarded_effect [of d x req "rt_Chain r" "handle d x req ps (rt_Endpoint r)" None st a] g by auto
    have "rt_Endpoint r \<in> client_endpoints \<union> admin_endpoints \<Longrightarrow> by_admin d req"
      "rt_Endpoint r \<in> merchant_endpoints \<Longrightarrow> by_merchant d x req (ap_clients a)"
      "rt_Endpoint r \<in> vendor_endpoints \<Longrightarrow> by_vendor d x req"
      using chain ok assms(2) by (auto simp: vendor_chain_def)
    then show ?thesis using handle_effect [OF a'] by blast
  qed simp
qed

section \<open>A payment through all layers\<close>

text \<open>The vendor context with which a vendor handler runs: of the first vendor that authenticates the request, or none when
  no vendor is configured.\<close>

definition runs_as :: "deployment \<Rightarrow> app_env \<Rightarrow> http_request \<Rightarrow> string \<Rightarrow> VendorContext option \<Rightarrow> bool" where
  "runs_as d x req body v = (if dp_vendorConfigs d = [] then v = None
     else (case find (vendor_authentic (auth_env_of d x) req body) (candidateVendors req (dp_vendorConfigs d)) of
        None \<Rightarrow> False | Some vc \<Rightarrow> v = Some (vendor_context vc)))"

text \<open>The request is the first of the day with its identifier, and Redis answers.\<close>

definition new_identifier :: "deployment \<Rightarrow> app_env \<Rightarrow> http_request \<Rightarrow> idem_store \<Rightarrow> bool" where
  "new_identifier d x req st = (redis_works (ax_before x) \<and> HeaderGet req ''X-EXTERNAL-ID'' \<noteq> [] \<and>
     (let key = idempotencyKey (idem_config_of d True) (rd_now (ax_before x)) (HeaderGet req ''X-EXTERNAL-ID'') in
      spent_at (rd_now (ax_before x)) st key = None \<and> unlocked (rd_now (ax_before x)) key st))"

definition payment_route :: "router \<Rightarrow> deployment \<Rightarrow> http_request \<Rightarrow> bool" where
  "payment_route router d req = (case router (registered d) (hr_Method req) (hr_Path req) of
      Some (r, ps) \<Rightarrow> r \<in> set (registered d) \<and> rt_Endpoint r = ep_Payment | None \<Rightarrow> False)"

lemma payment_handler_ok:
  assumes "accepted_payment strict v ext bound = Some (preq, paid)" and "Payment e preq paid w = (Inr resp, w1)"
  shows "VAHandler_Payment e strict v ext bound w = ((mapSNAPCodeToHTTP (pr_ResponseCode resp), PaymentBody resp), w1)"
proof -
  from assms(1) obtain req0 where b: "bound = Some req0" "preq = completed_request ext req0" "pq_PaidAmount preq = Some paid"
      "ValidatePaymentRequest preq (strictMandatoryFor strict v) = None"
    by (auto simp: accepted_payment_def Let_def ValidatePaymentRequest_None split: option.splits if_splits)
  then show ?thesis using assms(2) by (simp add: VAHandler_Payment_def Let_def)
qed

lemma vendor_run:
  assumes "hr_Body req = Some body" and "runs_as d x req body v" and "handle d x req ps ep v a = (r, a1)"
  shows "guarded d x req (tl (vendor_chain d b)) (handle d x req ps ep) None st a = (r, st, a1)"
proof (cases "dp_vendorConfigs d = []")
  case True
  with assms show ?thesis by (simp add: vendor_chain_def runs_as_def)
next
  case False
  with assms(2) obtain vc where vc: "find (vendor_authentic (auth_env_of d x) req body) (candidateVendors req (dp_vendorConfigs d)) = Some vc"
    "v = Some (vendor_context vc)" by (auto simp: runs_as_def split: option.splits)
  let ?h = "\<lambda>vc b. case guarded d x req [] (handle d x req ps ep) (Some vc) st b of (r, s, b1) \<Rightarrow> (r, b1)"
  have "MultiVendorSNAPAuth (auth_env_of d x) (dp_vendorConfigs d) req ?h a = ?h (vendor_context vc) a"
    using rejected_or_handled [where req = req and e = "auth_env_of d x" and vcs = "dp_vendorConfigs d" and handler = ?h and w = a]
      assms(1) vc(1) by simp
  with False vc(2) assms(3) show ?thesis by (simp add: vendor_chain_def)
qed

lemma payment_served:
  assumes route: "payment_route router d req" and post: "hr_Method req = ''POST''" and body: "hr_Body req = Some body"
    and run: "runs_as d x req body v" and new: "new_identifier d x req st"
    and pay: "VAHandler_Payment (ax_env x) True v (HeaderGet req ''X-EXTERNAL-ID'') (bn_payment (ax_bind x) (Some body)) (ap_world a) = (r, w1)"
  shows "\<exists>st'. serve router d x req st a = Some (r, st', a\<lparr>ap_world := w1\<rparr>)"
proof -
  obtain rt ps where rt: "router (registered d) (hr_Method req) (hr_Path req) = Some (rt, ps)" "rt \<in> set (registered d)" "rt_Endpoint rt = ep_Payment"
    using route by (auto simp: payment_route_def split: option.splits)
  have chain: "rt_Chain rt = Idempotent True # tl (vendor_chain d True)"
    using registered_chain(4) [OF rt(2,3)] by (simp add: vendor_chain_def)
  have h: "handle d x req ps ep_Payment v a = (r, a\<lparr>ap_world := w1\<rparr>)" using pay body by (simp add: on_world_def)
  let ?next = "\<lambda>b. case guarded d x req (tl (vendor_chain d True)) (handle d x req ps ep_Payment) None st b of (r, s, b1) \<Rightarrow> (r, b1)"
  have inner: "?next a = (r, a\<lparr>ap_world := w1\<rparr>)" using vendor_run [OF body run h] by simp
  have q: "\<not> is_reading (idem_request_of x req)" "mq_ExternalID (idem_request_of x req) = HeaderGet req ''X-EXTERNAL-ID''"
    using post by (simp_all add: is_reading_def idem_request_of_def)
  obtain st' where "IdempotencyMiddleware (idem_config_of d True) (ax_before x) (ax_after x) (idem_request_of x req) ?next st a =
      (r, True, st', a\<lparr>ap_world := w1\<rparr>)"
    using first_request_handled [where handler = ?next and cfg = "idem_config_of d True" and ?e2.0 = "ax_after x", OF _ q(1) _ refl _ _ inner] new q(2)
    by (auto simp: new_identifier_def Let_def)
  then show ?thesis by (simp add: serve_def rt(1,3) chain)
qed


text \<open>C31: Without vendors the same routes stand open: when the configuration yields no vendor, which includes a configuration
  directory that cannot be read, any well-formed payment request with a new identifier reaches the payment use case,
  whoever sends it and whatever its headers claim.\<close>

theorem unconfigured_server_is_open:
  assumes "payment_route router d req" and "hr_Method req = ''POST''" and "hr_Body req = Some body"
    and "dp_vendorConfigs d = []" and "new_identifier d x req st"
    and "accepted_payment True None (HeaderGet req ''X-EXTERNAL-ID'') (bn_payment (ax_bind x) (Some body)) = Some (preq, paid)"
  shows "\<exists>answer st'. serve router d x req st a = Some (answer, st', a\<lparr>ap_world := snd (Payment (ax_env x) preq paid (ap_world a))\<rparr>)"
proof -
  obtain r w1 where p: "VAHandler_Payment (ax_env x) True None (HeaderGet req ''X-EXTERNAL-ID'') (bn_payment (ax_bind x) (Some body)) (ap_world a) = (r, w1)"
    by fastforce
  have "runs_as d x req body None" using assms(4) by (simp add: runs_as_def)
  from payment_served [OF assms(1-3) this assms(5) p]
  obtain st' where s: "serve router d x req st a = Some (r, st', a\<lparr>ap_world := w1\<rparr>)" by blast
  have "w1 = snd (Payment (ax_env x) preq paid (ap_world a))"
    using payment_handler [where e = "ax_env x" and strict = True and vendor = None and externalID = "HeaderGet req ''X-EXTERNAL-ID''" and
      bound = "bn_payment (ax_bind x) (Some body)" and w = "ap_world a"] p assms(6) by simp
  with s show ?thesis by blast
qed

section \<open>A server to run it on\<close>

text \<open>A router that compares paths literally, which is enough for routes without parameters.\<close>

definition literal_router :: router where
  "literal_router rs method path = map_option (\<lambda>r. (r, [])) (find (\<lambda>r. rt_Method r = method \<and> rt_Path r = path) rs)"

definition full_request :: VAPaymentRequest where
  "full_request = demo_request\<lparr>pq_TotalAmount := Some demo_paid, pq_TrxDateTime := Some demo_instant\<rparr>"

definition demo_deployment :: "VendorConfig list \<Rightarrow> deployment" where
  "demo_deployment vendors = deployment_of (\<lambda>name. if name = ''APP_ENV'' then ''prod'' else []) 25200 vendors"

definition demo_binders :: binders where
  "demo_binders = \<lparr>bn_inquiry = (\<lambda>_. None), bn_payment = (\<lambda>_. Some full_request), bn_status = (\<lambda>_. None), bn_create = (\<lambda>_. None),
     bn_list = (\<lambda>_. None), bn_delete = (\<lambda>_. Some \<lparr>dq_PartnerServiceID = ''12345'', dq_CustomerNo = ''678'', dq_VirtualAccountNo = ''12345678'',
       dq_TrxID = [], dq_AdditionalInfo = []\<rparr>), bn_client = (\<lambda>_. None), bn_key = (\<lambda>_. None), bn_secret = (\<lambda>_. None), bn_range = (\<lambda>_. None),
     bn_grant = (\<lambda>_. None), bn_paymentRequestID = (\<lambda>_. None)\<rparr>"

definition demo_app_env :: app_env where
  "demo_app_env = \<lparr>ax_env = demo_env, ax_rules = None, ax_auth = demo_receiver,
     ax_token = \<lparr>te_now = demo_instant, te_jti = [], te_crypto = sturdy_crypto, te_rsa = fe_rsa (demo_fetch 0), te_jwt = ae_jwt demo_receiver,
       te_client = ae_client demo_receiver, te_skipSkewCheck = False\<rparr>,
     ax_before = demo_redis 0, ax_after = demo_redis 5, ax_step = demo_step, ax_errors = (\<lambda>_. []), ax_bind = demo_binders, ax_encode = (\<lambda>_. [])\<rparr>"

definition demo_app :: app where
  "demo_app = \<lparr>ap_world = demo_world, ap_rules = seeded_rules, ap_clients = demo_clients\<rparr>"

lemma demo_deployment_sel [simp]:
  "dp_vendorConfigs (demo_deployment vs) = vs" "dp_adminAPIKey (demo_deployment vs) = []" "dp_appEnv (demo_deployment vs) = ''prod''"
  "dp_skipTimestampSkewCheck (demo_deployment vs) = False"
  by (simp_all add: demo_deployment_def deployment_of_def Let_def getEnvOrDefault_def)

lemma literal_router_registered: "literal_router rs m p = Some (r, ps) \<Longrightarrow> r \<in> set rs"
  by (auto simp: literal_router_def find_Some_iff)

lemma literal_finds: "r \<in> set rs \<Longrightarrow> literal_router rs (rt_Method r) (rt_Path r) \<noteq> None"
  by (auto simp: literal_router_def find_None_iff)

lemma served:
  assumes "router (registered d) (hr_Method req) (hr_Path req) \<noteq> None"
  shows "\<exists>answer st' a'. serve router d x req st a = Some (answer, st', a')"
proof -
  from assms obtain r ps where "router (registered d) (hr_Method req) (hr_Path req) = Some (r, ps)" by auto
  then have "serve router d x req st a = Some (guarded d x req (rt_Chain r) (handle d x req ps (rt_Endpoint r)) None st a)"
    by (simp add: serve_def)
  then show ?thesis by (cases "guarded d x req (rt_Chain r) (handle d x req ps (rt_Endpoint r)) None st a") auto
qed

text \<open>A deletion nobody signed.\<close>

definition stray_request :: http_request where
  "stray_request = \<lparr>hr_Method = ''DELETE'', hr_Path = ''/openapi/v1.0/transfer-va/delete-va'', hr_Headers = [(''X-EXTERNAL-ID'', ''41'')], hr_Body = Some []\<rparr>"

lemma stray_headers: "HeaderGet stray_request ''X-SIGNATURE'' = []" "HeaderGet stray_request ''Authorization'' = []"
  by (simp_all add: HeaderGet_def stray_request_def upper_byte_def)

theorem changes_are_authenticated_witness:
  "\<exists>answer st' a'. serve literal_router (demo_deployment [demo_vendor]) demo_app_env stray_request empty_store demo_app = Some (answer, st', a') \<and>
     ap_world a' = ap_world demo_app \<and> ap_clients a' = ap_clients demo_app"
proof -
  let ?d = "demo_deployment [demo_vendor]"
  have "rt ''DELETE'' ''/openapi/v1.0/transfer-va/delete-va'' [Idempotent True, MerchantAuth] ep_DeleteVA \<in> set (registered ?d)"
    by (simp add: registered_def snapGroup_def transferVAGroup_def snapBasePaths_def testing_def rt_def Let_def)
  from literal_finds [OF this] have "literal_router (registered ?d) (hr_Method stray_request) (hr_Path stray_request) \<noteq> None"
    by (simp add: rt_def stray_request_def)
  from served [where router = literal_router, OF this] obtain answer st' a' where
    s: "serve literal_router ?d demo_app_env stray_request empty_store demo_app = Some (answer, st', a')" by blast
  have "\<not> by_admin ?d stray_request" by (simp add: by_admin_def)
  moreover have "\<not> by_vendor ?d demo_app_env stray_request" using stray_headers by (auto simp: by_vendor_def vendor_authentic_def)
  moreover have "\<not> by_merchant ?d demo_app_env stray_request cl" for cl using stray_headers by (auto simp: by_merchant_def merchant_authentic_def)
  ultimately show ?thesis
    using changes_are_authenticated [OF _ _ s] literal_router_registered s by auto
qed

text \<open>The payment of the sample bill, signed as the bank would sign it.\<close>

definition payment_path :: string where "payment_path = ''/openapi/v1.0/transfer-va/payment''"

definition signed_payment :: http_request where
  "signed_payment = arrives payment_path (signed_request demo_gateway demo_vendor [] ''POST'' payment_path ''{}'')"

lemma signed_payment_sel [simp]: "hr_Method signed_payment = ''POST''" "hr_Path signed_payment = payment_path" "hr_Body signed_payment = Some ''{}''"
  by (simp_all add: signed_payment_def arrives_def)

lemma signed_payment_id: "HeaderGet signed_payment ''X-EXTERNAL-ID'' = newExternalID demo_instant 7"
  by (simp add: signed_payment_def arrives_def signed_request_def Let_def demo_gateway_def arriving_headers(1) [OF http_request.select_convs(3)])

lemma payment_routed: "hr_Method req = ''POST'' \<Longrightarrow> hr_Path req = payment_path \<Longrightarrow> payment_route literal_router (demo_deployment vs) req"
  by (simp add: payment_route_def literal_router_def registered_def open_routes_def adminGroup_def utilGroup_def snapGroup_def
      transferVAGroup_def snapBasePaths_def testing_def rt_def Let_def payment_path_def statusRoute_def)

lemma external_id_shape: "newExternalID demo_instant 7 \<noteq> []"
  using newExternalID_shape(1) [OF demo_printable(2), of 7] by fastforce

lemma full_request_accepted: "accepted_payment True v ext (Some full_request) = Some (full_request\<lparr>pq_ExternalID := ext\<rparr>, demo_paid)"
proof -
  let ?r = "full_request\<lparr>pq_ExternalID := ext\<rparr>"
  have c: "completed_request ext full_request = ?r" by (simp add: completed_request_def NormalizeBillDetails_def full_request_def demo_request_def)
  have a: "amountPattern ''250.00''" "paidAmountPattern ''250.00''" "amount_cents ''250.00'' = 25000"
    by (simp_all add: amountPattern_def paidAmountPattern_def amount_cents_def is_digit_def digit_val_def)
  have t: "TrimSpace ''12345'' = ''12345''" "TrimSpace ''678'' = ''678''" "TrimSpace ''12345678'' = ''12345678''" "TrimSpace ''p1'' = ''p1''"
    "TrimSpace ''Budi'' = ''Budi''" "TrimSpace ''N'' = ''N''" "TrimSpace ''IDR'' = ''IDR''"  "TrimSpace ''250.00'' = ''250.00''" "ToUpper ''IDR'' = ''IDR''"
    by (simp_all add: TrimSpace_plain plain_byte_def ascii_space_def upper_byte_def)
  have "payment_wellformed True ?r"
    using a by (simp add: payment_wellformed_def full_request_def demo_request_def demo_paid_def identity_ok_def t paid_ok_def currency_ok_def
        amount_ok_def bills_ok_def lengths_ok_def strict_ok_def suffix_def EqualFold_def integer_part_def upper_byte_def)
  then have "payment_wellformed s ?r" for s by (simp add: payment_wellformed_def)
  then show ?thesis by (simp add: accepted_payment_def Let_def c) (simp add: full_request_def demo_request_def demo_paid_def)
qed

lemma full_request_reaches: "reaches_single demo_env (full_request\<lparr>pq_ExternalID := ext\<rparr>) demo_world demo_txn 25000"
  using demo_reaches
  by (simp add: reaches_single_def first_request_def flag_answer_def full_request_def demo_request_def demo_world_def fresh_world_def)

lemma full_request_amounts: "amounts_ok (full_request\<lparr>pq_ExternalID := ext\<rparr>) demo_paid" "tenders (full_request\<lparr>pq_ExternalID := ext\<rparr>) demo_paid 25000"
  "list_all IsEmpty (pq_BillDetails (full_request\<lparr>pq_ExternalID := ext\<rparr>))"
  using demo_paid_amount by (simp_all add: amounts_ok_def tenders_def full_request_def demo_request_def)

lemma signed_payment_authentic: "vendor_authentic (auth_env_of (demo_deployment vs) demo_app_env) signed_payment ''{}'' demo_vendor"
proof -
  have "matchesAllowedValue ''95231'' ''95231''" by (simp add: matchesAllowedValue_def)
  then have "same_signing demo_vendor demo_vendor" "known_to demo_vendor demo_vendor"
    "token_for (auth_env_of (demo_deployment vs) demo_app_env) demo_vendor []"
    "set (required_headers demo_vendor) \<subseteq> set (filled_headers demo_vendor [])"
    by (simp_all add: same_signing_def known_to_def token_for_def demo_vendor_def default_config_def required_headers_def filled_headers_def)
  moreover have "ae_crypto (auth_env_of (demo_deployment vs) demo_app_env) = ge_crypto demo_gateway"
    "\<bar>tm_ns (ae_now (auth_env_of (demo_deployment vs) demo_app_env)) - tm_ns (to_the_second (ge_signed demo_gateway))\<bar> \<le> five_minutes"
    by (simp_all add: auth_env_of_def demo_app_env_def demo_receiver_def demo_gateway_def demo_instant_def to_the_second_def five_minutes_def nanos_per_second_def)
  ultimately show ?thesis unfolding signed_payment_def
    by (intro signed_request_authentic) (simp_all add: demo_printable demo_gateway_def sturdy_crypto_def mac_of_def)
qed

lemma demo_new_identifier: "HeaderGet req ''X-EXTERNAL-ID'' \<noteq> [] \<Longrightarrow> new_identifier d demo_app_env req empty_store"
  by (simp add: new_identifier_def demo_app_env_def redis_works_def demo_redis_def spent_at_def unlocked_def empty_store_def Let_def)


theorem unconfigured_server_is_open_witness:
  "\<exists>answer st' w'. serve literal_router (demo_deployment []) demo_app_env
      (stray_request\<lparr>hr_Method := ''POST'', hr_Path := payment_path\<rparr>) empty_store demo_app = Some (answer, st', demo_app\<lparr>ap_world := w'\<rparr>) \<and>
     w_txns w' \<noteq> w_txns (ap_world demo_app)"
proof -
  let ?d = "demo_deployment []" and ?x = demo_app_env and ?q = "stray_request\<lparr>hr_Method := ''POST'', hr_Path := payment_path\<rparr>"
  have hdr: "HeaderGet ?q ''X-EXTERNAL-ID'' = ''41''" by (simp add: HeaderGet_def stray_request_def upper_byte_def)
  have new: "new_identifier ?d ?x ?q empty_store" by (rule demo_new_identifier) (simp add: hdr)
  have acc: "accepted_payment True None (HeaderGet ?q ''X-EXTERNAL-ID'') (bn_payment (ax_bind ?x) (Some [])) =
      Some (full_request\<lparr>pq_ExternalID := ''41''\<rparr>, demo_paid)"
    by (simp add: demo_app_env_def demo_binders_def full_request_accepted hdr)
  obtain out w' where p: "Payment demo_env (full_request\<lparr>pq_ExternalID := ''41''\<rparr>) demo_paid demo_world = (out, w')" by fastforce
  have "w_txns w' \<noteq> w_txns demo_world"
    using settles_exactly [OF full_request_reaches full_request_amounts(1,3) p] full_request_amounts(2) by (auto simp: settled_by_def demo_world_def demo_txn_def)
  then show ?thesis
    using unconfigured_server_is_open [OF payment_routed _ _ _ new acc, of demo_app] p
    by (auto simp: stray_request_def demo_app_env_def demo_app_def)
qed

end
