(* ===== verification/RequestLog.thy ===== *)
theory RequestLog
  imports Gateway
begin

text \<open>
  The log of inbound requests and the middleware that writes it: \<^verbatim>\<open>request_log.go\<close> and \<^verbatim>\<open>telemetry.go\<close> of
  \<^verbatim>\<open>internal/adapter/delivery/http/middleware\<close>. The encoding of query strings of \<^verbatim>\<open>net/url\<close> is written out; the JSON
  parser and printer are parameters. A body is the bytes a reader delivers and whether it ends with an error. Trace
  spans are left out except for the identifiers they put into the log.
\<close>

section \<open>What is a credential\<close>

definition sensitiveHeaders :: "string list" where [code_consts]:
  "sensitiveHeaders = [''Authorization'', ''Authorization-Customer'', ''Proxy-Authorization'', ''Cookie'', ''X-Admin-Api-Key'',
     ''X-Client-Secret'', ''X-Private-Key'', ''Accesstoken'']"

definition sensitiveFields :: "string list" where [code_consts]:
  "sensitiveFields = [''secret'', ''secretvalue'', ''clientsecret'', ''password'', ''passwd'', ''pin'', ''otp'', ''cvv'', ''token'', ''accesstoken'',
     ''refreshtoken'', ''authorization'', ''apikey'', ''privatekey'']"

text \<open>
  \<^verbatim>\<open>strings.ToLower\<close> works on runes; besides the ASCII capitals only U+212A and U+0130 are mapped to a letter the filter
  keeps. Their first bytes never continue another rune.
\<close>

fun normalizeFieldName :: "string \<Rightarrow> string" where
  "normalizeFieldName [] = []"
| "normalizeFieldName (c # s) =
    (if c = CHR 0xE2 \<and> HasPrefix s [CHR 0x84, CHR 0xAA] then CHR ''k'' # normalizeFieldName (drop 2 s)
     else if c = CHR 0xC4 \<and> HasPrefix s [CHR 0xB0] then CHR ''i'' # normalizeFieldName (drop 1 s)
     else if 97 \<le> ord (lower_byte c) \<and> ord (lower_byte c) \<le> 122 \<or> is_digit c then lower_byte c # normalizeFieldName s
     else normalizeFieldName s)"

definition sensitive_field :: "string \<Rightarrow> bool" where
  "sensitive_field key = (normalizeFieldName key \<in> set sensitiveFields)"

section \<open>Query strings\<close>

definition is_hex :: "char \<Rightarrow> bool" where
  "is_hex c = (is_digit c \<or> 97 \<le> ord c \<and> ord c \<le> 102 \<or> 65 \<le> ord c \<and> ord c \<le> 70)"

definition hex_val :: "char \<Rightarrow> nat" where
  "hex_val c = (if is_digit c then ord c - 48 else if 97 \<le> ord c then ord c - 87 else ord c - 55)"

fun QueryUnescape :: "string \<Rightarrow> string option" where
  "QueryUnescape [] = Some []"
| "QueryUnescape (c # s) =
    (if c = CHR ''%'' then (case s of
        a # b # r \<Rightarrow> if is_hex a \<and> is_hex b then map_option ((#) (char_of (16 * hex_val a + hex_val b))) (QueryUnescape r) else None
      | _ \<Rightarrow> None)
     else map_option ((#) (if c = CHR ''+'' then CHR '' '' else c)) (QueryUnescape s))"

definition upper_hex :: "nat \<Rightarrow> char" where
  "upper_hex d = (if d < 10 then char_of (48 + d) else char_of (55 + d))"

definition unreserved :: "char \<Rightarrow> bool" where
  "unreserved c = (is_digit c \<or> 65 \<le> ord c \<and> ord c \<le> 90 \<or> 97 \<le> ord c \<and> ord c \<le> 122 \<or> c \<in> set ''-_.~'')"

definition escape_byte :: "char \<Rightarrow> string" where
  "escape_byte c = (if unreserved c then [c] else if c = CHR '' '' then ''+''
     else [CHR ''%'', upper_hex (ord c div 16), upper_hex (ord c mod 16)])"

definition QueryEscape :: "string \<Rightarrow> string" where
  "QueryEscape s = concat (map escape_byte s)"

type_synonym url_values = "(string \<times> string list) list"

fun add_value :: "string \<Rightarrow> string \<Rightarrow> url_values \<Rightarrow> url_values" where
  "add_value k v [] = [(k, [v])]"
| "add_value k v ((k', vs) # m) = (if k = k' then (k', vs @ [v]) # m else (k', vs) # add_value k v m)"

definition parse_pair :: "string \<Rightarrow> (string \<times> string) option" where
  "parse_pair part = (if CHR '';'' \<in> set part then None
     else (case (QueryUnescape (takeWhile (\<lambda>c. c \<noteq> CHR ''='') part), QueryUnescape (drop 1 (dropWhile (\<lambda>c. c \<noteq> CHR ''='') part))) of
        (Some k, Some v) \<Rightarrow> Some (k, v) | _ \<Rightarrow> None))"

fun parse_parts :: "string list \<Rightarrow> (string \<times> string) list option" where
  "parse_parts [] = Some []"
| "parse_parts (p # ps) = (if p = [] then parse_parts ps
     else (case parse_pair p of None \<Rightarrow> None | Some kv \<Rightarrow> map_option ((#) kv) (parse_parts ps)))"

text \<open>\<^verbatim>\<open>url.ParseQuery\<close>; what it returns beside an error is not used.\<close>

definition ParseQuery :: "string \<Rightarrow> url_values option" where
  "ParseQuery raw = map_option (\<lambda>kvs. fold (\<lambda>(k, v). add_value k v) kvs []) (parse_parts (Split CHR ''&'' raw))"

fun Join :: "string \<Rightarrow> string list \<Rightarrow> string" where
  "Join sep [] = []"
| "Join sep [s] = s"
| "Join sep (s # t # ss) = s @ sep @ Join sep (t # ss)"

definition values_of :: "url_values \<Rightarrow> string \<Rightarrow> string list" where
  "values_of m k = (case map_of m k of Some vs \<Rightarrow> vs | None \<Rightarrow> [])"

definition encoded_pairs :: "url_values \<Rightarrow> string list" where
  "encoded_pairs m = concat (map (\<lambda>k. map (\<lambda>v. QueryEscape k @ ''='' @ QueryEscape v) (values_of m k)) (sort (map fst m)))"

definition Encode :: "url_values \<Rightarrow> string" where
  "Encode m = Join ''&'' (encoded_pairs m)"

definition redactValues :: "url_values \<Rightarrow> url_values \<times> bool" where
  "redactValues m = (map (\<lambda>(k, vs). (k, if sensitive_field k then map (\<lambda>_. redacted) vs else vs)) m, list_ex (\<lambda>(k, vs). sensitive_field k) m)"

definition redactQuery :: "string \<Rightarrow> string" where
  "redactQuery raw = (case ParseQuery raw of
      None \<Rightarrow> redacted
    | Some m \<Rightarrow> (case redactValues m of (m', changed) \<Rightarrow> if \<not> changed then raw else Encode m'))"

section \<open>Bodies\<close>

text \<open>A parsed value, nothing when the text is not JSON; objects have distinct keys. The printer may fail.\<close>

record json_lib =
  jn_parse :: "string \<Rightarrow> jval option"
  jn_print :: "jval \<Rightarrow> string option"

fun redactJSONValue :: "jval \<Rightarrow> jval \<times> bool" where
  "redactJSONValue (JObj fs) = (let rs = map (\<lambda>p. if sensitive_field (fst p) then ((fst p, JStr redacted), True)
       else ((fst p, fst (redactJSONValue (snd p))), snd (redactJSONValue (snd p)))) fs in (JObj (map fst rs), list_ex snd rs))"
| "redactJSONValue (JArr xs) = (let rs = map redactJSONValue xs in (JArr (map fst rs), list_ex snd rs))"
| "redactJSONValue v = (v, False)"

definition redactJSON :: "json_lib \<Rightarrow> string \<Rightarrow> string" where
  "redactJSON j body = (case jn_parse j body of
      None \<Rightarrow> body
    | Some v \<Rightarrow> (case redactJSONValue v of (v', changed) \<Rightarrow>
        if \<not> changed then body else (case jn_print j v' of None \<Rightarrow> redacted | Some out \<Rightarrow> out)))"

definition maxLoggedBodyBytes :: nat where "maxLoggedBodyBytes = 64 * 1024"

definition redactBody :: "json_lib \<Rightarrow> string \<Rightarrow> string \<Rightarrow> string" where
  "redactBody j contentType body = (
     let out = (if HasPrefix contentType ''application/x-www-form-urlencoded'' then redactQuery body
                else if jn_parse j body \<noteq> None then redactJSON j body else body)
     in if maxLoggedBodyBytes < length out then take maxLoggedBodyBytes out @ ''...<truncated>'' else out)"

section \<open>Requests\<close>

type_synonym header_map = "(string \<times> string list) list"

definition Values :: "header_map \<Rightarrow> string \<Rightarrow> string list" where
  "Values h name = (case map_of h (CanonicalHeaderKey name) of Some vs \<Rightarrow> vs | None \<Rightarrow> [])"

definition Get :: "header_map \<Rightarrow> string \<Rightarrow> string" where
  "Get h name = (case Values h name of [] \<Rightarrow> [] | v # _ \<Rightarrow> v)"

definition redactHeaders :: "header_map \<Rightarrow> string list" where
  "redactHeaders h = map (\<lambda>name. name @ '': '' @
     (if CanonicalHeaderKey name \<in> set sensitiveHeaders then redacted else Join '', '' (Values h name))) (sort (map fst h))"

text \<open>The bytes a body delivers, and the error with which reading ends, if any.\<close>

datatype body_reader = NoBody | Reader string "string option"

record inbound =
  in_Method :: string
  in_Path :: string
  in_RawQuery :: string
  in_RemoteIP :: string
  in_Header :: header_map
  in_Body :: body_reader

record full_entry =
  fu_method :: string
  fu_path :: string
  fu_remote_ip :: string
  fu_correlation_id :: string
  fu_headers :: "string list"
  fu_query :: "string option"
  fu_body :: "(nat \<times> string) option"

record access_entry =
  ac_method :: string
  ac_path :: string
  ac_status :: int
  ac_latency :: int
  ac_correlation_id :: string
  ac_trace_id :: string
  ac_span_id :: string

datatype log_line = http_request_full full_entry | http_request_unread string string | http_request_done access_entry

definition read_bytes :: "inbound \<Rightarrow> string" where
  "read_bytes req = (case in_Body req of NoBody \<Rightarrow> [] | Reader bytes _ \<Rightarrow> bytes)"

definition full_line :: "json_lib \<Rightarrow> inbound \<Rightarrow> string \<Rightarrow> string \<Rightarrow> full_entry" where
  "full_line j req correlationID body = \<lparr>fu_method = in_Method req, fu_path = in_Path req, fu_remote_ip = in_RemoteIP req,
     fu_correlation_id = correlationID, fu_headers = redactHeaders (in_Header req),
     fu_query = (if in_RawQuery req \<noteq> [] then Some (redactQuery (in_RawQuery req)) else None),
     fu_body = (if body \<noteq> [] then Some (length body, redactBody j (Get (in_Header req) ''Content-Type'') body) else None)\<rparr>"

text \<open>What is logged, and the request the handler gets: its body is replaced by the bytes that could be read.\<close>

definition logInboundRequest :: "json_lib \<Rightarrow> bool \<Rightarrow> string \<Rightarrow> inbound \<Rightarrow> log_line list \<times> inbound" where
  "logInboundRequest j debug correlationID req = (if \<not> debug then ([], req)
     else (case in_Body req of
        NoBody \<Rightarrow> ([http_request_full (full_line j req correlationID [])], req)
      | Reader bytes (Some err) \<Rightarrow> ([http_request_unread correlationID (''read body: '' @ err)], req\<lparr>in_Body := Reader bytes None\<rparr>)
      | Reader bytes None \<Rightarrow> ([http_request_full (full_line j req correlationID bytes)], req\<lparr>in_Body := Reader bytes None\<rparr>)))"

section \<open>The middleware\<close>

datatype log_level = LevelDebug | LevelInfo | LevelWarn | LevelError

definition parseLogLevel :: "string \<Rightarrow> log_level" where
  "parseLogLevel raw = (if raw \<in> {''debug'', ''DEBUG''} then LevelDebug
     else if raw \<in> {''warn'', ''WARN'', ''warning'', ''WARNING''} then LevelWarn
     else if raw \<in> {''error'', ''ERROR''} then LevelError else LevelInfo)"

record telemetry_env =
  tv_level :: log_level
  tv_uuid :: string
  tv_route :: string
  tv_latency :: int
  tv_trace_id :: string
  tv_span_id :: string
  tv_json :: json_lib

text \<open>The counted requests with method, route and status, the observed latencies, and the log.\<close>

record telemetry =
  ty_HTTPRequestsTotal :: "(string \<times> string \<times> int) list"
  ty_HTTPRequestDuration :: "(string \<times> string \<times> int) list"
  ty_log :: "log_line list"

definition level_enabled :: "log_level \<Rightarrow> log_level \<Rightarrow> bool" where
  "level_enabled configured wanted = (case wanted of LevelDebug \<Rightarrow> configured = LevelDebug
     | LevelInfo \<Rightarrow> configured = LevelDebug \<or> configured = LevelInfo
     | LevelWarn \<Rightarrow> configured \<noteq> LevelError | LevelError \<Rightarrow> True)"

definition correlation_id :: "telemetry_env \<Rightarrow> inbound \<Rightarrow> string" where
  "correlation_id e req = (if Get (in_Header req) ''X-Correlation-ID'' = [] then tv_uuid e else Get (in_Header req) ''X-Correlation-ID'')"

text \<open>A handler returns a result beside the status of the response as it then stands. The middleware returns the
  result, with the correlation header of the response.\<close>

definition TelemetryMiddleware ::
    "telemetry_env \<Rightarrow> (inbound \<Rightarrow> 'w \<Rightarrow> ('r \<times> int) \<times> 'w) \<Rightarrow> inbound \<Rightarrow> telemetry \<Rightarrow> 'w \<Rightarrow> (string \<times> 'r) \<times> telemetry \<times> 'w" where
  "TelemetryMiddleware e handler req ty w = (let correlationID = correlation_id e req;
     route = (if tv_route e = [] then ''unmatched'' else tv_route e) in
     case logInboundRequest (tv_json e) (level_enabled (tv_level e) LevelDebug) correlationID req of (lines, req1) \<Rightarrow>
     case handler req1 w of ((r, status), w1) \<Rightarrow>
       ((correlationID, r),
        \<lparr>ty_HTTPRequestsTotal = ty_HTTPRequestsTotal ty @ [(in_Method req, route, status)],
         ty_HTTPRequestDuration = ty_HTTPRequestDuration ty @ [(in_Method req, route, tv_latency e)],
         ty_log = ty_log ty @ lines @ (if level_enabled (tv_level e) LevelInfo
           then [http_request_done \<lparr>ac_method = in_Method req, ac_path = in_Path req, ac_status = status, ac_latency = tv_latency e,
             ac_correlation_id = correlationID, ac_trace_id = tv_trace_id e, ac_span_id = tv_span_id e\<rparr>] else [])\<rparr>, w1))"

end
