(* ===== verification/RequestLogProps.thy ===== *)
theory RequestLogProps
  imports RequestLog TokenProps
begin

text \<open>
  The request log: credentials in headers, query strings and bodies do not reach it, everything else does, and writing
  it does not change what the handler gets unless the body could not be read.
\<close>

section \<open>Query strings are read back as they were written\<close>

lemma upper_hex_props: "d < 16 \<Longrightarrow> is_hex (upper_hex d) \<and> hex_val (upper_hex d) = d \<and> upper_hex d \<notin> set ''&=;%+''"
  by (auto simp: is_hex_def hex_val_def upper_hex_def is_digit_def ord_def char_of_eq_iff take_bit_nat_eq_self)

lemma unreserved_props: "unreserved c \<Longrightarrow> c \<notin> set ''&=;%+''"
  by (auto simp: unreserved_def is_digit_def ord_def)

lemma byte_digits: "ord c div 16 < 16" "ord c mod 16 < 16" "char_of (16 * (ord c div 16) + ord c mod 16) = c"
proof -
  have "ord c < 256" by (simp add: ord_def)
  then show "ord c div 16 < 16" by simp
qed (simp_all add: ord_def)

lemma unescape_byte: "QueryUnescape (escape_byte c @ r) = map_option ((#) c) (QueryUnescape r)"
proof (cases "unreserved c \<or> c = CHR '' ''")
  case True
  then show ?thesis using unreserved_props [of c] by (auto simp: escape_byte_def)
next
  case False
  then show ?thesis using byte_digits [of c] by (simp add: escape_byte_def upper_hex_props)
qed

lemma unescape_escape: "QueryUnescape (QueryEscape s) = Some s"
  by (induction s) (simp_all add: QueryEscape_def unescape_byte)

lemma escaped_bytes: "c \<in> set (QueryEscape s) \<Longrightarrow> c \<notin> set ''&=;''"
proof (induction s)
  case (Cons d s)
  have "c \<in> set (escape_byte d) \<Longrightarrow> c \<notin> set ''&=;''"
    using unreserved_props [of d] upper_hex_props [OF byte_digits(1) [of d]] upper_hex_props [OF byte_digits(2) [of d]]
    by (auto simp: escape_byte_def split: if_splits)
  with Cons show ?case by (auto simp: QueryEscape_def)
qed (simp add: QueryEscape_def)

definition encoded_pair :: "string \<times> string \<Rightarrow> string" where
  "encoded_pair kv = QueryEscape (fst kv) @ ''='' @ QueryEscape (snd kv)"

lemma parse_encoded_pair: "parse_pair (encoded_pair kv) = Some kv"
proof -
  have "CHR ''='' \<notin> set (QueryEscape s)" "CHR '';'' \<notin> set (QueryEscape s)" for s using escaped_bytes by fastforce+
  then show ?thesis by (auto simp: parse_pair_def encoded_pair_def takeWhile_append dropWhile_append unescape_escape)
qed

lemma parse_encoded: "parse_parts (map encoded_pair kvs) = Some kvs"
  by (induction kvs) (simp_all add: parse_encoded_pair, simp add: encoded_pair_def)

lemma Split_one: "sep \<notin> set s \<Longrightarrow> Split sep s = [s]"
  by (induction s) auto

lemma Split_Join: "ps \<noteq> [] \<Longrightarrow> list_all (\<lambda>p. sep \<notin> set p) ps \<Longrightarrow> Split sep (Join [sep] ps) = ps"
proof (induction ps rule: induct_list012)
  case (3 p q ps)
  then show ?case using Split_line [of sep p "Join [sep] (q # ps)"] by simp
qed (simp_all add: Split_one)

lemma parse_joined: "parse_parts (Split CHR ''&'' (Join ''&'' (map encoded_pair kvs))) = Some kvs"
proof (cases "kvs = []")
  case False
  have "list_all (\<lambda>p. CHR ''&'' \<notin> set p) (map encoded_pair kvs)"
    using escaped_bytes by (fastforce simp: list_all_iff encoded_pair_def)
  then show ?thesis using Split_Join [of "map encoded_pair kvs" "CHR ''&''"] False by (simp add: parse_encoded)
qed simp

lemma values_add: "values_of (add_value k v m) k' = (if k' = k then values_of m k @ [v] else values_of m k')"
  by (induction k v m rule: add_value.induct) (auto simp: values_of_def)

lemma values_fold: "values_of (fold (\<lambda>(k, v). add_value k v) kvs m) k = values_of m k @ map snd (filter (\<lambda>kv. fst kv = k) kvs)"
  by (induction kvs arbitrary: m) (auto simp: values_add)

lemma keys_add: "distinct (map fst m) \<Longrightarrow> distinct (map fst (add_value k v m)) \<and> fst ` set (add_value k v m) = insert k (fst ` set m)"
  by (induction k v m rule: add_value.induct) auto

lemma keys_fold: "distinct (map fst m) \<Longrightarrow> distinct (map fst (fold (\<lambda>(k, v). add_value k v) kvs m))"
  by (induction kvs arbitrary: m) (auto simp: keys_add)

lemma parsed_keys: "ParseQuery raw = Some m \<Longrightarrow> distinct (map fst m)"
  using keys_fold [of "[]"] by (auto simp: ParseQuery_def)

definition value_pairs :: "url_values \<Rightarrow> (string \<times> string) list" where
  "value_pairs m = concat (map (\<lambda>k. map (Pair k) (values_of m k)) (sort (map fst m)))"

lemma encoded_pairs_alt: "encoded_pairs m = map encoded_pair (value_pairs m)"
  by (simp add: encoded_pairs_def value_pairs_def map_concat comp_def encoded_pair_def)

lemma pairs_of_one: "map snd (filter (\<lambda>kv. fst kv = k) (map (Pair a) vs)) = (if a = k then vs else [])"
  by (induction vs) auto

lemma pairs_of_key: "distinct ks \<Longrightarrow> map snd (filter (\<lambda>kv. fst kv = k) (concat (map (\<lambda>k. map (Pair k) (f k)) ks))) = (if k \<in> set ks then f k else [])"
  by (induction ks) (auto simp: pairs_of_one)

lemma ParseQuery_Encode:
  assumes "distinct (map fst m)" shows "\<exists>m'. ParseQuery (Encode m) = Some m' \<and> values_of m' = values_of m"
proof -
  let ?m = "fold (\<lambda>(k, v). add_value k v) (value_pairs m) []"
  have "values_of ?m k = values_of m k" for k
  proof -
    have "values_of ?m k = (if k \<in> fst ` set m then values_of m k else [])"
      using assms pairs_of_key [of "sort (map fst m)" k "values_of m"] by (simp add: values_fold value_pairs_def) (simp add: values_of_def)
    moreover have "k \<notin> fst ` set m \<Longrightarrow> values_of m k = []" by (simp add: values_of_def map_of_eq_None_iff [THEN iffD2])
    ultimately show ?thesis by simp
  qed
  moreover have "ParseQuery (Encode m) = Some ?m" by (simp add: ParseQuery_def Encode_def encoded_pairs_alt parse_joined)
  ultimately show ?thesis by blast
qed

lemma map_of_redacted: "map_of (fst (redactValues m)) k = map_option (\<lambda>vs. if sensitive_field k then map (\<lambda>_. redacted) vs else vs) (map_of m k)"
  by (induction m) (auto simp: redactValues_def)

lemma redactValues_keys: "map fst (fst (redactValues m)) = map fst m"
  by (auto simp: redactValues_def)

lemma values_redacted: "values_of (fst (redactValues m)) k = (if sensitive_field k then map (\<lambda>_. redacted) (values_of m k) else values_of m k)"
  by (simp add: values_of_def map_of_redacted split: option.split)

text \<open>The query string in the log can be read like the one that was sent: every name has the values it had, except that
  each value of a sensitive name is replaced by the marker. A query string that cannot be parsed is not logged at all.\<close>

theorem logged_query_is_redacted:
  "case ParseQuery raw of None \<Rightarrow> redactQuery raw = redacted
   | Some m \<Rightarrow> (\<exists>m'. ParseQuery (redactQuery raw) = Some m' \<and>
       (\<forall>k. values_of m' k = (if sensitive_field k then map (\<lambda>_. redacted) (values_of m k) else values_of m k)))"
proof (cases "ParseQuery raw")
  case (Some m)
  show ?thesis
  proof (cases "snd (redactValues m)")
    case True
    obtain m' where "ParseQuery (Encode (fst (redactValues m))) = Some m'" "values_of m' = values_of (fst (redactValues m))"
      using ParseQuery_Encode [of "fst (redactValues m)"] parsed_keys [OF Some] redactValues_keys [of m] by metis
    moreover from Some True have "redactQuery raw = Encode (fst (redactValues m))" by (cases "redactValues m") (simp add: redactQuery_def)
    ultimately show ?thesis using Some by (simp add: values_redacted)
  next
    case False
    have none: "values_of m k = []" if "sensitive_field k" for k
      using False that map_of_SomeD [of m k] by (fastforce simp: redactValues_def list_ex_iff values_of_def split: option.split)
    have "redactQuery raw = raw" using Some False by (cases "redactValues m") (simp add: redactQuery_def)
    with Some none show ?thesis by auto
  qed
qed (simp add: redactQuery_def)

section \<open>JSON bodies\<close>

text \<open>All keys of a value, at every depth.\<close>

fun keys_of :: "jval \<Rightarrow> string list" where
  "keys_of (JObj fs) = concat (map (\<lambda>p. fst p # keys_of (snd p)) fs)"
| "keys_of (JArr xs) = concat (map keys_of xs)"
| "keys_of v = []"

lemma redacts_iff_sensitive: "snd (redactJSONValue v) = list_ex sensitive_field (keys_of v)"
proof (induction v rule: redactJSONValue.induct)
  case (1 fs)
  let ?r = "\<lambda>p. if sensitive_field (fst p) then ((fst p, JStr redacted), True)
       else ((fst p, fst (redactJSONValue (snd p))), snd (redactJSONValue (snd p)))"
  have "snd (?r p) = list_ex sensitive_field (fst p # keys_of (snd p))" if "p \<in> set fs" for p using 1 that by auto
  then have "list_ex (\<lambda>p. snd (?r p)) fs = list_ex (\<lambda>p. list_ex sensitive_field (fst p # keys_of (snd p))) fs"
    by (simp only: list_ex_iff cong: bex_cong)
  moreover have "snd (redactJSONValue (JObj fs)) = list_ex (\<lambda>p. snd (?r p)) fs"
    by (simp only: redactJSONValue.simps Let_def snd_conv list_ex_iff set_map bex_simps(7))
  ultimately show ?case by (simp add: list_ex_iff)
next
  case (2 xs)
  then show ?case by (auto simp: Let_def list_ex_iff)
qed simp_all

text \<open>Two values that differ only below sensitive keys.\<close>

inductive alike :: "jval \<Rightarrow> jval \<Rightarrow> bool" where
  same: "alike v v"
| items: "length xs = length ys \<Longrightarrow> \<forall>i < length xs. alike (xs ! i) (ys ! i) \<Longrightarrow> alike (JArr xs) (JArr ys)"
| fields: "length fs = length gs \<Longrightarrow>
    \<forall>i < length fs. fst (fs ! i) = fst (gs ! i) \<and> (sensitive_field (fst (fs ! i)) \<or> alike (snd (fs ! i)) (snd (gs ! i))) \<Longrightarrow>
    alike (JObj fs) (JObj gs)"

lemma alike_redacted: "alike v v' \<Longrightarrow> redactJSONValue v = redactJSONValue v'"
proof (induction rule: alike.induct)
  case (items xs ys)
  then have "map redactJSONValue xs = map redactJSONValue ys" by (intro nth_equalityI) simp_all
  then show ?case by simp
next
  case (fields fs gs)
  let ?r = "\<lambda>p. if sensitive_field (fst p) then ((fst p, JStr redacted), True)
       else ((fst p, fst (redactJSONValue (snd p))), snd (redactJSONValue (snd p)))"
  have "map ?r fs = map ?r gs" using fields by (intro nth_equalityI) auto
  then show ?case by simp
qed simp

text \<open>A JSON body in which no sensitive key occurs, at any depth, is logged byte for byte up to 64 KiB, so its digest can be
  recomputed from the log; a longer one is logged up to this length and marked as cut.\<close>

theorem harmless_body_is_logged_as_sent:
  assumes "\<not> HasPrefix contentType ''application/x-www-form-urlencoded''" and "jn_parse j body = Some v" and "\<not> list_ex sensitive_field (keys_of v)"
  shows "redactBody j contentType body = (if length body \<le> 65536 then body else take 65536 body @ ''...<truncated>'')"
proof -
  have "redactJSON j body = body" using assms(2,3) redacts_iff_sensitive [of v] by (cases "redactJSONValue v") (simp add: redactJSON_def)
  then show ?thesis using assms by (simp add: redactBody_def maxLoggedBodyBytes_def)
qed

section \<open>Requests that differ in their credentials\<close>

definition same_headers :: "header_map \<Rightarrow> header_map \<Rightarrow> bool" where
  "same_headers h h' = list_all2 (\<lambda>(k, vs) (k', vs'). k = k' \<and> (k \<in> set sensitiveHeaders \<or> vs = vs')) h h'"

definition same_query :: "string \<Rightarrow> string \<Rightarrow> bool" where
  "same_query q q' = (q = q' \<or> (case (ParseQuery q, ParseQuery q') of
      (Some m, Some m') \<Rightarrow> list_ex (sensitive_field \<circ> fst) m \<and>
         list_all2 (\<lambda>(k, vs) (k', vs'). k = k' \<and> (if sensitive_field k then length vs = length vs' else vs = vs')) m m'
    | _ \<Rightarrow> False))"

definition same_text :: "json_lib \<Rightarrow> string \<Rightarrow> string \<Rightarrow> string \<Rightarrow> bool" where
  "same_text j contentType b b' = (length b = length b' \<and> (b = b' \<or>
     (if HasPrefix contentType ''application/x-www-form-urlencoded'' then same_query b b'
      else (case (jn_parse j b, jn_parse j b') of (Some v, Some v') \<Rightarrow> list_ex sensitive_field (keys_of v) \<and> alike v v' | _ \<Rightarrow> False))))"

definition same_body :: "json_lib \<Rightarrow> string \<Rightarrow> body_reader \<Rightarrow> body_reader \<Rightarrow> bool" where
  "same_body j contentType r r' = (case (r, r') of
      (NoBody, NoBody) \<Rightarrow> True
    | (Reader b e, Reader b' e') \<Rightarrow> e = e' \<and> (e = None \<longrightarrow> same_text j contentType b b')
    | _ \<Rightarrow> False)"

lemma same_headers_of: "same_headers h h' \<Longrightarrow> k \<notin> set sensitiveHeaders \<Longrightarrow> map_of h k = map_of h' k"
  unfolding same_headers_def by (induction rule: list_all2_induct) auto

lemma same_header_names: "same_headers h h' \<Longrightarrow> map fst h = map fst h'"
  unfolding same_headers_def by (induction rule: list_all2_induct) auto

lemma same_headers_logged: "same_headers h h' \<Longrightarrow> redactHeaders h = redactHeaders h'"
  by (auto simp: redactHeaders_def same_header_names same_headers_of Values_def)

lemma same_query_logged: "same_query q q' \<Longrightarrow> redactQuery q = redactQuery q'"
proof (cases "q = q'")
  case False
  moreover assume "same_query q q'"
  ultimately obtain m m' where p: "ParseQuery q = Some m" "ParseQuery q' = Some m'" "list_ex (sensitive_field \<circ> fst) m"
      "list_all2 (\<lambda>(k, vs) (k', vs'). k = k' \<and> (if sensitive_field k then length vs = length vs' else vs = vs')) m m'"
    by (auto simp: same_query_def split: option.splits)
  have "redactValues m = redactValues m'"
    using p(4) by (induction rule: list_all2_induct) (auto simp: redactValues_def map_replicate_const split: if_splits)
  moreover have "snd (redactValues m)" using p(3) by (auto simp: redactValues_def list_ex_iff)
  ultimately show ?thesis using p by (cases "redactValues m'") (simp add: redactQuery_def)
qed simp

lemma same_query_empty: "same_query q q' \<Longrightarrow> q = [] \<longleftrightarrow> q' = []"
  by (auto simp: same_query_def ParseQuery_def split: option.splits)

lemma same_text_logged: "same_text j ct b b' \<Longrightarrow> redactBody j ct b = redactBody j ct b'"
proof (cases "b = b' \<or> HasPrefix ct ''application/x-www-form-urlencoded''")
  case True
  moreover assume "same_text j ct b b'"
  ultimately show ?thesis using same_query_logged [of b b'] by (auto simp: same_text_def redactBody_def)
next
  case False
  moreover assume "same_text j ct b b'"
  ultimately obtain v v' where p: "jn_parse j b = Some v" "jn_parse j b' = Some v'" "list_ex sensitive_field (keys_of v)" "alike v v'"
    by (auto simp: same_text_def split: option.splits)
  then have "redactJSON j b = redactJSON j b'"
    using alike_redacted [OF p(4)] redacts_iff_sensitive [of v] by (cases "redactJSONValue v'") (simp add: redactJSON_def)
  with p False show ?thesis by (simp add: redactBody_def)
qed

text \<open>C29: Credentials do not reach the request log. Two requests that differ only in the values of sensitive headers, in the
  values of sensitive query or form fields, or in what stands below sensitive keys of the JSON body (of the same
  length), leave the same log line, whatever the level of the log.\<close>

theorem credentials_stay_out_of_the_request_log:
  assumes "in_Method req = in_Method req'" and "in_Path req = in_Path req'" and "in_RemoteIP req = in_RemoteIP req'"
    and "same_headers (in_Header req) (in_Header req')" and "same_query (in_RawQuery req) (in_RawQuery req')"
    and "same_body j (Get (in_Header req) ''Content-Type'') (in_Body req) (in_Body req')"
  shows "fst (logInboundRequest j debug cid req) = fst (logInboundRequest j debug cid req')"
proof -
  have ct: "Get (in_Header req') ''Content-Type'' = Get (in_Header req) ''Content-Type''"
    using same_headers_of [OF assms(4), of "CanonicalHeaderKey ''Content-Type''"]
    by (simp add: Get_def Values_def CanonicalHeaderKey_def token_byte_def upper_byte_def lower_byte_def sensitiveHeaders_def is_digit_def ord_def)
  have line: "full_line j req cid b = full_line j req' cid b'" if "same_text j (Get (in_Header req) ''Content-Type'') b b'" for b b'
    using assms that same_headers_logged [OF assms(4)] same_query_logged [OF assms(5)] same_query_empty [OF assms(5)] same_text_logged [OF that]
    by (auto simp: full_line_def ct same_text_def)
  then show ?thesis using assms(6)
    by (auto simp: logInboundRequest_def same_body_def same_text_def split: body_reader.splits option.splits)
qed

section \<open>The handler\<close>

text \<open>The request as the handler gets it: the error at the end of a body that was read for the log is lost.\<close>

definition delivered :: "telemetry_env \<Rightarrow> inbound \<Rightarrow> inbound" where
  "delivered e req = (if tv_level e = LevelDebug then (case in_Body req of
      NoBody \<Rightarrow> req | Reader bytes _ \<Rightarrow> req\<lparr>in_Body := Reader bytes None\<rparr>) else req)"

text \<open>The middleware returns what the handler returns and has its effect, counts the request once under its method, route
  and status, and the response carries the caller's correlation identifier, or a new one. The handler gets the request
  as it came, with one exception: at the level Debug, a body that breaks off with an error is handed on as a complete
  body of the bytes read so far.\<close>

theorem telemetry_is_transparent:
  "case TelemetryMiddleware e handler req ty w of ((cid, r), ty', w') \<Rightarrow>
     (\<exists>status. handler (delivered e req) w = ((r, status), w') \<and>
        ty_HTTPRequestsTotal ty' = ty_HTTPRequestsTotal ty @ [(in_Method req, if tv_route e = [] then ''unmatched'' else tv_route e, status)]) \<and>
     cid = (if Get (in_Header req) ''X-Correlation-ID'' = [] then tv_uuid e else Get (in_Header req) ''X-Correlation-ID'') \<and>
     (delivered e req \<noteq> req \<longleftrightarrow> tv_level e = LevelDebug \<and> (\<exists>bytes err. in_Body req = Reader bytes (Some err)))"
proof -
  let ?cid = "correlation_id e req"
  have snd_log: "snd (logInboundRequest (tv_json e) (level_enabled (tv_level e) LevelDebug) ?cid req) = delivered e req"
    by (auto simp: logInboundRequest_def delivered_def level_enabled_def split: body_reader.split option.split)
  obtain ls where l: "logInboundRequest (tv_json e) (level_enabled (tv_level e) LevelDebug) ?cid req = (ls, delivered e req)"
    using snd_log by (metis prod.collapse)
  obtain r status w1 where h: "handler (delivered e req) w = ((r, status), w1)" by (metis prod.collapse)
  have "delivered e req \<noteq> req \<longleftrightarrow> tv_level e = LevelDebug \<and> (\<exists>bytes err. in_Body req = Reader bytes (Some err))"
  proof (cases "in_Body req")
    case (Reader bytes err)
    then show ?thesis by (cases req; cases err) (auto simp: delivered_def)
  qed (simp add: delivered_def)
  moreover have "(if Get (in_Header req) ''X-Correlation-ID'' = [] then tv_uuid e else Get (in_Header req) ''X-Correlation-ID'') = ?cid"
    by (simp add: correlation_id_def)
  ultimately show ?thesis by (simp only: TelemetryMiddleware_def Let_def l h prod.case) simp
qed

section \<open>A request to run it on\<close>

definition secret_body :: "char \<Rightarrow> string" where
  "secret_body c = [CHR 0x7B, CHR 0x22] @ ''Client-Secret'' @ [CHR 0x22] @ '':'' @ [CHR 0x22, c, CHR 0x22] @ ''}''"

text \<open>A parser that knows bodies of this one form.\<close>

definition tiny_json :: json_lib where
  "tiny_json = \<lparr>jn_parse = (\<lambda>s. if length s = 21 \<and> s = secret_body (s ! 18) then Some (JObj [(''Client-Secret'', JStr [s ! 18])])
       else if s = ''{}'' then Some (JObj []) else None),
     jn_print = (\<lambda>v. if v = JObj [(''Client-Secret'', JStr redacted)] then Some ''masked'' else None)\<rparr>"

definition secret_request :: "char \<Rightarrow> inbound" where
  "secret_request c = \<lparr>in_Method = ''POST'', in_Path = ''/admin/clients'', in_RawQuery = ''page=1&pin='' @ [c], in_RemoteIP = ''10.0.0.1'',
     in_Header = [(''Accept'', [''*/*'']), (''X-Admin-Api-Key'', [[c]])], in_Body = Reader (secret_body c) None\<rparr>"

lemma sensitive_examples: "sensitive_field ''Client-Secret''" "sensitive_field ''pin''" "\<not> sensitive_field ''page''"
  by (simp_all add: sensitive_field_def sensitiveFields_def lower_byte_def is_digit_def ord_def char_of_eq_iff)

theorem credentials_stay_out_of_the_request_log_witness:
  "fst (logInboundRequest tiny_json True ''c'' (secret_request CHR ''1'')) = fst (logInboundRequest tiny_json True ''c'' (secret_request CHR ''2''))"
proof (rule credentials_stay_out_of_the_request_log)
  have q: "ParseQuery (''page=1&pin='' @ [c]) = Some [(''page'', [''1'']), (''pin'', [[c]])]" if "c \<in> set ''12''" for c
    using that by (auto simp: ParseQuery_def parse_pair_def)
  then show "same_query (in_RawQuery (secret_request CHR ''1'')) (in_RawQuery (secret_request CHR ''2''))"
    by (auto simp: same_query_def secret_request_def sensitive_examples)
  have "jn_parse tiny_json (secret_body c) = Some (JObj [(''Client-Secret'', JStr [c])])" for c
    by (simp add: tiny_json_def secret_body_def)
  moreover have "alike (JObj [(''Client-Secret'', v)]) (JObj [(''Client-Secret'', v')])" for v v'
    by (rule alike.fields) (simp_all add: sensitive_examples)
  moreover have "Get (in_Header (secret_request c)) ''Content-Type'' = []" for c
    by (simp add: Get_def Values_def secret_request_def CanonicalHeaderKey_def token_byte_def upper_byte_def lower_byte_def is_digit_def ord_def)
  ultimately show "same_body tiny_json (Get (in_Header (secret_request CHR ''1'')) ''Content-Type'') (in_Body (secret_request CHR ''1''))
      (in_Body (secret_request CHR ''2''))"
    by (simp add: same_body_def same_text_def secret_request_def sensitive_examples) (simp add: secret_body_def)
qed (simp_all add: secret_request_def same_headers_def sensitiveHeaders_def)

theorem harmless_body_is_logged_as_sent_witness: "redactBody tiny_json ''application/json'' ''{}'' = ''{}''"
  using harmless_body_is_logged_as_sent [of "''application/json''" tiny_json "''{}''" "JObj []"] by (simp add: tiny_json_def)

end
