(* ===== verification/LockWait.thy ===== *)
theory LockWait
  imports AuxRepo Idempotency
begin

text \<open>
  The distributed lock of the repository in detail: \<^verbatim>\<open>withLock\<close> of \<^verbatim>\<open>internal/infrastructure/database/va_repository.go\<close>
  with its loop of attempts over the Redis store of the middleware. The environment says for every attempt what Redis
  answers, what the clock shows afterwards, whether the request was cancelled during the pause and what other clients
  did to the store in the meantime. The loop is a partial function: whether it ends depends on the clock.
\<close>

definition sequenceLockTTL :: int where "sequenceLockTTL = 5 * nanos_per_second"
definition sequenceLockRetry :: int where "sequenceLockRetry = 50000000"
definition defaultSequenceLockWait :: int where "defaultSequenceLockWait = 3 * nanos_per_second"

record lock_env =
  lk_start :: int
  lk_redis :: "nat \<Rightarrow> redis_env"
  lk_clock :: "nat \<Rightarrow> int"
  lk_cancelled :: "nat \<Rightarrow> bool"
  lk_others :: "nat \<Rightarrow> idem_store \<Rightarrow> idem_store"
  lk_during :: "idem_store \<Rightarrow> idem_store"
  lk_release :: redis_env

definition lock_unavailable :: gerr where "lock_unavailable = ErrOther ''lock unavailable''"
definition lock_timeout :: "string \<Rightarrow> gerr" where "lock_timeout key = ErrOther (''lock timeout for key '' @ key)"
definition context_cancelled :: gerr where "context_cancelled = ErrOther ''context canceled''"

text \<open>The index of the last attempt, whether the lock was taken, and the store.\<close>

partial_function (option) acquire_loop :: "lock_env \<Rightarrow> string \<Rightarrow> int \<Rightarrow> nat \<Rightarrow> idem_store \<Rightarrow> (nat \<times> (gerr + unit) \<times> idem_store) option" where
  "acquire_loop l key deadline k st = (case AcquireLock (lk_redis l k) key sequenceLockTTL st of (r, st1) \<Rightarrow> (case r of
      Inl err \<Rightarrow> Some (k, Inl lock_unavailable, st1)
    | Inr ok \<Rightarrow>
        if ok then Some (k, Inr (), st1)
        else if deadline < lk_clock l k then Some (k, Inl (lock_timeout key), st1)
        else if lk_cancelled l k then Some (k, Inl context_cancelled, st1)
        else acquire_loop l key deadline (Suc k) (lk_others l k st1)))"

definition lock_wait :: "int \<Rightarrow> int" where
  "lock_wait lockWait = (if lockWait = 0 then defaultSequenceLockWait else lockWait)"

text \<open>Without a locker the operation runs at once. The attempts are counted.\<close>

definition withLock_loop ::
    "lock_env \<Rightarrow> bool \<Rightarrow> int \<Rightarrow> string \<Rightarrow> 'a op \<Rightarrow> idem_store \<Rightarrow> world \<Rightarrow> (nat \<times> ((gerr + 'a) \<times> world) \<times> idem_store) option" where
  "withLock_loop l locker lockWait key f st w = (if \<not> locker then Some (0, f w, st)
     else (case acquire_loop l key (lk_start l + lock_wait lockWait) 0 st of
        None \<Rightarrow> None
      | Some (k, Inl err, st1) \<Rightarrow> Some (Suc k, (Inl err, w), st1)
      | Some (k, Inr _, st1) \<Rightarrow> Some (Suc k, f w, ReleaseLock (lk_release l) key (lk_during l st1))))"

end
