(* ===== verification/LockProps.thy ===== *)
theory LockProps
  imports LockWait IdemProps RepoProps
begin

text \<open>
  Waiting for the distributed lock ends, and its outcome is the one the repository operations assume: the operation is
  run once, or the call failed without effect.
\<close>

text \<open>Every pause between two attempts lasts at least as long as it should.\<close>

definition clock_advances :: "lock_env \<Rightarrow> bool" where
  "clock_advances l = (\<forall>k. lk_start l + int k * sequenceLockRetry \<le> lk_clock l k)"

lemma retry_pos: "0 < sequenceLockRetry"
  by (simp add: sequenceLockRetry_def)

lemma late_attempt:
  assumes "clock_advances l" and "\<not> deadline < lk_clock l k" shows "int k \<le> (deadline - lk_start l) div sequenceLockRetry"
proof -
  have "int k * sequenceLockRetry \<le> deadline - lk_start l" using assms unfolding clock_advances_def by (smt (verit))
  then show ?thesis using retry_pos by (metis zdiv_mono1 nonzero_mult_div_cancel_right less_irrefl)
qed

text \<open>The attempt can end the wait without the lock: Redis fails, the request is cancelled, or the waiting time is over.\<close>

definition gives_up :: "lock_env \<Rightarrow> int \<Rightarrow> nat \<Rightarrow> bool" where
  "gives_up l deadline k = (rd_lock_fails (lk_redis l k) \<or> lk_cancelled l k \<or> deadline < lk_clock l k)"

lemma acquire_fails: "AcquireLock e key ttl st = (Inl err, st') \<Longrightarrow> rd_lock_fails e"
  by (simp add: AcquireLock_def split: if_splits)

lemma acquire_loop_ends:
  assumes "clock_advances l" and "int k \<le> max 0 ((deadline - lk_start l) div sequenceLockRetry + 1)"
  shows "\<exists>k' r st'. acquire_loop l key deadline k st = Some (k', r, st') \<and> int k' \<le> max 0 ((deadline - lk_start l) div sequenceLockRetry + 1) \<and>
    (r = Inr () \<or> gives_up l deadline k')"
  using assms(2)
proof (induction "nat (max 0 ((deadline - lk_start l) div sequenceLockRetry + 1)) - k" arbitrary: k st rule: less_induct)
  case less
  let ?n = "(deadline - lk_start l) div sequenceLockRetry"
  obtain r st1 where a: "AcquireLock (lk_redis l k) key sequenceLockTTL st = (r, st1)" by fastforce
  show ?case
  proof (cases "r = Inr False \<and> \<not> deadline < lk_clock l k \<and> \<not> lk_cancelled l k")
    case True
    have "int k \<le> ?n" using late_attempt [OF assms(1)] True by blast
    then have "nat (max 0 (?n + 1)) - Suc k < nat (max 0 (?n + 1)) - k" "int (Suc k) \<le> max 0 (?n + 1)" by linarith+
    from less.hyps [OF this] obtain k' r' st' where
      "acquire_loop l key deadline (Suc k) (lk_others l k st1) = Some (k', r', st')" "int k' \<le> max 0 (?n + 1)" "r' = Inr () \<or> gives_up l deadline k'" by blast
    then show ?thesis using True a by (subst acquire_loop.simps) simp
  next
    case False
    then show ?thesis using a less.prems acquire_fails [of "lk_redis l k" key sequenceLockTTL st]
      by (subst acquire_loop.simps) (auto simp: gives_up_def split: sum.splits if_splits)
  qed
qed

text \<open>C19: A call under the distributed lock always returns, whatever Redis answers and other clients do, after at most one
  attempt for every fifty milliseconds of the waiting time and two more (sixty-two attempts with the default of three
  seconds), provided the pauses last as long as they should. It then has either run the operation once or failed
  without effect, which is what the repository operations assume of a lock, and it fails only when Redis failed at the
  last attempt, the request was cancelled or the waiting time was over.\<close>

theorem lock_wait_ends:
  assumes "clock_advances l"
  shows "\<exists>attempts outcome st' fault. withLock_loop l locker lockWait key f st w = Some (attempts, outcome, st') \<and>
    int attempts \<le> max 1 (lock_wait lockWait div sequenceLockRetry + 2) \<and>
    outcome = withLock (e\<lparr>e_fault := (e_fault e)(OpLock key := fault)\<rparr>) key f w \<and>
    (fault = None \<or> locker \<and> gives_up l (lk_start l + lock_wait lockWait) (attempts - 1))"
proof (cases locker)
  case True
  obtain k r st1 where a: "acquire_loop l key (lk_start l + lock_wait lockWait) 0 st = Some (k, r, st1)"
      "int k \<le> max 0 (lock_wait lockWait div sequenceLockRetry + 1)" "r = Inr () \<or> gives_up l (lk_start l + lock_wait lockWait) k"
    using acquire_loop_ends [OF assms, of 0 "lk_start l + lock_wait lockWait" key st] by auto
  then have "int (Suc k) \<le> max 1 (lock_wait lockWait div sequenceLockRetry + 2)" by linarith
  then show ?thesis using True a(1,3)
    by (cases r; intro exI [of _ "Suc k"] exI [of _ "case r of Inl err \<Rightarrow> Some err | Inr _ \<Rightarrow> None"] exI)
      (auto simp: withLock_loop_def withLock_def)
next
  case False
  then show ?thesis by (intro exI [of _ 0] exI [of _ None] exI) (auto simp: withLock_loop_def withLock_def)
qed

text \<open>Redis answers, the lock is held by another client throughout, and the clock runs as it should.\<close>

definition busy_lock :: lock_env where
  "busy_lock = \<lparr>lk_start = 0, lk_redis = (\<lambda>k. demo_redis (int k * sequenceLockRetry)), lk_clock = (\<lambda>k. int k * sequenceLockRetry),
     lk_cancelled = (\<lambda>k. False), lk_others = (\<lambda>k st. st), lk_during = (\<lambda>st. st), lk_release = demo_redis 0\<rparr>"

theorem lock_wait_ends_witness:
  "\<exists>attempts outcome st' fault. withLock_loop busy_lock True 0 ''va-seq-lock:01'' (\<lambda>w. (Inr (), w)) (empty_store\<lparr>st_locks := (\<lambda>_. Some None)\<rparr>) demo_world =
     Some (attempts, outcome, st') \<and> attempts \<le> 62 \<and> outcome = withLock (demo_env\<lparr>e_fault := (e_fault demo_env)(OpLock ''va-seq-lock:01'' := fault)\<rparr>) ''va-seq-lock:01'' (\<lambda>w. (Inr (), w)) demo_world"
proof -
  have "clock_advances busy_lock" by (simp add: clock_advances_def busy_lock_def)
  moreover have "max 1 (lock_wait 0 div sequenceLockRetry + 2) = 62"
    by (simp add: lock_wait_def defaultSequenceLockWait_def sequenceLockRetry_def nanos_per_second_def)
  ultimately show ?thesis using lock_wait_ends [of busy_lock True 0 "''va-seq-lock:01''" "\<lambda>w. (Inr (), w)" "empty_store\<lparr>st_locks := (\<lambda>_. Some None)\<rparr>" demo_world demo_env]
    by (metis of_nat_le_iff of_nat_numeral)
qed

end
