(* ===== verification/Delivery.thy ===== *)
theory Delivery
  imports Notify Gateway
begin

text \<open>
  The way of a callback through the task queue to the merchant: the task of \<^verbatim>\<open>internal/infrastructure/queue/asynq.go\<close>, an
  attempt at it, and the signed request of \<^verbatim>\<open>internal/adapter/delivery/worker/payment_notification_worker.go\<close>; beside it the
  periodic task of the reconciliation. The queue is a parameter that accepts or refuses a task;
  when and how often it runs a task is left open. Durations have 64 bits.
\<close>

section \<open>Tasks\<close>

record asynq_task =
  tk_Type :: string
  tk_Payload :: PaymentNotificationPayload
  tk_Headers :: "(string \<times> string) list"
  tk_Queue :: string
  tk_MaxRetry :: nat
  tk_Timeout :: int
  tk_Retention :: int
  tk_Unique :: "int option"

definition NotificationDeliveryIDHeader :: string where "NotificationDeliveryIDHeader = ''delivery-id''"

definition TaskPaymentNotify :: string where "TaskPaymentNotify = ''merchant:payment:notify''"

text \<open>The payload is the JSON form: it has neither the delivery identifier nor the trigger.\<close>

definition notification_task :: "PaymentNotificationPayload \<Rightarrow> asynq_task" where
  "notification_task payload = \<lparr>tk_Type = TaskPaymentNotify, tk_Payload = stored_payload payload,
     tk_Headers = (if np_DeliveryID payload \<noteq> [] then [(NotificationDeliveryIDHeader, np_DeliveryID payload)] else []),
     tk_Queue = ''notifications'', tk_MaxRetry = 3, tk_Timeout = 30 * nanos_per_second, tk_Retention = 24 * 60 * 60 * nanos_per_second,
     tk_Unique = (if np_Trigger payload \<noteq> NotificationTriggerManual then Some (5 * 60 * nanos_per_second) else None)\<rparr>"

datatype asynq_error = ErrDuplicateTask | AsynqError string

definition enqueue_error :: "asynq_error option \<Rightarrow> gerr option" where
  "enqueue_error r = (case r of None \<Rightarrow> None | Some ErrDuplicateTask \<Rightarrow> Some ErrNotificationDuplicate
     | Some (AsynqError t) \<Rightarrow> Some (ErrOther (''failed to enqueue notification task: '' @ t)))"

definition Client_EnqueuePaymentNotification :: "(asynq_task \<Rightarrow> asynq_error option) \<Rightarrow> PaymentNotificationPayload \<Rightarrow> gerr option" where
  "Client_EnqueuePaymentNotification enqueue payload = enqueue_error (enqueue (notification_task payload))"

text \<open>What the worker makes of a task.\<close>

definition received :: "asynq_task \<Rightarrow> PaymentNotificationPayload" where
  "received t = (tk_Payload t)\<lparr>np_DeliveryID := (case map_of (tk_Headers t) NotificationDeliveryIDHeader of Some i \<Rightarrow> i | None \<Rightarrow> [])\<rparr>"

definition handle_task :: "env \<Rightarrow> merchant \<Rightarrow> asynq_task \<Rightarrow> nat \<Rightarrow> world \<Rightarrow> deliveryError option \<times> world" where
  "handle_task e post t retried w = HandlePaymentNotification e post (received t) (int retried) (int (tk_MaxRetry t)) w"

section \<open>The signed request\<close>

record callback_env =
  cb_secret :: string
  cb_crypto :: crypto_env
  cb_now :: gtime
  cb_marshal :: "jval \<Rightarrow> string"
  cb_url :: "string \<Rightarrow> string option"
  cb_Do :: "outbound \<Rightarrow> string + (int \<times> string)"

definition callback_signature :: "crypto_env \<Rightarrow> string \<Rightarrow> string \<Rightarrow> string" where
  "callback_signature c secret body = b64_encode (cr_hmac_sha512 c secret body)"

definition callback_request :: "callback_env \<Rightarrow> string \<Rightarrow> jval \<Rightarrow> outbound" where
  "callback_request c url notification = (let body = cb_marshal c notification in
     \<lparr>ob_Method = ''POST'', ob_URL = url,
      ob_Header = HeaderSet ''X-Signature'' (callback_signature (cb_crypto c) (cb_secret c) body)
        (HeaderSet ''X-Timestamp'' (rfc3339 (cb_now c)) (HeaderSet ''Content-Type'' ''application/json'' [])),
      ob_Body = body\<rparr>)"

definition signed_post :: "callback_env \<Rightarrow> merchant" where
  "signed_post c url notification = (case cb_url c url of
      Some err \<Rightarrow> Inl (''failed to create request: '' @ err)
    | None \<Rightarrow> (case cb_Do c (callback_request c url notification) of
        Inl err \<Rightarrow> Inl (''failed to send notification: '' @ err)
      | Inr (status, body) \<Rightarrow> Inr (status, take 4096 body)))"

section \<open>The periodic task\<close>

record periodic_task =
  pt_Spec :: string
  pt_Type :: string
  pt_Unique :: int
  pt_MaxRetry :: nat
  pt_Timeout :: int

definition RegisterPeriodic :: "string \<Rightarrow> string \<Rightarrow> int \<Rightarrow> string + periodic_task" where
  "RegisterPeriodic cronSpec taskType interval = (if interval \<le> 0
     then Inl (''periodic task '' @ taskType @ '': interval must be positive'')
     else Inr \<lparr>pt_Spec = cronSpec, pt_Type = taskType, pt_Unique = interval, pt_MaxRetry = 2, pt_Timeout = interval\<rparr>)"

definition TaskVAStatusReconcile :: string where "TaskVAStatusReconcile = ''va:status:reconcile''"

definition startReconcileScheduler :: "(string \<Rightarrow> string) \<Rightarrow> string + periodic_task" where
  "startReconcileScheduler getenv = (let intervalMinutes = getEnvIntOrDefault getenv ''RECONCILE_INTERVAL_MINUTES'' 5 in
     RegisterPeriodic (''@every '' @ Itoa intervalMinutes @ ''m'') TaskVAStatusReconcile (minutes intervalMinutes))"

end
