(* ===== verification/DeliveryProps.thy ===== *)
theory DeliveryProps
  imports Delivery CallbackProps TokenProps
begin

text \<open>
  Callbacks on their way: the task carries what was dispatched, the row of a delivery says what its runs came to,
  however often the queue makes them, and the merchant can check the signature of a callback.
\<close>

section \<open>Tasks\<close>

lemma received_task: "received (notification_task p) = p\<lparr>np_Trigger := []\<rparr>"
  by (cases "np_DeliveryID p = []") (simp_all add: received_def notification_task_def stored_payload_def NotificationDeliveryIDHeader_def)

lemma received_sel [simp]: "np_DeliveryID (received (notification_task p)) = np_DeliveryID p"
  "np_NotificationURL (received (notification_task p)) = np_NotificationURL p"
  "notification_body e (received (notification_task p)) = notification_body e p"
  by (simp_all add: received_task notification_body_def)

text \<open>
  One run of a task: its environment, the merchant, and the number of earlier runs the queue states. When the queue runs
  a task, how often, and with which numbers is left open: a task may run again after an attempt that was answered.
\<close>

type_synonym task_run = "env \<times> merchant \<times> nat"

definition after_runs :: "asynq_task \<Rightarrow> task_run list \<Rightarrow> world \<Rightarrow> world" where
  "after_runs t runs w = fold (\<lambda>(e, post, k) w. snd (handle_task e post t k w)) runs w"

definition answered :: "PaymentNotificationPayload \<Rightarrow> task_run \<Rightarrow> bool" where
  "answered p run = (case run of (e, post, k) \<Rightarrow> np_NotificationURL p \<noteq> [] \<and>
     (case post (np_NotificationURL p) (notification_body e p) of Inl _ \<Rightarrow> False | Inr (code, body) \<Rightarrow> code < 400))"

text \<open>The outcome of a run can be written to the row.\<close>

definition recording :: "PaymentNotificationPayload \<Rightarrow> task_run \<Rightarrow> bool" where
  "recording p run = (case run of (e, post, k) \<Rightarrow> e_delivery_repo e \<and> e_fault e (OpUpdateDelivery (np_DeliveryID p)) = None)"

definition attempt_of :: "task_run \<Rightarrow> int" where
  "attempt_of run = (case run of (e, post, k) \<Rightarrow> int k + 1)"

text \<open>The runs up to the first that was answered, with it.\<close>

fun up_to_answer :: "PaymentNotificationPayload \<Rightarrow> task_run list \<Rightarrow> task_run list" where
  "up_to_answer p [] = []"
| "up_to_answer p (r # rs) = (if answered p r then [r] else r # up_to_answer p rs)"

definition row_of :: "string \<Rightarrow> world \<Rightarrow> NotificationDelivery list" where
  "row_of i w = filter (\<lambda>x. nd_ID x = i) (w_deliveries w)"

lemma handle_task_char:
  assumes "np_DeliveryID p \<noteq> []"
  shows "snd (handle_task e post (notification_task p) k w) = (if recording p (e, post, k)
     then w\<lparr>w_deliveries := update_where (open_delivery (np_DeliveryID p)) (apply_result e (delivery_result (int k) 3 (deliver e post p))) (w_deliveries w)\<rparr>
     else w)"
proof -
  have "deliver e post (received (notification_task p)) = deliver e post p" by (simp add: deliver_def)
  moreover have "tk_MaxRetry (notification_task p) = 3" by (simp add: notification_task_def)
  ultimately show ?thesis using assms
    by (simp add: handle_task_def HandlePaymentNotification_def Let_def recordResult_def UpdateDeliveryResult_def snd_guard recording_def)
qed

lemma handle_frame:
  assumes "np_DeliveryID p \<noteq> []"
  shows "(snd (handle_task e post (notification_task p) k w))\<lparr>w_deliveries := ds\<rparr> = w\<lparr>w_deliveries := ds\<rparr>"
    and "filter (\<lambda>x. nd_ID x \<noteq> np_DeliveryID p) (w_deliveries (snd (handle_task e post (notification_task p) k w))) =
      filter (\<lambda>x. nd_ID x \<noteq> np_DeliveryID p) (w_deliveries w)"
proof -
  have "filter (\<lambda>x. nd_ID x \<noteq> i) (update_where (open_delivery i) (apply_result e r) ds) = filter (\<lambda>x. nd_ID x \<noteq> i) ds" for i r ds
    by (induction ds) (auto simp: update_where_def open_delivery_def apply_result_def)
  then show "filter (\<lambda>x. nd_ID x \<noteq> np_DeliveryID p) (w_deliveries (snd (handle_task e post (notification_task p) k w))) =
      filter (\<lambda>x. nd_ID x \<noteq> np_DeliveryID p) (w_deliveries w)"
    "(snd (handle_task e post (notification_task p) k w))\<lparr>w_deliveries := ds\<rparr> = w\<lparr>w_deliveries := ds\<rparr>"
    by (simp_all add: handle_task_char [OF assms])
qed

lemma row_update:
  assumes "row_of i w = [d]"
  shows "row_of i (w\<lparr>w_deliveries := update_where (open_delivery i) (apply_result e r) (w_deliveries w)\<rparr>) =
    [if nd_Status d = NotificationDeliveryStatusSuccess then d else apply_result e r d]"
proof -
  have "filter (\<lambda>x. nd_ID x = i) (update_where (open_delivery i) (apply_result e r) ds) =
      map (\<lambda>d. if nd_Status d = NotificationDeliveryStatusSuccess then d else apply_result e r d) (filter (\<lambda>x. nd_ID x = i) ds)" for ds
    by (induction ds) (auto simp: update_where_def open_delivery_def apply_result_def)
  with assms show ?thesis by (simp add: row_of_def)
qed

lemma answered_iff: "answered p (e, post, k) \<longleftrightarrow> deliver e post p = None"
  by (auto simp: answered_def deliver_def split: sum.splits prod.splits if_splits)

lemma handle_row:
  assumes "np_DeliveryID p \<noteq> []" and "row_of (np_DeliveryID p) w = [d]" and "recording p run" and "run = (e, post, k)"
  obtains d' where "row_of (np_DeliveryID p) (snd (handle_task e post (notification_task p) k w)) = [d']"
    "nd_Status d = NotificationDeliveryStatusSuccess \<Longrightarrow> d' = d"
    "nd_Status d \<noteq> NotificationDeliveryStatusSuccess \<Longrightarrow> nd_AttemptCount d' = max (nd_AttemptCount d) (attempt_of run)"
    "nd_Status d \<noteq> NotificationDeliveryStatusSuccess \<Longrightarrow> nd_Status d' = (if answered p run then NotificationDeliveryStatusSuccess
       else if attempt_of run \<le> 3 then NotificationDeliveryStatusRetrying else NotificationDeliveryStatusFailed)"
proof -
  let ?d = "if nd_Status d = NotificationDeliveryStatusSuccess then d else apply_result e (delivery_result (int k) 3 (deliver e post p)) d"
  have "row_of (np_DeliveryID p) (snd (handle_task e post (notification_task p) k w)) = [?d]"
    using assms(3,4) row_update [OF assms(2)] by (simp add: handle_task_char [OF assms(1)])
  then show thesis by (rule that)
    (auto simp: assms(4) attempt_of_def answered_iff apply_result_def delivery_result_def split: option.split)
qed

lemma after_success:
  assumes "np_DeliveryID p \<noteq> []" and "row_of (np_DeliveryID p) w = [d]" and "nd_Status d = NotificationDeliveryStatusSuccess"
  shows "row_of (np_DeliveryID p) (after_runs (notification_task p) runs w) = [d]"
  using assms(2)
proof (induction runs arbitrary: w)
  case (Cons run runs)
  obtain e post k where run: "run = (e, post, k)" by (cases run)
  have "row_of (np_DeliveryID p) (snd (handle_task e post (notification_task p) k w)) = [d]"
    using Cons.prems assms(3) row_update [OF Cons.prems] by (simp add: handle_task_char [OF assms(1)])
  with Cons.IH show ?case by (simp add: after_runs_def run)
qed (simp add: after_runs_def)

lemma runs_frame:
  assumes "np_DeliveryID p \<noteq> []"
  shows "(after_runs (notification_task p) runs w)\<lparr>w_deliveries := w_deliveries w\<rparr> = w \<and>
    filter (\<lambda>x. nd_ID x \<noteq> np_DeliveryID p) (w_deliveries (after_runs (notification_task p) runs w)) =
      filter (\<lambda>x. nd_ID x \<noteq> np_DeliveryID p) (w_deliveries w)"
proof -
  have "(after_runs (notification_task p) runs w)\<lparr>w_deliveries := ds\<rparr> = w\<lparr>w_deliveries := ds\<rparr> \<and>
    filter (\<lambda>x. nd_ID x \<noteq> np_DeliveryID p) (w_deliveries (after_runs (notification_task p) runs w)) =
      filter (\<lambda>x. nd_ID x \<noteq> np_DeliveryID p) (w_deliveries w)" for ds
    by (induction runs arbitrary: w) (auto simp: after_runs_def handle_frame [OF assms])
  then show ?thesis by simp
qed

text \<open>What the row says after the recorded runs, from a row that does not say success.\<close>

definition status_after :: "PaymentNotificationPayload \<Rightarrow> task_run list \<Rightarrow> string \<Rightarrow> string" where
  "status_after p recorded s = (if list_ex (answered p) recorded then NotificationDeliveryStatusSuccess
     else if recorded = [] then s
     else if attempt_of (last recorded) \<le> 3 then NotificationDeliveryStatusRetrying else NotificationDeliveryStatusFailed)"

lemma runs_recorded:
  assumes "np_DeliveryID p \<noteq> []" and "row_of (np_DeliveryID p) w = [d]" and "nd_Status d \<noteq> NotificationDeliveryStatusSuccess"
  shows "\<exists>d'. row_of (np_DeliveryID p) (after_runs (notification_task p) runs w) = [d'] \<and>
    nd_Status d' = status_after p (filter (recording p) runs) (nd_Status d) \<and>
    nd_AttemptCount d' = fold max (map attempt_of (up_to_answer p (filter (recording p) runs))) (nd_AttemptCount d)"
  using assms(2,3)
proof (induction runs arbitrary: w d)
  case (Cons run runs)
  obtain e post k where run: "run = (e, post, k)" by (cases run)
  let ?w = "snd (handle_task e post (notification_task p) k w)"
  have step: "after_runs (notification_task p) (run # runs) w = after_runs (notification_task p) runs ?w" by (simp add: after_runs_def run)
  show ?case
  proof (cases "recording p run")
    case False
    then have "?w = w" by (simp add: handle_task_char [OF assms(1)] run)
    with False Cons show ?thesis unfolding step by simp
  next
    case True
    obtain d1 where d1: "row_of (np_DeliveryID p) ?w = [d1]" "nd_AttemptCount d1 = max (nd_AttemptCount d) (attempt_of run)"
      "nd_Status d1 = (if answered p run then NotificationDeliveryStatusSuccess
         else if attempt_of run \<le> 3 then NotificationDeliveryStatusRetrying else NotificationDeliveryStatusFailed)"
      using handle_row [OF assms(1) Cons.prems(1) True run] Cons.prems(2) by metis
    show ?thesis
    proof (cases "answered p run")
      case True
      with d1 \<open>recording p run\<close> after_success [OF assms(1) d1(1), of runs] show ?thesis
        unfolding step by (simp add: status_after_def max.commute)
    next
      case False
      then have "nd_Status d1 \<noteq> NotificationDeliveryStatusSuccess" using d1(3) by (simp add: code_consts)
      from Cons.IH [OF d1(1) this] False d1 \<open>recording p run\<close> show ?thesis
        unfolding step by (auto simp: status_after_def max.commute)
    qed
  qed
qed (simp add: after_runs_def status_after_def)

text \<open>C33: The row of a delivery says what became of its callback, however often and in whatever order the queue runs the task,
  runs after an answered attempt included. Once a run that can write its outcome was answered below 400 the row says
  success and no later run moves it; before that it says retrying or failed as the last recorded run had one of the
  first three attempts or a later one, and the attempts it counts are the highest number of the recorded runs up to
  that answer. No other row and nothing else changes.\<close>

theorem callback_attempts_are_recorded:
  assumes "np_DeliveryID p \<noteq> []" and "row_of (np_DeliveryID p) w = [d]" and "nd_Status d = NotificationDeliveryStatusQueued"
    and "w' = after_runs (notification_task p) runs w" and "recorded = filter (recording p) runs"
  shows "\<exists>d'. row_of (np_DeliveryID p) w' = [d'] \<and>
    nd_Status d' = (if list_ex (answered p) recorded then NotificationDeliveryStatusSuccess
      else if recorded = [] then NotificationDeliveryStatusQueued
      else if attempt_of (last recorded) \<le> 3 then NotificationDeliveryStatusRetrying else NotificationDeliveryStatusFailed) \<and>
    nd_AttemptCount d' = fold max (map attempt_of (up_to_answer p recorded)) (nd_AttemptCount d) \<and>
    w'\<lparr>w_deliveries := w_deliveries w\<rparr> = w \<and>
    filter (\<lambda>x. nd_ID x \<noteq> np_DeliveryID p) (w_deliveries w') = filter (\<lambda>x. nd_ID x \<noteq> np_DeliveryID p) (w_deliveries w)"
proof -
  have "nd_Status d \<noteq> NotificationDeliveryStatusSuccess" using assms(3) by (simp add: code_consts)
  from runs_recorded [OF assms(1,2) this, of runs] obtain d' where d': "row_of (np_DeliveryID p) w' = [d']"
    "nd_Status d' = status_after p recorded NotificationDeliveryStatusQueued"
    "nd_AttemptCount d' = fold max (map attempt_of (up_to_answer p recorded)) (nd_AttemptCount d)"
    using assms(3-5) by auto
  then show ?thesis using runs_frame [OF assms(1), of w runs] assms(4) by (intro exI [of _ d']) (simp only: status_after_def simp_thms)
qed

section \<open>Signatures\<close>

text \<open>What a merchant does to check a callback.\<close>

definition callback_genuine :: "crypto_env \<Rightarrow> string \<Rightarrow> outbound \<Rightarrow> bool" where
  "callback_genuine c secret req = (b64_decode True (header_value (ob_Header req) ''X-Signature'') = Some (cr_hmac_sha512 c secret (ob_Body req)))"

text \<open>A callback is signed for its merchant: the check of the signature over the body accepts the request the worker sends,
  and accepts the same headers over another body exactly when this body has the same code under the secret.\<close>

theorem callback_signature_binds_the_body:
  "callback_genuine (cb_crypto c) (cb_secret c) ((callback_request c url notification)\<lparr>ob_Body := body\<rparr>) \<longleftrightarrow>
   cr_hmac_sha512 (cb_crypto c) (cb_secret c) body = cr_hmac_sha512 (cb_crypto c) (cb_secret c) (cb_marshal c notification)"
proof -
  have "CanonicalHeaderKey ''X-Signature'' = ''X-Signature''"
    by (simp add: CanonicalHeaderKey_def token_byte_def upper_byte_def lower_byte_def is_digit_def ord_def)
  then have "header_value (ob_Header (callback_request c url notification)) ''X-Signature'' =
      callback_signature (cb_crypto c) (cb_secret c) (cb_marshal c notification)"
    by (auto simp: header_value_def callback_request_def HeaderSet_def Let_def map_add_def map_of_filter_in split: option.splits)
  then show ?thesis by (auto simp: callback_genuine_def callback_signature_def b64_round_trip)
qed

section \<open>A callback to run it on\<close>

definition demo_callback :: PaymentNotificationPayload where
  "demo_callback = demo_payload\<lparr>np_DeliveryID := ''d1''\<rparr>"

definition queued_world :: world where
  "queued_world = fresh_world\<lparr>w_deliveries := [demo_delivery\<lparr>nd_Status := NotificationDeliveryStatusQueued, nd_AttemptCount := 0\<rparr>]\<rparr>"

text \<open>The merchant is busy, then answers, and is busy when the task runs once more.\<close>

definition demo_runs :: "task_run list" where
  "demo_runs = [(demo_env, \<lambda>_ _. Inr (503, ''busy''), 0), (demo_env, \<lambda>_ _. Inr (200, []), 1), (demo_env, \<lambda>_ _. Inr (503, ''busy''), 3)]"

theorem callback_attempts_are_recorded_witness:
  "\<exists>d'. row_of ''d1'' (after_runs (notification_task demo_callback) demo_runs queued_world) = [d'] \<and>
     nd_Status d' = NotificationDeliveryStatusSuccess \<and> nd_AttemptCount d' = 2"
proof -
  have a: "answered demo_callback (e, \<lambda>_ _. Inr (n, t), k) \<longleftrightarrow> n < 400" for e n t k
    by (simp add: answered_def demo_callback_def demo_payload_def)
  have rec: "filter (recording demo_callback) demo_runs = demo_runs" by (simp add: demo_runs_def recording_def)
  have row: "row_of (np_DeliveryID demo_callback) queued_world = [demo_delivery\<lparr>nd_Status := NotificationDeliveryStatusQueued, nd_AttemptCount := 0\<rparr>]"
    by (simp add: row_of_def queued_world_def demo_callback_def demo_delivery_def)
  have n: "list_ex (answered demo_callback) demo_runs" "map attempt_of (up_to_answer demo_callback demo_runs) = [1, 2]"
    by (simp_all add: demo_runs_def a attempt_of_def)
  have "np_DeliveryID demo_callback = ''d1''" by (simp add: demo_callback_def)
  then show ?thesis using callback_attempts_are_recorded [OF _ row _ refl refl, of demo_runs] rec n by auto
qed

end
