(* ===== verification/Wire.thy ===== *)
theory Wire
  imports SnapCodes SnapTime "HOL-Library.Monad_Syntax"
begin

text \<open>
  The documents the three services exchange: what \<^verbatim>\<open>encoding/json\<close> makes of the structs of \<^verbatim>\<open>internal/domain/va.go\<close>
  with their tags and \<^verbatim>\<open>MarshalJSON\<close> methods, as JSON values (the text of a value is not modelled), and how the document
  of a stored payment outcome is read back. The records of the model do not tell a nil slice or map from an empty one;
  here \<open>nil\<close> says which of the fields without elements are nil, and every document is defined for any choice of it.
\<close>

section \<open>Fields\<close>

text \<open>A field of a struct; the variants for the tag \<^verbatim>\<open>omitempty\<close> leave an empty value out.\<close>

type_synonym field = "(string \<times> jval) list"

definition js_str :: "string \<Rightarrow> string \<Rightarrow> field" where "js_str k s = [(k, JStr s)]"
definition js_str0 :: "string \<Rightarrow> string \<Rightarrow> field" where "js_str0 k s = (if s = [] then [] else [(k, JStr s)])"
definition js_info0 :: "string \<Rightarrow> info \<Rightarrow> field" where "js_info0 k m = (if m = [] then [] else [(k, JObj m)])"
definition js_opt :: "('a \<Rightarrow> jval) \<Rightarrow> string \<Rightarrow> 'a option \<Rightarrow> field" where
  "js_opt f k v = [(k, case v of None \<Rightarrow> jval.JNull | Some x \<Rightarrow> f x)]"
definition js_opt0 :: "('a \<Rightarrow> jval) \<Rightarrow> string \<Rightarrow> 'a option \<Rightarrow> field" where
  "js_opt0 f k v = (case v of None \<Rightarrow> [] | Some x \<Rightarrow> [(k, f x)])"
definition js_info :: "string \<Rightarrow> info option \<Rightarrow> field" where
  "js_info k m = [(k, case m of None \<Rightarrow> jval.JNull | Some fs \<Rightarrow> JObj fs)]"
definition js_list :: "('a \<Rightarrow> jval) \<Rightarrow> string \<Rightarrow> 'a list option \<Rightarrow> field" where
  "js_list f k v = [(k, case v of None \<Rightarrow> jval.JNull | Some xs \<Rightarrow> JArr (map f xs))]"
definition js_list0 :: "('a \<Rightarrow> jval) \<Rightarrow> string \<Rightarrow> 'a list \<Rightarrow> field" where
  "js_list0 f k xs = (if xs = [] then [] else [(k, JArr (map f xs))])"

text \<open>A slice or map as Go has it, nothing when it is nil, and the replacement of nil in the \<^verbatim>\<open>MarshalJSON\<close> methods.\<close>

definition slice :: "(string \<Rightarrow> bool) \<Rightarrow> string \<Rightarrow> 'a list \<Rightarrow> 'a list option" where
  "slice nil k xs = (if xs = [] \<and> nil k then None else Some xs)"

definition if_nil :: "'a list option \<Rightarrow> 'a list option" where
  "if_nil v = (case v of None \<Rightarrow> Some [] | Some xs \<Rightarrow> Some xs)"

lemmas js_defs = js_str_def js_str0_def js_info_def js_info0_def js_opt_def js_opt0_def js_list_def js_list0_def

text \<open>\<^verbatim>\<open>time.Time\<close> is written with the digits of the second's fraction, without trailing zeros.\<close>

definition fraction_text :: "gtime \<Rightarrow> string" where
  "fraction_text t = (let ns = tm_ns t mod nanos_per_second in
     if ns = 0 then [] else CHR ''.'' # rev (dropWhile (\<lambda>c. c = CHR ''0'') (rev (pad0 9 (dec (nat ns))))))"

definition time_json :: "gtime \<Rightarrow> jval" where
  "time_json t = JStr (stamp_text t @ fraction_text t @ zone_text (tm_off t))"

definition snap_json :: "gtime \<Rightarrow> jval" where
  "snap_json t = (case SNAPTime_MarshalJSON t of JString s \<Rightarrow> JStr s | _ \<Rightarrow> jval.JNull)"

section \<open>Documents\<close>

definition Amount_json :: "Amount \<Rightarrow> jval" where
  "Amount_json x = JObj (js_str ''value'' (am_Value x) @ js_str ''currency'' (am_Currency x))"

definition BilingualText_json :: "BilingualText \<Rightarrow> jval" where
  "BilingualText_json x = JObj (js_str ''english'' (bt_English x) @ js_str ''indonesia'' (bt_Indonesia x))"

definition BillDetail_json :: "BillDetail \<Rightarrow> jval" where
  "BillDetail_json x = JObj (js_str0 ''billCode'' (bd_BillCode x) @ js_str ''billNo'' (bd_BillNo x) @ js_str0 ''billName'' (bd_BillName x) @
     js_str0 ''billShortName'' (bd_BillShortName x) @ js_opt0 BilingualText_json ''billDescription'' (bd_BillDescription x) @
     js_str0 ''billSubCompany'' (bd_BillSubCompany x) @ js_opt0 Amount_json ''billAmount'' (bd_BillAmount x) @
     js_str0 ''billAmountLabel'' (bd_BillAmountLabel x) @ js_str0 ''billAmountValue'' (bd_BillAmountValue x) @
     js_str0 ''billReferenceNo'' (bd_BillReferenceNo x) @ js_str0 ''billerReferenceId'' (bd_BillerReferenceID x) @
     js_str0 ''status'' (bd_Status x) @ js_opt0 BilingualText_json ''reason'' (bd_Reason x) @
     js_info0 ''additionalInfo'' (bd_AdditionalInfo x))"

definition VAAccountData_json :: "(string \<Rightarrow> bool) \<Rightarrow> VAAccountData \<Rightarrow> jval" where
  "VAAccountData_json nil x = JObj (js_str ''partnerServiceId'' (ad_PartnerServiceID x) @ js_str ''customerNo'' (ad_CustomerNo x) @
     js_str ''virtualAccountNo'' (ad_VirtualAccountNo x) @ js_str ''virtualAccountName'' (ad_VirtualAccountName x) @
     js_str ''inquiryRequestId'' (ad_InquiryRequestID x) @ js_opt0 Amount_json ''totalAmount'' (ad_TotalAmount x) @
     js_str0 ''subCompany'' (ad_SubCompany x) @ js_list BillDetail_json ''billDetails'' (if_nil (slice nil ''billDetails'' (ad_BillDetails x))) @
     js_list BilingualText_json ''freeTexts'' (if_nil (slice nil ''freeTexts'' (ad_FreeTexts x))) @
     js_str0 ''virtualAccountTrxType'' (ad_VirtualAccountTrxType x) @ js_opt0 Amount_json ''feeAmount'' (ad_FeeAmount x) @
     js_str ''inquiryStatus'' (ad_InquiryStatus x) @ js_opt0 BilingualText_json ''inquiryReason'' (ad_InquiryReason x) @
     js_info0 ''additionalInfo'' (ad_AdditionalInfo x))"

definition VAInquiryResponse_json :: "(string \<Rightarrow> bool) \<Rightarrow> VAInquiryResponse \<Rightarrow> jval" where
  "VAInquiryResponse_json nil x = JObj (js_str ''responseCode'' (ir_ResponseCode x) @ js_str ''responseMessage'' (ir_ResponseMessage x) @
     js_opt0 (VAAccountData_json nil) ''virtualAccountData'' (ir_VirtualAccountData x) @
     js_info ''additionalInfo'' (if_nil (slice nil ''additionalInfo'' (ir_AdditionalInfo x))))"

definition VAPaymentResponseBillDetail_json :: "VAPaymentResponseBillDetail \<Rightarrow> jval" where
  "VAPaymentResponseBillDetail_json x = JObj (js_str ''billerReferenceId'' (rb_BillerReferenceID x) @ js_str ''billNo'' (rb_BillNo x) @
     js_opt BilingualText_json ''billDescription'' (rb_BillDescription x) @ js_str ''billSubCompany'' (rb_BillSubCompany x) @
     js_opt Amount_json ''billAmount'' (rb_BillAmount x) @ js_info0 ''additionalInfo'' (rb_AdditionalInfo x) @
     js_str ''status'' (rb_Status x) @ js_opt BilingualText_json ''reason'' (rb_Reason x))"

definition VAPaymentStatus_json :: "(string \<Rightarrow> bool) \<Rightarrow> VAPaymentStatus \<Rightarrow> jval" where
  "VAPaymentStatus_json nil x = JObj (js_str ''partnerServiceId'' (ps_PartnerServiceID x) @ js_str ''customerNo'' (ps_CustomerNo x) @
     js_str ''virtualAccountNo'' (ps_VirtualAccountNo x) @ js_str ''virtualAccountName'' (ps_VirtualAccountName x) @
     js_str ''paymentRequestId'' (ps_PaymentRequestID x) @ js_opt Amount_json ''paidAmount'' (ps_PaidAmount x) @
     js_opt0 Amount_json ''totalAmount'' (ps_TotalAmount x) @ js_opt0 time_json ''trxDateTime'' (ps_TrxDateTime x) @
     js_str0 ''referenceNo'' (ps_ReferenceNo x) @ js_str ''paymentFlagStatus'' (ps_PaymentFlagStatus x) @
     js_opt BilingualText_json ''paymentFlagReason'' (ps_PaymentFlagReason x) @
     js_list VAPaymentResponseBillDetail_json ''billDetails'' (if_nil (slice nil ''billDetails'' (ps_BillDetails x))) @
     js_list BilingualText_json ''freeTexts'' (if_nil (slice nil ''freeTexts'' (ps_FreeTexts x))))"

definition VAPaymentResponse_json :: "(string \<Rightarrow> bool) \<Rightarrow> VAPaymentResponse \<Rightarrow> jval" where
  "VAPaymentResponse_json nil x = JObj (js_str ''responseCode'' (pr_ResponseCode x) @ js_str ''responseMessage'' (pr_ResponseMessage x) @
     js_opt0 (VAPaymentStatus_json nil) ''virtualAccountData'' (pr_VirtualAccountData x) @
     js_info ''additionalInfo'' (if_nil (slice nil ''additionalInfo'' (pr_AdditionalInfo x))))"

definition VAStatusRequest_json :: "(string \<Rightarrow> bool) \<Rightarrow> VAStatusRequest \<Rightarrow> jval" where
  "VAStatusRequest_json nil x = JObj (js_str ''partnerServiceId'' (sq_PartnerServiceID x) @ js_str ''customerNo'' (sq_CustomerNo x) @
     js_str ''virtualAccountNo'' (sq_VirtualAccountNo x) @ js_str ''inquiryRequestId'' (sq_InquiryRequestID x) @
     js_str0 ''paymentRequestId'' (sq_PaymentRequestID x) @ js_info ''additionalInfo'' (if_nil (slice nil ''additionalInfo'' (sq_AdditionalInfo x))))"

definition VAStatusBillDetail_json :: "VAStatusBillDetail \<Rightarrow> jval" where
  "VAStatusBillDetail_json x = JObj (js_str0 ''billCode'' (sb_BillCode x) @ js_str ''billNo'' (sb_BillNo x) @ js_str0 ''billName'' (sb_BillName x) @
     js_str0 ''billShortName'' (sb_BillShortName x) @ js_opt BilingualText_json ''billDescription'' (sb_BillDescription x) @
     js_str ''billSubCompany'' (sb_BillSubCompany x) @ js_opt Amount_json ''billAmount'' (sb_BillAmount x) @
     js_str ''billReferenceNo'' (sb_BillReferenceNo x) @ js_str ''status'' (sb_Status x) @
     js_opt BilingualText_json ''reason'' (sb_Reason x) @ js_info0 ''additionalInfo'' (sb_AdditionalInfo x))"

definition VAStatusData_json :: "VAStatusData \<Rightarrow> jval" where
  "VAStatusData_json x = JObj (js_str ''paymentFlagStatus'' (sd_PaymentFlagStatus x) @
     js_opt BilingualText_json ''paymentFlagReason'' (sd_PaymentFlagReason x) @
     js_str ''partnerServiceId'' (sd_PartnerServiceID x) @ js_str ''customerNo'' (sd_CustomerNo x) @
     js_str ''virtualAccountNo'' (sd_VirtualAccountNo x) @ js_str ''inquiryRequestId'' (sd_InquiryRequestID x) @
     js_str ''paymentRequestId'' (sd_PaymentRequestID x) @ js_opt Amount_json ''paidAmount'' (sd_PaidAmount x) @
     js_str0 ''paidBills'' (sd_PaidBills x) @ js_opt Amount_json ''totalAmount'' (sd_TotalAmount x) @
     js_opt0 snap_json ''trxDateTime'' (sd_TrxDateTime x) @ js_opt snap_json ''transactionDate'' (sd_TransactionDate x) @
     js_str0 ''referenceNo'' (sd_ReferenceNo x) @ js_str0 ''paymentType'' (sd_PaymentType x) @
     js_str0 ''flagAdvise'' (sd_FlagAdvise x) @ js_list0 VAStatusBillDetail_json ''billDetails'' (sd_BillDetails x) @
     js_list0 BilingualText_json ''freeTexts'' (sd_FreeTexts x) @ js_info0 ''additionalInfo'' (sd_AdditionalInfo x))"

definition VAStatusResponse_json :: "(string \<Rightarrow> bool) \<Rightarrow> VAStatusResponse \<Rightarrow> jval" where
  "VAStatusResponse_json nil x = JObj (js_str ''responseCode'' (sr_ResponseCode x) @ js_str ''responseMessage'' (sr_ResponseMessage x) @
     js_opt0 VAStatusData_json ''virtualAccountData'' (sr_VirtualAccountData x) @
     js_info ''additionalInfo'' (if_nil (slice nil ''additionalInfo'' (sr_AdditionalInfo x))))"

section \<open>Reading a payment outcome\<close>

text \<open>\<^verbatim>\<open>json.Unmarshal\<close>: an absent field and \<^verbatim>\<open>null\<close> leave the zero value, a value of another kind is an error.\<close>

definition rd_str :: "string \<Rightarrow> field \<Rightarrow> string option" where
  "rd_str k fs = (case map_of fs k of None \<Rightarrow> Some [] | Some jval.JNull \<Rightarrow> Some [] | Some (JStr s) \<Rightarrow> Some s | _ \<Rightarrow> None)"

definition rd_info :: "string \<Rightarrow> field \<Rightarrow> info option" where
  "rd_info k fs = (case map_of fs k of None \<Rightarrow> Some [] | Some jval.JNull \<Rightarrow> Some [] | Some (JObj m) \<Rightarrow> Some m | _ \<Rightarrow> None)"

definition rd_opt :: "(jval \<Rightarrow> 'a option) \<Rightarrow> string \<Rightarrow> field \<Rightarrow> 'a option option" where
  "rd_opt f k fs = (case map_of fs k of None \<Rightarrow> Some None | Some jval.JNull \<Rightarrow> Some None | Some v \<Rightarrow> map_option Some (f v))"

definition rd_list :: "(jval \<Rightarrow> 'a option) \<Rightarrow> string \<Rightarrow> field \<Rightarrow> 'a list option" where
  "rd_list f k fs = (case map_of fs k of None \<Rightarrow> Some [] | Some jval.JNull \<Rightarrow> Some [] | Some (JArr xs) \<Rightarrow> those (map f xs) | _ \<Rightarrow> None)"

fun read_object :: "(field \<Rightarrow> 'a option) \<Rightarrow> jval \<Rightarrow> 'a option" where
  "read_object f (JObj fs) = f fs"
| "read_object f _ = None"

fun time_read :: "jval \<Rightarrow> gtime option" where
  "time_read (JStr s) = ParseRFC3339 s"
| "time_read _ = None"

definition Amount_read :: "jval \<Rightarrow> Amount option" where
  "Amount_read = read_object (\<lambda>fs. do { v \<leftarrow> rd_str ''value'' fs; c \<leftarrow> rd_str ''currency'' fs; Some \<lparr>am_Value = v, am_Currency = c\<rparr> })"

definition BilingualText_read :: "jval \<Rightarrow> BilingualText option" where
  "BilingualText_read = read_object (\<lambda>fs. do { e \<leftarrow> rd_str ''english'' fs; i \<leftarrow> rd_str ''indonesia'' fs; Some \<lparr>bt_English = e, bt_Indonesia = i\<rparr> })"

definition VAPaymentResponseBillDetail_read :: "jval \<Rightarrow> VAPaymentResponseBillDetail option" where
  "VAPaymentResponseBillDetail_read = read_object (\<lambda>fs. do {
     ref \<leftarrow> rd_str ''billerReferenceId'' fs; no \<leftarrow> rd_str ''billNo'' fs; description \<leftarrow> rd_opt BilingualText_read ''billDescription'' fs;
     sub \<leftarrow> rd_str ''billSubCompany'' fs; amount \<leftarrow> rd_opt Amount_read ''billAmount'' fs; additional \<leftarrow> rd_info ''additionalInfo'' fs;
     status \<leftarrow> rd_str ''status'' fs; reason \<leftarrow> rd_opt BilingualText_read ''reason'' fs;
     Some \<lparr>rb_BillerReferenceID = ref, rb_BillNo = no, rb_BillDescription = description, rb_BillSubCompany = sub, rb_BillAmount = amount,
       rb_AdditionalInfo = additional, rb_Status = status, rb_Reason = reason\<rparr> })"

definition VAPaymentStatus_read :: "jval \<Rightarrow> VAPaymentStatus option" where
  "VAPaymentStatus_read = read_object (\<lambda>fs. do {
     partner \<leftarrow> rd_str ''partnerServiceId'' fs; customer \<leftarrow> rd_str ''customerNo'' fs; va \<leftarrow> rd_str ''virtualAccountNo'' fs;
     name \<leftarrow> rd_str ''virtualAccountName'' fs; prid \<leftarrow> rd_str ''paymentRequestId'' fs; paid \<leftarrow> rd_opt Amount_read ''paidAmount'' fs;
     total \<leftarrow> rd_opt Amount_read ''totalAmount'' fs; trxTime \<leftarrow> rd_opt time_read ''trxDateTime'' fs; ref \<leftarrow> rd_str ''referenceNo'' fs;
     flag \<leftarrow> rd_str ''paymentFlagStatus'' fs; reason \<leftarrow> rd_opt BilingualText_read ''paymentFlagReason'' fs;
     bills \<leftarrow> rd_list VAPaymentResponseBillDetail_read ''billDetails'' fs; texts \<leftarrow> rd_list BilingualText_read ''freeTexts'' fs;
     Some \<lparr>ps_PartnerServiceID = partner, ps_CustomerNo = customer, ps_VirtualAccountNo = va, ps_VirtualAccountName = name,
       ps_PaymentRequestID = prid, ps_PaidAmount = paid, ps_TotalAmount = total, ps_TrxDateTime = trxTime, ps_ReferenceNo = ref,
       ps_PaymentFlagStatus = flag, ps_PaymentFlagReason = reason, ps_BillDetails = bills, ps_FreeTexts = texts\<rparr> })"

end
