(* ===== verification/WireProps.thy ===== *)
theory WireProps
  imports Wire
begin

text \<open>
  Documents: the three services answer with documents of a fixed shape, and a stored payment outcome is read back as it
  was written, which is why the model of the repository keeps the outcome itself in the column.
\<close>

section \<open>Reading what was written\<close>

lemma those_map: "(\<And>x. x \<in> set xs \<Longrightarrow> g (f x) = Some x) \<Longrightarrow> those (map (g \<circ> f) xs) = Some xs"
  by (induction xs) auto

lemma rd_fields:
  "map_of fs k = Some (JStr s) \<Longrightarrow> rd_str k fs = Some s" "map_of fs k = None \<Longrightarrow> rd_str k fs = Some []"
  "map_of fs k = Some (JObj m) \<Longrightarrow> rd_info k fs = Some m" "map_of fs k = None \<Longrightarrow> rd_info k fs = Some []"
  "map_of fs k = None \<Longrightarrow> rd_opt g k fs = Some None" "map_of fs k = Some jval.JNull \<Longrightarrow> rd_opt g k fs = Some None"
  "map_of fs k = Some (f x) \<Longrightarrow> f x \<noteq> jval.JNull \<Longrightarrow> g (f x) = Some x \<Longrightarrow> rd_opt g k fs = Some (Some x)"
  "map_of fs k = Some (JArr (map f xs)) \<Longrightarrow> (\<And>x. g (f x) = Some x) \<Longrightarrow> rd_list g k fs = Some xs"
  by (auto simp: rd_str_def rd_info_def rd_opt_def rd_list_def those_map split: jval.split)

lemma Amount_round_trip [simp]: "Amount_read (Amount_json a) = Some a" "Amount_json a \<noteq> jval.JNull"
  by (simp_all add: Amount_read_def Amount_json_def js_defs rd_str_def)

lemma BilingualText_round_trip [simp]: "BilingualText_read (BilingualText_json t) = Some t" "BilingualText_json t \<noteq> jval.JNull"
  by (simp_all add: BilingualText_read_def BilingualText_json_def js_defs rd_str_def)

lemma rd_opt_written: "map_of fs k = Some (case v of None \<Rightarrow> jval.JNull | Some x \<Rightarrow> f x) \<Longrightarrow> (\<And>x. f x \<noteq> jval.JNull) \<Longrightarrow>
    (\<And>x. g (f x) = Some x) \<Longrightarrow> rd_opt g k fs = Some v"
  by (cases v) (auto intro: rd_fields)

lemma bill_round_trip [simp]: "VAPaymentResponseBillDetail_read (VAPaymentResponseBillDetail_json b) = Some b"
proof -
  let ?fs = "case VAPaymentResponseBillDetail_json b of JObj fs \<Rightarrow> fs | _ \<Rightarrow> []"
  have "rd_opt BilingualText_read ''billDescription'' ?fs = Some (rb_BillDescription b)" "rd_opt BilingualText_read ''reason'' ?fs = Some (rb_Reason b)"
    by - (rule rd_opt_written [where f = BilingualText_json]; simp add: VAPaymentResponseBillDetail_json_def js_defs)+
  moreover have "rd_opt Amount_read ''billAmount'' ?fs = Some (rb_BillAmount b)"
    by (rule rd_opt_written [where f = Amount_json]; simp add: VAPaymentResponseBillDetail_json_def js_defs)
  moreover have "rd_str ''billerReferenceId'' ?fs = Some (rb_BillerReferenceID b)" "rd_str ''billNo'' ?fs = Some (rb_BillNo b)"
    "rd_str ''billSubCompany'' ?fs = Some (rb_BillSubCompany b)" "rd_str ''status'' ?fs = Some (rb_Status b)"
    "rd_info ''additionalInfo'' ?fs = Some (rb_AdditionalInfo b)"
    by (simp_all add: VAPaymentResponseBillDetail_json_def js_defs rd_str_def rd_info_def)
  ultimately show ?thesis by (simp add: VAPaymentResponseBillDetail_read_def VAPaymentResponseBillDetail_json_def)
qed

text \<open>The fraction of the second is written without trailing zeros and read as nanoseconds.\<close>

lemma num_of_zeros: "num_acc n (replicate k (CHR ''0'')) = n * 10 ^ k"
  by (induction k arbitrary: n) (simp_all add: digit_val_def)

lemma trailing_zeros:
  obtains k where "s = rev (dropWhile (\<lambda>c. c = CHR ''0'') (rev s)) @ replicate k (CHR ''0'')"
proof -
  let ?z = "takeWhile (\<lambda>c. c = CHR ''0'') (rev s)"
  have "?z = replicate (length ?z) (CHR ''0'')" by (rule replicate_eqI) (auto dest: set_takeWhileD)
  then have z: "rev ?z = replicate (length ?z) (CHR ''0'')" by (metis rev_replicate)
  have "rev (rev s) = rev (dropWhile (\<lambda>c. c = CHR ''0'') (rev s)) @ rev ?z"
    unfolding rev_append [symmetric] takeWhile_dropWhile_id ..
  then show thesis by (intro that [of "length ?z"]) (simp only: z rev_rev_ident)
qed

lemma fraction_digits:
  assumes "0 < n" and "n < 10 ^ 9"
  defines "ds \<equiv> rev (dropWhile (\<lambda>c. c = CHR ''0'') (rev (pad0 9 (dec n))))"
  shows "ds \<noteq> []" "list_all is_digit ds" "length ds \<le> 9" "num_of ds * 10 ^ (9 - length ds) = n"
proof -
  let ?p = "pad0 9 (dec n)"
  have l: "length ?p = 9" using length_dec_le [of 9 n] assms(2) by (simp add: length_pad0)
  obtain k where k: "?p = ds @ replicate k (CHR ''0'')" unfolding ds_def by (rule trailing_zeros)
  have v: "num_of ?p = n" by (simp add: num_of_pad0 num_of_dec)
  have "9 - length ds = k" using l k by (metis add_diff_cancel_left' length_append length_replicate)
  then show num: "num_of ds * 10 ^ (9 - length ds) = n" using v unfolding k by (simp add: num_acc_append num_of_zeros)
  then show "ds \<noteq> []" using assms(1) by auto
  show "list_all is_digit ds" using stamp_digits_pad0 [of 9 n] unfolding k by simp
  show "length ds \<le> 9" using l k by (metis le_add1 length_append)
qed

lemma zone_no_digit: "takeWhile is_digit (zone_text off) = []" "dropWhile is_digit (zone_text off) = zone_text off"
  by (simp_all add: zone_text_def Let_def is_digit_def)

lemma take_fraction_text:
  "take_fraction (fraction_text t @ zone_text off) = (tm_ns t mod nanos_per_second, zone_text off)"
proof (cases "tm_ns t mod nanos_per_second = 0")
  case False
  define n where "n = nat (tm_ns t mod nanos_per_second)"
  have n: "0 < n" "n < 10 ^ 9" "int n = tm_ns t mod nanos_per_second"
    using False by (auto simp: n_def nanos_per_second_def intro: le_neq_trans)
  define ds where "ds = rev (dropWhile (\<lambda>c. c = CHR ''0'') (rev (pad0 9 (dec n))))"
  note d = fraction_digits [OF n(1,2), folded ds_def]
  obtain c r where c: "ds = c # r" "is_digit c" using d(1,2) by (cases ds) auto
  have "takeWhile is_digit (ds @ zone_text off) = ds" "dropWhile is_digit (ds @ zone_text off) = zone_text off"
    using d(2) zone_no_digit by (simp_all add: list_all_iff)
  moreover have "fraction_text t = CHR ''.'' # ds" using False by (simp add: fraction_text_def Let_def ds_def n_def)
  moreover have "int (num_of ds) * 10 ^ (9 - length ds) = int n" using d(4) by (metis of_nat_mult of_nat_numeral of_nat_power)
  ultimately show ?thesis using c d(3) n(3) by (simp add: take_fraction_def Let_def)
qed (simp add: fraction_text_def Let_def zone_not_fraction)

text \<open>
  The timestamps \<^verbatim>\<open>encoding/json\<close> writes without an error and without loss: years of four digits, zones of whole minutes and
  less than a day; any nanosecond.
\<close>

definition storable :: "VAPaymentStatus \<Rightarrow> bool" where
  "storable s = (case ps_TrxDateTime s of None \<Rightarrow> True | Some t \<Rightarrow> printable t \<and> \<bar>tm_off t\<bar> < 86400)"

lemma time_round_trip: "printable t \<Longrightarrow> time_read (time_json t) = Some t"
  using Parse_stamp [OF _ take_fraction_text, of t t] by (simp add: time_json_def)

lemma time_json_JNull [simp]: "time_json t \<noteq> jval.JNull"
  by (simp add: time_json_def)

lemma if_nil_slice [simp]: "if_nil (slice nil k xs) = Some xs"
  by (simp add: if_nil_def slice_def)

lemma status_fields:
  fixes s and nil defines "fs \<equiv> case VAPaymentStatus_json nil s of JObj fs \<Rightarrow> fs | _ \<Rightarrow> []"
  shows "rd_opt Amount_read ''paidAmount'' fs = Some (ps_PaidAmount s)"
    "rd_opt BilingualText_read ''paymentFlagReason'' fs = Some (ps_PaymentFlagReason s)"
    "rd_list VAPaymentResponseBillDetail_read ''billDetails'' fs = Some (ps_BillDetails s)"
    "rd_list BilingualText_read ''freeTexts'' fs = Some (ps_FreeTexts s)"
    "rd_str ''partnerServiceId'' fs = Some (ps_PartnerServiceID s)" "rd_str ''customerNo'' fs = Some (ps_CustomerNo s)"
    "rd_str ''virtualAccountNo'' fs = Some (ps_VirtualAccountNo s)" "rd_str ''virtualAccountName'' fs = Some (ps_VirtualAccountName s)"
    "rd_str ''paymentRequestId'' fs = Some (ps_PaymentRequestID s)" "rd_str ''paymentFlagStatus'' fs = Some (ps_PaymentFlagStatus s)"
    "rd_str ''referenceNo'' fs = Some (ps_ReferenceNo s)" "rd_opt Amount_read ''totalAmount'' fs = Some (ps_TotalAmount s)"
    "storable s \<Longrightarrow> rd_opt time_read ''trxDateTime'' fs = Some (ps_TrxDateTime s)"
proof -
  have fs: "fs = (case VAPaymentStatus_json nil s of JObj fs \<Rightarrow> fs | _ \<Rightarrow> [])" by (simp add: fs_def)
  note m = map_add_def VAPaymentStatus_json_def js_defs fs
  show "rd_opt Amount_read ''paidAmount'' fs = Some (ps_PaidAmount s)"
    by (rule rd_opt_written [where f = Amount_json]; simp add: m split: option.split)
  show "rd_opt BilingualText_read ''paymentFlagReason'' fs = Some (ps_PaymentFlagReason s)"
    by (rule rd_opt_written [where f = BilingualText_json]; simp add: m split: option.split)
  show "rd_list VAPaymentResponseBillDetail_read ''billDetails'' fs = Some (ps_BillDetails s)"
    by (rule rd_fields(8) [where f = VAPaymentResponseBillDetail_json]; simp add: m split: option.split)
  show "rd_list BilingualText_read ''freeTexts'' fs = Some (ps_FreeTexts s)"
    by (rule rd_fields(8) [where f = BilingualText_json]; simp add: m split: option.split)
  show "rd_str ''partnerServiceId'' fs = Some (ps_PartnerServiceID s)" "rd_str ''customerNo'' fs = Some (ps_CustomerNo s)"
    "rd_str ''virtualAccountNo'' fs = Some (ps_VirtualAccountNo s)" "rd_str ''virtualAccountName'' fs = Some (ps_VirtualAccountName s)"
    "rd_str ''paymentRequestId'' fs = Some (ps_PaymentRequestID s)" "rd_str ''paymentFlagStatus'' fs = Some (ps_PaymentFlagStatus s)"
    "rd_str ''referenceNo'' fs = Some (ps_ReferenceNo s)"
    by (simp_all add: rd_str_def m split: option.split)
  show "rd_opt Amount_read ''totalAmount'' fs = Some (ps_TotalAmount s)"
    by (cases "ps_TotalAmount s"; cases "ps_TrxDateTime s") (auto intro!: rd_fields(5) rd_fields(7) [where f = Amount_json] simp: m)
  show "storable s \<Longrightarrow> rd_opt time_read ''trxDateTime'' fs = Some (ps_TrxDateTime s)"
    by (cases "ps_TotalAmount s"; cases "ps_TrxDateTime s")
      (auto intro!: rd_fields(5) rd_fields(7) [where f = time_json] simp: m storable_def time_round_trip)
qed

text \<open>C34: The document in which a payment outcome is stored is read back as the outcome that was written, with all its fields
  present or absent as they were and the timestamp to the nanosecond, whether its empty lists were nil or not, and the
  empty document that stands for an outcome without data is read as blank data. The timestamp, if there is one, has a
  year of four digits and a zone of whole minutes and less than a day.\<close>

theorem payment_outcome_round_trip:
  assumes "storable s"
  shows "VAPaymentStatus_read (VAPaymentStatus_json nil s) = Some s \<and> VAPaymentStatus_read (JObj []) = Some zeroPaymentStatus"
proof
  obtain fs where fs: "VAPaymentStatus_json nil s = JObj fs" by (simp add: VAPaymentStatus_json_def)
  show "VAPaymentStatus_read (VAPaymentStatus_json nil s) = Some s"
    using status_fields [where s = s and nil = nil] assms by (simp add: VAPaymentStatus_read_def fs)
  show "VAPaymentStatus_read (JObj []) = Some zeroPaymentStatus"
    by (simp add: VAPaymentStatus_read_def rd_str_def rd_opt_def rd_list_def zeroPaymentStatus_def)
qed

section \<open>Shapes\<close>

text \<open>An answer of a service: an object without repeated keys, with a code, a message and an object of additional information,
  and possibly an object of data in which the given keys hold arrays.\<close>

definition text_at :: "field \<Rightarrow> string \<Rightarrow> bool" where "text_at fs k = (case map_of fs k of Some (JStr _) \<Rightarrow> True | _ \<Rightarrow> False)"
definition object_at :: "field \<Rightarrow> string \<Rightarrow> bool" where "object_at fs k = (case map_of fs k of Some (JObj _) \<Rightarrow> True | _ \<Rightarrow> False)"
definition array_at :: "field \<Rightarrow> string \<Rightarrow> bool" where "array_at fs k = (case map_of fs k of Some (JArr _) \<Rightarrow> True | _ \<Rightarrow> False)"

definition data_document :: "string list \<Rightarrow> string list \<Rightarrow> jval \<Rightarrow> bool" where
  "data_document texts arrays v = (case v of JObj fs \<Rightarrow> distinct (map fst fs) \<and> list_all (text_at fs) texts \<and> list_all (array_at fs) arrays
     | _ \<Rightarrow> False)"

definition service_document :: "string list \<Rightarrow> string list \<Rightarrow> jval \<Rightarrow> bool" where
  "service_document texts arrays v = (case v of
      JObj fs \<Rightarrow> distinct (map fst fs) \<and> text_at fs ''responseCode'' \<and> text_at fs ''responseMessage'' \<and> object_at fs ''additionalInfo'' \<and>
        (case map_of fs ''virtualAccountData'' of None \<Rightarrow> True | Some d \<Rightarrow> data_document texts arrays d)
    | _ \<Rightarrow> False)"

definition identity_texts :: "string list" where
  "identity_texts = [''partnerServiceId'', ''customerNo'', ''virtualAccountNo'']"

text \<open>The keys of a list of fields are distinct when each field adds a key of its own.\<close>

definition keyed :: "string list \<Rightarrow> field \<Rightarrow> bool" where
  "keyed ks g = (distinct (map fst g) \<and> fst ` set g \<subseteq> set ks)"

lemma keyed_field:
  assumes "keyed ks g" and "k \<notin> set ks"
  shows "keyed (k # ks) (js_str k s @ g)" "keyed (k # ks) (js_str0 k s @ g)" "keyed (k # ks) (js_info k m @ g)" "keyed (k # ks) (js_info0 k m0 @ g)"
    "keyed (k # ks) (js_opt f k v @ g)" "keyed (k # ks) (js_opt0 f k v @ g)" "keyed (k # ks) (js_list f k xs @ g)" "keyed (k # ks) (js_list0 f k xs0 @ g)"
  using assms by (auto simp: keyed_def js_defs split: option.split)

lemma keyed_last:
  "keyed [k] (js_str k s)" "keyed [k] (js_info k m)" "keyed [k] (js_info0 k m0)" "keyed [k] (js_list f k xs)"
  by (simp_all add: keyed_def js_defs)

lemma keyed_distinct: "\<exists>ks. keyed ks g \<Longrightarrow> distinct (map fst g)"
  by (auto simp: keyed_def)

lemma field_absent:
  "k \<noteq> j \<Longrightarrow> k \<notin> fst ` set (js_str j s)" "k \<noteq> j \<Longrightarrow> k \<notin> fst ` set (js_str0 j s)" "k \<noteq> j \<Longrightarrow> k \<notin> fst ` set (js_info j m)"
  "k \<noteq> j \<Longrightarrow> k \<notin> fst ` set (js_info0 j m0)" "k \<noteq> j \<Longrightarrow> k \<notin> fst ` set (js_opt f j v)" "k \<noteq> j \<Longrightarrow> k \<notin> fst ` set (js_opt0 f j v)"
  "k \<noteq> j \<Longrightarrow> k \<notin> fst ` set (js_list f j xs)" "k \<noteq> j \<Longrightarrow> k \<notin> fst ` set (js_list0 f j xs0)"
  by (auto simp: js_defs split: option.splits if_splits)

lemma field_skipped: "k \<notin> fst ` set f \<Longrightarrow> map_of (f @ g) k = map_of g k"
  by (induction f) auto

lemma field_found: "map_of (js_str k s @ g) k = Some (JStr s)" "map_of (js_info k (Some m) @ g) k = Some (JObj m)"
  "map_of (js_list f k (Some xs) @ g) k = Some (JArr (map f xs))" "map_of (js_info k (Some m)) k = Some (JObj m)"
  "map_of (js_list f k (Some xs)) k = Some (JArr (map f xs))"
  by (simp_all add: js_defs)

lemmas field_rules = field_absent field_skipped field_found

lemmas shape_defs = text_at_def object_at_def array_at_def data_document_def identity_texts_def

lemma inquiry_data_document: "data_document (''inquiryStatus'' # identity_texts) [''billDetails'', ''freeTexts''] (VAAccountData_json nil d)"
  unfolding VAAccountData_json_def data_document_def jval.case
  by (intro conjI keyed_distinct exI, (rule keyed_field keyed_last)+) (simp_all add: shape_defs field_rules del: map_of_append)

lemma payment_data_document: "data_document (''paymentFlagStatus'' # identity_texts) [''billDetails'', ''freeTexts''] (VAPaymentStatus_json nil d)"
  unfolding VAPaymentStatus_json_def data_document_def jval.case
  by (intro conjI keyed_distinct exI, (rule keyed_field keyed_last)+) (simp_all add: shape_defs field_rules del: map_of_append)

lemma status_data_document: "data_document (''paymentFlagStatus'' # identity_texts) [] (VAStatusData_json d)"
  unfolding VAStatusData_json_def data_document_def jval.case
  by (intro conjI keyed_distinct exI, (rule keyed_field keyed_last)+) (simp_all add: shape_defs field_rules del: map_of_append)

text \<open>C37: Whatever the use cases answer, and whichever of its lists and maps without elements are nil, the documents the bank
  receives have the shape of the services: no key is repeated, code and message are texts, the additional information
  is an object, never null, and a data block repeats the identity and its status as texts and, for inquiry and payment,
  has arrays of bills and free texts, never null; the request the reconciliation sends has its object of additional
  information too. None of these documents depends on which empty fields are nil.\<close>

theorem answers_have_their_shape:
  "service_document (''inquiryStatus'' # identity_texts) [''billDetails'', ''freeTexts''] (VAInquiryResponse_json nil i) \<and>
   service_document (''paymentFlagStatus'' # identity_texts) [''billDetails'', ''freeTexts''] (VAPaymentResponse_json nil p) \<and>
   service_document (''paymentFlagStatus'' # identity_texts) [] (VAStatusResponse_json nil s) \<and>
   (\<exists>fs. VAStatusRequest_json nil q = JObj fs \<and> object_at fs ''additionalInfo'') \<and>
   VAInquiryResponse_json nil i = VAInquiryResponse_json nil' i \<and> VAPaymentResponse_json nil p = VAPaymentResponse_json nil' p \<and>
   VAStatusResponse_json nil s = VAStatusResponse_json nil' s \<and> VAStatusRequest_json nil q = VAStatusRequest_json nil' q"
proof (intro conjI)
  note data = inquiry_data_document payment_data_document status_data_document
  show "service_document (''inquiryStatus'' # identity_texts) [''billDetails'', ''freeTexts''] (VAInquiryResponse_json nil i)"
    using data by (auto simp: service_document_def VAInquiryResponse_json_def js_defs text_at_def object_at_def split: option.split)
  show "service_document (''paymentFlagStatus'' # identity_texts) [''billDetails'', ''freeTexts''] (VAPaymentResponse_json nil p)"
    using data by (auto simp: service_document_def VAPaymentResponse_json_def js_defs text_at_def object_at_def split: option.split)
  show "service_document (''paymentFlagStatus'' # identity_texts) [] (VAStatusResponse_json nil s)"
    using data by (auto simp: service_document_def VAStatusResponse_json_def js_defs text_at_def object_at_def split: option.split)
  show "\<exists>fs. VAStatusRequest_json nil q = JObj fs \<and> object_at fs ''additionalInfo''"
    by (simp add: VAStatusRequest_json_def js_defs object_at_def)
  have "VAAccountData_json nil = VAAccountData_json nil'" "VAPaymentStatus_json nil = VAPaymentStatus_json nil'"
    by (simp_all add: fun_eq_iff VAAccountData_json_def VAPaymentStatus_json_def)
  then show "VAInquiryResponse_json nil i = VAInquiryResponse_json nil' i" "VAPaymentResponse_json nil p = VAPaymentResponse_json nil' p"
    by (simp_all add: VAInquiryResponse_json_def VAPaymentResponse_json_def)
  show "VAStatusResponse_json nil s = VAStatusResponse_json nil' s" "VAStatusRequest_json nil q = VAStatusRequest_json nil' q"
    by (simp_all add: VAStatusResponse_json_def VAStatusRequest_json_def)
qed

section \<open>An outcome to run it on\<close>

definition sample_outcome :: VAPaymentStatus where
  "sample_outcome = zeroPaymentStatus\<lparr>ps_VirtualAccountNo := ''12345678'', ps_PaidAmount := Some \<lparr>am_Value = ''250.00'', am_Currency = ''IDR''\<rparr>,
     ps_PaymentFlagStatus := ''00'', ps_TrxDateTime := Some \<lparr>tm_ns = 63900000000120000000, tm_off = 25200\<rparr>, ps_BillDetails := [\<lparr>rb_BillerReferenceID = ''r'', rb_BillNo = ''1'', rb_BillDescription = None, rb_BillSubCompany = [],
       rb_BillAmount = None, rb_AdditionalInfo = [], rb_Status = ''00'', rb_Reason = Some \<lparr>bt_English = ''Success'', bt_Indonesia = ''Sukses''\<rparr>\<rparr>]\<rparr>"

theorem payment_outcome_round_trip_witness:
  "VAPaymentStatus_read (VAPaymentStatus_json (\<lambda>_. True) sample_outcome) = Some sample_outcome \<and> ps_BillDetails sample_outcome \<noteq> [] \<and>
    ps_TrxDateTime sample_outcome = Some \<lparr>tm_ns = 63900000000120000000, tm_off = 25200\<rparr>"
proof -
  have "printable \<lparr>tm_ns = 63900000000120000000, tm_off = 25200\<rparr>"
    by (simp add: printable_def local_date_def local_seconds_def nanos_per_second_def civil_def year_yday_def month_lengths_def is_leap_def)
  then show ?thesis using payment_outcome_round_trip [of sample_outcome] by (simp add: storable_def sample_outcome_def zeroPaymentStatus_def)
qed

end
