(* ===== verification/RaceProps.thy ===== *)
theory RaceProps
  imports InstalmentProps
begin

text \<open>
  Two payments of one variable bill at the same time. The use case reads the bill, checks the ceiling against what it
  read, and then records the instalment in a call of its own. A request that read before another one recorded runs with
  the record of the earlier world, which is what the argument of \<^verbatim>\<open>payment_billed\<close> stands for.
\<close>

section \<open>Recording an instalment\<close>

text \<open>The instalment can be recorded: its identifier is new, and so is the generated key.\<close>

definition bookable :: "env \<Rightarrow> VAPaymentRequest \<Rightarrow> world \<Rightarrow> bool" where
  "bookable e req w = (numeric_env e \<and> no_faults e \<and> fresh_id e w \<notin> p_id ` set (w_payments w) \<and> pq_PaymentRequestID req \<noteq> [] \<and>
     Some (pq_PaymentRequestID req) \<notin> p_payment_request_id ` set (w_payments w))"

text \<open>The one row of the bill, with its total.\<close>

definition has_bill :: "string \<Rightarrow> nat \<Rightarrow> world \<Rightarrow> bool" where
  "has_bill tid tot w = (db_ok w \<and> (\<exists>t \<in> set (w_txns w). t_id t = tid \<and> t_total_amount t = Some (int tot)))"

lemma has_bill_only: "has_bill tid tot w \<Longrightarrow> t \<in> set (w_txns w) \<Longrightarrow> t_id t = tid \<Longrightarrow> t_total_amount t = Some (int tot)"
  by (auto simp: has_bill_def db_ok_def distinct_map dest: inj_onD)

lemma SaveVAPayment_books:
  assumes b: "bookable e req w" and h: "has_bill tid tot w" "tot < 10 ^ 15" and amt: "amountPattern amt"
    and s: "paid_sum tid w = int s" "s + amount_cents amt < 10 ^ 15"
  shows "\<exists>p st w'. SaveVAPayment e tid (pq_PaymentRequestID req) amt ref w = (Inr (p, st, True), w') \<and>
    paid_sum tid w' = int (s + amount_cents amt) \<and> has_bill tid tot w'"
proof -
  let ?prid = "pq_PaymentRequestID req"
  have num: "e_numeric e amt = Some (int (amount_cents amt))"
    using b numeric_env_read [OF _ amt] s(2) by (simp add: bookable_def)
  have mem: "tid \<in> t_id ` set (w_txns w)" using h(1) by (auto simp: has_bill_def)
  obtain w1 where i: "insert_instalment e tid ?prid amt ref w = (Inr True, w1)"
    using b num mem by (auto simp: insert_instalment_def bookable_def Let_def)
  have txns: "w_txns w1 = w_txns w" using insert_instalment_txns [of e tid ?prid amt ref w] i by simp
  have sum1: "paid_sum tid w1 = int (s + amount_cents amt)" using insert_instalment_sum(2) [OF i] num s(1) by auto
  obtain t where t: "find (\<lambda>t. t_id t = tid) (w_txns w) = Some t"
    using mem by (cases "find (\<lambda>t. t_id t = tid) (w_txns w)") (auto simp: find_None_iff)
  have total: "t_total_amount t = Some (int tot)" using has_bill_only [OF h(1)] find_Some_mem [OF t] by simp
  have "e_numeric e (sum_text tid w1) = Some (int (s + amount_cents amt))"
    using sum_text_read(1) [OF _ sum1 s(2)] b by (simp add: bookable_def)
  then obtain p st w' where save: "SaveVAPayment e tid ?prid amt ref w = (Inr (p, st, True), w')"
    using b i txns t total by (auto simp: SaveVAPayment_def save_va_payment_tx_def bookable_def no_faults_def Let_def)
  have "\<forall>t \<in> set (w_txns w). t_id t = tid \<longrightarrow> (\<exists>b < 10 ^ 15. t_total_amount t = Some (int b))"
    using has_bill_only [OF h(1)] h(2) by blast
  with SaveVAPayment_ledger [OF _ save _ amt s] b h(1) have "paid_sum tid w' = int (s + amount_cents amt)"
    by (auto simp: bookable_def has_bill_def)
  moreover have "has_bill tid tot w'"
  proof -
    from save obtain n v where w': "w' = update_txns (\<lambda>t. t_id t = tid) (\<lambda>t. t\<lparr>t_paid_amount := Some n, t_status := st, t_updated_at := e_now e\<rparr>) v"
        and v: "w_txns v = w_txns w"
      using insert_instalment_txns [of e tid ?prid amt ref w] by (elim SaveVAPayment_ok) simp
    let ?t = "t\<lparr>t_paid_amount := Some n, t_status := st, t_updated_at := e_now e\<rparr>"
    have "?t \<in> set (w_txns w')" using find_Some_mem [OF t] by (auto simp: w' v update_txns_def update_where_def intro: image_eqI [of _ _ t])
    then show ?thesis using total find_Some_mem [OF t] h(1) db_ok_SaveVAPayment [of w e tid ?prid amt ref] save
      by (auto simp: has_bill_def intro: bexI [of _ ?t])
  qed
  ultimately show ?thesis using save by blast
qed

lemma notified_has_bill: "has_bill tid tot w \<Longrightarrow> has_bill tid tot (notifyMerchantWithVA e req paid trx url w)"
  using notify_only_merchant(1) [of w e req paid trx url] evolves_db_ok [OF evolves_notify(1)]
  by (auto simp: has_bill_def notify_only_def)

lemma notified_sum: "paid_sum tid (notifyMerchantWithVA e req paid trx url w) = paid_sum tid w"
  using notify_only_merchant(1) [of w e req paid trx url] by (simp add: notify_only_def paid_sum_def instalments_of_def)

text \<open>The record a request works with: of the pending bill as another request found it as well.\<close>

definition read_record :: "env \<Rightarrow> VAAccount option \<Rightarrow> string \<Rightarrow> nat \<Rightarrow> nat \<Rightarrow> VAInquiryRecord \<Rightarrow> bool" where
  "read_record e account tid tot s r = (ri_ID r = tid \<and> ri_Status r = ''03'' \<and> \<not> record_isExpired e r \<and>
     paymentBilling account r = VATypeBillingVariable \<and> ri_TotalAmount r = e_scan e (int tot) \<and>
     (\<exists>x. ri_PaidAmount r = numeric_text0 x \<and> (x = None \<and> s = 0 \<or> x = Some (int s))))"

lemma instalment_accepted:
  assumes r: "read_record e account tid tot s r" and fits: "s + amount_cents (am_Value paid) \<le> tot" and tot: "tot < 10 ^ 15"
    and b: "bookable e req w" and h: "has_bill tid tot w" and amt: "amountPattern (am_Value paid)"
    and k: "paid_sum tid w = int k" "k + amount_cents (am_Value paid) < 10 ^ 15"
  shows "\<exists>resp w'. payment_billed e req paid account r w = (Inr resp, w') \<and> pr_ResponseCode resp = CodePaymentSuccess \<and>
    paid_sum tid w' = int (k + amount_cents (am_Value paid)) \<and> has_bill tid tot w'"
proof -
  obtain x where x: "ri_PaidAmount r = numeric_text0 x" "x = None \<and> s = 0 \<or> x = Some (int s)" using r by (auto simp: read_record_def)
  have "\<not> variableBillOverpayment paid r"
    using overpayment_iff [OF amt _ _ _ tot x, of e] r b fits tot by (auto simp: read_record_def bookable_def)
  moreover have "replayVariableInstalment e req paid r w = Inr None"
  proof -
    have "find (\<lambda>p. p_payment_request_id p = Some (pq_PaymentRequestID req)) (w_payments w) = None"
      using b by (force simp: bookable_def find_None_iff)
    then show ?thesis using b by (simp add: replayVariableInstalment_def FindVAInstalment_def bookable_def no_faults_def)
  qed
  moreover obtain p st w1 where "SaveVAPayment e tid (pq_PaymentRequestID req) (am_Value paid) (pq_ReferenceNo req) w = (Inr (p, st, True), w1)"
      "paid_sum tid w1 = int (k + amount_cents (am_Value paid))" "has_bill tid tot w1"
    using SaveVAPayment_books [OF b h tot amt k] by blast
  moreover have "IsPayable r" "\<not> record_isExpired e r" "paymentBilling account r = VATypeBillingVariable" "ri_ID r = tid"
    using r by (simp_all add: read_record_def IsPayable_def)
  ultimately show ?thesis
    by (simp add: payment_billed_def payment_variable_def notified_has_bill notified_sum) (simp add: instalment_response_def accepted_def Let_def)
qed

text \<open>C6: The ceiling of a variable bill does not hold for payments at the same time. When two requests have read the bill
  before either of them was recorded and each amount fits what was then left, both are accepted with 2002500 and both
  amounts are counted, also when together they exceed the bill.\<close>

theorem racing_instalments_exceed_the_bill:
  assumes "has_bill tid tot w" and "tot < 10 ^ 15" and "paid_sum tid w = int s"
    and "read_record e1 account tid tot s r1" and "read_record e2 account tid tot s r2"
    and "amountPattern (am_Value a)" and "amountPattern (am_Value b)"
    and "s + amount_cents (am_Value a) \<le> tot" and "s + amount_cents (am_Value b) \<le> tot"
    and "s + amount_cents (am_Value a) + amount_cents (am_Value b) < 10 ^ 15"
    and "bookable e1 req1 w" and "bookable e2 req2 (snd (payment_billed e1 req1 a account r1 w))"
  shows "\<exists>resp1 w1 resp2 w2. payment_billed e1 req1 a account r1 w = (Inr resp1, w1) \<and> payment_billed e2 req2 b account r2 w1 = (Inr resp2, w2) \<and>
    pr_ResponseCode resp1 = CodePaymentSuccess \<and> pr_ResponseCode resp2 = CodePaymentSuccess \<and>
    paid_sum tid w2 = int (s + amount_cents (am_Value a) + amount_cents (am_Value b))"
proof -
  obtain resp1 w1 where first: "payment_billed e1 req1 a account r1 w = (Inr resp1, w1)" "pr_ResponseCode resp1 = CodePaymentSuccess"
      "paid_sum tid w1 = int (s + amount_cents (am_Value a))" "has_bill tid tot w1"
    using instalment_accepted [OF assms(4,8,2,11,1,6,3)] assms(10) by auto
  obtain resp2 w2 where "payment_billed e2 req2 b account r2 w1 = (Inr resp2, w2)" "pr_ResponseCode resp2 = CodePaymentSuccess"
      "paid_sum tid w2 = int (s + amount_cents (am_Value a) + amount_cents (am_Value b))"
    using instalment_accepted [OF assms(5,9,2) _ first(4) assms(7) first(3), of req2] assms(10,12) first(1) by auto
  with first show ?thesis by blast
qed

section \<open>A settlement that comes late\<close>

text \<open>The record of a pending bill settled in one payment, as a request read it at some time.\<close>

definition read_single :: "env \<Rightarrow> VAAccount option \<Rightarrow> string \<Rightarrow> nat \<Rightarrow> VAInquiryRecord \<Rightarrow> bool" where
  "read_single e account key tot r = (ri_InquiryRequestID r = key \<and> key \<noteq> [] \<and> ri_Status r = ''03'' \<and> \<not> record_isExpired e r \<and>
     paymentBilling account r \<noteq> VATypeBillingVariable \<and> ri_TotalAmount r = e_scan e (int tot))"


section \<open>Two payments to run it on\<close>

definition variable_txn :: txn where "variable_txn = demo_txn\<lparr>t_va_type := Some ''02''\<rparr>"

definition rival_env :: env where "rival_env = demo_env\<lparr>e_uuid := (\<lambda>_. ''rival'')\<rparr>"

definition rival_request :: VAPaymentRequest where "rival_request = demo_request\<lparr>pq_PaymentRequestID := ''p2''\<rparr>"

lemma demo_read: "read_record demo_env None ''t1'' 25000 0 (record_of demo_env demo_variable variable_txn)"
  "read_record rival_env None ''t1'' 25000 0 (record_of rival_env demo_variable variable_txn)"
  by (simp_all add: read_record_def record_isExpired_def record_of_def scan_inquiry_def variable_txn_def demo_txn_def rival_env_def paymentBilling_def
      BillingForVAType_def) (auto intro: exI [of _ None])

lemma SaveVAPayment_new:
  "p \<in> set (w_payments (snd (SaveVAPayment e tid prid amt ref w))) \<Longrightarrow>
     p \<in> set (w_payments w) \<or> p_id p = fresh_id e w \<and> p_payment_request_id p = null_if_empty prid"
  by (auto simp: SaveVAPayment_def save_va_payment_tx_def insert_instalment_def guard_def update_txns_def next_uuid_def Let_def
      split: option.splits prod.splits sum.splits if_splits)

lemma payment_variable_new:
  "p \<in> set (w_payments (snd (payment_variable e req paid r w))) \<Longrightarrow>
     p \<in> set (w_payments w) \<or> p_id p = fresh_id e w \<and> p_payment_request_id p = null_if_empty (pq_PaymentRequestID req)"
  using SaveVAPayment_new [of p e "ri_ID r" "pq_PaymentRequestID req" "am_Value paid" "pq_ReferenceNo req" w] notify_only_merchant
  by (auto simp: payment_variable_def notify_only_def split: prod.splits sum.splits if_splits)

lemma payment_billed_new:
  assumes "read_record e account tid tot s r" and "p \<in> set (w_payments (snd (payment_billed e req paid account r w)))"
  shows "p \<in> set (w_payments w) \<or> p_id p = fresh_id e w \<and> p_payment_request_id p = null_if_empty (pq_PaymentRequestID req)"
  using assms payment_variable_new [of p e req paid r w]
  by (auto simp: payment_billed_def read_record_def IsPayable_def split: sum.splits option.splits)

text \<open>The second request can be recorded after the first when its two keys are its own.\<close>

lemma bookable_after:
  assumes "read_record e1 account tid tot s r" and "bookable e2 req2 w0" and "w_payments w0 = w_payments w"
    and "\<And>v. fresh_id e2 v = fresh_id e2 w0" and "fresh_id e2 w0 \<noteq> fresh_id e1 w"
    and "pq_PaymentRequestID req2 \<noteq> pq_PaymentRequestID req1"
  shows "bookable e2 req2 (snd (payment_billed e1 req1 paid account r w))"
proof -
  let ?w = "snd (payment_billed e1 req1 paid account r w)"
  have "p_id p \<noteq> fresh_id e2 w0 \<and> p_payment_request_id p \<noteq> Some (pq_PaymentRequestID req2)" if "p \<in> set (w_payments ?w)" for p
    using payment_billed_new [OF assms(1) that] assms(2,3,5,6) by (auto simp: bookable_def null_if_empty_def image_iff split: if_splits)
  then show ?thesis using assms(2) unfolding bookable_def assms(4) [of ?w] by (fastforce simp: image_iff)
qed

theorem racing_instalments_exceed_the_bill_witness:
  "\<exists>resp1 w1 resp2 w2. payment_billed demo_env demo_request demo_paid None (record_of demo_env demo_variable variable_txn) demo_variable = (Inr resp1, w1) \<and>
     payment_billed rival_env rival_request demo_paid None (record_of rival_env demo_variable variable_txn) w1 = (Inr resp2, w2) \<and>
     paid_sum ''t1'' w2 = 50000"
proof -
  have bill: "has_bill ''t1'' 25000 demo_variable" "paid_sum ''t1'' demo_variable = int 0"
    by (simp_all add: has_bill_def demo_variable_def fresh_world_def db_ok_def payment_ids_def demo_txn_def paid_sum_def instalments_of_def)
  have rival: "bookable rival_env rival_request demo_variable" and first: "bookable demo_env demo_request demo_variable"
    using demo_numeric_env
    by (simp_all add: bookable_def numeric_env_def no_faults_def rival_env_def rival_request_def demo_variable_def fresh_world_def demo_request_def)
  have second: "bookable rival_env rival_request
      (snd (payment_billed demo_env demo_request demo_paid None (record_of demo_env demo_variable variable_txn) demo_variable))"
    by (rule bookable_after [OF demo_read(1) rival])
      (simp_all add: fresh_id_def rival_env_def rival_request_def demo_request_def demo_variable_def fresh_world_def)
  show ?thesis
    using racing_instalments_exceed_the_bill [OF bill(1) _ bill(2) demo_read demo_paid_amount(1) demo_paid_amount(1) _ _ _ first second]
      demo_paid_amount(2) by simp blast
qed

lemma first_settlement:
  obtains resp w1 t1 where "Payment demo_env demo_request demo_paid demo_world = (Inr resp, w1)" "pr_ResponseCode resp = ''2002500''" "w_txns w1 = [t1]"
    "t_payment_request_id t1 = Some ''p1''" "t_status t1 = ''00''" "t_inquiry_request_id t1 = t_inquiry_request_id demo_txn" "w_payments w1 = []" "db_ok w1"
proof -
  obtain out w1 where p: "Payment demo_env demo_request demo_paid demo_world = (out, w1)" by fastforce
  have "list_all IsEmpty (pq_BillDetails demo_request)" by (simp add: demo_request_def)
  with settles_exactly [OF demo_reaches demo_amounts(1) _ p] demo_amounts(2)
  obtain resp t1 where "out = Inr resp" "pr_ResponseCode resp = ''2002500''" "settled_by demo_env demo_request 25000 demo_txn t1" "w_payments w1 = w_payments demo_world"
    "w_txns w1 = map (\<lambda>u. if t_id u = t_id demo_txn then t1 else u) (w_txns demo_world)" by auto
  moreover have "db_ok w1" using evolves_db_ok [OF evolves_Payment [of demo_world demo_env demo_request demo_paid]] demo_world_ok p by simp
  ultimately show thesis using p that by (simp add: settled_by_def demo_world_def fresh_world_def demo_request_def)
qed


end
