(* ===== verification/Startup.thy ===== *)
theory Startup
  imports Routes RequestLog
begin

text \<open>
  What the server settles when it starts, beside its routes: the zone of the day boundary (\<^verbatim>\<open>idempotency.go\<close>), the keys of
  the token issuer (\<^verbatim>\<open>jwt_issuer.go\<close>), the origins and headers browsers may use and the mirrored entries of the Swagger
  document (\<^verbatim>\<open>main.go\<close>); and two helpers of the outbound log, the fingerprint of a key and the redaction of a token answer.
  The zone database, the key formats and JSON are parameters.
\<close>

section \<open>The day boundary\<close>

definition defaultDayTimezone :: string where "defaultDayTimezone = ''Asia/Jakarta''"

text \<open>\<^verbatim>\<open>time.LoadLocation\<close> as the offset of a zone, nothing when it cannot be loaded.\<close>

definition DayTimezone :: "(string \<Rightarrow> int option) \<Rightarrow> string \<Rightarrow> int" where
  "DayTimezone load name0 = (let name = (if name0 = [] then defaultDayTimezone else name0) in
     case load name of Some loc \<Rightarrow> loc
     | None \<Rightarrow> (case (if name \<noteq> defaultDayTimezone then load defaultDayTimezone else None) of Some loc \<Rightarrow> loc | None \<Rightarrow> 7 * 60 * 60))"

section \<open>Keys\<close>

record JWTIssuer =
  ji_privateKey :: string
  ji_publicKey :: string

definition issuer_private_key :: "rsa_lib \<Rightarrow> string \<Rightarrow> string + string" where
  "issuer_private_key lib pem = (case rl_pem lib pem of
      None \<Rightarrow> Inl ''failed to parse private key PEM''
    | Some block \<Rightarrow> (case rl_pkcs1 lib block of Some k \<Rightarrow> Inr k
      | None \<Rightarrow> (case rl_pkcs8 lib block of
          Inl err \<Rightarrow> Inl ''failed to parse RSA private key''
        | Inr (OtherKey k) \<Rightarrow> Inl ''private key is not RSA''
        | Inr (RSAKey k) \<Rightarrow> Inr k)))"

definition NewJWTIssuerFromPEM :: "rsa_lib \<Rightarrow> string \<Rightarrow> string \<Rightarrow> string + JWTIssuer" where
  "NewJWTIssuerFromPEM lib privateKeyPEM publicKeyPEM = (case issuer_private_key lib privateKeyPEM of
      Inl err \<Rightarrow> Inl err
    | Inr privKey \<Rightarrow> (case rl_pem lib publicKeyPEM of
        None \<Rightarrow> Inl ''failed to parse public key PEM''
      | Some block \<Rightarrow> (case rl_pkix lib block of
          Inl err \<Rightarrow> Inl (''failed to parse public key: '' @ err)
        | Inr (OtherKey k) \<Rightarrow> Inl ''public key is not RSA''
        | Inr (RSAKey k) \<Rightarrow> Inr \<lparr>ji_privateKey = privKey, ji_publicKey = k\<rparr>)))"

text \<open>The public half of a key in PKIX form is a parameter.\<close>

definition PublicKeyFingerprint :: "crypto_env \<Rightarrow> rsa_lib \<Rightarrow> (string \<Rightarrow> string option) \<Rightarrow> string \<Rightarrow> string" where
  "PublicKeyFingerprint c lib marshalPublic rawPrivateKey = (case parseRSAPrivateKey lib rawPrivateKey of
      Inl err \<Rightarrow> ''unparseable''
    | Inr key \<Rightarrow> (case marshalPublic key of None \<Rightarrow> ''unmarshalable'' | Some der \<Rightarrow> hex_encode (take 8 (cr_sha256 c der))))"

section \<open>Browsers\<close>

definition defaultCORSHeaders :: "string list" where
  "defaultCORSHeaders = [''Origin'', ''Content-Type'', ''Accept'', ''Authorization'', ''Authorization-Customer'', ''X-TIMESTAMP'', ''X-SIGNATURE'',
     ''X-CLIENT-KEY'', ''X-PARTNER-ID'', ''X-EXTERNAL-ID'', ''CHANNEL-ID'', ''X-ORIGIN'', ''X-IP-ADDRESS'', ''X-DEVICE-ID'', ''X-LATITUDE'', ''X-LONGITUDE'',
     ''X-Admin-API-Key'']"

text \<open>The origins, methods and headers allowed, or nothing when cross-origin requests stay disabled.\<close>

definition cors :: "(string \<Rightarrow> string) \<Rightarrow> (string list \<times> string list \<times> string list) option" where
  "cors getenv = (let origins = splitAndTrim (getEnvOrDefault getenv ''CORS_ALLOWED_ORIGINS'' []);
      hdrs = splitAndTrim (getEnvOrDefault getenv ''CORS_ALLOWED_HEADERS'' (Join '','' defaultCORSHeaders)) in
    if origins \<noteq> [] then Some (origins, [''GET'', ''POST'', ''PUT'', ''DELETE'', ''OPTIONS''], hdrs) else None)"

section \<open>The Swagger document\<close>

text \<open>The \<^verbatim>\<open>paths\<close> object. The loop ranges over a map while adding to it; an added key is visited or not, which makes no
  difference as no target prefix begins with the mirrored one.\<close>

fun set_path :: "string \<Rightarrow> jval \<Rightarrow> (string \<times> jval) list \<Rightarrow> (string \<times> jval) list" where
  "set_path k v [] = [(k, v)]"
| "set_path k v ((k', v') # m) = (if k = k' then (k, v) # m else (k', v') # set_path k v m)"

definition mirror_path :: "string \<Rightarrow> string list \<Rightarrow> string \<times> jval \<Rightarrow> (string \<times> jval) list \<Rightarrow> (string \<times> jval) list" where
  "mirror_path from tos entry m = (case entry of (path, item) \<Rightarrow> if \<not> HasPrefix path from then m
     else fold (\<lambda>to. set_path (to @ TrimPrefix path from) item) tos m)"

definition mirrorSwaggerPaths :: "string \<Rightarrow> string list \<Rightarrow> jval \<Rightarrow> string + jval" where
  "mirrorSwaggerPaths from tos spec = (case spec of
      JObj fs \<Rightarrow> (case map_of fs ''paths'' of
          Some (JObj paths) \<Rightarrow> Inr (JObj (set_path ''paths'' (JObj (fold (mirror_path from tos) paths paths)) fs))
        | _ \<Rightarrow> Inl ''swagger doc has no paths object'')
    | _ \<Rightarrow> Inl ''unmarshal swagger doc'')"

section \<open>The log of a token answer\<close>

definition redactAccessToken :: "json_lib \<Rightarrow> string \<Rightarrow> string" where
  "redactAccessToken j body = (case jn_parse j body of
      Some (JObj fs) \<Rightarrow> (case jn_print j (JObj (if map_of fs ''accessToken'' \<noteq> None then set_path ''accessToken'' (JStr redacted) fs else fs)) of
          Some out \<Rightarrow> out | None \<Rightarrow> ''<unparseable token response>'')
    | Some jval.JNull \<Rightarrow> ''null''
    | _ \<Rightarrow> ''<unparseable token response>'')"

section \<open>What they settle\<close>

lemma DayTimezone_known: "name \<noteq> [] \<Longrightarrow> load name = Some off \<Longrightarrow> DayTimezone load name = off"
  by (simp add: DayTimezone_def)

lemma DayTimezone_fallback: "load name = None \<Longrightarrow> load defaultDayTimezone \<in> {None, Some 25200} \<Longrightarrow> DayTimezone load name = 25200"
  by (auto simp: DayTimezone_def Let_def)

lemma map_of_set_path: "map_of (set_path k v m) = (map_of m)(k \<mapsto> v)"
  by (induction k v m rule: set_path.induct) auto

text \<open>A token answer that differs only in the token leaves the same line.\<close>

lemma redacted_token_same:
  assumes "jn_parse j b = Some (JObj (set_path ''accessToken'' v fs))" and "jn_parse j b' = Some (JObj (set_path ''accessToken'' v' fs))"
  shows "redactAccessToken j b = redactAccessToken j b'"
proof -
  have "set_path k x (set_path k y fs) = set_path k x fs" for k x y fs by (induction k y fs rule: set_path.induct) auto
  then show ?thesis using assms by (simp add: redactAccessToken_def map_of_set_path)
qed

lemma mirror_one: "map_of (fold (\<lambda>to. set_path (to @ s) item) tos m) p = (if \<exists>to \<in> set tos. p = to @ s then Some item else map_of m p)"
  by (induction tos arbitrary: m) (auto simp: map_of_set_path)

text \<open>Every mirror of a documented path is documented.\<close>

lemma mirrored_documented:
  assumes "(from @ s, item) \<in> set entries" and "to \<in> set tos"
  shows "map_of (fold (mirror_path from tos) entries m) (to @ s) \<noteq> None"
proof -
  have keep: "map_of m p \<noteq> None \<Longrightarrow> map_of (mirror_path from tos e m) p \<noteq> None" for e m p
    by (cases e) (auto simp: mirror_path_def mirror_one)
  have keeps: "map_of m p \<noteq> None \<Longrightarrow> map_of (fold (mirror_path from tos) es m) p \<noteq> None" for es m p
    by (induction es arbitrary: m) (simp_all add: keep del: not_None_eq)
  have "map_of (mirror_path from tos (from @ s, item) m) (to @ s) \<noteq> None" for m
    using assms(2) by (auto simp: mirror_path_def TrimPrefix_def mirror_one)
  moreover obtain as bs where "entries = as @ (from @ s, item) # bs" using assms(1) by (auto dest: split_list)
  ultimately show ?thesis by (simp add: keeps del: not_None_eq)
qed

end
