(* ===== verification/Boot.thy ===== *)
theory Boot
  imports Startup Delivery
begin

text \<open>
  The start of the server, \<^verbatim>\<open>main\<close> of \<^verbatim>\<open>cmd/api/main.go\<close>: the connections it opens (\<^verbatim>\<open>database/postgres.go\<close>,
  \<^verbatim>\<open>redis/redis.go\<close>, \<^verbatim>\<open>queue/asynq.go\<close>, \<^verbatim>\<open>telemetry/otel.go\<close>), the keys it generates, what is fatal and what is only logged, and the
  components the use cases are given. The clients of PostgreSQL, Redis and the tracer are parameters that accept or refuse a
  configuration with an error text; so are the generation and the formats of keys, and how the listener of the HTTP server
  ends. Log lines are left out, and so is the shutdown of the process.
\<close>

section \<open>PostgreSQL\<close>

record db_config =
  dc_Host :: string
  dc_Port :: int
  dc_User :: string
  dc_Password :: string
  dc_DBName :: string
  dc_SSLMode :: string

record pool_config =
  pc_dsn :: string
  pc_MaxConns :: nat
  pc_MinConns :: nat
  pc_MaxConnLifetime :: int
  pc_MaxConnIdleTime :: int

record pg_lib =
  pg_ParseConfig :: "string \<Rightarrow> string option"
  pg_NewWithConfig :: "pool_config \<Rightarrow> string option"
  pg_Ping :: "pool_config \<Rightarrow> string option"

definition db_dsn :: "db_config \<Rightarrow> string" where
  "db_dsn cfg = (let sslMode = (if dc_SSLMode cfg = [] then ''disable'' else dc_SSLMode cfg) in
     ''postgres://'' @ dc_User cfg @ '':'' @ dc_Password cfg @ ''@'' @ dc_Host cfg @ '':'' @ Itoa (dc_Port cfg) @ ''/'' @ dc_DBName cfg @
     ''?sslmode='' @ sslMode)"

definition NewPostgresPool :: "pg_lib \<Rightarrow> db_config \<Rightarrow> string + pool_config" where
  "NewPostgresPool lib cfg = (case pg_ParseConfig lib (db_dsn cfg) of
      Some err \<Rightarrow> Inl (''failed to parse postgres dsn: '' @ err)
    | None \<Rightarrow> (let poolConfig = \<lparr>pc_dsn = db_dsn cfg, pc_MaxConns = 25, pc_MinConns = 5, pc_MaxConnLifetime = minutes 30, pc_MaxConnIdleTime = minutes 5\<rparr> in
        case pg_NewWithConfig lib poolConfig of
          Some err \<Rightarrow> Inl (''failed to create postgres pool: '' @ err)
        | None \<Rightarrow> (case pg_Ping lib poolConfig of
            Some err \<Rightarrow> Inl (''failed to ping postgres: '' @ err)
          | None \<Rightarrow> Inr poolConfig)))"

text \<open>The number \<^verbatim>\<open>strconv.Atoi\<close> returns beside an error that is dropped: 0 for what is not a number, the nearest 64-bit number for what
  is too large.\<close>

definition Atoi_value :: "string \<Rightarrow> int" where
  "Atoi_value s = (let ds = (if s \<noteq> [] \<and> (hd s = CHR ''-'' \<or> hd s = CHR ''+'') then tl s else s) in
     if ds = [] \<or> \<not> list_all is_digit ds then 0
     else if s \<noteq> [] \<and> hd s = CHR ''-'' then max (- (2 ^ 63)) (- int (num_of ds)) else min (2 ^ 63 - 1) (int (num_of ds)))"

text \<open>The settings of \<^verbatim>\<open>main\<close>.\<close>

definition dbConfig :: "(string \<Rightarrow> string) \<Rightarrow> db_config" where
  "dbConfig getenv = \<lparr>dc_Host = getEnvOrDefault getenv ''DB_HOST'' ''localhost'',
     dc_Port = Atoi_value (getEnvOrDefault getenv ''DB_PORT'' ''5432''),
     dc_User = getEnvOrDefault getenv ''DB_USER'' ''postgres'', dc_Password = getEnvOrDefault getenv ''DB_PASSWORD'' ''postgres'',
     dc_DBName = getEnvOrDefault getenv ''DB_NAME'' ''payment_gateway'', dc_SSLMode = getEnvOrDefault getenv ''DB_SSLMODE'' ''disable''\<rparr>"

section \<open>Redis and the queue\<close>

record redis_options =
  ro_Addr :: string
  ro_Username :: string
  ro_Password :: string
  ro_DB :: nat

definition NewRedisClient :: "(redis_options \<Rightarrow> int \<Rightarrow> string option) \<Rightarrow> string \<Rightarrow> string \<Rightarrow> string \<Rightarrow> nat \<Rightarrow> int \<Rightarrow> string + redis_options" where
  "NewRedisClient ping addr username password db connectTimeout = (
     let options = \<lparr>ro_Addr = addr, ro_Username = username, ro_Password = password, ro_DB = db\<rparr> in
     case ping options connectTimeout of Some err \<Rightarrow> Inl (''failed to ping redis: '' @ err) | None \<Rightarrow> Inr options)"

definition redis_of :: "(redis_options \<Rightarrow> int \<Rightarrow> string option) \<Rightarrow> (string \<Rightarrow> string) \<Rightarrow> string + redis_options" where
  "redis_of ping getenv = NewRedisClient ping (getEnvOrDefault getenv ''REDIS_ADDR'' ''localhost:6379'') (getEnvOrDefault getenv ''REDIS_USERNAME'' [])
     (getEnvOrDefault getenv ''REDIS_PASSWORD'' []) 0 (getEnvDurationSeconds getenv ''REDIS_CONNECT_TIMEOUT_SECONDS'' 1)"

text \<open>The client of the queue connects lazily, so its constructor always succeeds. The server takes three tasks of the
  callbacks for one of the rest.\<close>

definition NewQueueClient :: "redis_options \<Rightarrow> string + redis_options" where
  "NewQueueClient options = Inr options"

record queue_server =
  qs_redis :: redis_options
  qs_Concurrency :: nat
  qs_Queues :: "(string \<times> nat) list"

definition NewServer :: "redis_options \<Rightarrow> queue_server" where
  "NewServer options = \<lparr>qs_redis = options, qs_Concurrency = 10, qs_Queues = [(''notifications'', 3), (''default'', 1)]\<rparr>"

section \<open>Tracing\<close>

record otel_lib =
  ot_resource :: "string \<Rightarrow> string option"
  ot_exporter :: "string \<Rightarrow> string option"

record tracer =
  tr_serviceName :: string
  tr_exporter :: "string option"

text \<open>An exporter that cannot be built leaves a tracer without one.\<close>

definition InitTracer :: "otel_lib \<Rightarrow> string \<Rightarrow> string \<Rightarrow> string + tracer" where
  "InitTracer lib serviceName endpoint = (case ot_resource lib serviceName of
      Some err \<Rightarrow> Inl (''failed to create otel resource: '' @ err)
    | None \<Rightarrow> Inr \<lparr>tr_serviceName = serviceName,
        tr_exporter = (if endpoint \<noteq> [] \<and> ot_exporter lib endpoint = None then Some endpoint else None)\<rparr>)"

section \<open>The keys of the server\<close>

text \<open>A key pair is the text of its private half; \<^verbatim>\<open>kg_public\<close> is its public half.\<close>

record key_gen =
  kg_GenerateKey :: "string + string"
  kg_public :: "string \<Rightarrow> string"
  kg_MarshalPKCS1PrivateKey :: "string \<Rightarrow> string"
  kg_MarshalPKIXPublicKey :: "string \<Rightarrow> string + string"
  kg_EncodeToMemory :: "string \<Rightarrow> string \<Rightarrow> string"

definition generateDefaultRSAKeys :: "key_gen \<Rightarrow> string + (string \<times> string)" where
  "generateDefaultRSAKeys g = (case kg_GenerateKey g of
      Inl err \<Rightarrow> Inl err
    | Inr privateKey \<Rightarrow> (let privPEM = kg_EncodeToMemory g ''RSA PRIVATE KEY'' (kg_MarshalPKCS1PrivateKey g privateKey) in
        case kg_MarshalPKIXPublicKey g (kg_public g privateKey) of
          Inl err \<Rightarrow> Inl err
        | Inr pubBytes \<Rightarrow> Inr (privPEM, kg_EncodeToMemory g ''PUBLIC KEY'' pubBytes)))"

definition server_issuer :: "key_gen \<Rightarrow> rsa_lib \<Rightarrow> string + JWTIssuer" where
  "server_issuer g lib = (case generateDefaultRSAKeys g of
      Inl err \<Rightarrow> Inl (''Fatal: Failed to generate server RSA keys: '' @ err)
    | Inr (privPEM, pubPEM) \<Rightarrow> (case NewJWTIssuerFromPEM lib privPEM pubPEM of
        Inl err \<Rightarrow> Inl (''Fatal: JWT issuer setup failed: '' @ err)
      | Inr issuer \<Rightarrow> Inr issuer))"

section \<open>The components\<close>

text \<open>
  What a use case holds of a component: nothing (a nil interface, which the use cases test for), a nil pointer in an interface
  (not equal to nil, so the tests do not see it), or the component.
\<close>

datatype 'a component = NilInterface | NilPointer | Live 'a

definition is_nil :: "'a component \<Rightarrow> bool" where "is_nil h = (case h of NilInterface \<Rightarrow> True | _ \<Rightarrow> False)"

text \<open>A pointer passed as an interface as it is, and one passed after a test for nil.\<close>

definition as_is :: "'a option \<Rightarrow> 'a component" where
  "as_is p = (case p of None \<Rightarrow> NilPointer | Some x \<Rightarrow> Live x)"

definition tested :: "'a option \<Rightarrow> 'a component" where
  "tested p = (case p of None \<Rightarrow> NilInterface | Some x \<Rightarrow> Live x)"

record repository =
  rp_pool :: pool_config
  rp_locker :: "redis_options option"

definition NewVARepository :: "pool_config \<Rightarrow> repository" where
  "NewVARepository pool = \<lparr>rp_pool = pool, rp_locker = None\<rparr>"

definition NewVARepositoryWithLocker :: "pool_config \<Rightarrow> redis_options \<Rightarrow> repository" where
  "NewVARepositoryWithLocker pool locker = \<lparr>rp_pool = pool, rp_locker = Some locker\<rparr>"

definition clientRepo :: "pool_config option \<Rightarrow> pool_config option" where
  "clientRepo pgPool = pgPool"

definition vaRepo :: "pool_config option \<Rightarrow> redis_options \<Rightarrow> repository option" where
  "vaRepo pgPool redisClient = (case pgPool of None \<Rightarrow> None | Some pool \<Rightarrow> Some (NewVARepositoryWithLocker pool redisClient))"

text \<open>The provider of the rules is warmed once before it serves; a failure is only logged.\<close>

definition vaTypeRuleProvider :: "rules_env \<Rightarrow> pool_config option \<Rightarrow> rules_state \<Rightarrow> rules_state option" where
  "vaTypeRuleProvider re pgPool master = (case pgPool of None \<Rightarrow> None | Some _ \<Rightarrow> Some (snd (RefreshNow re master)))"

record system =
  sy_tracer :: "tracer option"
  sy_pool :: "pool_config option"
  sy_redis :: redis_options
  sy_issuer :: JWTIssuer
  sy_clientRepo :: "pool_config component"
  sy_vaRepo :: "repository component"
  sy_deliveryRepo :: "repository component"
  sy_notifier :: "redis_options component"
  sy_rules :: "rules_state component"
  sy_notificationSecret :: string
  sy_tasks :: "string list"
  sy_periodic :: "(string + periodic_task) option"
  sy_queue :: queue_server
  sy_deployment :: deployment
  sy_cors :: "(string list \<times> string list \<times> string list) option"
  sy_routes :: "route list"
  sy_swagger :: jval
  sy_port :: string

text \<open>How \<^verbatim>\<open>e.Start\<close> comes back: not at all while it serves, because the server was closed, or with another error.\<close>

datatype start_result = Serving | ErrServerClosed | StartError string

record boot_env =
  bt_otel :: otel_lib
  bt_pg :: pg_lib
  bt_redis :: "redis_options \<Rightarrow> int \<Rightarrow> string option"
  bt_keys :: key_gen
  bt_rsa :: rsa_lib
  bt_zones :: "string \<Rightarrow> int option"
  bt_rules :: rules_env
  bt_master :: rules_state
  bt_dir :: "string \<Rightarrow> dir_entry list option"
  bt_swagger :: jval
  bt_Start :: "string \<Rightarrow> start_result"

definition option_of :: "'e + 'a \<Rightarrow> 'a option" where
  "option_of r = (case r of Inl _ \<Rightarrow> None | Inr x \<Rightarrow> Some x)"

definition vendor_configs :: "boot_env \<Rightarrow> (string \<Rightarrow> string) \<Rightarrow> VendorConfig list" where
  "vendor_configs b getenv = (case LoadAll (bt_dir b (getEnvOrDefault getenv ''CONFIG_DIR'' ''.'')) getenv of None \<Rightarrow> [] | Some cfgs \<Rightarrow> cfgs)"

text \<open>The tasks the worker takes, and the periodic one: with a reconciler only.\<close>

definition worker_tasks :: "deployment \<Rightarrow> string list" where
  "worker_tasks d = TaskPaymentNotify # (if dp_reconciler d \<noteq> None then [TaskVAStatusReconcile] else [])"

definition swagger_doc :: "deployment \<Rightarrow> jval \<Rightarrow> jval" where
  "swagger_doc d spec = (case snapBasePaths d of
      from # to # tos \<Rightarrow> (case mirrorSwaggerPaths from (to # tos) spec of Inl _ \<Rightarrow> spec | Inr expanded \<Rightarrow> expanded)
    | _ \<Rightarrow> spec)"

text \<open>\<^verbatim>\<open>main\<close> up to the listener: the text it exits with, or the server as it is put together.\<close>

definition assemble :: "boot_env \<Rightarrow> (string \<Rightarrow> string) \<Rightarrow> string + system" where
  "assemble b getenv = (
     let pgPool = option_of (NewPostgresPool (bt_pg b) (dbConfig getenv)) in
     case redis_of (bt_redis b) getenv of
       Inl err \<Rightarrow> Inl (''Fatal: Redis connection required for Idempotency and Queue: '' @ err)
     | Inr redisClient \<Rightarrow> (case server_issuer (bt_keys b) (bt_rsa b) of
         Inl err \<Rightarrow> Inl err
       | Inr jwtIssuer \<Rightarrow>
          (let d = deployment_of getenv (DayTimezone (bt_zones b) (getenv ''IDEMPOTENCY_DAY_TIMEZONE'')) (vendor_configs b getenv) in
           Inr \<lparr>sy_tracer = option_of (InitTracer (bt_otel b) ''payment-integration-gateway'' (getEnvOrDefault getenv ''OTEL_EXPORTER_OTLP_ENDPOINT'' [])),
             sy_pool = pgPool, sy_redis = redisClient, sy_issuer = jwtIssuer,
             sy_clientRepo = as_is (clientRepo pgPool), sy_vaRepo = as_is (vaRepo pgPool redisClient),
             sy_deliveryRepo = tested (vaRepo pgPool redisClient),
             sy_notifier = tested (option_of (NewQueueClient redisClient)),
             sy_rules = tested (vaTypeRuleProvider (bt_rules b) pgPool (bt_master b)),
             sy_notificationSecret = getEnvOrDefault getenv ''NOTIFICATION_SECRET'' ''default-secret'',
             sy_tasks = worker_tasks d,
             sy_periodic = (if dp_reconciler d \<noteq> None then Some (startReconcileScheduler getenv) else None),
             sy_queue = NewServer redisClient, sy_deployment = d, sy_cors = cors getenv, sy_routes = registered d,
             sy_swagger = swagger_doc d (bt_swagger b), sy_port = getEnvOrDefault getenv ''PORT'' ''8080''\<rparr>)))"

text \<open>\<^verbatim>\<open>main\<close>: the text it exits with, or the server, serving or closed.\<close>

definition boot :: "boot_env \<Rightarrow> (string \<Rightarrow> string) \<Rightarrow> string + system" where
  "boot b getenv = (case assemble b getenv of
      Inl err \<Rightarrow> Inl err
    | Inr sys \<Rightarrow> (case bt_Start b ('':'' @ sy_port sys) of
        StartError err \<Rightarrow> Inl (''Server forced to shutdown: '' @ err)
      | _ \<Rightarrow> Inr sys))"

end
