(* ===== verification/BootProps.thy ===== *)
theory BootProps
  imports Boot
begin

text \<open>
  What the start of the server depends on: Redis, its own keys and its listener, and nothing else. Without a database it
  runs with repositories that are nil pointers.
\<close>

section \<open>The keys\<close>

text \<open>
  What the code relies on of the key formats: a PEM text decodes to its block, a PKCS1 block to the private key, a PKIX block to
  the RSA public key, and an RSA public key can be written as PKIX.
\<close>

definition key_formats :: "key_gen \<Rightarrow> rsa_lib \<Rightarrow> bool" where
  "key_formats g lib = ((\<forall>ty b. rl_pem lib (kg_EncodeToMemory g ty b) = Some b) \<and>
     (\<forall>k. rl_pkcs1 lib (kg_MarshalPKCS1PrivateKey g k) = Some k) \<and>
     (\<forall>k. \<exists>b. kg_MarshalPKIXPublicKey g k = Inr b \<and> rl_pkix lib b = Inr (RSAKey k)))"

text \<open>The issuer has the generated key and its public half.\<close>

lemma issuer_of_generated:
  assumes "key_formats g lib" and "kg_GenerateKey g = Inr k"
  shows "server_issuer g lib = Inr \<lparr>ji_privateKey = k, ji_publicKey = kg_public g k\<rparr>"
proof -
  obtain b where "kg_MarshalPKIXPublicKey g (kg_public g k) = Inr b" "rl_pkix lib b = Inr (RSAKey (kg_public g k))"
    using assms(1) unfolding key_formats_def by blast
  with assms show ?thesis
    by (simp add: server_issuer_def generateDefaultRSAKeys_def NewJWTIssuerFromPEM_def issuer_private_key_def key_formats_def)
qed

lemma issuer_needs_a_key: "kg_GenerateKey g = Inl err \<Longrightarrow> \<exists>msg. server_issuer g lib = Inl msg"
  by (simp add: server_issuer_def generateDefaultRSAKeys_def)

section \<open>The connections\<close>

definition redis_settings :: "(string \<Rightarrow> string) \<Rightarrow> redis_options" where
  "redis_settings getenv = \<lparr>ro_Addr = getEnvOrDefault getenv ''REDIS_ADDR'' ''localhost:6379'',
     ro_Username = getEnvOrDefault getenv ''REDIS_USERNAME'' [], ro_Password = getEnvOrDefault getenv ''REDIS_PASSWORD'' [], ro_DB = 0\<rparr>"

definition redis_answers :: "boot_env \<Rightarrow> (string \<Rightarrow> string) \<Rightarrow> bool" where
  "redis_answers b getenv = (bt_redis b (redis_settings getenv) (getEnvDurationSeconds getenv ''REDIS_CONNECT_TIMEOUT_SECONDS'' 1) = None)"

lemma redis_of_iff:
  "redis_answers b getenv \<Longrightarrow> redis_of (bt_redis b) getenv = Inr (redis_settings getenv)"
  "\<not> redis_answers b getenv \<Longrightarrow> \<exists>err. redis_of (bt_redis b) getenv = Inl err"
  by (auto simp: redis_of_def NewRedisClient_def redis_answers_def redis_settings_def Let_def)

text \<open>What every service of the running server is made of, apart from the pool.\<close>

lemma boot_running:
  assumes "assemble b getenv = Inr sys"
  shows "sy_pool sys = option_of (NewPostgresPool (bt_pg b) (dbConfig getenv))"
    and "sy_vaRepo sys = as_is (vaRepo (sy_pool sys) (sy_redis sys))" and "sy_clientRepo sys = as_is (sy_pool sys)"
    and "sy_deliveryRepo sys = tested (vaRepo (sy_pool sys) (sy_redis sys))" and "sy_notifier sys = Live (sy_redis sys)"
    and "is_nil (sy_rules sys) \<longleftrightarrow> sy_pool sys = None" and "sy_routes sys = registered (sy_deployment sys)"
proof -
  from assms obtain r j where up: "redis_of (bt_redis b) getenv = Inr r" "server_issuer (bt_keys b) (bt_rsa b) = Inr j"
    by (cases "redis_of (bt_redis b) getenv"; cases "server_issuer (bt_keys b) (bt_rsa b)") (simp_all add: assemble_def Let_def)
  note sys = assms [unfolded assemble_def Let_def up sum.case, simplified, symmetric]
  show "sy_pool sys = option_of (NewPostgresPool (bt_pg b) (dbConfig getenv))" "sy_vaRepo sys = as_is (vaRepo (sy_pool sys) (sy_redis sys))"
    "sy_clientRepo sys = as_is (sy_pool sys)" "sy_deliveryRepo sys = tested (vaRepo (sy_pool sys) (sy_redis sys))"
    "sy_routes sys = registered (sy_deployment sys)" by (simp_all add: sys clientRepo_def)
  show "sy_notifier sys = Live (sy_redis sys)" by (simp add: sys tested_def NewQueueClient_def option_of_def)
  show "is_nil (sy_rules sys) \<longleftrightarrow> sy_pool sys = None" by (simp add: sys is_nil_def tested_def vaTypeRuleProvider_def split: option.split)
qed

lemma repository_component:
  "as_is (vaRepo pool r) = (case pool of None \<Rightarrow> NilPointer | Some p \<Rightarrow> Live (NewVARepositoryWithLocker p r))"
  "\<not> is_nil (as_is (vaRepo pool r))" "is_nil (tested (vaRepo pool r)) \<longleftrightarrow> pool = None"
  by (auto simp: as_is_def tested_def is_nil_def vaRepo_def split: option.splits)

lemma as_is_component: "as_is None = NilPointer" "as_is (Some x) = Live x" "\<not> is_nil NilPointer" "\<not> is_nil (Live y)"
  by (simp_all add: as_is_def is_nil_def split: option.split)

section \<open>The start\<close>

definition listener_ok :: "boot_env \<Rightarrow> (string \<Rightarrow> string) \<Rightarrow> bool" where
  "listener_ok b getenv = (case bt_Start b ('':'' @ getEnvOrDefault getenv ''PORT'' ''8080'') of StartError err \<Rightarrow> False | _ \<Rightarrow> True)"

lemma assemble_iff:
  assumes "key_formats (bt_keys b) (bt_rsa b)"
  shows "redis_answers b getenv \<Longrightarrow> kg_GenerateKey (bt_keys b) = Inr k \<Longrightarrow>
      \<exists>sys. assemble b getenv = Inr sys \<and> sy_port sys = getEnvOrDefault getenv ''PORT'' ''8080'' \<and> sy_redis sys = redis_settings getenv \<and>
        sy_issuer sys = \<lparr>ji_privateKey = k, ji_publicKey = kg_public (bt_keys b) k\<rparr> \<and> TaskPaymentNotify \<in> set (sy_tasks sys)"
    and "\<not> redis_answers b getenv \<or> (\<exists>err. kg_GenerateKey (bt_keys b) = Inl err) \<Longrightarrow> \<exists>msg. assemble b getenv = Inl msg"
proof -
  assume "redis_answers b getenv" "kg_GenerateKey (bt_keys b) = Inr k"
  note up = redis_of_iff(1) [OF this(1)] issuer_of_generated [OF assms this(2)]
  then show "\<exists>sys. assemble b getenv = Inr sys \<and> sy_port sys = getEnvOrDefault getenv ''PORT'' ''8080'' \<and> sy_redis sys = redis_settings getenv \<and>
      sy_issuer sys = \<lparr>ji_privateKey = k, ji_publicKey = kg_public (bt_keys b) k\<rparr> \<and> TaskPaymentNotify \<in> set (sy_tasks sys)"
    by (simp add: assemble_def Let_def worker_tasks_def)
next
  assume "\<not> redis_answers b getenv \<or> (\<exists>err. kg_GenerateKey (bt_keys b) = Inl err)"
  then show "\<exists>msg. assemble b getenv = Inl msg"
    using redis_of_iff(2) [of b getenv] issuer_needs_a_key [of "bt_keys b" _ "bt_rsa b"]
    by (auto simp: assemble_def Let_def split: sum.splits)
qed

text \<open>C32: The server starts exactly when Redis answers, a key pair can be generated and the listener does not fail, whatever
  PostgreSQL, the tracer or the vendor files do; it then signs tokens with the generated key and checks them with its
  public half, and a task for every callback is taken. With PostgreSQL the use cases hold a repository over the pool.
  Without it the same routes are served, but what the use cases hold as repository of accounts and of clients is a nil
  pointer that is not equal to nil, so their tests for a missing repository do not see it, while the audit repository
  and the rules are properly absent.\<close>

theorem server_starts_with_redis_and_keys:
  assumes "key_formats (bt_keys b) (bt_rsa b)"
  shows "if redis_answers b getenv \<and> (\<exists>k. kg_GenerateKey (bt_keys b) = Inr k) \<and> listener_ok b getenv
    then (\<exists>sys k. boot b getenv = Inr sys \<and> kg_GenerateKey (bt_keys b) = Inr k \<and>
        sy_issuer sys = \<lparr>ji_privateKey = k, ji_publicKey = kg_public (bt_keys b) k\<rparr> \<and>
        TaskPaymentNotify \<in> set (sy_tasks sys) \<and> sy_routes sys = registered (sy_deployment sys) \<and>
        \<not> is_nil (sy_vaRepo sys) \<and> \<not> is_nil (sy_clientRepo sys) \<and>
        (case NewPostgresPool (bt_pg b) (dbConfig getenv) of
           Inr pool \<Rightarrow> sy_vaRepo sys = Live (NewVARepositoryWithLocker pool (redis_settings getenv)) \<and> sy_clientRepo sys = Live pool \<and>
             \<not> is_nil (sy_deliveryRepo sys) \<and> \<not> is_nil (sy_rules sys)
         | Inl err \<Rightarrow> sy_vaRepo sys = NilPointer \<and> sy_clientRepo sys = NilPointer \<and> is_nil (sy_deliveryRepo sys) \<and> is_nil (sy_rules sys)))
    else (\<exists>msg. boot b getenv = Inl msg)"
proof (cases "redis_answers b getenv \<and> (\<exists>k. kg_GenerateKey (bt_keys b) = Inr k)")
  case True
  then obtain k where k: "kg_GenerateKey (bt_keys b) = Inr k" by blast
  obtain sys where sys: "assemble b getenv = Inr sys" "sy_port sys = getEnvOrDefault getenv ''PORT'' ''8080''" "sy_redis sys = redis_settings getenv"
    "sy_issuer sys = \<lparr>ji_privateKey = k, ji_publicKey = kg_public (bt_keys b) k\<rparr>" "TaskPaymentNotify \<in> set (sy_tasks sys)"
    using assemble_iff(1) [OF assms conjunct1 [OF True] k] by blast
  show ?thesis
  proof (cases "listener_ok b getenv")
    case l: True
    then have "boot b getenv = Inr sys" using sys(1,2) by (auto simp: boot_def listener_ok_def split: start_result.splits)
    with True l k sys boot_running [OF sys(1)] show ?thesis
      by (auto simp: repository_component as_is_component option_of_def split: sum.splits)
  next
    case False
    then have "\<exists>msg. boot b getenv = Inl msg" using sys(1,2) by (auto simp: boot_def listener_ok_def split: start_result.splits)
    with False show ?thesis by simp
  qed
next
  case False
  then have "\<not> redis_answers b getenv \<or> (\<exists>err. kg_GenerateKey (bt_keys b) = Inl err)"
    by (cases "kg_GenerateKey (bt_keys b)") auto
  from assemble_iff(2) [OF assms this] have "\<exists>msg. boot b getenv = Inl msg" by (auto simp: boot_def)
  with False show ?thesis by auto
qed

section \<open>A start to run it on\<close>

text \<open>Keys and PEM texts are written with their type as a first byte; PostgreSQL refuses, Redis answers.\<close>

definition demo_keys :: key_gen where
  "demo_keys = \<lparr>kg_GenerateKey = Inr ''key'', kg_public = (\<lambda>k. ''pub-'' @ k), kg_MarshalPKCS1PrivateKey = (\<lambda>k. CHR ''1'' # k),
     kg_MarshalPKIXPublicKey = (\<lambda>k. Inr (CHR ''X'' # k)), kg_EncodeToMemory = (\<lambda>ty b. b)\<rparr>"

definition demo_formats :: rsa_lib where
  "demo_formats = \<lparr>rl_pem = Some, rl_pkix = (\<lambda>b. Inr (RSAKey (tl b))), rl_pkcs1 = (\<lambda>b. Some (tl b)), rl_pkcs8 = (\<lambda>b. Inl ''no''),
     rl_verify = (\<lambda>_ _ _. False), rl_sign = (\<lambda>_ _. Inl ''no'')\<rparr>"

definition demo_boot :: boot_env where
  "demo_boot = \<lparr>bt_otel = \<lparr>ot_resource = (\<lambda>_. None), ot_exporter = (\<lambda>_. None)\<rparr>,
     bt_pg = \<lparr>pg_ParseConfig = (\<lambda>_. None), pg_NewWithConfig = (\<lambda>_. None), pg_Ping = (\<lambda>_. Some ''refused'')\<rparr>,
     bt_redis = (\<lambda>_ _. None), bt_keys = demo_keys, bt_rsa = demo_formats, bt_zones = (\<lambda>_. None),
     bt_rules = \<lparr>re_fault = (\<lambda>_. None), re_rank = size\<rparr>,
     bt_master = \<lparr>rs_types = [], rs_partners = [], rs_cached_types = None, rs_cached_partners = None, rs_vaTypes = [], rs_partnerIDs = []\<rparr>,
     bt_dir = (\<lambda>_. None), bt_swagger = JObj [], bt_Start = (\<lambda>_. Serving)\<rparr>"

theorem server_starts_with_redis_and_keys_witness:
  "\<exists>sys. boot demo_boot (\<lambda>_. []) = Inr sys \<and> sy_issuer sys = \<lparr>ji_privateKey = ''key'', ji_publicKey = ''pub-key''\<rparr> \<and>
     sy_vaRepo sys = NilPointer \<and> \<not> is_nil (sy_vaRepo sys) \<and> is_nil (sy_deliveryRepo sys)"
proof -
  have "key_formats (bt_keys demo_boot) (bt_rsa demo_boot)" "redis_answers demo_boot (\<lambda>_. [])" "kg_GenerateKey (bt_keys demo_boot) = Inr ''key''"
    by (simp_all add: key_formats_def redis_answers_def demo_boot_def demo_keys_def demo_formats_def)
  moreover have "NewPostgresPool (bt_pg demo_boot) (dbConfig (\<lambda>_. [])) = Inl ''failed to ping postgres: refused''"
    by (simp add: NewPostgresPool_def demo_boot_def)
  moreover have "listener_ok demo_boot (\<lambda>_. [])" by (simp add: listener_ok_def demo_boot_def)
  moreover have "kg_public (bt_keys demo_boot) ''key'' = ''pub-key''" by (simp add: demo_boot_def demo_keys_def)
  ultimately show ?thesis
    using server_starts_with_redis_and_keys [of demo_boot "\<lambda>_. []"] by auto
qed

end
