(* ===== verification/Bind.thy ===== *)
theory Bind
  imports Routes "HOL-Library.AList"
begin

text \<open>
  From the body of a request to the structure its handler works on: what \<^verbatim>\<open>encoding/json\<close> does with the request structures of
  \<^verbatim>\<open>internal/domain\<close> and their tags. The fields of a document are taken in their order; a name is matched exactly first and
  then without regard to case, an unknown name is skipped, \<^verbatim>\<open>null\<close> leaves a text or a number as it is and
  clears a pointer, a list or a map, an object goes into the structure that is already there, and a value of another kind
  fails the whole document. A list that is named twice is the last one; the memory the decoder reuses then is not
  modelled. The parser of the text is a parameter, and the media type is JSON.
\<close>

section \<open>Structures\<close>

type_synonym 'r setter = "jval \<Rightarrow> 'r \<Rightarrow> 'r option"
type_synonym 'r shape = "(string \<times> 'r setter) list"

definition setter_of :: "'r shape \<Rightarrow> string \<Rightarrow> 'r setter option" where
  "setter_of sh k = (case map_of sh k of Some f \<Rightarrow> Some f | None \<Rightarrow> map_option snd (find (\<lambda>p. EqualFold (fst p) k) sh))"

fun fill :: "'r shape \<Rightarrow> (string \<times> jval) list \<Rightarrow> 'r \<Rightarrow> 'r option" where
  "fill sh [] r = Some r"
| "fill sh ((k, v) # fs) r = (case setter_of sh k of None \<Rightarrow> fill sh fs r
     | Some f \<Rightarrow> (case f v r of None \<Rightarrow> None | Some r1 \<Rightarrow> fill sh fs r1))"

text \<open>A structure by value: \<^verbatim>\<open>null\<close> leaves it as it is.\<close>

fun decode :: "'r shape \<Rightarrow> jval \<Rightarrow> 'r \<Rightarrow> 'r option" where
  "decode sh (JObj fs) r = fill sh fs r"
| "decode sh jval.JNull r = Some r"
| "decode sh _ r = None"

section \<open>Fields\<close>

definition set_str :: "((string \<Rightarrow> string) \<Rightarrow> 'r \<Rightarrow> 'r) \<Rightarrow> 'r setter" where
  "set_str upd v r = (case v of JStr s \<Rightarrow> Some (upd (\<lambda>_. s) r) | jval.JNull \<Rightarrow> Some r | _ \<Rightarrow> None)"

definition set_int :: "((int \<Rightarrow> int) \<Rightarrow> 'r \<Rightarrow> 'r) \<Rightarrow> 'r setter" where
  "set_int upd v r = (case v of JNum lit \<Rightarrow> map_option (\<lambda>n. upd (\<lambda>_. n) r) (go_Atoi lit) | jval.JNull \<Rightarrow> Some r | _ \<Rightarrow> None)"

definition set_time :: "((gtime option \<Rightarrow> gtime option) \<Rightarrow> 'r \<Rightarrow> 'r) \<Rightarrow> 'r setter" where
  "set_time upd v r = (case v of JStr s \<Rightarrow> map_option (\<lambda>t. upd (\<lambda>_. Some t) r) (ParseRFC3339 s) | jval.JNull \<Rightarrow> Some (upd (\<lambda>_. None) r) | _ \<Rightarrow> None)"

definition set_info :: "((info \<Rightarrow> info) \<Rightarrow> 'r \<Rightarrow> 'r) \<Rightarrow> 'r setter" where
  "set_info upd v r = (case v of JObj m \<Rightarrow> Some (upd (\<lambda>old. fold (\<lambda>(k, x). AList.update k x) m old) r) | jval.JNull \<Rightarrow> Some (upd (\<lambda>_. []) r) | _ \<Rightarrow> None)"

definition set_ptr :: "'s shape \<Rightarrow> 's \<Rightarrow> ('r \<Rightarrow> 's option) \<Rightarrow> (('s option \<Rightarrow> 's option) \<Rightarrow> 'r \<Rightarrow> 'r) \<Rightarrow> 'r setter" where
  "set_ptr sh zero get upd v r = (case v of jval.JNull \<Rightarrow> Some (upd (\<lambda>_. None) r)
     | _ \<Rightarrow> map_option (\<lambda>x. upd (\<lambda>_. Some x) r) (decode sh v (case get r of None \<Rightarrow> zero | Some x \<Rightarrow> x)))"

definition set_list :: "'s shape \<Rightarrow> 's \<Rightarrow> (('s list \<Rightarrow> 's list) \<Rightarrow> 'r \<Rightarrow> 'r) \<Rightarrow> 'r setter" where
  "set_list sh zero upd v r = (case v of JArr xs \<Rightarrow> map_option (\<lambda>ys. upd (\<lambda>_. ys) r) (those (map (\<lambda>x. decode sh x zero) xs))
     | jval.JNull \<Rightarrow> Some (upd (\<lambda>_. []) r) | _ \<Rightarrow> None)"

fun text_element :: "jval \<Rightarrow> string option" where
  "text_element (JStr s) = Some s"
| "text_element jval.JNull = Some []"
| "text_element _ = None"

definition set_strs :: "((string list \<Rightarrow> string list) \<Rightarrow> 'r \<Rightarrow> 'r) \<Rightarrow> 'r setter" where
  "set_strs upd v r = (case v of JArr xs \<Rightarrow> map_option (\<lambda>ys. upd (\<lambda>_. ys) r) (those (map text_element xs))
     | jval.JNull \<Rightarrow> Some (upd (\<lambda>_. []) r) | _ \<Rightarrow> None)"

section \<open>The request structures\<close>

definition zero_Amount :: Amount where
  "zero_Amount = \<lparr>am_Value = [], am_Currency = []\<rparr>"

definition Amount_shape :: "Amount shape" where
  "Amount_shape = [(''value'', set_str am_Value_update), (''currency'', set_str am_Currency_update)]"

definition zero_BilingualText :: BilingualText where
  "zero_BilingualText = \<lparr>bt_English = [], bt_Indonesia = []\<rparr>"

definition BilingualText_shape :: "BilingualText shape" where
  "BilingualText_shape = [(''english'', set_str bt_English_update), (''indonesia'', set_str bt_Indonesia_update)]"

definition zero_BillDetail :: BillDetail where
  "zero_BillDetail = \<lparr>bd_BillCode = [], bd_BillNo = [], bd_BillName = [], bd_BillShortName = [], bd_BillDescription = None, bd_BillSubCompany = [],
     bd_BillAmount = None, bd_BillAmountLabel = [], bd_BillAmountValue = [], bd_BillReferenceNo = [], bd_BillerReferenceID = [], bd_Status = [],
     bd_Reason = None, bd_AdditionalInfo = []\<rparr>"

definition BillDetail_shape :: "BillDetail shape" where
  "BillDetail_shape = [(''billCode'', set_str bd_BillCode_update), (''billNo'', set_str bd_BillNo_update), (''billName'', set_str bd_BillName_update),
     (''billShortName'', set_str bd_BillShortName_update),
     (''billDescription'', set_ptr BilingualText_shape zero_BilingualText bd_BillDescription bd_BillDescription_update),
     (''billSubCompany'', set_str bd_BillSubCompany_update),
     (''billAmount'', set_ptr Amount_shape zero_Amount bd_BillAmount bd_BillAmount_update),
     (''billAmountLabel'', set_str bd_BillAmountLabel_update), (''billAmountValue'', set_str bd_BillAmountValue_update),
     (''billReferenceNo'', set_str bd_BillReferenceNo_update), (''billerReferenceId'', set_str bd_BillerReferenceID_update),
     (''status'', set_str bd_Status_update), (''reason'', set_ptr BilingualText_shape zero_BilingualText bd_Reason bd_Reason_update),
     (''additionalInfo'', set_info bd_AdditionalInfo_update)]"

definition zero_VAPaymentBillDetail :: VAPaymentBillDetail where
  "zero_VAPaymentBillDetail = \<lparr>pb_BillCode = [], pb_BillNo = [], pb_BillName = [], pb_BillShortName = [], pb_BillDescription = None, pb_BillSubCompany = [],
     pb_BillAmount = None, pb_AdditionalInfo = [], pb_BillReferenceNo = [], pb_BillerReferenceID = [], pb_Status = [], pb_Reason = None\<rparr>"

definition VAPaymentBillDetail_shape :: "VAPaymentBillDetail shape" where
  "VAPaymentBillDetail_shape = [(''billCode'', set_str pb_BillCode_update), (''billNo'', set_str pb_BillNo_update), (''billName'', set_str pb_BillName_update),
     (''billShortName'', set_str pb_BillShortName_update),
     (''billDescription'', set_ptr BilingualText_shape zero_BilingualText pb_BillDescription pb_BillDescription_update),
     (''billSubCompany'', set_str pb_BillSubCompany_update),
     (''billAmount'', set_ptr Amount_shape zero_Amount pb_BillAmount pb_BillAmount_update),
     (''additionalInfo'', set_info pb_AdditionalInfo_update), (''billReferenceNo'', set_str pb_BillReferenceNo_update),
     (''billerReferenceId'', set_str pb_BillerReferenceID_update), (''status'', set_str pb_Status_update),
     (''reason'', set_ptr BilingualText_shape zero_BilingualText pb_Reason pb_Reason_update)]"

definition zero_VAInquiryRequest :: VAInquiryRequest where
  "zero_VAInquiryRequest = \<lparr>iq_PartnerServiceID = [], iq_CustomerNo = [], iq_VirtualAccountNo = [], iq_TrxDateInit = None, iq_Amount = None, iq_ChannelCode = 0,
     iq_Language = [], iq_HashedSourceAccountNo = [], iq_SourceBankCode = [], iq_InquiryRequestID = [], iq_AdditionalInfo = [], iq_PassApp = []\<rparr>"

definition VAInquiryRequest_shape :: "VAInquiryRequest shape" where
  "VAInquiryRequest_shape = [(''partnerServiceId'', set_str iq_PartnerServiceID_update), (''customerNo'', set_str iq_CustomerNo_update),
     (''virtualAccountNo'', set_str iq_VirtualAccountNo_update), (''trxDateInit'', set_time iq_TrxDateInit_update),
     (''amount'', set_ptr Amount_shape zero_Amount iq_Amount iq_Amount_update), (''channelCode'', set_int iq_ChannelCode_update),
     (''language'', set_str iq_Language_update), (''hashedSourceAccountNo'', set_str iq_HashedSourceAccountNo_update),
     (''sourceBankCode'', set_str iq_SourceBankCode_update), (''inquiryRequestId'', set_str iq_InquiryRequestID_update),
     (''additionalInfo'', set_info iq_AdditionalInfo_update), (''passApp'', set_str iq_PassApp_update)]"

definition zero_VAPaymentRequest :: VAPaymentRequest where
  "zero_VAPaymentRequest = \<lparr>pq_PartnerServiceID = [], pq_CustomerNo = [], pq_VirtualAccountNo = [], pq_InquiryRequestID = [], pq_TrxID = [], pq_PaymentRequestID = [],
     pq_VirtualAccountName = [], pq_VirtualAccountEmail = [], pq_VirtualAccountPhone = [], pq_ChannelCode = 0, pq_HashedSourceAccountNo = [],
     pq_SourceBankCode = [], pq_PaidAmount = None, pq_CumulativePaymentAmount = None, pq_PaidBills = [], pq_TotalAmount = None,
     pq_TrxDateTime = None, pq_ReferenceNo = [], pq_JournalNum = [], pq_PaymentType = [], pq_FlagAdvise = [], pq_SubCompany = [],
     pq_BillDetails = [], pq_FreeTexts = [], pq_AdditionalInfo = [], pq_ExternalID = []\<rparr>"

definition VAPaymentRequest_shape :: "VAPaymentRequest shape" where
  "VAPaymentRequest_shape = [(''partnerServiceId'', set_str pq_PartnerServiceID_update), (''customerNo'', set_str pq_CustomerNo_update),
     (''virtualAccountNo'', set_str pq_VirtualAccountNo_update), (''inquiryRequestId'', set_str pq_InquiryRequestID_update),
     (''trxId'', set_str pq_TrxID_update), (''paymentRequestId'', set_str pq_PaymentRequestID_update),
     (''virtualAccountName'', set_str pq_VirtualAccountName_update), (''virtualAccountEmail'', set_str pq_VirtualAccountEmail_update),
     (''virtualAccountPhone'', set_str pq_VirtualAccountPhone_update), (''channelCode'', set_int pq_ChannelCode_update),
     (''hashedSourceAccountNo'', set_str pq_HashedSourceAccountNo_update), (''sourceBankCode'', set_str pq_SourceBankCode_update),
     (''paidAmount'', set_ptr Amount_shape zero_Amount pq_PaidAmount pq_PaidAmount_update),
     (''cumulativePaymentAmount'', set_ptr Amount_shape zero_Amount pq_CumulativePaymentAmount pq_CumulativePaymentAmount_update),
     (''paidBills'', set_str pq_PaidBills_update), (''totalAmount'', set_ptr Amount_shape zero_Amount pq_TotalAmount pq_TotalAmount_update),
     (''trxDateTime'', set_time pq_TrxDateTime_update), (''referenceNo'', set_str pq_ReferenceNo_update),
     (''journalNum'', set_str pq_JournalNum_update), (''paymentType'', set_str pq_PaymentType_update),
     (''flagAdvise'', set_str pq_FlagAdvise_update), (''subCompany'', set_str pq_SubCompany_update),
     (''billDetails'', set_list VAPaymentBillDetail_shape zero_VAPaymentBillDetail pq_BillDetails_update),
     (''freeTexts'', set_list BilingualText_shape zero_BilingualText pq_FreeTexts_update),
     (''additionalInfo'', set_info pq_AdditionalInfo_update)]"

definition zero_VAStatusRequest :: VAStatusRequest where
  "zero_VAStatusRequest = \<lparr>sq_PartnerServiceID = [], sq_CustomerNo = [], sq_VirtualAccountNo = [], sq_InquiryRequestID = [], sq_PaymentRequestID = [],
     sq_AdditionalInfo = []\<rparr>"

definition VAStatusRequest_shape :: "VAStatusRequest shape" where
  "VAStatusRequest_shape = [(''partnerServiceId'', set_str sq_PartnerServiceID_update), (''customerNo'', set_str sq_CustomerNo_update),
     (''virtualAccountNo'', set_str sq_VirtualAccountNo_update), (''inquiryRequestId'', set_str sq_InquiryRequestID_update),
     (''paymentRequestId'', set_str sq_PaymentRequestID_update), (''additionalInfo'', set_info sq_AdditionalInfo_update)]"

definition zero_MerchantCreateVARequest :: MerchantCreateVARequest where
  "zero_MerchantCreateVARequest = \<lparr>cq_PartnerServiceID = [], cq_CustomerNo = [], cq_VirtualAccountNo = [], cq_VirtualAccountName = [], cq_VirtualAccountEmail = [],
     cq_VirtualAccountPhone = [], cq_TrxID = [], cq_TotalAmount = None, cq_BillDetails = [], cq_FreeTexts = [], cq_VirtualAccountTrxType = [],
     cq_FeeAmount = None, cq_ExpiredDate = None, cq_AdditionalInfo = []\<rparr>"

definition MerchantCreateVARequest_shape :: "MerchantCreateVARequest shape" where
  "MerchantCreateVARequest_shape = [(''partnerServiceId'', set_str cq_PartnerServiceID_update), (''customerNo'', set_str cq_CustomerNo_update),
     (''virtualAccountNo'', set_str cq_VirtualAccountNo_update), (''virtualAccountName'', set_str cq_VirtualAccountName_update),
     (''virtualAccountEmail'', set_str cq_VirtualAccountEmail_update), (''virtualAccountPhone'', set_str cq_VirtualAccountPhone_update),
     (''trxId'', set_str cq_TrxID_update), (''totalAmount'', set_ptr Amount_shape zero_Amount cq_TotalAmount cq_TotalAmount_update),
     (''billDetails'', set_list BillDetail_shape zero_BillDetail cq_BillDetails_update),
     (''freeTexts'', set_list BilingualText_shape zero_BilingualText cq_FreeTexts_update),
     (''virtualAccountTrxType'', set_str cq_VirtualAccountTrxType_update),
     (''feeAmount'', set_ptr Amount_shape zero_Amount cq_FeeAmount cq_FeeAmount_update), (''expiredDate'', set_time cq_ExpiredDate_update),
     (''additionalInfo'', set_info cq_AdditionalInfo_update)]"

definition zero_MerchantListVARequest :: MerchantListVARequest where
  "zero_MerchantListVARequest = \<lparr>lq_PartnerServiceID = [], lq_FromDate = None, lq_ToDate = None, lq_Status = [], lq_VirtualAccountNo = [], lq_Page = 0, lq_PageSize = 0\<rparr>"

definition MerchantListVARequest_shape :: "MerchantListVARequest shape" where
  "MerchantListVARequest_shape = [(''partnerServiceId'', set_str lq_PartnerServiceID_update), (''fromDate'', set_time lq_FromDate_update),
     (''toDate'', set_time lq_ToDate_update), (''status'', set_str lq_Status_update),
     (''virtualAccountNo'', set_str lq_VirtualAccountNo_update), (''page'', set_int lq_Page_update), (''pageSize'', set_int lq_PageSize_update)]"

definition zero_MerchantDeleteVARequest :: MerchantDeleteVARequest where
  "zero_MerchantDeleteVARequest = \<lparr>dq_PartnerServiceID = [], dq_CustomerNo = [], dq_VirtualAccountNo = [], dq_TrxID = [], dq_AdditionalInfo = []\<rparr>"

definition MerchantDeleteVARequest_shape :: "MerchantDeleteVARequest shape" where
  "MerchantDeleteVARequest_shape = [(''partnerServiceId'', set_str dq_PartnerServiceID_update), (''customerNo'', set_str dq_CustomerNo_update),
     (''virtualAccountNo'', set_str dq_VirtualAccountNo_update), (''trxId'', set_str dq_TrxID_update),
     (''additionalInfo'', set_info dq_AdditionalInfo_update)]"

definition zero_RegisterClientRequest :: RegisterClientRequest where
  "zero_RegisterClientRequest = \<lparr>rg_ClientID = [], rg_ClientName = [], rg_KeyID = [], rg_PublicKeyPEM = [], rg_Algorithm = []\<rparr>"

definition RegisterClientRequest_shape :: "RegisterClientRequest shape" where
  "RegisterClientRequest_shape = [(''clientId'', set_str rg_ClientID_update), (''clientName'', set_str rg_ClientName_update), (''keyId'', set_str rg_KeyID_update),
     (''publicKeyPem'', set_str rg_PublicKeyPEM_update), (''algorithm'', set_str rg_Algorithm_update)]"

definition zero_AddClientKeyRequest :: AddClientKeyRequest where
  "zero_AddClientKeyRequest = \<lparr>kq_KeyID = [], kq_PublicKeyPEM = [], kq_Algorithm = []\<rparr>"

definition AddClientKeyRequest_shape :: "AddClientKeyRequest shape" where
  "AddClientKeyRequest_shape = [(''keyId'', set_str kq_KeyID_update), (''publicKeyPem'', set_str kq_PublicKeyPEM_update), (''algorithm'', set_str kq_Algorithm_update)]"

definition zero_AddClientSecretRequest :: AddClientSecretRequest where
  "zero_AddClientSecretRequest = \<lparr>xq_SecretID = [], xq_SecretValue = []\<rparr>"

definition AddClientSecretRequest_shape :: "AddClientSecretRequest shape" where
  "AddClientSecretRequest_shape = [(''secretId'', set_str xq_SecretID_update), (''secretValue'', set_str xq_SecretValue_update)]"

definition zero_resendRangeRequest :: resendRangeRequest where
  "zero_resendRangeRequest = \<lparr>rg_StartTime = [], rg_EndTime = [], rg_VirtualAccountNo = [], rg_Status = []\<rparr>"

definition resendRangeRequest_shape :: "resendRangeRequest shape" where
  "resendRangeRequest_shape = [(''startTime'', set_str rg_StartTime_update), (''endTime'', set_str rg_EndTime_update),
     (''virtualAccountNo'', set_str rg_VirtualAccountNo_update), (''status'', set_strs rg_Status_update)]"

text \<open>The token request, of which the handler reads the grant type, and the structure the idempotency middleware reads.\<close>

definition SNAPTokenRequest_shape :: "(string \<times> info) shape" where
  "SNAPTokenRequest_shape = [(''grantType'', set_str apfst), (''additionalInfo'', set_info apsnd)]"

definition probe_shape :: "string shape" where
  "probe_shape = [(''paymentRequestId'', set_str (\<lambda>f. f))]"

section \<open>Bodies\<close>

text \<open>The framework does not look at an empty body, and reads the first value of the text; the middleware reads all of it.\<close>

record body_parser =
  bp_first :: "string \<Rightarrow> jval option"
  bp_whole :: "string \<Rightarrow> jval option"

definition bind_json :: "body_parser \<Rightarrow> 'r shape \<Rightarrow> 'r \<Rightarrow> string option \<Rightarrow> 'r option" where
  "bind_json p sh zero body = (case body of None \<Rightarrow> None | Some b \<Rightarrow> if b = [] then Some zero
     else (case bp_first p b of None \<Rightarrow> None | Some v \<Rightarrow> decode sh v zero))"

definition probe_json :: "body_parser \<Rightarrow> string option \<Rightarrow> string option" where
  "probe_json p body = (case body of None \<Rightarrow> None | Some b \<Rightarrow> (case bp_whole p b of None \<Rightarrow> None | Some v \<Rightarrow> decode probe_shape v []))"

definition json_binders :: "body_parser \<Rightarrow> binders" where
  "json_binders p = \<lparr>bn_inquiry = bind_json p VAInquiryRequest_shape zero_VAInquiryRequest,
     bn_payment = bind_json p VAPaymentRequest_shape zero_VAPaymentRequest,
     bn_status = bind_json p VAStatusRequest_shape zero_VAStatusRequest,
     bn_create = bind_json p MerchantCreateVARequest_shape zero_MerchantCreateVARequest,
     bn_list = bind_json p MerchantListVARequest_shape zero_MerchantListVARequest,
     bn_delete = bind_json p MerchantDeleteVARequest_shape zero_MerchantDeleteVARequest,
     bn_client = bind_json p RegisterClientRequest_shape zero_RegisterClientRequest,
     bn_key = bind_json p AddClientKeyRequest_shape zero_AddClientKeyRequest,
     bn_secret = bind_json p AddClientSecretRequest_shape zero_AddClientSecretRequest,
     bn_range = bind_json p resendRangeRequest_shape zero_resendRangeRequest,
     bn_grant = (\<lambda>body. map_option fst (bind_json p SNAPTokenRequest_shape ([], []) body)),
     bn_paymentRequestID = probe_json p\<rparr>"

end
