(* ===== verification/BindProps.thy ===== *)
theory BindProps
  imports Bind Wire RepoProps
begin

text \<open>
  What the handlers see of a document: names match by their letters alone, the identifier the idempotency middleware reads is
  the one the use case gets when the body is one JSON value, a list of blank bills is no list, and an outbound status request is read back.
\<close>

section \<open>Names\<close>

definition tags_ok :: "'r shape \<Rightarrow> bool" where
  "tags_ok sh = distinct (map fold_case (map fst sh))"

lemma setter_of_SomeD: "setter_of sh k = Some f \<Longrightarrow> \<exists>n. (n, f) \<in> set sh \<and> EqualFold n k"
proof (cases "map_of sh k")
  case None
  moreover assume "setter_of sh k = Some f"
  ultimately obtain p where "find (\<lambda>p. EqualFold (fst p) k) sh = Some p" "snd p = f" by (auto simp: setter_of_def)
  then show ?thesis by (metis find_Some_mem prod.collapse)
next
  case (Some g)
  moreover assume "setter_of sh k = Some f"
  ultimately show ?thesis by (auto simp: setter_of_def intro: exI [of _ k] dest: map_of_SomeD)
qed

lemma setter_of_tag:
  assumes "tags_ok sh" and "(n, f) \<in> set sh" and "EqualFold n k"
  shows "setter_of sh k = Some f"
proof (cases "setter_of sh k")
  case None
  then show ?thesis using assms(2,3) by (auto simp: setter_of_def find_None_iff split: option.splits)
next
  case (Some g)
  then obtain m where m: "(m, g) \<in> set sh" "EqualFold m k" using setter_of_SomeD by blast
  with assms have "fold_case m = fold_case n" by (simp add: EqualFold_def)
  moreover have inj: "inj_on (\<lambda>p. fold_case (fst p)) (set sh)" using assms(1) by (simp add: tags_ok_def distinct_map comp_inj_on_iff comp_def)
  ultimately have "(m, g) = (n, f)" using m(1) assms(2) inj_onD [OF inj, of "(m, g)" "(n, f)"] by simp
  with Some show ?thesis by simp
qed

lemma setter_of_other: "(\<And>n f. (n, f) \<in> set sh \<Longrightarrow> \<not> EqualFold n k) \<Longrightarrow> setter_of sh k = None"
  by (cases "setter_of sh k") (auto dest: setter_of_SomeD)

lemma fill_append: "fill sh (fs @ gs) r = (case fill sh fs r of None \<Rightarrow> None | Some r1 \<Rightarrow> fill sh gs r1)"
  by (induction sh fs r rule: fill.induct) (auto split: option.splits)

section \<open>Fields that keep out of each other's way\<close>

text \<open>A step on the structure that no field of a document touches can be taken before the document or after it.\<close>

lemma fill_commutes:
  assumes "\<And>k v r f. (k, v) \<in> set fs \<Longrightarrow> setter_of sh k = Some f \<Longrightarrow> f v (g r) = map_option g (f v r)"
  shows "fill sh fs (g r) = map_option g (fill sh fs r)"
  using assms
proof (induction fs arbitrary: r)
  case (Cons p fs)
  obtain k v where p: "p = (k, v)" by fastforce
  have IH: "fill sh fs (g r) = map_option g (fill sh fs r)" for r by (rule Cons.IH) (rule Cons.prems, simp_all)
  show ?case
  proof (cases "setter_of sh k")
    case None
    then show ?thesis using IH by (simp add: p)
  next
    case (Some f)
    then have "f v (g r) = map_option g (f v r)" using Cons.prems [of k v f r] by (simp add: p)
    then show ?thesis using IH Some by (cases "f v r") (simp_all add: p)
  qed
qed simp

lemma set_commutes:
  "(\<And>h r. upd h (g r) = g (upd h r)) \<Longrightarrow> set_str upd v (g r) = map_option g (set_str upd v r)"
  "(\<And>h r. updi h (g r) = g (updi h r)) \<Longrightarrow> set_int updi v (g r) = map_option g (set_int updi v r)"
  "(\<And>h r. updt h (g r) = g (updt h r)) \<Longrightarrow> set_time updt v (g r) = map_option g (set_time updt v r)"
  "(\<And>h r. updm h (g r) = g (updm h r)) \<Longrightarrow> set_info updm v (g r) = map_option g (set_info updm v r)"
  "(\<And>h r. updp h (g r) = g (updp h r)) \<Longrightarrow> get (g r) = get r \<Longrightarrow> set_ptr sh zero get updp v (g r) = map_option g (set_ptr sh zero get updp v r)"
  "(\<And>h r. updl h (g r) = g (updl h r)) \<Longrightarrow> set_list sl zl updl v (g r) = map_option g (set_list sl zl updl v r)"
  by (auto simp: set_str_def set_int_def set_time_def set_info_def set_ptr_def set_list_def option.map_comp comp_def split: jval.split)

section \<open>The payment document\<close>

lemma payment_tags: "tags_ok VAPaymentRequest_shape"
proof -
  have "map fst VAPaymentRequest_shape = [''partnerServiceId'', ''customerNo'', ''virtualAccountNo'', ''inquiryRequestId'', ''trxId'',
     ''paymentRequestId'', ''virtualAccountName'', ''virtualAccountEmail'', ''virtualAccountPhone'', ''channelCode'',
     ''hashedSourceAccountNo'', ''sourceBankCode'', ''paidAmount'', ''cumulativePaymentAmount'', ''paidBills'', ''totalAmount'',
     ''trxDateTime'', ''referenceNo'', ''journalNum'', ''paymentType'', ''flagAdvise'', ''subCompany'', ''billDetails'',
     ''freeTexts'', ''additionalInfo'']" by (simp add: VAPaymentRequest_shape_def)
  then show ?thesis by (simp add: tags_ok_def upper_byte_def)
qed

text \<open>Every field but one leaves that one alone.\<close>

lemma payment_setter_bills:
  "list_all (\<lambda>(n, f). n = ''billDetails'' \<or> (\<forall>v r. f v (r\<lparr>pq_BillDetails := bs\<rparr>) = map_option (\<lambda>r. r\<lparr>pq_BillDetails := bs\<rparr>) (f v r)))
     VAPaymentRequest_shape"
  unfolding VAPaymentRequest_shape_def by (simp add: set_commutes [where g = "\<lambda>r. r\<lparr>pq_BillDetails := bs\<rparr>"])

lemma payment_setter_id:
  "list_all (\<lambda>(n, f). n = ''paymentRequestId'' \<or>
     (\<forall>v r. f v (r\<lparr>pq_PaymentRequestID := i\<rparr>) = map_option (\<lambda>r. r\<lparr>pq_PaymentRequestID := i\<rparr>) (f v r))) VAPaymentRequest_shape"
  unfolding VAPaymentRequest_shape_def by (simp add: set_commutes [where g = "\<lambda>r. r\<lparr>pq_PaymentRequestID := i\<rparr>"])

section \<open>The identifier of a double flag\<close>

lemma payment_id_setter: "(''paymentRequestId'', set_str pq_PaymentRequestID_update) \<in> set VAPaymentRequest_shape"
  by (simp add: VAPaymentRequest_shape_def)

text \<open>Field by field, the structure the middleware reads follows the one the handler gets.\<close>

lemma probe_follows:
  assumes "fill VAPaymentRequest_shape fs r = Some r'"
  shows "fill probe_shape fs (pq_PaymentRequestID r) = Some (pq_PaymentRequestID r')"
  using assms
proof (induction fs arbitrary: r)
  case (Cons p fs)
  obtain k v where p: "p = (k, v)" by fastforce
  show ?case
  proof (cases "EqualFold ''paymentRequestId'' k")
    case True
    have "setter_of VAPaymentRequest_shape k = Some (set_str pq_PaymentRequestID_update)" "setter_of probe_shape k = Some (set_str (\<lambda>f. f))"
      using setter_of_tag [OF payment_tags payment_id_setter True] setter_of_tag [of probe_shape, OF _ _ True] by (simp_all add: tags_ok_def probe_shape_def)
    with Cons.prems Cons.IH [of r] Cons.IH [of "r\<lparr>pq_PaymentRequestID := x\<rparr>" for x] show ?thesis
      by (auto simp: p set_str_def split: option.splits jval.splits)
  next
    case False
    then have none: "setter_of probe_shape k = None" by (intro setter_of_other) (simp add: probe_shape_def)
    show ?thesis
    proof (cases "setter_of VAPaymentRequest_shape k")
      case None
      with none Cons show ?thesis by (simp add: p)
    next
      case (Some f)
      then obtain n where n: "(n, f) \<in> set VAPaymentRequest_shape" "EqualFold n k" using setter_of_SomeD by blast
      with False have ne: "n \<noteq> ''paymentRequestId''" by auto
      have c: "f v (r\<lparr>pq_PaymentRequestID := i\<rparr>) = map_option (\<lambda>x. x\<lparr>pq_PaymentRequestID := i\<rparr>) (f v r)" for i
        using payment_setter_id [of i] n(1) ne by (force simp: list_all_iff)
      obtain r1 where r1: "f v r = Some r1" "fill VAPaymentRequest_shape fs r1 = Some r'"
        using Cons.prems Some by (auto simp: p split: option.splits)
      with c [of "pq_PaymentRequestID r"] have same: "r1 = r1\<lparr>pq_PaymentRequestID := pq_PaymentRequestID r\<rparr>" by simp
      have "pq_PaymentRequestID r1 = pq_PaymentRequestID r" using arg_cong [OF same, of pq_PaymentRequestID] by simp
      with Cons.IH [OF r1(2)] none show ?thesis by (simp add: p)
    qed
  qed
qed simp

text \<open>
  \<^verbatim>\<open>json.Unmarshal\<close> accepts a text that is one JSON value with nothing but blanks after it; \<^verbatim>\<open>Decoder.Decode\<close> reads the first
  value and leaves what follows alone. So where both succeed they read the same value.
\<close>

definition reads_json :: "body_parser \<Rightarrow> bool" where
  "reads_json p = (\<forall>b v. bp_whole p b = Some v \<longrightarrow> bp_first p b = Some v)"

text \<open>C35: The paymentRequestId by which the idempotency middleware recognises a double flag is the one the payment service works
  with: when the body of a request is bound to a payment request, reading the body again for its identifier alone
  gives the same identifier, however the document spells, repeats or orders its fields, if the body is one JSON value;
  if something follows that value, the service still works on it and the middleware reads no identifier.\<close>

theorem double_flag_reads_the_bound_identifier:
  assumes "reads_json p" and "bn_payment (json_binders p) (Some b) = Some r" and "b \<noteq> []"
  shows "bn_paymentRequestID (json_binders p) (Some b) = (if bp_whole p b = None then None else Some (pq_PaymentRequestID r))"
proof (cases "bp_whole p b")
  case (Some v)
  then have "bp_first p b = Some v" using assms(1) by (simp add: reads_json_def)
  then have r: "decode VAPaymentRequest_shape v zero_VAPaymentRequest = Some r" using assms(2,3) by (simp add: json_binders_def bind_json_def)
  then have "decode probe_shape v [] = Some (pq_PaymentRequestID r)"
    using probe_follows [of _ zero_VAPaymentRequest r] by (cases v) (auto simp: zero_VAPaymentRequest_def)
  with Some show ?thesis by (simp add: json_binders_def probe_json_def)
qed (simp add: json_binders_def probe_json_def)

section \<open>Blank bills\<close>

definition blank_bill :: "jval \<Rightarrow> bool" where
  "blank_bill x = (case decode VAPaymentBillDetail_shape x zero_VAPaymentBillDetail of None \<Rightarrow> False | Some b \<Rightarrow> IsEmpty b)"

lemma blank_bills_read:
  "list_all blank_bill xs \<Longrightarrow> \<exists>bs. those (map (\<lambda>x. decode VAPaymentBillDetail_shape x zero_VAPaymentBillDetail) xs) = Some bs \<and> list_all IsEmpty bs"
  by (induction xs) (auto simp: blank_bill_def split: option.splits)

lemma fill_without_bills:
  assumes "\<forall>(k, v) \<in> set fs. \<not> EqualFold ''billDetails'' k"
  shows "fill VAPaymentRequest_shape fs (r\<lparr>pq_BillDetails := bs\<rparr>) = map_option (\<lambda>r. r\<lparr>pq_BillDetails := bs\<rparr>) (fill VAPaymentRequest_shape fs r)"
proof (rule fill_commutes)
  fix k v r f assume k: "(k, v) \<in> set fs" and f: "setter_of VAPaymentRequest_shape k = Some f"
  obtain n where n: "(n, f) \<in> set VAPaymentRequest_shape" "EqualFold n k" using f setter_of_SomeD by blast
  with assms k have "n \<noteq> ''billDetails''" by auto
  with n(1) payment_setter_bills [of bs] show "f v (r\<lparr>pq_BillDetails := bs\<rparr>) = map_option (\<lambda>r. r\<lparr>pq_BillDetails := bs\<rparr>) (f v r)"
    by (force simp: list_all_iff)
qed

lemma bill_setter: "setter_of VAPaymentRequest_shape ''billDetails'' = Some (set_list VAPaymentBillDetail_shape zero_VAPaymentBillDetail pq_BillDetails_update)"
  by (rule setter_of_tag [OF payment_tags, of "''billDetails''"]) (simp_all add: VAPaymentRequest_shape_def)

lemma normalized_blank: "list_all IsEmpty bs \<Longrightarrow> completed_request x (r\<lparr>pq_BillDetails := bs\<rparr>) = completed_request x (r\<lparr>pq_BillDetails := []\<rparr>)"
  by (simp add: completed_request_def NormalizeBillDetails_def Let_def list_all_iff filter_empty_conv)

text \<open>C36: A vendor that sends a list of blank bills has sent no bills: a payment whose document lists only nulls, empty objects or
  objects with hollow fields is answered, and changes the tables, exactly like the same document without the list.\<close>

theorem blank_bills_are_no_bills:
  assumes "bp_first p b = Some (JObj (fs @ (''billDetails'', JArr xs) # gs))" and "bp_first p b0 = Some (JObj (fs @ gs))"
    and "b \<noteq> []" and "b0 \<noteq> []" and "list_all blank_bill xs" and "\<forall>(k, v) \<in> set (fs @ gs). \<not> EqualFold ''billDetails'' k"
  shows "VAHandler_Payment e strict vendor ext (bn_payment (json_binders p) (Some b)) w =
    VAHandler_Payment e strict vendor ext (bn_payment (json_binders p) (Some b0)) w"
proof -
  let ?sh = VAPaymentRequest_shape and ?z = zero_VAPaymentRequest
  obtain bs where bs: "those (map (\<lambda>x. decode VAPaymentBillDetail_shape x zero_VAPaymentBillDetail) xs) = Some bs" "list_all IsEmpty bs"
    using blank_bills_read [OF assms(5)] by blast
  have z: "?z = ?z\<lparr>pq_BillDetails := []\<rparr>" by (simp add: zero_VAPaymentRequest_def)
  have fs: "fill ?sh fs ?z = map_option (\<lambda>r. r\<lparr>pq_BillDetails := []\<rparr>) (fill ?sh fs ?z)"
    using fill_without_bills [of fs "[]" ?z] assms(6) z by simp
  have gs: "fill ?sh gs (r\<lparr>pq_BillDetails := cs\<rparr>) = map_option (\<lambda>r. r\<lparr>pq_BillDetails := cs\<rparr>) (fill ?sh gs r)" for r cs
    using fill_without_bills [of gs cs r] assms(6) by simp
  have bound: "bn_payment (json_binders p) (Some b) = map_option (\<lambda>r. r\<lparr>pq_BillDetails := bs\<rparr>) (fill ?sh (fs @ gs) ?z)"
    using assms(1,3) bs(1) by (auto simp: json_binders_def bind_json_def fill_append bill_setter set_list_def gs split: option.split)
  have bound0: "bn_payment (json_binders p) (Some b0) = map_option (\<lambda>r. r\<lparr>pq_BillDetails := []\<rparr>) (fill ?sh (fs @ gs) ?z)"
  proof -
    have "fill ?sh (fs @ gs) ?z = map_option (\<lambda>r. r\<lparr>pq_BillDetails := []\<rparr>) (fill ?sh (fs @ gs) ?z)"
      using fill_without_bills [of "fs @ gs" "[]" ?z] assms(6) z by simp
    then show ?thesis using assms(2,4) by (simp add: json_binders_def bind_json_def)
  qed
  show ?thesis
    by (cases "fill ?sh (fs @ gs) ?z") (simp_all add: VAHandler_Payment_def bound bound0 normalized_blank [OF bs(2)])
qed

section \<open>The outbound status request\<close>

lemma fold_update_fresh:
  "distinct (map fst m) \<Longrightarrow> fst ` set m \<inter> fst ` set a = {} \<Longrightarrow> fold (\<lambda>(k, x). AList.update k x) m a = a @ m"
proof (induction m arbitrary: a)
  case (Cons p m)
  have "AList.update (fst p) (snd p) a = a @ [p]" if "fst p \<notin> fst ` set a" for a
    using that by (induction a) auto
  then show ?case using Cons by (cases p) (auto simp: case_prod_unfold)
qed simp

text \<open>The document the reconciliation sends is the request the status service of another server of this kind works on.\<close>

lemma status_request_is_read_back:
  assumes "distinct (map fst (sq_AdditionalInfo r))"
  shows "decode VAStatusRequest_shape (VAStatusRequest_json nil r) zero_VAStatusRequest = Some r"
  using fold_update_fresh [OF assms, of "[]"]
  by (simp add: VAStatusRequest_json_def js_defs slice_def if_nil_def VAStatusRequest_shape_def zero_VAStatusRequest_def setter_of_def set_str_def set_info_def)

section \<open>Documents to run them on\<close>

definition demo_document :: jval where
  "demo_document = JObj [(''PAYMENTREQUESTID'', JStr ''p0''), (''channelCode'', JNum ''6011''), (''paymentRequestId'', JStr ''p1''),
     (''paidAmount'', JObj [(''value'', JStr ''250.00''), (''currency'', JStr ''IDR'')]), (''paymentRequestId'', jval.JNull)]"

definition demo_parser :: body_parser where
  "demo_parser = \<lparr>bp_first = (\<lambda>b. Some demo_document), bp_whole = (\<lambda>b. if b = ''{}'' then Some demo_document else None)\<rparr>"

theorem double_flag_reads_the_bound_identifier_witness:
  "\<exists>r. bn_payment (json_binders demo_parser) (Some ''{}'') = Some r \<and> pq_PaymentRequestID r = ''p1'' \<and> pq_ChannelCode r = 6011 \<and>
     bn_paymentRequestID (json_binders demo_parser) (Some ''{}'') = Some ''p1'' \<and>
     bn_payment (json_binders demo_parser) (Some ''{} {}'') = Some r \<and> bn_paymentRequestID (json_binders demo_parser) (Some ''{} {}'') = None"
proof -
  have "setter_of VAPaymentRequest_shape ''PAYMENTREQUESTID'' = Some (set_str pq_PaymentRequestID_update)"
    by (rule setter_of_tag [OF payment_tags payment_id_setter]) (simp add: EqualFold_def upper_byte_def char_of_def bit_0)
  moreover have "setter_of VAPaymentRequest_shape ''paymentRequestId'' = Some (set_str pq_PaymentRequestID_update)"
    "setter_of VAPaymentRequest_shape ''channelCode'' = Some (set_int pq_ChannelCode_update)"
    "setter_of VAPaymentRequest_shape ''paidAmount'' = Some (set_ptr Amount_shape zero_Amount pq_PaidAmount pq_PaidAmount_update)"
    by (simp_all add: setter_of_def VAPaymentRequest_shape_def)
  moreover have "setter_of Amount_shape ''value'' = Some (set_str am_Value_update)" "setter_of Amount_shape ''currency'' = Some (set_str am_Currency_update)"
    by (simp_all add: setter_of_def Amount_shape_def)
  moreover have "go_Atoi ''6011'' = Some 6011" by (simp add: go_Atoi_def is_digit_def digit_val_def)
  ultimately have "case bn_payment (json_binders demo_parser) (Some ''{}'') of None \<Rightarrow> False | Some r \<Rightarrow> pq_PaymentRequestID r = ''p1'' \<and> pq_ChannelCode r = 6011"
    by (simp add: json_binders_def bind_json_def demo_parser_def demo_document_def set_str_def set_int_def set_ptr_def)
  then obtain r where "bn_payment (json_binders demo_parser) (Some ''{}'') = Some r" "pq_PaymentRequestID r = ''p1''" "pq_ChannelCode r = 6011"
    by (auto split: option.splits)
  moreover from this(1) have "bn_payment (json_binders demo_parser) (Some ''{} {}'') = Some r"
    by (simp add: json_binders_def bind_json_def demo_parser_def)
  moreover have "reads_json demo_parser" by (simp add: reads_json_def demo_parser_def)
  ultimately show ?thesis
    using double_flag_reads_the_bound_identifier [of demo_parser "''{}''" r] double_flag_reads_the_bound_identifier [of demo_parser "''{} {}''" r]
    by (simp add: demo_parser_def)
qed

definition blank_parser :: body_parser where
  "blank_parser = \<lparr>bp_first = (\<lambda>b. Some (JObj ((''paymentRequestId'', JStr ''p1'') #
       (if b = ''with'' then [(''billDetails'', JArr [jval.JNull, JObj [(''billAmount'', JObj [])]])] else []) @ [(''trxId'', JStr ''t1'')]))),
     bp_whole = (\<lambda>b. None)\<rparr>"

theorem blank_bills_are_no_bills_witness:
  "bp_first blank_parser ''with'' \<noteq> bp_first blank_parser ''without'' \<and>
   VAHandler_Payment demo_env False None ''x1'' (bn_payment (json_binders blank_parser) (Some ''with'')) demo_world =
   VAHandler_Payment demo_env False None ''x1'' (bn_payment (json_binders blank_parser) (Some ''without'')) demo_world"
proof -
  have "list_all blank_bill [jval.JNull, JObj [(''billAmount'', JObj [])]]"
    by (simp add: blank_bill_def VAPaymentBillDetail_shape_def zero_VAPaymentBillDetail_def zero_Amount_def setter_of_def set_ptr_def IsEmpty_def text_isBlank_def amount_isBlank_def)
  moreover have "\<not> EqualFold ''billDetails'' ''paymentRequestId''" "\<not> EqualFold ''billDetails'' ''trxId''" by (simp_all add: EqualFold_def upper_byte_def)
  ultimately show ?thesis
    using blank_bills_are_no_bills [of blank_parser "''with''" "[(''paymentRequestId'', JStr ''p1'')]" "[jval.JNull, JObj [(''billAmount'', JObj [])]]"
      "[(''trxId'', JStr ''t1'')]" "''without''" demo_env False None "''x1''" demo_world]
    by (simp add: blank_parser_def)
qed

end
