(* ===== verification/Support.thy ===== *)
theory Support
  imports MerchantHandler RequestLog Idempotency VaTypeRules
begin

text \<open>
  The small pieces beside the services: the log lines of refused inquiries and creations (\<^verbatim>\<open>handler/va_handler.go\<close>,
  \<^verbatim>\<open>handler/merchant_va_handler.go\<close>), the logger of the process (\<^verbatim>\<open>middleware/telemetry.go\<close>), the store of token sessions
  (\<^verbatim>\<open>redis/token_session_store.go\<close>) and the background refresh of the rules (\<^verbatim>\<open>cache/va_type_rule_provider.go\<close>).
\<close>

section \<open>Log lines of refusals\<close>

text \<open>The text of a wrapped error is a parameter.\<close>

definition DomainError_Error :: "(gerr \<Rightarrow> string) \<Rightarrow> DomainError \<Rightarrow> string" where
  "DomainError_Error errors e = ''['' @ de_SNAPCode e @ ''] '' @ de_Message e @
     (case de_Err e of None \<Rightarrow> [] | Some err \<Rightarrow> '': '' @ errors err)"

record refusal_line =
  rf_level :: log_level
  rf_event :: string
  rf_attrs :: "(string \<times> jval) list"

definition logInquiryFailure :: "(gerr \<Rightarrow> string) \<Rightarrow> VAInquiryRequest \<Rightarrow> DomainError \<Rightarrow> refusal_line" where
  "logInquiryFailure errors req err = (
     let attrs = [(''endpoint'', JStr ''inquiry''), (''virtualAccountNo'', JStr (iq_VirtualAccountNo req)),
           (''inquiryRequestId'', JStr (iq_InquiryRequestID req)), (''error'', JStr (DomainError_Error errors err)), (''responseCode'', JStr (de_SNAPCode err))] in
     if mapSNAPCodeToHTTP (de_SNAPCode err) < 500 then \<lparr>rf_level = LevelWarn, rf_event = ''va_inquiry_rejected'', rf_attrs = attrs\<rparr>
     else \<lparr>rf_level = LevelError, rf_event = ''va_inquiry_failed'', rf_attrs = attrs\<rparr>)"

definition logCreateVAFailure :: "string \<Rightarrow> int \<Rightarrow> MerchantCreateVARequest \<Rightarrow> string \<Rightarrow> string \<Rightarrow> refusal_line" where
  "logCreateVAFailure contentType contentLength req snapCode message = \<lparr>rf_level = LevelWarn, rf_event = ''create_va_rejected'',
     rf_attrs = [(''responseCode'', JStr snapCode), (''responseMessage'', JStr message), (''contentType'', JStr contentType),
       (''contentLength'', JNum (Itoa contentLength)), (''partnerServiceId'', JStr (cq_PartnerServiceID req)), (''customerNo'', JStr (cq_CustomerNo req)),
       (''virtualAccountNo'', JStr (cq_VirtualAccountNo req)), (''trxId'', JStr (cq_TrxID req)),
       (''hasTotalAmount'', JBool (cq_TotalAmount req \<noteq> None)), (''additionalInfo'', JObj (cq_AdditionalInfo req))]\<rparr>"

text \<open>The logger: its level and whether it writes plain text. A line below the level is dropped.\<close>

definition logger_of :: "(string \<Rightarrow> string) \<Rightarrow> log_level \<times> bool" where
  "logger_of getenv = (parseLogLevel (getenv ''LOG_LEVEL''), getenv ''LOG_FORMAT'' = ''text'')"

text \<open>A rejection is a warning, a failure of the server an error.\<close>

lemma inquiry_log_level:
  "rf_level (logInquiryFailure errors req err) = LevelError \<longleftrightarrow> 500 \<le> mapSNAPCodeToHTTP (de_SNAPCode err)"
  by (auto simp: logInquiryFailure_def Let_def)

text \<open>The cause of a failure, which the answer does not name, is in the line.\<close>

lemma inquiry_log_names_the_cause:
  "de_Err err = Some cause \<Longrightarrow> \<exists>s. (''error'', JStr (s @ errors cause)) \<in> set (rf_attrs (logInquiryFailure errors req err))"
  by (auto simp: logInquiryFailure_def DomainError_Error_def Let_def intro: exI [of _ "''['' @ de_SNAPCode err @ ''] '' @ de_Message err @ '': ''"])

section \<open>Token sessions\<close>

type_synonym session_store = "string \<Rightarrow> (string \<times> int option) option"

definition session_key :: "string \<Rightarrow> string" where "session_key jti = ''token:session:'' @ jti"

definition SaveTokenSession :: "redis_env \<Rightarrow> string \<Rightarrow> string \<Rightarrow> int \<Rightarrow> session_store \<Rightarrow> (gerr + unit) \<times> session_store" where
  "SaveTokenSession e jti clientID ttl st = (if rd_set_fails e then (Inl redis_error, st)
     else (Inr (), st(session_key jti := Some (clientID, expiry e ttl))))"

definition IsTokenActive :: "redis_env \<Rightarrow> string \<Rightarrow> session_store \<Rightarrow> gerr + bool" where
  "IsTokenActive e jti st = (if rd_get_fails e then Inl redis_error
     else Inr (case st (session_key jti) of None \<Rightarrow> False | Some (_, x) \<Rightarrow> alive (rd_now e) x))"

definition RevokeTokenSession :: "redis_env \<Rightarrow> string \<Rightarrow> session_store \<Rightarrow> (gerr + unit) \<times> session_store" where
  "RevokeTokenSession e jti st = (if rd_release_fails e then (Inl redis_error, st) else (Inr (), st(session_key jti := None)))"

lemma session_key_inj [simp]: "session_key a = session_key b \<longleftrightarrow> a = b"
  by (simp add: session_key_def)

text \<open>A registry whose entries come and go each by calls for its own key.\<close>

datatype 'k session_call = SaveCall redis_env 'k string int | RevokeCall redis_env 'k

fun saves :: "'k \<Rightarrow> 'k session_call \<Rightarrow> bool" where
  "saves k (SaveCall _ k' _ _) = (k' = k)"
| "saves k (RevokeCall _ _) = False"

locale session_registry =
  fixes run :: "'k session_call \<Rightarrow> 's \<Rightarrow> 's" and active :: "int \<Rightarrow> 'k \<Rightarrow> 's \<Rightarrow> bool"
  assumes save_other: "k' \<noteq> k \<Longrightarrow> active t k (run (SaveCall e k' c ttl) s) = active t k s"
    and revoke_other: "k' \<noteq> k \<Longrightarrow> active t k (run (RevokeCall e k') s) = active t k s"
    and revoke_same: "\<not> rd_release_fails e \<Longrightarrow> \<not> active t k (run (RevokeCall e k) s)"
    and revoke_never_activates: "active t k (run (RevokeCall e k) s) \<Longrightarrow> active t k s"
begin

text \<open>Without a new save of the token nothing makes it active.\<close>

lemma stays_inactive:
  "\<not> active t k s \<Longrightarrow> list_all (\<lambda>c. \<not> saves k c) cs \<Longrightarrow> \<not> active t k (fold run cs s)"
proof (induction cs arbitrary: s)
  case (Cons c cs)
  have "\<not> active t k (run c s)"
  proof (cases c)
    case (SaveCall e k' cl ttl)
    then show ?thesis using Cons.prems save_other [of k' k t e cl ttl s] by simp
  next
    case (RevokeCall e k')
    then show ?thesis using Cons.prems revoke_other [of k' k t e s] revoke_never_activates [of t k e s] by (cases "k' = k") auto
  qed
  then show ?case using Cons by simp
qed simp

lemma revoked_for_good:
  "\<not> rd_release_fails e \<Longrightarrow> list_all (\<lambda>c. \<not> saves k c) cs \<Longrightarrow> \<not> active t k (fold run cs (run (RevokeCall e k) s))"
  by (rule stays_inactive [OF revoke_same])

end

fun run_session :: "string session_call \<Rightarrow> session_store \<Rightarrow> session_store" where
  "run_session (SaveCall e jti c ttl) st = snd (SaveTokenSession e jti c ttl st)"
| "run_session (RevokeCall e jti) st = snd (RevokeTokenSession e jti st)"

definition session_active :: "int \<Rightarrow> string \<Rightarrow> session_store \<Rightarrow> bool" where
  "session_active now jti st = (IsTokenActive \<lparr>rd_now = now, rd_get_fails = False, rd_lock_fails = False, rd_set_fails = False, rd_release_fails = False\<rparr> jti st = Inr True)"

interpretation token_sessions: session_registry run_session session_active
  by unfold_locales (auto simp: session_active_def IsTokenActive_def SaveTokenSession_def RevokeTokenSession_def split: if_splits)

text \<open>A session lives until its time is over or it is revoked; once revoked it does not come back without a new save.\<close>

lemma saved_session_active:
  "\<not> rd_set_fails e \<Longrightarrow> session_active now jti (snd (SaveTokenSession e jti c ttl st)) \<longleftrightarrow> alive now (expiry e ttl)"
  by (simp add: session_active_def IsTokenActive_def SaveTokenSession_def)

lemmas revoked_session_stays_revoked = token_sessions.revoked_for_good

section \<open>The background refresh\<close>

text \<open>What reaches the loop of \<^verbatim>\<open>Start\<close>: a tick, with what the stores answer then, or the closed channel of \<^verbatim>\<open>Stop\<close>, which ends it.\<close>

datatype refresh_event = Tick rules_env | StopRefresh

fun background_refresh :: "refresh_event list \<Rightarrow> rules_state \<Rightarrow> rules_state" where
  "background_refresh [] s = s"
| "background_refresh (Tick e # es) s = background_refresh es (snd (RefreshNow e s))"
| "background_refresh (StopRefresh # es) s = s"

definition DefaultRefreshInterval :: int where "DefaultRefreshInterval = 5 * 60 * 1000000000"

text \<open>The loop only reads the tables.\<close>

lemma refresh_keeps_tables: "rs_types (background_refresh es s) = rs_types s" "rs_partners (background_refresh es s) = rs_partners s"
proof -
  have "rs_types (snd (RefreshNow e s)) = rs_types s \<and> rs_partners (snd (RefreshNow e s)) = rs_partners s" for e s
    by (auto simp: RefreshNow_def SetVATypes_def SetPartnerServiceIDs_def rguard_def split: sum.splits option.splits)
  then show "rs_types (background_refresh es s) = rs_types s" "rs_partners (background_refresh es s) = rs_partners s"
    by (induction es s rule: background_refresh.induct) simp_all
qed

lemma refresh_append: "StopRefresh \<notin> set es \<Longrightarrow> background_refresh (es @ fs) s = background_refresh fs (background_refresh es s)"
  by (induction es s rule: background_refresh.induct) simp_all

text \<open>However many refreshes failed before, the first tick that reads PostgreSQL brings the snapshot of the process up to date.\<close>

lemma tick_catches_up:
  assumes "StopRefresh \<notin> set es" and "re_fault e (OpListTypes 0) = None" and "re_fault e (OpListPartners 0) = None"
  shows "set (rs_vaTypes (background_refresh (es @ [Tick e]) s)) = set (rs_types s)"
  using refresh_keeps_tables [of es s] assms
  by (simp add: refresh_append RefreshNow_def ListVATypes_def ListPartnerServiceIDs_def SetVATypes_def SetPartnerServiceIDs_def rguard_def split: option.splits)

end
