(* ===== verification/Server.thy ===== *)
theory Server
  imports Routes RequestLogProps
begin

text \<open>
  The composed server: the telemetry middleware of \<^verbatim>\<open>main.go\<close> around the routes. A request as it arrives has its headers by
  name and a body that may break off; the routes see the headers one by one and the body that could be read. The answer of
  the framework to a path without a route is not modelled, its status is a parameter.
\<close>

definition request_of :: "inbound \<Rightarrow> http_request" where
  "request_of req = \<lparr>hr_Method = in_Method req, hr_Path = in_Path req, hr_Headers = concat (map (\<lambda>(n, vs). map (Pair n) vs) (in_Header req)),
     hr_Body = (case in_Body req of NoBody \<Rightarrow> Some [] | Reader bytes None \<Rightarrow> Some bytes | Reader bytes (Some err) \<Rightarrow> None)\<rparr>"

definition routed :: "router \<Rightarrow> deployment \<Rightarrow> app_env \<Rightarrow> int \<Rightarrow> inbound \<Rightarrow> idem_store \<times> app \<Rightarrow> (http_answer option \<times> int) \<times> (idem_store \<times> app)" where
  "routed router d x unmatched req s = (case serve router d x (request_of req) (fst s) (snd s) of
      None \<Rightarrow> ((None, unmatched), s)
    | Some (answer, st, a) \<Rightarrow> ((Some answer, int (fst answer)), (st, a)))"

definition server :: "router \<Rightarrow> deployment \<Rightarrow> app_env \<Rightarrow> int \<Rightarrow> telemetry_env \<Rightarrow> inbound \<Rightarrow> telemetry \<Rightarrow> idem_store \<times> app \<Rightarrow>
    (string \<times> http_answer option) \<times> telemetry \<times> (idem_store \<times> app)" where
  "server router d x unmatched te req ty s = TelemetryMiddleware te (routed router d x unmatched) req ty s"

section \<open>The log and the services\<close>

lemma delivered_complete:
  assumes "\<And>bytes err. in_Body req \<noteq> Reader bytes (Some err)"
  shows "delivered te req = req"
proof (cases "in_Body req")
  case (Reader bytes e)
  with assms have "in_Body req = Reader bytes None" by (cases e) auto
  then show ?thesis by (cases req) (simp add: delivered_def)
qed (simp add: delivered_def)

text \<open>What a caller gets and what changes does not depend on the log, for a body that arrives completely.\<close>

lemma server_answers_as_routed:
  assumes "\<And>bytes err. in_Body req \<noteq> Reader bytes (Some err)"
  shows "\<exists>cid ty'. server router d x unmatched te req ty s = ((cid, fst (fst (routed router d x unmatched req s))), ty', snd (routed router d x unmatched req s))"
proof -
  obtain cid r ty' s' where run: "server router d x unmatched te req ty s = ((cid, r), ty', s')" by (metis prod.collapse)
  with telemetry_is_transparent [where e = te and handler = "routed router d x unmatched" and req = req and ty = ty and w = s] obtain status where
    "routed router d x unmatched (delivered te req) s = ((r, status), s')" by (auto simp: server_def)
  with delivered_complete [OF assms, of te] run show ?thesis by auto
qed

lemma log_level_does_not_matter:
  assumes "\<And>bytes err. in_Body req \<noteq> Reader bytes (Some err)"
    and "server router d x unmatched te req ty s = ((cid, r), ty1, s1)" and "server router d x unmatched (te\<lparr>tv_level := l\<rparr>) req ty s = ((cid', r'), ty2, s2)"
  shows "r' = r" and "s2 = s1"
  using server_answers_as_routed [OF assms(1), of router d x unmatched te ty s]
    server_answers_as_routed [OF assms(1), of router d x unmatched "te\<lparr>tv_level := l\<rparr>" ty s] assms(2,3) by auto

text \<open>A body that breaks off is refused by the routes, unless the level is Debug: then its beginning is served as if it were
  all of it.\<close>

lemma broken_body_is_served_at_debug:
  assumes "in_Body req = Reader bytes (Some err)" and "tv_level te = LevelDebug"
  shows "\<exists>cid ty'. server router d x unmatched te req ty s =
    ((cid, fst (fst (routed router d x unmatched (req\<lparr>in_Body := Reader bytes None\<rparr>) s))), ty', snd (routed router d x unmatched (req\<lparr>in_Body := Reader bytes None\<rparr>) s))"
proof -
  obtain cid r ty' s' where run: "server router d x unmatched te req ty s = ((cid, r), ty', s')" by (metis prod.collapse)
  with telemetry_is_transparent [where e = te and handler = "routed router d x unmatched" and req = req and ty = ty and w = s] obtain status where
    "routed router d x unmatched (delivered te req) s = ((r, status), s')" by (auto simp: server_def)
  moreover have "delivered te req = req\<lparr>in_Body := Reader bytes None\<rparr>" using assms by (simp add: delivered_def)
  ultimately show ?thesis using run by auto
qed

end
