(* ===== verification/Spec2Isabelle.thy ===== *)
theory Spec2Isabelle
  imports EntryProps CreateProps ReconcileProps ResendProps HandlerProps TokenProps AuthProps GatewayProps RoutesProps
    RequestLogProps LockProps DeliveryProps WireProps RaceProps BootProps BindProps Support Server
begin

text \<open>
  A verification library of the virtual-account payment gateway \<^verbatim>\<open>backbone-new\<close>.

  \<^bold>\<open>The program.\<close> A bank (the vendor) calls three services over HTTP: inquiry (\<^verbatim>\<open>24\<close>), payment (\<^verbatim>\<open>25\<close>) and
  status (\<^verbatim>\<open>26\<close>). A merchant creates and deletes virtual account numbers and is told by callback when one is
  paid or expires. A request passes the middleware, is bound and validated by a handler, decided by a
  use case (\<^verbatim>\<open>internal/usecase\<close>) over a PostgreSQL repository (\<^verbatim>\<open>internal/infrastructure/database\<close>), and a
  payment or an expiry puts a callback into a task queue, from which a worker delivers it.

  \<^bold>\<open>Theories.\<close>
  \<^item> \<^verbatim>\<open>Prelude\<close>: Go strings as byte lists, the string functions the code uses, decimal numbers, tables as
    lists with \<^verbatim>\<open>update_where\<close> and \<^verbatim>\<open>count_where\<close>; the collections \<^verbatim>\<open>frame\<close>, \<^verbatim>\<open>repo\<close> and \<^verbatim>\<open>code_consts\<close>.
  \<^item> \<^verbatim>\<open>Money\<close>: binary64 values as rationals with round-to-nearest-even, \<^verbatim>\<open>strconv.ParseFloat\<close> on decimal texts, the
    amount patterns, and the exactness of every comparison the use cases make on amounts below \<open>10\<^sup>1\<^sup>3\<close>.
  \<^item> \<^verbatim>\<open>GoTime\<close>: instants with a zone offset, the civil calendar and the RFC 3339 text.
  \<^item> \<^verbatim>\<open>VaTypes\<close> (\<^verbatim>\<open>domain/va.go\<close>, \<^verbatim>\<open>domain/errors.go\<close>), \<^verbatim>\<open>SnapCodes\<close> (\<^verbatim>\<open>domain/snap_codes.go\<close>,
    \<^verbatim>\<open>domain/snap_response.go\<close>), \<^verbatim>\<open>Validation\<close> (\<^verbatim>\<open>domain/va_validation.go\<close>): the domain.
  \<^item> \<^verbatim>\<open>Database\<close>, \<^verbatim>\<open>TxnRepo\<close>, \<^verbatim>\<open>AuxRepo\<close> (\<^verbatim>\<open>database/va_repository.go\<close> over \<^verbatim>\<open>db/migrations\<close>): the tables and every
    operation that writes them, with the lookups the use cases call.
  \<^item> \<^verbatim>\<open>RepoFacts\<close>, \<^verbatim>\<open>Contracts\<close>, \<^verbatim>\<open>RepoProps\<close>: the keys and checks of the migrations as the predicate \<^verbatim>\<open>db_ok\<close>, which
    every operation keeps because each write is guarded as PostgreSQL guards it (a lemma the properties use); the contracts
    the use cases rely on, as locales interpreted on the operations (\<^verbatim>\<open>first_write_wins\<close> on recorded outcomes and
    on instalments, \<^verbatim>\<open>one_shot\<close> on closing a transaction and on leaving the active state, \<^verbatim>\<open>row_order\<close> on the
    queries that pick one row); the repository's properties and a concrete environment.
  \<^item> \<^verbatim>\<open>Notify\<close> (\<^verbatim>\<open>notification_dispatch.go\<close>, \<^verbatim>\<open>queue/asynq.go\<close>, \<^verbatim>\<open>worker/payment_notification_worker.go\<close>): callbacks.
  \<^item> \<^verbatim>\<open>VaUsecase\<close> (\<^verbatim>\<open>va_usecase.go\<close>): inquiry, payment and status, every helper in the order of the source.
  \<^item> \<^verbatim>\<open>UsecaseFacts\<close>, \<^verbatim>\<open>Traffic\<close>: which tables each step touches, and the relation \<^verbatim>\<open>evolves\<close>, all the ways the world
    can change between two requests, with what it keeps.
  \<^item> \<^verbatim>\<open>UsecaseProps\<close>, \<^verbatim>\<open>InquiryProps\<close>, \<^verbatim>\<open>InstalmentProps\<close>, \<^verbatim>\<open>RaceProps\<close>, \<^verbatim>\<open>CallbackProps\<close>, \<^verbatim>\<open>StatusProps\<close>, \<^verbatim>\<open>EntryProps\<close>:
    the properties of the vendor services, the callbacks and the validators.
  \<^item> \<^verbatim>\<open>VaTypeRules\<close> (\<^verbatim>\<open>va_type_rule_provider.go\<close>, \<^verbatim>\<open>master_data_repository.go\<close>, \<^verbatim>\<open>master_data_cache.go\<close>), \<^verbatim>\<open>RulesProps\<close>: the
    master data in three layers, PostgreSQL, Redis and the snapshot of the process; the contract of one cached
    table as the locale \<^verbatim>\<open>cached_table\<close>, interpreted on the VA types and on the partner service ids.
  \<^item> \<^verbatim>\<open>ListRepo\<close>, \<^verbatim>\<open>MerchantVa\<close> (\<^verbatim>\<open>merchant_va_usecase.go\<close>), \<^verbatim>\<open>MerchantProps\<close>, \<^verbatim>\<open>CreateProps\<close>: creation, listing and
    deletion of numbers by the merchant, and their composition with the vendor services.
  \<^item> \<^verbatim>\<open>Reconcile\<close> (\<^verbatim>\<open>reconciliation_usecase.go\<close>, \<^verbatim>\<open>reconcile_worker.go\<close>, \<^verbatim>\<open>admin_reconcile_handler.go\<close>), \<^verbatim>\<open>ReconcileProps\<close>:
    asking the vendor about stale bills; the contract \<^verbatim>\<open>one_shot\<close> again, interpreted on the reconciliations of a
    number.
  \<^item> \<^verbatim>\<open>SnapTime\<close> (\<^verbatim>\<open>domain/snap_time.go\<close>): parsing timestamps and their JSON form.
  \<^item> \<^verbatim>\<open>Resend\<close> (\<^verbatim>\<open>resend_callback_usecase.go\<close>, \<^verbatim>\<open>admin_resend_handler.go\<close>), \<^verbatim>\<open>ResendProps\<close>: repeating callbacks.
  \<^item> \<^verbatim>\<open>VaHandler\<close> (\<^verbatim>\<open>va_handler.go\<close>), \<^verbatim>\<open>HandlerProps\<close>: the vendor handlers around validation and use cases.
  \<^item> \<^verbatim>\<open>Idempotency\<close> (\<^verbatim>\<open>middleware/idempotency.go\<close>, \<^verbatim>\<open>redis/redis.go\<close>), \<^verbatim>\<open>IdemProps\<close>: one request through the middleware, its
    refinement of a set of spent identifiers, and concurrent requests as the step relation \<^verbatim>\<open>idem_step\<close>.
  \<^item> \<^verbatim>\<open>Crypto\<close> (\<^verbatim>\<open>crypto/hmac.go\<close>, \<^verbatim>\<open>rsa_verifier.go\<close>, \<^verbatim>\<open>rsa_signer.go\<close>), \<^verbatim>\<open>Clients\<close> (\<^verbatim>\<open>client_repository.go\<close>, \<^verbatim>\<open>client_usecase.go\<close>,
    \<^verbatim>\<open>client_handler.go\<close>), \<^verbatim>\<open>Tokens\<close> (\<^verbatim>\<open>jwt_issuer.go\<close>, \<^verbatim>\<open>token_usecase.go\<close>, \<^verbatim>\<open>signature_usecase.go\<close> and their handlers),
    \<^verbatim>\<open>VendorConfigs\<close> (\<^verbatim>\<open>vendor_config.go\<close>), \<^verbatim>\<open>TokenProps\<close>: credentials and who holds them.
  \<^item> \<^verbatim>\<open>Auth\<close> (\<^verbatim>\<open>snap_auth.go\<close>, \<^verbatim>\<open>symmetric_signature.go\<close>, \<^verbatim>\<open>merchant_auth.go\<close>, \<^verbatim>\<open>admin_auth.go\<close>), \<^verbatim>\<open>AuthProps\<close>: which requests
    reach a handler, and the authentication behind the idempotency middleware as the vendor routes have it.
  \<^item> \<^verbatim>\<open>Gateway\<close> (\<^verbatim>\<open>gateway/snap\<close>, \<^verbatim>\<open>reconcile_wiring.go\<close>), \<^verbatim>\<open>GatewayProps\<close>: the outbound client of a vendor, its tokens and
    what it logs, and the reconciler a deployment gets; and how an unauthenticated request spends an identifier.
  \<^item> \<^verbatim>\<open>MerchantHandler\<close> (\<^verbatim>\<open>merchant_va_handler.go\<close>), \<^verbatim>\<open>Routes\<close> (\<^verbatim>\<open>cmd/api/main.go\<close>), \<^verbatim>\<open>RoutesProps\<close>: the settings of the server, its
    table of routes, and one request through the middlewares of its route to its handler and the tables.
  \<^item> \<^verbatim>\<open>RequestLog\<close> (\<^verbatim>\<open>request_log.go\<close>, \<^verbatim>\<open>telemetry.go\<close>), \<^verbatim>\<open>RequestLogProps\<close>: what reaches the log and the counters.
  \<^item> \<^verbatim>\<open>LockWait\<close> (\<^verbatim>\<open>withLock\<close> of \<^verbatim>\<open>va_repository.go\<close>), \<^verbatim>\<open>LockProps\<close>: waiting for the distributed lock, and that it refines the
    lock the repository operations assume.
  \<^item> \<^verbatim>\<open>Delivery\<close> (\<^verbatim>\<open>queue/asynq.go\<close>, \<^verbatim>\<open>payment_notification_worker.go\<close>), \<^verbatim>\<open>DeliveryProps\<close>: the task of a callback, one run of it and
    the signed request; which runs the queue makes is left open.
  \<^item> \<^verbatim>\<open>Wire\<close> (\<^verbatim>\<open>domain/va.go\<close>), \<^verbatim>\<open>WireProps\<close>: the JSON documents of the services and of a stored outcome, for any choice of which
    of their empty lists and maps are nil.
  \<^item> \<^verbatim>\<open>Bind\<close> (\<^verbatim>\<open>domain/va.go\<close>, \<^verbatim>\<open>client.go\<close>, \<^verbatim>\<open>token.go\<close>), \<^verbatim>\<open>BindProps\<close>: from the document of a request to the structure its handler works on.
  \<^item> \<^verbatim>\<open>Startup\<close> (\<^verbatim>\<open>main.go\<close>, \<^verbatim>\<open>jwt_issuer.go\<close>, \<^verbatim>\<open>idempotency.go\<close>), \<^verbatim>\<open>Boot\<close> (\<^verbatim>\<open>main\<close>, \<^verbatim>\<open>postgres.go\<close>, \<^verbatim>\<open>redis.go\<close>, \<^verbatim>\<open>asynq.go\<close>,
    \<^verbatim>\<open>otel.go\<close>), \<^verbatim>\<open>BootProps\<close>: what the server settles when it starts, what is fatal up to the listener, and
    the components the use cases get.
  \<^item> \<^verbatim>\<open>Server\<close>: the telemetry middleware around the routes; the log level changes no answer for a body that arrives completely.
  \<^item> \<^verbatim>\<open>Support\<close>: the log lines of refusals, the logger, the token sessions and the background refresh of the rules.

  \<^bold>\<open>How state and effects correspond.\<close> A repository method is a function of an environment, its arguments and
  the world (all tables, the queue and the number of identifiers handed out), returning an error or a value,
  and the new world. A Go pointer the method fills in is returned. The environment holds the clock reading of
  the request, the generated identifiers, which statements fail and with which error (a failed statement has
  no effect), PostgreSQL's reading of an amount text, the driver's rendering of an amount, the order of rows
  that the ORDER BY of a query that lists rows does not tell apart (\<^verbatim>\<open>e_tie\<close>) and the queue's answer. Properties that need the database to answer say so (\<^verbatim>\<open>no_faults\<close>), properties that read amounts back
  name what they need of PostgreSQL and the driver (\<^verbatim>\<open>numeric_env\<close>: canonical amounts are read as their value and
  rendered as a text that parses back to it), and \<^verbatim>\<open>demo_env\<close> satisfies both.

  \<^bold>\<open>What is shown.\<close> An instalment is credited once and the row carries the sum; a recorded outcome, a credited
  instalment and a successful delivery are final; closing a transaction has one winner. A repeated payment request is answered
  from the first outcome and changes nothing. A single bill is settled exactly by its total; a variable bill
  is never overpaid by any sequence of requests, one after the other, under any failures; a payment without a bill adds its own row;
  unknown and closed numbers are refused with their codes and without effect. An inquiry settles nothing, and
  the payment it invites succeeds. The first expiry of a number is told and no later one, no task is queued without its audit row, and the
  worker records the merchant's answer. The validators accept exactly the well-formed requests, every
  rejection is complete, and amounts compare exactly. A bill a merchant creates can be inquired and paid, a
  static billed number is issued once unless it was registered for another pair before, a deletion closes the number,
  the pages of a listing partition it when no two rows have the same creation time, and the master data a write left in
  both tables survives outages of its stores up to the next write. A reconciliation follows the vendor's answer, a lost payment is
  recovered once, a sweep examines every stale bill; a bulk resend is bounded and repeats the original. The
  handlers validate first and answer with the status of their code. A vendor or merchant handler runs for exactly
  the requests that are signed, fresh and, where asked for, carry the client's token; a token goes to exactly
  the requests an active client signed; the newest secret is the one in force; settings files and timestamps
  read back as they were written. The idempotency middleware refines a set of spent identifiers: an identifier
  is spent for its calendar day, and no two requests of one identifier are handled at the same time when each
  finishes within the lifetime of its lock. Waiting for the lock of the repository ends. The client asks a vendor only with a token that is good for
  more than a minute and signs as the server's own check demands; a reconciler exists only for the chosen vendor with its
  credentials and settles only on a signed answer; the
  logged command is the request it stands for, and credentials stay out of the logs of both directions. Whoever calls
  the server, nothing changes without the administration key, a vendor's or a merchant's signature, and an authentic
  payment passes all layers and settles its bill. However often the queue runs the task of a callback, its row
  keeps the first success or the last failure, and its signature binds the body. The documents of the services keep their shape, and a stored outcome is
  read back as it was written; the middleware and the service read the same identifier from a body of one JSON
  value, and blank bills are no bills. The server starts exactly when Redis answers, its keys can be made and its
  listener does not fail. Several theorems state behaviour the code does not intend: two
  payments at the same time that together exceed a variable bill, a late payment that overwrites an earlier one or settles a
  deleted bill, a server that starts without a database with repositories that are nil pointers, a settlement that lists bills reports
  a failure, the status answer of a pending row, the publication of internal states, a refused creation that
  rewrites the registration, an old cache copy that hides a write, a recovered instalment the ledger forgets, a
  single resend that reports the total, a repeat that overtakes the record of its first answer, a
  re-billed number whose second expiry nobody is told, pages of a listing that repeat a row, an
  unauthenticated request that spends an identifier, a signature helper whose answer is refused for secrets
  that are base64, a server without vendors whose payment route is open to anyone, and a log that hands a truncated
  body to the handler.

  \<^bold>\<open>Bounds.\<close> Amounts are natural numbers of hundredths below \<open>10\<^sup>1\<^sup>5\<close>, thirteen integer digits, which is what the
  validators admit. No definition uses fuel: the loops of the source are structural recursion over lists, except the wait
  for the distributed lock, a partial function that is shown to end within sixty-two attempts under the default
  setting.

  \<^bold>\<open>What is not modelled.\<close> The text form of JSON, bodies of other media types, the router and the rest of the web framework
  (unmatched paths, recovery from panics, the answers to preflight requests), trace spans, the client libraries of
  PostgreSQL, Redis, the queue and the tracer, the shutdown of the process, and log lines other than the request logs of the
  two directions and the refusals of inquiries and creations. The generated Swagger document (\<^verbatim>\<open>docs/docs.go\<close>) is data. Parameters, about which nothing is assumed unless a theorem says so, are SHA-256, HMAC, RSA and
  key formats, JSON parsing, printing and compaction, JWT signing and checking, the network, the vendor's and the
  merchant's answers, the task queue, the router, the files of the configuration directory and the process
  environment. Timestamps are stored unrounded and the lengths
  of text columns are not enforced. A query that lists rows orders equal ones as the environment says; where a query picks
  one row among several equally good ones the first in table order is taken. How often and when the queue runs a task is
  not fixed. The records do not tell a nil list or map from an empty one; the documents take the choice as a parameter. What
  happens inside a repository that is a nil pointer is not modelled. A middleware reads the clock once
  per request. Concurrent requests are sequences of repository calls, each call atomic as its statement or database
  transaction is; the check and the insert of an instalment are two calls, so the bound on a variable bill is for
  requests in sequence. Only the accesses of the idempotency middleware are interleaved step by step.

  \<^bold>\<open>Next.\<close> The waiting for the repository lock inside the composed server.
\<close>

end
